(* ===== verification/Prelude.thy ===== *)
theory Prelude
  imports Main "HOL-Library.Word"
begin

text \<open>
  Shared vocabulary of the development: the types that stand for Go's scalar values, the
  two result monads every component is written in, the lemma collections of the library,
  and generic list lemmas.

  \<^item> \<open>('s, 'e, 'a) tx\<close> is a computation inside one database transaction: it either fails
    (and the transaction is rolled back, so no state is returned) or returns a value and
    the new state.
  \<^item> \<open>('s, 'e, 'a) op\<close> is a computation at the service level: a failure keeps whatever
    earlier transactions of the same call have already committed, so the state is
    returned in both cases.
\<close>

section \<open>Scalar types\<close>

text \<open>
  A \<open>uuid.UUID\<close> is a 16-byte array, read here as a 128-bit word; \<open>uuid.Nil\<close> is 0.
  A Go string is a sequence of bytes, which is what HOL's \<open>string\<close> is. A \<open>time.Time\<close> is
  an instant in nanoseconds and a \<open>time.Duration\<close> a number of nanoseconds.
\<close>

type_synonym uuid = "128 word"
type_synonym gotime = int
type_synonym duration = int

abbreviation uuid_nil :: uuid where "uuid_nil \<equiv> 0"

abbreviation second :: duration where "second \<equiv> 1000000000"
abbreviation minute :: duration where "minute \<equiv> 60 * second"
abbreviation hour :: duration where "hour \<equiv> 60 * minute"

section \<open>Lemma collections\<close>

named_theorems tx_inv \<open>inversion of a successful transaction body\<close>
named_theorems repo_defs \<open>definitions of repository statements\<close>
named_theorems row_simps \<open>how a statement changes the tables\<close>

section \<open>Transactions\<close>

type_synonym ('s, 'e, 'a) tx = "'s \<Rightarrow> 'e + ('a \<times> 's)"

definition tx_return :: "'a \<Rightarrow> ('s, 'e, 'a) tx" where
  "tx_return a = (\<lambda>s. Inr (a, s))"

definition tx_fail :: "'e \<Rightarrow> ('s, 'e, 'a) tx" where
  "tx_fail e = (\<lambda>s. Inl e)"

definition tx_bind :: "('s, 'e, 'a) tx \<Rightarrow> ('a \<Rightarrow> ('s, 'e, 'b) tx) \<Rightarrow> ('s, 'e, 'b) tx" where
  "tx_bind m f = (\<lambda>s. case m s of Inl e \<Rightarrow> Inl e | Inr r \<Rightarrow> f (fst r) (snd r))"

definition tx_query :: "('s \<Rightarrow> 'a) \<Rightarrow> ('s, 'e, 'a) tx" where
  "tx_query q = (\<lambda>s. Inr (q s, s))"

definition tx_map_err :: "('e \<Rightarrow> 'f) \<Rightarrow> ('s, 'e, 'a) tx \<Rightarrow> ('s, 'f, 'a) tx" where
  "tx_map_err g m = (\<lambda>s. case m s of Inl e \<Rightarrow> Inl (g e) | Inr r \<Rightarrow> Inr r)"

text \<open>\<open>if err := m(); err != nil { return h(err) }; k(...)\<close> inside a transaction.\<close>

definition tx_try :: "('s, 'e, 'a) tx \<Rightarrow> ('e \<Rightarrow> ('s, 'f, 'b) tx) \<Rightarrow> ('a \<Rightarrow> ('s, 'f, 'b) tx) \<Rightarrow> ('s, 'f, 'b) tx" where
  "tx_try m h k = (\<lambda>s. case m s of Inl e \<Rightarrow> h e s | Inr r \<Rightarrow> k (fst r) (snd r))"

lemma tx_try_Inr [tx_inv]: "tx_try m h k s = Inr r \<longleftrightarrow>
    (\<exists>e. m s = Inl e \<and> h e s = Inr r) \<or> (\<exists>a s'. m s = Inr (a, s') \<and> k a s' = Inr r)"
  by (auto simp: tx_try_def split: sum.splits)

lemma tx_return_Inr [simp, tx_inv]: "tx_return a s = Inr r \<longleftrightarrow> r = (a, s)"
  by (auto simp: tx_return_def)

lemma tx_return_Inl [simp]: "tx_return a s \<noteq> Inl e"
  by (simp add: tx_return_def)

lemma tx_fail_Inr [simp, tx_inv]: "tx_fail e s \<noteq> Inr r"
  by (simp add: tx_fail_def)

lemma tx_fail_Inl [simp]: "tx_fail e s = Inl f \<longleftrightarrow> f = e"
  by (auto simp: tx_fail_def)

lemma tx_query_Inr [simp, tx_inv]: "tx_query q s = Inr r \<longleftrightarrow> r = (q s, s)"
  by (auto simp: tx_query_def)

lemma tx_query_Inl [simp]: "tx_query q s \<noteq> Inl e"
  by (simp add: tx_query_def)

lemma tx_bind_Inr [tx_inv]:
  "tx_bind m f s = Inr r \<longleftrightarrow> (\<exists>a s'. m s = Inr (a, s') \<and> f a s' = Inr r)"
  by (auto simp: tx_bind_def split: sum.splits)

lemma tx_bind_Inl:
  "tx_bind m f s = Inl e \<longleftrightarrow> m s = Inl e \<or> (\<exists>a s'. m s = Inr (a, s') \<and> f a s' = Inl e)"
  by (auto simp: tx_bind_def split: sum.splits)

lemma tx_bind_step: "m s = Inr (a, s') \<Longrightarrow> tx_bind m f s = f a s'"
  by (simp add: tx_bind_def)

lemma tx_bind_stop: "m s = Inl e \<Longrightarrow> tx_bind m f s = Inl e"
  by (simp add: tx_bind_def)

lemma tx_map_err_Inr [simp, tx_inv]: "tx_map_err g m s = Inr r \<longleftrightarrow> m s = Inr r"
  by (auto simp: tx_map_err_def split: sum.splits)

text \<open>A computation that only reads returns the state it was given.\<close>

definition reads_only :: "('s, 'e, 'a) tx \<Rightarrow> bool" where
  "reads_only m \<longleftrightarrow> (\<forall>s a s'. m s = Inr (a, s') \<longrightarrow> s' = s)"

lemma reads_onlyD: "reads_only m \<Longrightarrow> m s = Inr (a, s') \<Longrightarrow> s' = s"
  by (auto simp: reads_only_def)

lemma reads_only_query [intro!, simp]: "reads_only (tx_query q)"
  by (simp add: reads_only_def)

lemma reads_only_return [intro!, simp]: "reads_only (tx_return a)"
  by (simp add: reads_only_def)

lemma reads_only_fail [intro!, simp]: "reads_only (tx_fail e)"
  by (simp add: reads_only_def)

lemma reads_only_bind [intro!]:
  "reads_only m \<Longrightarrow> (\<And>a. reads_only (f a)) \<Longrightarrow> reads_only (tx_bind m f)"
  unfolding reads_only_def by (auto simp: tx_bind_Inr) metis

section \<open>Service-level operations\<close>

type_synonym ('s, 'e, 'a) op = "'s \<Rightarrow> ('e + 'a) \<times> 's"

definition op_return :: "'a \<Rightarrow> ('s, 'e, 'a) op" where
  "op_return a = (\<lambda>s. (Inr a, s))"

definition op_fail :: "'e \<Rightarrow> ('s, 'e, 'a) op" where
  "op_fail e = (\<lambda>s. (Inl e, s))"

text \<open>
  \<open>op_try m h k\<close> is the Go idiom \<open>x, err := m(); if err != nil { return h(err) }; k(x)\<close>.
\<close>

definition op_try :: "('s, 'e, 'a) op \<Rightarrow> ('e \<Rightarrow> ('s, 'f, 'b) op) \<Rightarrow> ('a \<Rightarrow> ('s, 'f, 'b) op)
    \<Rightarrow> ('s, 'f, 'b) op" where
  "op_try m h k = (\<lambda>s. case m s of (r, s') \<Rightarrow> (case r of Inl e \<Rightarrow> h e s' | Inr a \<Rightarrow> k a s'))"

definition op_bind :: "('s, 'e, 'a) op \<Rightarrow> ('a \<Rightarrow> ('s, 'e, 'b) op) \<Rightarrow> ('s, 'e, 'b) op" where
  "op_bind m k = op_try m op_fail k"

text \<open>A call whose result the code discards (\<open>_ = f()\<close>).\<close>

definition op_ignore :: "('s, 'e, 'a) op \<Rightarrow> ('s, 'f, 'b) op \<Rightarrow> ('s, 'f, 'b) op" where
  "op_ignore m k = (\<lambda>s. k (snd (m s)))"

definition op_lift :: "'e + 'a \<Rightarrow> ('s, 'e, 'a) op" where
  "op_lift r = (\<lambda>s. (r, s))"

lemma op_return_eq [simp]: "op_return a s = (r, s') \<longleftrightarrow> r = Inr a \<and> s' = s"
  by (auto simp: op_return_def)

lemma op_fail_eq [simp]: "op_fail e s = (r, s') \<longleftrightarrow> r = Inl e \<and> s' = s"
  by (auto simp: op_fail_def)

lemma op_lift_eq [simp]: "op_lift x s = (r, s') \<longleftrightarrow> r = x \<and> s' = s"
  by (auto simp: op_lift_def)

lemma op_try_eq:
  "op_try m h k s = (r, s') \<longleftrightarrow>
     (\<exists>e s1. m s = (Inl e, s1) \<and> h e s1 = (r, s')) \<or> (\<exists>a s1. m s = (Inr a, s1) \<and> k a s1 = (r, s'))"
  by (auto simp: op_try_def split: prod.splits sum.splits)

lemma op_bind_eq:
  "op_bind m k s = (r, s') \<longleftrightarrow>
     (\<exists>e. m s = (Inl e, s') \<and> r = Inl e) \<or> (\<exists>a s1. m s = (Inr a, s1) \<and> k a s1 = (r, s'))"
  by (auto simp: op_bind_def op_try_eq)

lemma op_bind_Inr:
  "op_bind m k s = (Inr b, s') \<longleftrightarrow> (\<exists>a s1. m s = (Inr a, s1) \<and> k a s1 = (Inr b, s'))"
  by (auto simp: op_bind_eq)

lemma op_try_stepI: "m s = (Inr a, s1) \<Longrightarrow> op_try m h k s = k a s1"
  by (simp add: op_try_def)

lemma op_try_errI: "m s = (Inl e, s1) \<Longrightarrow> op_try m h k s = h e s1"
  by (simp add: op_try_def)

lemma op_ignore_eq: "op_ignore m k s = k (snd (m s))"
  by (simp add: op_ignore_def)

section \<open>Lists\<close>

lemma find_SomeD: "List.find P xs = Some x \<Longrightarrow> x \<in> set xs \<and> P x"
  by (auto simp: find_Some_iff in_set_conv_nth)

lemma find_None: "List.find P xs = None \<longleftrightarrow> (\<forall>x\<in>set xs. \<not> P x)"
  by (induction xs) auto

lemma find_cong_filter:
  "filter Q xs = filter Q ys \<Longrightarrow> (\<And>x. P x \<Longrightarrow> Q x) \<Longrightarrow> List.find P xs = List.find P ys"
proof -
  assume a: "filter Q xs = filter Q ys" and b: "\<And>x. P x \<Longrightarrow> Q x"
  have "List.find P zs = List.find P (filter Q zs)" for zs
    using b by (induction zs) auto
  then show ?thesis using a by metis
qed

lemma filter_sub_filter:
  "filter Q xs = filter Q ys \<Longrightarrow> (\<And>x. P x \<Longrightarrow> Q x) \<Longrightarrow> filter P xs = filter P ys"
proof -
  assume a: "filter Q xs = filter Q ys" and b: "\<And>x. P x \<Longrightarrow> Q x"
  have "filter P zs = filter P (filter Q zs)" for zs
    using b by (induction zs) auto
  then show ?thesis using a by metis
qed

lemma filter_map_keep:
  "(\<And>x. x \<in> set xs \<Longrightarrow> Q (g x) = Q x) \<Longrightarrow> (\<And>x. x \<in> set xs \<Longrightarrow> Q x \<Longrightarrow> g x = x)
     \<Longrightarrow> filter Q (map g xs) = filter Q xs"
  by (induction xs) auto

lemma filter_filter_keep:
  "(\<And>x. x \<in> set xs \<Longrightarrow> Q x \<Longrightarrow> P x) \<Longrightarrow> filter Q (filter P xs) = filter Q xs"
  by (induction xs) auto

lemma sort_key_hd_min:
  assumes "x \<in> set xs"
  shows "f (hd (sort_key f xs)) \<le> f x"
proof -
  have "sorted (map f (sort_key f xs))" by simp
  moreover have "x \<in> set (sort_key f xs)" using assms by simp
  ultimately show ?thesis by (cases "sort_key f xs") auto
qed

lemma distinct_map_append_fresh:
  "distinct (map f ys) \<Longrightarrow> (\<forall>y\<in>set ys. f y \<notin> f ` set xs) \<Longrightarrow>
     distinct (map f (xs @ ys)) \<longleftrightarrow> distinct (map f xs)"
  by (auto simp: image_iff) metis

end
