(* ===== verification/Gostrings.thy ===== *)
theory Gostrings
  imports Prelude
begin

text \<open>
  The parts of Go's \<open>strings\<close>, \<open>unicode/utf8\<close>, \<open>strconv\<close> and \<open>net\<close> packages that the
  program uses. A Go string is a list of bytes; ranging over it decodes UTF-8, and a byte
  that starts no valid encoding yields U+FFFD and advances by one. The case table of
  \<open>unicode.ToLower\<close> beyond ASCII is the parameter \<open>ul\<close> of \<open>ToLower\<close>.
\<close>

section \<open>Bytes and runes\<close>

definition byte :: "char \<Rightarrow> int" where
  "byte c = of_char c"

definition rune_error :: int where
  "rune_error = 65533"

definition within :: "int \<Rightarrow> int \<Rightarrow> int \<Rightarrow> bool" where
  "within lo hi x \<longleftrightarrow> lo \<le> x \<and> x \<le> hi"

text \<open>\<open>utf8.DecodeRuneInString\<close> on a non-empty string: the rune and its width.\<close>

definition second_range :: "int \<Rightarrow> int \<Rightarrow> bool" where
  "second_range p0 p1 = (if p0 = 224 then within 160 191 p1
     else if p0 = 237 then within 128 159 p1
     else if p0 = 240 then within 144 191 p1
     else if p0 = 244 then within 128 143 p1
     else within 128 191 p1)"

fun decode_rune :: "int list \<Rightarrow> int \<times> nat" where
  "decode_rune [] = (rune_error, 0)"
| "decode_rune (p0 # ps) =
     (if p0 < 128 then (p0, 1)
      else if p0 < 194 \<or> 244 < p0 then (rune_error, 1)
      else case ps of [] \<Rightarrow> (rune_error, 1)
       | p1 # qs \<Rightarrow>
          if \<not> second_range p0 p1 then (rune_error, 1)
          else if p0 < 224 then ((p0 - 192) * 64 + (p1 - 128), 2)
          else case qs of [] \<Rightarrow> (rune_error, 1)
           | p2 # rs \<Rightarrow>
              if \<not> within 128 191 p2 then (rune_error, 1)
              else if p0 < 240 then ((p0 - 224) * 4096 + (p1 - 128) * 64 + (p2 - 128), 3)
              else case rs of [] \<Rightarrow> (rune_error, 1)
               | p3 # _ \<Rightarrow>
                  if \<not> within 128 191 p3 then (rune_error, 1)
                  else ((p0 - 240) * 262144 + (p1 - 128) * 4096 + (p2 - 128) * 64 + (p3 - 128), 4))"

text \<open>\<open>for _, r := range s\<close>: the runes of a string, each with the bytes it came from.\<close>

function chunks :: "string \<Rightarrow> (int \<times> string) list" where
  "chunks [] = []"
| "chunks (c # s) = (case decode_rune (map byte (c # take 3 s)) of (r, w) \<Rightarrow>
     (r, c # take (w - 1) s) # chunks (drop (w - 1) s))"
  by pat_completeness auto
termination by (relation "measure length") auto

text \<open>\<open>utf8.AppendRune\<close>.\<close>

definition encode_rune :: "int \<Rightarrow> string" where
  "encode_rune r0 = (let r = (if r0 > 1114111 \<or> within 55296 57343 r0 then rune_error else r0) in
     map char_of
       (if r < 128 then [r]
        else if r < 2048 then [192 + r div 64, 128 + r mod 64]
        else if r < 65536 then [224 + r div 4096, 128 + r div 64 mod 64, 128 + r mod 64]
        else [240 + r div 262144, 128 + r div 4096 mod 64, 128 + r div 64 mod 64, 128 + r mod 64]))"

definition is_space :: "int \<Rightarrow> bool" where
  "is_space r \<longleftrightarrow> within 9 13 r \<or> r = 32 \<or> r = 133 \<or> r = 160 \<or> r = 5760 \<or> within 8192 8202 r
     \<or> r = 8232 \<or> r = 8233 \<or> r = 8239 \<or> r = 8287 \<or> r = 12288"

definition rune_lower :: "(int \<Rightarrow> int) \<Rightarrow> int \<Rightarrow> int" where
  "rune_lower ul r = (if r < 128 then (if within 65 90 r then r + 32 else r) else ul r)"

section \<open>Package strings\<close>

definition trim_list :: "('a \<Rightarrow> bool) \<Rightarrow> 'a list \<Rightarrow> 'a list" where
  "trim_list P xs = rev (dropWhile P (rev (dropWhile P xs)))"

definition TrimSpace :: "string \<Rightarrow> string" where
  "TrimSpace s = concat (map snd (trim_list (\<lambda>c. is_space (fst c)) (chunks s)))"

definition ToLower :: "(int \<Rightarrow> int) \<Rightarrow> string \<Rightarrow> string" where
  "ToLower ul s = concat (map (\<lambda>c. encode_rune (rune_lower ul (fst c))) (chunks s))"

text \<open>\<open>strings.Trim\<close> and \<open>strings.TrimRight\<close> with a one-byte cutset.\<close>

definition Trim :: "string \<Rightarrow> char \<Rightarrow> string" where
  "Trim s c = trim_list (\<lambda>d. d = c) s"

definition TrimRight :: "string \<Rightarrow> char \<Rightarrow> string" where
  "TrimRight s c = rev (dropWhile (\<lambda>d. d = c) (rev s))"

definition HasPrefix :: "string \<Rightarrow> string \<Rightarrow> bool" where
  "HasPrefix s p \<longleftrightarrow> take (length p) s = p"

definition HasSuffix :: "string \<Rightarrow> string \<Rightarrow> bool" where
  "HasSuffix s p \<longleftrightarrow> length p \<le> length s \<and> drop (length s - length p) s = p"

definition TrimSuffix :: "string \<Rightarrow> string \<Rightarrow> string" where
  "TrimSuffix s p = (if HasSuffix s p then take (length s - length p) s else s)"

text \<open>\<open>strings.SplitN(s, " ", 2)\<close> with a one-byte separator.\<close>

fun split_at :: "char \<Rightarrow> string \<Rightarrow> (string \<times> string) option" where
  "split_at sep [] = None"
| "split_at sep (c # s) = (if c = sep then Some ([], s)
     else map_option (\<lambda>(a, b). (c # a, b)) (split_at sep s))"

definition SplitN2 :: "string \<Rightarrow> char \<Rightarrow> string list" where
  "SplitN2 s sep = (case split_at sep s of None \<Rightarrow> [s] | Some (a, b) \<Rightarrow> [a, b])"

text \<open>
  \<open>strings.EqualFold(s, t)\<close> for an ASCII \<open>t\<close>: the only non-ASCII runes whose simple
  folding is ASCII are U+017F (long s) and U+212A (Kelvin sign).
\<close>

definition rune_fold :: "int \<Rightarrow> int" where
  "rune_fold r = (if within 65 90 r then r + 32 else if r = 383 then 115 else if r = 8490 then 107 else r)"

definition EqualFold :: "string \<Rightarrow> string \<Rightarrow> bool" where
  "EqualFold s t \<longleftrightarrow> map (\<lambda>c. rune_fold (fst c)) (chunks s) = map (\<lambda>c. rune_fold (fst c)) (chunks t)"

section \<open>Packages strconv and net\<close>

definition is_digit :: "char \<Rightarrow> bool" where
  "is_digit c \<longleftrightarrow> within 48 57 (byte c)"

definition digits_value :: "string \<Rightarrow> int" where
  "digits_value s = foldl (\<lambda>n c. 10 * n + (byte c - 48)) 0 s"

text \<open>\<open>strconv.Atoi\<close> on a 64-bit platform; \<open>None\<close> is a syntax or range error.\<close>

definition Atoi :: "string \<Rightarrow> int option" where
  "Atoi s = (let neg = (s \<noteq> [] \<and> hd s = CHR ''-'');
                 ds = (if s \<noteq> [] \<and> (hd s = CHR ''-'' \<or> hd s = CHR ''+'') then tl s else s)
     in if ds = [] \<or> \<not> list_all is_digit ds then None
        else let v = (if neg then - digits_value ds else digits_value ds)
             in if - (2 ^ 63) \<le> v \<and> v < 2 ^ 63 then Some v else None)"

fun index_last :: "char \<Rightarrow> string \<Rightarrow> nat option" where
  "index_last c [] = None"
| "index_last c (d # s) = (case index_last c s of Some i \<Rightarrow> Some (Suc i)
     | None \<Rightarrow> if d = c then Some 0 else None)"

fun index_first :: "char \<Rightarrow> string \<Rightarrow> nat option" where
  "index_first c [] = None"
| "index_first c (d # s) = (if d = c then Some 0 else map_option Suc (index_first c s))"

text \<open>\<open>net.SplitHostPort\<close>, of which the code keeps the host; \<open>None\<close> is an error.\<close>

definition SplitHost :: "string \<Rightarrow> string option" where
  "SplitHost hp = (case index_last CHR '':'' hp of None \<Rightarrow> None | Some i \<Rightarrow>
     if hd hp = CHR ''['' then
       (case index_first CHR '']'' hp of None \<Rightarrow> None | Some e \<Rightarrow>
          if e + 1 = i \<and> CHR ''['' \<notin> set (drop 1 hp) \<and> CHR '']'' \<notin> set (drop (e + 1) hp)
          then Some (take (e - 1) (drop 1 hp)) else None)
     else if CHR '':'' \<in> set (take i hp) \<or> CHR ''['' \<in> set hp \<or> CHR '']'' \<in> set hp then None
     else Some (take i hp))"

section \<open>ASCII strings\<close>

definition ascii :: "string \<Rightarrow> bool" where
  "ascii s \<longleftrightarrow> list_all (\<lambda>c. byte c < 128) s"

lemma chunks_ascii: "ascii s \<Longrightarrow> chunks s = map (\<lambda>c. (byte c, [c])) s"
  by (induction s) (auto simp: ascii_def)

lemma trim_list_id:
  "(xs \<noteq> [] \<Longrightarrow> \<not> P (hd xs)) \<Longrightarrow> (xs \<noteq> [] \<Longrightarrow> \<not> P (last xs)) \<Longrightarrow> trim_list P xs = xs"
proof -
  assume a: "xs \<noteq> [] \<Longrightarrow> \<not> P (hd xs)" and b: "xs \<noteq> [] \<Longrightarrow> \<not> P (last xs)"
  have "dropWhile P xs = xs" using a by (cases xs) auto
  moreover have "dropWhile P (rev xs) = rev xs" using b by (cases xs rule: rev_cases) auto
  ultimately show ?thesis by (simp add: trim_list_def)
qed

lemma trim_list_hd: "trim_list P xs \<noteq> [] \<Longrightarrow> \<not> P (hd (trim_list P xs))"
proof -
  assume ne: "trim_list P xs \<noteq> []"
  obtain ys where ys: "ys = dropWhile P xs" by simp
  have *: "\<exists>zs. ys = trim_list P xs @ zs"
    unfolding trim_list_def ys[symmetric]
    by (metis rev_append rev_rev_ident takeWhile_dropWhile_id)
  then have "hd (trim_list P xs) = hd ys" "ys \<noteq> []" using ne by auto
  then show ?thesis using hd_dropWhile[of P xs] ys by simp
qed

lemma trim_list_last: "trim_list P xs \<noteq> [] \<Longrightarrow> \<not> P (last (trim_list P xs))"
  unfolding trim_list_def using hd_dropWhile[of P "rev (dropWhile P xs)"] by (simp add: last_rev)

lemma trim_list_sublist: "\<exists>as bs. xs = as @ trim_list P xs @ bs"
  unfolding trim_list_def
  by (metis append.assoc rev_append rev_rev_ident takeWhile_dropWhile_id)

lemma trim_list_set: "set (trim_list P xs) \<subseteq> set xs"
  using trim_list_sublist[of xs P] by (metis set_append Un_upper1 Un_upper2 subset_trans)

lemma trim_list_length: "length (trim_list P xs) \<le> length xs"
  by (simp add: trim_list_def) (metis length_dropWhile_le length_rev order_trans)

lemma trim_list_map: "trim_list P (map f xs) = map f (trim_list (P \<circ> f) xs)"
  by (simp add: trim_list_def dropWhile_map flip: rev_map)
    (simp add: rev_map dropWhile_map)

end
