(* ===== verification/Apperror.thy ===== *)
theory Apperror
  imports Gostrings
begin

text \<open>
  The error values of the program: the typed errors of pkg/apperror, Go's wrapped errors
  with \<open>errors.Is\<close> and \<open>errors.As\<close>, and the SQLSTATE classification of pkg/dberr.
  A Go \<open>error\<close> is one of the five shapes the code builds or receives.
\<close>

section \<open>pkg/apperror\<close>

datatype code = CodeValidation | CodeUnauthorized | CodeForbidden | CodeNotFound
  | CodeConflict | CodeRateLimited | CodeInternal | CodeTenantMismatch | CodeUnprocessable

fun code_string :: "code \<Rightarrow> string" where
  "code_string CodeValidation = ''VALIDATION_ERROR''"
| "code_string CodeUnauthorized = ''UNAUTHORIZED''"
| "code_string CodeForbidden = ''FORBIDDEN''"
| "code_string CodeNotFound = ''NOT_FOUND''"
| "code_string CodeConflict = ''CONFLICT''"
| "code_string CodeRateLimited = ''RATE_LIMITED''"
| "code_string CodeInternal = ''INTERNAL_ERROR''"
| "code_string CodeTenantMismatch = ''TENANT_MISMATCH''"
| "code_string CodeUnprocessable = ''UNPROCESSABLE''"

fun HTTPStatus :: "code \<Rightarrow> int" where
  "HTTPStatus CodeValidation = 400"
| "HTTPStatus CodeUnprocessable = 400"
| "HTTPStatus CodeUnauthorized = 401"
| "HTTPStatus CodeForbidden = 403"
| "HTTPStatus CodeTenantMismatch = 403"
| "HTTPStatus CodeNotFound = 404"
| "HTTPStatus CodeConflict = 409"
| "HTTPStatus CodeRateLimited = 429"
| "HTTPStatus CodeInternal = 500"

text \<open>
  \<open>AppError\<close> is \<open>*apperror.Error\<close>; \<open>Wrapped\<close> is \<open>fmt.Errorf("...: %w", err)\<close>;
  \<open>PgError\<close> is the driver's error with its SQLSTATE; \<open>Sentinel\<close> is a package variable made
  by \<open>errors.New\<close> (or gorm's \<open>ErrRecordNotFound\<close>), told apart by its text; \<open>Plain\<close> is any
  other error, which nothing in the program recognises.
\<close>

datatype err = AppError code string "err option" | Wrapped string err
  | PgError string | Sentinel string | Plain string

definition New :: "code \<Rightarrow> string \<Rightarrow> err" where
  "New c m = AppError c m None"

definition Wrap :: "code \<Rightarrow> string \<Rightarrow> err \<Rightarrow> err" where
  "Wrap c m e = AppError c m (Some e)"

fun Unwrap :: "err \<Rightarrow> err option" where
  "Unwrap (AppError c m e) = e"
| "Unwrap (Wrapped m e) = Some e"
| "Unwrap _ = None"

text \<open>\<open>errors.Is\<close>: the error or one it wraps is the target.\<close>

fun errors_is :: "err \<Rightarrow> err \<Rightarrow> bool" where
  "errors_is (AppError c m e) t \<longleftrightarrow> AppError c m e = t \<or> (case e of None \<Rightarrow> False | Some x \<Rightarrow> errors_is x t)"
| "errors_is (Wrapped m e) t \<longleftrightarrow> Wrapped m e = t \<or> errors_is e t"
| "errors_is e t \<longleftrightarrow> e = t"

text \<open>\<open>apperror.As\<close>: the outermost typed error of the chain.\<close>

fun As :: "err \<Rightarrow> (code \<times> string \<times> err option) option" where
  "As (AppError c m e) = Some (c, m, e)"
| "As (Wrapped m e) = As e"
| "As _ = None"

text \<open>\<open>(*Error).Error\<close>; the text of a driver error is the parameter \<open>pg\<close>.\<close>

fun error_text :: "(string \<Rightarrow> string) \<Rightarrow> err \<Rightarrow> string" where
  "error_text pg (AppError c m (Some e)) = code_string c @ '': '' @ m @ '': '' @ error_text pg e"
| "error_text pg (AppError c m None) = code_string c @ '': '' @ m"
| "error_text pg (Wrapped m e) = m @ '': '' @ error_text pg e"
| "error_text pg (PgError st) = pg st"
| "error_text pg (Sentinel m) = m"
| "error_text pg (Plain m) = m"

section \<open>pkg/dberr\<close>

definition sqlStateUniqueViolation :: string where "sqlStateUniqueViolation = ''23505''"
definition sqlStateForeignKeyViolation :: string where "sqlStateForeignKeyViolation = ''23503''"
definition sqlStateCheckViolation :: string where "sqlStateCheckViolation = ''23514''"

text \<open>The first driver error of the chain, as \<open>errors.As\<close> finds it.\<close>

fun pg_state :: "err \<Rightarrow> string option" where
  "pg_state (PgError st) = Some st"
| "pg_state (AppError c m (Some e)) = pg_state e"
| "pg_state (Wrapped m e) = pg_state e"
| "pg_state _ = None"

definition hasSQLState :: "err \<Rightarrow> string \<Rightarrow> bool" where
  "hasSQLState e st \<longleftrightarrow> pg_state e = Some st"

definition IsUniqueViolation :: "err \<Rightarrow> bool" where
  "IsUniqueViolation e = hasSQLState e sqlStateUniqueViolation"

definition IsForeignKeyViolation :: "err \<Rightarrow> bool" where
  "IsForeignKeyViolation e = hasSQLState e sqlStateForeignKeyViolation"

definition IsCheckViolation :: "err \<Rightarrow> bool" where
  "IsCheckViolation e = hasSQLState e sqlStateCheckViolation"

definition Classify :: "err \<Rightarrow> code" where
  "Classify e = (if IsUniqueViolation e then CodeConflict
     else if IsForeignKeyViolation e \<or> IsCheckViolation e then CodeValidation
     else CodeInternal)"

lemmas dberr_defs = Classify_def IsUniqueViolation_def IsForeignKeyViolation_def
  IsCheckViolation_def hasSQLState_def sqlStateUniqueViolation_def
  sqlStateForeignKeyViolation_def sqlStateCheckViolation_def

section \<open>Facts about the chain\<close>

lemma New_simps [simp]: "As (New c m) = Some (c, m, None)" "pg_state (New c m) = None"
  by (simp_all add: New_def)

lemma Wrap_simps [simp]: "As (Wrap c m e) = Some (c, m, Some e)" "pg_state (Wrap c m e) = pg_state e"
  by (simp_all add: Wrap_def)

lemma New_eq_iff [simp]: "New c m = New c' m' \<longleftrightarrow> c = c' \<and> m = m'"
  by (simp add: New_def)

lemma Wrap_neq_New [simp]: "Wrap c m e \<noteq> New c' m'" "New c' m' \<noteq> Wrap c m e"
  by (simp_all add: New_def Wrap_def)

lemma HTTPStatus_range: "HTTPStatus c \<in> {400, 401, 403, 404, 409, 429, 500}"
  by (cases c) auto

lemma HTTPStatus_500_iff: "HTTPStatus c = 500 \<longleftrightarrow> c = CodeInternal"
  by (cases c) auto

end
