(* ===== verification/Schema.thy ===== *)
theory Schema
  imports Apperror "HOL-Library.Multiset"
begin

text \<open>
  The database as the code sees it. One record per entity struct (the \<open>entity.go\<close> files),
  a record of tables, and the constraints of migrations/ as SQLSTATE-valued checks: row
  level security (every tenant-scoped table), CHECK constraints, unique indexes and foreign
  keys. JSON columns are kept as their serialized text. \<open>env\<close> bundles what a call takes from
  outside src/: the clock, driver failures, CITEXT folding, hashing and signing.
\<close>

section \<open>Rows\<close>

record tenant =
  tenant_ID :: uuid
  tenant_Name :: string
  tenant_Slug :: string
  tenant_PlanCode :: string
  tenant_Status :: string
  tenant_Settings :: string
  tenant_CreatedAt :: gotime
  tenant_UpdatedAt :: gotime
  tenant_DeletedAt :: "gotime option"

record user =
  user_ID :: uuid
  user_TenantID :: uuid
  user_Email :: string
  user_PasswordHash :: "string option"
  user_FullName :: string
  user_AvatarURL :: "string option"
  user_Status :: string
  user_EmailVerifiedAt :: "gotime option"
  user_LastLoginAt :: "gotime option"
  user_CreatedAt :: gotime
  user_UpdatedAt :: gotime
  user_DeletedAt :: "gotime option"

record refresh_token =
  rt_ID :: uuid
  rt_TenantID :: uuid
  rt_UserID :: uuid
  rt_TokenHash :: string
  rt_FamilyID :: uuid
  rt_ReplacedBy :: "uuid option"
  rt_UserAgent :: string
  rt_IPAddress :: "string option"
  rt_ExpiresAt :: gotime
  rt_RevokedAt :: "gotime option"
  rt_CreatedAt :: gotime

record oauth_account =
  oa_ID :: uuid
  oa_TenantID :: uuid
  oa_UserID :: uuid
  oa_Provider :: string
  oa_ProviderUserID :: string
  oa_AccessToken :: "string option"
  oa_RefreshToken :: "string option"
  oa_TokenExpiresAt :: "gotime option"
  oa_CreatedAt :: gotime
  oa_UpdatedAt :: gotime

record verification_token =
  vt_ID :: uuid
  vt_TenantID :: uuid
  vt_UserID :: uuid
  vt_Purpose :: string
  vt_TokenHash :: string
  vt_ExpiresAt :: gotime
  vt_UsedAt :: "gotime option"
  vt_CreatedAt :: gotime

record role =
  role_ID :: uuid
  role_TenantID :: uuid
  role_Name :: string
  role_Slug :: string
  role_Description :: string
  role_IsSystem :: bool
  role_Rank :: int
  role_CreatedAt :: gotime
  role_UpdatedAt :: gotime

record permission =
  perm_ID :: uuid
  perm_Code :: string
  perm_Resource :: string
  perm_Action :: string
  perm_Description :: string
  perm_CreatedAt :: gotime

record role_permission =
  rp_RoleID :: uuid
  rp_PermissionID :: uuid
  rp_TenantID :: uuid
  rp_CreatedAt :: gotime

record user_role =
  ur_UserID :: uuid
  ur_RoleID :: uuid
  ur_TenantID :: uuid
  ur_AssignedAt :: gotime
  ur_AssignedBy :: "uuid option"

record api_key =
  key_ID :: uuid
  key_TenantID :: uuid
  key_UserID :: "uuid option"
  key_Name :: string
  key_KeyPrefix :: string
  key_KeyHash :: string
  key_Scopes :: "string list"
  key_LastUsedAt :: "gotime option"
  key_ExpiresAt :: "gotime option"
  key_RevokedAt :: "gotime option"
  key_CreatedAt :: gotime

record invitation =
  inv_ID :: uuid
  inv_TenantID :: uuid
  inv_Email :: string
  inv_RoleID :: uuid
  inv_TokenHash :: string
  inv_Status :: string
  inv_InvitedBy :: "uuid option"
  inv_ExpiresAt :: gotime
  inv_AcceptedAt :: "gotime option"
  inv_CreatedAt :: gotime

record plan =
  plan_ID :: uuid
  plan_Code :: string
  plan_Name :: string
  plan_PriceCents :: int
  plan_BillingPeriod :: string
  plan_MaxSeats :: "int option"
  plan_MaxProjects :: "int option"
  plan_MaxStorageMB :: "int option"
  plan_Features :: string
  plan_IsActive :: bool
  plan_CreatedAt :: gotime

record subscription =
  sub_ID :: uuid
  sub_TenantID :: uuid
  sub_PlanID :: uuid
  sub_Status :: string
  sub_ProviderSubscriptionID :: "string option"
  sub_CurrentPeriodStart :: gotime
  sub_CurrentPeriodEnd :: gotime
  sub_CancelAtPeriodEnd :: bool
  sub_CanceledAt :: "gotime option"
  sub_CreatedAt :: gotime
  sub_UpdatedAt :: gotime

record team =
  team_ID :: uuid
  team_TenantID :: uuid
  team_Name :: string
  team_Slug :: string
  team_Description :: string
  team_CreatedBy :: "uuid option"
  team_CreatedAt :: gotime
  team_UpdatedAt :: gotime
  team_DeletedAt :: "gotime option"

record project =
  proj_ID :: uuid
  proj_TenantID :: uuid
  proj_TeamID :: "uuid option"
  proj_Name :: string
  proj_Slug :: string
  proj_Description :: string
  proj_Status :: string
  proj_CreatedBy :: "uuid option"
  proj_CreatedAt :: gotime
  proj_UpdatedAt :: gotime
  proj_DeletedAt :: "gotime option"

record file_row =
  file_ID :: uuid
  file_TenantID :: uuid
  file_ProjectID :: "uuid option"
  file_UploadedBy :: uuid
  file_OriginalName :: string
  file_StorageKey :: string
  file_ContentType :: string
  file_SizeBytes :: int
  file_SHA256 :: string
  file_CreatedAt :: gotime

text \<open>What a \<open>map[string]any\<close> of the code holds, as an association list.\<close>

datatype json = JStr string | JStrs "string list" | JUuid uuid | JBool bool | JInt int | JTime gotime

type_synonym metadata = "(string \<times> json) list"

record AuditLog =
  al_ID :: uuid
  al_TenantID :: uuid
  al_ActorID :: "uuid option"
  al_Action :: string
  al_TargetType :: "string option"
  al_TargetID :: "uuid option"
  al_IPAddress :: "string option"
  al_UserAgent :: string
  al_Metadata :: metadata
  al_CreatedAt :: gotime

record ActivityEvent =
  ae_ID :: uuid
  ae_TenantID :: uuid
  ae_ActorID :: "uuid option"
  ae_TargetType :: string
  ae_TargetID :: uuid
  ae_Verb :: string
  ae_Metadata :: metadata
  ae_CreatedAt :: gotime

record team_member =
  tm_TeamID :: uuid
  tm_UserID :: uuid
  tm_TenantID :: uuid
  tm_JoinedAt :: gotime

record project_member =
  pm_ProjectID :: uuid
  pm_UserID :: uuid
  pm_TenantID :: uuid
  pm_JoinedAt :: gotime

record notification =
  ntf_ID :: uuid
  ntf_TenantID :: uuid
  ntf_UserID :: uuid
  ntf_Type :: string
  ntf_Title :: string
  ntf_Body :: string
  ntf_Metadata :: metadata
  ntf_ReadAt :: "gotime option"
  ntf_CreatedAt :: gotime

record Preferences =
  pref_UserID :: uuid
  pref_TenantID :: uuid
  pref_Timezone :: string
  pref_Locale :: string
  pref_Theme :: string
  pref_EmailNotifications :: bool
  pref_UpdatedAt :: gotime

section \<open>Tables\<close>

record db =
  tenants :: "tenant list"
  users :: "user list"
  refresh_tokens :: "refresh_token list"
  oauth_accounts :: "oauth_account list"
  verification_tokens :: "verification_token list"
  roles :: "role list"
  permissions :: "permission list"
  role_permissions :: "role_permission list"
  user_roles :: "user_role list"
  api_keys :: "api_key list"
  invitations :: "invitation list"
  subscription_plans :: "plan list"
  subscriptions :: "subscription list"
  teams :: "team list"
  projects :: "project list"
  files :: "file_row list"
  audit_logs :: "AuditLog list"
  activity_events :: "ActivityEvent list"
  team_members :: "team_member list"
  project_members :: "project_member list"
  notifications :: "notification list"
  user_preferences :: "Preferences list"

definition empty_db :: db where
  "empty_db = \<lparr>tenants = [], users = [], refresh_tokens = [], oauth_accounts = [],
     verification_tokens = [], roles = [], permissions = [], role_permissions = [],
     user_roles = [], api_keys = [], invitations = [], subscription_plans = [],
     subscriptions = [], teams = [], projects = [], files = [],
     audit_logs = [], activity_events = [], team_members = [], project_members = [],
     notifications = [], user_preferences = []\<rparr>"

section \<open>The outside of a call\<close>

text \<open>
  \<open>sql_fault l = Some st\<close> makes the statement labelled \<open>l\<close> fail with SQLSTATE \<open>st\<close>; \<open>redis_fault\<close>
  makes a cache command fail; \<open>citext\<close> is the folding under which CITEXT columns compare;
  \<open>parse_uuid\<close> is \<open>uuid.Parse\<close>, \<open>bcrypt\<close> and \<open>bcrypt_ok\<close> are password hashing, \<open>sha256_hex\<close> the
  hex SHA-256, \<open>base64url\<close> the raw URL base64 encoding, \<open>unicode_lower\<close> the case table,
  \<open>text_le\<close> the database's collation, \<open>format_time\<close> and \<open>parse_time\<close> the RFC 3339 form. \<open>jwt_sign\<close> and \<open>jwt_parse\<close>
  are the JWT library (secret, subject, tenant, role, expiry; parsing checks the signature
  and the expiry), \<open>hmac_sha256\<close> the MAC, and \<open>json_state\<close> the JSON of the OAuth state;
  \<open>uuid_string\<close> is \<open>uuid.UUID.String\<close> and \<open>ilike\<close> PostgreSQL's \<open>ILIKE\<close> (text, pattern).
\<close>

record env =
  now :: gotime
  sql_fault :: "string \<Rightarrow> string option"
  redis_on :: bool
  redis_fault :: "string \<Rightarrow> bool"
  citext :: "string \<Rightarrow> string"
  unicode_lower :: "int \<Rightarrow> int"
  parse_uuid :: "string \<Rightarrow> uuid option"
  sha256_hex :: "string \<Rightarrow> string"
  base64url :: "string \<Rightarrow> string"
  bcrypt :: "string \<Rightarrow> string option"
  bcrypt_ok :: "string \<Rightarrow> string \<Rightarrow> bool"
  text_le :: "string \<Rightarrow> string \<Rightarrow> bool"
  format_time :: "gotime \<Rightarrow> string"
  parse_time :: "string \<Rightarrow> gotime option"
  jwt_sign :: "string \<Rightarrow> uuid \<Rightarrow> uuid \<Rightarrow> string \<Rightarrow> gotime \<Rightarrow> string option"
  jwt_parse :: "string \<Rightarrow> gotime \<Rightarrow> string \<Rightarrow> (uuid \<times> uuid \<times> string) option"
  base64url_decode :: "string \<Rightarrow> string option"
  hmac_sha256 :: "string \<Rightarrow> string \<Rightarrow> string"
  json_state :: "string \<times> string \<Rightarrow> string"
  json_state_parse :: "string \<Rightarrow> (string \<times> string) option"
  uuid_string :: "uuid \<Rightarrow> string"
  ilike :: "string \<Rightarrow> string \<Rightarrow> bool"

text \<open>What one call draws at random: \<open>uuid.New()\<close> and \<open>rand.Read\<close> (\<open>None\<close>: it failed).\<close>

record fresh =
  fresh_id :: "nat \<Rightarrow> uuid"
  fresh_bytes :: "string option"

section \<open>Statements\<close>

text \<open>
  Under FORCE ROW LEVEL SECURITY a tenant-scoped row is visible exactly when its tenant is
  the transaction's \<open>app.tenant_id\<close>; with none set the policy compares with NULL and hides
  every row.
\<close>

type_synonym session = "uuid option"

definition rls :: "session \<Rightarrow> ('r \<Rightarrow> uuid) \<Rightarrow> 'r \<Rightarrow> bool" where
  "rls sess ten r \<longleftrightarrow> sess = Some (ten r)"

definition select_rows :: "session \<Rightarrow> ('r \<Rightarrow> uuid) \<Rightarrow> ('r \<Rightarrow> bool) \<Rightarrow> 'r list \<Rightarrow> 'r list" where
  "select_rows sess ten P rows = filter (\<lambda>r. rls sess ten r \<and> P r) rows"

definition select_first :: "session \<Rightarrow> ('r \<Rightarrow> uuid) \<Rightarrow> ('r \<Rightarrow> bool) \<Rightarrow> 'r list \<Rightarrow> 'r option" where
  "select_first sess ten P rows = List.find (\<lambda>r. rls sess ten r \<and> P r) rows"

definition update_rows ::
  "session \<Rightarrow> ('r \<Rightarrow> uuid) \<Rightarrow> ('r \<Rightarrow> bool) \<Rightarrow> ('r \<Rightarrow> 'r) \<Rightarrow> 'r list \<Rightarrow> 'r list" where
  "update_rows sess ten P f rows = map (\<lambda>r. if rls sess ten r \<and> P r then f r else r) rows"

definition delete_rows :: "session \<Rightarrow> ('r \<Rightarrow> uuid) \<Rightarrow> ('r \<Rightarrow> bool) \<Rightarrow> 'r list \<Rightarrow> 'r list" where
  "delete_rows sess ten P rows = filter (\<lambda>r. \<not> (rls sess ten r \<and> P r)) rows"

definition count_rows :: "session \<Rightarrow> ('r \<Rightarrow> uuid) \<Rightarrow> ('r \<Rightarrow> bool) \<Rightarrow> 'r list \<Rightarrow> int" where
  "count_rows sess ten P rows = int (length (select_rows sess ten P rows))"

text \<open>\<open>ORDER BY\<close> a text column, under the collation of the database.\<close>

fun insert_by :: "('r \<Rightarrow> 'r \<Rightarrow> bool) \<Rightarrow> 'r \<Rightarrow> 'r list \<Rightarrow> 'r list" where
  "insert_by le x [] = [x]"
| "insert_by le x (y # ys) = (if le x y then x # y # ys else y # insert_by le x ys)"

definition order_by :: "('r \<Rightarrow> 'r \<Rightarrow> bool) \<Rightarrow> 'r list \<Rightarrow> 'r list" where
  "order_by le rows = foldr (insert_by le) rows []"

text \<open>
  An INSERT is refused by the policy's WITH CHECK (42501), then by CHECK constraints,
  unique indexes and foreign keys; foreign keys and unique indexes see every row.
\<close>

definition insert_check :: "bool \<Rightarrow> bool \<Rightarrow> bool \<Rightarrow> bool \<Rightarrow> string option" where
  "insert_check policy checks unique fks =
     (if \<not> policy then Some ''42501'' else if \<not> checks then Some ''23514''
      else if \<not> unique then Some ''23505'' else if \<not> fks then Some ''23503'' else None)"

text \<open>A statement that may fail in the driver before it does its work.\<close>

definition stmt :: "env \<Rightarrow> string \<Rightarrow> (db, err, 'a) tx \<Rightarrow> (db, err, 'a) tx" where
  "stmt ev l m = (case sql_fault ev l of Some st \<Rightarrow> tx_fail (PgError st) | None \<Rightarrow> m)"

definition raise :: "string option \<Rightarrow> (db, err, unit) tx" where
  "raise r = (case r of Some st \<Rightarrow> tx_fail (PgError st) | None \<Rightarrow> tx_return ())"

definition ErrRecordNotFound :: err where
  "ErrRecordNotFound = Sentinel ''record not found''"

text \<open>gorm's \<open>First\<close> and \<open>Take\<close>.\<close>

definition take_row :: "(db \<Rightarrow> 'r option) \<Rightarrow> (db, err, 'r) tx" where
  "take_row q = (\<lambda>d. case q d of None \<Rightarrow> Inl ErrRecordNotFound | Some r \<Rightarrow> Inr (r, d))"

definition modify :: "(db \<Rightarrow> db) \<Rightarrow> (db, err, unit) tx" where
  "modify f = (\<lambda>d. Inr ((), f d))"

definition require :: "bool \<Rightarrow> err \<Rightarrow> (db, err, unit) tx" where
  "require b e = (if b then tx_return () else tx_fail e)"

section \<open>Lemmas on statements\<close>

lemma stmt_Inr [tx_inv]: "stmt ev l m d = Inr r \<longleftrightarrow> sql_fault ev l = None \<and> m d = Inr r"
  by (auto simp: stmt_def split: option.splits)

lemma stmt_Inl: "stmt ev l m d = Inl e \<longleftrightarrow>
    (\<exists>st. sql_fault ev l = Some st \<and> e = PgError st) \<or> (sql_fault ev l = None \<and> m d = Inl e)"
  by (auto simp: stmt_def split: option.splits)

lemma stmt_ok [simp]: "sql_fault ev l = None \<Longrightarrow> stmt ev l m = m"
  by (simp add: stmt_def)

lemma raise_Inr [simp, tx_inv]: "raise c d = Inr r \<longleftrightarrow> c = None \<and> r = ((), d)"
  by (auto simp: raise_def split: option.splits)

lemma raise_Inl: "raise c d = Inl e \<longleftrightarrow> (\<exists>st. c = Some st \<and> e = PgError st)"
  by (auto simp: raise_def split: option.splits)

lemma take_row_Inr [simp, tx_inv]: "take_row q d = Inr (r, d') \<longleftrightarrow> q d = Some r \<and> d' = d"
  by (auto simp: take_row_def split: option.splits)

lemma take_row_Inl [simp]: "take_row q d = Inl e \<longleftrightarrow> q d = None \<and> e = ErrRecordNotFound"
  by (auto simp: take_row_def split: option.splits)

lemma modify_Inr [simp, tx_inv]: "modify f d = Inr (u, d') \<longleftrightarrow> d' = f d"
  by (auto simp: modify_def)

lemma modify_Inl [simp]: "modify f d \<noteq> Inl e"
  by (simp add: modify_def)

lemma require_Inr [simp, tx_inv]: "require b e d = Inr (u, d') \<longleftrightarrow> b \<and> d' = d"
  by (auto simp: require_def)

lemma require_Inl [simp]: "require b e d = Inl f \<longleftrightarrow> \<not> b \<and> f = e"
  by (auto simp: require_def)

lemma insert_check_None:
  "insert_check p c u f = None \<longleftrightarrow> p \<and> c \<and> u \<and> f"
  by (simp add: insert_check_def)

lemma reads_only_stmt [intro!]: "reads_only m \<Longrightarrow> reads_only (stmt ev l m)"
  by (auto simp: reads_only_def tx_inv)

lemma reads_only_take [intro!, simp]: "reads_only (take_row q)"
  by (auto simp: reads_only_def)

lemma reads_only_require [intro!, simp]: "reads_only (require b e)"
  by (auto simp: reads_only_def)

lemma reads_only_raise [intro!, simp]: "reads_only (raise c)"
  by (auto simp: reads_only_def)

lemma reads_only_map_err [intro!]: "reads_only m \<Longrightarrow> reads_only (tx_map_err g m)"
  by (auto simp: reads_only_def)

lemma select_first_SomeD:
  "select_first sess ten P rows = Some r \<Longrightarrow> r \<in> set rows \<and> sess = Some (ten r) \<and> P r"
  by (auto simp: select_first_def rls_def dest: find_SomeD)

lemma select_first_NoneD:
  "select_first sess ten P rows = None \<Longrightarrow> r \<in> set rows \<Longrightarrow> sess = Some (ten r) \<Longrightarrow> \<not> P r"
  by (auto simp: select_first_def rls_def find_None)

lemma set_select_rows:
  "set (select_rows sess ten P rows) = {r \<in> set rows. sess = Some (ten r) \<and> P r}"
  by (auto simp: select_rows_def rls_def)

lemma set_delete_rows:
  "set (delete_rows sess ten P rows) = {r \<in> set rows. \<not> (sess = Some (ten r) \<and> P r)}"
  by (auto simp: delete_rows_def rls_def)

lemma mset_insert_by: "mset (insert_by le x ys) = add_mset x (mset ys)"
  by (induction ys) auto

lemma mset_order_by: "mset (order_by le rows) = mset rows"
  by (induction rows) (auto simp: order_by_def mset_insert_by)

lemma set_order_by [simp]: "set (order_by le rows) = set rows"
  by (metis mset_order_by set_mset_mset)

lemma map_update_rows:
  "(\<And>r. P r \<Longrightarrow> g (f r) = g r) \<Longrightarrow> map g (update_rows sess ten P f rows) = map g rows"
  by (induction rows) (auto simp: update_rows_def)

section \<open>What other tenants see\<close>

text \<open>
  \<open>foreign_view t\<close> is everything in the database that does not belong to tenant \<open>t\<close>; a
  transaction body is confined to \<open>t\<close> when it leaves that view unchanged.
\<close>

definition foreign_view :: "uuid \<Rightarrow> db \<Rightarrow> db" where
  "foreign_view t d = \<lparr>tenants = filter (\<lambda>r. tenant_ID r \<noteq> t) (tenants d),
     users = filter (\<lambda>r. user_TenantID r \<noteq> t) (users d),
     refresh_tokens = filter (\<lambda>r. rt_TenantID r \<noteq> t) (refresh_tokens d),
     oauth_accounts = filter (\<lambda>r. oa_TenantID r \<noteq> t) (oauth_accounts d),
     verification_tokens = filter (\<lambda>r. vt_TenantID r \<noteq> t) (verification_tokens d),
     roles = filter (\<lambda>r. role_TenantID r \<noteq> t) (roles d),
     permissions = permissions d,
     role_permissions = filter (\<lambda>r. rp_TenantID r \<noteq> t) (role_permissions d),
     user_roles = filter (\<lambda>r. ur_TenantID r \<noteq> t) (user_roles d),
     api_keys = filter (\<lambda>r. key_TenantID r \<noteq> t) (api_keys d),
     invitations = filter (\<lambda>r. inv_TenantID r \<noteq> t) (invitations d),
     subscription_plans = subscription_plans d,
     subscriptions = filter (\<lambda>r. sub_TenantID r \<noteq> t) (subscriptions d),
     teams = filter (\<lambda>r. team_TenantID r \<noteq> t) (teams d),
     projects = filter (\<lambda>r. proj_TenantID r \<noteq> t) (projects d),
     files = filter (\<lambda>r. file_TenantID r \<noteq> t) (files d),
     audit_logs = filter (\<lambda>r. al_TenantID r \<noteq> t) (audit_logs d),
     activity_events = filter (\<lambda>r. ae_TenantID r \<noteq> t) (activity_events d),
     team_members = filter (\<lambda>r. tm_TenantID r \<noteq> t) (team_members d),
     project_members = filter (\<lambda>r. pm_TenantID r \<noteq> t) (project_members d),
     notifications = filter (\<lambda>r. ntf_TenantID r \<noteq> t) (notifications d),
     user_preferences = filter (\<lambda>r. pref_TenantID r \<noteq> t) (user_preferences d)\<rparr>"

definition confined :: "uuid \<Rightarrow> (db, err, 'a) tx \<Rightarrow> bool" where
  "confined t m \<longleftrightarrow> (\<forall>d a d'. m d = Inr (a, d') \<longrightarrow> foreign_view t d' = foreign_view t d)"

named_theorems confined_intros \<open>rules that a transaction body is confined to a tenant\<close>

lemma confinedD: "confined t m \<Longrightarrow> m d = Inr (a, d') \<Longrightarrow> foreign_view t d' = foreign_view t d"
  by (auto simp: confined_def)

lemma confined_reads_only [confined_intros]: "reads_only m \<Longrightarrow> confined t m"
  by (auto simp: reads_only_def confined_def)

lemma confined_bind [confined_intros]:
  "confined t m \<Longrightarrow> (\<And>a. confined t (f a)) \<Longrightarrow> confined t (tx_bind m f)"
  unfolding confined_def by (auto simp: tx_bind_Inr)

lemma confined_stmt [confined_intros]: "confined t m \<Longrightarrow> confined t (stmt ev l m)"
  by (auto simp: confined_def tx_inv)

lemma confined_map_err [confined_intros]: "confined t m \<Longrightarrow> confined t (tx_map_err g m)"
  by (auto simp: confined_def)

lemma confined_if [confined_intros]:
  "confined t m \<Longrightarrow> confined t n \<Longrightarrow> confined t (if b then m else n)"
  by simp

lemma confined_modify:
  "(\<And>d. foreign_view t (f d) = foreign_view t d) \<Longrightarrow> confined t (modify f)"
  by (simp add: confined_def)

lemma foreign_update [simp]:
  "(\<And>r. ten (f r) = ten r) \<Longrightarrow>
     filter (\<lambda>r. ten r \<noteq> t) (update_rows (Some t) ten P f rows) = filter (\<lambda>r. ten r \<noteq> t) rows"
  by (induction rows) (auto simp: update_rows_def rls_def)

lemma foreign_delete [simp]:
  "filter (\<lambda>r. ten r \<noteq> t) (delete_rows (Some t) ten P rows) = filter (\<lambda>r. ten r \<noteq> t) rows"
  by (induction rows) (auto simp: delete_rows_def rls_def)

end
