(* ===== verification/Hub.thy ===== *)
theory Hub
  imports Schema
begin

text \<open>
  internal/realtime/hub.go: the broker that fans notification events out to live subscribers,
  through buffered Go channels on one instance and through Redis Pub/Sub between instances.
  A Go channel is named by the number under which it was made, and its buffer is a list;
  Redis delivers raw messages to the forwarding goroutine of a subscription, in order and at
  most once, which \<open>br_wire\<close> holds until the goroutine takes them.
\<close>

section \<open>Events and channels\<close>

record Event =
  ev_ID :: string
  ev_TenantID :: string
  ev_UserID :: string
  ev_Type :: string
  ev_Title :: string
  ev_Body :: string
  ev_CreatedAt :: gotime

text \<open>\<open>json.Marshal\<close> and \<open>json.Unmarshal\<close> of an event.\<close>

record codec =
  marshal :: "Event \<Rightarrow> string option"
  unmarshal :: "string \<Rightarrow> Event option"

definition channelFor :: "env \<Rightarrow> uuid \<Rightarrow> uuid \<Rightarrow> string" where
  "channelFor ev tenantID userID = ''ntfy:'' @ uuid_string ev tenantID @ '':'' @ uuid_string ev userID"

definition mustParseUUID :: "env \<Rightarrow> string \<Rightarrow> uuid" where
  "mustParseUUID ev s = (case parse_uuid ev s of None \<Rightarrow> uuid_nil | Some i \<Rightarrow> i)"

section \<open>The broker\<close>

text \<open>\<open>br_pubsub\<close> are the live Pub/Sub connections, by subscriber, with their Redis channel.\<close>

record Broker =
  br_redis :: bool
  br_subs :: "string \<Rightarrow> nat list option"
  br_out :: "nat \<Rightarrow> Event list"
  br_next :: nat
  br_pubsub :: "nat \<Rightarrow> string option"
  br_wire :: "nat \<Rightarrow> string list"

definition new_broker :: "bool \<Rightarrow> Broker" where
  "new_broker redis = \<lparr>br_redis = redis, br_subs = (\<lambda>_. None), br_out = (\<lambda>_. []), br_next = 0,
     br_pubsub = (\<lambda>_. None), br_wire = (\<lambda>_. [])\<rparr>"

definition UsingRedis :: "Broker option \<Rightarrow> bool" where
  "UsingRedis b = (case b of None \<Rightarrow> False | Some b \<Rightarrow> br_redis b)"

definition out_buffer :: nat where "out_buffer = 32"

text \<open>\<open>select { case sub <- e: default: }\<close>: dropped when the buffer is full.\<close>

definition offer :: "nat \<Rightarrow> Event \<Rightarrow> Broker \<Rightarrow> Broker" where
  "offer s e b = (if length (br_out b s) < out_buffer
     then b\<lparr>br_out := (br_out b)(s := br_out b s @ [e])\<rparr> else b)"

definition publishLocal :: "string \<Rightarrow> Event \<Rightarrow> Broker \<Rightarrow> Broker" where
  "publishLocal ch e b = fold (\<lambda>s. offer s e) (case br_subs b ch of None \<Rightarrow> [] | Some ss \<Rightarrow> ss) b"

text \<open>\<open>PUBLISH\<close>: the message goes to every connection subscribed to the Redis channel.\<close>

definition redis_publish :: "string \<Rightarrow> string \<Rightarrow> Broker \<Rightarrow> Broker" where
  "redis_publish ch raw b = b\<lparr>br_wire := (\<lambda>s. if br_pubsub b s = Some ch then br_wire b s @ [raw] else br_wire b s)\<rparr>"

definition Publish :: "env \<Rightarrow> codec \<Rightarrow> Event \<Rightarrow> Broker \<Rightarrow> Broker" where
  "Publish ev cd e b =
     (let ch = channelFor ev (mustParseUUID ev (ev_TenantID e)) (mustParseUUID ev (ev_UserID e)) in
      if br_redis b then
        (case marshal cd e of None \<Rightarrow> b
         | Some raw \<Rightarrow> if redis_fault ev ''realtime.publish'' then b else redis_publish ch raw b)
      else publishLocal ch e b)"

definition Subscribe :: "env \<Rightarrow> uuid \<Rightarrow> uuid \<Rightarrow> Broker \<Rightarrow> nat \<times> Broker" where
  "Subscribe ev tenantID userID b =
     (let ch = channelFor ev tenantID userID; out = br_next b;
          set = (case br_subs b ch of None \<Rightarrow> [] | Some ss \<Rightarrow> ss)
      in (out, b\<lparr>br_next := Suc out, br_subs := (br_subs b)(ch \<mapsto> set @ [out]),
            br_pubsub := (if br_redis b then (br_pubsub b)(out \<mapsto> ch) else br_pubsub b)\<rparr>))"

definition unsubscribe :: "string \<Rightarrow> nat \<Rightarrow> Broker \<Rightarrow> Broker" where
  "unsubscribe ch out b = b\<lparr>br_pubsub := (br_pubsub b)(out := None),
     br_subs := (case br_subs b ch of None \<Rightarrow> br_subs b
       | Some ss \<Rightarrow> (let ss' = removeAll out ss in
           (br_subs b)(ch := (if ss' = [] then None else Some ss'))))\<rparr>"

text \<open>One turn of the loop of \<open>forwardRedis\<close>: an undecodable message is skipped.\<close>

definition forwardRedis :: "codec \<Rightarrow> nat \<Rightarrow> Broker \<Rightarrow> Broker" where
  "forwardRedis cd s b = (case br_wire b s of [] \<Rightarrow> b
     | raw # rest \<Rightarrow> (let b' = b\<lparr>br_wire := (br_wire b)(s := rest)\<rparr> in
         case unmarshal cd raw of None \<Rightarrow> b' | Some e \<Rightarrow> offer s e b'))"

text \<open>\<open>e := <-events\<close>.\<close>

definition receive :: "nat \<Rightarrow> Broker \<Rightarrow> Event option \<times> Broker" where
  "receive s b = (case br_out b s of [] \<Rightarrow> (None, b)
     | e # es \<Rightarrow> (Some e, b\<lparr>br_out := (br_out b)(s := es)\<rparr>))"

text \<open>\<open>PublishNotification\<close>: the adapter the notifications service publishes through.\<close>

definition notification_event :: "env \<Rightarrow> notification \<Rightarrow> Event" where
  "notification_event ev n = \<lparr>ev_ID = uuid_string ev (ntf_ID n), ev_TenantID = uuid_string ev (ntf_TenantID n),
     ev_UserID = uuid_string ev (ntf_UserID n), ev_Type = ntf_Type n, ev_Title = ntf_Title n,
     ev_Body = ntf_Body n, ev_CreatedAt = ntf_CreatedAt n\<rparr>"

definition PublishNotification :: "env \<Rightarrow> codec \<Rightarrow> notification \<Rightarrow> Broker \<Rightarrow> Broker" where
  "PublishNotification ev cd n b = Publish ev cd (notification_event ev n) b"

end
