(* ===== verification/Txscope.thy ===== *)
theory Txscope
  imports Hub
begin

text \<open>
  pkg/txscope: every tenant-scoped statement runs in a transaction that first sets
  \<open>app.tenant_id\<close>. A failing body rolls the transaction back. The request context carries the
  tenant as \<open>ctx\<close>. \<open>world\<close> is what outlives a call: the database, the Redis cache of
  internal/platform/cache, the mail handed to the notifier, and the broker of
  internal/realtime.
\<close>

record mail =
  mail_Kind :: string
  mail_To :: string
  mail_Token :: string

record world =
  store :: db
  perm_cache :: "uuid \<times> uuid \<Rightarrow> (string list \<times> gotime) option"
  tenant_cache :: "string \<Rightarrow> (tenant \<times> gotime) option"
  outbox :: "mail list"
  hub :: Broker

type_synonym ctx = "uuid option"

type_synonym 'a body = "session \<Rightarrow> (db, err, 'a) tx"

definition ErrNoTenantInContext :: err where
  "ErrNoTenantInContext = Sentinel ''txscope: no tenant id in context''"

definition WithTenantID :: "ctx \<Rightarrow> uuid \<Rightarrow> ctx" where
  "WithTenantID c t = Some t"

definition TenantIDFromContext :: "ctx \<Rightarrow> uuid option" where
  "TenantIDFromContext c = c"

text \<open>
  gorm's \<open>Transaction\<close>: BEGIN, the body, COMMIT; an error of the body rolls back. The labels
  of BEGIN, COMMIT and of the \<open>set_config\<close> are those of the transaction \<open>l\<close>.
\<close>

definition run_tx :: "env \<Rightarrow> string \<Rightarrow> (db, err, 'a) tx \<Rightarrow> (world, err, 'a) op" where
  "run_tx ev l m = (\<lambda>w. case sql_fault ev (l @ ''.begin'') of
     Some st \<Rightarrow> (Inl (PgError st), w)
   | None \<Rightarrow> (case m (store w) of
       Inl e \<Rightarrow> (Inl e, w)
     | Inr r \<Rightarrow> (case sql_fault ev (l @ ''.commit'') of
         Some st \<Rightarrow> (Inl (PgError st), w)
       | None \<Rightarrow> (Inr (fst r), w\<lparr>store := snd r\<rparr>))))"

definition set_tenant :: "env \<Rightarrow> string \<Rightarrow> (db, err, unit) tx" where
  "set_tenant ev l = tx_map_err (Wrapped ''txscope: set tenant session var'')
     (stmt ev (l @ ''.set_config'') (tx_return ()))"

definition WithTenantTxID :: "env \<Rightarrow> string \<Rightarrow> uuid \<Rightarrow> 'a body \<Rightarrow> (world, err, 'a) op" where
  "WithTenantTxID ev l t fn = run_tx ev l (tx_bind (set_tenant ev l) (\<lambda>_. fn (Some t)))"

definition WithTenantTx :: "env \<Rightarrow> string \<Rightarrow> ctx \<Rightarrow> 'a body \<Rightarrow> (world, err, 'a) op" where
  "WithTenantTx ev l c fn = (case TenantIDFromContext c of
     None \<Rightarrow> op_fail ErrNoTenantInContext
   | Some t \<Rightarrow> WithTenantTxID ev l t fn)"

definition WithoutTenantScope :: "env \<Rightarrow> string \<Rightarrow> 'a body \<Rightarrow> (world, err, 'a) op" where
  "WithoutTenantScope ev l fn = run_tx ev l (fn None)"

text \<open>A statement outside any explicit transaction (\<open>db.WithContext(ctx)\<close>).\<close>

definition run_stmt :: "env \<Rightarrow> string \<Rightarrow> (db, err, 'a) tx \<Rightarrow> (world, err, 'a) op" where
  "run_stmt ev l m = (\<lambda>w. case stmt ev l m (store w) of
     Inl e \<Rightarrow> (Inl e, w) | Inr r \<Rightarrow> (Inr (fst r), w\<lparr>store := snd r\<rparr>))"

text \<open>\<open>if err != nil { return g(err) }\<close> with no state change.\<close>

definition op_map_err :: "('e \<Rightarrow> 'f) \<Rightarrow> ('s, 'e, 'a) op \<Rightarrow> ('s, 'f, 'a) op" where
  "op_map_err g m = op_try m (\<lambda>e. op_fail (g e)) op_return"

section \<open>Lemmas\<close>

lemma run_tx_ok: "run_tx ev l m w = (Inr a, w') \<Longrightarrow> \<exists>d. m (store w) = Inr (a, d) \<and> w' = w\<lparr>store := d\<rparr>"
  by (auto simp: run_tx_def split: option.splits sum.splits)

lemma run_tx_rollback: "run_tx ev l m w = (Inl e, w') \<Longrightarrow> w' = w"
  by (auto simp: run_tx_def split: option.splits sum.splits)

lemma WithTenantTxID_ok:
  "WithTenantTxID ev l t fn w = (Inr a, w') \<Longrightarrow> \<exists>d. fn (Some t) (store w) = Inr (a, d) \<and> w' = w\<lparr>store := d\<rparr>"
  unfolding WithTenantTxID_def set_tenant_def
  by (drule run_tx_ok) (auto simp: tx_inv)

lemma WithTenantTx_ok:
  "WithTenantTx ev l c fn w = (Inr a, w') \<Longrightarrow>
     \<exists>t d. c = Some t \<and> fn (Some t) (store w) = Inr (a, d) \<and> w' = w\<lparr>store := d\<rparr>"
  unfolding WithTenantTx_def TenantIDFromContext_def
  by (cases c) (auto dest: WithTenantTxID_ok)

lemma WithTenantTx_Some:
  "WithTenantTx ev l (Some t) fn w = (Inr a, w') \<Longrightarrow>
     \<exists>d. fn (Some t) (store w) = Inr (a, d) \<and> w' = w\<lparr>store := d\<rparr>"
  using WithTenantTx_ok[of ev l "Some t" fn w a w'] by auto

lemma WithTenantTxID_rollback: "WithTenantTxID ev l t fn w = (Inl e, w') \<Longrightarrow> w' = w"
  unfolding WithTenantTxID_def by (rule run_tx_rollback)

lemma WithTenantTx_rollback: "WithTenantTx ev l c fn w = (Inl e, w') \<Longrightarrow> w' = w"
  unfolding WithTenantTx_def by (cases "TenantIDFromContext c") (auto dest: WithTenantTxID_rollback)

lemma run_tx_run:
  "sql_fault ev (l @ ''.begin'') = None \<Longrightarrow> sql_fault ev (l @ ''.commit'') = None \<Longrightarrow>
   run_tx ev l m w = (case m (store w) of Inl e \<Rightarrow> (Inl e, w) | Inr r \<Rightarrow> (Inr (fst r), w\<lparr>store := snd r\<rparr>))"
  by (auto simp: run_tx_def split: sum.splits)

lemma WithTenantTxID_run:
  "(\<And>s. sql_fault ev s = None) \<Longrightarrow>
   WithTenantTxID ev l t fn w =
     (case fn (Some t) (store w) of Inl e \<Rightarrow> (Inl e, w) | Inr r \<Rightarrow> (Inr (fst r), w\<lparr>store := snd r\<rparr>))"
  by (simp add: WithTenantTxID_def set_tenant_def run_tx_run tx_bind_def tx_map_err_def tx_return_def)

lemma WithTenantTx_run:
  "(\<And>s. sql_fault ev s = None) \<Longrightarrow>
   WithTenantTx ev l (Some t) fn w =
     (case fn (Some t) (store w) of Inl e \<Rightarrow> (Inl e, w) | Inr r \<Rightarrow> (Inr (fst r), w\<lparr>store := snd r\<rparr>))"
  by (simp add: WithTenantTx_def TenantIDFromContext_def WithTenantTxID_run)

lemma WithTenantTx_None: "WithTenantTx ev l None fn w = (Inl ErrNoTenantInContext, w)"
  by (simp add: WithTenantTx_def TenantIDFromContext_def op_fail_def)

lemma op_map_err_eq:
  "op_map_err g m s = (r, s') \<longleftrightarrow>
     (\<exists>e. m s = (Inl e, s') \<and> r = Inl (g e)) \<or> (\<exists>a. m s = (Inr a, s') \<and> r = Inr a)"
  by (auto simp: op_map_err_def op_try_eq)

lemma op_map_err_Inr: "op_map_err g m s = (Inr a, s') \<longleftrightarrow> m s = (Inr a, s')"
  by (auto simp: op_map_err_eq)

text \<open>A committed transaction of a confined body does not change what other tenants see.\<close>

lemma WithTenantTxID_confined:
  "confined t (fn (Some t)) \<Longrightarrow> WithTenantTxID ev l t fn w = (r, w') \<Longrightarrow>
     foreign_view t (store w') = foreign_view t (store w)"
  by (cases r) (auto dest!: WithTenantTxID_ok WithTenantTxID_rollback dest: confinedD)

lemma WithTenantTx_confined:
  "confined t (fn (Some t)) \<Longrightarrow> WithTenantTx ev l (Some t) fn w = (r, w') \<Longrightarrow>
     foreign_view t (store w') = foreign_view t (store w)"
  unfolding WithTenantTx_def TenantIDFromContext_def by (auto dest: WithTenantTxID_confined)

end
