(* ===== verification/Cache.thy ===== *)
theory Cache
  imports Txscope
begin

text \<open>
  internal/platform/cache: the fail-open Redis adapter behind \<open>tenancy.CacheReader\<close> and
  \<open>authz.PermissionCache\<close>. An entry lives until its expiry; a Redis error on a read is a
  miss and on a write or delete is dropped. With no Redis (\<open>redis_on\<close> false) every read misses.
  The locale \<open>permission_cache\<close> states what authz relies on.
\<close>

definition TenantTTL :: duration where "TenantTTL = 5 * minute"
definition PermissionsTTL :: duration where "PermissionsTTL = 5 * minute"

definition live_entry :: "env \<Rightarrow> ('v \<times> gotime) option \<Rightarrow> 'v option" where
  "live_entry ev e = (case e of None \<Rightarrow> None | Some (v, ex) \<Rightarrow> if now ev < ex then Some v else None)"

text \<open>The JSON of a tenant omits \<open>DeletedAt\<close>.\<close>

definition GetTenantBySlug :: "env \<Rightarrow> string \<Rightarrow> world \<Rightarrow> tenant option" where
  "GetTenantBySlug ev slug w =
     (if \<not> redis_on ev \<or> slug = '''' then None
      else if redis_fault ev ''get'' then None
      else live_entry ev (tenant_cache w slug))"

definition SetTenantBySlug :: "env \<Rightarrow> string \<Rightarrow> tenant \<Rightarrow> duration \<Rightarrow> world \<Rightarrow> world" where
  "SetTenantBySlug ev slug t ttl w =
     (if \<not> redis_on ev \<or> slug = '''' then w
      else let ttl' = (if ttl \<le> 0 then TenantTTL else ttl) in
        if redis_fault ev ''set'' then w
        else w\<lparr>tenant_cache := (tenant_cache w)(slug \<mapsto> (t\<lparr>tenant_DeletedAt := None\<rparr>, now ev + ttl'))\<rparr>)"

definition GetUserPermissions :: "env \<Rightarrow> uuid \<Rightarrow> uuid \<Rightarrow> world \<Rightarrow> string list option" where
  "GetUserPermissions ev tenantID userID w =
     (if \<not> redis_on ev then None
      else if redis_fault ev ''get'' then None
      else live_entry ev (perm_cache w (tenantID, userID)))"

definition SetUserPermissions :: "env \<Rightarrow> uuid \<Rightarrow> uuid \<Rightarrow> string list \<Rightarrow> world \<Rightarrow> world" where
  "SetUserPermissions ev tenantID userID codes w =
     (if \<not> redis_on ev then w
      else if redis_fault ev ''set'' then w
      else w\<lparr>perm_cache := (perm_cache w)((tenantID, userID) \<mapsto> (codes, now ev + PermissionsTTL))\<rparr>)"

definition InvalidateUserPermissions :: "env \<Rightarrow> uuid \<Rightarrow> uuid \<Rightarrow> world \<Rightarrow> world" where
  "InvalidateUserPermissions ev tenantID userID w =
     (if \<not> redis_on ev then w
      else if redis_fault ev ''del'' then w
      else w\<lparr>perm_cache := (perm_cache w)((tenantID, userID) := None)\<rparr>)"

section \<open>The contract of the permission cache\<close>

text \<open>
  \<open>get\<close> may miss at any time, but what it returns is what was last set; an invalidation that
  reaches the cache (\<open>reachable\<close>) makes the next read miss; the database is never touched.
\<close>

locale permission_cache =
  fixes get :: "env \<Rightarrow> uuid \<Rightarrow> uuid \<Rightarrow> world \<Rightarrow> string list option"
    and put :: "env \<Rightarrow> uuid \<Rightarrow> uuid \<Rightarrow> string list \<Rightarrow> world \<Rightarrow> world"
    and invalidate :: "env \<Rightarrow> uuid \<Rightarrow> uuid \<Rightarrow> world \<Rightarrow> world"
    and reachable :: "env \<Rightarrow> bool"
  assumes get_put: "get ev t u (put ev t u cs w) \<in> {None, Some cs, get ev t u w}"
    and get_put_other: "(t, u) \<noteq> (t', u') \<Longrightarrow> get ev t u (put ev t' u' cs w) = get ev t u w"
    and get_invalidate: "reachable ev \<Longrightarrow> get ev t u (invalidate ev t u w) = None"
    and get_invalidate_other: "(t, u) \<noteq> (t', u') \<Longrightarrow> get ev t u (invalidate ev t' u' w) = get ev t u w"
    and store_put: "store (put ev t u cs w) = store w"
    and store_invalidate: "store (invalidate ev t u w) = store w"
    and get_store: "get ev t u (w\<lparr>store := d\<rparr>) = get ev t u w"
begin

lemma invalidate_reaches:
  "reachable ev \<Longrightarrow> get ev t u (invalidate ev t' u' w) \<in> {None, get ev t u w}"
  using get_invalidate get_invalidate_other by (cases "(t, u) = (t', u')") auto

text \<open>Invalidating a list of users makes the next read of each of them miss.\<close>

lemma invalidate_all:
  "reachable ev \<Longrightarrow> u \<in> set us \<Longrightarrow> get ev t u (fold (invalidate ev t) us w) = None"
proof (induction us arbitrary: w)
  case (Cons x xs)
  have stays: "get ev t u v = None \<Longrightarrow> get ev t u (fold (invalidate ev t) ys v) = None" for ys v
  proof (induction ys arbitrary: v)
    case (Cons a ys)
    have "get ev t u (invalidate ev t a v) = None"
      using invalidate_reaches[OF \<open>reachable ev\<close>, of t u t a v] Cons.prems by auto
    then show ?case using Cons.IH by simp
  qed simp
  show ?case
  proof (cases "u \<in> set xs")
    case False
    then have "u = x" using Cons.prems by simp
    then show ?thesis using stays get_invalidate[OF Cons.prems(1)] by simp
  qed (use Cons in simp)
qed simp

lemma store_invalidate_all: "store (fold (invalidate ev t) us w) = store w"
  by (induction us arbitrary: w) (auto simp: store_invalidate)

end

definition cache_reachable :: "env \<Rightarrow> bool" where
  "cache_reachable ev \<longleftrightarrow> \<not> redis_fault ev ''del''"

interpretation redis: permission_cache GetUserPermissions SetUserPermissions
  InvalidateUserPermissions cache_reachable
proof
  show "GetUserPermissions ev t u (SetUserPermissions ev t u cs w) \<in> {None, Some cs, GetUserPermissions ev t u w}"
    for ev t u cs w
    by (simp add: GetUserPermissions_def SetUserPermissions_def live_entry_def)
qed (auto simp: GetUserPermissions_def SetUserPermissions_def InvalidateUserPermissions_def
       cache_reachable_def live_entry_def)

lemma cache_store [simp]:
  "store (SetUserPermissions ev t u cs w) = store w"
  "store (InvalidateUserPermissions ev t u w) = store w"
  "store (SetTenantBySlug ev s tn ttl w) = store w"
  by (simp_all add: redis.store_put redis.store_invalidate SetTenantBySlug_def Let_def)

end
