(* ===== verification/Reqctx.thy ===== *)
theory Reqctx
  imports Apperror "HOL-Library.Signed_Division"
begin

text \<open>
  The request side of every handler: the gin context, the response envelope of
  pkg/apiresponse with its pagination, and the caller extraction of pkg/reqctx. A
  middleware maps a context to a context (\<open>c.Next\<close>) or to the response it aborts with.
\<close>

section \<open>The gin context\<close>

text \<open>
  \<open>c.Set\<close> stores values of any type under string keys, and \<open>c.Get\<close> callers check the type;
  \<open>VTenancy\<close> is \<open>tenancy.Context\<close> (tenant, slug, plan code, status).
\<close>

datatype ctxval = VBool bool | VUuid uuid | VString string | VStrings "string list"
  | VTenancy uuid string string string

record gctx =
  keys :: "string \<Rightarrow> ctxval option"
  ctx_tenant :: "uuid option"
  GetHeader :: "string \<Rightarrow> string"
  HeaderValues :: "string \<Rightarrow> string list"
  Query :: "string \<Rightarrow> string"
  Param :: "string \<Rightarrow> string"
  Host :: string
  ClientIP :: string
  UserAgent :: string

definition ctx_set :: "string \<Rightarrow> ctxval \<Rightarrow> gctx \<Rightarrow> gctx" where
  "ctx_set k v c = c\<lparr>keys := (keys c)(k \<mapsto> v)\<rparr>"

text \<open>\<open>v, _ := x.(uuid.UUID)\<close>: the zero value when the stored value has another type.\<close>

definition as_uuid :: "ctxval \<Rightarrow> uuid" where
  "as_uuid v = (case v of VUuid u \<Rightarrow> u | _ \<Rightarrow> uuid_nil)"

text \<open>
  A handler answers and changes the world. \<open>ShouldBindJSON\<close> is gin's: a bound request or
  the text of its error, the parameter \<open>req\<close> of a handler.
\<close>

definition GetString :: "gctx \<Rightarrow> string \<Rightarrow> string" where
  "GetString c k = (case keys c k of Some (VString s) \<Rightarrow> s | _ \<Rightarrow> '''')"

section \<open>pkg/apiresponse\<close>

text \<open>Go's \<open>int\<close> and \<open>int64\<close> are 64-bit two's complement on the supported platforms.\<close>

definition wrap64 :: "int \<Rightarrow> int" where
  "wrap64 n = (n + 2 ^ 63) mod 2 ^ 64 - 2 ^ 63"

record pagination =
  Page :: int
  PageSize :: int
  Total :: int
  TotalPages :: int

definition NewPagination :: "int \<Rightarrow> int \<Rightarrow> int \<Rightarrow> pagination" where
  "NewPagination page pageSize tot =
     (let totalPages = (if pageSize > 0
                        then wrap64 (wrap64 (wrap64 (tot + pageSize) - 1) sdiv pageSize) else 0)
      in \<lparr>Page = page, PageSize = pageSize, Total = tot, TotalPages = totalPages\<rparr>)"

definition DefaultPageSize :: int where "DefaultPageSize = 20"
definition MaxPageSize :: int where "MaxPageSize = 100"

definition ParsePageQuery :: "gctx \<Rightarrow> int \<times> int" where
  "ParsePageQuery c =
     (let page = (case Atoi (Query c ''page'') of Some v \<Rightarrow> if v > 0 then v else 1 | None \<Rightarrow> 1);
          pageSize = (case Atoi (Query c ''page_size'') of
             Some v \<Rightarrow> if v > 0 then v else DefaultPageSize | None \<Rightarrow> DefaultPageSize)
      in (page, if pageSize > MaxPageSize then MaxPageSize else pageSize))"

record meta =
  meta_RequestID :: string
  meta_Pagination :: "pagination option"

datatype 'd response = OkResp int 'd meta | ErrResp int string string "string option" meta

fun resp_status :: "'d response \<Rightarrow> int" where
  "resp_status (OkResp st d m) = st"
| "resp_status (ErrResp st cd msg d m) = st"

definition requestID :: "gctx \<Rightarrow> string" where
  "requestID c = (case keys c ''request_id'' of Some (VString s) \<Rightarrow> s | _ \<Rightarrow> '''')"

definition Success :: "gctx \<Rightarrow> int \<Rightarrow> 'd \<Rightarrow> 'd response" where
  "Success c status d = OkResp status d \<lparr>meta_RequestID = requestID c, meta_Pagination = None\<rparr>"

definition SuccessPaginated :: "gctx \<Rightarrow> 'd \<Rightarrow> pagination \<Rightarrow> 'd response" where
  "SuccessPaginated c d p =
     OkResp 200 d \<lparr>meta_RequestID = requestID c, meta_Pagination = Some p\<rparr>"

definition Error :: "gctx \<Rightarrow> int \<Rightarrow> string \<Rightarrow> string \<Rightarrow> string list \<Rightarrow> 'd response" where
  "Error c status cd message details =
     ErrResp status cd message (case details of [] \<Rightarrow> None | d # _ \<Rightarrow> Some d)
       \<lparr>meta_RequestID = requestID c, meta_Pagination = None\<rparr>"

section \<open>pkg/reqctx\<close>

definition CtxUserID :: string where "CtxUserID = ''user_id''"
definition CtxTenantID :: string where "CtxTenantID = ''tenant_id''"
definition CtxRole :: string where "CtxRole = ''role''"

record caller =
  UserID :: uuid
  TenantID :: uuid
  Role :: string

definition CallerFrom :: "gctx \<Rightarrow> caller option" where
  "CallerFrom c = (case (keys c CtxUserID, keys c CtxTenantID) of
     (Some (VUuid u), Some (VUuid t)) \<Rightarrow>
        if u = uuid_nil then None else if t = uuid_nil then None
        else Some \<lparr>UserID = u, TenantID = t, Role = GetString c CtxRole\<rparr>
   | _ \<Rightarrow> None)"

definition RequireCaller :: "gctx \<Rightarrow> 'd response + caller" where
  "RequireCaller c = (case CallerFrom c of
     None \<Rightarrow> Inl (Error c 401 (code_string CodeUnauthorized) ''authentication required'' [])
   | Some cl \<Rightarrow> Inr cl)"

definition RespondError :: "gctx \<Rightarrow> err \<Rightarrow> 'd response" where
  "RespondError c e = (case As e of
     Some (cd, msg, _) \<Rightarrow> Error c (HTTPStatus cd) (code_string cd) msg []
   | None \<Rightarrow> Error c 500 (code_string CodeInternal) ''internal server error'' [])"

definition BadRequest :: "gctx \<Rightarrow> string \<Rightarrow> 'd response" where
  "BadRequest c message = Error c 400 (code_string CodeValidation) message []"

text \<open>\<open>uuid.Parse\<close> is the third-party parser, the parameter \<open>parse\<close>.\<close>

definition UUIDParam :: "(string \<Rightarrow> uuid option) \<Rightarrow> gctx \<Rightarrow> string \<Rightarrow> 'd response + uuid" where
  "UUIDParam parse c name = (case parse (Param c name) of
     None \<Rightarrow> Inl (BadRequest c (''invalid '' @ name))
   | Some i \<Rightarrow> Inr i)"

section \<open>Lemmas\<close>

lemma wrap64_id: "- (2 ^ 63) \<le> n \<Longrightarrow> n < 2 ^ 63 \<Longrightarrow> wrap64 n = n"
  by (simp add: wrap64_def)

lemma wrap64_range: "- (2 ^ 63) \<le> wrap64 n \<and> wrap64 n < 2 ^ 63"
  by (simp add: wrap64_def)

lemma sdiv_nonneg: "0 \<le> a \<Longrightarrow> 0 < b \<Longrightarrow> (a::int) sdiv b = a div b"
  by (simp add: signed_divide_int_def sgn_if)

section \<open>Properties\<close>

text \<open>While total + pageSize fits an int64, TotalPages is the least number of pages of that size
  that holds all rows.\<close>

theorem NewPagination_ceiling:
  assumes "0 \<le> tot" and "0 < pageSize" and "tot + pageSize < 2 ^ 63"
  shows "tot \<le> TotalPages (NewPagination page pageSize tot) * pageSize
    \<and> (TotalPages (NewPagination page pageSize tot) - 1) * pageSize < tot"
proof -
  let ?q = "(tot + pageSize - 1) div pageSize"
  have nn: "0 \<le> ?q" using assms by (simp add: pos_imp_zdiv_nonneg_iff)
  have "?q * 1 \<le> ?q * pageSize" using nn assms(2) by (intro mult_left_mono) auto
  also have "\<dots> \<le> tot + pageSize - 1" using assms(2) pos_mod_sign[of pageSize "tot + pageSize - 1"]
    by (simp add: minus_mod_eq_div_mult[symmetric] del: pos_mod_sign)
  finally have le: "?q \<le> tot + pageSize - 1" "0 \<le> ?q" using nn by auto
  have "TotalPages (NewPagination page pageSize tot) = ?q"
    using assms le by (simp add: NewPagination_def Let_def wrap64_id sdiv_nonneg)
  moreover have "?q * pageSize = tot + pageSize - 1 - (tot + pageSize - 1) mod pageSize"
    by (simp add: minus_mod_eq_div_mult)
  moreover have "0 \<le> (tot + pageSize - 1) mod pageSize" "(tot + pageSize - 1) mod pageSize < pageSize"
    using assms(2) by auto
  ultimately show ?thesis by (simp add: left_diff_distrib)
qed

theorem NewPagination_ceiling_witness:
  "41 \<le> TotalPages (NewPagination 1 20 41) * 20 \<and> (TotalPages (NewPagination 1 20 41) - 1) * 20 < 41"
  by (rule NewPagination_ceiling) simp_all

text \<open>Whatever the query string, the page is at least 1 and the page size between 1 and 100.\<close>

theorem ParsePageQuery_bounds:
  "1 \<le> fst (ParsePageQuery c) \<and> 1 \<le> snd (ParsePageQuery c) \<and> snd (ParsePageQuery c) \<le> MaxPageSize"
  by (auto simp: ParsePageQuery_def Let_def MaxPageSize_def DefaultPageSize_def split: option.splits)

end
