(* ===== verification/Authz_Repo.thy ===== *)
theory Authz_Repo
  imports Cache Reqctx "HOL-Library.List_Lexorder" "HOL-Library.Char_ord"
begin

text \<open>
  internal/authz/entity.go and repository.go: roles, permissions and their assignments. A
  join is a list comprehension over the rows the policies let the transaction see.
\<close>

section \<open>entity.go\<close>

definition RoleOwner :: string where "RoleOwner = ''owner''"
definition RoleMember :: string where "RoleMember = ''member''"
definition RoleGuest :: string where "RoleGuest = ''guest''"
definition PermOrgManage :: string where "PermOrgManage = ''org:manage''"

definition GrantableScopes :: "string list" where
  "GrantableScopes = [''org:view'', ''member:view'', ''member:invite'', ''role:view'',
     ''team:view'', ''team:create'', ''team:manage'', ''project:view'', ''project:create'',
     ''project:manage'', ''project:delete'', ''apikey:view'', ''billing:view'', ''file:view'',
     ''file:upload'', ''file:delete'', ''audit:view'']"

section \<open>repository.go\<close>

definition ErrRoleNotFound :: err where "ErrRoleNotFound = Sentinel ''authz: role not found''"
definition ErrUnknownPermissionCode :: err where
  "ErrUnknownPermissionCode = Sentinel ''authz: unknown permission code''"
definition ErrStaleRoleRevision :: err where
  "ErrStaleRoleRevision = Sentinel ''authz: stale role revision''"
definition ErrUserNotFound :: err where "ErrUserNotFound = Sentinel ''authz: user not found''"
definition ErrRoleAssignmentMissing :: err where
  "ErrRoleAssignmentMissing = Sentinel ''authz: role assignment not found''"

lemmas authz_errs = ErrRoleNotFound_def ErrUnknownPermissionCode_def ErrStaleRoleRevision_def
  ErrUserNotFound_def ErrRoleAssignmentMissing_def

record actorAccess =
  Rank :: int
  IsOwner :: bool
  Permissions :: "string list"

text \<open>The joins: assignments of a user, roles of a user, grants of a role, codes of a user.\<close>

definition user_role_rows :: "session \<Rightarrow> db \<Rightarrow> uuid \<Rightarrow> user_role list" where
  "user_role_rows sess d u = select_rows sess ur_TenantID (\<lambda>ur. ur_UserID ur = u) (user_roles d)"

definition user_roles_joined :: "session \<Rightarrow> db \<Rightarrow> uuid \<Rightarrow> role list" where
  "user_roles_joined sess d u = sort_key role_Rank (concat (map
     (\<lambda>ur. select_rows sess role_TenantID (\<lambda>r. role_ID r = ur_RoleID ur) (roles d))
     (user_role_rows sess d u)))"

definition role_codes :: "session \<Rightarrow> db \<Rightarrow> uuid \<Rightarrow> string list" where
  "role_codes sess d rid = concat (map
     (\<lambda>rp. map perm_Code (filter (\<lambda>p. perm_ID p = rp_PermissionID rp) (permissions d)))
     (select_rows sess rp_TenantID (\<lambda>rp. rp_RoleID rp = rid) (role_permissions d)))"

definition user_codes :: "session \<Rightarrow> db \<Rightarrow> uuid \<Rightarrow> string list" where
  "user_codes sess d u = remdups (concat (map (\<lambda>ur. role_codes sess d (ur_RoleID ur))
     (user_role_rows sess d u)))"

definition live_user :: "session \<Rightarrow> db \<Rightarrow> uuid \<Rightarrow> user option" where
  "live_user sess d u =
     select_first sess user_TenantID (\<lambda>r. user_ID r = u \<and> user_DeletedAt r = None) (users d)"

definition actorAccessTx :: "env \<Rightarrow> session \<Rightarrow> uuid \<Rightarrow> (db, err, actorAccess) tx" where
  "actorAccessTx ev sess actorID =
     tx_bind (tx_map_err (\<lambda>e. if errors_is e ErrRecordNotFound then ErrUserNotFound else e)
       (stmt ev ''actorAccess.user'' (take_row (\<lambda>d. live_user sess d actorID)))) (\<lambda>_.
     tx_bind (stmt ev ''actorAccess.roles'' (tx_query (\<lambda>d. user_roles_joined sess d actorID))) (\<lambda>rs.
     if rs = [] then tx_fail ErrUserNotFound
     else tx_bind (stmt ev ''actorAccess.codes'' (tx_query (\<lambda>d. user_codes sess d actorID))) (\<lambda>codes.
       tx_return \<lparr>Rank = role_Rank (hd rs), IsOwner = (\<exists>r\<in>set rs. role_Slug r = RoleOwner),
                  Permissions = codes\<rparr>)))"

definition role_by_id :: "session \<Rightarrow> db \<Rightarrow> uuid \<Rightarrow> role option" where
  "role_by_id sess d i = select_first sess role_TenantID (\<lambda>r. role_ID r = i) (roles d)"

definition roleForUpdateTx :: "env \<Rightarrow> session \<Rightarrow> uuid \<Rightarrow> (db, err, role) tx" where
  "roleForUpdateTx ev sess roleID =
     tx_map_err (\<lambda>e. if errors_is e ErrRecordNotFound then ErrRoleNotFound else e)
       (stmt ev ''roleForUpdate'' (take_row (\<lambda>d. role_by_id sess d roleID)))"

definition rolePermissionCodesTx :: "env \<Rightarrow> session \<Rightarrow> uuid \<Rightarrow> (db, err, string list) tx" where
  "rolePermissionCodesTx ev sess roleID =
     stmt ev ''rolePermissionCodes'' (tx_query (\<lambda>d. role_codes sess d roleID))"

definition permissionsByCodesTx :: "env \<Rightarrow> string list \<Rightarrow> (db, err, permission list) tx" where
  "permissionsByCodesTx ev codes =
     (if codes = [] then tx_return []
      else tx_bind (stmt ev ''permissionsByCodes''
             (tx_query (\<lambda>d. filter (\<lambda>p. perm_Code p \<in> set codes) (permissions d)))) (\<lambda>ps.
           if length ps \<noteq> length codes then tx_fail ErrUnknownPermissionCode else tx_return ps))"

definition userExistsTx :: "env \<Rightarrow> session \<Rightarrow> uuid \<Rightarrow> (db, err, bool) tx" where
  "userExistsTx ev sess userID =
     stmt ev ''userExists'' (tx_query (\<lambda>d. live_user sess d userID \<noteq> None))"

definition highestRoleRankTx :: "env \<Rightarrow> session \<Rightarrow> uuid \<Rightarrow> (db, err, int option) tx" where
  "highestRoleRankTx ev sess userID =
     stmt ev ''highestRoleRank'' (tx_query (\<lambda>d. case user_roles_joined sess d userID of
        [] \<Rightarrow> None | r # _ \<Rightarrow> Some (role_Rank r)))"

text \<open>The joined rows \<open>ownerCountTx\<close> counts.\<close>

definition owner_grants :: "session \<Rightarrow> db \<Rightarrow> user_role list" where
  "owner_grants sess d = select_rows sess ur_TenantID (\<lambda>ur.
     (\<exists>r\<in>set (roles d). rls sess role_TenantID r \<and> role_ID r = ur_RoleID ur \<and> role_Slug r = RoleOwner) \<and>
     (\<exists>u\<in>set (users d). rls sess user_TenantID u \<and> user_ID u = ur_UserID ur
        \<and> user_DeletedAt u = None \<and> user_Status u \<noteq> ''disabled'')) (user_roles d)"

definition ownerCountTx :: "env \<Rightarrow> session \<Rightarrow> (db, err, int) tx" where
  "ownerCountTx ev sess = stmt ev ''ownerCount'' (tx_query (\<lambda>d. int (length (owner_grants sess d))))"

definition FindRoleBySlugTx :: "env \<Rightarrow> session \<Rightarrow> uuid \<Rightarrow> string \<Rightarrow> (db, err, role) tx" where
  "FindRoleBySlugTx ev sess tenantID slug =
     tx_map_err (\<lambda>e. if errors_is e ErrRecordNotFound then ErrRoleNotFound
                     else Wrapped ''authz: find role by slug tx'' e)
       (stmt ev ''FindRoleBySlugTx'' (take_row (\<lambda>d. select_first sess role_TenantID
          (\<lambda>r. role_TenantID r = tenantID \<and> role_Slug r = slug) (roles d))))"

text \<open>The constraints of user_roles, roles and role_permissions.\<close>

definition user_role_fks :: "user_role \<Rightarrow> db \<Rightarrow> bool" where
  "user_role_fks ur d \<longleftrightarrow> ur_UserID ur \<in> user_ID ` set (users d)
     \<and> ur_RoleID ur \<in> role_ID ` set (roles d) \<and> ur_TenantID ur \<in> tenant_ID ` set (tenants d)
     \<and> (case ur_AssignedBy ur of None \<Rightarrow> True | Some b \<Rightarrow> b \<in> user_ID ` set (users d))"

definition user_role_fresh :: "user_role \<Rightarrow> db \<Rightarrow> bool" where
  "user_role_fresh ur d \<longleftrightarrow>
     \<not> (\<exists>q\<in>set (user_roles d). ur_UserID q = ur_UserID ur \<and> ur_RoleID q = ur_RoleID ur)"

definition insert_user_role :: "session \<Rightarrow> user_role \<Rightarrow> (db, err, unit) tx" where
  "insert_user_role sess ur =
     tx_bind (tx_query (\<lambda>d. insert_check (rls sess ur_TenantID ur) True (user_role_fresh ur d)
        (user_role_fks ur d))) (\<lambda>chk. tx_bind (raise chk) (\<lambda>_.
     modify (\<lambda>d. d\<lparr>user_roles := user_roles d @ [ur]\<rparr>)))"

text \<open>\<open>ON CONFLICT DO NOTHING\<close>: the policy is checked first, foreign keys after the insert.\<close>

definition insert_user_role_do_nothing :: "session \<Rightarrow> user_role \<Rightarrow> (db, err, unit) tx" where
  "insert_user_role_do_nothing sess ur =
     tx_bind (tx_query (user_role_fresh ur)) (\<lambda>fresh.
     if rls sess ur_TenantID ur \<and> \<not> fresh then tx_return () else insert_user_role sess ur)"

definition AssignUserRoleTx :: "env \<Rightarrow> session \<Rightarrow> user_role \<Rightarrow> (db, err, unit) tx" where
  "AssignUserRoleTx ev sess ur = tx_map_err (Wrapped ''authz: assign user role tx'')
     (stmt ev ''AssignUserRoleTx'' (insert_user_role sess ur))"

definition insert_role :: "session \<Rightarrow> role \<Rightarrow> (db, err, unit) tx" where
  "insert_role sess r =
     tx_bind (tx_query (\<lambda>d. insert_check (rls sess role_TenantID r) True
        (role_ID r \<notin> role_ID ` set (roles d) \<and>
         \<not> (\<exists>q\<in>set (roles d). role_TenantID q = role_TenantID r \<and> role_Slug q = role_Slug r))
        (role_TenantID r \<in> tenant_ID ` set (tenants d)))) (\<lambda>chk. tx_bind (raise chk) (\<lambda>_.
     modify (\<lambda>d. d\<lparr>roles := roles d @ [r]\<rparr>)))"

definition insert_grants :: "session \<Rightarrow> role_permission list \<Rightarrow> (db, err, unit) tx" where
  "insert_grants sess rps =
     tx_bind (tx_query (\<lambda>d. insert_check (\<forall>rp\<in>set rps. rls sess rp_TenantID rp) True
        (distinct (map (\<lambda>rp. (rp_RoleID rp, rp_PermissionID rp)) (role_permissions d @ rps)))
        (\<forall>rp\<in>set rps. rp_RoleID rp \<in> role_ID ` set (roles d)
           \<and> rp_PermissionID rp \<in> perm_ID ` set (permissions d)
           \<and> rp_TenantID rp \<in> tenant_ID ` set (tenants d)))) (\<lambda>chk. tx_bind (raise chk) (\<lambda>_.
     modify (\<lambda>d. d\<lparr>role_permissions := role_permissions d @ rps\<rparr>)))"

definition delete_grants :: "session \<Rightarrow> uuid \<Rightarrow> db \<Rightarrow> db" where
  "delete_grants sess rid d = d\<lparr>role_permissions :=
     delete_rows sess rp_TenantID (\<lambda>rp. rp_RoleID rp = rid) (role_permissions d)\<rparr>"

text \<open>
  Deleting a role: \<open>invitations.role_id\<close> is ON DELETE RESTRICT, the grants and the
  assignments cascade (cascades are not subject to the policies).
\<close>

definition delete_role :: "session \<Rightarrow> uuid \<Rightarrow> (db, err, unit) tx" where
  "delete_role sess rid = (\<lambda>d.
     if role_by_id sess d rid = None then Inr ((), d)
     else if rid \<in> inv_RoleID ` set (invitations d) then Inl (PgError ''23503'')
     else Inr ((), d\<lparr>roles := delete_rows sess role_TenantID (\<lambda>r. role_ID r = rid) (roles d),
                    role_permissions := filter (\<lambda>rp. rp_RoleID rp \<noteq> rid) (role_permissions d),
                    user_roles := filter (\<lambda>ur. ur_RoleID ur \<noteq> rid) (user_roles d)\<rparr>))"

text \<open>An UPDATE of roles fires \<open>set_updated_at\<close>.\<close>

definition touch_role :: "env \<Rightarrow> session \<Rightarrow> uuid \<Rightarrow> db \<Rightarrow> db" where
  "touch_role ev sess rid d = d\<lparr>roles :=
     update_rows sess role_TenantID (\<lambda>r. role_ID r = rid) (\<lambda>r. r\<lparr>role_UpdatedAt := now ev\<rparr>) (roles d)\<rparr>"

definition authz_ListRoles :: "env \<Rightarrow> ctx \<Rightarrow> (world, err, role list) op" where
  "authz_ListRoles ev c = op_map_err (Wrapped ''authz: list roles'')
     (WithTenantTx ev ''ListRoles'' c (\<lambda>sess. stmt ev ''ListRoles.find''
        (tx_query (\<lambda>d. sort_key role_Rank (select_rows sess role_TenantID (\<lambda>_. True) (roles d))))))"

definition authz_FindRoleBySlug :: "env \<Rightarrow> ctx \<Rightarrow> string \<Rightarrow> (world, err, role) op" where
  "authz_FindRoleBySlug ev c slug = WithTenantTx ev ''FindRoleBySlug'' c (\<lambda>sess.
     tx_map_err (\<lambda>e. if errors_is e ErrRecordNotFound then ErrRoleNotFound else e)
       (stmt ev ''FindRoleBySlug.first'' (take_row (\<lambda>d.
          select_first sess role_TenantID (\<lambda>r. role_Slug r = slug) (roles d)))))"

definition authz_repo_CreateRole :: "env \<Rightarrow> ctx \<Rightarrow> role \<Rightarrow> (world, err, unit) op" where
  "authz_repo_CreateRole ev c r = WithTenantTx ev ''CreateRole'' c (\<lambda>sess.
     stmt ev ''CreateRole.create'' (insert_role sess r))"

definition authz_repo_DeleteRole :: "env \<Rightarrow> ctx \<Rightarrow> uuid \<Rightarrow> (world, err, unit) op" where
  "authz_repo_DeleteRole ev c rid = WithTenantTx ev ''repo.DeleteRole'' c (\<lambda>sess.
     stmt ev ''repo.DeleteRole.delete'' (delete_role sess rid))"

definition RolePermissionCodes :: "env \<Rightarrow> ctx \<Rightarrow> uuid \<Rightarrow> (world, err, role \<times> string list) op" where
  "RolePermissionCodes ev c rid = op_map_err (Wrapped ''authz: get role permissions'')
     (WithTenantTx ev ''RolePermissionCodes'' c (\<lambda>sess.
        tx_bind (tx_map_err (\<lambda>e. if errors_is e ErrRecordNotFound then ErrRoleNotFound else e)
          (stmt ev ''RolePermissionCodes.role'' (take_row (\<lambda>d. role_by_id sess d rid)))) (\<lambda>r.
        tx_bind (stmt ev ''RolePermissionCodes.codes''
          (tx_query (\<lambda>d. order_by (text_le ev) (role_codes sess d rid)))) (\<lambda>codes.
        tx_return (r, codes)))))"

definition SetRolePermissions :: "env \<Rightarrow> ctx \<Rightarrow> uuid \<Rightarrow> uuid \<Rightarrow> uuid list \<Rightarrow> (world, err, unit) op" where
  "SetRolePermissions ev c tenantID rid pids = WithTenantTx ev ''SetRolePermissions'' c (\<lambda>sess.
     tx_bind (stmt ev ''SetRolePermissions.delete'' (modify (delete_grants sess rid))) (\<lambda>_.
     if pids = [] then tx_return ()
     else stmt ev ''SetRolePermissions.create'' (insert_grants sess (map (\<lambda>p.
       \<lparr>rp_RoleID = rid, rp_PermissionID = p, rp_TenantID = tenantID, rp_CreatedAt = now ev\<rparr>) pids))))"

definition ReplaceRolePermissions :: "env \<Rightarrow> ctx \<Rightarrow> uuid \<Rightarrow> uuid \<Rightarrow> string list \<Rightarrow> gotime option
    \<Rightarrow> (world, err, role \<times> string list) op" where
  "ReplaceRolePermissions ev c tenantID rid codes expectedRevision =
     op_try (WithTenantTx ev ''ReplaceRolePermissions'' c (\<lambda>sess.
       tx_bind (tx_map_err (\<lambda>e. if errors_is e ErrRecordNotFound then ErrRoleNotFound else e)
         (stmt ev ''Replace.role'' (take_row (\<lambda>d. role_by_id sess d rid)))) (\<lambda>r.
       tx_bind (require (case expectedRevision of None \<Rightarrow> True | Some t \<Rightarrow> role_UpdatedAt r = t)
         ErrStaleRoleRevision) (\<lambda>_.
       tx_bind (permissionsByCodesTx ev codes) (\<lambda>ps.
       tx_bind (stmt ev ''Replace.delete'' (modify (delete_grants sess rid))) (\<lambda>_.
       tx_bind (if ps = [] then tx_return () else stmt ev ''Replace.create'' (insert_grants sess (map (\<lambda>p.
         \<lparr>rp_RoleID = rid, rp_PermissionID = perm_ID p, rp_TenantID = tenantID, rp_CreatedAt = now ev\<rparr>) ps))) (\<lambda>_.
       tx_bind (stmt ev ''Replace.touch'' (modify (touch_role ev sess rid))) (\<lambda>_.
       stmt ev ''Replace.reload'' (take_row (\<lambda>d. role_by_id sess d rid))))))))))
     (\<lambda>e. op_fail (Wrapped ''authz: replace role permissions'' e))
     (\<lambda>r. op_return (r, sort codes))"

definition ListPermissions :: "env \<Rightarrow> (world, err, permission list) op" where
  "ListPermissions ev = op_map_err (Wrapped ''authz: list permissions'')
     (run_stmt ev ''ListPermissions'' (tx_query (\<lambda>d. order_by (\<lambda>p q.
        if perm_Resource p = perm_Resource q then text_le ev (perm_Action p) (perm_Action q)
        else text_le ev (perm_Resource p) (perm_Resource q)) (permissions d))))"

definition FindPermissionsByCodes :: "env \<Rightarrow> string list \<Rightarrow> (world, err, permission list) op" where
  "FindPermissionsByCodes ev codes = op_map_err (Wrapped ''authz: find permissions by codes'')
     (run_stmt ev ''FindPermissionsByCodes''
        (tx_query (\<lambda>d. filter (\<lambda>p. perm_Code p \<in> set codes) (permissions d))))"

definition UserPermissionCodes :: "env \<Rightarrow> ctx \<Rightarrow> uuid \<Rightarrow> (world, err, string list) op" where
  "UserPermissionCodes ev c u = op_map_err (Wrapped ''authz: user permission codes'')
     (WithTenantTx ev ''UserPermissionCodes'' c (\<lambda>sess. stmt ev ''UserPermissionCodes.pluck''
        (tx_query (\<lambda>d. user_codes sess d u))))"

definition UserRoles :: "env \<Rightarrow> ctx \<Rightarrow> uuid \<Rightarrow> (world, err, role list) op" where
  "UserRoles ev c u = op_map_err (Wrapped ''authz: user roles'')
     (WithTenantTx ev ''UserRoles'' c (\<lambda>sess. stmt ev ''UserRoles.find''
        (tx_query (\<lambda>d. user_roles_joined sess d u))))"

definition UserIDsWithRole :: "env \<Rightarrow> ctx \<Rightarrow> uuid \<Rightarrow> (world, err, uuid list) op" where
  "UserIDsWithRole ev c rid = op_map_err (Wrapped ''authz: users with role'')
     (WithTenantTx ev ''UserIDsWithRole'' c (\<lambda>sess. stmt ev ''UserIDsWithRole.pluck''
        (tx_query (\<lambda>d. map ur_UserID
           (select_rows sess ur_TenantID (\<lambda>ur. ur_RoleID ur = rid) (user_roles d))))))"

definition authz_repo_AssignRole :: "env \<Rightarrow> ctx \<Rightarrow> user_role \<Rightarrow> (world, err, unit) op" where
  "authz_repo_AssignRole ev c ur = WithTenantTx ev ''repo.AssignRole'' c (\<lambda>sess.
     stmt ev ''repo.AssignRole.create'' (insert_user_role sess ur))"

definition authz_repo_RevokeRole :: "env \<Rightarrow> ctx \<Rightarrow> uuid \<Rightarrow> uuid \<Rightarrow> (world, err, unit) op" where
  "authz_repo_RevokeRole ev c u rid = WithTenantTx ev ''repo.RevokeRole'' c (\<lambda>sess.
     stmt ev ''repo.RevokeRole.delete'' (modify (\<lambda>d. d\<lparr>user_roles :=
        delete_rows sess ur_TenantID (\<lambda>ur. ur_UserID ur = u \<and> ur_RoleID ur = rid) (user_roles d)\<rparr>)))"

end
