(* ===== verification/Slug.thy ===== *)
theory Slug
  imports Apperror
begin

text \<open>
  pkg/slug: deriving and validating the identifiers of teams, projects and custom roles.
  \<open>well_formed\<close> is the declarative reading of the format that \<open>Valid\<close> documents; the two
  agree, and every non-empty result of \<open>Make\<close> is well formed, so \<open>Make\<close> is idempotent.
\<close>

definition maxLength :: nat where "maxLength = 63"

definition alphanumeric :: "char \<Rightarrow> bool" where
  "alphanumeric c \<longleftrightarrow> within 97 122 (byte c) \<or> within 48 57 (byte c)"

text \<open>
  \<open>ReplaceAllString\<close> of a repetition of at least \<open>n\<close> characters of a class \<open>P\<close>: the match
  is leftmost and longest, so it is a maximal run.
\<close>

function replace_runs :: "(char \<Rightarrow> bool) \<Rightarrow> nat \<Rightarrow> string \<Rightarrow> string" where
  "replace_runs P n [] = []"
| "replace_runs P n (c # s) =
     (if P c then (if n \<le> Suc (length (takeWhile P s)) then [CHR ''-''] else c # takeWhile P s)
                  @ replace_runs P n (dropWhile P s)
      else c # replace_runs P n s)"
  by pat_completeness auto
termination
  by (relation "measure (\<lambda>(P, n, s). length s)") (auto intro: le_imp_less_Suc length_dropWhile_le)

text \<open>The rune loop of \<open>Make\<close>: \<open>unicode.MaxASCII\<close> is 127 and the test is strict.\<close>

definition fold_non_ascii :: "string \<Rightarrow> string" where
  "fold_non_ascii s = map (\<lambda>c. if fst c < 127 then char_of (fst c) else CHR '' '') (chunks s)"

definition Make :: "(int \<Rightarrow> int) \<Rightarrow> string \<Rightarrow> string" where
  "Make ul input =
     (let lowered = ToLower ul (TrimSpace input);
          b = fold_non_ascii lowered;
          out1 = replace_runs (\<lambda>c. \<not> alphanumeric c) (Suc 0) b;
          out2 = replace_runs (\<lambda>c. c = CHR ''-'') 2 out1;
          out = Trim out2 CHR ''-''
      in if length out > maxLength then Trim (take maxLength out) CHR ''-'' else out)"

definition Valid :: "(int \<Rightarrow> int) \<Rightarrow> string \<Rightarrow> bool" where
  "Valid ul s = (if s = '''' \<or> length s > maxLength then False else Make ul s = s)"

definition Resolve :: "(int \<Rightarrow> int) \<Rightarrow> string \<Rightarrow> string \<Rightarrow> err + string" where
  "Resolve ul explicit name =
     (let trimmed = TrimSpace explicit in
      if trimmed \<noteq> '''' then
        if \<not> Valid ul trimmed
        then Inl (New CodeValidation ''slug must be lowercase alphanumeric with single hyphens'')
        else Inr trimmed
      else let derived = Make ul name in
        if derived = ''''
        then Inl (New CodeValidation ''could not derive a slug from the name; supply one explicitly'')
        else Inr derived)"

section \<open>The format\<close>

definition dashes_ok :: "string \<Rightarrow> bool" where
  "dashes_ok s \<longleftrightarrow> successively (\<lambda>c d. \<not> (c = CHR ''-'' \<and> d = CHR ''-'')) s"

abbreviation slug_chars :: "string \<Rightarrow> bool" where
  "slug_chars s \<equiv> (\<forall>c\<in>set s. alphanumeric c \<or> c = CHR ''-'')"

definition well_formed :: "string \<Rightarrow> bool" where
  "well_formed s \<longleftrightarrow> s \<noteq> [] \<and> length s \<le> maxLength \<and> list_all (\<lambda>c. alphanumeric c \<or> c = CHR ''-'') s
     \<and> hd s \<noteq> CHR ''-'' \<and> last s \<noteq> CHR ''-'' \<and> dashes_ok s"

lemma dash_not_alphanumeric [simp]: "\<not> alphanumeric CHR ''-''"
  by (simp add: alphanumeric_def within_def byte_def)

lemma dashes_ok_append:
  "dashes_ok xs \<Longrightarrow> dashes_ok ys \<Longrightarrow> (ys \<noteq> [] \<Longrightarrow> hd ys \<noteq> CHR ''-'') \<Longrightarrow> dashes_ok (xs @ ys)"
  by (cases ys) (auto simp: dashes_ok_def successively_append_iff)

lemma dashes_ok_infix: "dashes_ok (as @ xs @ bs) \<Longrightarrow> dashes_ok xs"
  by (simp add: dashes_ok_def successively_append_iff)

lemma dashes_ok_Nil [simp]: "dashes_ok []"
  by (simp add: dashes_ok_def)

lemma dashes_ok_Cons [simp]:
  "dashes_ok (c # s) \<longleftrightarrow> dashes_ok s \<and> (s = [] \<or> c \<noteq> CHR ''-'' \<or> hd s \<noteq> CHR ''-'')"
  by (auto simp: dashes_ok_def successively_Cons)

section \<open>The passes of Make\<close>

lemma replace_hd:
  "\<lbrakk>replace_runs (\<lambda>c. \<not> alphanumeric c) (Suc 0) s \<noteq> [];
    hd (replace_runs (\<lambda>c. \<not> alphanumeric c) (Suc 0) s) = CHR ''-''\<rbrakk> \<Longrightarrow> \<not> alphanumeric (hd s)"
  by (cases s) (auto split: if_splits)

lemma replace_chars: "slug_chars (replace_runs (\<lambda>c. \<not> alphanumeric c) (Suc 0) s)"
  by (induction "\<lambda>c. \<not> alphanumeric c" "Suc 0" s rule: replace_runs.induct) auto

lemma replace_Nil: "replace_runs P n s = [] \<Longrightarrow> s = []"
  by (cases s) (auto split: if_splits)

lemma replace_dashes: "dashes_ok (replace_runs (\<lambda>c. \<not> alphanumeric c) (Suc 0) s)"
proof (induction "\<lambda>c. \<not> alphanumeric c" "Suc 0" s rule: replace_runs.induct)
  case (2 c s)
  show ?case
  proof (cases "alphanumeric c")
    case True
    then have "c \<noteq> CHR ''-''" by auto
    then show ?thesis using 2 True by auto
  next
    case False
    let ?r = "replace_runs (\<lambda>c. \<not> alphanumeric c) (Suc 0) (dropWhile (\<lambda>c. \<not> alphanumeric c) s)"
    have "hd ?r \<noteq> CHR ''-''" if ne: "?r \<noteq> []"
    proof
      assume "hd ?r = CHR ''-''"
      then have "\<not> alphanumeric (hd (dropWhile (\<lambda>c. \<not> alphanumeric c) s))" using replace_hd ne by blast
      moreover have "dropWhile (\<lambda>c. \<not> alphanumeric c) s \<noteq> []" using ne by (metis replace_runs.simps(1))
      ultimately show False using hd_dropWhile by blast
    qed
    then show ?thesis using 2 False by auto
  qed
qed simp

lemma collapse_id: "dashes_ok s \<Longrightarrow> replace_runs (\<lambda>c. c = CHR ''-'') 2 s = s"
proof (induction "\<lambda>c. c = CHR ''-''" "2::nat" s rule: replace_runs.induct)
  case (2 c s)
  have ok: "dashes_ok s" using 2(3) by auto
  show ?case
  proof (cases "c = CHR ''-''")
    case True
    then have "s = [] \<or> hd s \<noteq> CHR ''-''" using 2(3) by auto
    then have "takeWhile (\<lambda>c. c = CHR ''-'') s = []" "dropWhile (\<lambda>c. c = CHR ''-'') s = s"
      by (cases s; auto)+
    then show ?thesis using 2 True ok by simp
  qed (use 2 ok in simp)
qed simp

lemma replace_id:
  "slug_chars s \<Longrightarrow> dashes_ok s \<Longrightarrow> replace_runs (\<lambda>c. \<not> alphanumeric c) (Suc 0) s = s"
proof (induction "\<lambda>c. \<not> alphanumeric c" "Suc 0" s rule: replace_runs.induct)
  case (2 c s)
  have ok: "dashes_ok s" using 2(4) by auto
  show ?case
  proof (cases "alphanumeric c")
    case False
    then have c: "c = CHR ''-''" using 2(3) by auto
    then have "s = [] \<or> alphanumeric (hd s)" using 2(3,4) by (cases s) auto
    then have "takeWhile (\<lambda>c. \<not> alphanumeric c) s = []" "dropWhile (\<lambda>c. \<not> alphanumeric c) s = s"
      by (cases s; auto)+
    then show ?thesis using 2 False ok c by simp
  qed (use 2 ok in simp)
qed simp

lemma slug_char_ascii:
  "alphanumeric c \<or> c = CHR ''-'' \<Longrightarrow> byte c < 127 \<and> \<not> is_space (byte c) \<and> \<not> within 65 90 (byte c)"
  by (auto simp: alphanumeric_def within_def is_space_def byte_def)

lemma slug_chars_ascii: "slug_chars s \<Longrightarrow> ascii s"
  using slug_char_ascii by (fastforce simp: ascii_def list_all_iff)

lemma TrimSpace_slug: "slug_chars s \<Longrightarrow> TrimSpace s = s"
proof -
  assume a: "slug_chars s"
  have "concat (map snd (map (\<lambda>c. (byte c, [c])) s)) = s" by (induction s) auto
  moreover have "trim_list (\<lambda>c. is_space (fst c)) (map (\<lambda>c. (byte c, [c])) s) = map (\<lambda>c. (byte c, [c])) s"
    using a slug_char_ascii by (intro trim_list_id) (auto simp: hd_map last_map)
  ultimately show ?thesis by (simp add: TrimSpace_def chunks_ascii[OF slug_chars_ascii[OF a]])
qed

lemma ToLower_slug: "slug_chars s \<Longrightarrow> ToLower ul s = s"
proof -
  assume a: "slug_chars s"
  have "encode_rune (rune_lower ul (byte c)) = [c]" if "c \<in> set s" for c
    using slug_char_ascii[of c] a that
    by (auto simp: encode_rune_def rune_lower_def within_def byte_def)
  then have "concat (map (\<lambda>c. encode_rune (rune_lower ul (byte c))) s) = s"
    by (induction s) auto
  then show ?thesis
    by (simp add: ToLower_def chunks_ascii[OF slug_chars_ascii[OF a]] o_def)
qed

lemma fold_slug: "slug_chars s \<Longrightarrow> fold_non_ascii s = s"
proof -
  assume a: "slug_chars s"
  have "(if byte c < 127 then char_of (byte c) else CHR '' '') = c" if "c \<in> set s" for c
    using slug_char_ascii[of c] a that by (auto simp: byte_def)
  then have "map (\<lambda>c. if byte c < 127 then char_of (byte c) else CHR '' '') s = s"
    by (intro map_idI)
  then show ?thesis
    by (simp add: fold_non_ascii_def chunks_ascii[OF slug_chars_ascii[OF a]] o_def cong: if_cong)
qed

section \<open>Make and Valid\<close>

lemma trim_slug:
  "slug_chars s \<Longrightarrow> dashes_ok s \<Longrightarrow> t = Trim s CHR ''-'' \<Longrightarrow> t \<noteq> []
     \<Longrightarrow> slug_chars t \<and> dashes_ok t \<and> hd t \<noteq> CHR ''-'' \<and> last t \<noteq> CHR ''-'' \<and> length t \<le> length s"
  using trim_list_sublist[of s "\<lambda>d. d = CHR ''-''"] trim_list_set[of "\<lambda>d. d = CHR ''-''" s]
    trim_list_hd[of "\<lambda>d. d = CHR ''-''" s] trim_list_last[of "\<lambda>d. d = CHR ''-''" s]
    trim_list_length[of "\<lambda>d. d = CHR ''-''" s]
  unfolding Trim_def by (metis dashes_ok_infix subset_iff)

lemma dashes_ok_take: "dashes_ok s \<Longrightarrow> dashes_ok (take n s)"
  using dashes_ok_infix[of "[]" "take n s" "drop n s"] by simp

lemma Make_well_formed: "Make ul s \<noteq> [] \<Longrightarrow> well_formed (Make ul s)"
proof -
  assume ne: "Make ul s \<noteq> []"
  define out1 where "out1 = replace_runs (\<lambda>c. \<not> alphanumeric c) (Suc 0) (fold_non_ascii (ToLower ul (TrimSpace s)))"
  have o1: "slug_chars out1" "dashes_ok out1" unfolding out1_def by (rule replace_chars replace_dashes)+
  define out where "out = Trim out1 CHR ''-''"
  have mk: "Make ul s = (if length out > maxLength then Trim (take maxLength out) CHR ''-'' else out)"
    using collapse_id[OF o1(2)] by (simp add: Make_def Let_def out1_def out_def)
  then have "out \<noteq> []" using ne by (auto simp: Trim_def trim_list_def split: if_splits)
  then have o: "slug_chars out" "dashes_ok out" "hd out \<noteq> CHR ''-''" "last out \<noteq> CHR ''-''"
    using trim_slug[OF o1 out_def] by auto
  show ?thesis
  proof (cases "length out > maxLength")
    case True
    have "slug_chars (take maxLength out)" using o(1) by (meson in_set_takeD)
    moreover have "dashes_ok (take maxLength out)" using o(2) by (rule dashes_ok_take)
    moreover have "Make ul s = Trim (take maxLength out) CHR ''-''" using True mk by simp
    ultimately have "slug_chars (Make ul s) \<and> dashes_ok (Make ul s) \<and> hd (Make ul s) \<noteq> CHR ''-''
        \<and> last (Make ul s) \<noteq> CHR ''-'' \<and> length (Make ul s) \<le> length (take maxLength out)"
      using ne by (rule trim_slug)
    then show ?thesis using ne by (simp add: well_formed_def list_all_iff)
  next
    case False
    then show ?thesis using mk o ne by (simp add: well_formed_def list_all_iff)
  qed
qed

lemma Make_of_well_formed: "well_formed s \<Longrightarrow> Make ul s = s"
proof -
  assume w: "well_formed s"
  then have s: "slug_chars s" "dashes_ok s" "hd s \<noteq> CHR ''-''" "last s \<noteq> CHR ''-''" "\<not> maxLength < length s"
    by (auto simp: well_formed_def list_all_iff)
  have "Trim s CHR ''-'' = s" using s(3,4) by (simp add: Trim_def trim_list_id)
  then show ?thesis using s
    by (simp add: Make_def Let_def TrimSpace_slug ToLower_slug fold_slug replace_id collapse_id)
qed

lemma Valid_iff_well_formed: "Valid ul s \<longleftrightarrow> well_formed s"
  using Make_well_formed[of ul s] Make_of_well_formed[of s ul]
  by (auto simp: Valid_def well_formed_def)

lemma Make_Nil [simp]: "Make ul [] = []"
  by (simp add: Make_def TrimSpace_def ToLower_def fold_non_ascii_def trim_list_def Trim_def Let_def)

section \<open>Properties\<close>

text \<open>Make is idempotent, and what it derives is either empty or in the slug format (non-empty, at
  most 63 bytes, lowercase alphanumeric words joined by single hyphens).\<close>

theorem Make_idempotent:
  "Make ul (Make ul s) = Make ul s \<and> (Make ul s = [] \<or> well_formed (Make ul s))"
  using Make_well_formed[of ul s] Make_of_well_formed[of "Make ul s" ul] by (cases "Make ul s = []") auto

text \<open>Valid accepts exactly the slug format.\<close>

theorem Valid_exact: "Valid ul s \<longleftrightarrow> well_formed s"
  by (rule Valid_iff_well_formed)

text \<open>Whatever Resolve returns is a well-formed slug, and an explicit slug is returned as given,
  up to surrounding space.\<close>

theorem Resolve_well_formed:
  assumes "Resolve ul explicit name = Inr r"
  shows "well_formed r \<and> (TrimSpace explicit = [] \<or> r = TrimSpace explicit)"
  using assms Make_well_formed[of ul name]
  by (auto simp: Resolve_def Let_def Valid_iff_well_formed split: if_splits)

theorem Resolve_well_formed_witness: "well_formed ''my-team-2''"
proof -
  have "Resolve (\<lambda>r. r) '''' ''  My Team__2!'' = Inr ''my-team-2''" by code_simp
  from Resolve_well_formed[OF this] show ?thesis by simp
qed

text \<open>The doc comment of Make says that an accented final e is folded to a plain e; the
  accented letter is dropped instead.\<close>

theorem Make_drops_accents:
  "Make (\<lambda>r. r) (''Caf'' @ [char_of (195::int), char_of (169::int)]) = ''caf''"
  by code_simp

end
