(* ===== verification/Authz_Service.thy ===== *)
theory Authz_Service
  imports Authz_Repo Slug
begin

text \<open>
  internal/authz/service.go: the RBAC engine. Every mutation runs in one tenant-scoped
  transaction that loads the actor's authority, the role and its grants, and refuses before
  it writes; errors of the transaction go through \<open>roleMutationError\<close>.
\<close>

section \<open>Assignments made by other services\<close>

text \<open>\<open>AssignedAt\<close> is left at Go's zero time, the instant 0.\<close>

definition new_user_role :: "uuid \<Rightarrow> uuid \<Rightarrow> uuid \<Rightarrow> uuid option \<Rightarrow> user_role" where
  "new_user_role u rid t by_user = \<lparr>ur_UserID = u, ur_RoleID = rid, ur_TenantID = t,
     ur_AssignedAt = 0, ur_AssignedBy = by_user\<rparr>"

definition AssignSystemRoleTx :: "env \<Rightarrow> session \<Rightarrow> uuid \<Rightarrow> uuid \<Rightarrow> string \<Rightarrow> (db, err, unit) tx" where
  "AssignSystemRoleTx ev sess tenantID userID roleSlug =
     tx_bind (tx_map_err (Wrapped ''authz: assign system role'')
       (FindRoleBySlugTx ev sess tenantID roleSlug)) (\<lambda>r.
     AssignUserRoleTx ev sess (new_user_role userID (role_ID r) tenantID None))"

definition AssignSystemRole :: "env \<Rightarrow> ctx \<Rightarrow> uuid \<Rightarrow> uuid \<Rightarrow> string \<Rightarrow> (world, err, unit) op" where
  "AssignSystemRole ev c tenantID userID roleSlug =
     op_try (authz_FindRoleBySlug ev c roleSlug)
       (\<lambda>e. op_fail (Wrapped ''authz: assign system role'' e))
       (\<lambda>r. authz_repo_AssignRole ev c (new_user_role userID (role_ID r) tenantID None))"

definition PrimaryRoleSlug :: "env \<Rightarrow> ctx \<Rightarrow> uuid \<Rightarrow> (world, err, string) op" where
  "PrimaryRoleSlug ev c userID = op_bind (UserRoles ev c userID) (\<lambda>rs.
     op_return (case rs of [] \<Rightarrow> RoleGuest | r # _ \<Rightarrow> role_Slug r))"

section \<open>Permission checks\<close>

definition UserPermissions :: "env \<Rightarrow> ctx \<Rightarrow> uuid \<Rightarrow> uuid \<Rightarrow> (world, err, string list) op" where
  "UserPermissions ev c tenantID userID = (\<lambda>w.
     case GetUserPermissions ev tenantID userID w of
       Some codes \<Rightarrow> (Inr codes, w)
     | None \<Rightarrow> op_bind (UserPermissionCodes ev c userID)
         (\<lambda>codes w'. (Inr codes, SetUserPermissions ev tenantID userID codes w')) w)"

definition HasPermission :: "env \<Rightarrow> ctx \<Rightarrow> uuid \<Rightarrow> uuid \<Rightarrow> string \<Rightarrow> (world, err, bool) op" where
  "HasPermission ev c tenantID userID code =
     op_bind (UserPermissions ev c tenantID userID) (\<lambda>codes. op_return (code \<in> set codes))"

definition InvalidateCache :: "env \<Rightarrow> uuid \<Rightarrow> uuid \<Rightarrow> world \<Rightarrow> world" where
  "InvalidateCache ev tenantID userID w = InvalidateUserPermissions ev tenantID userID w"

text \<open>A mutation followed by the invalidation of some users' cached permissions.\<close>

definition then_invalidate :: "env \<Rightarrow> uuid \<Rightarrow> uuid list \<Rightarrow> 'a \<Rightarrow> (world, err, 'a) op" where
  "then_invalidate ev tenantID us a = (\<lambda>w. (Inr a, fold (InvalidateCache ev tenantID) us w))"

section \<open>Delegation rules\<close>

fun uniquePermissionCodes_from :: "string list \<Rightarrow> string list \<Rightarrow> string list" where
  "uniquePermissionCodes_from seen [] = []"
| "uniquePermissionCodes_from seen (c # cs) =
     (if c \<in> set seen then uniquePermissionCodes_from seen cs
      else c # uniquePermissionCodes_from (c # seen) cs)"

definition uniquePermissionCodes :: "string list \<Rightarrow> string list" where
  "uniquePermissionCodes codes = uniquePermissionCodes_from [] codes"

definition setRolePermissionsTx :: "env \<Rightarrow> session \<Rightarrow> uuid \<Rightarrow> uuid \<Rightarrow> permission list \<Rightarrow> (db, err, unit) tx" where
  "setRolePermissionsTx ev sess tenantID roleID ps =
     tx_bind (stmt ev ''setRolePermissions.delete'' (modify (delete_grants sess roleID))) (\<lambda>_.
     if ps = [] then tx_return ()
     else stmt ev ''setRolePermissions.create'' (insert_grants sess (map (\<lambda>p.
       \<lparr>rp_RoleID = roleID, rp_PermissionID = perm_ID p, rp_TenantID = tenantID, rp_CreatedAt = now ev\<rparr>) ps)))"

definition roleMutationError :: "string \<Rightarrow> err \<Rightarrow> err" where
  "roleMutationError message e = (case As e of
     Some (c, m, x) \<Rightarrow> AppError c m x
   | None \<Rightarrow>
      if errors_is e ErrRoleNotFound then New CodeNotFound ''role not found''
      else if errors_is e ErrUserNotFound then New CodeNotFound ''user not found''
      else if errors_is e ErrUnknownPermissionCode
        then New CodeValidation ''one or more permission codes are unknown''
      else if errors_is e ErrStaleRoleRevision
        then New CodeConflict ''role permissions changed since they were loaded''
      else if errors_is e ErrRoleAssignmentMissing
        then New CodeConflict ''role is not assigned to that user''
      else Wrap CodeInternal message e)"

text \<open>The code loop of the two authorization functions: the first failing code decides.\<close>

fun first_error :: "('a \<Rightarrow> err option) \<Rightarrow> 'a list \<Rightarrow> err option" where
  "first_error f [] = None"
| "first_error f (x # xs) = (case f x of Some e \<Rightarrow> Some e | None \<Rightarrow> first_error f xs)"

definition authorizeRoleDelegation :: "actorAccess \<Rightarrow> role \<Rightarrow> string list \<Rightarrow> err option" where
  "authorizeRoleDelegation actor r codes =
     (if role_Slug r = RoleOwner \<and> \<not> IsOwner actor
      then Some (New CodeForbidden ''only an Owner can manage the Owner role'')
      else if \<not> IsOwner actor \<and> role_Rank r \<le> Rank actor
      then Some (New CodeForbidden ''cannot manage a role at or above your rank'')
      else first_error (\<lambda>code.
        if code = PermOrgManage \<and> role_Slug r \<noteq> RoleOwner
        then Some (New CodeForbidden ''org:manage is exclusive to the Owner role'')
        else if code \<notin> set (Permissions actor)
        then Some (New CodeForbidden ''cannot delegate a permission you do not possess'')
        else None) codes)"

definition authorizeRoleControl :: "actorAccess \<Rightarrow> role \<Rightarrow> string list \<Rightarrow> err option" where
  "authorizeRoleControl actor r codes =
     (if role_Slug r = RoleOwner \<and> \<not> IsOwner actor
      then Some (New CodeForbidden ''only an Owner can manage the Owner role'')
      else if \<not> IsOwner actor \<and> role_Rank r \<le> Rank actor
      then Some (New CodeForbidden ''cannot manage a role at or above your rank'')
      else first_error (\<lambda>code.
        if code = PermOrgManage \<and> \<not> IsOwner actor
        then Some (New CodeForbidden ''only an Owner can manage org:manage'')
        else if code \<notin> set (Permissions actor)
        then Some (New CodeForbidden ''cannot manage permissions you do not possess'')
        else None) codes)"

definition check :: "err option \<Rightarrow> (db, err, unit) tx" where
  "check r = (case r of Some e \<Rightarrow> tx_fail e | None \<Rightarrow> tx_return ())"

section \<open>Mutations\<close>

text \<open>\<open>newID\<close> is \<open>uuid.New()\<close>.\<close>

definition new_role :: "env \<Rightarrow> uuid \<Rightarrow> uuid \<Rightarrow> string \<Rightarrow> string \<Rightarrow> role" where
  "new_role ev newID tenantID name description =
     \<lparr>role_ID = newID, role_TenantID = tenantID, role_Name = name,
      role_Slug = Make (unicode_lower ev) name, role_Description = description,
      role_IsSystem = False, role_Rank = 100, role_CreatedAt = now ev, role_UpdatedAt = now ev\<rparr>"

definition CreateRole_tx :: "env \<Rightarrow> uuid \<Rightarrow> uuid \<Rightarrow> role \<Rightarrow> string list \<Rightarrow> unit body" where
  "CreateRole_tx ev tenantID actorID r codes = (\<lambda>sess.
     tx_bind (actorAccessTx ev sess actorID) (\<lambda>actor.
     tx_bind (require (\<not> (\<not> IsOwner actor \<and> role_Rank r \<le> Rank actor))
       (New CodeForbidden ''cannot create a role at or above your rank'')) (\<lambda>_.
     tx_bind (permissionsByCodesTx ev codes) (\<lambda>ps.
     tx_bind (check (first_error (\<lambda>p.
         if perm_Code p = PermOrgManage
         then Some (New CodeForbidden ''org:manage is exclusive to the Owner role'')
         else if perm_Code p \<notin> set (Permissions actor)
         then Some (New CodeForbidden ''cannot delegate a permission you do not possess'')
         else None) ps)) (\<lambda>_.
     tx_bind (stmt ev ''CreateRole.create'' (insert_role sess r)) (\<lambda>_.
     setRolePermissionsTx ev sess tenantID (role_ID r) ps))))))"

definition CreateRole :: "env \<Rightarrow> ctx \<Rightarrow> uuid \<Rightarrow> uuid \<Rightarrow> uuid \<Rightarrow> string \<Rightarrow> string \<Rightarrow> string list
    \<Rightarrow> (world, err, role) op" where
  "CreateRole ev c newID tenantID actorID name description permissionCodes =
     (let codes = uniquePermissionCodes permissionCodes;
          r = new_role ev newID tenantID name description
      in op_try (WithTenantTx ev ''CreateRole'' c (CreateRole_tx ev tenantID actorID r codes))
           (\<lambda>e. op_fail (roleMutationError ''failed to create role'' e))
           (\<lambda>_. op_return r))"

text \<open>What the three transactions on an existing role load first.\<close>

definition load_actor_role :: "env \<Rightarrow> session \<Rightarrow> uuid \<Rightarrow> uuid \<Rightarrow> (db, err, actorAccess \<times> role) tx" where
  "load_actor_role ev sess actorID roleID =
     tx_bind (actorAccessTx ev sess actorID) (\<lambda>actor.
     tx_bind (roleForUpdateTx ev sess roleID) (\<lambda>r. tx_return (actor, r)))"

definition CanDelegateRole_tx :: "env \<Rightarrow> uuid \<Rightarrow> uuid \<Rightarrow> unit body" where
  "CanDelegateRole_tx ev actorID roleID = (\<lambda>sess.
     tx_bind (load_actor_role ev sess actorID roleID) (\<lambda>(actor, r).
     tx_bind (rolePermissionCodesTx ev sess roleID) (\<lambda>codes.
     check (authorizeRoleDelegation actor r codes))))"

definition CanDelegateRole :: "env \<Rightarrow> ctx \<Rightarrow> uuid \<Rightarrow> uuid \<Rightarrow> uuid \<Rightarrow> (world, err, unit) op" where
  "CanDelegateRole ev c tenantID actorID roleID =
     op_map_err (roleMutationError ''failed to authorize role delegation'')
       (WithTenantTx ev ''CanDelegateRole'' c (CanDelegateRole_tx ev actorID roleID))"

record rolePermissionsView =
  view_RoleID :: uuid
  view_PermissionCodes :: "string list"
  view_Revision :: string

definition roleRevision :: "env \<Rightarrow> gotime \<Rightarrow> string" where
  "roleRevision ev t = format_time ev t"

definition GetRolePermissions :: "env \<Rightarrow> ctx \<Rightarrow> uuid \<Rightarrow> (world, err, rolePermissionsView) op" where
  "GetRolePermissions ev c roleID = op_try (RolePermissionCodes ev c roleID)
     (\<lambda>e. op_fail (if errors_is e ErrRoleNotFound then New CodeNotFound ''role not found''
                   else Wrap CodeInternal ''failed to load role permissions'' e))
     (\<lambda>(r, codes). op_return \<lparr>view_RoleID = role_ID r, view_PermissionCodes = codes,
                              view_Revision = roleRevision ev (role_UpdatedAt r)\<rparr>)"

definition UpdateRolePermissions_tx :: "env \<Rightarrow> uuid \<Rightarrow> uuid \<Rightarrow> uuid \<Rightarrow> string list \<Rightarrow> gotime option \<Rightarrow> role body" where
  "UpdateRolePermissions_tx ev tenantID actorID roleID codes expectedRevision = (\<lambda>sess.
     tx_bind (load_actor_role ev sess actorID roleID) (\<lambda>(actor, r).
     tx_bind (require (case expectedRevision of None \<Rightarrow> True | Some t \<Rightarrow> role_UpdatedAt r = t)
       ErrStaleRoleRevision) (\<lambda>_.
     tx_bind (permissionsByCodesTx ev codes) (\<lambda>ps.
     tx_bind (check (authorizeRoleDelegation actor r codes)) (\<lambda>_.
     tx_bind (require (role_Slug r = RoleOwner \<longrightarrow> PermOrgManage \<in> set codes)
       (New CodeForbidden ''the Owner role must retain org:manage'')) (\<lambda>_.
     tx_bind (setRolePermissionsTx ev sess tenantID roleID ps) (\<lambda>_.
     tx_bind (stmt ev ''UpdateRolePermissions.touch'' (modify (touch_role ev sess roleID))) (\<lambda>_.
     stmt ev ''UpdateRolePermissions.reload'' (take_row (\<lambda>d. role_by_id sess d roleID))))))))))"

text \<open>A failed lookup of the holders yields none, and invalidation degrades to expiry.\<close>

definition holders_of :: "err + uuid list \<Rightarrow> uuid list" where
  "holders_of r = (case r of Inl e \<Rightarrow> [] | Inr us \<Rightarrow> us)"

definition UpdateRolePermissions :: "env \<Rightarrow> ctx \<Rightarrow> uuid \<Rightarrow> uuid \<Rightarrow> uuid \<Rightarrow> string list \<Rightarrow> gotime option
    \<Rightarrow> (world, err, rolePermissionsView) op" where
  "UpdateRolePermissions ev c tenantID actorID roleID permissionCodes expectedRevision = (\<lambda>w0.
     let codes = uniquePermissionCodes permissionCodes;
         (hr, w) = UserIDsWithRole ev c roleID w0;
         holders = holders_of hr
     in op_try (WithTenantTx ev ''UpdateRolePermissions'' c
                  (UpdateRolePermissions_tx ev tenantID actorID roleID codes expectedRevision))
          (\<lambda>e. op_fail (roleMutationError ''failed to update role permissions'' e))
          (\<lambda>r. then_invalidate ev tenantID holders
                 \<lparr>view_RoleID = role_ID r, view_PermissionCodes = sort codes,
                  view_Revision = roleRevision ev (role_UpdatedAt r)\<rparr>) w)"

definition DeleteRole_tx :: "env \<Rightarrow> uuid \<Rightarrow> uuid \<Rightarrow> unit body" where
  "DeleteRole_tx ev actorID roleID = (\<lambda>sess.
     tx_bind (load_actor_role ev sess actorID roleID) (\<lambda>(actor, r).
     tx_bind (require (\<not> role_IsSystem r) (New CodeForbidden ''system roles cannot be deleted'')) (\<lambda>_.
     tx_bind (rolePermissionCodesTx ev sess roleID) (\<lambda>codes.
     tx_bind (check (authorizeRoleControl actor r codes)) (\<lambda>_.
     stmt ev ''DeleteRole.delete'' (delete_role sess roleID))))))"

definition DeleteRole :: "env \<Rightarrow> ctx \<Rightarrow> uuid \<Rightarrow> uuid \<Rightarrow> (world, err, unit) op" where
  "DeleteRole ev c actorID roleID = (\<lambda>w0.
     let (hr, w) = UserIDsWithRole ev c roleID w0; holders = holders_of hr
     in op_try (WithTenantTx ev ''DeleteRole'' c (DeleteRole_tx ev actorID roleID))
          (\<lambda>e. op_fail (roleMutationError ''failed to delete role'' e))
          (\<lambda>_. case TenantIDFromContext c of
             Some t \<Rightarrow> then_invalidate ev t holders () | None \<Rightarrow> op_return ()) w)"

text \<open>The target of an assignment must exist and, for a non-Owner, rank strictly lower.\<close>

definition check_target :: "env \<Rightarrow> session \<Rightarrow> actorAccess \<Rightarrow> uuid \<Rightarrow> (db, err, unit) tx" where
  "check_target ev sess actor userID =
     tx_bind (userExistsTx ev sess userID) (\<lambda>exists.
     tx_bind (require exists ErrUserNotFound) (\<lambda>_.
     tx_bind (highestRoleRankTx ev sess userID) (\<lambda>rank.
     require (case rank of None \<Rightarrow> True | Some k \<Rightarrow> IsOwner actor \<or> \<not> k \<le> Rank actor)
       (New CodeForbidden ''cannot modify a user at or above your rank''))))"

definition AssignRole_tx :: "env \<Rightarrow> uuid \<Rightarrow> uuid \<Rightarrow> uuid \<Rightarrow> uuid \<Rightarrow> unit body" where
  "AssignRole_tx ev tenantID userID roleID assignedBy = (\<lambda>sess.
     tx_bind (load_actor_role ev sess assignedBy roleID) (\<lambda>(actor, r).
     tx_bind (rolePermissionCodesTx ev sess roleID) (\<lambda>codes.
     tx_bind (check (authorizeRoleDelegation actor r codes)) (\<lambda>_.
     tx_bind (check_target ev sess actor userID) (\<lambda>_.
     stmt ev ''AssignRole.create''
       (insert_user_role_do_nothing sess (new_user_role userID roleID tenantID (Some assignedBy))))))))"

definition AssignRole :: "env \<Rightarrow> ctx \<Rightarrow> uuid \<Rightarrow> uuid \<Rightarrow> uuid \<Rightarrow> uuid \<Rightarrow> (world, err, unit) op" where
  "AssignRole ev c tenantID userID roleID assignedBy =
     op_try (WithTenantTx ev ''AssignRole'' c (AssignRole_tx ev tenantID userID roleID assignedBy))
       (\<lambda>e. op_fail (roleMutationError ''failed to assign role'' e))
       (\<lambda>_. then_invalidate ev tenantID [userID] ())"

definition has_grant :: "session \<Rightarrow> db \<Rightarrow> uuid \<Rightarrow> uuid \<Rightarrow> bool" where
  "has_grant sess d u rid \<longleftrightarrow>
     select_rows sess ur_TenantID (\<lambda>ur. ur_UserID ur = u \<and> ur_RoleID ur = rid) (user_roles d) \<noteq> []"

definition delete_user_role :: "session \<Rightarrow> uuid \<Rightarrow> uuid \<Rightarrow> db \<Rightarrow> db" where
  "delete_user_role sess u rid d = d\<lparr>user_roles :=
     delete_rows sess ur_TenantID (\<lambda>ur. ur_UserID ur = u \<and> ur_RoleID ur = rid) (user_roles d)\<rparr>"

definition RevokeRole_tx :: "env \<Rightarrow> uuid \<Rightarrow> uuid \<Rightarrow> uuid \<Rightarrow> unit body" where
  "RevokeRole_tx ev actorID userID roleID = (\<lambda>sess.
     tx_bind (load_actor_role ev sess actorID roleID) (\<lambda>(actor, r).
     tx_bind (rolePermissionCodesTx ev sess roleID) (\<lambda>codes.
     tx_bind (check (authorizeRoleControl actor r codes)) (\<lambda>_.
     tx_bind (check_target ev sess actor userID) (\<lambda>_.
     tx_bind (stmt ev ''RevokeRole.delete''
       (tx_bind (tx_query (\<lambda>d. has_grant sess d userID roleID)) (\<lambda>affected.
        tx_bind (modify (delete_user_role sess userID roleID)) (\<lambda>_. tx_return affected)))) (\<lambda>affected.
     tx_bind (require affected ErrRoleAssignmentMissing) (\<lambda>_.
     if role_Slug r = RoleOwner
     then tx_bind (ownerCountTx ev sess) (\<lambda>count. require (count \<noteq> 0)
            (New CodeConflict ''the organization must retain at least one Owner''))
     else tx_return ())))))))"

definition RevokeRole :: "env \<Rightarrow> ctx \<Rightarrow> uuid \<Rightarrow> uuid \<Rightarrow> uuid \<Rightarrow> uuid \<Rightarrow> (world, err, unit) op" where
  "RevokeRole ev c tenantID actorID userID roleID =
     op_try (WithTenantTx ev ''RevokeRole'' c (RevokeRole_tx ev actorID userID roleID))
       (\<lambda>e. op_fail (roleMutationError ''failed to revoke role'' e))
       (\<lambda>_. then_invalidate ev tenantID [userID] ())"

end
