(* ===== verification/Authz_Facts.thy ===== *)
theory Authz_Facts
  imports Authz_Service
begin

text \<open>
  What a committed RBAC transaction has checked and what it has written: one inversion lemma
  per transaction of Authz_Service, from which the properties are derived.
\<close>

section \<open>Reads\<close>

definition access_of :: "session \<Rightarrow> db \<Rightarrow> uuid \<Rightarrow> actorAccess" where
  "access_of sess d a = \<lparr>Rank = role_Rank (hd (user_roles_joined sess d a)),
     IsOwner = (\<exists>r\<in>set (user_roles_joined sess d a). role_Slug r = RoleOwner),
     Permissions = user_codes sess d a\<rparr>"

lemma access_of_simps [simp]:
  "Permissions (access_of sess d a) = user_codes sess d a"
  "IsOwner (access_of sess d a) = (\<exists>r\<in>set (user_roles_joined sess d a). role_Slug r = RoleOwner)"
  "Rank (access_of sess d a) = role_Rank (hd (user_roles_joined sess d a))"
  by (simp_all add: access_of_def)

lemma actorAccessTx_Inr:
  "actorAccessTx ev sess a d = Inr (acc, d') \<Longrightarrow>
     d' = d \<and> acc = access_of sess d a \<and> live_user sess d a \<noteq> None \<and> user_roles_joined sess d a \<noteq> []"
  by (auto simp: actorAccessTx_def access_of_def tx_inv split: if_splits)

lemma roleForUpdateTx_Inr:
  "roleForUpdateTx ev sess i d = Inr (r, d') \<Longrightarrow> d' = d \<and> role_by_id sess d i = Some r"
  by (auto simp: roleForUpdateTx_def tx_inv)

lemma rolePermissionCodesTx_Inr:
  "rolePermissionCodesTx ev sess i d = Inr (cs, d') \<Longrightarrow> d' = d \<and> cs = role_codes sess d i"
  by (auto simp: rolePermissionCodesTx_def tx_inv)

lemma permissionsByCodesTx_Inr:
  "permissionsByCodesTx ev codes d = Inr (ps, d') \<Longrightarrow>
     d' = d \<and> length ps = length codes \<and> ps = filter (\<lambda>p. perm_Code p \<in> set codes) (permissions d)"
  by (auto simp: permissionsByCodesTx_def tx_inv split: if_splits)

lemma load_actor_role_Inr:
  "load_actor_role ev sess a i d = Inr ((acc, r), d') \<Longrightarrow>
     d' = d \<and> acc = access_of sess d a \<and> live_user sess d a \<noteq> None
     \<and> user_roles_joined sess d a \<noteq> [] \<and> role_by_id sess d i = Some r"
  by (auto simp: load_actor_role_def tx_inv dest!: actorAccessTx_Inr roleForUpdateTx_Inr)

lemma check_Inr [simp, tx_inv]: "check e d = Inr (u, d') \<longleftrightarrow> e = None \<and> d' = d"
  by (auto simp: check_def split: option.splits)

lemma first_error_None [simp]: "first_error f xs = None \<longleftrightarrow> (\<forall>x\<in>set xs. f x = None)"
  by (induction xs) (auto split: option.splits)

lemma check_target_Inr:
  "check_target ev sess acc u d = Inr (x, d') \<Longrightarrow>
     d' = d \<and> live_user sess d u \<noteq> None
     \<and> (IsOwner acc \<or> (\<forall>r rs. user_roles_joined sess d u = r # rs \<longrightarrow> Rank acc < role_Rank r))"
  by (auto simp: check_target_def userExistsTx_def highestRoleRankTx_def tx_inv split: list.splits option.splits)

section \<open>Delegation rules\<close>

lemma authorizeRoleDelegation_None:
  "authorizeRoleDelegation acc r codes = None \<longleftrightarrow>
     (role_Slug r = RoleOwner \<longrightarrow> IsOwner acc) \<and> (IsOwner acc \<or> Rank acc < role_Rank r)
     \<and> (\<forall>c\<in>set codes. c \<in> set (Permissions acc) \<and> (c = PermOrgManage \<longrightarrow> role_Slug r = RoleOwner))"
  by (auto simp: authorizeRoleDelegation_def)

lemma authorizeRoleControl_None:
  "authorizeRoleControl acc r codes = None \<longleftrightarrow>
     (role_Slug r = RoleOwner \<longrightarrow> IsOwner acc) \<and> (IsOwner acc \<or> Rank acc < role_Rank r)
     \<and> (\<forall>c\<in>set codes. c \<in> set (Permissions acc) \<and> (c = PermOrgManage \<longrightarrow> IsOwner acc))"
  by (auto simp: authorizeRoleControl_def)

lemma uniquePermissionCodes_from_set:
  "set (uniquePermissionCodes_from seen cs) = set cs - set seen"
  by (induction seen cs rule: uniquePermissionCodes_from.induct) auto

lemma uniquePermissionCodes_set [simp]: "set (uniquePermissionCodes cs) = set cs"
  by (simp add: uniquePermissionCodes_def uniquePermissionCodes_from_set)

lemma uniquePermissionCodes_distinct [simp]: "distinct (uniquePermissionCodes cs)"
proof -
  have "distinct (uniquePermissionCodes_from seen cs)" for seen
    by (induction seen cs rule: uniquePermissionCodes_from.induct)
      (auto simp: uniquePermissionCodes_from_set)
  then show ?thesis by (simp add: uniquePermissionCodes_def)
qed

section \<open>Writes\<close>

lemma insert_user_role_Inr:
  "insert_user_role sess ur d = Inr (x, d') \<longleftrightarrow>
     rls sess ur_TenantID ur \<and> user_role_fresh ur d \<and> user_role_fks ur d
     \<and> d' = d\<lparr>user_roles := user_roles d @ [ur]\<rparr>"
  by (auto simp: insert_user_role_def tx_inv insert_check_None)

lemma insert_user_role_do_nothing_Inr:
  "insert_user_role_do_nothing sess ur d = Inr (x, d') \<longleftrightarrow>
     rls sess ur_TenantID ur \<and> (if user_role_fresh ur d
       then user_role_fks ur d \<and> d' = d\<lparr>user_roles := user_roles d @ [ur]\<rparr> else d' = d)"
  by (auto simp: insert_user_role_do_nothing_def tx_bind_Inr tx_query_def insert_user_role_Inr split: if_splits)

lemma insert_role_Inr:
  "insert_role sess r d = Inr (x, d') \<longleftrightarrow>
     rls sess role_TenantID r \<and> role_ID r \<notin> role_ID ` set (roles d)
     \<and> \<not> (\<exists>q\<in>set (roles d). role_TenantID q = role_TenantID r \<and> role_Slug q = role_Slug r)
     \<and> role_TenantID r \<in> tenant_ID ` set (tenants d) \<and> d' = d\<lparr>roles := roles d @ [r]\<rparr>"
  by (auto simp: insert_role_def tx_inv insert_check_None)

lemma insert_grants_Inr:
  "insert_grants sess rps d = Inr (x, d') \<Longrightarrow>
     (\<forall>rp\<in>set rps. rls sess rp_TenantID rp \<and> rp_RoleID rp \<in> role_ID ` set (roles d)
        \<and> rp_PermissionID rp \<in> perm_ID ` set (permissions d))
     \<and> d' = d\<lparr>role_permissions := role_permissions d @ rps\<rparr>"
  by (auto simp: insert_grants_def tx_inv insert_check_None)

text \<open>The grants a role is given by \<open>setRolePermissionsTx\<close>.\<close>

definition grant_rows :: "env \<Rightarrow> uuid \<Rightarrow> uuid \<Rightarrow> permission list \<Rightarrow> role_permission list" where
  "grant_rows ev tenantID rid ps = map (\<lambda>p. \<lparr>rp_RoleID = rid, rp_PermissionID = perm_ID p,
     rp_TenantID = tenantID, rp_CreatedAt = now ev\<rparr>) ps"

lemma setRolePermissionsTx_Inr:
  "setRolePermissionsTx ev sess tenantID rid ps d = Inr (x, d') \<Longrightarrow>
     (ps \<noteq> [] \<longrightarrow> sess = Some tenantID) \<and>
     d' = d\<lparr>role_permissions := delete_rows sess rp_TenantID (\<lambda>rp. rp_RoleID rp = rid) (role_permissions d)
             @ grant_rows ev tenantID rid ps\<rparr>"
  by (cases ps) (auto simp: setRolePermissionsTx_def tx_inv delete_grants_def grant_rows_def rls_def
      dest!: insert_grants_Inr split: if_splits)

lemma delete_role_Inr:
  "delete_role sess rid d = Inr (x, d') \<Longrightarrow> role_by_id sess d rid \<noteq> None \<Longrightarrow>
     rid \<notin> inv_RoleID ` set (invitations d) \<and>
     d' = d\<lparr>roles := delete_rows sess role_TenantID (\<lambda>r. role_ID r = rid) (roles d),
            role_permissions := filter (\<lambda>rp. rp_RoleID rp \<noteq> rid) (role_permissions d),
            user_roles := filter (\<lambda>ur. ur_RoleID ur \<noteq> rid) (user_roles d)\<rparr>"
  by (auto simp: delete_role_def split: if_splits)

section \<open>Transactions\<close>

lemma CreateRole_tx_Inr:
  assumes "CreateRole_tx ev tenantID a r codes sess d = Inr (x, d')"
  shows "\<exists>ps. (\<forall>p\<in>set ps. p \<in> set (permissions d) \<and> perm_Code p \<in> set (user_codes sess d a)
           \<and> perm_Code p \<noteq> PermOrgManage)
     \<and> live_user sess d a \<noteq> None \<and> length ps = length codes
     \<and> (IsOwner (access_of sess d a) \<or> Rank (access_of sess d a) < role_Rank r)
     \<and> rls sess role_TenantID r \<and> role_ID r \<notin> role_ID ` set (roles d)
     \<and> \<not> (\<exists>q\<in>set (roles d). role_TenantID q = role_TenantID r \<and> role_Slug q = role_Slug r)
     \<and> (ps \<noteq> [] \<longrightarrow> sess = Some tenantID)
     \<and> d' = d\<lparr>roles := roles d @ [r], role_permissions :=
          delete_rows sess rp_TenantID (\<lambda>rp. rp_RoleID rp = role_ID r) (role_permissions d)
          @ grant_rows ev tenantID (role_ID r) ps\<rparr>"
proof -
  obtain ps d2 where "live_user sess d a \<noteq> None"
      "IsOwner (access_of sess d a) \<or> Rank (access_of sess d a) < role_Rank r"
      "length ps = length codes" "\<forall>p\<in>set ps. p \<in> set (permissions d)"
      "\<forall>p\<in>set ps. perm_Code p \<in> set (user_codes sess d a) \<and> perm_Code p \<noteq> PermOrgManage"
      and ins: "insert_role sess r d = Inr ((), d2)"
      and set: "setRolePermissionsTx ev sess tenantID (role_ID r) ps d2 = Inr (x, d')"
    using assms unfolding CreateRole_tx_def
    by (auto simp: tx_inv split: if_splits dest!: actorAccessTx_Inr permissionsByCodesTx_Inr)
  then show ?thesis using setRolePermissionsTx_Inr[OF set] ins[unfolded insert_role_Inr]
    by (intro exI[of _ ps]) auto
qed

lemma CanDelegateRole_tx_Inr:
  "CanDelegateRole_tx ev a rid sess d = Inr (x, d') \<Longrightarrow>
     d' = d \<and> live_user sess d a \<noteq> None \<and> (\<exists>r. role_by_id sess d rid = Some r
       \<and> authorizeRoleDelegation (access_of sess d a) r (role_codes sess d rid) = None)"
  unfolding CanDelegateRole_tx_def
  by (auto simp: tx_inv dest!: load_actor_role_Inr rolePermissionCodesTx_Inr)

lemma UpdateRolePermissions_tx_Inr:
  assumes "UpdateRolePermissions_tx ev tenantID a rid codes expected sess d = Inr (r', d')"
  shows "\<exists>r ps. role_by_id sess d rid = Some r \<and> live_user sess d a \<noteq> None
     \<and> (\<forall>t. expected = Some t \<longrightarrow> role_UpdatedAt r = t)
     \<and> length ps = length codes \<and> ps = filter (\<lambda>p. perm_Code p \<in> set codes) (permissions d)
     \<and> authorizeRoleDelegation (access_of sess d a) r codes = None
     \<and> (role_Slug r = RoleOwner \<longrightarrow> PermOrgManage \<in> set codes)
     \<and> (ps \<noteq> [] \<longrightarrow> sess = Some tenantID)
     \<and> d' = touch_role ev sess rid (d\<lparr>role_permissions :=
          delete_rows sess rp_TenantID (\<lambda>rp. rp_RoleID rp = rid) (role_permissions d)
          @ grant_rows ev tenantID rid ps\<rparr>)
     \<and> role_by_id sess d' rid = Some r'"
proof -
  obtain r ps d2 where "role_by_id sess d rid = Some r" "live_user sess d a \<noteq> None"
      "\<forall>t. expected = Some t \<longrightarrow> role_UpdatedAt r = t" "length ps = length codes"
      "ps = filter (\<lambda>p. perm_Code p \<in> set codes) (permissions d)"
      "authorizeRoleDelegation (access_of sess d a) r codes = None"
      "role_Slug r = RoleOwner \<longrightarrow> PermOrgManage \<in> set codes"
      and set: "setRolePermissionsTx ev sess tenantID rid ps d = Inr ((), d2)"
      and "d' = touch_role ev sess rid d2" "role_by_id sess d' rid = Some r'"
    using assms unfolding UpdateRolePermissions_tx_def
    by (auto simp: tx_inv split: option.splits dest!: load_actor_role_Inr permissionsByCodesTx_Inr)
  then show ?thesis using setRolePermissionsTx_Inr[OF set] by blast
qed

lemma DeleteRole_tx_Inr:
  "DeleteRole_tx ev a rid sess d = Inr (x, d') \<Longrightarrow>
     live_user sess d a \<noteq> None \<and> (\<exists>r. role_by_id sess d rid = Some r \<and> \<not> role_IsSystem r
       \<and> authorizeRoleControl (access_of sess d a) r (role_codes sess d rid) = None)
     \<and> rid \<notin> inv_RoleID ` set (invitations d)
     \<and> d' = d\<lparr>roles := delete_rows sess role_TenantID (\<lambda>r. role_ID r = rid) (roles d),
            role_permissions := filter (\<lambda>rp. rp_RoleID rp \<noteq> rid) (role_permissions d),
            user_roles := filter (\<lambda>ur. ur_RoleID ur \<noteq> rid) (user_roles d)\<rparr>"
  unfolding DeleteRole_tx_def
  by (auto simp: tx_inv dest!: load_actor_role_Inr rolePermissionCodesTx_Inr delete_role_Inr)

lemma AssignRole_tx_Inr:
  assumes "AssignRole_tx ev tenantID u rid a sess d = Inr (x, d')"
  shows "sess = Some tenantID \<and> live_user sess d a \<noteq> None \<and> live_user sess d u \<noteq> None
     \<and> (\<exists>r. role_by_id sess d rid = Some r
       \<and> authorizeRoleDelegation (access_of sess d a) r (role_codes sess d rid) = None)
     \<and> (IsOwner (access_of sess d a) \<or> (\<forall>r rs. user_roles_joined sess d u = r # rs \<longrightarrow>
          Rank (access_of sess d a) < role_Rank r))
     \<and> (d' = d \<or> d' = d\<lparr>user_roles := user_roles d @ [new_user_role u rid tenantID (Some a)]\<rparr>)"
proof -
  let ?ur = "new_user_role u rid tenantID (Some a)"
  obtain acc r codes d1 d2 d3 where steps: "load_actor_role ev sess a rid d = Inr ((acc, r), d1)"
      "rolePermissionCodesTx ev sess rid d1 = Inr (codes, d2)"
      "authorizeRoleDelegation acc r codes = None"
      "check_target ev sess acc u d2 = Inr ((), d3)"
      and ins: "insert_user_role_do_nothing sess ?ur d3 = Inr (x, d')"
    using assms unfolding AssignRole_tx_def by (auto simp: tx_bind_Inr stmt_Inr)
  have "d3 = d" using steps by (auto dest!: load_actor_role_Inr rolePermissionCodesTx_Inr check_target_Inr)
  then have "sess = Some tenantID \<and> (d' = d \<or> d' = d\<lparr>user_roles := user_roles d @ [?ur]\<rparr>)"
    using ins by (auto simp: insert_user_role_do_nothing_Inr rls_def new_user_role_def split: if_splits)
  with steps show ?thesis
    by (auto dest!: load_actor_role_Inr rolePermissionCodesTx_Inr check_target_Inr)
qed

lemma RevokeRole_tx_Inr:
  "RevokeRole_tx ev a u rid sess d = Inr (x, d') \<Longrightarrow>
     live_user sess d a \<noteq> None \<and> live_user sess d u \<noteq> None
     \<and> (\<exists>r. role_by_id sess d rid = Some r
       \<and> authorizeRoleControl (access_of sess d a) r (role_codes sess d rid) = None
       \<and> (role_Slug r = RoleOwner \<longrightarrow> owner_grants sess d' \<noteq> []))
     \<and> (IsOwner (access_of sess d a) \<or> (\<forall>r rs. user_roles_joined sess d u = r # rs \<longrightarrow>
          Rank (access_of sess d a) < role_Rank r))
     \<and> has_grant sess d u rid \<and> d' = delete_user_role sess u rid d"
  unfolding RevokeRole_tx_def
  by (auto simp: tx_inv ownerCountTx_def split: if_splits
      dest!: load_actor_role_Inr rolePermissionCodesTx_Inr check_target_Inr)

end
