(* ===== verification/Authz_Safety.thy ===== *)
theory Authz_Safety
  imports Authz_Facts
begin

text \<open>
  Safety of the RBAC engine over arbitrary histories. \<open>rbac_step\<close> is one call of a service
  operation, by any actor, with any arguments and any driver failures; \<open>rbac_ok\<close> is the
  invariant of the role tables (what the seed trigger and the constraints establish), and
  the last-Owner rule, the exclusiveness of org:manage, capability confinement and tenant
  isolation are proved for every history by rule induction.
\<close>

section \<open>Membership\<close>

lemma role_codes_mem:
  "c \<in> set (role_codes (Some t) d rid) \<longleftrightarrow> (\<exists>rp\<in>set (role_permissions d). rp_TenantID rp = t \<and>
     rp_RoleID rp = rid \<and> (\<exists>p\<in>set (permissions d). perm_ID p = rp_PermissionID rp \<and> perm_Code p = c))"
  by (auto simp: role_codes_def set_select_rows)

lemma user_codes_mem:
  "c \<in> set (user_codes (Some t) d u) \<longleftrightarrow> (\<exists>ur\<in>set (user_roles d). ur_TenantID ur = t \<and>
     ur_UserID ur = u \<and> c \<in> set (role_codes (Some t) d (ur_RoleID ur)))"
  by (auto simp: user_codes_def user_role_rows_def set_select_rows)

lemma owner_grants_mem:
  "ur \<in> set (owner_grants (Some t) d) \<longleftrightarrow> ur \<in> set (user_roles d) \<and> ur_TenantID ur = t \<and>
     (\<exists>r\<in>set (roles d). role_TenantID r = t \<and> role_ID r = ur_RoleID ur \<and> role_Slug r = RoleOwner) \<and>
     (\<exists>u\<in>set (users d). user_TenantID u = t \<and> user_ID u = ur_UserID ur
        \<and> user_DeletedAt u = None \<and> user_Status u \<noteq> ''disabled'')"
  by (simp only: owner_grants_def set_select_rows rls_def option.inject mem_Collect_eq eq_commute[of t])

lemma role_by_id_SomeD:
  "role_by_id (Some t) d i = Some r \<Longrightarrow> r \<in> set (roles d) \<and> role_TenantID r = t \<and> role_ID r = i"
  by (auto simp: role_by_id_def dest: select_first_SomeD)

lemma role_by_id_exists:
  "q \<in> set (roles d) \<Longrightarrow> role_ID q = i \<Longrightarrow> role_TenantID q = t \<Longrightarrow> \<exists>r. role_by_id (Some t) d i = Some r"
  by (rule ccontr) (auto simp: role_by_id_def dest: select_first_NoneD)

section \<open>The invariant\<close>

text \<open>Primary keys, references within one tenant, the seeded Owner role, org:manage.\<close>

definition keys_ok :: "db \<Rightarrow> bool" where
  "keys_ok d \<longleftrightarrow> distinct (map role_ID (roles d)) \<and> distinct (map perm_ID (permissions d))"

definition refs_ok :: "db \<Rightarrow> bool" where
  "refs_ok d \<longleftrightarrow>
     (\<forall>ur\<in>set (user_roles d). \<exists>r\<in>set (roles d). role_ID r = ur_RoleID ur \<and> role_TenantID r = ur_TenantID ur)
   \<and> (\<forall>rp\<in>set (role_permissions d). \<exists>r\<in>set (roles d). role_ID r = rp_RoleID rp \<and> role_TenantID r = rp_TenantID rp)"

definition owner_roles_ok :: "db \<Rightarrow> bool" where
  "owner_roles_ok d \<longleftrightarrow> (\<forall>r\<in>set (roles d). role_Slug r = RoleOwner \<longrightarrow> role_IsSystem r)
     \<and> (\<forall>t\<in>set (tenants d). \<exists>r\<in>set (roles d). role_TenantID r = tenant_ID t \<and> role_Slug r = RoleOwner)"

definition org_manage_exclusive :: "db \<Rightarrow> bool" where
  "org_manage_exclusive d \<longleftrightarrow> (\<forall>r\<in>set (roles d). role_Slug r \<noteq> RoleOwner \<longrightarrow>
     PermOrgManage \<notin> set (role_codes (Some (role_TenantID r)) d (role_ID r)))"

definition rbac_ok :: "db \<Rightarrow> bool" where
  "rbac_ok d \<longleftrightarrow> keys_ok d \<and> refs_ok d \<and> owner_roles_ok d \<and> org_manage_exclusive d"

lemma role_unique:
  "keys_ok d \<Longrightarrow> r \<in> set (roles d) \<Longrightarrow> q \<in> set (roles d) \<Longrightarrow> role_ID r = role_ID q \<Longrightarrow> r = q"
  by (auto simp: keys_ok_def distinct_map inj_on_def)

lemma perm_unique:
  "keys_ok d \<Longrightarrow> p \<in> set (permissions d) \<Longrightarrow> q \<in> set (permissions d) \<Longrightarrow> perm_ID p = perm_ID q \<Longrightarrow> p = q"
  by (auto simp: keys_ok_def distinct_map inj_on_def)

text \<open>
  Both transactions that write grants do the same to the tables: they replace the grants of
  one role of the tenant and leave those of every other role alone.
\<close>

definition regrant :: "env \<Rightarrow> uuid \<Rightarrow> uuid \<Rightarrow> permission list \<Rightarrow> db \<Rightarrow> db" where
  "regrant ev t rid ps d = d\<lparr>role_permissions :=
     delete_rows (Some t) rp_TenantID (\<lambda>rp. rp_RoleID rp = rid) (role_permissions d) @ grant_rows ev t rid ps\<rparr>"

lemma regrant_bex:
  "(\<exists>rp\<in>set (role_permissions (regrant ev t rid ps d)). Q rp) \<longleftrightarrow>
     (\<exists>rp\<in>set (role_permissions d). \<not> (rp_TenantID rp = t \<and> rp_RoleID rp = rid) \<and> Q rp)
   \<or> (\<exists>p\<in>set ps. Q \<lparr>rp_RoleID = rid, rp_PermissionID = perm_ID p, rp_TenantID = t, rp_CreatedAt = now ev\<rparr>)"
  by (auto simp: regrant_def set_delete_rows grant_rows_def)

lemma regrant_permissions [simp]: "permissions (regrant ev t rid ps d) = permissions d"
  by (simp add: regrant_def)

lemma regrant_other:
  "i \<noteq> rid \<or> t' \<noteq> t \<Longrightarrow> set (role_codes (Some t') (regrant ev t rid ps d) i) = set (role_codes (Some t') d i)"
  unfolding set_eq_iff role_codes_mem regrant_bex by auto

lemma regrant_this:
  "keys_ok d \<Longrightarrow> set ps \<subseteq> set (permissions d) \<Longrightarrow>
     set (role_codes (Some t) (regrant ev t rid ps d) rid) = perm_Code ` set ps"
  unfolding set_eq_iff role_codes_mem regrant_bex
  by (auto simp: image_iff dest: perm_unique) (metis perm_unique subset_iff)

section \<open>The changes an authorized actor can make\<close>

definition drop_role :: "uuid \<Rightarrow> uuid \<Rightarrow> db \<Rightarrow> db" where
  "drop_role t rid d = d\<lparr>roles := delete_rows (Some t) role_TenantID (\<lambda>r. role_ID r = rid) (roles d),
     role_permissions := filter (\<lambda>rp. rp_RoleID rp \<noteq> rid) (role_permissions d),
     user_roles := filter (\<lambda>ur. ur_RoleID ur \<noteq> rid) (user_roles d)\<rparr>"

definition add_role :: "role \<Rightarrow> db \<Rightarrow> db" where
  "add_role r d = d\<lparr>roles := roles d @ [r]\<rparr>"

definition add_user_role :: "user_role \<Rightarrow> db \<Rightarrow> db" where
  "add_user_role ur d = d\<lparr>user_roles := user_roles d @ [ur]\<rparr>"

definition outranks :: "uuid \<Rightarrow> db \<Rightarrow> uuid \<Rightarrow> uuid \<Rightarrow> bool" where
  "outranks t d a u \<longleftrightarrow> IsOwner (access_of (Some t) d a) \<or> (\<forall>r rs. user_roles_joined (Some t) d u = r # rs
     \<longrightarrow> Rank (access_of (Some t) d a) < role_Rank r)"

inductive rbac_change :: "uuid \<Rightarrow> uuid \<Rightarrow> db \<Rightarrow> db \<Rightarrow> bool" for t a where
  create: "\<lbrakk>role_TenantID r = t; \<not> role_IsSystem r; role_ID r \<notin> role_ID ` set (roles d);
      \<not> (\<exists>q\<in>set (roles d). role_TenantID q = t \<and> role_Slug q = role_Slug r);
      t \<in> tenant_ID ` set (tenants d); set ps \<subseteq> set (permissions d);
      perm_Code ` set ps \<subseteq> set (user_codes (Some t) d a) - {PermOrgManage}\<rbrakk>
    \<Longrightarrow> rbac_change t a d (regrant ev t (role_ID r) ps (add_role r d))"
| update: "\<lbrakk>role_by_id (Some t) d rid = Some r; set ps \<subseteq> set (permissions d);
      perm_Code ` set ps \<subseteq> set codes; authorizeRoleDelegation (access_of (Some t) d a) r codes = None\<rbrakk>
    \<Longrightarrow> rbac_change t a d (touch_role ev (Some t) rid (regrant ev t rid ps d))"
| delete: "\<lbrakk>role_by_id (Some t) d rid = Some r; \<not> role_IsSystem r\<rbrakk>
    \<Longrightarrow> rbac_change t a d (drop_role t rid d)"
| assign: "\<lbrakk>role_by_id (Some t) d rid = Some r; outranks t d a u;
      authorizeRoleDelegation (access_of (Some t) d a) r (role_codes (Some t) d rid) = None\<rbrakk>
    \<Longrightarrow> rbac_change t a d (add_user_role (new_user_role u rid t (Some a)) d)"
| revoke: "\<lbrakk>role_by_id (Some t) d rid = Some r; outranks t d a u;
      role_Slug r = RoleOwner \<longrightarrow> owner_grants (Some t) (delete_user_role (Some t) u rid d) \<noteq> []\<rbrakk>
    \<Longrightarrow> rbac_change t a d (delete_user_role (Some t) u rid d)"

text \<open>Every committed transaction of the service is one of these changes.\<close>

lemma set_regrant:
  "ps \<noteq> [] \<longrightarrow> Some t = Some tenantID \<Longrightarrow>
   d\<lparr>role_permissions := delete_rows (Some t) rp_TenantID (\<lambda>rp. rp_RoleID rp = rid) (role_permissions d)
       @ grant_rows ev tenantID rid ps\<rparr> = regrant ev t rid ps d"
  by (cases ps) (auto simp: regrant_def grant_rows_def)

lemma CreateRole_tx_change:
  assumes "CreateRole_tx ev tenantID a (new_role ev nid tenantID name desc) codes (Some t) d = Inr (x, d')"
  shows "rbac_change t a d d'"
proof -
  let ?r = "new_role ev nid tenantID name desc"
  obtain ps where ps: "\<forall>p\<in>set ps. p \<in> set (permissions d) \<and> perm_Code p \<in> set (user_codes (Some t) d a)
           \<and> perm_Code p \<noteq> PermOrgManage" "rls (Some t) role_TenantID ?r" "role_ID ?r \<notin> role_ID ` set (roles d)"
      "\<not> (\<exists>q\<in>set (roles d). role_TenantID q = role_TenantID ?r \<and> role_Slug q = role_Slug ?r)"
      "d' = d\<lparr>roles := roles d @ [?r], role_permissions :=
          delete_rows (Some t) rp_TenantID (\<lambda>rp. rp_RoleID rp = role_ID ?r) (role_permissions d)
          @ grant_rows ev tenantID (role_ID ?r) ps\<rparr>"
    using CreateRole_tx_Inr[OF assms] by blast
  have t: "tenantID = t" using ps(2) by (simp add: rls_def new_role_def)
  have "t \<in> tenant_ID ` set (tenants d)"
    using assms t by (auto simp: CreateRole_tx_def tx_inv insert_role_Inr new_role_def
        dest!: actorAccessTx_Inr permissionsByCodesTx_Inr)
  moreover have "d' = regrant ev t (role_ID ?r) ps (add_role ?r d)"
    using ps(5) t by (simp add: regrant_def add_role_def)
  moreover have "role_TenantID ?r = t" "\<not> role_IsSystem ?r" using t by (simp_all add: new_role_def)
  moreover have "set ps \<subseteq> set (permissions d)"
      "perm_Code ` set ps \<subseteq> set (user_codes (Some t) d a) - {PermOrgManage}" using ps(1) by auto
  ultimately show ?thesis
    using ps(3,4) rbac_change.create[of ?r t d ps a ev] by simp
qed

lemma UpdateRolePermissions_tx_change:
  assumes "UpdateRolePermissions_tx ev tenantID a rid codes expected (Some t) d = Inr (r', d')"
  shows "rbac_change t a d d'"
proof -
  obtain r ps where r: "role_by_id (Some t) d rid = Some r" "ps \<noteq> [] \<longrightarrow> Some t = Some tenantID"
      "ps = filter (\<lambda>p. perm_Code p \<in> set codes) (permissions d)"
      "authorizeRoleDelegation (access_of (Some t) d a) r codes = None"
      "d' = touch_role ev (Some t) rid (d\<lparr>role_permissions :=
          delete_rows (Some t) rp_TenantID (\<lambda>rp. rp_RoleID rp = rid) (role_permissions d)
          @ grant_rows ev tenantID rid ps\<rparr>)"
    using UpdateRolePermissions_tx_Inr[OF assms] by blast
  then show ?thesis
    unfolding r(5) set_regrant[OF r(2)] by (intro rbac_change.update[of t d rid r ps codes a]) auto
qed

lemma DeleteRole_tx_change:
  "DeleteRole_tx ev a rid (Some t) d = Inr (x, d') \<Longrightarrow> rbac_change t a d d'"
  by (drule DeleteRole_tx_Inr) (auto simp: drop_role_def[symmetric] intro: rbac_change.delete)

lemma AssignRole_tx_change:
  "AssignRole_tx ev tenantID u rid a (Some t) d = Inr (x, d') \<Longrightarrow> d' = d \<or> rbac_change t a d d'"
  by (drule AssignRole_tx_Inr)
    (auto simp: add_user_role_def[symmetric] outranks_def intro!: rbac_change.assign)

lemma RevokeRole_tx_change:
  "RevokeRole_tx ev a u rid (Some t) d = Inr (x, d') \<Longrightarrow> rbac_change t a d d'"
  by (drule RevokeRole_tx_Inr) (auto simp: outranks_def intro!: rbac_change.revoke)

section \<open>How the changes act on grants and assignments\<close>

lemma role_codes_frame [simp]:
  "role_codes sess (add_role r d) = role_codes sess d"
  "role_codes sess (touch_role ev sess' rid d) = role_codes sess d"
  "role_codes sess (add_user_role ur d) = role_codes sess d"
  "role_codes sess (delete_user_role sess' u rid d) = role_codes sess d"
  by (simp_all add: fun_eq_iff role_codes_def add_role_def touch_role_def add_user_role_def delete_user_role_def)

lemma user_roles_frame [simp]:
  "user_roles (regrant ev t rid ps d) = user_roles d"
  "user_roles (add_role r d) = user_roles d"
  "user_roles (touch_role ev sess rid d) = user_roles d"
  by (simp_all add: regrant_def add_role_def touch_role_def)

lemma roles_frame [simp]:
  "roles (regrant ev t rid ps d) = roles d"
  "roles (add_user_role ur d) = roles d"
  "roles (delete_user_role sess u rid d) = roles d"
  "roles (add_role r d) = roles d @ [r]"
  by (simp_all add: regrant_def add_role_def add_user_role_def delete_user_role_def)

lemma role_permissions_frame [simp]:
  "role_permissions (add_role r d) = role_permissions d"
  "role_permissions (touch_role ev sess rid d) = role_permissions d"
  "role_permissions (add_user_role ur d) = role_permissions d"
  "role_permissions (delete_user_role sess u rid d) = role_permissions d"
  by (simp_all add: touch_role_def add_role_def add_user_role_def delete_user_role_def)

lemma other_tables_frame [simp]:
  "permissions (add_role r d) = permissions d" "permissions (touch_role ev sess rid d) = permissions d"
  "permissions (add_user_role ur d) = permissions d"
  "permissions (delete_user_role sess u rid d) = permissions d"
  "permissions (drop_role t rid d) = permissions d"
  "tenants (add_role r d) = tenants d" "tenants (touch_role ev sess rid d) = tenants d"
  "tenants (add_user_role ur d) = tenants d" "tenants (delete_user_role sess u rid d) = tenants d"
  "tenants (drop_role t rid d) = tenants d" "tenants (regrant ev t rid ps d) = tenants d"
  "users (add_role r d) = users d" "users (touch_role ev sess rid d) = users d"
  "users (add_user_role ur d) = users d" "users (delete_user_role sess u rid d) = users d"
  "users (drop_role t rid d) = users d" "users (regrant ev t rid ps d) = users d"
  by (simp_all add: add_role_def touch_role_def add_user_role_def delete_user_role_def drop_role_def regrant_def)

lemma user_roles_writes [simp]:
  "set (user_roles (add_user_role ur d)) = insert ur (set (user_roles d))"
  "set (user_roles (drop_role t rid d)) = {ur \<in> set (user_roles d). ur_RoleID ur \<noteq> rid}"
  "set (user_roles (delete_user_role (Some t) u rid d)) =
     {ur \<in> set (user_roles d). \<not> (ur_TenantID ur = t \<and> ur_UserID ur = u \<and> ur_RoleID ur = rid)}"
  by (auto simp: add_user_role_def drop_role_def delete_user_role_def set_delete_rows)

lemma roles_drop [simp]:
  "set (roles (drop_role t rid d)) = {r \<in> set (roles d). \<not> (role_TenantID r = t \<and> role_ID r = rid)}"
  by (auto simp: drop_role_def set_delete_rows)

lemma role_permissions_drop [simp]:
  "set (role_permissions (drop_role t rid d)) = {rp \<in> set (role_permissions d). rp_RoleID rp \<noteq> rid}"
  by (simp add: drop_role_def)

lemma role_codes_drop:
  "set (role_codes (Some t') (drop_role t rid d) i) = (if i = rid then {} else set (role_codes (Some t') d i))"
  by (cases "i = rid") (auto simp: role_codes_mem set_eq_iff)

text \<open>Touching a role changes no field that the rules look at.\<close>

lemma touch_map:
  "\<exists>g. roles (touch_role ev sess rid d) = map g (roles d) \<and> (\<forall>r. \<exists>k. g r = r\<lparr>role_UpdatedAt := k\<rparr>)"
proof -
  let ?g = "\<lambda>r. if rls sess role_TenantID r \<and> role_ID r = rid then r\<lparr>role_UpdatedAt := now ev\<rparr> else r"
  have "\<exists>k. ?g r = r\<lparr>role_UpdatedAt := k\<rparr>" for r
    by (cases r) auto
  moreover have "roles (touch_role ev sess rid d) = map ?g (roles d)"
    by (simp add: touch_role_def update_rows_def)
  ultimately show ?thesis by blast
qed

lemma touch_bex:
  assumes "\<And>r k. Q (r\<lparr>role_UpdatedAt := k\<rparr>) = Q r"
  shows "(\<exists>r\<in>set (roles (touch_role ev sess rid d)). Q r) \<longleftrightarrow> (\<exists>r\<in>set (roles d). Q r)"
proof -
  obtain g where g: "roles (touch_role ev sess rid d) = map g (roles d)" "\<forall>r. \<exists>k. g r = r\<lparr>role_UpdatedAt := k\<rparr>"
    using touch_map by blast
  then have "Q (g r) = Q r" for r using assms by metis
  then show ?thesis using g(1) by simp
qed

lemma touch_ball:
  assumes "\<And>r k. Q (r\<lparr>role_UpdatedAt := k\<rparr>) = Q r"
  shows "(\<forall>r\<in>set (roles (touch_role ev sess rid d)). Q r) \<longleftrightarrow> (\<forall>r\<in>set (roles d). Q r)"
  using touch_bex[of "\<lambda>r. \<not> Q r" ev sess rid d] assms by blast

lemma touch_ids: "map role_ID (roles (touch_role ev sess rid d)) = map role_ID (roles d)"
  by (simp add: touch_role_def map_update_rows)

section \<open>The invariant is kept\<close>

lemma keys_ok_change: "rbac_change t a d d' \<Longrightarrow> keys_ok d \<Longrightarrow> keys_ok d'"
proof (induction rule: rbac_change.induct)
  case (delete d rid r)
  then show ?case by (auto simp: keys_ok_def drop_role_def delete_rows_def intro: distinct_map_filter)
qed (auto simp: keys_ok_def touch_ids)

lemma refs_ok_change: "rbac_change t a d d' \<Longrightarrow> keys_ok d \<Longrightarrow> refs_ok d \<Longrightarrow> refs_ok d'"
proof (induction rule: rbac_change.induct)
  case (create r d ps ev)
  then show ?case unfolding refs_ok_def by (auto simp: regrant_def grant_rows_def set_delete_rows)
next
  case (update d rid r ps codes ev)
  have "\<exists>q\<in>set (roles d). role_ID q = rid \<and> role_TenantID q = t"
    using update(1) by (auto dest: role_by_id_SomeD)
  then have "refs_ok (regrant ev t rid ps d)"
    using update.prems unfolding refs_ok_def by (auto simp: regrant_def grant_rows_def set_delete_rows)
  then show ?case unfolding refs_ok_def by (simp add: touch_bex)
next
  case (assign d rid r u)
  then show ?case unfolding refs_ok_def by (auto simp: new_user_role_def dest: role_by_id_SomeD)
next
  case (delete d rid r)
  then show ?case unfolding refs_ok_def by (simp, metis)
qed (auto simp: refs_ok_def)

lemma owner_roles_ok_change:
  "rbac_change t a d d' \<Longrightarrow> keys_ok d \<Longrightarrow> owner_roles_ok d \<Longrightarrow> owner_roles_ok d'"
proof (induction rule: rbac_change.induct)
  case (create r d ps ev)
  then have "role_Slug r \<noteq> RoleOwner" unfolding owner_roles_ok_def by force
  then show ?case using create.prems unfolding owner_roles_ok_def by auto
next
  case (update d rid r ps codes ev)
  then show ?case unfolding owner_roles_ok_def by (simp add: touch_bex touch_ball)
next
  case (delete d rid r)
  then have "role_Slug r \<noteq> RoleOwner" "\<And>q. q \<in> set (roles d) \<Longrightarrow> role_ID q = rid \<Longrightarrow> q = r"
    unfolding owner_roles_ok_def by (auto dest: role_by_id_SomeD role_unique)
  then show ?case using delete.prems unfolding owner_roles_ok_def by fastforce
qed (simp_all add: owner_roles_ok_def)

lemma user_roles_of_codes:
  "user_roles d' = user_roles d \<Longrightarrow> (\<And>i. set (role_codes (Some t) d' i) = set (role_codes (Some t) d i))
     \<Longrightarrow> set (user_codes (Some t) d' u) = set (user_codes (Some t) d u)"
  unfolding set_eq_iff user_codes_mem by simp

text \<open>The grants a change can add all come from the actor, and never reach a custom role as org:manage.\<close>

lemma rbac_change_role_codes:
  assumes "rbac_change t a d d'" "keys_ok d" "role_by_id (Some t) d i = Some r"
  shows "set (role_codes (Some t) d' i) \<subseteq> set (role_codes (Some t) d i)
     \<or> (set (role_codes (Some t) d' i) \<subseteq> set (user_codes (Some t) d a)
        \<and> (PermOrgManage \<in> set (role_codes (Some t) d' i) \<longrightarrow> role_Slug r = RoleOwner))"
  using assms
proof (induction rule: rbac_change.induct)
  case (create q d ps ev)
  have "i \<in> role_ID ` set (roles d)" using role_by_id_SomeD[OF create.prems(2)] by (metis imageI)
  then have "i \<noteq> role_ID q" using create.hyps(3) by metis
  then show ?case by (simp add: regrant_other)
next
  case (update d rid q ps codes ev)
  show ?case
  proof (cases "i = rid")
    case True
    then have "q = r" using update by simp
    have "set (role_codes (Some t) (regrant ev t rid ps d) rid) = perm_Code ` set ps"
      using update by (intro regrant_this)
    moreover have "\<And>c. c \<in> set codes \<Longrightarrow> c \<in> set (user_codes (Some t) d a)
        \<and> (c = PermOrgManage \<longrightarrow> role_Slug r = RoleOwner)"
      using update(4) \<open>q = r\<close> by (simp add: authorizeRoleDelegation_None)
    ultimately show ?thesis using update(3) True by auto
  qed (simp add: regrant_other)
qed (auto simp: role_codes_drop)

lemma rbac_change_new_role_codes:
  assumes "rbac_change t a d d'" "keys_ok d" "role_by_id (Some t) d i = None"
    "r \<in> set (roles d')" "role_TenantID r = t" "role_ID r = i"
  shows "set (role_codes (Some t) d' i) \<subseteq> set (user_codes (Some t) d a) - {PermOrgManage}"
  using assms
proof (induction rule: rbac_change.induct)
  case (create q d ps ev)
  have none: "\<forall>x\<in>set (roles d). \<not> (role_TenantID x = t \<and> role_ID x = i)"
    using create.prems by (auto simp: role_by_id_def dest: select_first_NoneD)
  then have "r = q" using create.prems by auto
  have "keys_ok (add_role q d)" using create by (auto simp: keys_ok_def)
  then have "set (role_codes (Some t) (regrant ev t (role_ID q) ps (add_role q d)) (role_ID q)) = perm_Code ` set ps"
    using create by (intro regrant_this) auto
  then show ?case using create \<open>r = q\<close> by simp
next
  case (update d rid q ps codes ev)
  have "\<exists>x\<in>set (roles (touch_role ev (Some t) rid (regrant ev t rid ps d))). role_TenantID x = t \<and> role_ID x = i"
    using update.prems by blast
  then have "\<exists>x\<in>set (roles d). role_TenantID x = t \<and> role_ID x = i"
    by (simp add: touch_bex)
  then show ?case using update.prems by (auto simp: role_by_id_def dest: select_first_NoneD)
qed (auto simp: role_by_id_def dest: select_first_NoneD)

lemma rbac_change_tenant: "rbac_change t a d d' \<Longrightarrow> t' \<noteq> t \<Longrightarrow> refs_ok d \<Longrightarrow> keys_ok d \<Longrightarrow>
    set (role_codes (Some t') d' i) = set (role_codes (Some t') d i)"
proof (induction rule: rbac_change.induct)
  case (delete d rid r)
  have "\<forall>c. c \<notin> set (role_codes (Some t') d rid)"
    using delete.prems role_by_id_SomeD[OF delete(1)] unfolding refs_ok_def
    by (metis role_codes_mem role_unique)
  then have "set (role_codes (Some t') d rid) = {}" by simp
  then show ?case by (simp add: role_codes_drop)
qed (simp_all add: regrant_other)

lemma rbac_change_roles:
  assumes "rbac_change t a d d'" "r \<in> set (roles d')"
  shows "(\<exists>q\<in>set (roles d). role_ID q = role_ID r \<and> role_TenantID q = role_TenantID r \<and> role_Slug q = role_Slug r)
     \<or> (role_TenantID r = t \<and> role_by_id (Some t) d (role_ID r) = None)"
  using assms
proof (induction rule: rbac_change.induct)
  case (create q d ps ev)
  show ?case
  proof (cases "r = q")
    case True
    have "role_by_id (Some t) d (role_ID q) = None"
    proof (rule ccontr)
      assume "role_by_id (Some t) d (role_ID q) \<noteq> None"
      then obtain x where "x \<in> set (roles d)" "role_ID x = role_ID q" by (auto dest: role_by_id_SomeD)
      then show False using create.hyps(3) by (metis imageI)
    qed
    then show ?thesis using True create.hyps(1) by simp
  qed (use create in auto)
next
  case (update d rid q ps codes ev)
  have "\<exists>x\<in>set (roles (touch_role ev (Some t) rid (regrant ev t rid ps d))).
      role_ID x = role_ID r \<and> role_TenantID x = role_TenantID r \<and> role_Slug x = role_Slug r"
    using update.prems by blast
  then show ?case by (simp add: touch_bex)
qed auto

lemma org_manage_change:
  assumes "rbac_change t a d d'" "keys_ok d" "refs_ok d" "org_manage_exclusive d"
  shows "org_manage_exclusive d'"
  unfolding org_manage_exclusive_def
proof (intro ballI impI)
  fix r assume r: "r \<in> set (roles d')" "role_Slug r \<noteq> RoleOwner"
  show "PermOrgManage \<notin> set (role_codes (Some (role_TenantID r)) d' (role_ID r))"
  proof (cases "role_TenantID r = t \<and> role_by_id (Some t) d (role_ID r) = None")
    case True
    then show ?thesis using rbac_change_new_role_codes[OF assms(1,2) _ r(1)] by blast
  next
    case False
    then obtain q where q: "q \<in> set (roles d)" "role_ID q = role_ID r" "role_TenantID q = role_TenantID r"
        "role_Slug q = role_Slug r"
      using rbac_change_roles[OF assms(1) r(1)] by blast
    then have old: "PermOrgManage \<notin> set (role_codes (Some (role_TenantID r)) d (role_ID r))"
      using assms(4) r(2) unfolding org_manage_exclusive_def by metis
    show ?thesis
    proof (cases "role_TenantID r = t")
      case True
      then obtain q' where q': "role_by_id (Some t) d (role_ID r) = Some q'" using False by auto
      then have "q' = q" using role_by_id_SomeD[OF q'] q role_unique[OF assms(2)] by metis
      then show ?thesis
        using rbac_change_role_codes[OF assms(1,2) q'] old q r(2) True by auto
    next
      case diff: False
      show ?thesis using rbac_change_tenant[OF assms(1) diff assms(3,2)] old by simp
    qed
  qed
qed

theorem rbac_ok_change: "rbac_change t a d d' \<Longrightarrow> rbac_ok d \<Longrightarrow> rbac_ok d'"
  unfolding rbac_ok_def
  using keys_ok_change refs_ok_change owner_roles_ok_change org_manage_change by blast

section \<open>Confinement of capabilities\<close>

lemma rbac_change_user_roles:
  assumes "rbac_change t a d d'" "ur \<in> set (user_roles d')"
  shows "ur \<in> set (user_roles d) \<or> (ur_TenantID ur = t
     \<and> set (role_codes (Some t) d' (ur_RoleID ur)) \<subseteq> set (user_codes (Some t) d a))"
  using assms
proof (induction rule: rbac_change.induct)
  case (assign d rid r u)
  then show ?case by (auto simp: new_user_role_def authorizeRoleDelegation_None)
qed auto

lemma rbac_change_user_codes:
  assumes "rbac_change t a d d'" "rbac_ok d"
  shows "set (user_codes (Some t) d' u) \<subseteq> set (user_codes (Some t) d u) \<union> set (user_codes (Some t) d a)"
proof
  fix c assume "c \<in> set (user_codes (Some t) d' u)"
  then obtain ur where ur: "ur \<in> set (user_roles d')" "ur_TenantID ur = t" "ur_UserID ur = u"
      "c \<in> set (role_codes (Some t) d' (ur_RoleID ur))" by (auto simp: user_codes_mem)
  show "c \<in> set (user_codes (Some t) d u) \<union> set (user_codes (Some t) d a)"
  proof (cases "ur \<in> set (user_roles d)")
    case True
    have k: "keys_ok d" using assms(2) by (simp add: rbac_ok_def)
    obtain q where "q \<in> set (roles d)" "role_ID q = ur_RoleID ur" "role_TenantID q = t"
      using assms(2) True ur(2) unfolding rbac_ok_def refs_ok_def by blast
    then obtain q' where "role_by_id (Some t) d (ur_RoleID ur) = Some q'"
      using role_by_id_exists by blast
    from rbac_change_role_codes[OF assms(1) k this] ur(4)
    have "c \<in> set (role_codes (Some t) d (ur_RoleID ur)) \<or> c \<in> set (user_codes (Some t) d a)" by blast
    moreover have "c \<in> set (role_codes (Some t) d (ur_RoleID ur)) \<Longrightarrow> c \<in> set (user_codes (Some t) d u)"
      unfolding user_codes_mem using True ur(2,3) by blast
    ultimately show ?thesis by blast
  qed (use rbac_change_user_roles[OF assms(1) ur(1)] ur in auto)
qed

lemma rbac_change_user_codes_tenant:
  assumes "rbac_change t a d d'" "t' \<noteq> t" "rbac_ok d"
  shows "set (user_codes (Some t') d' u) \<subseteq> set (user_codes (Some t') d u)"
proof
  fix c assume "c \<in> set (user_codes (Some t') d' u)"
  then obtain ur where ur: "ur \<in> set (user_roles d')" "ur_TenantID ur = t'" "ur_UserID ur = u"
      "c \<in> set (role_codes (Some t') d' (ur_RoleID ur))" by (auto simp: user_codes_mem)
  then have "ur \<in> set (user_roles d)" using rbac_change_user_roles[OF assms(1) ur(1)] assms(2) by auto
  moreover have "c \<in> set (role_codes (Some t') d (ur_RoleID ur))"
    using rbac_change_tenant[OF assms(1,2)] assms(3) ur(4) by (auto simp: rbac_ok_def)
  ultimately show "c \<in> set (user_codes (Some t') d u)" using ur by (auto simp: user_codes_mem)
qed

section \<open>The last Owner\<close>

lemma owner_grants_nonempty:
  "owner_grants (Some t) d \<noteq> [] \<longleftrightarrow> (\<exists>ur. ur \<in> set (owner_grants (Some t) d))"
  by (cases "owner_grants (Some t) d") auto

lemma owner_grants_mono:
  "owner_grants (Some t) d \<noteq> [] \<Longrightarrow> set (user_roles d) \<subseteq> set (user_roles d') \<Longrightarrow>
     set (roles d) \<subseteq> set (roles d') \<Longrightarrow> users d' = users d \<Longrightarrow> owner_grants (Some t) d' \<noteq> []"
proof -
  assume a: "owner_grants (Some t) d \<noteq> []" "set (user_roles d) \<subseteq> set (user_roles d')"
    "set (roles d) \<subseteq> set (roles d')" "users d' = users d"
  then obtain ur where ur: "ur \<in> set (owner_grants (Some t) d)" unfolding owner_grants_nonempty by blast
  have mono: "\<And>P. (\<exists>r\<in>set (roles d). P r) \<Longrightarrow> \<exists>r\<in>set (roles d'). P r" using a(3) by blast
  have "ur \<in> set (owner_grants (Some t) d')"
    using ur a(2) unfolding owner_grants_mem a(4) by (intro conjI mono) auto
  then show ?thesis unfolding owner_grants_nonempty by blast
qed

lemma owner_change:
  assumes "rbac_change t a d d'" "rbac_ok d" "owner_grants (Some t') d \<noteq> []"
  shows "owner_grants (Some t') d' \<noteq> []"
  using assms
proof (induction rule: rbac_change.induct)
  case (update d rid r ps codes ev)
  then show ?case unfolding owner_grants_nonempty owner_grants_mem by (simp add: touch_bex)
next
  case (delete d rid r)
  obtain ur where ur: "ur \<in> set (user_roles d)" "ur_TenantID ur = t'"
      "\<exists>q\<in>set (roles d). role_TenantID q = t' \<and> role_ID q = ur_RoleID ur \<and> role_Slug q = RoleOwner"
      "\<exists>u\<in>set (users d). user_TenantID u = t' \<and> user_ID u = ur_UserID ur
        \<and> user_DeletedAt u = None \<and> user_Status u \<noteq> ''disabled''"
    using delete.prems(2) unfolding owner_grants_nonempty owner_grants_mem by blast
  then obtain q where q: "q \<in> set (roles d)" "role_TenantID q = t'" "role_ID q = ur_RoleID ur"
      "role_Slug q = RoleOwner" by blast
  have "role_ID q \<noteq> rid"
    using role_by_id_SomeD[OF delete.hyps(1)] delete.hyps(2) q delete.prems(1)
    unfolding rbac_ok_def owner_roles_ok_def by (metis role_unique)
  then have "ur \<in> set (owner_grants (Some t') (drop_role t rid d))"
    using ur(1,2,4) q unfolding owner_grants_mem by auto
  then show ?case unfolding owner_grants_nonempty by blast
next
  case (revoke d rid r u)
  show ?case
  proof (cases "t' = t \<and> role_Slug r = RoleOwner")
    case False
    obtain ur where ur: "ur \<in> set (owner_grants (Some t') d)"
      using revoke.prems(2) unfolding owner_grants_nonempty by blast
    then obtain q where "q \<in> set (roles d)" "role_TenantID q = t'" "role_ID q = ur_RoleID ur"
        "role_Slug q = RoleOwner" unfolding owner_grants_mem by blast
    then have "\<not> (ur_TenantID ur = t \<and> ur_RoleID ur = rid)"
      using False ur role_by_id_SomeD[OF revoke.hyps(1)] revoke.prems(1)
      unfolding rbac_ok_def owner_grants_mem by (metis role_unique)
    then have "ur \<in> set (owner_grants (Some t') (delete_user_role (Some t) u rid d))"
      using ur unfolding owner_grants_mem by auto
    then show ?thesis unfolding owner_grants_nonempty by blast
  qed (use revoke.hyps(3) in blast)
qed (erule owner_grants_mono; force)+

section \<open>Tenant isolation\<close>

lemma rbac_change_foreign:
  assumes "rbac_change t a d d'" "rbac_ok d"
  shows "foreign_view t d' = foreign_view t d"
  using assms
proof (induction rule: rbac_change.induct)
  case (delete d rid r)
  have r: "r \<in> set (roles d)" "role_TenantID r = t" "role_ID r = rid"
    using role_by_id_SomeD[OF delete.hyps(1)] by auto
  then have "rp_TenantID rp = t" if "rp \<in> set (role_permissions d)" "rp_RoleID rp = rid" for rp
    using that delete.prems unfolding rbac_ok_def refs_ok_def by (metis role_unique)
  moreover have "ur_TenantID ur = t" if "ur \<in> set (user_roles d)" "ur_RoleID ur = rid" for ur
    using that r delete.prems unfolding rbac_ok_def refs_ok_def by (metis role_unique)
  ultimately have "filter (\<lambda>rp. rp_TenantID rp \<noteq> t) (filter (\<lambda>rp. rp_RoleID rp \<noteq> rid) (role_permissions d))
        = filter (\<lambda>rp. rp_TenantID rp \<noteq> t) (role_permissions d)"
      "filter (\<lambda>ur. ur_TenantID ur \<noteq> t) (filter (\<lambda>ur. ur_RoleID ur \<noteq> rid) (user_roles d))
        = filter (\<lambda>ur. ur_TenantID ur \<noteq> t) (user_roles d)"
    using filter_filter_keep[where P = "\<lambda>rp. rp_RoleID rp \<noteq> rid" and Q = "\<lambda>rp. rp_TenantID rp \<noteq> t"]
      filter_filter_keep[where P = "\<lambda>ur. ur_RoleID ur \<noteq> rid" and Q = "\<lambda>ur. ur_TenantID ur \<noteq> t"]
    by (blast+)
  then show ?case by (simp add: foreign_view_def drop_role_def del: filter_filter)
qed (simp_all add: foreign_view_def regrant_def grant_rows_def add_role_def touch_role_def
      add_user_role_def delete_user_role_def new_user_role_def)

end
