(* ===== verification/Authz_History.thy ===== *)
theory Authz_History
  imports Authz_Safety
begin

text \<open>
  Histories of RBAC calls. \<open>rbac_step c\<close> is one call of a service operation in the request
  context \<open>c\<close>; \<open>served_step t\<close> restricts it to calls whose cache invalidations reach Redis,
  which leave no cached permission set of the tenant outdated that was current before.
\<close>

section \<open>One call\<close>

lemma tx_op_cases:
  assumes "op_try (WithTenantTx ev l c B) (\<lambda>e. op_fail (g e)) k w = (res, w')"
  obtains (err) e where "res = Inl (g e)" "w' = w"
    | (ok) t x d where "c = Some t" "B (Some t) (store w) = Inr (x, d)" "k x (w\<lparr>store := d\<rparr>) = (res, w')"
  using assms by (auto simp: op_try_eq dest: WithTenantTx_rollback WithTenantTx_ok)

lemma then_invalidate_eq: "then_invalidate ev t us a w = (res, w') \<longleftrightarrow>
    res = Inr a \<and> w' = fold (InvalidateUserPermissions ev t) us w"
  by (auto simp: then_invalidate_def InvalidateCache_def[abs_def])

lemma store_invalidate_users [simp]: "store (fold (InvalidateUserPermissions ev t) us w) = store w"
  by (rule redis.store_invalidate_all)

lemma UserIDsWithRole_world: "UserIDsWithRole ev c rid w = (r, w') \<Longrightarrow> w' = w"
  unfolding UserIDsWithRole_def
  by (auto simp: op_map_err_eq tx_inv dest!: WithTenantTx_rollback WithTenantTx_ok)

lemma UserPermissions_store: "UserPermissions ev c ten u w = (r, w') \<Longrightarrow> store w' = store w"
  by (auto simp: UserPermissions_def UserPermissionCodes_def op_map_err_eq op_bind_eq tx_inv
      split: option.splits dest!: WithTenantTx_rollback WithTenantTx_ok)

inductive rbac_step :: "ctx \<Rightarrow> world \<Rightarrow> world \<Rightarrow> bool" for c where
  create: "CreateRole ev c nid ten a name desc codes w = (r1, w') \<Longrightarrow> rbac_step c w w'"
| update: "UpdateRolePermissions ev c ten a rid codes expected w = (r2, w') \<Longrightarrow> rbac_step c w w'"
| delete: "DeleteRole ev c a rid w = (r3, w') \<Longrightarrow> rbac_step c w w'"
| assign: "AssignRole ev c ten u rid a w = (r4, w') \<Longrightarrow> rbac_step c w w'"
| revoke: "RevokeRole ev c ten a u rid w = (r5, w') \<Longrightarrow> rbac_step c w w'"
| delegate: "CanDelegateRole ev c ten a rid w = (r6, w') \<Longrightarrow> rbac_step c w w'"
| permission: "HasPermission ev c ten u code w = (r7, w') \<Longrightarrow> rbac_step c w w'"

lemma CreateRole_change:
  assumes "CreateRole ev c nid ten a name desc codes w = (r, w')"
  shows "w' = w \<or> (\<exists>t d. c = Some t \<and> rbac_change t a (store w) d \<and> w' = w\<lparr>store := d\<rparr>)"
  using assms unfolding CreateRole_def Let_def
  by (elim tx_op_cases) (auto dest: CreateRole_tx_change)

lemma UpdateRolePermissions_change:
  assumes "UpdateRolePermissions ev c ten a rid codes expected w = (r, w')"
  shows "w' = w \<or> (\<exists>t d us hr w1. c = Some t \<and> rbac_change t a (store w) d \<and> UserIDsWithRole ev c rid w = (hr, w1)
     \<and> us = holders_of hr \<and> w' = fold (InvalidateUserPermissions ev ten) us (w\<lparr>store := d\<rparr>))"
proof -
  obtain hr w1 where h: "UserIDsWithRole ev c rid w = (hr, w1)" by fastforce
  then have "w1 = w" by (rule UserIDsWithRole_world)
  with assms h show ?thesis unfolding UpdateRolePermissions_def Let_def
    by (auto simp: then_invalidate_eq elim!: tx_op_cases dest!: UpdateRolePermissions_tx_change)
qed

lemma DeleteRole_change:
  assumes "DeleteRole ev c a rid w = (r, w')"
  shows "w' = w \<or> (\<exists>t d us hr w1. c = Some t \<and> rbac_change t a (store w) d \<and> UserIDsWithRole ev c rid w = (hr, w1)
     \<and> us = holders_of hr \<and> w' = fold (InvalidateUserPermissions ev t) us (w\<lparr>store := d\<rparr>))"
proof -
  obtain hr w1 where h: "UserIDsWithRole ev c rid w = (hr, w1)" by fastforce
  then have "w1 = w" by (rule UserIDsWithRole_world)
  with assms h show ?thesis unfolding DeleteRole_def Let_def
    by (auto simp: then_invalidate_eq TenantIDFromContext_def elim!: tx_op_cases dest!: DeleteRole_tx_change)
qed

lemma AssignRole_change:
  assumes "AssignRole ev c ten u rid a w = (r, w')"
  shows "w' = w \<or> (\<exists>t d. c = Some t \<and> (d = store w \<or> rbac_change t a (store w) d)
     \<and> w' = InvalidateUserPermissions ev ten u (w\<lparr>store := d\<rparr>))"
  using assms unfolding AssignRole_def
  by (elim tx_op_cases) (auto simp: then_invalidate_eq dest!: AssignRole_tx_change)

lemma RevokeRole_change:
  assumes "RevokeRole ev c ten a u rid w = (r, w')"
  shows "w' = w \<or> (\<exists>t d. c = Some t \<and> rbac_change t a (store w) d
     \<and> w' = InvalidateUserPermissions ev ten u (w\<lparr>store := d\<rparr>))"
  using assms unfolding RevokeRole_def
  by (elim tx_op_cases) (auto simp: then_invalidate_eq dest!: RevokeRole_tx_change)

lemma CanDelegateRole_world: "CanDelegateRole ev c ten a rid w = (r, w') \<Longrightarrow> w' = w"
  unfolding CanDelegateRole_def
  by (auto simp: op_map_err_eq dest!: WithTenantTx_rollback WithTenantTx_ok CanDelegateRole_tx_Inr)

lemma HasPermission_store: "HasPermission ev c ten u code w = (r, w') \<Longrightarrow> store w' = store w"
  by (auto simp: HasPermission_def op_bind_eq dest: UserPermissions_store)

lemma rbac_step_store:
  "rbac_step c w w' \<Longrightarrow> store w' = store w \<or> (\<exists>t a. c = Some t \<and> rbac_change t a (store w) (store w'))"
proof (induction rule: rbac_step.induct)
  case (create ev nid ten a name desc codes w r1 w')
  then show ?case by (auto dest: CreateRole_change)
next
  case (update ev ten a rid codes expected w r2 w')
  then show ?case by (auto dest: UpdateRolePermissions_change)
next
  case (delete ev a rid w r3 w')
  then show ?case by (auto dest: DeleteRole_change)
next
  case (assign ev ten u rid a w r4 w')
  then show ?case by (auto dest!: AssignRole_change)
next
  case (revoke ev ten a u rid w r5 w')
  then show ?case by (auto dest!: RevokeRole_change)
qed (auto dest: CanDelegateRole_world HasPermission_store)

section \<open>Histories\<close>

definition any_step :: "world \<Rightarrow> world \<Rightarrow> bool" where
  "any_step w w' \<longleftrightarrow> (\<exists>c. rbac_step c w w')"

definition tenant_codes :: "uuid \<Rightarrow> db \<Rightarrow> string set" where
  "tenant_codes t d = (\<Union>u. set (user_codes (Some t) d u))"

lemma any_step_invariant:
  assumes "any_step\<^sup>*\<^sup>* w w'" "P (store w)"
    "\<And>t a d d'. rbac_change t a d d' \<Longrightarrow> P d \<Longrightarrow> P d'"
  shows "P (store w')"
  using assms(1,2)
proof (induction rule: rtranclp_induct)
  case (step y z)
  then show ?case using rbac_step_store[of _ y z] assms(3) unfolding any_step_def by metis
qed simp

lemma any_step_ok: "any_step\<^sup>*\<^sup>* w w' \<Longrightarrow> rbac_ok (store w) \<Longrightarrow> rbac_ok (store w')"
  by (rule any_step_invariant[where P = rbac_ok]) (auto intro: rbac_ok_change)

lemma any_step_owner:
  "any_step\<^sup>*\<^sup>* w w' \<Longrightarrow> rbac_ok (store w) \<Longrightarrow> owner_grants (Some t) (store w) \<noteq> []
     \<Longrightarrow> owner_grants (Some t) (store w') \<noteq> []"
  using any_step_invariant[where P = "\<lambda>d. rbac_ok d \<and> owner_grants (Some t) d \<noteq> []"]
  by (metis owner_change rbac_ok_change)

lemma tenant_codes_change:
  "rbac_change t a d d' \<Longrightarrow> rbac_ok d \<Longrightarrow> tenant_codes t' d' \<subseteq> tenant_codes t' d"
  using rbac_change_user_codes[of t a d d'] rbac_change_user_codes_tenant[of t a d d' t']
  unfolding tenant_codes_def by (cases "t' = t") (simp, blast)+

lemma any_step_codes:
  "any_step\<^sup>*\<^sup>* w w' \<Longrightarrow> rbac_ok (store w) \<Longrightarrow> tenant_codes t (store w') \<subseteq> tenant_codes t (store w)"
  using any_step_invariant[where P = "\<lambda>d. rbac_ok d \<and> tenant_codes t d \<subseteq> tenant_codes t (store w)"]
    tenant_codes_change rbac_ok_change by (smt (verit, best) order_trans order_refl)

lemma tenant_step_foreign:
  assumes "(rbac_step (Some t))\<^sup>*\<^sup>* w w'" "rbac_ok (store w)"
  shows "foreign_view t (store w') = foreign_view t (store w) \<and> rbac_ok (store w')"
  using assms
proof (induction rule: rtranclp_induct)
  case (step y z)
  then show ?case using rbac_step_store[OF step.hyps(2)] rbac_change_foreign rbac_ok_change by auto
qed simp

section \<open>Coherence of the permission cache\<close>

text \<open>
  Every cached permission set of a tenant is what the database would answer. It is kept by
  calls whose invalidations reach Redis and, for the two operations that first look up the
  holders of a role, whose lookup does not fail: whatever such a call leaves in the cache is
  current, or it was there before and the call did not concern it (\<open>refreshes\<close>).
\<close>

definition coherent :: "uuid \<Rightarrow> world \<Rightarrow> bool" where
  "coherent t w \<longleftrightarrow> (\<forall>u codes ex. perm_cache w (t, u) = Some (codes, ex) \<longrightarrow>
     set codes = set (user_codes (Some t) (store w) u))"

definition refreshes :: "uuid \<Rightarrow> world \<Rightarrow> world \<Rightarrow> bool" where
  "refreshes t w w' \<longleftrightarrow> (\<forall>u codes ex. perm_cache w' (t, u) = Some (codes, ex) \<longrightarrow>
     set codes = set (user_codes (Some t) (store w') u)
     \<or> perm_cache w (t, u) = Some (codes, ex)
       \<and> set (user_codes (Some t) (store w') u) = set (user_codes (Some t) (store w) u))"

text \<open>The foreign key of user_roles.\<close>

definition assigned_roles_exist :: "db \<Rightarrow> bool" where
  "assigned_roles_exist d \<longleftrightarrow> ur_RoleID ` set (user_roles d) \<subseteq> role_ID ` set (roles d)"

definition invalidations_reach :: "env \<Rightarrow> bool" where
  "invalidations_reach ev \<longleftrightarrow> redis_on ev \<and> \<not> redis_fault ev ''del''
     \<and> (\<forall>l\<in>{''UserIDsWithRole.begin'', ''UserIDsWithRole.set_config'', ''UserIDsWithRole.pluck'',
             ''UserIDsWithRole.commit''}. sql_fault ev l = None)"

inductive served_step :: "uuid \<Rightarrow> world \<Rightarrow> world \<Rightarrow> bool" for t where
  create: "CreateRole ev (Some t) nid t a name desc codes w = (r1, w') \<Longrightarrow> served_step t w w'"
| update: "invalidations_reach ev \<Longrightarrow>
    UpdateRolePermissions ev (Some t) t a rid codes expected w = (r2, w') \<Longrightarrow> served_step t w w'"
| delete: "invalidations_reach ev \<Longrightarrow> DeleteRole ev (Some t) a rid w = (r3, w') \<Longrightarrow> served_step t w w'"
| assign: "invalidations_reach ev \<Longrightarrow> AssignRole ev (Some t) t u rid a w = (r4, w') \<Longrightarrow> served_step t w w'"
| revoke: "invalidations_reach ev \<Longrightarrow> RevokeRole ev (Some t) t a u rid w = (r5, w') \<Longrightarrow> served_step t w w'"
| permission: "HasPermission ev (Some t) t u code w = (r7, w') \<Longrightarrow> served_step t w w'"

lemma served_step_rbac: "served_step t w w' \<Longrightarrow> rbac_step (Some t) w w'"
  by (induction rule: served_step.induct) (auto intro: rbac_step.intros)

lemma perm_cache_invalidated:
  "invalidations_reach ev \<Longrightarrow> perm_cache (fold (InvalidateUserPermissions ev t) us w) (t', u) =
     (if t' = t \<and> u \<in> set us then None else perm_cache w (t', u))"
  by (induction us arbitrary: w) (auto simp: InvalidateUserPermissions_def invalidations_reach_def)

lemma refreshes_refl [simp]: "refreshes t w w"
  by (auto simp: refreshes_def)

lemma refreshes_store:
  "(\<And>u. set (user_codes (Some t) d u) = set (user_codes (Some t) (store w) u)) \<Longrightarrow> refreshes t w (w\<lparr>store := d\<rparr>)"
  by (auto simp: refreshes_def)

lemma invalidated_refreshes:
  assumes "invalidations_reach ev"
    "\<And>u. u \<notin> set us \<Longrightarrow> set (user_codes (Some t) d u) = set (user_codes (Some t) (store w) u)"
  shows "refreshes t w (fold (InvalidateUserPermissions ev t) us (w\<lparr>store := d\<rparr>))"
  using assms by (auto simp: refreshes_def perm_cache_invalidated)

lemma UserIDsWithRole_served:
  "invalidations_reach ev \<Longrightarrow> UserIDsWithRole ev (Some t) rid w = (hr, w1) \<Longrightarrow>
     set (holders_of hr) = {ur_UserID ur |ur. ur \<in> set (user_roles (store w)) \<and> ur_TenantID ur = t \<and> ur_RoleID ur = rid}"
  by (auto simp: UserIDsWithRole_def op_map_err_def op_try_def WithTenantTx_def TenantIDFromContext_def
      WithTenantTxID_def set_tenant_def run_tx_def invalidations_reach_def tx_bind_def tx_map_err_def
      tx_return_def tx_query_def op_return_def holders_of_def set_select_rows)

text \<open>Which users a change concerns.\<close>

lemma user_codes_unchanged:
  "(\<And>ur. ur_TenantID ur = t \<Longrightarrow> ur_UserID ur = u \<Longrightarrow>
      ur \<in> set (user_roles d') \<longleftrightarrow> ur \<in> set (user_roles d)) \<Longrightarrow>
   (\<And>ur. ur \<in> set (user_roles d) \<Longrightarrow> ur_TenantID ur = t \<Longrightarrow> ur_UserID ur = u \<Longrightarrow>
      set (role_codes (Some t) d' (ur_RoleID ur)) = set (role_codes (Some t) d (ur_RoleID ur))) \<Longrightarrow>
   set (user_codes (Some t) d' u) = set (user_codes (Some t) d u)"
  unfolding set_eq_iff user_codes_mem by blast

lemma CreateRole_served:
  assumes "CreateRole ev (Some t) nid t a name desc codes w = (r, w')" "assigned_roles_exist (store w)"
  shows "refreshes t w w'"
  using assms(1) unfolding CreateRole_def Let_def
proof (cases rule: tx_op_cases)
  case (ok t' x d)
  let ?r = "new_role ev nid t name desc"
  obtain ps where ps: "role_ID ?r \<notin> role_ID ` set (roles (store w))"
      "ps \<noteq> [] \<longrightarrow> Some t = Some t"
      "d = (store w)\<lparr>roles := roles (store w) @ [?r], role_permissions :=
          delete_rows (Some t) rp_TenantID (\<lambda>rp. rp_RoleID rp = role_ID ?r) (role_permissions (store w))
          @ grant_rows ev t (role_ID ?r) ps\<rparr>"
    using CreateRole_tx_Inr[OF ok(2)] ok(1) by blast
  have d: "d = regrant ev t (role_ID ?r) ps (add_role ?r (store w))"
    unfolding ps(3) by (simp add: regrant_def add_role_def)
  have "set (user_codes (Some t) d u) = set (user_codes (Some t) (store w) u)" for u
  proof (rule user_codes_unchanged)
    fix ur assume ur: "ur \<in> set (user_roles (store w))"
    have "ur_RoleID ur \<in> role_ID ` set (roles (store w))"
      using assms(2) ur unfolding assigned_roles_exist_def by (rule subsetD[OF _ imageI])
    then have "ur_RoleID ur \<noteq> role_ID ?r" using ps(1) by metis
    then show "set (role_codes (Some t) d (ur_RoleID ur)) = set (role_codes (Some t) (store w) (ur_RoleID ur))"
      unfolding d by (simp add: regrant_other)
  qed (simp add: d)
  then show ?thesis using ok refreshes_store by simp
qed simp

lemma UpdateRolePermissions_served:
  assumes "UpdateRolePermissions ev (Some t) t a rid codes expected w = (r, w')"
    "invalidations_reach ev"
  shows "refreshes t w w'"
proof -
  obtain hr w1 where h: "UserIDsWithRole ev (Some t) rid w = (hr, w1)" by fastforce
  then have "w1 = w" by (rule UserIDsWithRole_world)
  then have "op_try (WithTenantTx ev ''UpdateRolePermissions'' (Some t)
        (UpdateRolePermissions_tx ev t a rid (uniquePermissionCodes codes) expected))
      (\<lambda>e. op_fail (roleMutationError ''failed to update role permissions'' e))
      (\<lambda>r. then_invalidate ev t (holders_of hr) \<lparr>view_RoleID = role_ID r,
         view_PermissionCodes = sort (uniquePermissionCodes codes),
         view_Revision = roleRevision ev (role_UpdatedAt r)\<rparr>) w = (r, w')"
    using assms(1) h unfolding UpdateRolePermissions_def Let_def by simp
  then show ?thesis
  proof (cases rule: tx_op_cases)
    case (ok t' x d)
    obtain ps where d: "ps \<noteq> [] \<longrightarrow> Some t = Some t" "d = touch_role ev (Some t) rid ((store w)\<lparr>role_permissions :=
          delete_rows (Some t) rp_TenantID (\<lambda>rp. rp_RoleID rp = rid) (role_permissions (store w))
          @ grant_rows ev t rid ps\<rparr>)"
      using UpdateRolePermissions_tx_Inr[OF ok(2)] ok(1) by blast
    have "set (user_codes (Some t) d u) = set (user_codes (Some t) (store w) u)" if "u \<notin> set (holders_of hr)" for u
    proof (rule user_codes_unchanged)
      fix ur assume "ur \<in> set (user_roles (store w))" "ur_TenantID ur = t" "ur_UserID ur = u"
      then have "ur_RoleID ur \<noteq> rid" using that UserIDsWithRole_served[OF assms(2) h] by auto
      then show "set (role_codes (Some t) d (ur_RoleID ur)) = set (role_codes (Some t) (store w) (ur_RoleID ur))"
        unfolding d(2) set_regrant[OF d(1)] by (simp add: regrant_other)
    qed (simp add: d(2) touch_role_def)
    then have "refreshes t w (fold (InvalidateUserPermissions ev t) (holders_of hr) (w\<lparr>store := d\<rparr>))"
      using assms(2) by (intro invalidated_refreshes)
    then show ?thesis using ok(3) by (simp add: then_invalidate_eq)
  qed simp
qed

lemma DeleteRole_served:
  assumes "DeleteRole ev (Some t) a rid w = (r, w')" "invalidations_reach ev"
  shows "refreshes t w w'"
proof -
  obtain hr w1 where h: "UserIDsWithRole ev (Some t) rid w = (hr, w1)" by fastforce
  then have "w1 = w" by (rule UserIDsWithRole_world)
  then have "op_try (WithTenantTx ev ''DeleteRole'' (Some t) (DeleteRole_tx ev a rid))
      (\<lambda>e. op_fail (roleMutationError ''failed to delete role'' e))
      (\<lambda>_. then_invalidate ev t (holders_of hr) ()) w = (r, w')"
    using assms(1) h unfolding DeleteRole_def Let_def TenantIDFromContext_def by simp
  then show ?thesis
  proof (cases rule: tx_op_cases)
    case (ok t' x d)
    have d: "d = drop_role t rid (store w)"
      using DeleteRole_tx_Inr[OF ok(2)] ok(1) by (simp add: drop_role_def)
    have "set (user_codes (Some t) d u) = set (user_codes (Some t) (store w) u)" if "u \<notin> set (holders_of hr)" for u
    proof -
      have "ur_RoleID ur \<noteq> rid" if "ur \<in> set (user_roles (store w))" "ur_TenantID ur = t" "ur_UserID ur = u" for ur
        using that \<open>u \<notin> set (holders_of hr)\<close> UserIDsWithRole_served[OF assms(2) h] by auto
      then show ?thesis unfolding d by (intro user_codes_unchanged) (auto simp: role_codes_drop)
    qed
    then have "refreshes t w (fold (InvalidateUserPermissions ev t) (holders_of hr) (w\<lparr>store := d\<rparr>))"
      using assms(2) by (intro invalidated_refreshes)
    then show ?thesis using ok(3) by (simp add: then_invalidate_eq)
  qed simp
qed

lemma AssignRole_served:
  assumes "AssignRole ev (Some t) t u rid a w = (r, w')" "invalidations_reach ev"
  shows "refreshes t w w'"
  using assms(1) unfolding AssignRole_def
proof (cases rule: tx_op_cases)
  case (ok t' x d)
  have d: "d = store w \<or> d = add_user_role (new_user_role u rid t (Some a)) (store w)"
    using AssignRole_tx_Inr[OF ok(2)] by (auto simp: add_user_role_def)
  have "set (user_codes (Some t) d v) = set (user_codes (Some t) (store w) v)" if "v \<notin> set [u]" for v
  proof (rule user_codes_unchanged)
    fix ur :: user_role assume "ur_UserID ur = v"
    then have "ur \<noteq> new_user_role u rid t (Some a)" using that by (auto simp: new_user_role_def)
    then show "ur \<in> set (user_roles d) \<longleftrightarrow> ur \<in> set (user_roles (store w))" using d by auto
  qed (use d in auto)
  then have "refreshes t w (fold (InvalidateUserPermissions ev t) [u] (w\<lparr>store := d\<rparr>))"
    using assms(2) by (intro invalidated_refreshes)
  then show ?thesis using ok(3) by (simp add: then_invalidate_eq)
qed simp

lemma RevokeRole_served:
  assumes "RevokeRole ev (Some t) t a u rid w = (r, w')" "invalidations_reach ev"
  shows "refreshes t w w'"
  using assms(1) unfolding RevokeRole_def
proof (cases rule: tx_op_cases)
  case (ok t' x d)
  have d: "d = delete_user_role (Some t) u rid (store w)"
    using RevokeRole_tx_Inr[OF ok(2)] ok(1) by simp
  have "set (user_codes (Some t) d v) = set (user_codes (Some t) (store w) v)" if "v \<notin> set [u]" for v
    using that unfolding d by (intro user_codes_unchanged) auto
  then have "refreshes t w (fold (InvalidateUserPermissions ev t) [u] (w\<lparr>store := d\<rparr>))"
    using assms(2) by (intro invalidated_refreshes)
  then show ?thesis using ok(3) by (simp add: then_invalidate_eq)
qed simp

lemma UserPermissionCodes_Inr:
  "UserPermissionCodes ev (Some t) u w = (r, w') \<Longrightarrow>
     w' = w \<and> (\<forall>codes. r = Inr codes \<longrightarrow> codes = user_codes (Some t) (store w) u)"
  unfolding UserPermissionCodes_def
  by (auto simp: op_map_err_eq tx_inv dest!: WithTenantTx_rollback WithTenantTx_Some)

lemma UserPermissions_served:
  assumes "UserPermissions ev (Some t) t u w = (r, w')"
  shows "refreshes t w w'"
proof (cases "GetUserPermissions ev t u w")
  case (Some cs)
  then show ?thesis using assms by (simp add: UserPermissions_def)
next
  case None
  have "refreshes t w (SetUserPermissions ev t u (user_codes (Some t) (store w) u) w)"
    by (auto simp: refreshes_def SetUserPermissions_def)
  then show ?thesis using assms None
    by (auto simp: UserPermissions_def op_bind_eq dest!: UserPermissionCodes_Inr)
qed

lemma UserPermissions_answer:
  assumes "UserPermissions ev (Some t) t u w = (Inr codes, w')"
  shows "(\<exists>ex. perm_cache w (t, u) = Some (codes, ex)) \<and> GetUserPermissions ev t u w = Some codes
    \<or> codes = user_codes (Some t) (store w) u"
  using assms by (cases "GetUserPermissions ev t u w")
    (auto simp: UserPermissions_def GetUserPermissions_def live_entry_def op_bind_eq
      split: if_splits option.splits dest!: UserPermissionCodes_Inr)

lemma served_step_refreshes:
  "served_step t w w' \<Longrightarrow> assigned_roles_exist (store w) \<Longrightarrow> refreshes t w w'"
proof (induction rule: served_step.induct)
  case (permission ev u code w r7 w')
  then show ?case by (auto simp: HasPermission_def op_bind_eq dest!: UserPermissions_served)
qed (rule CreateRole_served UpdateRolePermissions_served DeleteRole_served AssignRole_served RevokeRole_served; assumption)+

lemma touch_role_ids: "role_ID ` set (roles (touch_role ev sess rid d)) = role_ID ` set (roles d)"
proof -
  obtain g where g: "roles (touch_role ev sess rid d) = map g (roles d)" "\<And>r. \<exists>k. g r = r\<lparr>role_UpdatedAt := k\<rparr>"
    using touch_map[of ev sess rid d] by blast
  have "role_ID (g r) = role_ID r" for r using g(2)[of r] by auto
  then show ?thesis by (simp add: g(1) image_image)
qed

lemma rbac_change_assigned:
  assumes "rbac_change t a d d'" and d: "ur_RoleID ` set (user_roles d) \<subseteq> role_ID ` set (roles d)"
  shows "ur_RoleID ` set (user_roles d') \<subseteq> role_ID ` set (roles d')"
  using assms(1)
proof cases
  case (update rid r ps codes ev)
  then show ?thesis using d by (simp only: touch_role_ids user_roles_frame roles_frame)
next
  case (delete rid r)
  show ?thesis unfolding delete(1) user_roles_writes roles_drop
  proof
    fix i assume "i \<in> ur_RoleID ` {ur \<in> set (user_roles d). ur_RoleID ur \<noteq> rid}"
    then have "i \<noteq> rid" "i \<in> role_ID ` set (roles d)" using d by auto
    then show "i \<in> role_ID ` {r \<in> set (roles d). \<not> (role_TenantID r = t \<and> role_ID r = rid)}" by blast
  qed
next
  case (assign rid r u)
  then have "rid \<in> role_ID ` set (roles d)" by (auto simp: role_by_id_def dest!: select_first_SomeD)
  then show ?thesis using d unfolding assign(1) user_roles_writes roles_frame by (simp add: new_user_role_def)
qed (use d in auto)

lemma served_step_assigned: "served_step t w w' \<Longrightarrow> assigned_roles_exist (store w) \<Longrightarrow> assigned_roles_exist (store w')"
  unfolding assigned_roles_exist_def using rbac_step_store[OF served_step_rbac] rbac_change_assigned by metis

lemma HasPermission_exact:
  "HasPermission ev (Some t) t u code w = (Inr b, w') \<Longrightarrow> coherent t w \<Longrightarrow>
     b \<longleftrightarrow> code \<in> set (user_codes (Some t) (store w) u)"
  by (auto simp: HasPermission_def op_bind_eq coherent_def dest!: UserPermissions_answer)

end
