(* ===== verification/Authz_Http.thy ===== *)
theory Authz_Http
  imports Authz_History
begin

text \<open>
  internal/authz/middleware.go and handler.go: the permission gates in front of every
  protected route, and the role administration endpoints. A gate aborts with a response
  (\<open>Inl\<close>) or passes the context on (\<open>Inr\<close>).
\<close>

section \<open>middleware.go\<close>

definition CtxAPIKeyScopes :: string where "CtxAPIKeyScopes = ''api_key_scopes''"
definition CtxAuthenticated :: string where "CtxAuthenticated = ''authenticated''"

definition scopesFromContext :: "gctx \<Rightarrow> string list option" where
  "scopesFromContext c = (case keys c CtxAPIKeyScopes of Some (VStrings ss) \<Rightarrow> Some ss | _ \<Rightarrow> None)"

abbreviation abort :: "gctx \<Rightarrow> code \<Rightarrow> string \<Rightarrow> (world, unit response, 'a) op" where
  "abort c cd msg \<equiv> op_fail (Error c (HTTPStatus cd) (code_string cd) msg [])"

definition RequirePermission :: "env \<Rightarrow> string \<Rightarrow> gctx \<Rightarrow> (world, unit response, gctx) op" where
  "RequirePermission ev code c = (case scopesFromContext c of
     Some scopes \<Rightarrow>
       if code \<notin> set scopes then abort c CodeForbidden (''api key is not scoped for '' @ code)
       else op_return c
   | None \<Rightarrow> (case keys c CtxUserID of
       None \<Rightarrow> abort c CodeUnauthorized ''authentication required''
     | Some uv \<Rightarrow> (case keys c CtxTenantID of
         None \<Rightarrow> abort c CodeUnauthorized ''tenant context missing''
       | Some tv \<Rightarrow>
           op_try (HasPermission ev (ctx_tenant c) (as_uuid tv) (as_uuid uv) code)
             (\<lambda>e. abort c CodeInternal ''failed to check permissions'')
             (\<lambda>allowed. if \<not> allowed
                then abort c CodeForbidden (''insufficient permissions: requires '' @ code)
                else op_return c))))"

definition RequireAnyPermission :: "env \<Rightarrow> string list \<Rightarrow> gctx \<Rightarrow> (world, unit response, gctx) op" where
  "RequireAnyPermission ev codes c = (case scopesFromContext c of
     Some scopes \<Rightarrow>
       if \<exists>code\<in>set codes. code \<in> set scopes then op_return c
       else abort c CodeForbidden ''api key is not scoped for this operation''
   | None \<Rightarrow> (case keys c CtxUserID of
       None \<Rightarrow> abort c CodeUnauthorized ''authentication required''
     | Some uv \<Rightarrow> (case keys c CtxTenantID of
         None \<Rightarrow> abort c CodeUnauthorized ''tenant context missing''
       | Some tv \<Rightarrow>
           op_try (UserPermissions ev (ctx_tenant c) (as_uuid tv) (as_uuid uv))
             (\<lambda>e. abort c CodeInternal ''failed to check permissions'')
             (\<lambda>granted. if \<exists>code\<in>set codes. code \<in> set granted then op_return c
                else abort c CodeForbidden ''insufficient permissions''))))"

section \<open>handler.go\<close>

datatype authz_data = DRoles "role list" | DPermissions "permission list" | DRole role
  | DRolePermissions string rolePermissionsView | DMessage string

text \<open>\<open>DRolePermissions\<close> carries the ETag header beside the body: the quoted revision.\<close>

definition etag :: "rolePermissionsView \<Rightarrow> string" where
  "etag v = [CHR 0x22] @ view_Revision v @ [CHR 0x22]"

type_synonym 'd handler = "world \<Rightarrow> 'd response \<times> world"

text \<open>The common end of a handler: respond with the error or with the value.\<close>

definition respond :: "gctx \<Rightarrow> (world, err, 'a) op \<Rightarrow> ('a \<Rightarrow> 'd response) \<Rightarrow> 'd handler" where
  "respond c m f = (\<lambda>w. case m w of (Inl e, w') \<Rightarrow> (RespondError c e, w') | (Inr a, w') \<Rightarrow> (f a, w'))"

definition requesterIDsFromGin :: "gctx \<Rightarrow> (uuid \<times> uuid) option" where
  "requesterIDsFromGin c = (case (keys c CtxUserID, keys c CtxTenantID) of
     (Some uv, Some tv) \<Rightarrow> Some (as_uuid uv, as_uuid tv) | _ \<Rightarrow> None)"

definition unauthenticated :: "gctx \<Rightarrow> 'd handler" where
  "unauthenticated c = (\<lambda>w. (Error c 401 (code_string CodeUnauthorized) ''authentication required'' [], w))"

definition bad_request :: "gctx \<Rightarrow> string \<Rightarrow> 'd handler" where
  "bad_request c msg = (\<lambda>w. (Error c 400 (code_string CodeValidation) msg [], w))"

definition authz_h_ListRoles :: "env \<Rightarrow> gctx \<Rightarrow> authz_data handler" where
  "authz_h_ListRoles ev c = respond c (authz_ListRoles ev (ctx_tenant c)) (\<lambda>rs. Success c 200 (DRoles rs))"

definition ListPermissionCatalog :: "env \<Rightarrow> gctx \<Rightarrow> authz_data handler" where
  "ListPermissionCatalog ev c = respond c (ListPermissions ev) (\<lambda>ps. Success c 200 (DPermissions ps))"

record createRoleRequest =
  cr_Name :: string
  cr_Description :: string
  cr_PermissionCodes :: "string list"

definition authz_h_CreateRole :: "env \<Rightarrow> uuid \<Rightarrow> gctx \<Rightarrow> string + createRoleRequest \<Rightarrow> authz_data handler" where
  "authz_h_CreateRole ev newID c req = (case requesterIDsFromGin c of
     None \<Rightarrow> unauthenticated c
   | Some (actorID, tenantID) \<Rightarrow> (case req of
       Inl msg \<Rightarrow> bad_request c msg
     | Inr q \<Rightarrow> respond c (CreateRole ev (ctx_tenant c) newID tenantID actorID (cr_Name q)
           (cr_Description q) (cr_PermissionCodes q))
         (\<lambda>r. Success c 201 (DRole r))))"

record updateRolePermissionsRequest =
  up_PermissionCodes :: "string list"
  up_Revision :: "string option"

definition parseBodyRoleRevision :: "env \<Rightarrow> string \<Rightarrow> gotime option" where
  "parseBodyRoleRevision ev v = parse_time ev (TrimSpace v)"

definition parseIfMatchRoleRevision :: "env \<Rightarrow> string \<Rightarrow> gotime option" where
  "parseIfMatchRoleRevision ev v0 = (let v = TrimSpace v0 in
     if length v < 2 \<or> v ! 0 \<noteq> CHR 0x22 \<or> v ! (length v - 1) \<noteq> CHR 0x22 then None
     else parse_time ev (butlast (tl v)))"

definition authz_h_GetRolePermissions :: "env \<Rightarrow> gctx \<Rightarrow> authz_data handler" where
  "authz_h_GetRolePermissions ev c = (case parse_uuid ev (Param c ''roleID'') of
     None \<Rightarrow> bad_request c ''invalid role id''
   | Some roleID \<Rightarrow> respond c (GetRolePermissions ev (ctx_tenant c) roleID)
       (\<lambda>v. Success c 200 (DRolePermissions (etag v) v)))"

text \<open>The revision a PUT is conditional on: the body's, then If-Match, which must agree.\<close>

definition expected_revision :: "env \<Rightarrow> gctx \<Rightarrow> string option \<Rightarrow> string + gotime option" where
  "expected_revision ev c revision =
     (case (case revision of None \<Rightarrow> Inr None
              | Some s \<Rightarrow> (case parseBodyRoleRevision ev s of
                  None \<Rightarrow> Inl ''invalid revision'' | Some t \<Rightarrow> Inr (Some t))) of
        Inl m \<Rightarrow> Inl m
      | Inr expected \<Rightarrow> (case HeaderValues c ''If-Match'' of
          [] \<Rightarrow> Inr expected
        | [v] \<Rightarrow> (case parseIfMatchRoleRevision ev v of
            None \<Rightarrow> Inl ''invalid If-Match revision''
          | Some h \<Rightarrow> if expected \<noteq> None \<and> expected \<noteq> Some h
                      then Inl ''revision and If-Match do not agree'' else Inr (Some h))
        | _ \<Rightarrow> Inl ''invalid If-Match revision''))"

definition authz_h_UpdateRolePermissions ::
  "env \<Rightarrow> gctx \<Rightarrow> string + updateRolePermissionsRequest \<Rightarrow> authz_data handler" where
  "authz_h_UpdateRolePermissions ev c req = (case requesterIDsFromGin c of
     None \<Rightarrow> unauthenticated c
   | Some (actorID, tenantID) \<Rightarrow> (case parse_uuid ev (Param c ''roleID'') of
       None \<Rightarrow> bad_request c ''invalid role id''
     | Some roleID \<Rightarrow> (case req of
         Inl msg \<Rightarrow> bad_request c msg
       | Inr q \<Rightarrow> (case expected_revision ev c (up_Revision q) of
           Inl msg \<Rightarrow> bad_request c msg
         | Inr expected \<Rightarrow> respond c (UpdateRolePermissions ev (ctx_tenant c) tenantID actorID roleID
               (up_PermissionCodes q) expected)
             (\<lambda>v. Success c 200 (DRolePermissions (etag v) v))))))"

definition authz_h_DeleteRole :: "env \<Rightarrow> gctx \<Rightarrow> authz_data handler" where
  "authz_h_DeleteRole ev c = (case requesterIDsFromGin c of
     None \<Rightarrow> unauthenticated c
   | Some (actorID, _) \<Rightarrow> (case parse_uuid ev (Param c ''roleID'') of
       None \<Rightarrow> bad_request c ''invalid role id''
     | Some roleID \<Rightarrow> respond c (DeleteRole ev (ctx_tenant c) actorID roleID)
         (\<lambda>_. Success c 200 (DMessage ''role deleted''))))"

record assignRoleRequest =
  ar_UserID :: uuid
  ar_RoleID :: uuid

definition authz_h_AssignRole :: "env \<Rightarrow> gctx \<Rightarrow> string + assignRoleRequest \<Rightarrow> authz_data handler" where
  "authz_h_AssignRole ev c req = (case requesterIDsFromGin c of
     None \<Rightarrow> unauthenticated c
   | Some (assignerID, tenantID) \<Rightarrow> (case req of
       Inl msg \<Rightarrow> bad_request c msg
     | Inr q \<Rightarrow> respond c (AssignRole ev (ctx_tenant c) tenantID (ar_UserID q) (ar_RoleID q) assignerID)
         (\<lambda>_. Success c 200 (DMessage ''role assigned''))))"

definition authz_h_RevokeRole :: "env \<Rightarrow> gctx \<Rightarrow> string + assignRoleRequest \<Rightarrow> authz_data handler" where
  "authz_h_RevokeRole ev c req = (case requesterIDsFromGin c of
     None \<Rightarrow> unauthenticated c
   | Some (actorID, tenantID) \<Rightarrow> (case req of
       Inl msg \<Rightarrow> bad_request c msg
     | Inr q \<Rightarrow> respond c (RevokeRole ev (ctx_tenant c) tenantID actorID (ar_UserID q) (ar_RoleID q))
         (\<lambda>_. Success c 200 (DMessage ''role revoked''))))"

section \<open>Lemmas\<close>

lemma RequirePermission_key:
  "scopesFromContext c = Some scopes \<Longrightarrow>
     RequirePermission ev code c w = (if code \<in> set scopes then op_return c w
       else abort c CodeForbidden (''api key is not scoped for '' @ code) w)"
  by (simp add: RequirePermission_def)

lemma RequirePermission_user:
  assumes "scopesFromContext c = None" "RequirePermission ev code c w = (Inr c', w')"
  shows "\<exists>u t. keys c CtxUserID = Some u \<and> keys c CtxTenantID = Some t \<and> c' = c
    \<and> HasPermission ev (ctx_tenant c) (as_uuid t) (as_uuid u) code w = (Inr True, w')"
  using assms unfolding RequirePermission_def
  by (auto simp: op_try_eq split: option.splits if_splits)

end
