(* ===== verification/Sample_Env.thy ===== *)
theory Sample_Env
  imports Schema "HOL-Library.Char_ord" "HOL-Library.List_Lexorder"
begin

text \<open>
  A concrete environment for the witnesses: no faults, a running cache, and computable
  stand-ins for hashing, signing and parsing.
\<close>

definition demo_env :: env where
  "demo_env = \<lparr>now = 1000 * second, sql_fault = (\<lambda>_. None), redis_on = True, redis_fault = (\<lambda>_. False),
     citext = (\<lambda>s. s), unicode_lower = (\<lambda>r. r), parse_uuid = (\<lambda>s. if s = ''u11'' then Some 11 else None),
     sha256_hex = (\<lambda>s. ''h'' @ s), base64url = (\<lambda>s. s), bcrypt = (\<lambda>s. Some (''b'' @ s)),
     bcrypt_ok = (\<lambda>h s. h = ''b'' @ s), text_le = (\<lambda>a b. a \<le> b), format_time = (\<lambda>t. ''T''),
     parse_time = (\<lambda>s. None), jwt_sign = (\<lambda>sec u t r ex. Some (''jwt'' @ r)),
     jwt_parse = (\<lambda>sec n tok. if tok = ''jwtowner'' then Some (10, 1, ''owner'') else None),
     base64url_decode = Some, hmac_sha256 = (\<lambda>sec m. ''m'' @ sec), json_state = (\<lambda>(a, b). a @ ''|'' @ b),
     json_state_parse = (\<lambda>s. split_at CHR ''|'' s),
     uuid_string = (\<lambda>u. replicate (unat u) CHR ''x''), ilike = (\<lambda>a b. CHR ''%'' # a @ ''%'' = b)\<rparr>"

definition demo_fresh :: fresh where
  "demo_fresh = \<lparr>fresh_id = (\<lambda>n. word_of_nat (100 + n)), fresh_bytes = Some ''seed''\<rparr>"

end
