(* ===== verification/Tenancy.thy ===== *)
theory Tenancy
  imports Cache Reqctx Sample_Env
begin

text \<open>
  internal/tenancy: the tenants table, the pre-authentication resolver (header or subdomain
  to tenant, through the cache) and \<open>OverrideFromCredential\<close>, with which both authentication
  paths make the credential's tenant authoritative.
\<close>

section \<open>repository.go\<close>

definition ErrTenantNotFound :: err where
  "ErrTenantNotFound = Sentinel ''tenancy: tenant not found''"

definition tenancy_FindBySlug :: "env \<Rightarrow> string \<Rightarrow> (world, err, tenant) op" where
  "tenancy_FindBySlug ev slug = op_map_err
     (\<lambda>e. if errors_is e ErrRecordNotFound then ErrTenantNotFound else Wrapped ''tenancy: find by slug'' e)
     (run_stmt ev ''tenancy.FindBySlug'' (take_row (\<lambda>d. List.find
        (\<lambda>r. citext ev (tenant_Slug r) = citext ev slug \<and> tenant_DeletedAt r = None) (tenants d))))"

definition tenancy_FindByID :: "env \<Rightarrow> uuid \<Rightarrow> (world, err, tenant) op" where
  "tenancy_FindByID ev i = op_map_err
     (\<lambda>e. if errors_is e ErrRecordNotFound then ErrTenantNotFound else Wrapped ''tenancy: find by id'' e)
     (run_stmt ev ''tenancy.FindByID'' (take_row (\<lambda>d. List.find
        (\<lambda>r. tenant_ID r = i \<and> tenant_DeletedAt r = None) (tenants d))))"

definition NameByID :: "env \<Rightarrow> uuid \<Rightarrow> (world, err, string) op" where
  "NameByID ev i = op_try
     (run_stmt ev ''tenancy.NameByID'' (tx_query (\<lambda>d.
        map tenant_Name (filter (\<lambda>r. tenant_ID r = i \<and> tenant_DeletedAt r = None) (tenants d)))))
     (\<lambda>e. op_fail (Wrapped ''tenancy: name by id'' e))
     (\<lambda>names. let name = (case names of [] \<Rightarrow> '''' | n # _ \<Rightarrow> n) in
        if name = '''' then op_fail ErrTenantNotFound else op_return name)"

text \<open>
  The insert of a tenant. The trigger \<open>seed_default_roles\<close> (migrations/000015) then inserts
  the five system roles, with ids \<open>ids 0\<close> to \<open>ids 4\<close>, and their grants; it is SECURITY
  DEFINER, so the policies do not apply to it.
\<close>

definition tenant_insert_check :: "env \<Rightarrow> tenant \<Rightarrow> db \<Rightarrow> string option" where
  "tenant_insert_check ev t d = insert_check True
     (tenant_Status t \<in> {''active'', ''suspended'', ''pending_deletion''})
     (tenant_ID t \<notin> tenant_ID ` set (tenants d) \<and>
      (tenant_DeletedAt t = None \<longrightarrow> \<not> (\<exists>r\<in>set (tenants d). tenant_DeletedAt r = None
         \<and> citext ev (tenant_Slug r) = citext ev (tenant_Slug t))))
     True"

definition manager_codes :: "string list" where
  "manager_codes = [''org:view'', ''member:invite'', ''member:view'', ''role:view'',
     ''team:create'', ''team:manage'', ''team:view'', ''project:create'', ''project:manage'',
     ''project:view'', ''apikey:view'', ''file:view'', ''file:upload'', ''file:delete'']"

definition member_codes :: "string list" where
  "member_codes = [''org:view'', ''member:view'', ''role:view'', ''team:view'',
     ''project:create'', ''project:view'', ''file:view'', ''file:upload'']"

definition guest_codes :: "string list" where
  "guest_codes = [''org:view'', ''member:view'', ''team:view'', ''project:view'', ''file:view'']"

text \<open>The seeded roles: name, slug, description, rank and the codes granted.\<close>

definition system_roles :: "(string \<times> string \<times> string \<times> int \<times> (string \<Rightarrow> bool)) list" where
  "system_roles =
    [(''Owner'', ''owner'', ''Full control including billing and org deletion'', 0, \<lambda>c. True),
     (''Admin'', ''admin'', ''Manage members, roles, and org settings'', 10, \<lambda>c. c \<noteq> ''org:manage''),
     (''Manager'', ''manager'', ''Manage teams and projects'', 20, \<lambda>c. c \<in> set manager_codes),
     (''Member'', ''member'', ''Standard contributor access'', 30, \<lambda>c. c \<in> set member_codes),
     (''Guest'', ''guest'', ''Read-only access to shared resources'', 40, \<lambda>c. c \<in> set guest_codes)]"

definition seed_role :: "env \<Rightarrow> uuid \<Rightarrow> uuid \<Rightarrow> string \<times> string \<times> string \<times> int \<times> (string \<Rightarrow> bool) \<Rightarrow> role" where
  "seed_role ev t i s = (case s of (name, slug, desc, rank, _) \<Rightarrow>
     \<lparr>role_ID = i, role_TenantID = t, role_Name = name, role_Slug = slug, role_Description = desc,
      role_IsSystem = True, role_Rank = rank, role_CreatedAt = now ev, role_UpdatedAt = now ev\<rparr>)"

definition seed_grants :: "env \<Rightarrow> uuid \<Rightarrow> uuid \<Rightarrow> string \<times> string \<times> string \<times> int \<times> (string \<Rightarrow> bool)
    \<Rightarrow> permission list \<Rightarrow> role_permission list" where
  "seed_grants ev t i s ps = (case s of (_, _, _, _, granted) \<Rightarrow>
     map (\<lambda>p. \<lparr>rp_RoleID = i, rp_PermissionID = perm_ID p, rp_TenantID = t, rp_CreatedAt = now ev\<rparr>)
       (filter (\<lambda>p. granted (perm_Code p)) ps))"

definition seed_default_roles :: "env \<Rightarrow> (nat \<Rightarrow> uuid) \<Rightarrow> uuid \<Rightarrow> (db, err, unit) tx" where
  "seed_default_roles ev ids t = (\<lambda>d.
     let rs = map (\<lambda>(n, s). seed_role ev t (ids n) s) (enumerate 0 system_roles);
         gs = concat (map (\<lambda>(n, s). seed_grants ev t (ids n) s (permissions d)) (enumerate 0 system_roles))
     in if \<not> distinct (map role_ID rs) \<or> (\<exists>r\<in>set rs. role_ID r \<in> role_ID ` set (roles d))
           \<or> (\<exists>r\<in>set rs. \<exists>q\<in>set (roles d). role_TenantID q = t \<and> role_Slug q = role_Slug r)
        then Inl (PgError ''23505'')
        else Inr ((), d\<lparr>roles := roles d @ rs, role_permissions := role_permissions d @ gs\<rparr>))"

definition tenancy_CreateTx :: "env \<Rightarrow> (nat \<Rightarrow> uuid) \<Rightarrow> tenant \<Rightarrow> (db, err, unit) tx" where
  "tenancy_CreateTx ev ids t = tx_map_err (Wrapped ''tenancy: create tx'')
     (stmt ev ''tenancy.CreateTx''
       (tx_bind (tx_query (tenant_insert_check ev t)) (\<lambda>chk.
        tx_bind (raise chk) (\<lambda>_.
        tx_bind (modify (\<lambda>d. d\<lparr>tenants := tenants d @ [t]\<rparr>)) (\<lambda>_.
        seed_default_roles ev ids (tenant_ID t))))))"

section \<open>middleware.go\<close>

record resolver =
  cache_enabled :: bool
  baseDomain :: string

definition NewResolver :: "env \<Rightarrow> bool \<Rightarrow> string \<Rightarrow> resolver" where
  "NewResolver ev cache base =
     \<lparr>cache_enabled = cache, baseDomain = ToLower (unicode_lower ev) (Trim (TrimSpace base) CHR ''.'')\<rparr>"

definition tenantCacheTTL :: duration where "tenantCacheTTL = 5 * minute"

definition Resolve_tenant :: "env \<Rightarrow> resolver \<Rightarrow> string \<Rightarrow> (world, err, tenant) op" where
  "Resolve_tenant ev r slug = (\<lambda>w.
     case (if cache_enabled r then GetTenantBySlug ev slug w else None) of
       Some t \<Rightarrow> (Inr t, w)
     | None \<Rightarrow> op_bind (tenancy_FindBySlug ev slug) (\<lambda>t w'.
         (Inr t, if cache_enabled r then SetTenantBySlug ev slug t tenantCacheTTL w' else w')) w)"

definition reservedSubdomains :: "string list" where
  "reservedSubdomains = [''www'', ''api'', ''app'', ''admin'', ''static'', ''assets'', ''cdn'',
     ''mail'', ''status'']"

definition slugFromRequest :: "env \<Rightarrow> resolver \<Rightarrow> gctx \<Rightarrow> string \<times> bool" where
  "slugFromRequest ev r c =
     (let header = TrimSpace (GetHeader c ''X-Tenant-ID'') in
      if header \<noteq> '''' then (header, True)
      else if baseDomain r = '''' then ('''', False)
      else let host = (case SplitHost (Host c) of Some h \<Rightarrow> h | None \<Rightarrow> Host c);
               host = ToLower (unicode_lower ev) (Trim (TrimSpace host) CHR ''.'');
               suffix = ''.'' @ baseDomain r in
        if \<not> HasSuffix host suffix then ('''', False)
        else let label = TrimSuffix host suffix in
          if label = '''' \<or> CHR ''.'' \<in> set label then ('''', False)
          else if label \<in> set reservedSubdomains then ('''', False)
          else (label, False))"

definition tenantCtxKey :: string where "tenantCtxKey = ''tenancy.tenant''"

definition StatusSuspended :: string where "StatusSuspended = ''suspended''"

text \<open>\<open>Inl\<close> is the aborted response, \<open>Inr\<close> the context handed to the next handler.\<close>

definition tenancy_Middleware :: "env \<Rightarrow> resolver \<Rightarrow> gctx \<Rightarrow> (world, unit response, gctx) op" where
  "tenancy_Middleware ev r c = (case slugFromRequest ev r c of (slug, fromHeader) \<Rightarrow>
     if slug = '''' then op_return c
     else op_try (Resolve_tenant ev r slug)
       (\<lambda>e. if \<not> fromHeader then op_return c
            else op_fail (Error c (HTTPStatus CodeNotFound) (code_string CodeNotFound) ''tenant not found'' []))
       (\<lambda>t. if tenant_Status t = StatusSuspended
            then op_fail (Error c 403 (code_string CodeForbidden) ''organization is suspended'' [])
            else op_return (ctx_set tenantCtxKey
                   (VTenancy (tenant_ID t) (tenant_Slug t) (tenant_PlanCode t) (tenant_Status t))
                   (c\<lparr>ctx_tenant := WithTenantID (ctx_tenant c) (tenant_ID t)\<rparr>))))"

definition FromGinContext :: "gctx \<Rightarrow> (uuid \<times> string \<times> string \<times> string) option" where
  "FromGinContext c = (case keys c tenantCtxKey of
     Some (VTenancy t slug planCode status) \<Rightarrow> Some (t, slug, planCode, status) | _ \<Rightarrow> None)"

definition OverrideFromCredential :: "gctx \<Rightarrow> uuid \<Rightarrow> err + gctx" where
  "OverrideFromCredential c t =
     (if (case FromGinContext c of Some (e, _) \<Rightarrow> e \<noteq> uuid_nil \<and> e \<noteq> t | None \<Rightarrow> False)
      then Inl (New CodeTenantMismatch ''token tenant does not match resolved tenant'')
      else let tc = (case FromGinContext c of
                 Some (_, slug, planCode, status) \<Rightarrow> VTenancy t slug planCode status
               | None \<Rightarrow> VTenancy t '''' '''' '''')
           in Inr (ctx_set tenantCtxKey tc (c\<lparr>ctx_tenant := WithTenantID (ctx_tenant c) t\<rparr>)))"

section \<open>Lemmas\<close>

lemma OverrideFromCredential_Inr:
  "OverrideFromCredential c t = Inr c' \<Longrightarrow>
     ctx_tenant c' = Some t \<and> (\<exists>s p st. FromGinContext c' = Some (t, s, p, st))
     \<and> (\<forall>k. k \<noteq> tenantCtxKey \<longrightarrow> keys c' k = keys c k)
     \<and> (\<forall>e s p st. FromGinContext c = Some (e, s, p, st) \<longrightarrow> e = uuid_nil \<or> e = t)"
  by (auto simp: OverrideFromCredential_def Let_def ctx_set_def WithTenantID_def FromGinContext_def
      split: if_splits option.splits ctxval.splits)

lemma HasSuffix_TrimSuffix: "HasSuffix s p \<Longrightarrow> s = TrimSuffix s p @ p"
  by (metis HasSuffix_def TrimSuffix_def append_take_drop_id)

section \<open>Properties\<close>

text \<open>OverrideFromCredential accepts a credential exactly when the pre-authentication resolver
  chose no tenant or the credential's own, and then the credential's tenant is the one every
  tenant-scoped statement of the request runs under; a mismatch is a 403 TENANT_MISMATCH.\<close>

theorem OverrideFromCredential_authoritative:
  "case OverrideFromCredential c t of
     Inr c' \<Rightarrow> ctx_tenant c' = Some t
       \<and> (FromGinContext c = None \<or> fst (the (FromGinContext c)) \<in> {uuid_nil, t})
   | Inl e \<Rightarrow> e = New CodeTenantMismatch ''token tenant does not match resolved tenant''
       \<and> FromGinContext c \<noteq> None \<and> fst (the (FromGinContext c)) \<notin> {uuid_nil, t}"
  by (auto simp: OverrideFromCredential_def Let_def WithTenantID_def ctx_set_def split: option.splits)

text \<open>A slug inferred from the host is a single non-reserved label directly under the configured
  base domain; nothing is inferred when no base domain is configured.\<close>

theorem slugFromRequest_host:
  assumes "slugFromRequest ev r c = (slug, False)" and "slug \<noteq> []"
  shows "baseDomain r \<noteq> [] \<and> CHR ''.'' \<notin> set slug \<and> slug \<notin> set reservedSubdomains
    \<and> (\<exists>h. ToLower (unicode_lower ev) (Trim (TrimSpace h) CHR ''.'') = slug @ ''.'' @ baseDomain r)"
  using assms HasSuffix_TrimSuffix by (fastforce simp: slugFromRequest_def Let_def split: if_splits)

theorem slugFromRequest_host_witness: "CHR ''.'' \<notin> set ''acme'' \<and> ''acme'' \<notin> set reservedSubdomains"
proof -
  let ?c = "\<lparr>keys = \<lambda>_. None, ctx_tenant = None, GetHeader = \<lambda>_. '''', HeaderValues = \<lambda>_. [],
    Query = \<lambda>_. '''', Param = \<lambda>_. '''', Host = ''Acme.ourapp.com:8443'', ClientIP = '''', UserAgent = ''''\<rparr>"
  have "slugFromRequest demo_env \<lparr>cache_enabled = False, baseDomain = ''ourapp.com''\<rparr> ?c = (''acme'', False)"
    by code_simp
  from slugFromRequest_host[OF this] show ?thesis by simp
qed

end
