(* ===== verification/Sample.thy ===== *)
theory Sample
  imports Tenancy Authz_Repo
begin

text \<open>
  A concrete tenant on which the witnesses evaluate the model: two users, the seeded Owner
  and Member roles and one custom role, four permissions of the catalog, no driver faults.
\<close>

definition demo_tenant :: tenant where
  "demo_tenant = \<lparr>tenant_ID = 1, tenant_Name = ''Acme'', tenant_Slug = ''acme'', tenant_PlanCode = ''free'',
     tenant_Status = ''active'', tenant_Settings = '''', tenant_CreatedAt = 0, tenant_UpdatedAt = 0,
     tenant_DeletedAt = None\<rparr>"

definition demo_user :: "uuid \<Rightarrow> string \<Rightarrow> user" where
  "demo_user i email = \<lparr>user_ID = i, user_TenantID = 1, user_Email = email,
     user_PasswordHash = Some ''bpw'', user_FullName = '''', user_AvatarURL = None,
     user_Status = ''active'', user_EmailVerifiedAt = None, user_LastLoginAt = None,
     user_CreatedAt = 0, user_UpdatedAt = 0, user_DeletedAt = None\<rparr>"

definition demo_role :: "uuid \<Rightarrow> string \<Rightarrow> bool \<Rightarrow> int \<Rightarrow> role" where
  "demo_role i slug sys rank = \<lparr>role_ID = i, role_TenantID = 1, role_Name = slug, role_Slug = slug,
     role_Description = '''', role_IsSystem = sys, role_Rank = rank, role_CreatedAt = 0, role_UpdatedAt = 5\<rparr>"

definition demo_perm :: "uuid \<Rightarrow> string \<Rightarrow> permission" where
  "demo_perm i code = \<lparr>perm_ID = i, perm_Code = code, perm_Resource = '''', perm_Action = '''',
     perm_Description = '''', perm_CreatedAt = 0\<rparr>"

definition demo_grant :: "uuid \<Rightarrow> uuid \<Rightarrow> role_permission" where
  "demo_grant r p = \<lparr>rp_RoleID = r, rp_PermissionID = p, rp_TenantID = 1, rp_CreatedAt = 0\<rparr>"

definition demo_user_role :: "uuid \<Rightarrow> uuid \<Rightarrow> user_role" where
  "demo_user_role u r = \<lparr>ur_UserID = u, ur_RoleID = r, ur_TenantID = 1, ur_AssignedAt = 0, ur_AssignedBy = None\<rparr>"

text \<open>Users 10 (Owner) and 11 (Member); roles 20 Owner, 21 Member, 22 custom.\<close>

definition demo_db :: db where
  "demo_db = empty_db\<lparr>tenants := [demo_tenant], users := [demo_user 10 ''ann@x'', demo_user 11 ''bob@x''],
     roles := [demo_role 20 ''owner'' True 0, demo_role 21 ''member'' True 30, demo_role 22 ''qa'' False 100],
     permissions := [demo_perm 30 ''org:manage'', demo_perm 31 ''role:manage'', demo_perm 32 ''project:view''],
     role_permissions := [demo_grant 20 30, demo_grant 20 31, demo_grant 20 32, demo_grant 21 32],
     user_roles := [demo_user_role 10 20, demo_user_role 11 21]\<rparr>"

definition demo_world :: world where
  "demo_world = \<lparr>store = demo_db, perm_cache = (\<lambda>_. None), tenant_cache = (\<lambda>_. None), outbox = [],
     hub = new_broker False\<rparr>"

text \<open>How a witness runs an operation: evaluation shows that it succeeds.\<close>

lemma okI: "\<not> isl (fst r) \<Longrightarrow> \<exists>a. r = (Inr a, snd r)"
  by (metis isl_def prod.collapse sum.collapse(2) sumE)

lemmas demo_defs = demo_tenant_def demo_user_def demo_role_def demo_perm_def
  demo_grant_def demo_user_role_def demo_db_def demo_world_def empty_db_def

end
