(* ===== verification/Authz_Props.thy ===== *)
theory Authz_Props
  imports Authz_Http Sample
begin

text \<open>
  The properties of the RBAC engine, each with a witness on the sample tenant.
\<close>

lemma demo_rbac_ok: "rbac_ok (store demo_world)"
  by code_simp

lemma demo_owner: "owner_grants (Some 1) (store demo_world) \<noteq> []"
  by code_simp

text \<open>One committed assignment on the sample: the Owner gives Bob the custom role.\<close>

definition demo_after :: world where
  "demo_after = snd (AssignRole demo_env (Some 1) 1 11 22 10 demo_world)"

lemma demo_assign: "AssignRole demo_env (Some 1) 1 11 22 10 demo_world = (Inr (), demo_after)"
proof -
  have "fst (AssignRole demo_env (Some 1) 1 11 22 10 demo_world) = Inr ()" by code_simp
  then show ?thesis unfolding demo_after_def by (metis prod.collapse)
qed

lemma demo_step: "rbac_step (Some 1) demo_world demo_after"
  using demo_assign by (rule rbac_step.assign)

lemma demo_any: "any_step\<^sup>*\<^sup>* demo_world demo_after"
  using demo_step by (metis any_step_def r_into_rtranclp)

text \<open>C1: no history of role operations, by any actors, with any arguments, in any tenants and
  with any driver failures, can leave an organization that had an active Owner without one.\<close>

theorem last_owner_retained:
  assumes "any_step\<^sup>*\<^sup>* w w'" and "rbac_ok (store w)" and "owner_grants (Some t) (store w) \<noteq> []"
  shows "owner_grants (Some t) (store w') \<noteq> []"
  using assms by (rule any_step_owner)

theorem last_owner_retained_witness: "owner_grants (Some 1) (store demo_after) \<noteq> []"
  by (rule last_owner_retained[OF demo_any demo_rbac_ok demo_owner])

text \<open>After any history of role operations no role other than the Owner role grants
  org:manage.\<close>

theorem org_manage_only_owner:
  assumes "any_step\<^sup>*\<^sup>* w w'" and "rbac_ok (store w)"
    and "r \<in> set (roles (store w'))" and "role_Slug r \<noteq> RoleOwner"
  shows "PermOrgManage \<notin> set (role_codes (Some (role_TenantID r)) (store w') (role_ID r))"
  using any_step_ok[OF assms(1,2)] assms(3,4) by (auto simp: rbac_ok_def org_manage_exclusive_def)

theorem org_manage_only_owner_witness:
  "PermOrgManage \<notin> set (role_codes (Some 1) (store demo_after) 22)"
proof -
  have "demo_role 22 ''qa'' False 100 \<in> set (roles (store demo_after))"
    "role_Slug (demo_role 22 ''qa'' False 100) \<noteq> RoleOwner"
    by code_simp+
  from org_manage_only_owner[OF demo_any demo_rbac_ok this]
  show ?thesis by (simp add: demo_role_def)
qed

text \<open>C2: capabilities are confined: whatever a history of role operations does, the permission
  codes held in a tenant are among those somebody in that tenant already held.\<close>

theorem capability_confinement:
  assumes "any_step\<^sup>*\<^sup>* w w'" and "rbac_ok (store w)"
  shows "tenant_codes t (store w') \<subseteq> tenant_codes t (store w)"
  using assms by (rule any_step_codes)

theorem capability_confinement_witness:
  "tenant_codes 1 (store demo_after) \<subseteq> tenant_codes 1 (store demo_world)"
  by (rule capability_confinement[OF demo_any demo_rbac_ok])

text \<open>C3: a successful AssignRole was within the actor's authority: the actor holds every code of
  the role and is an Owner or ranks strictly above both the role and the target, only an Owner
  grants the Owner role, and the target gains nothing the actor did not hold.\<close>

theorem AssignRole_within_authority:
  assumes "AssignRole ev (Some t) ten u rid a w = (Inr (), w')" and "rbac_ok (store w)"
  shows "\<exists>r. role_by_id (Some t) (store w) rid = Some r
    \<and> set (role_codes (Some t) (store w) rid) \<subseteq> set (user_codes (Some t) (store w) a)
    \<and> (role_Slug r = RoleOwner \<longrightarrow> IsOwner (access_of (Some t) (store w) a))
    \<and> (IsOwner (access_of (Some t) (store w) a) \<or> Rank (access_of (Some t) (store w) a) < role_Rank r)
    \<and> outranks t (store w) a u \<and> ten = t
    \<and> (\<forall>v. set (user_codes (Some t) (store w') v)
          \<subseteq> set (user_codes (Some t) (store w) v) \<union> set (user_codes (Some t) (store w) a))"
  using assms(1) unfolding AssignRole_def
proof (cases rule: tx_op_cases)
  case (ok t' x d)
  have "store w' = d" using ok(3) by (simp add: then_invalidate_eq InvalidateCache_def)
  moreover have "d = store w \<or> rbac_change t a (store w) d" using ok AssignRole_tx_change by auto
  then have "set (user_codes (Some t) d v) \<subseteq> set (user_codes (Some t) (store w) v)
      \<union> set (user_codes (Some t) (store w) a)" for v
    using rbac_change_user_codes[OF _ assms(2)] by blast
  ultimately show ?thesis
    using AssignRole_tx_Inr[OF ok(2)] ok(1) by (auto simp: authorizeRoleDelegation_None outranks_def)
qed simp

theorem AssignRole_within_authority_witness:
  "\<exists>r. role_by_id (Some 1) (store demo_world) 22 = Some r \<and> outranks 1 (store demo_world) 10 11"
  using AssignRole_within_authority[OF demo_assign demo_rbac_ok] by blast

text \<open>C4: role operations made in the context of one tenant leave everything that belongs to other
  tenants unchanged, in every table, over any history.\<close>

theorem rbac_tenant_isolation:
  assumes "(rbac_step (Some t))\<^sup>*\<^sup>* w w'" and "rbac_ok (store w)"
  shows "foreign_view t (store w') = foreign_view t (store w)"
  using tenant_step_foreign[OF assms] by blast

theorem rbac_tenant_isolation_witness:
  "foreign_view 1 (store demo_after) = foreign_view 1 (store demo_world)"
  by (rule rbac_tenant_isolation[OF _ demo_rbac_ok]) (use demo_step in auto)

text \<open>A successful UpdateRolePermissions was based on the current revision and makes the grants
  of the role exactly the requested codes, leaving every other role's grants alone; the Owner
  role keeps org:manage.\<close>

theorem UpdateRolePermissions_effect:
  assumes "UpdateRolePermissions ev (Some t) ten a rid codes expected w = (Inr v, w')"
    and "keys_ok (store w)" and "distinct (map perm_Code (permissions (store w)))"
  shows "set (role_codes (Some t) (store w') rid) = set codes
    \<and> (\<forall>i. i \<noteq> rid \<longrightarrow> set (role_codes (Some t) (store w') i) = set (role_codes (Some t) (store w) i))
    \<and> (\<exists>r. role_by_id (Some t) (store w) rid = Some r \<and> (\<forall>k. expected = Some k \<longrightarrow> role_UpdatedAt r = k)
         \<and> (role_Slug r = RoleOwner \<longrightarrow> PermOrgManage \<in> set codes))
    \<and> set codes \<subseteq> set (user_codes (Some t) (store w) a)
    \<and> view_PermissionCodes v = sort (uniquePermissionCodes codes)"
proof -
  let ?codes = "uniquePermissionCodes codes"
  obtain hr w1 where h: "UserIDsWithRole ev (Some t) rid w = (hr, w1)" by fastforce
  then have "w1 = w" by (rule UserIDsWithRole_world)
  then have run: "op_try (WithTenantTx ev ''UpdateRolePermissions'' (Some t)
        (UpdateRolePermissions_tx ev ten a rid ?codes expected))
      (\<lambda>e. op_fail (roleMutationError ''failed to update role permissions'' e))
      (\<lambda>r. then_invalidate ev ten (holders_of hr) \<lparr>view_RoleID = role_ID r,
         view_PermissionCodes = sort ?codes, view_Revision = roleRevision ev (role_UpdatedAt r)\<rparr>) w = (Inr v, w')"
    using assms(1) h unfolding UpdateRolePermissions_def Let_def by simp
  obtain x d where ok: "UpdateRolePermissions_tx ev ten a rid ?codes expected (Some t) (store w) = Inr (x, d)"
      "store w' = d" "view_PermissionCodes v = sort ?codes"
    using run by (cases rule: tx_op_cases) (auto simp: then_invalidate_eq)
  let ?ps = "filter (\<lambda>p. perm_Code p \<in> set codes) (permissions (store w))"
  obtain r where r: "role_by_id (Some t) (store w) rid = Some r" "\<forall>k. expected = Some k \<longrightarrow> role_UpdatedAt r = k"
      "length ?ps = length ?codes" "authorizeRoleDelegation (access_of (Some t) (store w) a) r ?codes = None"
      "role_Slug r = RoleOwner \<longrightarrow> PermOrgManage \<in> set codes" "?ps \<noteq> [] \<longrightarrow> Some t = Some ten"
      "d = touch_role ev (Some t) rid ((store w)\<lparr>role_permissions :=
          delete_rows (Some t) rp_TenantID (\<lambda>rp. rp_RoleID rp = rid) (role_permissions (store w))
          @ grant_rows ev ten rid ?ps\<rparr>)"
    using UpdateRolePermissions_tx_Inr[OF ok(1)] by auto
  have "perm_Code ` set ?ps = set codes"
  proof (rule card_subset_eq)
    have "distinct (map perm_Code ?ps)" using assms(3) by (simp add: distinct_map_filter)
    then have "card (perm_Code ` set ?ps) = length ?ps" by (metis distinct_card length_map list.set_map)
    also have "\<dots> = card (set codes)"
      using r(3) distinct_card[OF uniquePermissionCodes_distinct, of codes] by simp
    finally show "card (perm_Code ` set ?ps) = card (set codes)" .
  qed auto
  moreover have "set (role_codes (Some t) (regrant ev t rid ?ps (store w)) rid) = perm_Code ` set ?ps"
    using assms(2) by (intro regrant_this) auto
  ultimately show ?thesis
    using ok r unfolding set_regrant[OF r(6)] by (auto simp: regrant_other authorizeRoleDelegation_None)
qed

theorem UpdateRolePermissions_effect_witness:
  "set (role_codes (Some 1) (store (snd (UpdateRolePermissions demo_env (Some 1) 1 10 22 [''project:view''] (Some 5)
      demo_world))) 22) = {''project:view''}"
proof -
  let ?o = "UpdateRolePermissions demo_env (Some 1) 1 10 22 [''project:view''] (Some 5) demo_world"
  have "(case fst ?o of Inr v \<Rightarrow> True | Inl e \<Rightarrow> False)" by code_simp
  then obtain v where "?o = (Inr v, snd ?o)" by (cases ?o; cases "fst ?o") auto
  moreover have "keys_ok (store demo_world)" "distinct (map perm_Code (permissions (store demo_world)))"
    by code_simp+
  ultimately show ?thesis using UpdateRolePermissions_effect by fastforce
qed

text \<open>A request authenticated by an API key passes a permission gate exactly when the key is
  scoped for the code, whatever roles the key's owner holds, and without reading or changing
  anything.\<close>

theorem RequirePermission_api_key:
  assumes "keys c CtxAPIKeyScopes = Some (VStrings scopes)"
  shows "RequirePermission ev code c w = (if code \<in> set scopes then (Inr c, w)
    else (Inl (Error c 403 ''FORBIDDEN'' (''api key is not scoped for '' @ code) []), w))"
  using RequirePermission_key[of c scopes ev code w] assms
  by (simp add: scopesFromContext_def op_return_def op_fail_def)

theorem RequirePermission_api_key_witness:
  "case fst (RequirePermission demo_env ''role:manage''
     \<lparr>keys = [CtxAPIKeyScopes \<mapsto> VStrings [''project:view'']], ctx_tenant = Some 1, GetHeader = \<lambda>_. '''',
      HeaderValues = \<lambda>_. [], Query = \<lambda>_. '''', Param = \<lambda>_. '''', Host = '''', ClientIP = '''', UserAgent = ''''\<rparr> demo_world) of
     Inl r \<Rightarrow> resp_status r = 403 | Inr _ \<Rightarrow> False"
  by (subst RequirePermission_api_key[where scopes = "[''project:view'']"]) (auto simp: Error_def)

section \<open>A new organization\<close>

lemma seed_rows:
  assumes "seed_default_roles ev ids t d = Inr ((), d')"
  defines "rs \<equiv> map (\<lambda>(n, s). seed_role ev t (ids n) s) (enumerate 0 system_roles)"
  defines "gs \<equiv> concat (map (\<lambda>(n, s). seed_grants ev t (ids n) s (permissions d)) (enumerate 0 system_roles))"
  shows "d' = d\<lparr>roles := roles d @ rs, role_permissions := role_permissions d @ gs\<rparr>
    \<and> distinct (map role_ID rs) \<and> (\<forall>r\<in>set rs. role_ID r \<notin> role_ID ` set (roles d))"
  using assms unfolding seed_default_roles_def rs_def gs_def by (auto simp: Let_def split: if_splits)

lemma system_roles_granted:
  "(n, name, slug, desc, rank, granted) \<in> set (enumerate 0 system_roles) \<Longrightarrow> slug \<noteq> RoleOwner \<Longrightarrow>
     \<not> granted PermOrgManage"
  by (auto simp: system_roles_def RoleOwner_def PermOrgManage_def manager_codes_def member_codes_def guest_codes_def)

lemma seed_rows_mem:
  assumes "seed_default_roles ev ids t d = Inr ((), d')"
  shows "\<exists>rs gs. d' = d\<lparr>roles := roles d @ rs, role_permissions := role_permissions d @ gs\<rparr>
    \<and> distinct (map role_ID (roles d @ rs) )= distinct (map role_ID (roles d))
    \<and> (\<forall>r\<in>set rs. role_TenantID r = t \<and> role_IsSystem r \<and> role_ID r \<notin> role_ID ` set (roles d)
        \<and> (\<exists>n s. (n, s) \<in> set (enumerate 0 system_roles) \<and> r = seed_role ev t (ids n) s))
    \<and> (\<exists>r\<in>set rs. role_Slug r = RoleOwner)
    \<and> (\<forall>rp\<in>set gs. rp_TenantID rp = t \<and> (\<exists>n s p. (n, s) \<in> set (enumerate 0 system_roles)
        \<and> seed_role ev t (ids n) s \<in> set rs \<and> rp_RoleID rp = ids n
        \<and> p \<in> set (permissions d) \<and> rp_PermissionID rp = perm_ID p \<and> snd (snd (snd (snd s))) (perm_Code p)))
    \<and> distinct (map role_ID rs)"
proof -
  let ?rs = "map (\<lambda>(n, s). seed_role ev t (ids n) s) (enumerate 0 system_roles)"
  let ?gs = "concat (map (\<lambda>(n, s). seed_grants ev t (ids n) s (permissions d)) (enumerate 0 system_roles))"
  note rows = seed_rows[OF assms]
  have "distinct (map role_ID (roles d @ ?rs)) = distinct (map role_ID (roles d))"
    using rows by (intro distinct_map_append_fresh) auto
  moreover have "\<forall>r\<in>set ?rs. role_TenantID r = t \<and> role_IsSystem r
      \<and> (\<exists>n s. (n, s) \<in> set (enumerate 0 system_roles) \<and> r = seed_role ev t (ids n) s)"
    by (auto simp: seed_role_def split: prod.splits)
  moreover have "\<exists>r\<in>set ?rs. role_Slug r = RoleOwner"
    by (simp add: system_roles_def seed_role_def RoleOwner_def)
  moreover have "\<forall>rp\<in>set ?gs. rp_TenantID rp = t \<and> (\<exists>n s p. (n, s) \<in> set (enumerate 0 system_roles)
        \<and> seed_role ev t (ids n) s \<in> set ?rs \<and> rp_RoleID rp = ids n
        \<and> p \<in> set (permissions d) \<and> rp_PermissionID rp = perm_ID p \<and> snd (snd (snd (snd s))) (perm_Code p))"
    by (force simp: seed_grants_def)
  ultimately show ?thesis using rows by (intro exI[of _ ?rs] exI[of _ ?gs]) blast
qed

text \<open>Creating an organization keeps the RBAC invariant: the seed trigger gives the new tenant its
  system roles, among them an Owner role, and only that role is granted org:manage.\<close>

theorem new_tenant_rbac_ok:
  assumes "tenancy_CreateTx ev ids t d = Inr ((), d')" and "rbac_ok d"
  shows "rbac_ok d' \<and> (\<exists>r\<in>set (roles d'). role_TenantID r = tenant_ID t \<and> role_Slug r = RoleOwner)"
proof -
  let ?d = "d\<lparr>tenants := tenants d @ [t]\<rparr>"
  have "seed_default_roles ev ids (tenant_ID t) ?d = Inr ((), d')"
    using assms(1) by (auto simp: tenancy_CreateTx_def tx_inv)
  then obtain rs gs where d': "d' = ?d\<lparr>roles := roles d @ rs, role_permissions := role_permissions d @ gs\<rparr>"
    and ids: "distinct (map role_ID (roles d @ rs)) = distinct (map role_ID (roles d))" "distinct (map role_ID rs)"
    and rs: "\<forall>r\<in>set rs. role_TenantID r = tenant_ID t \<and> role_IsSystem r \<and> role_ID r \<notin> role_ID ` set (roles d)
        \<and> (\<exists>n s. (n, s) \<in> set (enumerate 0 system_roles) \<and> r = seed_role ev (tenant_ID t) (ids n) s)"
    and owner: "\<exists>r\<in>set rs. role_Slug r = RoleOwner"
    and gs: "\<forall>rp\<in>set gs. rp_TenantID rp = tenant_ID t \<and> (\<exists>n s p. (n, s) \<in> set (enumerate 0 system_roles)
        \<and> seed_role ev (tenant_ID t) (ids n) s \<in> set rs \<and> rp_RoleID rp = ids n
        \<and> p \<in> set (permissions d) \<and> rp_PermissionID rp = perm_ID p \<and> snd (snd (snd (snd s))) (perm_Code p))"
    using seed_rows_mem[of ev ids "tenant_ID t" ?d d'] by auto
  note ok = assms(2)[unfolded rbac_ok_def]
  have keys: "keys_ok d'" using ok ids unfolding keys_ok_def d' by simp
  have sid: "role_ID (seed_role ev i j s) = j" "role_TenantID (seed_role ev i j s) = i" for i j s
    by (simp_all add: seed_role_def split: prod.splits)
  have "\<exists>r\<in>set (roles d @ rs). role_ID r = rp_RoleID rp \<and> role_TenantID r = rp_TenantID rp"
    if "rp \<in> set gs" for rp
  proof -
    from bspec[OF gs that] obtain n s where "seed_role ev (tenant_ID t) (ids n) s \<in> set rs"
      "rp_RoleID rp = ids n" "rp_TenantID rp = tenant_ID t" by (elim conjE exE) (rule that)
    then show ?thesis by (intro bexI[of _ "seed_role ev (tenant_ID t) (ids n) s"]) (simp_all add: sid)
  qed
  then have refs: "refs_ok d'"
    using ok unfolding refs_ok_def d' by (simp add: ball_Un) (meson Un_iff)
  have o1: "\<forall>r\<in>set (roles d @ rs). role_Slug r = RoleOwner \<longrightarrow> role_IsSystem r"
    using conjunct1[OF ok[unfolded owner_roles_ok_def, THEN conjunct2, THEN conjunct2, THEN conjunct1]] rs
    by (metis (no_types, lifting) Un_iff set_append)
  have o2: "\<exists>r\<in>set (roles d @ rs). role_TenantID r = tenant_ID x \<and> role_Slug r = RoleOwner"
    if "x \<in> set (tenants d @ [t])" for x
  proof (cases "x \<in> set (tenants d)")
    case True
    then show ?thesis using ok unfolding owner_roles_ok_def by (metis Un_iff set_append)
  next
    case False
    then have "x = t" using that by simp
    then show ?thesis using owner rs by (metis Un_iff set_append)
  qed
  have owners: "owner_roles_ok d'"
    unfolding owner_roles_ok_def d' using o1 o2 by simp
  have "PermOrgManage \<notin> set (role_codes (Some (role_TenantID r)) d' (role_ID r))"
    if r: "r \<in> set (roles d')" "role_Slug r \<noteq> RoleOwner" for r
  proof
    assume "PermOrgManage \<in> set (role_codes (Some (role_TenantID r)) d' (role_ID r))"
    then obtain rp p where rp: "rp \<in> set (role_permissions d) \<or> rp \<in> set gs" "rp_TenantID rp = role_TenantID r"
        "rp_RoleID rp = role_ID r" "p \<in> set (permissions d)" "perm_ID p = rp_PermissionID rp"
        "perm_Code p = PermOrgManage"
      by (auto simp: role_codes_mem d')
    from rp(1) show False
    proof
      assume old: "rp \<in> set (role_permissions d)"
      then obtain q where "q \<in> set (roles d)" "role_ID q = role_ID r"
        using ok rp(3) unfolding refs_ok_def by metis
      then have "q = r" using role_unique[OF keys] r(1) by (simp add: d')
      moreover have "PermOrgManage \<in> set (role_codes (Some (role_TenantID r)) d (role_ID r))"
        unfolding role_codes_mem using old rp(2-6) by blast
      ultimately show False using ok \<open>q \<in> set (roles d)\<close> r(2) unfolding org_manage_exclusive_def by blast
    next
      assume "rp \<in> set gs"
      then obtain n s q where q: "(n, s) \<in> set (enumerate 0 system_roles)"
          "seed_role ev (tenant_ID t) (ids n) s \<in> set rs" "rp_RoleID rp = ids n" "q \<in> set (permissions d)"
          "rp_PermissionID rp = perm_ID q" "snd (snd (snd (snd s))) (perm_Code q)"
        using bspec[OF gs] by (metis (no_types, lifting))
      have "q = p" using perm_unique[of d q p] ok q(4,5) rp(4,5) by simp
      moreover have "r = seed_role ev (tenant_ID t) (ids n) s"
        using role_unique[OF keys r(1)] q(2,3) rp(3) sid by (simp add: d')
      ultimately show False
        using q(1,6) r(2) rp(6) by (cases s) (auto simp: seed_role_def dest: system_roles_granted)
    qed
  qed
  then have "org_manage_exclusive d'" unfolding org_manage_exclusive_def by blast
  moreover have "\<exists>r\<in>set (roles d'). role_TenantID r = tenant_ID t \<and> role_Slug r = RoleOwner"
    using owner rs unfolding d' by auto
  ultimately show ?thesis using keys refs owners unfolding rbac_ok_def by blast
qed

theorem new_tenant_rbac_ok_witness:
  "\<exists>d'. tenancy_CreateTx demo_env (\<lambda>n. word_of_nat (50 + n)) (demo_tenant\<lparr>tenant_ID := 2, tenant_Slug := ''beta''\<rparr>)
      demo_db = Inr ((), d') \<and> rbac_ok d'"
proof -
  let ?r = "tenancy_CreateTx demo_env (\<lambda>n. word_of_nat (50 + n))
      (demo_tenant\<lparr>tenant_ID := 2, tenant_Slug := ''beta''\<rparr>) demo_db"
  have "(case ?r of Inr _ \<Rightarrow> True | Inl _ \<Rightarrow> False)" by code_simp
  then obtain d' where d': "?r = Inr ((), d')" by (cases ?r) auto
  have "rbac_ok demo_db" by code_simp
  from new_tenant_rbac_ok[OF d' this] d' show ?thesis by blast
qed

end
