(* ===== verification/Identity_Repo.thy ===== *)
theory Identity_Repo
  imports Authz_Service Tenancy
begin

text \<open>
  internal/identity/repository.go: users, refresh tokens, OAuth links and verification
  tokens. The lookups made before a tenant is known go through SECURITY DEFINER functions
  (migrations/000011), which see every row.
\<close>

section \<open>Errors\<close>

definition identity_ErrUserNotFound :: err where
  "identity_ErrUserNotFound = Sentinel ''identity: user not found''"
definition ErrTenantInactive :: err where "ErrTenantInactive = Sentinel ''identity: tenant inactive''"
definition ErrUserInactive :: err where "ErrUserInactive = Sentinel ''identity: user inactive''"
definition ErrRefreshInvalid :: err where "ErrRefreshInvalid = Sentinel ''identity: refresh token invalid''"
definition ErrRefreshReused :: err where "ErrRefreshReused = Sentinel ''identity: refresh token reused''"
definition ErrRefreshExpired :: err where "ErrRefreshExpired = Sentinel ''identity: refresh token expired''"
definition ErrVerificationInvalid :: err where
  "ErrVerificationInvalid = Sentinel ''identity: verification token invalid''"

lemmas identity_errs = ErrTenantInactive_def ErrUserInactive_def ErrRefreshInvalid_def
  ErrRefreshReused_def ErrRefreshExpired_def ErrVerificationInvalid_def

section \<open>Users\<close>

definition user_unique :: "env \<Rightarrow> user \<Rightarrow> db \<Rightarrow> bool" where
  "user_unique ev u d \<longleftrightarrow> user_ID u \<notin> user_ID ` set (users d) \<and>
     (user_DeletedAt u = None \<longrightarrow> \<not> (\<exists>q\<in>set (users d). user_DeletedAt q = None
        \<and> user_TenantID q = user_TenantID u \<and> citext ev (user_Email q) = citext ev (user_Email u)))"

definition insert_user :: "env \<Rightarrow> session \<Rightarrow> user \<Rightarrow> (db, err, unit) tx" where
  "insert_user ev sess u =
     tx_bind (tx_query (\<lambda>d. insert_check (rls sess user_TenantID u)
        (user_Status u \<in> {''active'', ''invited'', ''disabled''}) (user_unique ev u d)
        (user_TenantID u \<in> tenant_ID ` set (tenants d)))) (\<lambda>chk. tx_bind (raise chk) (\<lambda>_.
     modify (\<lambda>d. d\<lparr>users := users d @ [u]\<rparr>)))"

definition identity_Create :: "env \<Rightarrow> ctx \<Rightarrow> user \<Rightarrow> (world, err, unit) op" where
  "identity_Create ev c u = WithTenantTx ev ''identity.Create'' c (\<lambda>sess.
     tx_map_err (Wrapped ''identity: create user'') (stmt ev ''identity.Create.create'' (insert_user ev sess u)))"

definition identity_CreateTx :: "env \<Rightarrow> session \<Rightarrow> user \<Rightarrow> (db, err, unit) tx" where
  "identity_CreateTx ev sess u = tx_map_err (Wrapped ''identity: create user tx'')
     (stmt ev ''identity.CreateTx'' (insert_user ev sess u))"

definition identity_FindByID :: "env \<Rightarrow> ctx \<Rightarrow> uuid \<Rightarrow> (world, err, user) op" where
  "identity_FindByID ev c i = WithTenantTx ev ''identity.FindByID'' c (\<lambda>sess.
     tx_map_err (\<lambda>e. if errors_is e ErrRecordNotFound then identity_ErrUserNotFound else e)
       (stmt ev ''identity.FindByID.first'' (take_row (\<lambda>d. live_user sess d i))))"

definition FindByEmailInTenant :: "env \<Rightarrow> ctx \<Rightarrow> string \<Rightarrow> (world, err, user) op" where
  "FindByEmailInTenant ev c email = WithTenantTx ev ''FindByEmailInTenant'' c (\<lambda>sess.
     tx_map_err (\<lambda>e. if errors_is e ErrRecordNotFound then identity_ErrUserNotFound else e)
       (stmt ev ''FindByEmailInTenant.first'' (take_row (\<lambda>d. select_first sess user_TenantID
          (\<lambda>u. citext ev (user_Email u) = citext ev email \<and> user_DeletedAt u = None) (users d)))))"

text \<open>\<open>find_users_by_email\<close> takes a TEXT argument, which CITEXT still compares folded.\<close>

definition FindByEmailAnyTenant :: "env \<Rightarrow> string \<Rightarrow> (world, err, user list) op" where
  "FindByEmailAnyTenant ev email = op_map_err (Wrapped ''identity: find by email any tenant'')
     (WithoutTenantScope ev ''FindByEmailAnyTenant'' (\<lambda>_. stmt ev ''FindByEmailAnyTenant.scan''
        (tx_query (\<lambda>d. filter (\<lambda>u. citext ev (user_Email u) = citext ev email \<and> user_DeletedAt u = None)
          (users d)))))"

text \<open>\<open>ORDER BY created_at DESC LIMIT ? OFFSET ?\<close>; gorm drops an offset that is not positive.\<close>

definition page_of :: "int \<Rightarrow> int \<Rightarrow> 'r list \<Rightarrow> 'r list" where
  "page_of lim offset rows = take (nat lim) (drop (nat offset) rows)"

definition ListByTenant :: "env \<Rightarrow> ctx \<Rightarrow> int \<Rightarrow> int \<Rightarrow> (world, err, user list \<times> int) op" where
  "ListByTenant ev c lim offset = op_map_err (Wrapped ''identity: list by tenant'')
     (WithTenantTx ev ''ListByTenant'' c (\<lambda>sess.
        tx_bind (stmt ev ''ListByTenant.count'' (tx_query (\<lambda>d.
          count_rows sess user_TenantID (\<lambda>u. user_DeletedAt u = None) (users d)))) (\<lambda>n.
        tx_bind (stmt ev ''ListByTenant.find'' (tx_query (\<lambda>d.
          page_of lim offset (sort_key (\<lambda>u. - user_CreatedAt u)
            (select_rows sess user_TenantID (\<lambda>u. user_DeletedAt u = None) (users d)))))) (\<lambda>us.
        tx_return (us, n)))))"

text \<open>gorm's \<open>Save\<close>: an UPDATE by primary key, or an insert when it matched no row.\<close>

definition save_user :: "env \<Rightarrow> session \<Rightarrow> user \<Rightarrow> (db, err, unit) tx" where
  "save_user ev sess u = tx_bind (tx_query (\<lambda>d.
       select_rows sess user_TenantID (\<lambda>q. user_ID q = user_ID u) (users d) \<noteq> [])) (\<lambda>found.
     if found \<and> rls sess user_TenantID u
     then modify (\<lambda>d. d\<lparr>users := update_rows sess user_TenantID (\<lambda>q. user_ID q = user_ID u)
            (\<lambda>_. u\<lparr>user_UpdatedAt := now ev\<rparr>) (users d)\<rparr>)
     else insert_user ev sess u)"

definition identity_Update :: "env \<Rightarrow> ctx \<Rightarrow> user \<Rightarrow> (world, err, unit) op" where
  "identity_Update ev c u = WithTenantTx ev ''identity.Update'' c (\<lambda>sess.
     stmt ev ''identity.Update.save'' (save_user ev sess u))"

text \<open>The credential check of every request: the user and its tenant are live and active.\<close>

definition credential_active :: "session \<Rightarrow> db \<Rightarrow> uuid \<Rightarrow> uuid \<Rightarrow> bool" where
  "credential_active sess d tenantID userID \<longleftrightarrow>
     (\<exists>u\<in>set (users d). rls sess user_TenantID u \<and> user_ID u = userID \<and> user_TenantID u = tenantID
        \<and> user_DeletedAt u = None \<and> user_Status u \<noteq> ''disabled''
        \<and> (\<exists>t\<in>set (tenants d). tenant_ID t = user_TenantID u \<and> tenant_ID t = tenantID
             \<and> tenant_Status t = ''active'' \<and> tenant_DeletedAt t = None))"

definition ValidateCredentialState :: "env \<Rightarrow> uuid \<Rightarrow> uuid \<Rightarrow> (world, err, unit) op" where
  "ValidateCredentialState ev tenantID userID = WithTenantTxID ev ''ValidateCredentialState'' tenantID (\<lambda>sess.
     tx_bind (stmt ev ''ValidateCredentialState.scan''
       (tx_query (\<lambda>d. credential_active sess d tenantID userID \<and> userID \<noteq> uuid_nil))) (\<lambda>ok.
     require ok ErrUserInactive))"

definition activeCredentialUserTx :: "env \<Rightarrow> session \<Rightarrow> uuid \<Rightarrow> uuid \<Rightarrow> (db, err, user) tx" where
  "activeCredentialUserTx ev sess tenantID userID =
     tx_bind (stmt ev ''activeCredential.tenant''
       (tx_query (\<lambda>d. List.find (\<lambda>t. tenant_ID t = tenantID) (tenants d)))) (\<lambda>t.
     tx_bind (require (case t of Some t \<Rightarrow> tenant_Status t = ''active'' \<and> tenant_DeletedAt t = None
       | None \<Rightarrow> False) ErrTenantInactive) (\<lambda>_.
     tx_bind (tx_map_err (\<lambda>e. if errors_is e ErrRecordNotFound then ErrUserInactive else e)
       (stmt ev ''activeCredential.user'' (take_row (\<lambda>d. live_user sess d userID)))) (\<lambda>u.
     if user_Status u = ''disabled'' then tx_fail ErrUserInactive else tx_return u)))"

section \<open>Refresh tokens\<close>

definition insert_refresh_token :: "session \<Rightarrow> refresh_token \<Rightarrow> (db, err, unit) tx" where
  "insert_refresh_token sess r =
     tx_bind (tx_query (\<lambda>d. insert_check (rls sess rt_TenantID r) True
        (rt_ID r \<notin> rt_ID ` set (refresh_tokens d) \<and> rt_TokenHash r \<notin> rt_TokenHash ` set (refresh_tokens d))
        (rt_TenantID r \<in> tenant_ID ` set (tenants d) \<and> rt_UserID r \<in> user_ID ` set (users d)
         \<and> (case rt_ReplacedBy r of None \<Rightarrow> True | Some i \<Rightarrow> i \<in> rt_ID ` set (refresh_tokens d)))))
       (\<lambda>chk. tx_bind (raise chk) (\<lambda>_.
     modify (\<lambda>d. d\<lparr>refresh_tokens := refresh_tokens d @ [r]\<rparr>)))"

definition CreateRefreshToken :: "env \<Rightarrow> uuid \<Rightarrow> refresh_token \<Rightarrow> (world, err, unit) op" where
  "CreateRefreshToken ev tenantID r = WithTenantTxID ev ''CreateRefreshToken'' tenantID (\<lambda>sess.
     stmt ev ''CreateRefreshToken.create'' (insert_refresh_token sess r))"

definition FindRefreshTokenByHash :: "env \<Rightarrow> string \<Rightarrow> (world, err, refresh_token) op" where
  "FindRefreshTokenByHash ev h = WithoutTenantScope ev ''FindRefreshTokenByHash'' (\<lambda>_.
     tx_bind (stmt ev ''FindRefreshTokenByHash.scan''
       (tx_query (\<lambda>d. List.find (\<lambda>r. rt_TokenHash r = h) (refresh_tokens d)))) (\<lambda>r.
     case r of Some r \<Rightarrow> if rt_ID r = uuid_nil then tx_fail (Plain ''identity: refresh token not found'')
                         else tx_return r
     | None \<Rightarrow> tx_fail (Plain ''identity: refresh token not found'')))"

definition revoke_tokens :: "env \<Rightarrow> session \<Rightarrow> (refresh_token \<Rightarrow> bool) \<Rightarrow> db \<Rightarrow> db" where
  "revoke_tokens ev sess P d = d\<lparr>refresh_tokens := update_rows sess rt_TenantID
     (\<lambda>r. P r \<and> rt_RevokedAt r = None) (\<lambda>r. r\<lparr>rt_RevokedAt := Some (now ev)\<rparr>) (refresh_tokens d)\<rparr>"

definition RevokeRefreshTokenFamily :: "env \<Rightarrow> uuid \<Rightarrow> uuid \<Rightarrow> (world, err, unit) op" where
  "RevokeRefreshTokenFamily ev tenantID familyID =
     WithTenantTxID ev ''RevokeRefreshTokenFamily'' tenantID (\<lambda>sess.
       stmt ev ''RevokeRefreshTokenFamily.update''
         (modify (revoke_tokens ev sess (\<lambda>r. rt_FamilyID r = familyID))))"

text \<open>
  The rotation. The refusals that must be remembered although the transaction commits are its
  result (\<open>Inl\<close> an outcome); a mismatching replacement or a driver error rolls back.
\<close>

definition unconsumed :: "uuid \<Rightarrow> refresh_token \<Rightarrow> bool" where
  "unconsumed i r \<longleftrightarrow> rt_ID r = i \<and> rt_RevokedAt r = None \<and> rt_ReplacedBy r = None"

definition consume_token :: "env \<Rightarrow> session \<Rightarrow> uuid \<Rightarrow> uuid \<Rightarrow> db \<Rightarrow> db" where
  "consume_token ev sess i j d = d\<lparr>refresh_tokens := update_rows sess rt_TenantID (unconsumed i)
     (\<lambda>r. r\<lparr>rt_RevokedAt := Some (now ev), rt_ReplacedBy := Some j\<rparr>) (refresh_tokens d)\<rparr>"

definition rotate_found :: "env \<Rightarrow> session \<Rightarrow> refresh_token \<Rightarrow> user \<Rightarrow> refresh_token \<Rightarrow> (db, err, err + user) tx" where
  "rotate_found ev sess new u cur =
     (if rt_RevokedAt cur \<noteq> None \<or> rt_ReplacedBy cur \<noteq> None then
        tx_bind (stmt ev ''Rotate.revoke_family''
          (modify (revoke_tokens ev sess (\<lambda>r. rt_FamilyID r = rt_FamilyID cur)))) (\<lambda>_.
        tx_return (Inl ErrRefreshReused))
      else if \<not> now ev < rt_ExpiresAt cur then tx_return (Inl ErrRefreshExpired)
      else if rt_TenantID new \<noteq> rt_TenantID cur \<or> rt_UserID new \<noteq> rt_UserID cur
              \<or> rt_FamilyID new \<noteq> rt_FamilyID cur then tx_fail ErrRefreshInvalid
      else tx_bind (stmt ev ''Rotate.create'' (insert_refresh_token sess new)) (\<lambda>_.
        tx_bind (stmt ev ''Rotate.consume''
          (tx_bind (tx_query (\<lambda>d. count_rows sess rt_TenantID (unconsumed (rt_ID cur)) (refresh_tokens d))) (\<lambda>affected.
           tx_bind (modify (consume_token ev sess (rt_ID cur) (rt_ID new))) (\<lambda>_. tx_return affected)))) (\<lambda>affected.
        tx_bind (require (affected = 1) ErrRefreshInvalid) (\<lambda>_.
        tx_return (Inr u)))))"

definition RotateRefreshToken_tx :: "env \<Rightarrow> uuid \<Rightarrow> uuid \<Rightarrow> refresh_token \<Rightarrow> (err + user) body" where
  "RotateRefreshToken_tx ev tenantID oldID new = (\<lambda>sess.
     tx_try (activeCredentialUserTx ev sess tenantID (rt_UserID new))
       (\<lambda>e. tx_return (Inl e))
       (\<lambda>u. tx_try (stmt ev ''Rotate.first''
               (take_row (\<lambda>d. select_first sess rt_TenantID (\<lambda>r. rt_ID r = oldID) (refresh_tokens d))))
         (\<lambda>e. if errors_is e ErrRecordNotFound then tx_return (Inl ErrRefreshInvalid) else tx_fail e)
         (\<lambda>cur. rotate_found ev sess new u cur)))"

definition RotateRefreshToken :: "env \<Rightarrow> uuid \<Rightarrow> uuid \<Rightarrow> refresh_token \<Rightarrow> (world, err, user) op" where
  "RotateRefreshToken ev tenantID oldID new =
     op_bind (WithTenantTxID ev ''RotateRefreshToken'' tenantID (RotateRefreshToken_tx ev tenantID oldID new))
       (\<lambda>outcome. op_lift outcome)"

section \<open>OAuth accounts\<close>

definition FindOAuthAccount :: "env \<Rightarrow> string \<Rightarrow> string \<Rightarrow> (world, err, oauth_account) op" where
  "FindOAuthAccount ev provider puid = WithoutTenantScope ev ''FindOAuthAccount'' (\<lambda>_.
     tx_bind (stmt ev ''FindOAuthAccount.scan''
       (tx_query (\<lambda>d. List.find (\<lambda>a. oa_Provider a = provider \<and> oa_ProviderUserID a = puid)
          (oauth_accounts d)))) (\<lambda>a.
     case a of Some a \<Rightarrow> if oa_ID a = uuid_nil then tx_fail (Plain ''identity: oauth account not found'')
                         else tx_return a
     | None \<Rightarrow> tx_fail (Plain ''identity: oauth account not found'')))"

definition insert_oauth_account :: "session \<Rightarrow> oauth_account \<Rightarrow> (db, err, unit) tx" where
  "insert_oauth_account sess a =
     tx_bind (tx_query (\<lambda>d. insert_check (rls sess oa_TenantID a) (oa_Provider a \<in> {''google'', ''github''})
        (oa_ID a \<notin> oa_ID ` set (oauth_accounts d) \<and> \<not> (\<exists>q\<in>set (oauth_accounts d).
           oa_Provider q = oa_Provider a \<and> oa_ProviderUserID q = oa_ProviderUserID a))
        (oa_TenantID a \<in> tenant_ID ` set (tenants d) \<and> oa_UserID a \<in> user_ID ` set (users d))))
       (\<lambda>chk. tx_bind (raise chk) (\<lambda>_.
     modify (\<lambda>d. d\<lparr>oauth_accounts := oauth_accounts d @ [a]\<rparr>)))"

definition CreateOAuthAccount :: "env \<Rightarrow> uuid \<Rightarrow> oauth_account \<Rightarrow> (world, err, unit) op" where
  "CreateOAuthAccount ev tenantID a = WithTenantTxID ev ''CreateOAuthAccount'' tenantID (\<lambda>sess.
     stmt ev ''CreateOAuthAccount.create'' (insert_oauth_account sess a))"

section \<open>Verification tokens\<close>

definition PurposeEmailVerification :: string where "PurposeEmailVerification = ''email_verification''"
definition PurposePasswordReset :: string where "PurposePasswordReset = ''password_reset''"

definition insert_verification_token :: "session \<Rightarrow> verification_token \<Rightarrow> (db, err, unit) tx" where
  "insert_verification_token sess v =
     tx_bind (tx_query (\<lambda>d. insert_check (rls sess vt_TenantID v)
        (vt_Purpose v \<in> {''email_verification'', ''password_reset''})
        (vt_ID v \<notin> vt_ID ` set (verification_tokens d) \<and> vt_TokenHash v \<notin> vt_TokenHash ` set (verification_tokens d))
        (vt_TenantID v \<in> tenant_ID ` set (tenants d) \<and> vt_UserID v \<in> user_ID ` set (users d))))
       (\<lambda>chk. tx_bind (raise chk) (\<lambda>_.
     modify (\<lambda>d. d\<lparr>verification_tokens := verification_tokens d @ [v]\<rparr>)))"

definition CreateVerificationToken :: "env \<Rightarrow> uuid \<Rightarrow> verification_token \<Rightarrow> (world, err, unit) op" where
  "CreateVerificationToken ev tenantID v = WithTenantTxID ev ''CreateVerificationToken'' tenantID (\<lambda>sess.
     stmt ev ''CreateVerificationToken.create'' (insert_verification_token sess v))"

definition FindVerificationTokenByHash :: "env \<Rightarrow> string \<Rightarrow> (world, err, verification_token) op" where
  "FindVerificationTokenByHash ev h = WithoutTenantScope ev ''FindVerificationTokenByHash'' (\<lambda>_.
     tx_bind (stmt ev ''FindVerificationTokenByHash.scan''
       (tx_query (\<lambda>d. List.find (\<lambda>v. vt_TokenHash v = h) (verification_tokens d)))) (\<lambda>v.
     case v of Some v \<Rightarrow> if vt_ID v = uuid_nil then tx_fail (Plain ''identity: verification token not found'')
                         else tx_return v
     | None \<Rightarrow> tx_fail (Plain ''identity: verification token not found'')))"

definition token_by_id :: "session \<Rightarrow> db \<Rightarrow> uuid \<Rightarrow> verification_token option" where
  "token_by_id sess d i = select_first sess vt_TenantID (\<lambda>v. vt_ID v = i) (verification_tokens d)"

definition mark_used :: "env \<Rightarrow> session \<Rightarrow> uuid \<Rightarrow> db \<Rightarrow> db" where
  "mark_used ev sess i d = d\<lparr>verification_tokens := update_rows sess vt_TenantID
     (\<lambda>v. vt_ID v = i \<and> vt_UsedAt v = None) (\<lambda>v. v\<lparr>vt_UsedAt := Some (now ev)\<rparr>) (verification_tokens d)\<rparr>"

definition claimVerificationTokenTx :: "env \<Rightarrow> session \<Rightarrow> uuid \<Rightarrow> uuid \<Rightarrow> string \<Rightarrow> (db, err, unit) tx" where
  "claimVerificationTokenTx ev sess tokenID userID purpose =
     tx_bind (tx_map_err (\<lambda>e. if errors_is e ErrRecordNotFound then ErrVerificationInvalid else e)
       (stmt ev ''claim.first'' (take_row (\<lambda>d. token_by_id sess d tokenID)))) (\<lambda>v.
     tx_bind (require (\<not> (vt_UserID v \<noteq> userID \<or> vt_Purpose v \<noteq> purpose \<or> vt_UsedAt v \<noteq> None
       \<or> \<not> now ev < vt_ExpiresAt v)) ErrVerificationInvalid) (\<lambda>_.
     stmt ev ''claim.update'' (modify (mark_used ev sess tokenID))))"

text \<open>An UPDATE of one live user by id; the code requires that it matched a row.\<close>

definition update_user :: "env \<Rightarrow> string \<Rightarrow> session \<Rightarrow> uuid \<Rightarrow> (user \<Rightarrow> user) \<Rightarrow> (db, err, unit) tx" where
  "update_user ev l sess i f =
     tx_bind (stmt ev l (tx_bind (tx_query (\<lambda>d. live_user sess d i \<noteq> None)) (\<lambda>affected.
       tx_bind (modify (\<lambda>d. d\<lparr>users := update_rows sess user_TenantID
          (\<lambda>u. user_ID u = i \<and> user_DeletedAt u = None) f (users d)\<rparr>)) (\<lambda>_. tx_return affected)))) (\<lambda>affected.
     require affected ErrVerificationInvalid)"

definition ConsumePasswordReset :: "env \<Rightarrow> uuid \<Rightarrow> uuid \<Rightarrow> uuid \<Rightarrow> string \<Rightarrow> (world, err, unit) op" where
  "ConsumePasswordReset ev tenantID tokenID userID passwordHash =
     WithTenantTxID ev ''ConsumePasswordReset'' tenantID (\<lambda>sess.
       tx_bind (activeCredentialUserTx ev sess tenantID userID) (\<lambda>_.
       tx_bind (claimVerificationTokenTx ev sess tokenID userID PurposePasswordReset) (\<lambda>_.
       tx_bind (update_user ev ''ConsumePasswordReset.user'' sess userID
         (\<lambda>u. u\<lparr>user_PasswordHash := Some passwordHash, user_UpdatedAt := now ev\<rparr>)) (\<lambda>_.
       stmt ev ''ConsumePasswordReset.sessions'' (modify (revoke_tokens ev sess (\<lambda>r. rt_UserID r = userID)))))))"

definition ConsumeEmailVerification :: "env \<Rightarrow> uuid \<Rightarrow> uuid \<Rightarrow> uuid \<Rightarrow> (world, err, unit) op" where
  "ConsumeEmailVerification ev tenantID tokenID userID =
     WithTenantTxID ev ''ConsumeEmailVerification'' tenantID (\<lambda>sess.
       tx_bind (activeCredentialUserTx ev sess tenantID userID) (\<lambda>_.
       tx_bind (claimVerificationTokenTx ev sess tokenID userID PurposeEmailVerification) (\<lambda>_.
       update_user ev ''ConsumeEmailVerification.user'' sess userID
         (\<lambda>u. u\<lparr>user_EmailVerifiedAt := Some (now ev), user_UpdatedAt := now ev\<rparr>))))"

end
