(* ===== verification/Identity_Service.thy ===== *)
theory Identity_Service
  imports Identity_Repo
begin

text \<open>
  internal/identity/service.go with token.go, password.go and dto.go: registration, login,
  refresh-token rotation, logout, password reset and e-mail verification. A service value is
  the record \<open>identity_Service\<close>; its \<open>RoleAssigner\<close> is an interface, the record
  \<open>RoleAssigner\<close> of operations, whose contract is the locale \<open>role_assigner\<close> of Identity_Sessions.
\<close>

section \<open>Interfaces and configuration\<close>

record RoleAssigner =
  ra_AssignSystemRoleTx :: "env \<Rightarrow> session \<Rightarrow> uuid \<Rightarrow> uuid \<Rightarrow> string \<Rightarrow> (db, err, unit) tx"
  ra_AssignSystemRole :: "env \<Rightarrow> ctx \<Rightarrow> uuid \<Rightarrow> uuid \<Rightarrow> string \<Rightarrow> (world, err, unit) op"
  ra_PrimaryRoleSlug :: "env \<Rightarrow> ctx \<Rightarrow> uuid \<Rightarrow> (world, err, string) op"

record identity_Config =
  JWTSecret :: string
  AccessTokenTTL :: duration
  RefreshTokenTTL :: duration
  PasswordResetTTL :: duration
  EmailVerificationTTL :: duration

record OAuthConfig =
  GitHubClientID :: string
  GitHubClientSecret :: string
  GitHubRedirectURL :: string
  StateSecret :: string

text \<open>\<open>svc_mail\<close> says whether a \<open>Mailer\<close> is configured (a nil one disables sending).\<close>

record identity_Service =
  svc_roles :: RoleAssigner
  svc_mail :: bool
  svc_cfg :: identity_Config
  svc_oauth :: OAuthConfig

definition identity_send :: "identity_Service \<Rightarrow> string \<Rightarrow> string \<Rightarrow> string \<Rightarrow> (world, err, unit) op" where
  "identity_send s kind dest token = (\<lambda>w. (Inr (),
     if svc_mail s then w\<lparr>outbox := outbox w @ [\<lparr>mail_Kind = kind, mail_To = dest, mail_Token = token\<rparr>]\<rparr>
     else w))"

section \<open>dto.go\<close>

record RegisterRequest =
  reg_TenantName :: string
  reg_TenantSlug :: string
  reg_Email :: string
  reg_Password :: string
  reg_FullName :: string

record LoginRequest =
  login_Email :: string
  login_Password :: string
  login_TenantSlug :: string

record ForgotPasswordRequest =
  fp_Email :: string
  fp_TenantSlug :: string

record ResetPasswordRequest =
  rst_Token :: string
  rst_NewPassword :: string

record TokenPair =
  AccessToken :: string
  RefreshToken :: string
  AccessTokenExpiresAt :: gotime
  RefreshTokenExpiresAt :: gotime
  TokenType :: string

record UserResponse =
  uresp_ID :: uuid
  uresp_TenantID :: uuid
  uresp_Email :: string
  uresp_FullName :: string
  uresp_Status :: string
  uresp_EmailVerifiedAt :: "gotime option"
  uresp_CreatedAt :: gotime

definition ToUserResponse :: "user \<Rightarrow> UserResponse" where
  "ToUserResponse u = \<lparr>uresp_ID = user_ID u, uresp_TenantID = user_TenantID u,
     uresp_Email = user_Email u, uresp_FullName = user_FullName u, uresp_Status = user_Status u,
     uresp_EmailVerifiedAt = user_EmailVerifiedAt u, uresp_CreatedAt = user_CreatedAt u\<rparr>"

record RegisterResponse =
  rr_TenantID :: uuid
  rr_TenantSlug :: string
  rr_User :: UserResponse
  rr_Tokens :: TokenPair

text \<open>\<open>None\<close> is the zero value of the struct.\<close>

record LoginResponse =
  lr_User :: "UserResponse option"
  lr_Tokens :: "TokenPair option"
  lr_AmbiguousTenants :: "(string \<times> string) list"

section \<open>token.go and password.go\<close>

definition HashPassword :: "env \<Rightarrow> string \<Rightarrow> err + string" where
  "HashPassword ev password = (case bcrypt ev password of
     None \<Rightarrow> Inl (Plain ''bcrypt'') | Some h \<Rightarrow> Inr h)"

definition CheckPassword :: "env \<Rightarrow> string \<Rightarrow> string \<Rightarrow> bool" where
  "CheckPassword ev hash password = bcrypt_ok ev hash password"

definition GenerateAccessToken :: "env \<Rightarrow> string \<Rightarrow> int \<Rightarrow> uuid \<Rightarrow> uuid \<Rightarrow> string \<Rightarrow> err + string" where
  "GenerateAccessToken ev secret expiryMinutes userID tenantID role =
     (let m = (if expiryMinutes \<le> 0 then 15 else expiryMinutes)
      in case jwt_sign ev secret userID tenantID role (now ev + m * minute) of
           None \<Rightarrow> Inl (Plain ''jwt'') | Some tok \<Rightarrow> Inr tok)"

definition ParseAccessToken :: "env \<Rightarrow> string \<Rightarrow> string \<Rightarrow> (uuid \<times> uuid \<times> string) option" where
  "ParseAccessToken ev secret tok = jwt_parse ev secret (now ev) tok"

definition GenerateOpaqueToken :: "env \<Rightarrow> fresh \<Rightarrow> err + string" where
  "GenerateOpaqueToken ev fr = (case fresh_bytes fr of
     None \<Rightarrow> Inl (Plain ''rand'') | Some b \<Rightarrow> Inr (base64url ev b))"

definition HashOpaqueToken :: "env \<Rightarrow> string \<Rightarrow> string" where
  "HashOpaqueToken ev token = sha256_hex ev token"

section \<open>Token pairs\<close>

definition ttlOrDefault :: "duration \<Rightarrow> duration \<Rightarrow> duration" where
  "ttlOrDefault ttl def = (if ttl \<le> 0 then def else ttl)"

text \<open>\<open>int(ttl.Minutes())\<close> of a positive duration is its number of whole minutes.\<close>

definition newAccessToken :: "env \<Rightarrow> identity_Service \<Rightarrow> uuid \<Rightarrow> uuid \<Rightarrow> string \<Rightarrow> err + (string \<times> gotime)" where
  "newAccessToken ev s userID tenantID roleSlug =
     (let ttl = ttlOrDefault (AccessTokenTTL (svc_cfg s)) (15 * minute)
      in case GenerateAccessToken ev (JWTSecret (svc_cfg s)) (ttl div minute) userID tenantID roleSlug of
           Inl e \<Rightarrow> Inl e | Inr tok \<Rightarrow> Inr (tok, now ev + ttl))"

definition newRefreshTokenRow :: "env \<Rightarrow> identity_Service \<Rightarrow> fresh \<Rightarrow> uuid \<Rightarrow> uuid \<Rightarrow> uuid
    \<Rightarrow> err + (string \<times> refresh_token)" where
  "newRefreshTokenRow ev s fr tenantID userID familyID = (case GenerateOpaqueToken ev fr of
     Inl e \<Rightarrow> Inl e
   | Inr plain \<Rightarrow>
       let ttl = ttlOrDefault (RefreshTokenTTL (svc_cfg s)) (30 * 24 * hour)
       in Inr (plain, \<lparr>rt_ID = fresh_id fr 0, rt_TenantID = tenantID, rt_UserID = userID,
            rt_TokenHash = HashOpaqueToken ev plain, rt_FamilyID = familyID, rt_ReplacedBy = None,
            rt_UserAgent = '''', rt_IPAddress = None, rt_ExpiresAt = now ev + ttl,
            rt_RevokedAt = None, rt_CreatedAt = now ev\<rparr>))"

definition token_pair :: "string \<Rightarrow> string \<Rightarrow> gotime \<Rightarrow> gotime \<Rightarrow> TokenPair" where
  "token_pair access refresh accessExpiry refreshExpiry =
     \<lparr>AccessToken = access, RefreshToken = refresh, AccessTokenExpiresAt = accessExpiry,
      RefreshTokenExpiresAt = refreshExpiry, TokenType = ''Bearer''\<rparr>"

text \<open>The family of a new session is \<open>uuid.New()\<close>, here \<open>fresh_id fr 1\<close>.\<close>

definition issueTokenPair :: "env \<Rightarrow> identity_Service \<Rightarrow> fresh \<Rightarrow> uuid \<Rightarrow> user \<Rightarrow> string
    \<Rightarrow> (world, err, TokenPair) op" where
  "issueTokenPair ev s fr tenantID u roleSlug =
     op_try (op_lift (newAccessToken ev s (user_ID u) tenantID roleSlug))
       (\<lambda>e. op_fail (Wrap CodeInternal ''failed to generate access token'' e)) (\<lambda>(access, accessExpiry).
     op_try (op_lift (newRefreshTokenRow ev s fr tenantID (user_ID u) (fresh_id fr 1)))
       (\<lambda>e. op_fail (Wrap CodeInternal ''failed to generate refresh token'' e)) (\<lambda>(plain, row).
     op_try (CreateRefreshToken ev tenantID row)
       (\<lambda>e. op_fail (Wrap CodeInternal ''failed to persist refresh token'' e)) (\<lambda>_.
     op_return (token_pair access plain accessExpiry (rt_ExpiresAt row)))))"

section \<open>Registration\<close>

text \<open>\<open>fresh_id fr 2\<close> and \<open>3\<close> are the new tenant and user, those from 4 the seeded roles.\<close>

definition new_tenant :: "env \<Rightarrow> fresh \<Rightarrow> RegisterRequest \<Rightarrow> tenant" where
  "new_tenant ev fr req = \<lparr>tenant_ID = fresh_id fr 2, tenant_Name = reg_TenantName req,
     tenant_Slug = reg_TenantSlug req, tenant_PlanCode = ''free'', tenant_Status = ''active'',
     tenant_Settings = ''{}'', tenant_CreatedAt = now ev, tenant_UpdatedAt = now ev, tenant_DeletedAt = None\<rparr>"

definition new_owner :: "env \<Rightarrow> fresh \<Rightarrow> RegisterRequest \<Rightarrow> string \<Rightarrow> user" where
  "new_owner ev fr req passwordHash = \<lparr>user_ID = fresh_id fr 3, user_TenantID = fresh_id fr 2,
     user_Email = reg_Email req, user_PasswordHash = Some passwordHash, user_FullName = reg_FullName req,
     user_AvatarURL = None, user_Status = ''active'', user_EmailVerifiedAt = None,
     user_LastLoginAt = None, user_CreatedAt = now ev, user_UpdatedAt = now ev, user_DeletedAt = None\<rparr>"

definition Register_tx :: "env \<Rightarrow> identity_Service \<Rightarrow> fresh \<Rightarrow> tenant \<Rightarrow> user \<Rightarrow> (db, err, unit) tx" where
  "Register_tx ev s fr t u =
     tx_bind (tenancy_CreateTx ev (\<lambda>n. fresh_id fr (4 + n)) t) (\<lambda>_.
     tx_bind (tx_map_err (Wrapped ''set tenant session var'') (stmt ev ''Register.set_config'' (tx_return ()))) (\<lambda>_.
     let sess = Some (tenant_ID t) in
     tx_bind (identity_CreateTx ev sess u) (\<lambda>_.
     ra_AssignSystemRoleTx (svc_roles s) ev sess (tenant_ID t) (user_ID u) ''owner'')))"

definition Register_error :: "err \<Rightarrow> err" where
  "Register_error e = Wrap (Classify e)
     (if Classify e = CodeConflict then ''tenant slug or email already exists''
      else ''failed to create organization'') e"

definition Register :: "env \<Rightarrow> identity_Service \<Rightarrow> fresh \<Rightarrow> RegisterRequest \<Rightarrow> (world, err, RegisterResponse) op" where
  "Register ev s fr req = op_try (op_lift (HashPassword ev (reg_Password req)))
       (\<lambda>e. op_fail (Wrap CodeInternal ''failed to process password'' e)) (\<lambda>passwordHash.
     let t = new_tenant ev fr req; u = new_owner ev fr req passwordHash in
     op_try (run_tx ev ''Register'' (Register_tx ev s fr t u)) (\<lambda>e. op_fail (Register_error e)) (\<lambda>_.
     op_bind (issueTokenPair ev s fr (tenant_ID t) u ''owner'') (\<lambda>tokens.
     op_return \<lparr>rr_TenantID = tenant_ID t, rr_TenantSlug = tenant_Slug t,
                rr_User = ToUserResponse u, rr_Tokens = tokens\<rparr>)))"

section \<open>Login\<close>

definition bad_credentials :: err where
  "bad_credentials = New CodeUnauthorized ''invalid email or password''"

text \<open>The choices offered when the address is known to several tenants.\<close>

fun tenant_choices :: "env \<Rightarrow> user list \<Rightarrow> (string \<times> string) list \<Rightarrow> (world, err, (string \<times> string) list) op" where
  "tenant_choices ev [] acc = op_return acc"
| "tenant_choices ev (u # us) acc = op_try (tenancy_FindByID ev (user_TenantID u))
     (\<lambda>e. tenant_choices ev us acc)
     (\<lambda>t. tenant_choices ev us (acc @ [(tenant_Slug t, tenant_Name t)]))"

datatype candidate = Candidate user | Ambiguous "(string \<times> string) list"

definition login_candidate :: "env \<Rightarrow> LoginRequest \<Rightarrow> (world, err, candidate) op" where
  "login_candidate ev req = (if login_TenantSlug req \<noteq> '''' then
       op_try (tenancy_FindBySlug ev (login_TenantSlug req)) (\<lambda>e. op_fail bad_credentials) (\<lambda>t.
       op_try (FindByEmailInTenant ev (Some (tenant_ID t)) (login_Email req)) (\<lambda>e. op_fail bad_credentials)
         (\<lambda>u. op_return (Candidate u)))
     else
       op_try (FindByEmailAnyTenant ev (login_Email req)) (\<lambda>e. op_fail bad_credentials) (\<lambda>us.
       case us of [] \<Rightarrow> op_fail bad_credentials
       | [u] \<Rightarrow> op_return (Candidate u)
       | _ \<Rightarrow> op_bind (tenant_choices ev us []) (\<lambda>choices. op_return (Ambiguous choices))))"

definition role_or_member :: "env \<Rightarrow> identity_Service \<Rightarrow> uuid \<Rightarrow> uuid \<Rightarrow> (world, err, string) op" where
  "role_or_member ev s tenantID userID =
     op_try (ra_PrimaryRoleSlug (svc_roles s) ev (Some tenantID) userID)
       (\<lambda>e. op_return ''member'') op_return"

definition login_checked :: "env \<Rightarrow> identity_Service \<Rightarrow> fresh \<Rightarrow> user \<Rightarrow> (world, err, LoginResponse) op" where
  "login_checked ev s fr u =
     op_bind (role_or_member ev s (user_TenantID u) (user_ID u)) (\<lambda>roleSlug.
     let u' = u\<lparr>user_LastLoginAt := Some (now ev)\<rparr> in
     op_ignore (identity_Update ev (Some (user_TenantID u)) u')
       (op_bind (issueTokenPair ev s fr (user_TenantID u) u' roleSlug) (\<lambda>tokens.
        op_return \<lparr>lr_User = Some (ToUserResponse u'), lr_Tokens = Some tokens, lr_AmbiguousTenants = []\<rparr>)))"

definition Login :: "env \<Rightarrow> identity_Service \<Rightarrow> fresh \<Rightarrow> LoginRequest \<Rightarrow> (world, err, LoginResponse) op" where
  "Login ev s fr req = op_bind (login_candidate ev req) (\<lambda>cand. case cand of
     Ambiguous choices \<Rightarrow>
       op_return \<lparr>lr_User = None, lr_Tokens = None, lr_AmbiguousTenants = choices\<rparr>
   | Candidate u \<Rightarrow>
     (case user_PasswordHash u of None \<Rightarrow> op_fail bad_credentials
      | Some h \<Rightarrow>
        if \<not> CheckPassword ev h (login_Password req) then op_fail bad_credentials
        else if user_Status u = ''disabled'' then op_fail (New CodeForbidden ''account is disabled'')
        else op_try (tenancy_FindByID ev (user_TenantID u))
          (\<lambda>e. op_fail (New CodeForbidden ''organization is not active''))
          (\<lambda>t. if tenant_Status t \<noteq> ''active'' then op_fail (New CodeForbidden ''organization is not active'')
               else login_checked ev s fr u)))"

section \<open>Refresh and logout\<close>

definition Refresh_error :: "err \<Rightarrow> err" where
  "Refresh_error e =
     (if errors_is e ErrTenantInactive \<or> errors_is e ErrUserInactive
        then New CodeForbidden ''account or organization is not active''
      else if errors_is e ErrRefreshExpired then New CodeUnauthorized ''refresh token has expired''
      else if errors_is e ErrRefreshReused then New CodeUnauthorized ''refresh token has been revoked''
      else if errors_is e ErrRefreshInvalid then New CodeUnauthorized ''invalid refresh token''
      else Wrap CodeInternal ''failed to rotate refresh token'' e)"

definition refresh_finish :: "env \<Rightarrow> identity_Service \<Rightarrow> uuid \<Rightarrow> string \<Rightarrow> refresh_token \<Rightarrow> user
    \<Rightarrow> (world, err, TokenPair) op" where
  "refresh_finish ev s tenantID plain row u =
     op_bind (role_or_member ev s tenantID (user_ID u)) (\<lambda>roleSlug.
     op_try (op_lift (newAccessToken ev s (user_ID u) tenantID roleSlug))
       (\<lambda>e. op_fail (Wrap CodeInternal ''failed to generate access token'' e)) (\<lambda>(access, accessExpiry).
     op_return (token_pair access plain accessExpiry (rt_ExpiresAt row))))"

definition Refresh :: "env \<Rightarrow> identity_Service \<Rightarrow> fresh \<Rightarrow> string \<Rightarrow> (world, err, TokenPair) op" where
  "Refresh ev s fr refreshToken =
     op_try (FindRefreshTokenByHash ev (HashOpaqueToken ev refreshToken))
       (\<lambda>e. op_fail (New CodeUnauthorized ''invalid refresh token'')) (\<lambda>stored.
     op_try (op_lift (newRefreshTokenRow ev s fr (rt_TenantID stored) (rt_UserID stored) (rt_FamilyID stored)))
       (\<lambda>e. op_fail (Wrap CodeInternal ''failed to generate refresh token'' e)) (\<lambda>(plain, row).
     op_try (RotateRefreshToken ev (rt_TenantID stored) (rt_ID stored) row)
       (\<lambda>e. op_fail (Refresh_error e))
       (\<lambda>u. refresh_finish ev s (rt_TenantID stored) plain row u)))"

definition Logout :: "env \<Rightarrow> string \<Rightarrow> (world, err, unit) op" where
  "Logout ev refreshToken = op_try (FindRefreshTokenByHash ev (HashOpaqueToken ev refreshToken))
     (\<lambda>e. op_return ())
     (\<lambda>stored. RevokeRefreshTokenFamily ev (rt_TenantID stored) (rt_FamilyID stored))"

section \<open>Password reset and e-mail verification\<close>

text \<open>The row as the code builds it: the tenant is not set, so it is \<open>uuid.Nil\<close>.\<close>

definition new_verification_token :: "env \<Rightarrow> fresh \<Rightarrow> uuid \<Rightarrow> string \<Rightarrow> string \<Rightarrow> duration \<Rightarrow> verification_token" where
  "new_verification_token ev fr userID purpose plain ttl = \<lparr>vt_ID = fresh_id fr 0, vt_TenantID = uuid_nil,
     vt_UserID = userID, vt_Purpose = purpose, vt_TokenHash = HashOpaqueToken ev plain,
     vt_ExpiresAt = now ev + ttl, vt_UsedAt = None, vt_CreatedAt = now ev\<rparr>"

definition RequestPasswordReset :: "env \<Rightarrow> identity_Service \<Rightarrow> fresh \<Rightarrow> ForgotPasswordRequest
    \<Rightarrow> (world, err, unit) op" where
  "RequestPasswordReset ev s fr req =
     op_try (tenancy_FindBySlug ev (fp_TenantSlug req)) (\<lambda>e. op_return ()) (\<lambda>t.
     if tenant_Status t \<noteq> ''active'' then op_return () else
     op_try (FindByEmailInTenant ev (Some (tenant_ID t)) (fp_Email req)) (\<lambda>e. op_return ()) (\<lambda>u.
     if user_Status u = ''disabled'' then op_return () else
     op_try (op_lift (GenerateOpaqueToken ev fr))
       (\<lambda>e. op_fail (Wrap CodeInternal ''failed to generate reset token'' e)) (\<lambda>plain.
     op_try (CreateVerificationToken ev (tenant_ID t) (new_verification_token ev fr (user_ID u)
         PurposePasswordReset plain (ttlOrDefault (PasswordResetTTL (svc_cfg s)) hour)))
       (\<lambda>e. op_fail (Wrap CodeInternal ''failed to store reset token'' e)) (\<lambda>_.
     identity_send s ''password_reset'' (user_Email u) plain))))"

definition consume_error :: "string \<Rightarrow> string \<Rightarrow> err \<Rightarrow> err" where
  "consume_error invalid failed e =
     (if errors_is e ErrVerificationInvalid \<or> errors_is e ErrTenantInactive \<or> errors_is e ErrUserInactive
      then New CodeValidation invalid else Wrap CodeInternal failed e)"

definition ResetPassword :: "env \<Rightarrow> ResetPasswordRequest \<Rightarrow> (world, err, unit) op" where
  "ResetPassword ev req =
     op_try (FindVerificationTokenByHash ev (HashOpaqueToken ev (rst_Token req)))
       (\<lambda>e. op_fail (New CodeValidation ''invalid or expired reset token'')) (\<lambda>v.
     if vt_Purpose v \<noteq> PurposePasswordReset
     then op_fail (New CodeValidation ''invalid or expired reset token'') else
     op_try (op_lift (HashPassword ev (rst_NewPassword req)))
       (\<lambda>e. op_fail (Wrap CodeInternal ''failed to process password'' e)) (\<lambda>h.
     op_map_err (consume_error ''invalid or expired reset token'' ''failed to reset password'')
       (ConsumePasswordReset ev (vt_TenantID v) (vt_ID v) (vt_UserID v) h)))"

definition RequestEmailVerification :: "env \<Rightarrow> identity_Service \<Rightarrow> fresh \<Rightarrow> uuid \<Rightarrow> uuid
    \<Rightarrow> (world, err, unit) op" where
  "RequestEmailVerification ev s fr tenantID userID =
     op_try (identity_FindByID ev (Some tenantID) userID)
       (\<lambda>e. op_fail (New CodeNotFound ''user not found'')) (\<lambda>u.
     if user_EmailVerifiedAt u \<noteq> None then op_return () else
     op_try (op_lift (GenerateOpaqueToken ev fr))
       (\<lambda>e. op_fail (Wrap CodeInternal ''failed to generate verification token'' e)) (\<lambda>plain.
     op_try (CreateVerificationToken ev tenantID (new_verification_token ev fr userID
         PurposeEmailVerification plain (ttlOrDefault (EmailVerificationTTL (svc_cfg s)) (24 * hour))))
       (\<lambda>e. op_fail (Wrap CodeInternal ''failed to store verification token'' e)) (\<lambda>_.
     identity_send s ''email_verification'' (user_Email u) plain)))"

definition VerifyEmail :: "env \<Rightarrow> string \<Rightarrow> (world, err, unit) op" where
  "VerifyEmail ev token =
     op_try (FindVerificationTokenByHash ev (HashOpaqueToken ev token))
       (\<lambda>e. op_fail (New CodeValidation ''invalid or expired verification token'')) (\<lambda>v.
     if vt_Purpose v \<noteq> PurposeEmailVerification
     then op_fail (New CodeValidation ''invalid or expired verification token'') else
     op_map_err (consume_error ''invalid or expired verification token'' ''failed to verify email'')
       (ConsumeEmailVerification ev (vt_TenantID v) (vt_ID v) (vt_UserID v)))"

section \<open>Listing\<close>

definition identity_ListUsers :: "env \<Rightarrow> ctx \<Rightarrow> int \<Rightarrow> int \<Rightarrow> (world, err, UserResponse list \<times> int) op" where
  "identity_ListUsers ev c page pageSize =
     (let page = (if page < 1 then 1 else page);
          pageSize = (if pageSize < 1 \<or> pageSize > 100 then 20 else pageSize)
      in op_try (ListByTenant ev c pageSize (wrap64 ((page - 1) * pageSize)))
           (\<lambda>e. op_fail (Wrap CodeInternal ''failed to list users'' e))
           (\<lambda>(us, n). op_return (map ToUserResponse us, n)))"

end
