(* ===== verification/Identity_OAuth.thy ===== *)
theory Identity_OAuth
  imports Identity_Service
begin

text \<open>
  internal/identity/oauth.go: the signed OAuth state and the GitHub callback. The
  golang.org/x/oauth2 client and GitHub's API are the record \<open>github\<close> of parameters: what
  each request answers.
\<close>

section \<open>The signed state\<close>

definition hmacSign :: "env \<Rightarrow> string \<Rightarrow> string \<Rightarrow> string" where
  "hmacSign ev secret payload = base64url ev (hmac_sha256 ev secret payload)"

text \<open>A state is the pair of the tenant slug and the nonce.\<close>

definition encodeOAuthState :: "env \<Rightarrow> identity_Service \<Rightarrow> string \<times> string \<Rightarrow> string" where
  "encodeOAuthState ev s st =
     (let payload = json_state ev st;
          sig = hmacSign ev (StateSecret (svc_oauth s)) payload
      in base64url ev (payload @ ''.'' @ sig))"

definition decodeOAuthState :: "env \<Rightarrow> identity_Service \<Rightarrow> string \<Rightarrow> err + (string \<times> string)" where
  "decodeOAuthState ev s raw = (case base64url_decode ev raw of
     None \<Rightarrow> Inl (Plain ''invalid state'')
   | Some decoded \<Rightarrow> (case index_last CHR ''.'' decoded of
       None \<Rightarrow> Inl (Plain ''invalid state'')
     | Some sepIdx \<Rightarrow>
         let payload = take sepIdx decoded; sig = drop (sepIdx + 1) decoded in
         if hmacSign ev (StateSecret (svc_oauth s)) payload \<noteq> sig
         then Inl (Plain ''state signature mismatch'')
         else (case json_state_parse ev payload of
           None \<Rightarrow> Inl (Plain ''invalid state payload'') | Some st \<Rightarrow> Inr st)))"

section \<open>GitHub\<close>

record github_user =
  gh_ID :: int
  gh_Login :: string
  gh_Name :: string
  gh_Email :: string
  gh_AvatarURL :: string

text \<open>
  \<open>gh_Exchange\<close> trades a code for a token; \<open>gh_Get_user\<close> is the status and, unless its JSON is
  malformed, the decoded body of \<open>/user\<close>; \<open>gh_Get_emails\<close> the decoded body of
  \<open>/user/emails\<close> (address, primary, verified), \<open>None\<close> when the request or the decoding fails.
\<close>

record github =
  gh_AuthCodeURL :: "OAuthConfig \<Rightarrow> string \<Rightarrow> string"
  gh_Exchange :: "OAuthConfig \<Rightarrow> string \<Rightarrow> err + string"
  gh_Get_user :: "string \<Rightarrow> err + (int \<times> github_user option)"
  gh_Get_emails :: "string \<Rightarrow> (string \<times> bool \<times> bool) list option"

record providerProfile =
  prof_ProviderUserID :: string
  prof_Email :: string
  prof_FullName :: string
  prof_AvatarURL :: string

definition ProviderGitHub :: string where "ProviderGitHub = ''github''"

text \<open>\<open>fmt.Sprintf("%d", n)\<close>.\<close>

fun nat_digits :: "nat \<Rightarrow> string" where
  "nat_digits n = (if n < 10 then [char_of (48 + n)] else nat_digits (n div 10) @ [char_of (48 + n mod 10)])"

declare nat_digits.simps [simp del]

definition Sprintf_d :: "int \<Rightarrow> string" where
  "Sprintf_d n = (if n < 0 then ''-'' @ nat_digits (nat (- n)) else nat_digits (nat n))"

definition primary_email :: "(string \<times> bool \<times> bool) list option \<Rightarrow> string" where
  "primary_email r = (case r of None \<Rightarrow> ''''
     | Some es \<Rightarrow> (case List.find (\<lambda>(e, primary, verified). primary \<and> verified) es of
         None \<Rightarrow> '''' | Some (e, _) \<Rightarrow> e))"

definition fetchGitHubProfile :: "github \<Rightarrow> string \<Rightarrow> err + providerProfile" where
  "fetchGitHubProfile gh token = (case gh_Get_user gh token of
     Inl e \<Rightarrow> Inl e
   | Inr (status, body) \<Rightarrow>
       if status \<noteq> 200 then Inl (Plain ''github user'')
       else (case body of None \<Rightarrow> Inl (Plain ''json'')
         | Some p \<Rightarrow> Inr \<lparr>prof_ProviderUserID = Sprintf_d (gh_ID p),
             prof_Email = (if gh_Email p = '''' then primary_email (gh_Get_emails gh token) else gh_Email p),
             prof_FullName = (if gh_Name p = '''' then gh_Login p else gh_Name p),
             prof_AvatarURL = gh_AvatarURL p\<rparr>))"

section \<open>The flow\<close>

definition OAuthAuthorizeURL :: "env \<Rightarrow> identity_Service \<Rightarrow> github \<Rightarrow> fresh \<Rightarrow> string \<Rightarrow> string \<Rightarrow> err + string" where
  "OAuthAuthorizeURL ev s gh fr provider tenantSlug = (case GenerateOpaqueToken ev fr of
     Inl e \<Rightarrow> Inl (Wrap CodeInternal ''failed to build oauth state'' e)
   | Inr nonce \<Rightarrow>
       let state = encodeOAuthState ev s (tenantSlug, nonce) in
       if provider = ProviderGitHub
       then (if GitHubClientID (svc_oauth s) = ''''
             then Inl (New CodeUnprocessable ''github oauth is not configured'')
             else Inr (gh_AuthCodeURL gh (svc_oauth s) state))
       else Inl (New CodeUnprocessable ''unsupported oauth provider''))"

definition oauth_profile :: "identity_Service \<Rightarrow> github \<Rightarrow> string \<Rightarrow> string \<Rightarrow> err + providerProfile" where
  "oauth_profile s gh provider code =
     (if provider \<noteq> ProviderGitHub then Inl (New CodeValidation ''unsupported oauth provider'')
      else (case gh_Exchange gh (svc_oauth s) code of
        Inl e \<Rightarrow> Inl (Wrap CodeUnauthorized ''failed to exchange oauth code'' e)
      | Inr token \<Rightarrow> (case fetchGitHubProfile gh token of
          Inl e \<Rightarrow> Inl (Wrap CodeUnauthorized ''failed to fetch oauth profile'' e)
        | Inr p \<Rightarrow> if prof_Email p = '''' then Inl (New CodeUnauthorized ''failed to fetch oauth profile'')
                   else Inr p)))"

text \<open>\<open>roleSlug, _ := PrimaryRoleSlug\<close>: the zero value when it fails.\<close>

definition oauth_login :: "env \<Rightarrow> identity_Service \<Rightarrow> fresh \<Rightarrow> uuid \<Rightarrow> user \<Rightarrow> (world, err, LoginResponse) op" where
  "oauth_login ev s fr tenantID u =
     op_bind (op_try (ra_PrimaryRoleSlug (svc_roles s) ev (Some tenantID) (user_ID u))
       (\<lambda>e. op_return '''') op_return) (\<lambda>roleSlug.
     op_bind (issueTokenPair ev s fr tenantID u roleSlug) (\<lambda>tokens.
     op_return \<lparr>lr_User = Some (ToUserResponse u), lr_Tokens = Some tokens, lr_AmbiguousTenants = []\<rparr>))"

definition inactive_account :: err where
  "inactive_account = New CodeForbidden ''account or organization is not active''"

definition oauth_existing :: "env \<Rightarrow> identity_Service \<Rightarrow> fresh \<Rightarrow> uuid \<Rightarrow> oauth_account
    \<Rightarrow> (world, err, LoginResponse) op" where
  "oauth_existing ev s fr tenantID a =
     (if oa_TenantID a \<noteq> tenantID
      then op_fail (New CodeUnauthorized ''oauth identity is linked to another organization'')
      else op_try (ValidateCredentialState ev (oa_TenantID a) (oa_UserID a)) (\<lambda>e. op_fail inactive_account) (\<lambda>_.
        op_try (identity_FindByID ev (Some (oa_TenantID a)) (oa_UserID a))
          (\<lambda>e. op_fail (New CodeUnauthorized ''linked account no longer exists''))
          (\<lambda>u. oauth_login ev s fr (oa_TenantID a) u)))"

definition oauth_new_user :: "env \<Rightarrow> fresh \<Rightarrow> uuid \<Rightarrow> providerProfile \<Rightarrow> user" where
  "oauth_new_user ev fr tenantID p = \<lparr>user_ID = fresh_id fr 2, user_TenantID = tenantID,
     user_Email = prof_Email p, user_PasswordHash = None, user_FullName = prof_FullName p,
     user_AvatarURL = (if prof_AvatarURL p \<noteq> '''' then Some (prof_AvatarURL p) else None),
     user_Status = ''active'', user_EmailVerifiedAt = Some (now ev), user_LastLoginAt = None,
     user_CreatedAt = now ev, user_UpdatedAt = now ev, user_DeletedAt = None\<rparr>"

text \<open>Linking by address within the tenant, or a new user with the Member role.\<close>

definition oauth_user :: "env \<Rightarrow> identity_Service \<Rightarrow> fresh \<Rightarrow> uuid \<Rightarrow> providerProfile \<Rightarrow> (world, err, user) op" where
  "oauth_user ev s fr tenantID p = op_try (FindByEmailInTenant ev (Some tenantID) (prof_Email p))
     (\<lambda>e. let u = oauth_new_user ev fr tenantID p in
        op_try (identity_Create ev (Some tenantID) u)
          (\<lambda>e. op_fail (Wrap CodeInternal ''failed to create user'' e)) (\<lambda>_.
        op_try (ra_AssignSystemRole (svc_roles s) ev (Some tenantID) tenantID (user_ID u) ''member'')
          (\<lambda>e. op_fail (Wrap CodeInternal ''failed to assign default role'' e)) (\<lambda>_.
        op_return u)))
     (\<lambda>u. if user_Status u = ''disabled'' then op_fail (New CodeForbidden ''account is disabled'')
          else op_return u)"

definition oauth_link :: "env \<Rightarrow> identity_Service \<Rightarrow> fresh \<Rightarrow> uuid \<Rightarrow> string \<Rightarrow> providerProfile
    \<Rightarrow> (world, err, LoginResponse) op" where
  "oauth_link ev s fr tenantID provider p = op_bind (oauth_user ev s fr tenantID p) (\<lambda>u.
     op_try (CreateOAuthAccount ev tenantID \<lparr>oa_ID = fresh_id fr 3, oa_TenantID = tenantID,
         oa_UserID = user_ID u, oa_Provider = provider, oa_ProviderUserID = prof_ProviderUserID p,
         oa_AccessToken = None, oa_RefreshToken = None, oa_TokenExpiresAt = None,
         oa_CreatedAt = now ev, oa_UpdatedAt = now ev\<rparr>)
       (\<lambda>e. op_fail (Wrap CodeInternal ''failed to link oauth account'' e)) (\<lambda>_.
     op_try (ValidateCredentialState ev tenantID (user_ID u)) (\<lambda>e. op_fail inactive_account) (\<lambda>_.
     oauth_login ev s fr tenantID u)))"

definition OAuthCallback :: "env \<Rightarrow> identity_Service \<Rightarrow> github \<Rightarrow> fresh \<Rightarrow> string \<Rightarrow> string \<Rightarrow> string
    \<Rightarrow> (world, err, LoginResponse) op" where
  "OAuthCallback ev s gh fr provider code stateRaw =
     op_try (op_lift (decodeOAuthState ev s stateRaw))
       (\<lambda>e. op_fail (New CodeValidation ''invalid oauth state'')) (\<lambda>(slug, nonce).
     op_try (tenancy_FindBySlug ev slug) (\<lambda>e. op_fail (New CodeNotFound ''tenant not found'')) (\<lambda>t.
     if tenant_Status t \<noteq> ''active'' then op_fail (New CodeForbidden ''organization is not active'') else
     op_bind (op_lift (oauth_profile s gh provider code)) (\<lambda>p.
     op_try (FindOAuthAccount ev provider (prof_ProviderUserID p))
       (\<lambda>e. oauth_link ev s fr (tenant_ID t) provider p)
       (\<lambda>a. oauth_existing ev s fr (tenant_ID t) a))))"

section \<open>Lemmas\<close>

lemma index_last_none: "c \<notin> set s \<Longrightarrow> index_last c s = None"
  by (induction s) auto

lemma index_last_append: "c \<notin> set s \<Longrightarrow> index_last c (p @ c # s) = Some (length p)"
  by (induction p) (auto simp: index_last_none)

lemma index_last_split: "index_last c s = Some i \<Longrightarrow> s = take i s @ c # drop (i + 1) s"
  by (induction c s arbitrary: i rule: index_last.induct) (auto split: option.splits if_splits)

end
