(* ===== verification/Identity_Tokens.thy ===== *)
theory Identity_Tokens
  imports Identity_OAuth
begin

text \<open>
  What the refresh-token table promises, apart from any service: the step relation
  \<open>token_step\<close> says how the table may change, \<open>tokens_ok\<close> is its invariant, and \<open>tokens_le\<close>
  what a history of steps keeps. Identity_Sessions shows that every operation of the module
  is such a step.
\<close>

section \<open>The specification\<close>

definition live_token :: "refresh_token \<Rightarrow> bool" where
  "live_token r \<longleftrightarrow> rt_RevokedAt r = None"

definition revoke_where :: "gotime \<Rightarrow> (refresh_token \<Rightarrow> bool) \<Rightarrow> refresh_token list \<Rightarrow> refresh_token list" where
  "revoke_where t P ts = map (\<lambda>r. if P r \<and> live_token r then r\<lparr>rt_RevokedAt := Some t\<rparr> else r) ts"

definition consume :: "gotime \<Rightarrow> uuid \<Rightarrow> uuid \<Rightarrow> refresh_token list \<Rightarrow> refresh_token list" where
  "consume t i j ts = map (\<lambda>r. if rt_ID r = i \<and> live_token r \<and> rt_ReplacedBy r = None
     then r\<lparr>rt_RevokedAt := Some t, rt_ReplacedBy := Some j\<rparr> else r) ts"

definition fresh_row :: "refresh_token \<Rightarrow> refresh_token list \<Rightarrow> bool" where
  "fresh_row new ts \<longleftrightarrow> live_token new \<and> rt_ReplacedBy new = None
     \<and> rt_ID new \<notin> rt_ID ` set ts \<and> rt_TokenHash new \<notin> rt_TokenHash ` set ts"

definition same_session :: "refresh_token \<Rightarrow> refresh_token \<Rightarrow> bool" where
  "same_session a b \<longleftrightarrow> rt_FamilyID a = rt_FamilyID b \<and> rt_TenantID a = rt_TenantID b
     \<and> rt_UserID a = rt_UserID b"

text \<open>A session is opened, its token is rotated, or tokens are revoked; nothing else happens.\<close>

inductive token_step :: "refresh_token list \<Rightarrow> refresh_token list \<Rightarrow> bool" where
  issue: "fresh_row new ts \<Longrightarrow> rt_FamilyID new \<notin> rt_FamilyID ` set ts \<Longrightarrow> token_step ts (ts @ [new])"
| rotate: "cur \<in> set ts \<Longrightarrow> live_token cur \<Longrightarrow> rt_ReplacedBy cur = None \<Longrightarrow> fresh_row new ts
    \<Longrightarrow> same_session new cur \<Longrightarrow> token_step ts (consume t (rt_ID cur) (rt_ID new) (ts @ [new]))"
| revoke: "token_step ts (revoke_where t P ts)"

inductive_cases token_stepE: "token_step ts ts'"

abbreviation token_steps :: "refresh_token list \<Rightarrow> refresh_token list \<Rightarrow> bool" where
  "token_steps \<equiv> token_step\<^sup>*\<^sup>*"

text \<open>
  Ids and hashes are unique, a family belongs to one user of one tenant and has at most one
  live token, and a replaced token is revoked.
\<close>

definition tokens_ok :: "refresh_token list \<Rightarrow> bool" where
  "tokens_ok ts \<longleftrightarrow> distinct (map rt_ID ts) \<and> distinct (map rt_TokenHash ts)
     \<and> (\<forall>a\<in>set ts. \<forall>b\<in>set ts. rt_FamilyID a = rt_FamilyID b \<longrightarrow> same_session a b)
     \<and> (\<forall>a\<in>set ts. \<forall>b\<in>set ts. rt_FamilyID a = rt_FamilyID b \<and> live_token a \<and> live_token b \<longrightarrow> a = b)
     \<and> (\<forall>a\<in>set ts. rt_ReplacedBy a \<noteq> None \<longrightarrow> \<not> live_token a)"

text \<open>Rows are never deleted nor changed but for being revoked, once.\<close>

definition later_row :: "refresh_token \<Rightarrow> refresh_token \<Rightarrow> bool" where
  "later_row r r' \<longleftrightarrow> rt_ID r' = rt_ID r \<and> rt_TokenHash r' = rt_TokenHash r \<and> same_session r r'
     \<and> (\<not> live_token r \<longrightarrow> r' = r)"

definition tokens_le :: "refresh_token list \<Rightarrow> refresh_token list \<Rightarrow> bool" where
  "tokens_le ts ts' \<longleftrightarrow> (\<forall>r\<in>set ts. \<exists>r'\<in>set ts'. later_row r r')"

section \<open>Lemmas\<close>

lemma same_session_refl [simp]: "same_session a a"
  by (simp add: same_session_def)

lemma later_row_refl [simp]: "later_row r r"
  by (simp add: later_row_def)

lemma later_row_trans: "later_row a b \<Longrightarrow> later_row b c \<Longrightarrow> later_row a c"
  by (auto simp: later_row_def same_session_def)

lemma tokens_le_refl [simp]: "tokens_le ts ts"
  by (auto simp: tokens_le_def intro: later_row_refl)

lemma tokens_le_trans: "tokens_le a b \<Longrightarrow> tokens_le b c \<Longrightarrow> tokens_le a c"
  unfolding tokens_le_def by (meson later_row_trans)

lemma tokens_le_map: "(\<And>r. r \<in> set ts \<Longrightarrow> later_row r (f r)) \<Longrightarrow> tokens_le ts (map f ts)"
  by (auto simp: tokens_le_def)

lemma tokens_le_append: "tokens_le ts (ts @ us)"
  by (auto simp: tokens_le_def intro: later_row_refl)

lemma tokens_le_consume: "tokens_le ts (consume t i j ts)"
  unfolding consume_def
  by (rule tokens_le_map) (auto simp: later_row_def same_session_def live_token_def)

lemma token_step_le: "token_step ts ts' \<Longrightarrow> tokens_le ts ts'"
proof (induction rule: token_step.induct)
  case (rotate cur ts new t)
  then show ?case using tokens_le_trans[OF tokens_le_append tokens_le_consume] by auto
qed (auto simp: tokens_le_append revoke_where_def live_token_def
      later_row_def same_session_def intro!: tokens_le_map)

lemma token_steps_le: "token_steps ts ts' \<Longrightarrow> tokens_le ts ts'"
  by (induction rule: rtranclp_induct) (auto intro: tokens_le_trans token_step_le)

lemma map_keys_revoke [simp]:
  "map rt_ID (revoke_where t P ts) = map rt_ID ts"
  "map rt_TokenHash (revoke_where t P ts) = map rt_TokenHash ts"
  by (auto simp: revoke_where_def)

lemma map_keys_consume [simp]:
  "map rt_ID (consume t i j ts) = map rt_ID ts"
  "map rt_TokenHash (consume t i j ts) = map rt_TokenHash ts"
  by (auto simp: consume_def)

lemma same_session_sym: "same_session a b \<Longrightarrow> same_session b a"
  by (simp add: same_session_def)

lemma same_session_trans: "same_session a b \<Longrightarrow> same_session b c \<Longrightarrow> same_session a c"
  by (simp add: same_session_def)

lemma same_session_fam: "same_session a b \<Longrightarrow> rt_FamilyID a = rt_FamilyID b"
  by (simp add: same_session_def)

lemma tokens_ok_session:
  "tokens_ok ts \<Longrightarrow> a \<in> set ts \<Longrightarrow> b \<in> set ts \<Longrightarrow> rt_FamilyID a = rt_FamilyID b \<Longrightarrow> same_session a b"
  unfolding tokens_ok_def by blast

lemma tokens_ok_one_live:
  "tokens_ok ts \<Longrightarrow> a \<in> set ts \<Longrightarrow> b \<in> set ts \<Longrightarrow> rt_FamilyID a = rt_FamilyID b \<Longrightarrow> live_token a
     \<Longrightarrow> live_token b \<Longrightarrow> a = b"
  unfolding tokens_ok_def by blast

lemma tokens_ok_distinct:
  "tokens_ok ts \<Longrightarrow> distinct (map rt_ID ts)" "tokens_ok ts \<Longrightarrow> distinct (map rt_TokenHash ts)"
  unfolding tokens_ok_def by blast+

lemma tokens_ok_replaced: "tokens_ok ts \<Longrightarrow> a \<in> set ts \<Longrightarrow> rt_ReplacedBy a \<noteq> None \<Longrightarrow> \<not> live_token a"
  unfolding tokens_ok_def by blast

lemma tokens_okI:
  "distinct (map rt_ID ts) \<Longrightarrow> distinct (map rt_TokenHash ts)
   \<Longrightarrow> (\<And>a b. a \<in> set ts \<Longrightarrow> b \<in> set ts \<Longrightarrow> rt_FamilyID a = rt_FamilyID b \<Longrightarrow> same_session a b)
   \<Longrightarrow> (\<And>a b. a \<in> set ts \<Longrightarrow> b \<in> set ts \<Longrightarrow> rt_FamilyID a = rt_FamilyID b \<Longrightarrow> live_token a \<Longrightarrow> live_token b \<Longrightarrow> a = b)
   \<Longrightarrow> (\<And>a. a \<in> set ts \<Longrightarrow> rt_ReplacedBy a \<noteq> None \<Longrightarrow> \<not> live_token a) \<Longrightarrow> tokens_ok ts"
  unfolding tokens_ok_def by blast

text \<open>A change of every row that keeps keys and sessions and revives no token keeps the invariant.\<close>

lemma tokens_ok_map:
  assumes ok: "tokens_ok ts" and keys: "map rt_ID (map f ts) = map rt_ID ts" "map rt_TokenHash (map f ts) = map rt_TokenHash ts"
    and f: "\<And>r. r \<in> set ts \<Longrightarrow> same_session (f r) r" "\<And>r. r \<in> set ts \<Longrightarrow> live_token (f r) \<Longrightarrow> f r = r"
  shows "tokens_ok (map f ts)"
proof (rule tokens_okI, unfold keys set_map)
  show "distinct (map rt_ID ts)" "distinct (map rt_TokenHash ts)" using tokens_ok_distinct[OF ok] .
next
  fix a b assume "a \<in> f ` set ts" "b \<in> f ` set ts" and fam: "rt_FamilyID a = rt_FamilyID b"
  then obtain p q where p: "p \<in> set ts" "a = f p" and q: "q \<in> set ts" "b = f q" by blast
  have "rt_FamilyID p = rt_FamilyID q"
    using f(1)[OF p(1)] f(1)[OF q(1)] p(2) q(2) fam by (simp add: same_session_def)
  from tokens_ok_session[OF ok p(1) q(1) this] f(1)[OF p(1)] f(1)[OF q(1)] p(2) q(2)
  show "same_session a b" by (metis same_session_sym same_session_trans)
next
  fix a b assume "a \<in> f ` set ts" "b \<in> f ` set ts" and fam: "rt_FamilyID a = rt_FamilyID b"
    and live: "live_token a" "live_token b"
  then obtain p q where p: "p \<in> set ts" "a = f p" and q: "q \<in> set ts" "b = f q" by blast
  have "a = p" "b = q" using f(2) p q live by metis+
  then show "a = b" using tokens_ok_one_live[OF ok p(1) q(1)] fam live by simp
next
  fix a assume "a \<in> f ` set ts" "rt_ReplacedBy a \<noteq> None"
  then show "\<not> live_token a" using f(2) tokens_ok_replaced[OF ok] by (metis imageE)
qed

lemma tokens_ok_revoke: "tokens_ok ts \<Longrightarrow> tokens_ok (revoke_where t P ts)"
  unfolding revoke_where_def
  by (rule tokens_ok_map) (auto simp: same_session_def live_token_def)

lemma tokens_ok_append:
  assumes ok: "tokens_ok ts"
    and fam: "\<And>r. r \<in> set ts \<Longrightarrow> rt_FamilyID r = rt_FamilyID new \<Longrightarrow> same_session r new"
    and dead: "\<And>r. r \<in> set ts \<Longrightarrow> rt_FamilyID r = rt_FamilyID new \<Longrightarrow> \<not> live_token r"
    and fresh: "rt_ID new \<notin> rt_ID ` set ts" "rt_TokenHash new \<notin> rt_TokenHash ` set ts"
    and rb: "rt_ReplacedBy new = None"
  shows "tokens_ok (ts @ [new])"
proof (rule tokens_okI)
  show "distinct (map rt_ID (ts @ [new]))" "distinct (map rt_TokenHash (ts @ [new]))"
    using tokens_ok_distinct[OF ok] fresh by auto
next
  fix a b assume "a \<in> set (ts @ [new])" "b \<in> set (ts @ [new])" "rt_FamilyID a = rt_FamilyID b"
  then show "same_session a b" using tokens_ok_session[OF ok] fam by (auto simp: same_session_sym)
next
  fix a b assume "a \<in> set (ts @ [new])" "b \<in> set (ts @ [new])" "rt_FamilyID a = rt_FamilyID b"
    "live_token a" "live_token b"
  then show "a = b" using tokens_ok_one_live[OF ok] dead by auto
next
  fix a assume "a \<in> set (ts @ [new])" "rt_ReplacedBy a \<noteq> None"
  then show "\<not> live_token a" using tokens_ok_replaced[OF ok] rb by auto
qed

lemma tokens_ok_issue:
  assumes "tokens_ok ts" "fresh_row new ts" "rt_FamilyID new \<notin> rt_FamilyID ` set ts"
  shows "tokens_ok (ts @ [new])"
  by (rule tokens_ok_append[OF assms(1)]) (use assms in \<open>auto simp: fresh_row_def image_iff\<close>)

lemma tokens_ok_rotate:
  assumes ok: "tokens_ok ts" and cur: "cur \<in> set ts" "live_token cur" "rt_ReplacedBy cur = None"
    and new: "fresh_row new ts" "same_session new cur"
  shows "tokens_ok (consume t (rt_ID cur) (rt_ID new) (ts @ [new]))"
proof -
  define f where f_def: "f = (\<lambda>r. if rt_ID r = rt_ID cur \<and> live_token r \<and> rt_ReplacedBy r = None
     then r\<lparr>rt_RevokedAt := Some t, rt_ReplacedBy := Some (rt_ID new)\<rparr> else r)"
  have ids: "rt_ID new \<noteq> rt_ID cur" using new cur by (auto simp: fresh_row_def)
  have keep: "f r = r" if "r \<in> set ts" "r \<noteq> cur" for r
    using ok cur(1) that by (auto simp: f_def tokens_ok_def distinct_map inj_on_def)
  have fcur: "f cur = cur\<lparr>rt_RevokedAt := Some t, rt_ReplacedBy := Some (rt_ID new)\<rparr>" using cur by (simp add: f_def)
  have ts: "tokens_ok (map f ts)"
    by (rule tokens_ok_map[OF ok]) (auto simp: f_def same_session_def live_token_def)
  have dead_q: "\<not> live_token (f q)" if q: "q \<in> set ts" "rt_FamilyID q = rt_FamilyID new" for q
  proof (cases "q = cur")
    case True then show ?thesis unfolding True fcur by (simp add: live_token_def)
  next
    case False
    with tokens_ok_one_live[OF ok q(1) cur(1)] q(2) same_session_fam[OF new(2)] cur(2)
    have "\<not> live_token q" by auto
    with keep[OF q(1) False] show ?thesis by simp
  qed
  have fam_f: "rt_FamilyID (f q) = rt_FamilyID q" for q by (simp add: f_def)
  have dead: "\<not> live_token r" if r: "r \<in> set (map f ts)" "rt_FamilyID r = rt_FamilyID new" for r
    using r dead_q fam_f unfolding set_map image_iff by metis
  have fam: "same_session r new" if "r \<in> set (map f ts)" "rt_FamilyID r = rt_FamilyID new" for r
  proof -
    have "rt_FamilyID q = rt_FamilyID new \<Longrightarrow> q \<in> set ts \<Longrightarrow> same_session (f q) new" for q
      using tokens_ok_session[OF ok _ cur(1), of q] new(2) by (auto simp: f_def same_session_def)
    then show ?thesis using that fam_f unfolding set_map image_iff by metis
  qed
  have new_row: "f new = new" "rt_ReplacedBy new = None" using ids new(1) by (auto simp: f_def fresh_row_def)
  have fresh: "rt_ID new \<notin> rt_ID ` set (map f ts)" "rt_TokenHash new \<notin> rt_TokenHash ` set (map f ts)"
    using new(1) ids by (auto simp: f_def fresh_row_def image_iff)
  have "tokens_ok (map f ts @ [new])"
    using ts fam dead fresh new_row(2) by (rule tokens_ok_append)
  then show ?thesis using new_row(1) by (simp add: consume_def f_def)
qed

lemma token_step_ok: "token_step ts ts' \<Longrightarrow> tokens_ok ts \<Longrightarrow> tokens_ok ts'"
  by (induction rule: token_step.induct) (auto intro: tokens_ok_issue tokens_ok_rotate tokens_ok_revoke)

lemma token_steps_ok: "token_steps ts ts' \<Longrightarrow> tokens_ok ts \<Longrightarrow> tokens_ok ts'"
  by (induction rule: rtranclp_induct) (auto intro: token_step_ok)

lemma later_row_dead: "later_row r r' \<Longrightarrow> \<not> live_token r \<Longrightarrow> \<not> live_token r'"
  by (auto simp: later_row_def)

text \<open>Once a family has no live token it never has one again.\<close>

definition family_dead :: "uuid \<Rightarrow> refresh_token list \<Rightarrow> bool" where
  "family_dead f ts \<longleftrightarrow> (\<exists>r\<in>set ts. rt_FamilyID r = f) \<and> (\<forall>r\<in>set ts. rt_FamilyID r = f \<longrightarrow> \<not> live_token r)"

lemma token_step_dead: "token_step ts ts' \<Longrightarrow> family_dead f ts \<Longrightarrow> family_dead f ts'"
proof (induction rule: token_step.induct)
  case (rotate cur ts new t)
  have "rt_FamilyID cur \<noteq> f" "rt_FamilyID new \<noteq> f"
    using rotate by (auto simp: family_dead_def same_session_def)
  with rotate.prems show ?case by (auto simp: family_dead_def consume_def live_token_def)
qed (auto simp: family_dead_def revoke_where_def live_token_def)

lemma token_steps_dead: "token_steps ts ts' \<Longrightarrow> family_dead f ts \<Longrightarrow> family_dead f ts'"
  by (induction rule: rtranclp_induct) (auto intro: token_step_dead)

lemma find_hash:
  "tokens_ok ts \<Longrightarrow> r \<in> set ts \<Longrightarrow> List.find (\<lambda>q. rt_TokenHash q = rt_TokenHash r) ts = Some r"
proof (induction ts)
  case (Cons q ts)
  then show ?case by (auto simp: tokens_ok_def image_iff)
qed simp

end
