(* ===== verification/Identity_Sessions.thy ===== *)
theory Identity_Sessions
  imports Identity_Tokens
begin

text \<open>
  The refinement of Identity_Tokens by the module: every operation of the service changes the
  refresh-token table by token steps only. What the service relies on from authz is the
  locale \<open>role_assigner\<close>, interpreted on the authz model at the end.
\<close>

abbreviation toks :: "world \<Rightarrow> refresh_token list" where "toks w \<equiv> refresh_tokens (store w)"

section \<open>Operations that leave the tokens alone\<close>

definition tx_quiet :: "(db, err, 'a) tx \<Rightarrow> bool" where
  "tx_quiet m \<longleftrightarrow> (\<forall>d a d'. m d = Inr (a, d') \<longrightarrow> refresh_tokens d' = refresh_tokens d)"

definition quiet :: "(world, 'e, 'a) op \<Rightarrow> bool" where
  "quiet m \<longleftrightarrow> (\<forall>w. toks (snd (m w)) = toks w)"

named_theorems quiet_intros \<open>rules that an operation leaves the refresh tokens alone\<close>

lemma tx_quiet_reads: "reads_only m \<Longrightarrow> tx_quiet m"
  by (auto simp: reads_only_def tx_quiet_def)

lemma tx_quiet_atoms [quiet_intros]:
  "tx_quiet (tx_return a)" "tx_quiet (tx_fail e)" "tx_quiet (tx_query q)" "tx_quiet (take_row p)"
  "tx_quiet (require b e)" "tx_quiet (raise c)"
  by (rule tx_quiet_reads; simp)+

lemma tx_quiet_bind [quiet_intros]: "tx_quiet m \<Longrightarrow> (\<And>a. tx_quiet (f a)) \<Longrightarrow> tx_quiet (tx_bind m f)"
  by (auto simp: tx_quiet_def tx_bind_Inr)

lemma tx_quiet_stmt [quiet_intros]: "tx_quiet m \<Longrightarrow> tx_quiet (stmt ev l m)"
  by (auto simp: tx_quiet_def tx_inv)

lemma tx_quiet_map_err [quiet_intros]: "tx_quiet m \<Longrightarrow> tx_quiet (tx_map_err g m)"
  by (auto simp: tx_quiet_def)

lemma tx_quiet_if [quiet_intros]: "tx_quiet m \<Longrightarrow> tx_quiet n \<Longrightarrow> tx_quiet (if b then m else n)"
  by simp

lemma tx_quiet_modify: "(\<And>d. refresh_tokens (f d) = refresh_tokens d) \<Longrightarrow> tx_quiet (modify f)"
  by (auto simp: tx_quiet_def)

lemma quiet_run_tx [quiet_intros]: "tx_quiet m \<Longrightarrow> quiet (run_tx ev l m)"
  by (auto simp: quiet_def tx_quiet_def run_tx_def split: option.splits sum.splits)

lemma tx_quiet_set_tenant [quiet_intros]: "tx_quiet (set_tenant ev l)"
  by (auto simp: set_tenant_def intro!: quiet_intros)

lemma quiet_WithTenantTxID [quiet_intros]: "(\<And>sess. tx_quiet (fn sess)) \<Longrightarrow> quiet (WithTenantTxID ev l t fn)"
  unfolding WithTenantTxID_def by (intro quiet_intros)

lemma quiet_WithTenantTx [quiet_intros]: "(\<And>sess. tx_quiet (fn sess)) \<Longrightarrow> quiet (WithTenantTx ev l c fn)"
  by (cases c) (auto simp: WithTenantTx_def TenantIDFromContext_def quiet_def op_fail_def
      intro: quiet_WithTenantTxID[unfolded quiet_def, rule_format])

lemma quiet_WithoutTenantScope [quiet_intros]: "tx_quiet (fn None) \<Longrightarrow> quiet (WithoutTenantScope ev l fn)"
  unfolding WithoutTenantScope_def by (intro quiet_intros)

lemma quiet_run_stmt [quiet_intros]: "tx_quiet m \<Longrightarrow> quiet (run_stmt ev l m)"
  by (auto simp: quiet_def tx_quiet_def run_stmt_def stmt_Inr split: sum.splits)

lemma quiet_return [quiet_intros]: "quiet (op_return a)"
  by (simp add: quiet_def op_return_def)

lemma quiet_fail [quiet_intros]: "quiet (op_fail e)"
  by (simp add: quiet_def op_fail_def)

lemma quiet_lift [quiet_intros]: "quiet (op_lift x)"
  by (simp add: quiet_def op_lift_def)

lemma quiet_try [quiet_intros]:
  "quiet m \<Longrightarrow> (\<And>e. quiet (h e)) \<Longrightarrow> (\<And>a. quiet (k a)) \<Longrightarrow> quiet (op_try m h k)"
  unfolding quiet_def op_try_def by (auto split: prod.splits sum.splits) (metis snd_conv)+

lemma quiet_bind [quiet_intros]: "quiet m \<Longrightarrow> (\<And>a. quiet (k a)) \<Longrightarrow> quiet (op_bind m k)"
  unfolding op_bind_def by (intro quiet_intros)

lemma quiet_map_err [quiet_intros]: "quiet m \<Longrightarrow> quiet (op_map_err g m)"
  unfolding op_map_err_def by (intro quiet_intros)

lemma quiet_if [quiet_intros]: "quiet m \<Longrightarrow> quiet n \<Longrightarrow> quiet (if b then m else n)"
  by simp

lemma quiet_send [quiet_intros]: "quiet (identity_send s k a b)"
  by (simp add: quiet_def identity_send_def)

text \<open>The statements of the module that do not concern refresh tokens.\<close>

lemma tx_quiet_insert_user [quiet_intros]: "tx_quiet (insert_user ev sess u)"
  by (auto simp: insert_user_def tx_quiet_def tx_inv)

lemma tx_quiet_save_user [quiet_intros]: "tx_quiet (save_user ev sess u)"
  unfolding save_user_def by (intro quiet_intros tx_quiet_modify reads_only_query) simp_all

lemma tx_quiet_insert_oauth [quiet_intros]: "tx_quiet (insert_oauth_account sess a)"
  by (auto simp: insert_oauth_account_def tx_quiet_def tx_inv)

lemma tx_quiet_insert_verification [quiet_intros]: "tx_quiet (insert_verification_token sess v)"
  by (auto simp: insert_verification_token_def tx_quiet_def tx_inv)

lemma tx_quiet_update_user [quiet_intros]: "tx_quiet (update_user ev l sess i f)"
  by (auto simp: update_user_def tx_quiet_def tx_inv)

lemma reads_only_activeCredential: "reads_only (activeCredentialUserTx ev sess t u)"
  by (auto simp: activeCredentialUserTx_def reads_only_def tx_inv split: if_splits)

lemmas tx_quiet_activeCredential [quiet_intros] = tx_quiet_reads[OF reads_only_activeCredential]

lemma tx_quiet_claim [quiet_intros]: "tx_quiet (claimVerificationTokenTx ev sess i u p)"
  by (auto simp: claimVerificationTokenTx_def tx_quiet_def tx_inv mark_used_def)

lemma tx_quiet_create_tenant [quiet_intros]: "tx_quiet (tenancy_CreateTx ev ids t)"
  by (auto simp: tenancy_CreateTx_def tx_quiet_def tx_inv seed_default_roles_def Let_def split: if_splits)

lemmas identity_reads = tenancy_FindBySlug_def tenancy_FindByID_def identity_FindByID_def
  FindByEmailInTenant_def FindByEmailAnyTenant_def ValidateCredentialState_def
  FindRefreshTokenByHash_def FindOAuthAccount_def FindVerificationTokenByHash_def ListByTenant_def

lemma tx_quiet_option [quiet_intros]:
  "tx_quiet m \<Longrightarrow> (\<And>x. tx_quiet (f x)) \<Longrightarrow> tx_quiet (case o1 of None \<Rightarrow> m | Some x \<Rightarrow> f x)"
  by (cases o1) auto

lemma quiet_reads [quiet_intros]:
  "quiet (tenancy_FindBySlug ev slug)" "quiet (tenancy_FindByID ev i)" "quiet (identity_FindByID ev c i)"
  "quiet (FindByEmailInTenant ev c email)" "quiet (FindByEmailAnyTenant ev email)"
  "quiet (ValidateCredentialState ev t i)" "quiet (FindRefreshTokenByHash ev h)"
  "quiet (FindOAuthAccount ev p h)" "quiet (FindVerificationTokenByHash ev h)"
  unfolding identity_reads
  by (intro quiet_intros)+

lemma quiet_writes [quiet_intros]:
  "quiet (identity_Create ev c u)" "quiet (identity_Update ev c u)" "quiet (CreateOAuthAccount ev t a)"
  "quiet (CreateVerificationToken ev t v)" "quiet (ConsumeEmailVerification ev t i j)"
  unfolding identity_Create_def identity_Update_def CreateOAuthAccount_def CreateVerificationToken_def
    ConsumeEmailVerification_def
  by (intro quiet_intros)+

section \<open>Operations that take token steps\<close>

text \<open>
  \<open>f\<close> is the family the call would draw for a new session, \<open>None\<close> for a call that opens none;
  \<open>uuid.New()\<close> does not repeat.
\<close>

definition unused :: "uuid option \<Rightarrow> refresh_token list \<Rightarrow> bool" where
  "unused f ts \<longleftrightarrow> (case f of None \<Rightarrow> True | Some i \<Rightarrow> i \<notin> rt_FamilyID ` set ts)"

definition evolves :: "uuid option \<Rightarrow> (world, 'e, 'a) op \<Rightarrow> bool" where
  "evolves f m \<longleftrightarrow> (\<forall>w. tokens_ok (toks w) \<longrightarrow> unused f (toks w) \<longrightarrow>
     token_steps (toks w) (toks (snd (m w))))"

definition tx_evolves :: "(db, err, 'a) tx \<Rightarrow> bool" where
  "tx_evolves m \<longleftrightarrow> (\<forall>d a d'. m d = Inr (a, d') \<longrightarrow> tokens_ok (refresh_tokens d) \<longrightarrow>
     token_steps (refresh_tokens d) (refresh_tokens d'))"

lemma evolvesD: "evolves f m \<Longrightarrow> m w = (r, w') \<Longrightarrow> tokens_ok (toks w) \<Longrightarrow> unused f (toks w)
    \<Longrightarrow> token_steps (toks w) (toks w')"
  unfolding evolves_def by (metis snd_conv)

lemma quietD: "quiet m \<Longrightarrow> m w = (r, w') \<Longrightarrow> toks w' = toks w"
  unfolding quiet_def by (metis snd_conv)

lemma evolves_quiet: "quiet m \<Longrightarrow> evolves f m"
  by (simp add: evolves_def quiet_def)

lemma evolves_try:
  assumes "quiet m" "\<And>e. evolves f (h e)" "\<And>a. evolves f (k a)"
  shows "evolves f (op_try m h k)"
  unfolding evolves_def
proof (intro allI impI)
  fix w assume w: "tokens_ok (toks w)" "unused f (toks w)"
  obtain r w1 where m: "m w = (r, w1)" by force
  with assms(1) have q: "toks w1 = toks w" by (rule quietD)
  show "token_steps (toks w) (toks (snd (op_try m h k w)))"
  proof (cases r)
    case (Inl e)
    then have "op_try m h k w = h e w1" using m by (simp add: op_try_def)
    then show ?thesis using assms(2)[of e] w q unfolding evolves_def by metis
  next
    case (Inr a)
    then have "op_try m h k w = k a w1" using m by (simp add: op_try_def)
    then show ?thesis using assms(3)[of a] w q unfolding evolves_def by metis
  qed
qed

lemma evolves_bind: "quiet m \<Longrightarrow> (\<And>a. evolves f (k a)) \<Longrightarrow> evolves f (op_bind m k)"
  unfolding op_bind_def by (rule evolves_try) (simp_all add: evolves_quiet quiet_fail)

lemma evolves_lift:
  "(\<And>e. x = Inl e \<Longrightarrow> evolves f (h e)) \<Longrightarrow> (\<And>a. x = Inr a \<Longrightarrow> evolves f (k a)) \<Longrightarrow>
     evolves f (op_try (op_lift x) h k)"
  by (cases x) (auto simp: evolves_def op_try_def op_lift_def)

lemma evolves_then:
  assumes "evolves f m" "\<And>e. quiet (h e)" "\<And>a. quiet (k a)"
  shows "evolves f (op_try m h k)"
  unfolding evolves_def
proof (intro allI impI)
  fix w assume w: "tokens_ok (toks w)" "unused f (toks w)"
  obtain r w1 where m: "m w = (r, w1)" by force
  have "toks (snd (op_try m h k w)) = toks w1"
    using assms(2,3) m by (cases r) (auto simp: quiet_def op_try_def)
  then show "token_steps (toks w) (toks (snd (op_try m h k w)))" using evolvesD[OF assms(1) m w] by simp
qed

lemma evolves_then_bind: "evolves f m \<Longrightarrow> (\<And>a. quiet (k a)) \<Longrightarrow> evolves f (op_bind m k)"
  unfolding op_bind_def by (intro evolves_then quiet_fail)

lemma evolves_ignore: "quiet m \<Longrightarrow> evolves f k \<Longrightarrow> evolves f (op_ignore m k)"
  unfolding evolves_def quiet_def op_ignore_def by metis

lemma evolves_map_err: "evolves f m \<Longrightarrow> evolves f (op_map_err g m)"
  unfolding op_map_err_def by (intro evolves_then quiet_intros)

lemma evolves_if: "evolves f m \<Longrightarrow> evolves f n \<Longrightarrow> evolves f (if b then m else n)"
  by simp

lemma evolves_WithTenantTxID:
  assumes "tx_evolves (fn (Some t))"
  shows "evolves f (WithTenantTxID ev l t fn)"
  unfolding evolves_def
proof (intro allI impI)
  fix w assume ok: "tokens_ok (toks w)"
  obtain r w' where m: "WithTenantTxID ev l t fn w = (r, w')" by force
  show "token_steps (toks w) (toks (snd (WithTenantTxID ev l t fn w)))"
  proof (cases r)
    case (Inl e) then show ?thesis using WithTenantTxID_rollback[of ev l t fn w e w'] m by simp
  next
    case (Inr a)
    then show ?thesis using WithTenantTxID_ok[of ev l t fn w a w'] m ok assms
      by (auto simp: tx_evolves_def)
  qed
qed

lemma toks_revoke_tokens:
  "refresh_tokens (revoke_tokens ev sess P d)
     = revoke_where (now ev) (\<lambda>r. rls sess rt_TenantID r \<and> P r) (refresh_tokens d)"
  by (auto simp: revoke_tokens_def revoke_where_def update_rows_def live_token_def)

lemma insert_refresh_token_Inr:
  "insert_refresh_token sess r d = Inr (x, d') \<Longrightarrow>
     rt_ID r \<notin> rt_ID ` set (refresh_tokens d) \<and> rt_TokenHash r \<notin> rt_TokenHash ` set (refresh_tokens d)
     \<and> rls sess rt_TenantID r \<and> d' = d\<lparr>refresh_tokens := refresh_tokens d @ [r]\<rparr>"
  by (auto simp: insert_refresh_token_def tx_inv insert_check_None)

lemma evolves_RevokeFamily: "evolves f (RevokeRefreshTokenFamily ev t i)"
  unfolding RevokeRefreshTokenFamily_def
  by (rule evolves_WithTenantTxID)
    (auto simp: tx_evolves_def tx_inv toks_revoke_tokens intro: token_step.revoke)

lemma evolves_CreateRefreshToken:
  assumes "live_token r" "rt_ReplacedBy r = None" "f = Some (rt_FamilyID r)"
  shows "evolves f (CreateRefreshToken ev t r)"
  unfolding evolves_def
proof (intro allI impI)
  fix w assume ok: "tokens_ok (toks w)" "unused f (toks w)"
  obtain x w' where m: "CreateRefreshToken ev t r w = (x, w')" by force
  show "token_steps (toks w) (toks (snd (CreateRefreshToken ev t r w)))"
  proof (cases x)
    case (Inl e)
    then show ?thesis using m WithTenantTxID_rollback unfolding CreateRefreshToken_def by fastforce
  next
    case (Inr a)
    then obtain d where "insert_refresh_token (Some t) r (store w) = Inr (a, d)" "w' = w\<lparr>store := d\<rparr>"
      using m WithTenantTxID_ok unfolding CreateRefreshToken_def by (fastforce simp: stmt_Inr)
    then have "token_step (toks w) (toks w')"
      using assms ok insert_refresh_token_Inr token_step.issue[of r "toks w"] by (fastforce simp: fresh_row_def unused_def)
    then show ?thesis using m by auto
  qed
qed

lemma newRefreshTokenRow_Inr:
  "newRefreshTokenRow ev s fr t u f = Inr (plain, row) \<Longrightarrow>
     live_token row \<and> rt_ReplacedBy row = None \<and> rt_FamilyID row = f \<and> rt_TenantID row = t
     \<and> rt_UserID row = u \<and> rt_TokenHash row = sha256_hex ev plain \<and> rt_ID row = fresh_id fr 0
     \<and> rt_ExpiresAt row = now ev + ttlOrDefault (RefreshTokenTTL (svc_cfg s)) (30 * 24 * hour)"
  by (auto simp: newRefreshTokenRow_def live_token_def HashOpaqueToken_def Let_def split: sum.splits)

lemma evolves_issueTokenPair: "f = Some (fresh_id fr 1) \<Longrightarrow> evolves f (issueTokenPair ev s fr t u r)"
  unfolding issueTokenPair_def
  by (auto dest!: newRefreshTokenRow_Inr intro!: evolves_lift evolves_then[OF evolves_CreateRefreshToken]
      quiet_return quiet_fail evolves_quiet[OF quiet_fail] split: prod.splits)

text \<open>The rotation is one \<open>rotate\<close> or \<open>revoke\<close> step.\<close>

lemma update_rows_consume:
  assumes ok: "tokens_ok ts" and cur: "cur \<in> set ts" "sess = Some (rt_TenantID cur)"
    and new: "rt_ID new \<noteq> rt_ID cur"
  shows "update_rows sess rt_TenantID (unconsumed (rt_ID cur))
      (\<lambda>r. r\<lparr>rt_RevokedAt := Some t, rt_ReplacedBy := Some (rt_ID new)\<rparr>) (ts @ [new])
    = consume t (rt_ID cur) (rt_ID new) (ts @ [new])"
proof -
  have "r = cur" if "r \<in> set ts" "rt_ID r = rt_ID cur" for r
    using tokens_ok_distinct(1)[OF ok] cur(1) that by (auto simp: distinct_map inj_on_def)
  then show ?thesis using cur new
    by (auto simp: update_rows_def consume_def unconsumed_def rls_def live_token_def)
qed

lemma rotate_found_step:
  assumes m: "rotate_found ev (Some t) new u cur d = Inr (x, d')" and ok: "tokens_ok (refresh_tokens d)"
    and cur: "cur \<in> set (refresh_tokens d)" "rt_TenantID cur = t"
    and new: "live_token new" "rt_ReplacedBy new = None"
  shows "token_steps (refresh_tokens d) (refresh_tokens d')"
proof -
  consider (used) "rt_RevokedAt cur \<noteq> None \<or> rt_ReplacedBy cur \<noteq> None" | (same) "d' = d"
    | (rotate) d1 where "live_token cur" "rt_ReplacedBy cur = None" "same_session new cur"
        "insert_refresh_token (Some t) new d = Inr ((), d1)" "d' = consume_token ev (Some t) (rt_ID cur) (rt_ID new) d1"
    using m by (auto simp: rotate_found_def tx_inv live_token_def same_session_def split: if_splits)
  then show ?thesis
  proof cases
    case used
    then have "d' = revoke_tokens ev (Some t) (\<lambda>r. rt_FamilyID r = rt_FamilyID cur) d"
      using m by (auto simp: rotate_found_def tx_inv)
    then show ?thesis by (auto simp: toks_revoke_tokens intro: token_step.revoke)
  next
    case rotate
    then have ins: "fresh_row new (refresh_tokens d)" "refresh_tokens d1 = refresh_tokens d @ [new]"
      using insert_refresh_token_Inr[OF rotate(4)] new by (auto simp: fresh_row_def)
    then have "rt_ID new \<noteq> rt_ID cur" using cur by (auto simp: fresh_row_def)
    then have "refresh_tokens d' = consume (now ev) (rt_ID cur) (rt_ID new) (refresh_tokens d @ [new])"
      using update_rows_consume[OF ok cur(1), of "Some t"] cur rotate(5) ins(2) by (simp add: consume_token_def)
    then show ?thesis using token_step.rotate[OF cur(1) rotate(1,2) ins(1) rotate(3), of "now ev"] by auto
  qed simp
qed

lemma evolves_RotateRefreshToken:
  assumes "live_token new" "rt_ReplacedBy new = None"
  shows "evolves f (RotateRefreshToken ev t i new)"
  unfolding RotateRefreshToken_def
proof (intro evolves_then_bind evolves_WithTenantTxID quiet_intros)
  show "tx_evolves (RotateRefreshToken_tx ev t i new (Some t))"
    unfolding tx_evolves_def RotateRefreshToken_tx_def
    using rotate_found_step[OF _ _ _ _ assms]
    by (auto simp: tx_inv dest!: reads_onlyD[OF reads_only_activeCredential] select_first_SomeD split: if_splits)
qed

lemma tx_evolves_bind:
  "tx_quiet m \<Longrightarrow> (\<And>a. tx_evolves (k a)) \<Longrightarrow> tx_evolves (tx_bind m k)"
  unfolding tx_quiet_def tx_evolves_def tx_bind_Inr by metis

lemma tx_evolves_revoke: "tx_evolves (stmt ev l (modify (revoke_tokens ev sess P)))"
  by (auto simp: tx_evolves_def tx_inv toks_revoke_tokens intro: token_step.revoke)

lemma evolves_ConsumePasswordReset: "evolves f (ConsumePasswordReset ev t i u h)"
  unfolding ConsumePasswordReset_def
  by (intro evolves_WithTenantTxID tx_evolves_bind tx_evolves_revoke quiet_intros)

section \<open>The contract of the role assigner\<close>

text \<open>
  What \<open>identity.RoleAssigner\<close> promises: assigning a system role inside a transaction adds role
  assignments and nothing else, and leaves the user holding a role of that slug; the
  out-of-transaction variant touches no other table either; reading the primary role changes
  nothing.
\<close>

locale role_assigner =
  fixes ra :: RoleAssigner
  assumes tx_keeps: "ra_AssignSystemRoleTx ra ev sess t u slug d = Inr (x, d') \<Longrightarrow>
      d' = d\<lparr>user_roles := user_roles d'\<rparr>"
    and tx_grants: "ra_AssignSystemRoleTx ra ev (Some t) t u slug d = Inr (x, d') \<Longrightarrow>
      \<exists>r\<in>set (roles d). role_TenantID r = t \<and> role_Slug r = slug \<and> (\<exists>g\<in>set (user_roles d').
        ur_UserID g = u \<and> ur_RoleID g = role_ID r \<and> ur_TenantID g = t)"
    and assign_keeps: "ra_AssignSystemRole ra ev c t u slug w = (r, w') \<Longrightarrow>
      \<exists>gs. w' = w\<lparr>store := (store w)\<lparr>user_roles := gs\<rparr>\<rparr>"
    and primary_reads: "ra_PrimaryRoleSlug ra ev c u w = (res, w') \<Longrightarrow> w' = w"
begin

lemma tx_quiet_assign: "tx_quiet (ra_AssignSystemRoleTx ra ev sess t u slug)"
  unfolding tx_quiet_def
proof (intro allI impI)
  fix d a d' assume "ra_AssignSystemRoleTx ra ev sess t u slug d = Inr (a, d')"
  then have "d' = d\<lparr>user_roles := user_roles d'\<rparr>" by (rule tx_keeps)
  then have "refresh_tokens d' = refresh_tokens (d\<lparr>user_roles := user_roles d'\<rparr>)" by (rule arg_cong)
  then show "refresh_tokens d' = refresh_tokens d" by simp
qed

lemma quiet_assign: "quiet (ra_AssignSystemRole ra ev c t u slug)"
  unfolding quiet_def using assign_keeps by (metis (no_types) prod.collapse db.select_convs(3) db.surjective
      db.update_convs(9) world.select_convs(1) world.surjective world.update_convs(1))

lemma quiet_primary: "quiet (ra_PrimaryRoleSlug ra ev c u)"
  unfolding quiet_def using primary_reads by (metis prod.collapse)

lemma quiet_role_or_member: "svc_roles s = ra \<Longrightarrow> quiet (role_or_member ev s t u)"
  unfolding role_or_member_def by (simp only: quiet_try quiet_primary quiet_return)

lemma evolves_Register:
  assumes ra: "svc_roles s = ra"
  shows "evolves (Some (fresh_id fr 1)) (Register ev s fr req)"
  unfolding Register_def Register_tx_def Let_def identity_CreateTx_def ra
  by (intro evolves_lift evolves_try evolves_then_bind evolves_issueTokenPair evolves_quiet[OF quiet_fail]
      quiet_intros tx_quiet_assign refl)

lemma quiet_tenant_choices: "quiet (tenant_choices ev us acc)"
  by (induction ev us acc rule: tenant_choices.induct) (auto intro!: quiet_intros)

lemma quiet_login_candidate: "quiet (login_candidate ev req)"
  unfolding login_candidate_def
  by (auto intro!: quiet_intros quiet_tenant_choices split: list.splits)

lemma evolves_login_checked:
  assumes ra: "svc_roles s = ra"
  shows "evolves (Some (fresh_id fr 1)) (login_checked ev s fr u)"
  unfolding login_checked_def Let_def
  by (intro evolves_bind[OF quiet_role_or_member[OF ra]] evolves_ignore evolves_then_bind[OF evolves_issueTokenPair]
      quiet_intros refl)

lemma evolves_candidate:
  "(\<And>u. evolves f (g u)) \<Longrightarrow> (\<And>cs. evolves f (h cs)) \<Longrightarrow> evolves f (case x of Candidate u \<Rightarrow> g u | Ambiguous cs \<Rightarrow> h cs)"
  by (cases x) auto

lemma evolves_option:
  "evolves f n \<Longrightarrow> (\<And>u. evolves f (g u)) \<Longrightarrow> evolves f (case x of None \<Rightarrow> n | Some u \<Rightarrow> g u)"
  by (cases x) auto

lemma evolves_Login: "svc_roles s = ra \<Longrightarrow> evolves (Some (fresh_id fr 1)) (Login ev s fr req)"
  unfolding Login_def
  by (intro evolves_bind[OF quiet_login_candidate] evolves_candidate evolves_option evolves_if
      evolves_quiet[OF quiet_return] evolves_quiet[OF quiet_fail] evolves_try evolves_login_checked quiet_intros)

lemma quiet_refresh_finish:
  assumes ra: "svc_roles s = ra"
  shows "quiet (refresh_finish ev s t plain row u)"
  unfolding refresh_finish_def
  by (intro quiet_bind quiet_role_or_member[OF ra] quiet_try quiet_lift quiet_fail)
    (auto intro!: quiet_intros)

lemma evolves_Refresh: "svc_roles s = ra \<Longrightarrow> evolves f (Refresh ev s fr tok)"
  unfolding Refresh_def
  by (intro evolves_try[OF quiet_reads(7)] evolves_quiet[OF quiet_fail] evolves_lift)
    (auto dest!: newRefreshTokenRow_Inr intro!: evolves_then[OF evolves_RotateRefreshToken] quiet_fail
      quiet_refresh_finish split: prod.splits)

lemma evolves_Logout: "evolves f (Logout ev tok)"
  unfolding Logout_def
  by (intro evolves_try evolves_RevokeFamily evolves_quiet[OF quiet_return] quiet_intros)

lemma quiet_RequestPasswordReset: "quiet (RequestPasswordReset ev s fr req)"
  unfolding RequestPasswordReset_def by (intro quiet_intros)

lemma quiet_RequestEmailVerification: "quiet (RequestEmailVerification ev s fr t u)"
  unfolding RequestEmailVerification_def by (intro quiet_intros)

lemma quiet_VerifyEmail: "quiet (VerifyEmail ev tok)"
  unfolding VerifyEmail_def by (intro quiet_intros)

lemma evolves_ResetPassword: "evolves f (ResetPassword ev req)"
  unfolding ResetPassword_def
  by (intro evolves_try[OF quiet_reads(9)] evolves_if evolves_lift evolves_map_err evolves_ConsumePasswordReset
      evolves_quiet[OF quiet_fail])

lemma evolves_oauth_login:
  assumes ra: "svc_roles s = ra"
  shows "evolves (Some (fresh_id fr 1)) (oauth_login ev s fr t u)"
  unfolding oauth_login_def ra
  by (intro evolves_bind evolves_then_bind[OF evolves_issueTokenPair] quiet_primary quiet_intros refl)

lemma quiet_oauth_user:
  assumes ra: "svc_roles s = ra"
  shows "quiet (oauth_user ev s fr t p)"
  unfolding oauth_user_def Let_def ra by (intro quiet_intros quiet_assign)

lemma evolves_OAuthCallback:
  assumes ra: "svc_roles s = ra"
  shows "evolves (Some (fresh_id fr 1)) (OAuthCallback ev s gh fr p code st)"
proof -
  have existing: "evolves (Some (fresh_id fr 1)) (oauth_existing ev s fr t a)" for t a
    unfolding oauth_existing_def
    by (intro evolves_if evolves_try evolves_oauth_login[OF ra] evolves_quiet[OF quiet_fail] quiet_intros)
  have link: "evolves (Some (fresh_id fr 1)) (oauth_link ev s fr t p pr)" for t p pr
    unfolding oauth_link_def
    by (intro evolves_bind[OF quiet_oauth_user[OF ra]] evolves_try evolves_oauth_login[OF ra]
        evolves_quiet[OF quiet_fail] quiet_intros)
  have "evolves (Some (fresh_id fr 1))
      (op_try (tenancy_FindBySlug ev slug) (\<lambda>e. op_fail (New CodeNotFound ''tenant not found'')) (\<lambda>t.
     if tenant_Status t \<noteq> ''active'' then op_fail (New CodeForbidden ''organization is not active'') else
     op_bind (op_lift (oauth_profile s gh p code)) (\<lambda>pr.
     op_try (FindOAuthAccount ev p (prof_ProviderUserID pr))
       (\<lambda>e. oauth_link ev s fr (tenant_ID t) p pr)
       (\<lambda>a. oauth_existing ev s fr (tenant_ID t) a))))" for slug
    by (intro evolves_if evolves_bind evolves_try evolves_quiet[OF quiet_fail] existing link quiet_intros)
  then show ?thesis unfolding OAuthCallback_def
    by (intro evolves_lift evolves_quiet[OF quiet_fail]) (auto split: prod.splits)
qed

end

section \<open>authz provides it\<close>

text \<open>The server passes the authz service as the \<open>RoleAssigner\<close>.\<close>

definition authz_roles :: RoleAssigner where
  "authz_roles = \<lparr>ra_AssignSystemRoleTx = AssignSystemRoleTx, ra_AssignSystemRole = AssignSystemRole,
     ra_PrimaryRoleSlug = PrimaryRoleSlug\<rparr>"

lemma AssignSystemRoleTx_Inr:
  "AssignSystemRoleTx ev sess t u slug d = Inr (x, d') \<Longrightarrow>
     \<exists>r. select_first sess role_TenantID (\<lambda>r. role_TenantID r = t \<and> role_Slug r = slug) (roles d) = Some r
       \<and> d' = d\<lparr>user_roles := user_roles d @ [new_user_role u (role_ID r) t None]\<rparr>"
  by (auto simp: AssignSystemRoleTx_def FindRoleBySlugTx_def AssignUserRoleTx_def insert_user_role_def tx_inv)

lemma op_map_err_reads:
  "(\<And>w r w'. m w = (r, w') \<Longrightarrow> w' = w) \<Longrightarrow> op_map_err g m w = (r, w') \<Longrightarrow> w' = w"
  by (auto simp: op_map_err_eq)

lemma WithTenantTx_reads:
  assumes "\<And>sess. reads_only (fn sess)" "WithTenantTx ev l c fn w = (r, w')"
  shows "w' = w"
proof (cases r)
  case (Inl e) then show ?thesis using WithTenantTx_rollback assms(2) by blast
next
  case (Inr a)
  with assms(2) have "WithTenantTx ev l c fn w = (Inr a, w')" by simp
  from WithTenantTx_ok[OF this] obtain t d where d: "fn (Some t) (store w) = Inr (a, d)" "w' = w\<lparr>store := d\<rparr>"
    by blast
  then show ?thesis by (simp add: reads_onlyD[OF assms(1) d(1)])
qed

lemma PrimaryRoleSlug_reads: "PrimaryRoleSlug ev c u w = (r, w') \<Longrightarrow> w' = w"
  unfolding PrimaryRoleSlug_def UserRoles_def op_bind_eq op_map_err_eq
  by (auto dest!: WithTenantTx_reads[rotated])

lemma FindRoleBySlug_reads: "authz_FindRoleBySlug ev c slug w = (r, w') \<Longrightarrow> w' = w"
  unfolding authz_FindRoleBySlug_def
  by (auto simp: op_map_err_eq dest!: WithTenantTx_reads[rotated])

lemma keep_user_roles: "\<exists>gs. w = w\<lparr>store := (store w)\<lparr>user_roles := gs\<rparr>\<rparr>"
  by (rule exI[of _ "user_roles (store w)"]) simp

lemma repo_AssignRole_keeps:
  assumes "authz_repo_AssignRole ev c ur w = (r, w')"
  shows "\<exists>gs. w' = w\<lparr>store := (store w)\<lparr>user_roles := gs\<rparr>\<rparr>"
proof (cases r)
  case (Inl e)
  then have "w' = w" using assms WithTenantTx_rollback unfolding authz_repo_AssignRole_def by blast
  then show ?thesis using keep_user_roles by blast
next
  case (Inr a)
  then obtain t d where "insert_user_role (Some t) ur (store w) = Inr (a, d)" "w' = w\<lparr>store := d\<rparr>"
    using assms WithTenantTx_ok unfolding authz_repo_AssignRole_def by (fastforce simp: stmt_Inr)
  then show ?thesis by (auto simp: insert_user_role_def tx_inv)
qed

lemma AssignSystemRole_keeps:
  assumes "AssignSystemRole ev c t u slug w = (r, w')"
  shows "\<exists>gs. w' = w\<lparr>store := (store w)\<lparr>user_roles := gs\<rparr>\<rparr>"
proof -
  have "w' = w \<or> (\<exists>ur. authz_repo_AssignRole ev c ur w = (r, w'))"
    using assms unfolding AssignSystemRole_def op_try_eq by (auto dest!: FindRoleBySlug_reads)
  then show ?thesis using keep_user_roles repo_AssignRole_keeps by blast
qed

interpretation assigner: role_assigner authz_roles
proof
  fix ev sess t u slug d x d'
  assume "ra_AssignSystemRoleTx authz_roles ev sess t u slug d = Inr (x, d')"
  then show "d' = d\<lparr>user_roles := user_roles d'\<rparr>"
    by (auto simp: authz_roles_def dest!: AssignSystemRoleTx_Inr)
next
  fix ev t u slug d x d'
  assume "ra_AssignSystemRoleTx authz_roles ev (Some t) t u slug d = Inr (x, d')"
  then show "\<exists>r\<in>set (roles d). role_TenantID r = t \<and> role_Slug r = slug \<and> (\<exists>g\<in>set (user_roles d').
        ur_UserID g = u \<and> ur_RoleID g = role_ID r \<and> ur_TenantID g = t)"
    by (auto simp: authz_roles_def new_user_role_def dest!: AssignSystemRoleTx_Inr select_first_SomeD)
qed (auto simp: authz_roles_def AssignSystemRole_keeps PrimaryRoleSlug_reads)

section \<open>Histories\<close>

text \<open>
  One call to the module, or anything else in the program: no other package writes
  refresh_tokens. All calls use one hash function; a call that may open a session draws a
  family id not in use.
\<close>

definition new_family :: "fresh \<Rightarrow> world \<Rightarrow> bool" where
  "new_family fr w \<longleftrightarrow> fresh_id fr 1 \<notin> rt_FamilyID ` set (toks w)"

inductive session_step :: "(string \<Rightarrow> string) \<Rightarrow> world \<Rightarrow> world \<Rightarrow> bool" for H where
  register: "svc_roles s = authz_roles \<Longrightarrow> sha256_hex ev = H \<Longrightarrow> new_family fr w \<Longrightarrow> Register ev s fr reg w = (r1, w') \<Longrightarrow> session_step H w w'"
| login: "svc_roles s = authz_roles \<Longrightarrow> sha256_hex ev = H \<Longrightarrow> new_family fr w \<Longrightarrow> Login ev s fr log_in w = (r2, w') \<Longrightarrow> session_step H w w'"
| refresh: "svc_roles s = authz_roles \<Longrightarrow> sha256_hex ev = H \<Longrightarrow> Refresh ev s fr tok w = (r3, w') \<Longrightarrow> session_step H w w'"
| logout: "sha256_hex ev = H \<Longrightarrow> Logout ev tok w = (r4, w') \<Longrightarrow> session_step H w w'"
| forgot: "sha256_hex ev = H \<Longrightarrow> RequestPasswordReset ev s fr fp w = (r4, w') \<Longrightarrow> session_step H w w'"
| reset: "sha256_hex ev = H \<Longrightarrow> ResetPassword ev rst w = (r4, w') \<Longrightarrow> session_step H w w'"
| verify: "sha256_hex ev = H \<Longrightarrow> VerifyEmail ev tok w = (r4, w') \<Longrightarrow> session_step H w w'"
| oauth: "svc_roles s = authz_roles \<Longrightarrow> sha256_hex ev = H \<Longrightarrow> new_family fr w \<Longrightarrow> OAuthCallback ev s gh fr prov cd st w = (r2, w') \<Longrightarrow> session_step H w w'"
| other: "refresh_tokens (store w') = toks w \<Longrightarrow> session_step H w w'"

abbreviation session_steps :: "(string \<Rightarrow> string) \<Rightarrow> world \<Rightarrow> world \<Rightarrow> bool" where
  "session_steps H \<equiv> (session_step H)\<^sup>*\<^sup>*"

definition sessions_ok :: "world \<Rightarrow> bool" where
  "sessions_ok w \<longleftrightarrow> tokens_ok (toks w)"

text \<open>The refinement: whatever happens, the token table takes token steps.\<close>

lemma session_step_refines:
  assumes "session_step H w w'" and ok: "tokens_ok (toks w)"
  shows "token_steps (toks w) (toks w')"
  using assms(1)
proof (cases rule: session_step.cases)
  case (register s ev fr reg r1)
  then show ?thesis
    using evolvesD[OF assigner.evolves_Register] ok by (fastforce simp: unused_def new_family_def)
next
  case (login s ev fr log_in r2)
  then show ?thesis
    using evolvesD[OF assigner.evolves_Login] ok by (fastforce simp: unused_def new_family_def)
next
  case (refresh s ev fr tok r3)
  then show ?thesis
    using evolvesD[OF assigner.evolves_Refresh[of s None]] ok by (fastforce simp: unused_def)
next
  case (logout ev tok r4)
  then show ?thesis using evolvesD[OF assigner.evolves_Logout[of None]] ok by (fastforce simp: unused_def)
next
  case (forgot ev s fr fp r4)
  then show ?thesis using quietD[OF assigner.quiet_RequestPasswordReset] by fastforce
next
  case (reset ev rst r4)
  then show ?thesis using evolvesD[OF assigner.evolves_ResetPassword[of None]] ok by (fastforce simp: unused_def)
next
  case (verify ev tok r4)
  then show ?thesis using quietD[OF assigner.quiet_VerifyEmail] by fastforce
next
  case (oauth s ev fr gh prov cd st r2)
  then show ?thesis
    using evolvesD[OF assigner.evolves_OAuthCallback] ok by (fastforce simp: unused_def new_family_def)
qed simp

lemma session_steps_refine:
  "session_steps H w w' \<Longrightarrow> tokens_ok (toks w) \<Longrightarrow> token_steps (toks w) (toks w')"
proof (induction rule: rtranclp_induct)
  case (step y z)
  then have "token_steps (toks w) (toks y)" by simp
  moreover have "token_steps (toks y) (toks z)"
    using session_step_refines[OF step(2)] token_steps_ok[OF calculation step(4)] .
  ultimately show ?case by simp
qed simp

end
