(* ===== verification/Identity_Http.thy ===== *)
theory Identity_Http
  imports Authz_Http Identity_OAuth
begin

text \<open>
  internal/identity/middleware.go and handler.go: the bearer-token gate in front of every
  protected route, and the endpoints of the module.
\<close>

section \<open>middleware.go\<close>

text \<open>The validator of \<open>RequireAuth\<close> is an interface; the server passes the identity service.\<close>

type_synonym validator = "env \<Rightarrow> uuid \<Rightarrow> uuid \<Rightarrow> (world, err, unit) op"

definition already_authenticated :: "gctx \<Rightarrow> bool" where
  "already_authenticated c \<longleftrightarrow> keys c CtxAuthenticated = Some (VBool True)"

definition bearer_token :: "gctx \<Rightarrow> string + string" where
  "bearer_token c =
     (let header = GetHeader c ''Authorization'' in
      if header = '''' then Inl ''missing authorization header''
      else (case SplitN2 header CHR '' '' of
        [scheme, tok] \<Rightarrow> if EqualFold scheme ''Bearer'' then Inr tok
                         else Inl ''invalid authorization header format''
      | _ \<Rightarrow> Inl ''invalid authorization header format''))"

definition set_claims :: "uuid \<Rightarrow> uuid \<Rightarrow> string \<Rightarrow> gctx \<Rightarrow> gctx" where
  "set_claims userID tenantID role c = ctx_set CtxAuthenticated (VBool True)
     (ctx_set CtxRole (VString role) (ctx_set CtxTenantID (VUuid tenantID) (ctx_set CtxUserID (VUuid userID) c)))"

definition RequireAuth :: "env \<Rightarrow> string \<Rightarrow> validator option \<Rightarrow> gctx \<Rightarrow> (world, unit response, gctx) op" where
  "RequireAuth ev secret validator c =
     (if already_authenticated c then op_return c
      else (case bearer_token c of Inl msg \<Rightarrow> abort c CodeUnauthorized msg
      | Inr tok \<Rightarrow> (case ParseAccessToken ev secret tok of
          None \<Rightarrow> abort c CodeUnauthorized ''invalid or expired token''
        | Some (userID, tenantID, role) \<Rightarrow> (case OverrideFromCredential c tenantID of
            Inl e \<Rightarrow> abort c CodeTenantMismatch (error_text id e)
          | Inr c' \<Rightarrow> (case validator of
              None \<Rightarrow> op_return (set_claims userID tenantID role c')
            | Some v \<Rightarrow> op_try (v ev tenantID userID)
                (\<lambda>e. if errors_is e ErrTenantInactive \<or> errors_is e ErrUserInactive
                     then abort c' CodeForbidden ''account or organization is not active''
                     else abort c' CodeInternal ''failed to validate credential state'')
                (\<lambda>_. op_return (set_claims userID tenantID role c')))))))"

section \<open>handler.go\<close>

datatype identity_data = DRegister RegisterResponse | DLogin LoginResponse | DTokens TokenPair
  | DUser UserResponse | DUsers "UserResponse list" | DText string | DRedirect string

definition with_body :: "gctx \<Rightarrow> string + 'q \<Rightarrow> ('q \<Rightarrow> 'd handler) \<Rightarrow> 'd handler" where
  "with_body c req k = (case req of Inl msg \<Rightarrow> bad_request c msg | Inr q \<Rightarrow> k q)"

text \<open>\<open>_ = f()\<close>, then a fixed answer.\<close>

definition respond_always :: "(world, err, 'a) op \<Rightarrow> 'd response \<Rightarrow> 'd handler" where
  "respond_always m r = (\<lambda>w. (r, snd (m w)))"

definition identity_h_Register ::
  "env \<Rightarrow> identity_Service \<Rightarrow> fresh \<Rightarrow> gctx \<Rightarrow> string + RegisterRequest \<Rightarrow> identity_data handler" where
  "identity_h_Register ev s fr c req = with_body c req (\<lambda>q.
     respond c (Register ev s fr q) (\<lambda>r. Success c 201 (DRegister r)))"

definition identity_h_Login ::
  "env \<Rightarrow> identity_Service \<Rightarrow> fresh \<Rightarrow> gctx \<Rightarrow> string + LoginRequest \<Rightarrow> identity_data handler" where
  "identity_h_Login ev s fr c req = with_body c req (\<lambda>q.
     respond c (Login ev s fr q) (\<lambda>r. Success c 200 (DLogin r)))"

definition identity_h_Refresh ::
  "env \<Rightarrow> identity_Service \<Rightarrow> fresh \<Rightarrow> gctx \<Rightarrow> string + string \<Rightarrow> identity_data handler" where
  "identity_h_Refresh ev s fr c req = with_body c req (\<lambda>q.
     respond c (Refresh ev s fr q) (\<lambda>r. Success c 200 (DTokens r)))"

definition identity_h_Logout :: "env \<Rightarrow> gctx \<Rightarrow> string + string \<Rightarrow> identity_data handler" where
  "identity_h_Logout ev c req = with_body c req (\<lambda>q.
     respond_always (Logout ev q) (Success c 200 (DText ''logged out'')))"

definition identity_h_ForgotPassword ::
  "env \<Rightarrow> identity_Service \<Rightarrow> fresh \<Rightarrow> gctx \<Rightarrow> string + ForgotPasswordRequest \<Rightarrow> identity_data handler" where
  "identity_h_ForgotPassword ev s fr c req = with_body c req (\<lambda>q.
     respond_always (RequestPasswordReset ev s fr q)
       (Success c 200 (DText ''if an account exists, a password reset email has been sent'')))"

definition identity_h_ResetPassword :: "env \<Rightarrow> gctx \<Rightarrow> string + ResetPasswordRequest \<Rightarrow> identity_data handler" where
  "identity_h_ResetPassword ev c req = with_body c req (\<lambda>q.
     respond c (ResetPassword ev q) (\<lambda>_. Success c 200 (DText ''password has been reset'')))"

definition identity_h_VerifyEmail :: "env \<Rightarrow> gctx \<Rightarrow> string + string \<Rightarrow> identity_data handler" where
  "identity_h_VerifyEmail ev c req = with_body c req (\<lambda>q.
     respond c (VerifyEmail ev q) (\<lambda>_. Success c 200 (DText ''email verified'')))"

text \<open>\<open>requesterIDs\<close> is the same function as \<open>requesterIDsFromGin\<close> of authz, with the results in this order.\<close>

definition requesterIDs :: "gctx \<Rightarrow> (uuid \<times> uuid) option" where
  "requesterIDs c = (case (keys c CtxUserID, keys c CtxTenantID) of
     (Some uv, Some tv) \<Rightarrow> Some (as_uuid uv, as_uuid tv) | _ \<Rightarrow> None)"

definition identity_h_RequestEmailVerification ::
  "env \<Rightarrow> identity_Service \<Rightarrow> fresh \<Rightarrow> gctx \<Rightarrow> identity_data handler" where
  "identity_h_RequestEmailVerification ev s fr c = (case requesterIDs c of
     None \<Rightarrow> unauthenticated c
   | Some (userID, tenantID) \<Rightarrow> respond c (RequestEmailVerification ev s fr tenantID userID)
       (\<lambda>_. Success c 200 (DText ''verification email sent'')))"

definition Me :: "env \<Rightarrow> gctx \<Rightarrow> identity_data handler" where
  "Me ev c = (case requesterIDs c of
     None \<Rightarrow> unauthenticated c
   | Some (userID, _) \<Rightarrow> (\<lambda>w. case identity_FindByID ev (ctx_tenant c) userID w of
       (Inl e, w') \<Rightarrow> (Error c 404 (code_string CodeNotFound) ''user not found'' [], w')
     | (Inr u, w') \<Rightarrow> (Success c 200 (DUser (ToUserResponse u)), w')))"

text \<open>\<open>n = n*10 + int(ch-'0')\<close> over the runes, in 64-bit arithmetic.\<close>

fun parse_digits :: "int list \<Rightarrow> int \<Rightarrow> int option" where
  "parse_digits [] n = Some n"
| "parse_digits (ch # cs) n =
     (if ch < 48 \<or> 57 < ch then None else parse_digits cs (wrap64 (n * 10 + (ch - 48))))"

definition parseIntQuery :: "gctx \<Rightarrow> string \<Rightarrow> int \<Rightarrow> int" where
  "parseIntQuery c key def =
     (let v = Query c key in
      if v = '''' then def
      else (case parse_digits (map fst (chunks v)) 0 of
        None \<Rightarrow> def | Some n \<Rightarrow> if n = 0 then def else n))"

definition identity_h_ListUsers :: "env \<Rightarrow> gctx \<Rightarrow> identity_data handler" where
  "identity_h_ListUsers ev c =
     (let page = parseIntQuery c ''page'' 1; pageSize = parseIntQuery c ''page_size'' 20
      in respond c (identity_ListUsers ev (ctx_tenant c) page pageSize)
           (\<lambda>(us, n). SuccessPaginated c (DUsers us) (NewPagination page pageSize n)))"

definition OAuthAuthorize :: "env \<Rightarrow> identity_Service \<Rightarrow> github \<Rightarrow> fresh \<Rightarrow> gctx \<Rightarrow> identity_data handler" where
  "OAuthAuthorize ev s gh fr c =
     (if Query c ''tenant_slug'' = '''' then bad_request c ''tenant_slug query parameter is required''
      else respond c (op_lift (OAuthAuthorizeURL ev s gh fr (Param c ''provider'') (Query c ''tenant_slug'')))
        (\<lambda>url. OkResp 307 (DRedirect url) \<lparr>meta_RequestID = requestID c, meta_Pagination = None\<rparr>))"

definition identity_h_OAuthCallback :: "env \<Rightarrow> identity_Service \<Rightarrow> github \<Rightarrow> fresh \<Rightarrow> gctx \<Rightarrow> identity_data handler" where
  "identity_h_OAuthCallback ev s gh fr c =
     (let code = Query c ''code''; state = Query c ''state'' in
      if code = '''' \<or> state = '''' then bad_request c ''missing code or state''
      else respond c (OAuthCallback ev s gh fr (Param c ''provider'') code state)
        (\<lambda>r. Success c 200 (DLogin r)))"

section \<open>Paging corners\<close>

text \<open>The digits are accumulated without an overflow check: a number above 2^64 comes back small.\<close>

lemma parseIntQuery_wraps:
  "Query c ''page'' = ''18446744073709551617'' \<Longrightarrow> parseIntQuery c ''page'' 1 = 1"
  "Query c ''page'' = ''9223372036854775808'' \<Longrightarrow> parseIntQuery c ''page'' 1 = - 9223372036854775808"
proof -
  have "parse_digits (map fst (chunks ''18446744073709551617'')) 0 = Some 1"
    "parse_digits (map fst (chunks ''9223372036854775808'')) 0 = Some (- 9223372036854775808)" by code_simp+
  note d = this
  show "Query c ''page'' = ''18446744073709551617'' \<Longrightarrow> parseIntQuery c ''page'' 1 = 1"
    by (simp only: parseIntQuery_def Let_def d option.case list.distinct if_False) simp
  show "Query c ''page'' = ''9223372036854775808'' \<Longrightarrow> parseIntQuery c ''page'' 1 = - 9223372036854775808"
    by (simp only: parseIntQuery_def Let_def d option.case list.distinct if_False) simp
qed

text \<open>A page size above 100 is served as 20 but reported as asked.\<close>

lemma ListUsers_meta_mismatch:
  assumes "identity_h_ListUsers ev c w = (OkResp st (DUsers us) m, w')" and "parseIntQuery c ''page_size'' 20 > 100"
  shows "length us \<le> 20 \<and> (\<exists>p. meta_Pagination m = Some p \<and> PageSize p > 100)"
proof -
  obtain us0 n w1 where l: "identity_ListUsers ev (ctx_tenant c) (parseIntQuery c ''page'' 1) (parseIntQuery c ''page_size'' 20) w = (Inr (us0, n), w1)"
    and r: "OkResp st (DUsers us) m = SuccessPaginated c (DUsers us0)
      (NewPagination (parseIntQuery c ''page'' 1) (parseIntQuery c ''page_size'' 20) n)"
    using assms(1) by (auto simp: identity_h_ListUsers_def Let_def respond_def RespondError_def Error_def
        split: prod.splits sum.splits option.splits)
  have "length us0 \<le> 20"
    using l assms(2) unfolding identity_ListUsers_def Let_def
    by (auto simp: op_try_eq ListByTenant_def op_map_err_eq tx_inv page_of_def split: prod.splits dest!: WithTenantTx_ok)
  then show ?thesis using r assms(2) by (auto simp: SuccessPaginated_def NewPagination_def Let_def)
qed

end
