(* ===== verification/Identity_Facts.thy ===== *)
theory Identity_Facts
  imports Identity_Sessions Identity_Http
begin

text \<open>
  What a successful call of the identity service has checked and written: inversion lemmas for
  the refresh, logout, reset, login and registration paths.
\<close>

lemma sha_HashOpaqueToken [simp]: "HashOpaqueToken ev tok = sha256_hex ev tok"
  by (simp add: HashOpaqueToken_def)

lemma op_try_fail_Inr:
  "op_try m (\<lambda>e. op_fail (g e)) k w = (Inr a, w') \<Longrightarrow> \<exists>x w1. m w = (Inr x, w1) \<and> k x w1 = (Inr a, w')"
  by (auto simp: op_try_eq)

lemma op_lift_Inr: "op_lift x w = (Inr a, w') \<longleftrightarrow> x = Inr a \<and> w' = w"
  by auto

section \<open>Lookups before a tenant is known\<close>

lemma run_tx_reads:
  assumes "reads_only m" "run_tx ev l m w = (r, w')"
  shows "w' = w"
proof (cases r)
  case (Inl e) then show ?thesis using assms(2) run_tx_rollback by blast
next
  case (Inr a)
  with assms(2) have "run_tx ev l m w = (Inr a, w')" by simp
  from run_tx_ok[OF this] obtain d where d: "m (store w) = Inr (a, d)" "w' = w\<lparr>store := d\<rparr>" by blast
  then show ?thesis by (simp add: reads_onlyD[OF assms(1) d(1)])
qed

lemma FindRefreshTokenByHash_Inr:
  "FindRefreshTokenByHash ev h w = (Inr r, w') \<Longrightarrow>
     w' = w \<and> List.find (\<lambda>q. rt_TokenHash q = h) (toks w) = Some r \<and> rt_ID r \<noteq> uuid_nil"
  unfolding FindRefreshTokenByHash_def WithoutTenantScope_def
  by (auto simp: tx_inv split: option.splits if_splits dest!: run_tx_ok)

lemma reads_only_find_token: "reads_only (tx_bind (stmt ev l (tx_query q)) (\<lambda>r. case r of
     Some r \<Rightarrow> if P r then tx_fail e else tx_return r | None \<Rightarrow> tx_fail e))"
  by (auto simp: reads_only_def tx_inv split: option.splits if_splits)

lemma FindRefreshTokenByHash_reads: "FindRefreshTokenByHash ev h w = (r, w') \<Longrightarrow> w' = w"
  unfolding FindRefreshTokenByHash_def WithoutTenantScope_def
  by (rule run_tx_reads[OF reads_only_find_token])

lemma FindRefreshTokenByHash_run:
  assumes "\<And>l. sql_fault ev l = None" "List.find (\<lambda>q. rt_TokenHash q = h) (toks w) = Some r" "rt_ID r \<noteq> uuid_nil"
  shows "FindRefreshTokenByHash ev h w = (Inr r, w)"
  using assms by (simp add: FindRefreshTokenByHash_def WithoutTenantScope_def run_tx_run tx_bind_def
      tx_query_def tx_return_def)

lemma FindVerificationTokenByHash_Inr:
  "FindVerificationTokenByHash ev h w = (Inr v, w') \<Longrightarrow>
     w' = w \<and> List.find (\<lambda>q. vt_TokenHash q = h) (verification_tokens (store w)) = Some v \<and> vt_ID v \<noteq> uuid_nil"
  unfolding FindVerificationTokenByHash_def WithoutTenantScope_def
  by (auto simp: tx_inv split: option.splits if_splits dest!: run_tx_ok)

section \<open>Rotation\<close>

definition active_credential :: "session \<Rightarrow> db \<Rightarrow> uuid \<Rightarrow> uuid \<Rightarrow> user \<Rightarrow> bool" where
  "active_credential sess d t i u \<longleftrightarrow> live_user sess d i = Some u \<and> user_Status u \<noteq> ''disabled''
     \<and> (\<exists>tn. List.find (\<lambda>tn. tenant_ID tn = t) (tenants d) = Some tn \<and> tenant_Status tn = ''active''
          \<and> tenant_DeletedAt tn = None)"

lemma activeCredentialUserTx_Inr:
  "activeCredentialUserTx ev sess t i d = Inr (u, d') \<Longrightarrow> d' = d \<and> active_credential sess d t i u"
  by (auto simp: activeCredentialUserTx_def active_credential_def tx_inv split: if_splits option.splits)

lemma activeCredentialUserTx_run:
  "(\<And>l. sql_fault ev l = None) \<Longrightarrow> active_credential sess d t i u \<Longrightarrow>
     activeCredentialUserTx ev sess t i d = Inr (u, d)"
  by (auto simp: activeCredentialUserTx_def active_credential_def tx_bind_def tx_query_def require_def
      tx_return_def tx_map_err_def take_row_def)

text \<open>A rotation that succeeds found the old token live and unexpired, and consumed it.\<close>

lemma RotateRefreshToken_Inr:
  assumes "RotateRefreshToken ev t i new w = (Inr u, w')"
  shows "\<exists>cur d1. active_credential (Some t) (store w) t (rt_UserID new) u
    \<and> cur \<in> set (toks w) \<and> rt_ID cur = i \<and> rt_TenantID cur = t \<and> live_token cur \<and> rt_ReplacedBy cur = None
    \<and> now ev < rt_ExpiresAt cur \<and> same_session new cur
    \<and> insert_refresh_token (Some t) new (store w) = Inr ((), d1)
    \<and> w' = w\<lparr>store := consume_token ev (Some t) i (rt_ID new) d1\<rparr>"
proof -
  obtain d where d: "RotateRefreshToken_tx ev t i new (Some t) (store w) = Inr (Inr u, d)" "w' = w\<lparr>store := d\<rparr>"
    using assms unfolding RotateRefreshToken_def op_bind_eq by (auto dest!: WithTenantTxID_ok)
  then show ?thesis
    unfolding RotateRefreshToken_tx_def
    by (auto simp: tx_inv rotate_found_def live_token_def same_session_def split: if_splits
        dest!: activeCredentialUserTx_Inr select_first_SomeD)
qed

lemma Refresh_Inr:
  assumes "Refresh ev s fr tok w = (Inr tp, w')" and ra: "svc_roles s = authz_roles"
  shows "\<exists>r row u. List.find (\<lambda>q. rt_TokenHash q = sha256_hex ev tok) (toks w) = Some r
    \<and> newRefreshTokenRow ev s fr (rt_TenantID r) (rt_UserID r) (rt_FamilyID r) = Inr (RefreshToken tp, row)
    \<and> RotateRefreshToken ev (rt_TenantID r) (rt_ID r) row w = (Inr u, w')
    \<and> RefreshTokenExpiresAt tp = rt_ExpiresAt row"
proof -
  have "role_or_member ev s t i w1 = (x, w2) \<Longrightarrow> w2 = w1" for t i w1 x w2
    using ra by (auto simp: role_or_member_def op_try_eq authz_roles_def dest: PrimaryRoleSlug_reads)
  then have fin: "refresh_finish ev s t plain row u w1 = (Inr tp, w2) \<Longrightarrow>
      w2 = w1 \<and> RefreshToken tp = plain \<and> RefreshTokenExpiresAt tp = rt_ExpiresAt row" for t plain row u w1 w2
    by (auto simp: refresh_finish_def op_bind_eq op_try_eq token_pair_def)
  from op_try_fail_Inr[OF assms(1)[unfolded Refresh_def]] obtain r
    where r: "FindRefreshTokenByHash ev (HashOpaqueToken ev tok) w = (Inr r, w)"
    and k: "op_try (op_lift (newRefreshTokenRow ev s fr (rt_TenantID r) (rt_UserID r) (rt_FamilyID r)))
       (\<lambda>e. op_fail (Wrap CodeInternal ''failed to generate refresh token'' e)) (\<lambda>(plain, row).
     op_try (RotateRefreshToken ev (rt_TenantID r) (rt_ID r) row)
       (\<lambda>e. op_fail (Refresh_error e)) (\<lambda>u. refresh_finish ev s (rt_TenantID r) plain row u)) w = (Inr tp, w')"
    using FindRefreshTokenByHash_reads by blast
  obtain plain row where row: "newRefreshTokenRow ev s fr (rt_TenantID r) (rt_UserID r) (rt_FamilyID r) = Inr (plain, row)"
    and k2: "op_try (RotateRefreshToken ev (rt_TenantID r) (rt_ID r) row)
       (\<lambda>e. op_fail (Refresh_error e)) (\<lambda>u. refresh_finish ev s (rt_TenantID r) plain row u) w = (Inr tp, w')"
    using k by (cases "newRefreshTokenRow ev s fr (rt_TenantID r) (rt_UserID r) (rt_FamilyID r)")
      (auto simp: op_try_def op_lift_def op_fail_def split: prod.splits)
  from op_try_fail_Inr[OF k2] obtain u w2 where "RotateRefreshToken ev (rt_TenantID r) (rt_ID r) row w = (Inr u, w2)"
    and "refresh_finish ev s (rt_TenantID r) plain row u w2 = (Inr tp, w')" by blast
  with fin row FindRefreshTokenByHash_Inr[OF r] show ?thesis by fastforce
qed

lemma toks_unique:
  "tokens_ok ts \<Longrightarrow> a \<in> set ts \<Longrightarrow> b \<in> set ts \<Longrightarrow> rt_ID a = rt_ID b \<Longrightarrow> a = b"
  using tokens_ok_distinct(1) by (auto simp: distinct_map inj_on_def)

text \<open>A revoked token is refused whatever the circumstances.\<close>

lemma dead_token_refused:
  assumes ok: "tokens_ok (toks w)" and r: "r \<in> set (toks w)" "\<not> live_token r" "rt_TokenHash r = sha256_hex ev tok"
    and ra: "svc_roles s = authz_roles"
  shows "\<exists>e. fst (Refresh ev s fr tok w) = Inl e"
proof (rule ccontr)
  assume "\<nexists>e. fst (Refresh ev s fr tok w) = Inl e"
  then obtain tp w' where "Refresh ev s fr tok w = (Inr tp, w')"
    by (metis obj_sumE prod.collapse)
  from Refresh_Inr[OF this ra] find_hash[OF ok r(1)] r(3) obtain row u
    where "RotateRefreshToken ev (rt_TenantID r) (rt_ID r) row w = (Inr u, w')" by auto
  from RotateRefreshToken_Inr[OF this] obtain cur
    where cur: "cur \<in> set (toks w)" "rt_ID cur = rt_ID r" "live_token cur" by blast
  from toks_unique[OF ok cur(1) r(1) cur(2)] cur(3) r(2) show False by simp
qed

text \<open>After a successful refresh the presented token is revoked.\<close>

lemma Refresh_kills:
  assumes "Refresh ev s fr tok w = (Inr tp, w')" and ra: "svc_roles s = authz_roles" and ok: "tokens_ok (toks w)"
  shows "\<exists>r\<in>set (toks w'). rt_TokenHash r = sha256_hex ev tok \<and> \<not> live_token r"
proof -
  obtain r row u where r: "List.find (\<lambda>q. rt_TokenHash q = sha256_hex ev tok) (toks w) = Some r"
    and rot: "RotateRefreshToken ev (rt_TenantID r) (rt_ID r) row w = (Inr u, w')"
    using Refresh_Inr[OF assms(1) ra] by blast
  from RotateRefreshToken_Inr[OF rot] obtain cur d1 where
    cur: "cur \<in> set (toks w)" "rt_ID cur = rt_ID r" "rt_TenantID cur = rt_TenantID r" "live_token cur" "rt_ReplacedBy cur = None"
    and ins: "insert_refresh_token (Some (rt_TenantID r)) row (store w) = Inr ((), d1)"
    and w': "w' = w\<lparr>store := consume_token ev (Some (rt_TenantID r)) (rt_ID r) (rt_ID row) d1\<rparr>" by blast
  have "cur = r" using toks_unique[OF ok cur(1) _ cur(2)] find_SomeD[OF r] by blast
  moreover have "cur \<in> set (refresh_tokens d1)" using insert_refresh_token_Inr[OF ins] cur(1) by auto
  ultimately have "r\<lparr>rt_RevokedAt := Some (now ev), rt_ReplacedBy := Some (rt_ID row)\<rparr> \<in> set (toks w')"
    using cur w' by (auto simp: consume_token_def update_rows_def rls_def unconsumed_def live_token_def image_iff
        intro!: bexI[of _ r])
  then show ?thesis using find_SomeD[OF r] by (intro bexI) (auto simp: live_token_def)
qed

section \<open>Replay\<close>

lemma Refresh_replay:
  assumes nf: "\<And>l. sql_fault ev l = None" and ok: "tokens_ok (toks w)" and r: "r \<in> set (toks w)" "\<not> live_token r"
    and h: "rt_TokenHash r = sha256_hex ev tok" and id: "rt_ID r \<noteq> uuid_nil" and rnd: "fresh_bytes fr \<noteq> None"
    and act: "active_credential (Some (rt_TenantID r)) (store w) (rt_TenantID r) (rt_UserID r) u"
  shows "Refresh ev s fr tok w = (Inl (New CodeUnauthorized ''refresh token has been revoked''),
     w\<lparr>store := revoke_tokens ev (Some (rt_TenantID r)) (\<lambda>q. rt_FamilyID q = rt_FamilyID r) (store w)\<rparr>)"
proof -
  obtain b where b: "fresh_bytes fr = Some b" using rnd by blast
  let ?f = "List.find (\<lambda>q. rt_TokenHash q = sha256_hex ev tok) (toks w)"
  have f: "?f = Some r" using find_hash[OF ok r(1)] h by simp
  obtain plain row where row: "newRefreshTokenRow ev s fr (rt_TenantID r) (rt_UserID r) (rt_FamilyID r) = Inr (plain, row)"
    using b by (simp add: newRefreshTokenRow_def GenerateOpaqueToken_def Let_def)
  have u: "rt_UserID row = rt_UserID r" using newRefreshTokenRow_Inr[OF row] by simp
  have uniq: "q = r" if "q \<in> set (toks w)" "rt_ID q = rt_ID r" for q using toks_unique[OF ok that(1) r(1) that(2)] .
  have sel: "select_first (Some (rt_TenantID r)) rt_TenantID (\<lambda>q. rt_ID q = rt_ID r) (toks w) = Some r"
  proof (cases "select_first (Some (rt_TenantID r)) rt_TenantID (\<lambda>q. rt_ID q = rt_ID r) (toks w)")
    case None then show ?thesis using select_first_NoneD[OF None r(1)] by simp
  next
    case (Some q) then show ?thesis using uniq select_first_SomeD[OF Some] by auto
  qed
  have rot: "RotateRefreshToken ev (rt_TenantID r) (rt_ID r) row w =
     (Inl ErrRefreshReused, w\<lparr>store := revoke_tokens ev (Some (rt_TenantID r)) (\<lambda>q. rt_FamilyID q = rt_FamilyID r) (store w)\<rparr>)"
    using activeCredentialUserTx_run[OF nf act] sel r(2) nf u
    by (simp add: RotateRefreshToken_def WithTenantTxID_run RotateRefreshToken_tx_def tx_try_def
        rotate_found_def take_row_def tx_bind_def modify_def tx_return_def op_bind_def op_try_def op_lift_def live_token_def)
  have err: "Refresh_error ErrRefreshReused = New CodeUnauthorized ''refresh token has been revoked''"
    by (simp add: Refresh_error_def identity_errs)
  show ?thesis
    by (simp add: Refresh_def op_try_def FindRefreshTokenByHash_run[OF nf f id] op_lift_def row rot op_fail_def err)
qed

lemma revoke_where_row:
  "q \<in> set (revoke_where t P ts) \<Longrightarrow> \<exists>p\<in>set ts. rt_FamilyID q = rt_FamilyID p \<and> (P p \<longrightarrow> \<not> live_token q)"
  by (auto simp: revoke_where_def live_token_def)

lemma revoke_where_family: "p \<in> set ts \<Longrightarrow> \<exists>q\<in>set (revoke_where t P ts). rt_FamilyID q = rt_FamilyID p"
  unfolding revoke_where_def set_map by (rule bexI[OF _ imageI]) simp_all

lemma revoke_family_dead:
  assumes ok: "tokens_ok (refresh_tokens d)" and r: "r \<in> set (refresh_tokens d)"
  shows "family_dead (rt_FamilyID r)
    (refresh_tokens (revoke_tokens ev (Some (rt_TenantID r)) (\<lambda>q. rt_FamilyID q = rt_FamilyID r) d))"
  unfolding family_dead_def toks_revoke_tokens
proof (intro conjI ballI impI)
  fix q assume q: "q \<in> set (revoke_where (now ev) (\<lambda>q. rls (Some (rt_TenantID r)) rt_TenantID q
      \<and> rt_FamilyID q = rt_FamilyID r) (refresh_tokens d))" and f: "rt_FamilyID q = rt_FamilyID r"
  from revoke_where_row[OF q] obtain p where p: "p \<in> set (refresh_tokens d)" "rt_FamilyID q = rt_FamilyID p"
    and dead: "rls (Some (rt_TenantID r)) rt_TenantID p \<and> rt_FamilyID p = rt_FamilyID r \<longrightarrow> \<not> live_token q" by blast
  have "same_session p r" using tokens_ok_session[OF ok p(1) r] p(2) f by simp
  with dead p(2) f show "\<not> live_token q" by (simp add: rls_def same_session_def)
qed (rule revoke_where_family[OF r])

lemma Logout_run:
  assumes nf: "\<And>l. sql_fault ev l = None" and ok: "tokens_ok (toks w)" and r: "r \<in> set (toks w)"
    and h: "rt_TokenHash r = sha256_hex ev tok" and id: "rt_ID r \<noteq> uuid_nil"
  shows "Logout ev tok w = (Inr (),
     w\<lparr>store := revoke_tokens ev (Some (rt_TenantID r)) (\<lambda>q. rt_FamilyID q = rt_FamilyID r) (store w)\<rparr>)"
proof -
  have f: "List.find (\<lambda>q. rt_TokenHash q = sha256_hex ev tok) (toks w) = Some r" using find_hash[OF ok r] h by simp
  show ?thesis
    by (simp add: Logout_def op_try_def FindRefreshTokenByHash_run[OF nf f id] RevokeRefreshTokenFamily_def
        WithTenantTxID_run nf modify_def)
qed

text \<open>The tokens of a dead family are refused.\<close>

lemma dead_family_refused:
  assumes "tokens_ok (toks w)" "family_dead f (toks w)" "q \<in> set (toks w)" "rt_FamilyID q = f"
    "rt_TokenHash q = sha256_hex ev tok" "svc_roles s = authz_roles"
  shows "\<exists>e. fst (Refresh ev s fr tok w) = Inl e"
  using dead_token_refused[OF assms(1,3) _ assms(5,6)] assms(2,3,4) by (auto simp: family_dead_def)

section \<open>Password reset\<close>

lemma claim_Inr:
  "claimVerificationTokenTx ev sess i u p d = Inr (x, d') \<Longrightarrow>
     \<exists>v. token_by_id sess d i = Some v \<and> vt_UserID v = u \<and> vt_Purpose v = p \<and> vt_UsedAt v = None
       \<and> now ev < vt_ExpiresAt v \<and> d' = mark_used ev sess i d"
  by (auto simp: claimVerificationTokenTx_def tx_inv)

lemma update_user_Inr:
  "update_user ev l sess i f d = Inr (x, d') \<Longrightarrow> live_user sess d i \<noteq> None
     \<and> d' = d\<lparr>users := update_rows sess user_TenantID (\<lambda>u. user_ID u = i \<and> user_DeletedAt u = None) f (users d)\<rparr>"
  by (auto simp: update_user_def tx_inv)

definition set_password :: "env \<Rightarrow> session \<Rightarrow> uuid \<Rightarrow> string \<Rightarrow> db \<Rightarrow> db" where
  "set_password ev sess i h d = d\<lparr>users := update_rows sess user_TenantID
     (\<lambda>u. user_ID u = i \<and> user_DeletedAt u = None)
     (\<lambda>u. u\<lparr>user_PasswordHash := Some h, user_UpdatedAt := now ev\<rparr>) (users d)\<rparr>"

lemma ConsumePasswordReset_Inr:
  assumes "ConsumePasswordReset ev t i u h w = (Inr x, w')"
  shows "\<exists>v us. token_by_id (Some t) (store w) i = Some v \<and> vt_UserID v = u \<and> vt_Purpose v = PurposePasswordReset
    \<and> vt_UsedAt v = None \<and> now ev < vt_ExpiresAt v \<and> active_credential (Some t) (store w) t u us
    \<and> w' = w\<lparr>store := revoke_tokens ev (Some t) (\<lambda>r. rt_UserID r = u)
        (set_password ev (Some t) u h (mark_used ev (Some t) i (store w)))\<rparr>"
  using assms unfolding ConsumePasswordReset_def
  by (auto simp: tx_inv set_password_def dest!: WithTenantTxID_ok activeCredentialUserTx_Inr claim_Inr update_user_Inr)
    blast

lemma ResetPassword_Inr:
  assumes "ResetPassword ev req w = (Inr x, w')"
  shows "\<exists>v h. List.find (\<lambda>q. vt_TokenHash q = sha256_hex ev (rst_Token req)) (verification_tokens (store w)) = Some v
    \<and> vt_Purpose v = PurposePasswordReset \<and> bcrypt ev (rst_NewPassword req) = Some h
    \<and> ConsumePasswordReset ev (vt_TenantID v) (vt_ID v) (vt_UserID v) h w = (Inr x, w')"
  using assms unfolding ResetPassword_def
  by (auto simp: HashPassword_def op_map_err_eq split: if_splits option.splits
      dest!: op_try_fail_Inr FindVerificationTokenByHash_Inr)

section \<open>Token issue\<close>

lemma CreateRefreshToken_Inr:
  "CreateRefreshToken ev t r w = (Inr x, w') \<Longrightarrow>
     rt_TenantID r = t \<and> w' = w\<lparr>store := (store w)\<lparr>refresh_tokens := toks w @ [r]\<rparr>\<rparr>"
  unfolding CreateRefreshToken_def
  by (auto simp: stmt_Inr rls_def dest!: WithTenantTxID_ok insert_refresh_token_Inr)

lemma issueTokenPair_Inr:
  assumes "issueTokenPair ev s fr t u r w = (Inr tp, w')"
  shows "\<exists>row. newRefreshTokenRow ev s fr t (user_ID u) (fresh_id fr 1) = Inr (RefreshToken tp, row)
    \<and> w' = w\<lparr>store := (store w)\<lparr>refresh_tokens := toks w @ [row]\<rparr>\<rparr>
    \<and> newAccessToken ev s (user_ID u) t r = Inr (AccessToken tp, AccessTokenExpiresAt tp)"
  using assms unfolding issueTokenPair_def
  by (cases "newAccessToken ev s (user_ID u) t r"; cases "newRefreshTokenRow ev s fr t (user_ID u) (fresh_id fr 1)")
    (auto simp: op_try_def op_lift_def op_fail_def op_return_def token_pair_def split: prod.splits sum.splits
      dest!: CreateRefreshToken_Inr)

section \<open>Login\<close>

lemma run_stmt_Inr: "run_stmt ev l m w = (Inr a, w') \<Longrightarrow> \<exists>d. m (store w) = Inr (a, d) \<and> w' = w\<lparr>store := d\<rparr>"
  by (auto simp: run_stmt_def stmt_Inr split: sum.splits)

lemma tenancy_FindBySlug_Inr:
  "tenancy_FindBySlug ev slug w = (Inr t, w') \<Longrightarrow> w' = w \<and> t \<in> set (tenants (store w))
     \<and> citext ev (tenant_Slug t) = citext ev slug \<and> tenant_DeletedAt t = None"
  unfolding tenancy_FindBySlug_def op_map_err_Inr by (auto dest!: run_stmt_Inr find_SomeD)

lemma tenancy_FindByID_Inr:
  "tenancy_FindByID ev i w = (Inr t, w') \<Longrightarrow> w' = w \<and> t \<in> set (tenants (store w))
     \<and> tenant_ID t = i \<and> tenant_DeletedAt t = None"
  unfolding tenancy_FindByID_def op_map_err_Inr by (auto dest!: run_stmt_Inr find_SomeD)

lemma FindByEmailInTenant_Inr:
  "FindByEmailInTenant ev (Some t) email w = (Inr u, w') \<Longrightarrow> w' = w \<and> u \<in> set (users (store w))
     \<and> user_TenantID u = t \<and> citext ev (user_Email u) = citext ev email \<and> user_DeletedAt u = None"
  unfolding FindByEmailInTenant_def
  by (auto simp: tx_inv dest!: WithTenantTx_Some select_first_SomeD)

lemma FindByEmailAnyTenant_Inr:
  "FindByEmailAnyTenant ev email w = (Inr us, w') \<Longrightarrow> w' = w
     \<and> us = filter (\<lambda>u. citext ev (user_Email u) = citext ev email \<and> user_DeletedAt u = None) (users (store w))"
  unfolding FindByEmailAnyTenant_def op_map_err_Inr WithoutTenantScope_def
  by (auto simp: tx_inv dest!: run_tx_ok)

text \<open>The candidate: found by address, in the named tenant or as the only match anywhere.\<close>

lemma login_candidate_Inr:
  assumes "login_candidate ev req w = (Inr (Candidate u), w')"
  shows "w' = w \<and> u \<in> set (users (store w)) \<and> user_DeletedAt u = None
    \<and> citext ev (user_Email u) = citext ev (login_Email req)
    \<and> (if login_TenantSlug req \<noteq> ''''
       then \<exists>t\<in>set (tenants (store w)). tenant_ID t = user_TenantID u \<and> tenant_DeletedAt t = None
              \<and> citext ev (tenant_Slug t) = citext ev (login_TenantSlug req)
       else filter (\<lambda>q. citext ev (user_Email q) = citext ev (login_Email req) \<and> user_DeletedAt q = None)
              (users (store w)) = [u])"
proof (cases "login_TenantSlug req = ''''")
  case True
  then obtain us w1 where us: "FindByEmailAnyTenant ev (login_Email req) w = (Inr us, w1)"
    and k: "(case us of [] \<Rightarrow> op_fail bad_credentials | [u] \<Rightarrow> op_return (Candidate u)
       | _ \<Rightarrow> op_bind (tenant_choices ev us []) (\<lambda>choices. op_return (Ambiguous choices))) w1 = (Inr (Candidate u), w')"
    using assms unfolding login_candidate_def by (auto dest!: op_try_fail_Inr)
  from k have k: "us = [u]" "w' = w1" by (auto simp: op_bind_eq split: list.splits)
  have f: "filter (\<lambda>q. citext ev (user_Email q) = citext ev (login_Email req) \<and> user_DeletedAt q = None)
     (users (store w)) = [u]" and w1: "w1 = w" using FindByEmailAnyTenant_Inr[OF us] k(1) by simp_all
  have "u \<in> set (filter (\<lambda>q. citext ev (user_Email q) = citext ev (login_Email req) \<and> user_DeletedAt q = None)
     (users (store w)))" unfolding f by simp
  then have "u \<in> set (users (store w)) \<and> user_DeletedAt u = None
    \<and> citext ev (user_Email u) = citext ev (login_Email req)" by (simp only: set_filter mem_Collect_eq)
  then show ?thesis using f w1 k(2) True by simp
next
  case False
  then show ?thesis using assms unfolding login_candidate_def
    by (auto dest!: op_try_fail_Inr tenancy_FindBySlug_Inr FindByEmailInTenant_Inr)
qed

lemma Login_Inr:
  assumes "Login ev s fr req w = (Inr resp, w')" "lr_Tokens resp \<noteq> None"
  shows "\<exists>u h t. login_candidate ev req w = (Inr (Candidate u), w) \<and> user_PasswordHash u = Some h
    \<and> CheckPassword ev h (login_Password req) \<and> user_Status u \<noteq> ''disabled''
    \<and> t \<in> set (tenants (store w)) \<and> tenant_ID t = user_TenantID u \<and> tenant_Status t = ''active''
    \<and> tenant_DeletedAt t = None \<and> login_checked ev s fr u w = (Inr resp, w')"
proof -
  obtain cand w1 where c: "login_candidate ev req w = (Inr cand, w1)"
    and k: "(case cand of Ambiguous choices \<Rightarrow>
       op_return \<lparr>lr_User = None, lr_Tokens = None, lr_AmbiguousTenants = choices\<rparr>
   | Candidate u \<Rightarrow>
     (case user_PasswordHash u of None \<Rightarrow> op_fail bad_credentials
      | Some h \<Rightarrow>
        if \<not> CheckPassword ev h (login_Password req) then op_fail bad_credentials
        else if user_Status u = ''disabled'' then op_fail (New CodeForbidden ''account is disabled'')
        else op_try (tenancy_FindByID ev (user_TenantID u))
          (\<lambda>e. op_fail (New CodeForbidden ''organization is not active''))
          (\<lambda>t. if tenant_Status t \<noteq> ''active'' then op_fail (New CodeForbidden ''organization is not active'')
               else login_checked ev s fr u))) w1 = (Inr resp, w')"
    using assms(1) unfolding Login_def op_bind_Inr by blast
  show ?thesis
  proof (cases cand)
    case (Ambiguous cs) then show ?thesis using k assms(2) by auto
  next
    case (Candidate u)
    have w1: "w1 = w" using login_candidate_Inr c Candidate by blast
    from k Candidate obtain h t w2 where "user_PasswordHash u = Some h" "CheckPassword ev h (login_Password req)"
      "user_Status u \<noteq> ''disabled''" and t: "tenancy_FindByID ev (user_TenantID u) w = (Inr t, w2)"
      and "tenant_Status t = ''active''" "login_checked ev s fr u w2 = (Inr resp, w')"
      unfolding w1 by (auto split: option.splits if_splits dest!: op_try_fail_Inr)
    with tenancy_FindByID_Inr[OF t] c Candidate w1 show ?thesis by auto
  qed
qed

section \<open>Registration\<close>

lemma insert_user_Inr:
  "insert_user ev sess u d = Inr (x, d') \<Longrightarrow> rls sess user_TenantID u \<and> user_unique ev u d
     \<and> d' = d\<lparr>users := users d @ [u]\<rparr>"
  by (auto simp: insert_user_def tx_inv insert_check_None)

lemma identity_CreateTx_Inr:
  "identity_CreateTx ev sess u d = Inr (x, d') \<Longrightarrow> rls sess user_TenantID u \<and> user_unique ev u d
     \<and> d' = d\<lparr>users := users d @ [u]\<rparr>"
  by (auto simp: identity_CreateTx_def tx_inv dest!: insert_user_Inr)

lemma tenancy_CreateTx_slug:
  "tenancy_CreateTx ev ids t d = Inr (x, d') \<Longrightarrow> tenant_DeletedAt t = None \<Longrightarrow>
     users d' = users d \<and> tenants d' = tenants d @ [t] \<and> tenant_ID t \<notin> tenant_ID ` set (tenants d)
     \<and> (\<forall>q\<in>set (tenants d). tenant_DeletedAt q = None \<longrightarrow> citext ev (tenant_Slug q) \<noteq> citext ev (tenant_Slug t))"
  by (auto simp: tenancy_CreateTx_def tx_inv tenant_insert_check_def insert_check_None seed_default_roles_def
      Let_def split: if_splits)

lemma Register_tx_Inr:
  assumes "Register_tx ev s fr t u d = Inr (x, d')" and ra: "svc_roles s = authz_roles"
    and t: "tenant_DeletedAt t = None"
  shows "users d' = users d @ [u] \<and> tenants d' = tenants d @ [t] \<and> user_TenantID u = tenant_ID t
    \<and> tenant_ID t \<notin> tenant_ID ` set (tenants d)
    \<and> (\<forall>q\<in>set (tenants d). tenant_DeletedAt q = None \<longrightarrow> citext ev (tenant_Slug q) \<noteq> citext ev (tenant_Slug t))
    \<and> (\<exists>r\<in>set (roles d'). role_TenantID r = tenant_ID t \<and> role_Slug r = ''owner'' \<and> (\<exists>g\<in>set (user_roles d').
        ur_UserID g = user_ID u \<and> ur_RoleID g = role_ID r \<and> ur_TenantID g = tenant_ID t))"
proof -
  obtain a b d1 d2 where d1: "tenancy_CreateTx ev (\<lambda>n. fresh_id fr (4 + n)) t d = Inr (a, d1)"
    and d2: "identity_CreateTx ev (Some (tenant_ID t)) u d1 = Inr (b, d2)"
    and as: "ra_AssignSystemRoleTx authz_roles ev (Some (tenant_ID t)) (tenant_ID t) (user_ID u) ''owner'' d2 = Inr (x, d')"
    using assms(1) unfolding Register_tx_def Let_def ra by (auto simp: tx_inv)
  have keep: "tenants d' = tenants d2 \<and> users d' = users d2 \<and> roles d' = roles d2"
    using assigner.tx_keeps[OF as] by (metis db.select_convs(1,2,6) db.surjective db.update_convs(9))
  from assigner.tx_grants[OF as] keep tenancy_CreateTx_slug[OF d1 t] identity_CreateTx_Inr[OF d2]
  show ?thesis by (auto simp: rls_def)
qed

section \<open>Credentials of a request\<close>

lemma ValidateCredentialState_Inr:
  "ValidateCredentialState ev t i w = (Inr x, w') \<Longrightarrow> w' = w \<and> credential_active (Some t) (store w) t i \<and> i \<noteq> uuid_nil"
  unfolding ValidateCredentialState_def by (auto simp: tx_inv dest!: WithTenantTxID_ok)

lemma RequireAuth_Inr:
  assumes "RequireAuth ev secret (Some ValidateCredentialState) c w = (Inr c', w')"
    and "\<not> already_authenticated c"
  shows "\<exists>tok u t r. bearer_token c = Inr tok \<and> jwt_parse ev secret (now ev) tok = Some (u, t, r)
    \<and> (FromGinContext c = None \<or> fst (the (FromGinContext c)) \<in> {uuid_nil, t})
    \<and> ctx_tenant c' = Some t \<and> keys c' CtxUserID = Some (VUuid u) \<and> keys c' CtxTenantID = Some (VUuid t)
    \<and> keys c' CtxRole = Some (VString r)
    \<and> credential_active (Some t) (store w) t u \<and> w' = w"
proof -
  obtain tok where tok: "bearer_token c = Inr tok"
    using assms by (cases "bearer_token c") (auto simp: RequireAuth_def)
  obtain u t r where p: "ParseAccessToken ev secret tok = Some (u, t, r)"
    using assms tok by (cases "ParseAccessToken ev secret tok") (auto simp: RequireAuth_def)
  obtain c1 where c1: "OverrideFromCredential c t = Inr c1"
    using assms tok p by (cases "OverrideFromCredential c t") (auto simp: RequireAuth_def)
  have "op_try (ValidateCredentialState ev t u)
      (\<lambda>e. if errors_is e ErrTenantInactive \<or> errors_is e ErrUserInactive
           then abort c1 CodeForbidden ''account or organization is not active''
           else abort c1 CodeInternal ''failed to validate credential state'')
      (\<lambda>_. op_return (set_claims u t r c1)) w = (Inr c', w')"
    using assms tok p c1 by (simp add: RequireAuth_def)
  then obtain x where v: "ValidateCredentialState ev t u w = (Inr x, w')" and c': "c' = set_claims u t r c1"
    by (auto simp: op_try_eq split: if_splits)
  note o = OverrideFromCredential_Inr[OF c1]
  have "FromGinContext c = None \<or> fst (the (FromGinContext c)) \<in> {uuid_nil, t}"
    using o by (cases "FromGinContext c") auto
  then show ?thesis
    using tok p o ValidateCredentialState_Inr[OF v] c'
    by (auto simp: ParseAccessToken_def set_claims_def ctx_set_def CtxUserID_def CtxTenantID_def CtxRole_def CtxAuthenticated_def)
qed

section \<open>Verification tokens are never stored\<close>

lemma CreateVerificationToken_nil_tenant:
  assumes "vt_TenantID v = uuid_nil" "t \<noteq> uuid_nil"
  shows "\<exists>e. CreateVerificationToken ev t v w = (Inl e, w)"
proof (cases "CreateVerificationToken ev t v w")
  case (Pair r w')
  show ?thesis
  proof (cases r)
    case (Inl e)
    with Pair have m: "CreateVerificationToken ev t v w = (Inl e, w')" by simp
    have "w' = w" using m WithTenantTxID_rollback unfolding CreateVerificationToken_def by blast
    with m show ?thesis by blast
  next
    case (Inr a)
    with Pair have "CreateVerificationToken ev t v w = (Inr a, w')" by simp
    then show ?thesis using assms unfolding CreateVerificationToken_def
      by (auto simp: tx_inv insert_verification_token_def insert_check_None rls_def dest!: WithTenantTxID_ok)
  qed
qed

lemma run_stmt_reads: "reads_only m \<Longrightarrow> run_stmt ev l m w = (r, w') \<Longrightarrow> w' = w"
  by (auto simp: run_stmt_def stmt_Inr split: sum.splits dest: reads_onlyD)

lemma FindBySlug_reads: "tenancy_FindBySlug ev slug w = (r, w') \<Longrightarrow> w' = w"
  unfolding tenancy_FindBySlug_def by (auto simp: op_map_err_eq dest: run_stmt_reads[OF reads_only_take])

lemma FindByEmailInTenant_reads: "FindByEmailInTenant ev c email w = (r, w') \<Longrightarrow> w' = w"
  unfolding FindByEmailInTenant_def
  by (rule WithTenantTx_reads[rotated]) (auto intro!: reads_only_map_err reads_only_stmt)

lemma identity_FindByID_reads: "identity_FindByID ev c i w = (r, w') \<Longrightarrow> w' = w"
  unfolding identity_FindByID_def
  by (rule WithTenantTx_reads[rotated]) (auto intro!: reads_only_map_err reads_only_stmt)

text \<open>Storing a token without a tenant changes nothing, whatever follows.\<close>

lemma store_nil_token:
  assumes "t \<noteq> uuid_nil"
  shows "\<exists>e. op_try (CreateVerificationToken ev t (new_verification_token ev fr u p b ttl))
     (\<lambda>e. op_fail (g e)) k w = (Inl e, w)"
proof -
  have "vt_TenantID (new_verification_token ev fr u p b ttl) = uuid_nil" by (simp add: new_verification_token_def)
  from CreateVerificationToken_nil_tenant[OF this assms] obtain e
    where "CreateVerificationToken ev t (new_verification_token ev fr u p b ttl) w = (Inl e, w)" by blast
  then show ?thesis by (simp add: op_try_def op_fail_def)
qed

definition harmless :: "world \<Rightarrow> (world, err, 'a) op \<Rightarrow> bool" where
  "harmless w m \<longleftrightarrow> snd (m w) = w"

lemma harmless_try:
  "(\<And>r w'. m w = (r, w') \<Longrightarrow> w' = w) \<Longrightarrow> (\<And>e. harmless w (h e)) \<Longrightarrow> (\<And>a. fst (m w) = Inr a \<Longrightarrow> harmless w (k a))
     \<Longrightarrow> harmless w (op_try m h k)"
  by (cases "m w") (auto simp: harmless_def op_try_def split: sum.splits)

lemma harmless_atoms [simp]: "harmless w (op_return a)" "harmless w (op_fail e)"
  by (simp_all add: harmless_def op_return_def op_fail_def)

lemma harmless_store_nil:
  "t \<noteq> uuid_nil \<Longrightarrow> harmless w (op_try (CreateVerificationToken ev t (new_verification_token ev fr u p b ttl))
     (\<lambda>e. op_fail (g e)) k)"
  unfolding harmless_def using store_nil_token[of t ev fr u p b ttl g k w] by auto

lemma harmless_if: "harmless w m \<Longrightarrow> harmless w n \<Longrightarrow> harmless w (if b then m else n)"
  by simp

lemma RequestPasswordReset_harmless:
  assumes "\<forall>t\<in>set (tenants (store w)). tenant_ID t \<noteq> uuid_nil"
  shows "harmless w (RequestPasswordReset ev s fr req)"
  unfolding RequestPasswordReset_def
proof (rule harmless_try)
  fix t assume "fst (tenancy_FindBySlug ev (fp_TenantSlug req) w) = Inr t"
  then have "tenant_ID t \<noteq> uuid_nil" using tenancy_FindBySlug_Inr assms by (metis prod.collapse)
  then show "harmless w (if tenant_Status t \<noteq> ''active'' then op_return () else
     op_try (FindByEmailInTenant ev (Some (tenant_ID t)) (fp_Email req)) (\<lambda>e. op_return ()) (\<lambda>u.
     if user_Status u = ''disabled'' then op_return () else
     op_try (op_lift (GenerateOpaqueToken ev fr))
       (\<lambda>e. op_fail (Wrap CodeInternal ''failed to generate reset token'' e)) (\<lambda>plain.
     op_try (CreateVerificationToken ev (tenant_ID t) (new_verification_token ev fr (user_ID u)
         PurposePasswordReset plain (ttlOrDefault (PasswordResetTTL (svc_cfg s)) hour)))
       (\<lambda>e. op_fail (Wrap CodeInternal ''failed to store reset token'' e)) (\<lambda>_.
     identity_send s ''password_reset'' (user_Email u) plain))))"
    by (intro harmless_if harmless_try harmless_atoms harmless_store_nil) (auto dest: FindByEmailInTenant_reads)
qed (auto dest: FindBySlug_reads)

lemma RequestEmailVerification_harmless:
  "tenantID \<noteq> uuid_nil \<Longrightarrow> harmless w (RequestEmailVerification ev s fr tenantID userID)"
  unfolding RequestEmailVerification_def
  by (intro harmless_if harmless_try harmless_atoms harmless_store_nil) (auto dest: identity_FindByID_reads)

lemma identity_FindByID_run:
  "(\<And>l. sql_fault ev l = None) \<Longrightarrow> live_user (Some t) (store w) i = Some u \<Longrightarrow>
     identity_FindByID ev (Some t) i w = (Inr u, w)"
  by (simp add: identity_FindByID_def WithTenantTx_run tx_map_err_def take_row_def)

lemma CreateVerificationToken_denied:
  "(\<And>l. sql_fault ev l = None) \<Longrightarrow> t \<noteq> uuid_nil \<Longrightarrow>
     CreateVerificationToken ev t (new_verification_token ev fr u p b ttl) w = (Inl (PgError ''42501''), w)"
  by (simp add: CreateVerificationToken_def WithTenantTxID_run insert_verification_token_def tx_bind_def tx_query_def
      insert_check_def rls_def new_verification_token_def raise_def tx_fail_def)

end
