(* ===== verification/Sample_Identity.thy ===== *)
theory Sample_Identity
  imports Sample Identity_Sessions
begin

text \<open>
  The sample tenant with one login session of Ann (a rotated token and its live successor),
  a password-reset token for her, and an identity service wired to authz.
\<close>

definition demo_rt :: "uuid \<Rightarrow> string \<Rightarrow> uuid option \<Rightarrow> gotime option \<Rightarrow> refresh_token" where
  "demo_rt i h repl rv = \<lparr>rt_ID = i, rt_TenantID = 1, rt_UserID = 10, rt_TokenHash = h, rt_FamilyID = 50,
     rt_ReplacedBy = repl, rt_UserAgent = '''', rt_IPAddress = None, rt_ExpiresAt = 2000 * second,
     rt_RevokedAt = rv, rt_CreatedAt = 0\<rparr>"

definition demo_vt :: verification_token where
  "demo_vt = \<lparr>vt_ID = 60, vt_TenantID = 1, vt_UserID = 10, vt_Purpose = ''password_reset'',
     vt_TokenHash = ''hreset'', vt_ExpiresAt = 2000 * second, vt_UsedAt = None, vt_CreatedAt = 0\<rparr>"

definition demo_session_world :: world where
  "demo_session_world = demo_world\<lparr>store := demo_db
     \<lparr>refresh_tokens := [demo_rt 40 ''hold'' (Some 41) (Some 5), demo_rt 41 ''hcur'' None None],
      verification_tokens := [demo_vt]\<rparr>\<rparr>"

definition demo_svc :: identity_Service where
  "demo_svc = \<lparr>svc_roles = authz_roles, svc_mail = True,
     svc_cfg = \<lparr>JWTSecret = ''k'', AccessTokenTTL = 0, RefreshTokenTTL = 0, PasswordResetTTL = 0, EmailVerificationTTL = 0\<rparr>,
     svc_oauth = \<lparr>GitHubClientID = ''id'', GitHubClientSecret = ''cs'', GitHubRedirectURL = ''u'', StateSecret = ''k''\<rparr>\<rparr>"

lemma demo_svc_roles [simp]: "svc_roles demo_svc = authz_roles"
  by (simp add: demo_svc_def)

lemma demo_env_sha [simp]: "sha256_hex demo_env = (\<lambda>s. ''h'' @ s)"
  by (simp add: demo_env_def)

lemma demo_env_no_fault [simp]: "sql_fault demo_env l = None"
  by (simp add: demo_env_def)

end
