(* ===== verification/Identity_Props.thy ===== *)
theory Identity_Props
  imports Identity_Facts Sample_Identity
begin

text \<open>
  The properties of the identity module, each with a witness on the sample tenant.
\<close>

section \<open>Sessions\<close>

lemma demo_tokens_ok: "tokens_ok (toks demo_session_world)"
  by code_simp

text \<open>Ann's live token is used once.\<close>

definition demo_refreshed :: "(err + TokenPair) \<times> world" where
  "demo_refreshed = Refresh demo_env demo_svc demo_fresh ''cur'' demo_session_world"

lemma demo_refresh_ok: "\<exists>tp. demo_refreshed = (Inr tp, snd demo_refreshed) \<and> length (toks (snd demo_refreshed)) = 3"
proof -
  have "(case fst demo_refreshed of Inl e \<Rightarrow> False | Inr tp \<Rightarrow> True) \<and> length (toks (snd demo_refreshed)) = 3"
    unfolding demo_refreshed_def by code_simp
  then show ?thesis by (cases "fst demo_refreshed") (auto simp: prod_eq_iff)
qed

lemma demo_session_step: "session_steps (\<lambda>s. ''h'' @ s) demo_session_world (snd demo_refreshed)"
  unfolding demo_refreshed_def
  by (rule r_into_rtranclp, rule session_step.refresh[of demo_svc demo_env, OF _ _ prod.collapse[symmetric]]) simp_all

text \<open>C6: from a consistent token table, no history of calls to the service, by any clients with any
  inputs, clocks and driver failures, makes two refresh tokens of one family usable at once, gives a
  family to two users or tenants, or leaves a replaced token unrevoked.\<close>

theorem one_live_token_per_family:
  assumes "session_steps H w w'" and "tokens_ok (toks w)"
  shows "tokens_ok (toks w')"
  using token_steps_ok[OF session_steps_refine] assms by blast

theorem one_live_token_per_family_witness: "tokens_ok (toks (snd demo_refreshed)) \<and> length (toks (snd demo_refreshed)) = 3"
  using one_live_token_per_family[OF demo_session_step demo_tokens_ok] demo_refresh_ok by blast

text \<open>C7: a refresh token works once: after a successful refresh, however the history goes on, the
  same token is never accepted again.\<close>

theorem refresh_single_use:
  assumes "Refresh ev s fr tok w = (Inr tp, w1)" and "svc_roles s = authz_roles" and "tokens_ok (toks w)"
    and "session_steps (sha256_hex ev) w1 w2" and "sha256_hex ev' = sha256_hex ev" and "svc_roles s' = authz_roles"
  shows "\<exists>e. fst (Refresh ev' s' fr' tok w2) = Inl e"
proof -
  have step: "session_step (sha256_hex ev) w w1" using session_step.refresh[OF assms(2) refl assms(1)] .
  have ok1: "tokens_ok (toks w1)" using token_steps_ok[OF session_step_refines[OF step assms(3)] assms(3)] .
  have st: "token_steps (toks w1) (toks w2)" using session_steps_refine[OF assms(4) ok1] .
  obtain r where r: "r \<in> set (toks w1)" "rt_TokenHash r = sha256_hex ev tok" "\<not> live_token r"
    using Refresh_kills[OF assms(1,2,3)] by blast
  obtain r' where "r' \<in> set (toks w2)" "later_row r r'"
    using token_steps_le[OF st] r(1) by (auto simp: tokens_le_def)
  then have "r' \<in> set (toks w2)" "\<not> live_token r'" "rt_TokenHash r' = sha256_hex ev' tok"
    using r(2,3) assms(5) by (auto simp: later_row_def)
  then show ?thesis using dead_token_refused[OF token_steps_ok[OF st ok1] _ _ _ assms(6)] by blast
qed

theorem refresh_single_use_witness:
  "\<exists>e. fst (Refresh demo_env demo_svc demo_fresh ''cur'' (snd demo_refreshed)) = Inl e"
proof -
  obtain tp where "Refresh demo_env demo_svc demo_fresh ''cur'' demo_session_world = (Inr tp, snd demo_refreshed)"
    using demo_refresh_ok unfolding demo_refreshed_def by auto
  from refresh_single_use[OF this] show ?thesis using demo_tokens_ok by simp
qed

text \<open>C8: presenting a revoked refresh token (a replayed one) of an active user, with no driver failure,
  is answered 401 and leaves the whole family without a usable token.\<close>

theorem replay_revokes_family:
  assumes "\<And>l. sql_fault ev l = None" and "tokens_ok (toks w)" and "r \<in> set (toks w)" and "\<not> live_token r"
    and "rt_TokenHash r = sha256_hex ev tok" and "rt_ID r \<noteq> uuid_nil" and "fresh_bytes fr \<noteq> None"
    and "active_credential (Some (rt_TenantID r)) (store w) (rt_TenantID r) (rt_UserID r) u"
  shows "fst (Refresh ev s fr tok w) = Inl (New CodeUnauthorized ''refresh token has been revoked'')
    \<and> family_dead (rt_FamilyID r) (toks (snd (Refresh ev s fr tok w)))"
  using Refresh_replay[OF assms, of s] revoke_family_dead[OF assms(2,3)] by simp

theorem replay_revokes_family_witness:
  "family_dead 50 (toks (snd (Refresh demo_env demo_svc demo_fresh ''old'' demo_session_world)))"
proof -
  have "demo_rt 40 ''hold'' (Some 41) (Some 5) \<in> set (toks demo_session_world)"
    "active_credential (Some 1) (store demo_session_world) 1 10 (demo_user 10 ''ann@x'')"
    by (simp_all add: active_credential_def live_user_def select_first_def demo_session_world_def demo_defs rls_def)
  then show ?thesis
    using replay_revokes_family[of demo_env demo_session_world "demo_rt 40 ''hold'' (Some 41) (Some 5)" "''old''" demo_fresh]
      demo_tokens_ok by (simp add: demo_rt_def live_token_def demo_fresh_def)
qed

text \<open>C9: logging out with a known token, with no driver failure, ends the session: however the history
  goes on, no token of that family is ever accepted again.\<close>

theorem logout_ends_session:
  assumes "\<And>l. sql_fault ev l = None" and "tokens_ok (toks w)" and "r \<in> set (toks w)"
    and "rt_TokenHash r = sha256_hex ev tok" and "rt_ID r \<noteq> uuid_nil"
    and "session_steps (sha256_hex ev) (snd (Logout ev tok w)) w2"
    and "q \<in> set (toks w2)" and "rt_FamilyID q = rt_FamilyID r" and "rt_TokenHash q = sha256_hex ev' tok'"
    and "svc_roles s = authz_roles"
  shows "\<exists>e. fst (Refresh ev' s fr tok' w2) = Inl e"
proof -
  let ?w1 = "snd (Logout ev tok w)"
  have dead: "family_dead (rt_FamilyID r) (toks ?w1)"
    using Logout_run[OF assms(1-5)] revoke_family_dead[OF assms(2,3)] by simp
  have "session_step (sha256_hex ev) w ?w1"
    using session_step.logout[OF refl, of ev tok w "fst (Logout ev tok w)" ?w1] by simp
  then have ok1: "tokens_ok (toks ?w1)" using token_steps_ok[OF session_step_refines] assms(2) by blast
  have st: "token_steps (toks ?w1) (toks w2)" using session_steps_refine[OF assms(6) ok1] .
  show ?thesis
    using dead_family_refused[OF token_steps_ok[OF st ok1] token_steps_dead[OF st dead] assms(7,8,9,10)] .
qed

theorem logout_ends_session_witness:
  "\<exists>e. fst (Refresh demo_env demo_svc demo_fresh ''cur'' (snd (Logout demo_env ''cur'' demo_session_world))) = Inl e"
proof -
  let ?w2 = "snd (Logout demo_env ''cur'' demo_session_world)"
  have r: "demo_rt 41 ''hcur'' None None \<in> set (toks demo_session_world)" by (simp add: demo_session_world_def)
  have "demo_rt 41 ''hcur'' None (Some (now demo_env)) \<in> set (toks ?w2)" by code_simp
  from logout_ends_session[OF _ demo_tokens_ok r _ _ rtranclp.rtrancl_refl this, where ev' = demo_env and tok' = "''cur''" and s = demo_svc]
  show ?thesis by (simp add: demo_rt_def)
qed

section \<open>Password reset\<close>

lemma update_rows_row:
  "q \<in> set (update_rows sess ten P f rows) \<Longrightarrow> \<exists>p\<in>set rows. q = (if rls sess ten p \<and> P p then f p else p)"
  by (auto simp: update_rows_def)

text \<open>A password reset that succeeds was made with an unused, unexpired reset token; it sets the
  account's password to the new one, uses the token up, and revokes every refresh token of the
  account.\<close>

theorem ResetPassword_effect:
  assumes "ResetPassword ev req w = (Inr (), w')" and "distinct (map vt_ID (verification_tokens (store w)))"
  shows "\<exists>v\<in>set (verification_tokens (store w)). vt_TokenHash v = sha256_hex ev (rst_Token req)
    \<and> vt_Purpose v = PurposePasswordReset \<and> vt_UsedAt v = None \<and> now ev < vt_ExpiresAt v
    \<and> (\<forall>u\<in>set (users (store w')). user_ID u = vt_UserID v \<and> user_TenantID u = vt_TenantID v
         \<and> user_DeletedAt u = None \<longrightarrow> user_PasswordHash u = bcrypt ev (rst_NewPassword req))
    \<and> (\<forall>r\<in>set (toks w'). rt_UserID r = vt_UserID v \<and> rt_TenantID r = vt_TenantID v \<longrightarrow> \<not> live_token r)
    \<and> (\<forall>v'\<in>set (verification_tokens (store w')). vt_ID v' = vt_ID v \<and> vt_TenantID v' = vt_TenantID v
         \<longrightarrow> vt_UsedAt v' \<noteq> None)"
proof -
  obtain v h where v: "List.find (\<lambda>q. vt_TokenHash q = sha256_hex ev (rst_Token req)) (verification_tokens (store w)) = Some v"
    and h: "bcrypt ev (rst_NewPassword req) = Some h"
    and c: "ConsumePasswordReset ev (vt_TenantID v) (vt_ID v) (vt_UserID v) h w = (Inr (), w')"
    using ResetPassword_Inr[OF assms(1)] by blast
  let ?S = "Some (vt_TenantID v)"
  obtain v0 where v0: "token_by_id ?S (store w) (vt_ID v) = Some v0" "vt_UserID v0 = vt_UserID v"
      "vt_Purpose v0 = PurposePasswordReset" "vt_UsedAt v0 = None" "now ev < vt_ExpiresAt v0"
    and w': "w' = w\<lparr>store := revoke_tokens ev ?S (\<lambda>r. rt_UserID r = vt_UserID v)
        (set_password ev ?S (vt_UserID v) h (mark_used ev ?S (vt_ID v) (store w)))\<rparr>"
    using ConsumePasswordReset_Inr[OF c] by blast

  have "v0 = v"
    using assms(2) find_SomeD[OF v] select_first_SomeD[OF v0(1)[unfolded token_by_id_def]]
    by (auto simp: distinct_map inj_on_def)
  have "user_PasswordHash u = bcrypt ev (rst_NewPassword req)"
    if "u \<in> set (users (store w'))" "user_ID u = vt_UserID v" "user_TenantID u = vt_TenantID v" "user_DeletedAt u = None" for u
    using that h unfolding w' by (auto simp: revoke_tokens_def set_password_def rls_def dest!: update_rows_row split: if_splits)
  moreover have "\<not> live_token r"
    if "r \<in> set (toks w')" "rt_UserID r = vt_UserID v" "rt_TenantID r = vt_TenantID v" for r
    using that unfolding w' by (auto simp: revoke_tokens_def rls_def live_token_def dest!: update_rows_row split: if_splits)
  moreover have "vt_UsedAt q \<noteq> None"
    if "q \<in> set (verification_tokens (store w'))" "vt_ID q = vt_ID v" "vt_TenantID q = vt_TenantID v" for q
    using that unfolding w' by (auto simp: revoke_tokens_def set_password_def mark_used_def rls_def dest!: update_rows_row split: if_splits)
  ultimately show ?thesis using find_SomeD[OF v] v0(3,4,5) unfolding \<open>v0 = v\<close> by blast
qed

theorem ResetPassword_effect_witness:
  "filter (\<lambda>r. rt_UserID r = 10 \<and> rt_TenantID r = 1 \<and> live_token r)
     (toks (snd (ResetPassword demo_env \<lparr>rst_Token = ''reset'', rst_NewPassword = ''new''\<rparr> demo_session_world))) = []"
proof -
  let ?req = "\<lparr>rst_Token = ''reset'', rst_NewPassword = ''new''\<rparr>"
  have "fst (ResetPassword demo_env ?req demo_session_world) = Inr ()" by code_simp
  then have "ResetPassword demo_env ?req demo_session_world = (Inr (), snd (ResetPassword demo_env ?req demo_session_world))"
    by (simp add: prod_eq_iff)
  from ResetPassword_effect[OF this] show ?thesis
    by (auto simp: demo_session_world_def demo_vt_def filter_empty_conv)
qed

section \<open>Login\<close>

text \<open>C10: a login that issues tokens checked the password of one live, enabled account of an active
  organization (in the named tenant, or the only account with that address anywhere), and opened
  exactly one session, for that account.\<close>

theorem Login_sound:
  assumes "Login ev s fr req w = (Inr resp, w')" and "lr_Tokens resp = Some tp" and "svc_roles s = authz_roles"
  shows "\<exists>u\<in>set (users (store w)). \<exists>t\<in>set (tenants (store w)). \<exists>h row. user_DeletedAt u = None
    \<and> citext ev (user_Email u) = citext ev (login_Email req)
    \<and> user_PasswordHash u = Some h \<and> CheckPassword ev h (login_Password req) \<and> user_Status u \<noteq> ''disabled''
    \<and> tenant_ID t = user_TenantID u \<and> tenant_Status t = ''active'' \<and> tenant_DeletedAt t = None
    \<and> toks w' = toks w @ [row] \<and> rt_UserID row = user_ID u \<and> rt_TenantID row = user_TenantID u
    \<and> rt_TokenHash row = sha256_hex ev (RefreshToken tp) \<and> live_token row"
proof -
  obtain u h t where c: "login_candidate ev req w = (Inr (Candidate u), w)" and u: "user_PasswordHash u = Some h"
     "CheckPassword ev h (login_Password req)" "user_Status u \<noteq> ''disabled''" "t \<in> set (tenants (store w))"
     "tenant_ID t = user_TenantID u" "tenant_Status t = ''active''" "tenant_DeletedAt t = None"
    and k: "login_checked ev s fr u w = (Inr resp, w')"
    using Login_Inr[OF assms(1)] assms(2) by auto
  let ?u = "u\<lparr>user_LastLoginAt := Some (now ev)\<rparr>"
  obtain rs w1 where rs: "role_or_member ev s (user_TenantID u) (user_ID u) w = (Inr rs, w1)"
    and i: "issueTokenPair ev s fr (user_TenantID u) ?u rs (snd (identity_Update ev (Some (user_TenantID u)) ?u w1)) = (Inr tp, w')"
    using k assms(2) unfolding login_checked_def op_bind_Inr op_ignore_eq Let_def by auto
  have "toks w1 = toks w" using quietD[OF assigner.quiet_role_or_member[OF assms(3)] rs] .
  moreover have "toks (snd (identity_Update ev (Some (user_TenantID u)) ?u w1)) = toks w1"
    using quiet_writes(2) unfolding quiet_def by blast
  moreover obtain row where row: "newRefreshTokenRow ev s fr (user_TenantID u) (user_ID ?u) (fresh_id fr 1) = Inr (RefreshToken tp, row)"
    "toks w' = toks (snd (identity_Update ev (Some (user_TenantID u)) ?u w1)) @ [row]"
    using issueTokenPair_Inr[OF i] by auto
  ultimately have "toks w' = toks w @ [row]" by simp
  with login_candidate_Inr[OF c] u newRefreshTokenRow_Inr[OF row(1)] show ?thesis by fastforce
qed

theorem Login_sound_witness:
  "\<exists>u\<in>set (users demo_db). \<exists>h. user_PasswordHash u = Some h \<and> CheckPassword demo_env h ''pw''"
proof -
  let ?r = "Login demo_env demo_svc demo_fresh \<lparr>login_Email = ''ann@x'', login_Password = ''pw'', login_TenantSlug = ''acme''\<rparr> demo_world"
  have "(case fst ?r of Inl e \<Rightarrow> False | Inr resp \<Rightarrow> lr_Tokens resp \<noteq> None)" by code_simp
  then obtain resp tp where "?r = (Inr resp, snd ?r)" "lr_Tokens resp = Some tp"
    by (cases "fst ?r") (auto simp: prod_eq_iff)
  from Login_sound[OF this] show ?thesis by (auto simp: demo_world_def)
qed

text \<open>When no tenant is named and the address has several accounts, the tenants' slugs and names are
  answered to anyone: the answer is the same whatever password was given.\<close>

theorem Login_ambiguous_ignores_password:
  assumes "Login ev s fr req w = (Inr resp, w')" and "lr_Tokens resp = None"
  shows "Login ev s fr (req\<lparr>login_Password := p\<rparr>) w = (Inr resp, w')"
proof -
  have c: "login_candidate ev (req\<lparr>login_Password := p\<rparr>) = login_candidate ev req"
    by (simp add: login_candidate_def)
  obtain cand w1 where cand: "login_candidate ev req w = (Inr cand, w1)"
    using assms(1) unfolding Login_def op_bind_Inr by blast
  show ?thesis
  proof (cases cand)
    case (Ambiguous cs)
    then show ?thesis using assms(1) cand by (simp add: Login_def c op_bind_def op_try_def)
  next
    case (Candidate u)
    then show ?thesis using assms cand
      by (auto simp: Login_def op_bind_def op_try_def op_fail_def op_return_def login_checked_def Let_def op_ignore_def
          split: option.splits if_splits prod.splits sum.splits)
  qed
qed

text \<open>Ann with an account in each of two organizations.\<close>

definition demo_two_orgs :: world where
  "demo_two_orgs = demo_world\<lparr>store := demo_db\<lparr>
     tenants := [demo_tenant, demo_tenant\<lparr>tenant_ID := 2, tenant_Slug := ''beta'', tenant_Name := ''Beta''\<rparr>],
     users := [demo_user 10 ''ann@x'', (demo_user 70 ''ann@x'')\<lparr>user_TenantID := 2\<rparr>]\<rparr>\<rparr>"

theorem Login_ambiguous_ignores_password_witness:
  "fst (Login demo_env demo_svc demo_fresh
     \<lparr>login_Email = ''ann@x'', login_Password = ''any guess'', login_TenantSlug = ''''\<rparr> demo_two_orgs)
   = Inr \<lparr>lr_User = None, lr_Tokens = None, lr_AmbiguousTenants = [(''acme'', ''Acme''), (''beta'', ''Beta'')]\<rparr>"
proof -
  let ?q = "\<lparr>login_Email = ''ann@x'', login_Password = ''pw'', login_TenantSlug = ''''\<rparr>"
  let ?l = "\<lparr>lr_User = None, lr_Tokens = None, lr_AmbiguousTenants = [(''acme'', ''Acme''), (''beta'', ''Beta'')]\<rparr>"
  have "fst (Login demo_env demo_svc demo_fresh ?q demo_two_orgs) = Inr ?l" by code_simp
  then have "Login demo_env demo_svc demo_fresh ?q demo_two_orgs = (Inr ?l, snd (Login demo_env demo_svc demo_fresh ?q demo_two_orgs))"
    by (simp add: prod_eq_iff)
  from Login_ambiguous_ignores_password[OF this, of "''any guess''"] show ?thesis by simp
qed

section \<open>Registration\<close>

text \<open>A registration that succeeds has created one organization, whose slug no live organization
  had, and one account in it, which holds the organization's Owner role and the one new session.\<close>

theorem Register_effect:
  assumes "Register ev s fr req w = (Inr resp, w')" and "svc_roles s = authz_roles"
  shows "\<exists>t u row. tenants (store w') = tenants (store w) @ [t] \<and> users (store w') = users (store w) @ [u]
    \<and> tenant_ID t = rr_TenantID resp \<and> tenant_Slug t = reg_TenantSlug req \<and> tenant_Status t = ''active''
    \<and> (\<forall>q\<in>set (tenants (store w)). tenant_DeletedAt q = None \<longrightarrow>
         citext ev (tenant_Slug q) \<noteq> citext ev (reg_TenantSlug req))
    \<and> user_TenantID u = tenant_ID t \<and> user_Email u = reg_Email req
    \<and> user_PasswordHash u = bcrypt ev (reg_Password req)
    \<and> (\<exists>r\<in>set (roles (store w')). role_TenantID r = tenant_ID t \<and> role_Slug r = ''owner''
         \<and> (\<exists>g\<in>set (user_roles (store w')). ur_UserID g = user_ID u \<and> ur_RoleID g = role_ID r))
    \<and> refresh_tokens (store w') = refresh_tokens (store w) @ [row] \<and> rt_UserID row = user_ID u
    \<and> rt_TokenHash row = sha256_hex ev (RefreshToken (rr_Tokens resp))"
proof -
  obtain h where h: "bcrypt ev (reg_Password req) = Some h"
    using assms(1) by (auto simp: Register_def HashPassword_def op_try_def op_lift_def op_fail_def split: option.splits)
  let ?t = "new_tenant ev fr req" and ?u = "new_owner ev fr req h"
  have "op_try (run_tx ev ''Register'' (Register_tx ev s fr ?t ?u)) (\<lambda>e. op_fail (Register_error e)) (\<lambda>_.
     op_bind (issueTokenPair ev s fr (tenant_ID ?t) ?u ''owner'') (\<lambda>tokens.
     op_return \<lparr>rr_TenantID = tenant_ID ?t, rr_TenantSlug = tenant_Slug ?t,
                rr_User = ToUserResponse ?u, rr_Tokens = tokens\<rparr>)) w = (Inr resp, w')"
    using assms(1) h by (simp add: Register_def HashPassword_def op_try_def op_lift_def Let_def)
  from op_try_fail_Inr[OF this] obtain x w1 tp where tx: "run_tx ev ''Register'' (Register_tx ev s fr ?t ?u) w = (Inr x, w1)"
    and i: "issueTokenPair ev s fr (tenant_ID ?t) ?u ''owner'' w1 = (Inr tp, w')"
    and resp: "rr_TenantID resp = tenant_ID ?t" "rr_Tokens resp = tp"
    by (auto simp: op_bind_Inr)
  from run_tx_ok[OF tx] obtain d where d: "Register_tx ev s fr ?t ?u (store w) = Inr (x, d)" "w1 = w\<lparr>store := d\<rparr>" by blast
  have del: "tenant_DeletedAt ?t = None" by (simp add: new_tenant_def)
  note facts = Register_tx_Inr[OF d(1) assms(2) del]
  have q: "refresh_tokens d = refresh_tokens (store w)"
  proof -
    have "tx_quiet (Register_tx ev s fr ?t ?u)" unfolding Register_tx_def Let_def identity_CreateTx_def assms(2)
      by (intro quiet_intros assigner.tx_quiet_assign)
    then show ?thesis using d(1) unfolding tx_quiet_def by blast
  qed
  from issueTokenPair_Inr[OF i] d(2) obtain row where
    row: "newRefreshTokenRow ev s fr (tenant_ID ?t) (user_ID ?u) (fresh_id fr 1) = Inr (RefreshToken tp, row)"
    and w': "w' = w\<lparr>store := d\<lparr>refresh_tokens := refresh_tokens d @ [row]\<rparr>\<rparr>" by auto
  have nt: "tenant_Slug ?t = reg_TenantSlug req" "tenant_Status ?t = ''active''" "user_Email ?u = reg_Email req"
    "user_PasswordHash ?u = bcrypt ev (reg_Password req)" by (simp_all add: new_tenant_def new_owner_def h)
  show ?thesis
    using facts nt newRefreshTokenRow_Inr[OF row] resp q unfolding w'
    by (intro exI[of _ ?t] exI[of _ ?u] exI[of _ row]) auto
qed

definition demo_reg :: RegisterRequest where
  "demo_reg = \<lparr>reg_TenantName = ''New'', reg_TenantSlug = ''newco'', reg_Email = ''eve@x'',
     reg_Password = ''pw'', reg_FullName = ''Eve''\<rparr>"

theorem Register_effect_witness:
  "length (tenants (store (snd (Register demo_env demo_svc demo_fresh demo_reg demo_world)))) = 2"
proof -
  let ?r = "Register demo_env demo_svc demo_fresh demo_reg demo_world"
  have "(case fst ?r of Inl e \<Rightarrow> False | Inr resp \<Rightarrow> True)" by code_simp
  then obtain resp where "?r = (Inr resp, snd ?r)" by (cases "fst ?r") (auto simp: prod_eq_iff)
  from Register_effect[OF this] show ?thesis by (auto simp: demo_world_def demo_db_def)
qed

section \<open>Authenticated requests\<close>

text \<open>A request that RequireAuth lets through on a bearer token carries the identity, tenant and
  role of a valid token, its tenant-scoped statements run in the token's tenant, and the database
  says at that moment that the account and the organization are live and active.\<close>

theorem RequireAuth_sound:
  assumes "RequireAuth ev secret (Some ValidateCredentialState) c w = (Inr c', w')"
    and "\<not> already_authenticated c"
  shows "\<exists>tok u t r. bearer_token c = Inr tok \<and> jwt_parse ev secret (now ev) tok = Some (u, t, r)
    \<and> (FromGinContext c = None \<or> fst (the (FromGinContext c)) \<in> {uuid_nil, t})
    \<and> ctx_tenant c' = Some t \<and> keys c' CtxUserID = Some (VUuid u) \<and> keys c' CtxTenantID = Some (VUuid t)
    \<and> keys c' CtxRole = Some (VString r)
    \<and> credential_active (Some t) (store w) t u \<and> w' = w"
  using assms by (rule RequireAuth_Inr)

definition demo_request :: gctx where
  "demo_request = \<lparr>keys = \<lambda>_. None, ctx_tenant = None,
     GetHeader = (\<lambda>h. if h = ''Authorization'' then ''bearer jwtowner'' else ''''), HeaderValues = \<lambda>_. [],
     Query = \<lambda>_. '''', Param = \<lambda>_. '''', Host = ''localhost'', ClientIP = '''', UserAgent = ''''\<rparr>"

theorem RequireAuth_sound_witness: "credential_active (Some 1) (store demo_world) 1 10"
proof -
  let ?r = "RequireAuth demo_env ''k'' (Some ValidateCredentialState) demo_request demo_world"
  have "(case fst ?r of Inl e \<Rightarrow> False | Inr c' \<Rightarrow> True)" by code_simp
  then obtain c' where r: "?r = (Inr c', snd ?r)" by (cases "fst ?r") (auto simp: prod_eq_iff)
  have n: "\<not> already_authenticated demo_request" by code_simp
  have "bearer_token demo_request = Inr ''jwtowner''" by code_simp
  then show ?thesis using RequireAuth_sound[OF r n] by (auto simp: demo_env_def)
qed

section \<open>Verification mail\<close>

text \<open>C11: the rows RequestPasswordReset and RequestEmailVerification build carry no tenant, so the row
  level policy refuses every one of them: no call stores a token or sends a mail, it changes nothing at
  all, and a verification request of an existing unverified user ends in an internal error.\<close>

theorem no_verification_token_is_stored:
  assumes "\<forall>t\<in>set (tenants (store w)). tenant_ID t \<noteq> uuid_nil" and "tenantID \<noteq> uuid_nil"
  shows "snd (RequestPasswordReset ev s fr req w) = w \<and> snd (RequestEmailVerification ev s fr tenantID userID w) = w
    \<and> ((\<forall>l. sql_fault ev l = None) \<and> fresh_bytes fr \<noteq> None \<and>
       (\<exists>u. live_user (Some tenantID) (store w) userID = Some u \<and> user_EmailVerifiedAt u = None) \<longrightarrow>
       fst (RequestEmailVerification ev s fr tenantID userID w)
         = Inl (Wrap CodeInternal ''failed to store verification token'' (PgError ''42501'')))"
proof -
  have "fst (RequestEmailVerification ev s fr tenantID userID w)
         = Inl (Wrap CodeInternal ''failed to store verification token'' (PgError ''42501''))"
    if "\<forall>l. sql_fault ev l = None" "fresh_bytes fr \<noteq> None"
      "live_user (Some tenantID) (store w) userID = Some u" "user_EmailVerifiedAt u = None" for u
    using that assms(2)
    by (auto simp: RequestEmailVerification_def op_try_def identity_FindByID_run op_lift_def GenerateOpaqueToken_def
        CreateVerificationToken_denied op_fail_def split: option.splits)
  then show ?thesis
    using RequestPasswordReset_harmless[OF assms(1)] RequestEmailVerification_harmless[OF assms(2)]
    by (auto simp: harmless_def)
qed

theorem no_verification_token_is_stored_witness:
  "fst (RequestEmailVerification demo_env demo_svc demo_fresh 1 10 demo_world)
     = Inl (Wrap CodeInternal ''failed to store verification token'' (PgError ''42501''))"
proof -
  have "live_user (Some 1) (store demo_world) 10 = Some (demo_user 10 ''ann@x'')" by code_simp
  moreover have "user_EmailVerifiedAt (demo_user 10 ''ann@x'') = None" by (simp add: demo_user_def)
  moreover have "\<forall>t\<in>set (tenants (store demo_world)). tenant_ID t \<noteq> uuid_nil" by code_simp
  ultimately show ?thesis
    using no_verification_token_is_stored[of demo_world 1 demo_env demo_svc demo_fresh _ 10]
    by (auto simp: demo_fresh_def)
qed

section \<open>The signed OAuth state\<close>

text \<open>A state built for the provider redirect is read back by the callback as it was, for a base64
  alphabet without the separator and codecs that invert.\<close>

theorem OAuthState_roundtrip:
  assumes "\<And>x. base64url_decode ev (base64url ev x) = Some x"
    and "json_state_parse ev (json_state ev st) = Some st"
    and "CHR ''.'' \<notin> set (hmacSign ev (StateSecret (svc_oauth s)) (json_state ev st))"
  shows "decodeOAuthState ev s (encodeOAuthState ev s st) = Inr st"
  using assms by (simp add: decodeOAuthState_def encodeOAuthState_def Let_def index_last_append)

text \<open>The callback accepts a state only when it carries the MAC of its payload under the
  configured secret, and then answers for the tenant and nonce the payload names.\<close>

theorem OAuthState_authentic:
  assumes "decodeOAuthState ev s raw = Inr st"
  shows "\<exists>payload. base64url_decode ev raw =
      Some (payload @ ''.'' @ hmacSign ev (StateSecret (svc_oauth s)) payload)
    \<and> json_state_parse ev payload = Some st"
proof -
  obtain d i where d: "base64url_decode ev raw = Some d" "index_last CHR ''.'' d = Some i"
    and ok: "hmacSign ev (StateSecret (svc_oauth s)) (take i d) = drop (i + 1) d"
      "json_state_parse ev (take i d) = Some st"
    using assms by (auto simp: decodeOAuthState_def Let_def split: option.splits if_splits)
  have "d = take i d @ ''.'' @ drop (i + 1) d" using index_last_split[OF d(2)] by simp
  with d(1) ok show ?thesis by metis
qed

theorem OAuthState_roundtrip_witness:
  "decodeOAuthState demo_env demo_svc (encodeOAuthState demo_env demo_svc (''acme'', ''n'')) = Inr (''acme'', ''n'')"
proof (rule OAuthState_roundtrip)
  show "CHR ''.'' \<notin> set (hmacSign demo_env (StateSecret (svc_oauth demo_svc)) (json_state demo_env (''acme'', ''n'')))"
    by code_simp
qed (simp_all add: demo_env_def)

theorem OAuthState_authentic_witness:
  "\<exists>payload. json_state_parse demo_env payload = Some (''acme'', ''n'')"
proof -
  have "decodeOAuthState demo_env demo_svc ''acme|n.mk'' = Inr (''acme'', ''n'')" by code_simp
  from OAuthState_authentic[OF this] show ?thesis by blast
qed

end
