(* ===== verification/Audit_Trail.thy ===== *)
theory Audit_Trail
  imports Identity_Http
begin

text \<open>
  internal/audit: the append-only audit log and the activity feed. \<open>Record\<close> and
  \<open>RecordActivity\<close> return no error: a failed write is logged and dropped. The modules that
  record see audit through their \<open>Recorder\<close> interface, whose contract is the locale
  \<open>recorder\<close>, interpreted here on the code of this module.
\<close>

section \<open>entity.go: action codes, targets and verbs\<close>

definition ActionAPIKeyCreated :: string where "ActionAPIKeyCreated = ''apikey.created''"
definition ActionAPIKeyRevoked :: string where "ActionAPIKeyRevoked = ''apikey.revoked''"
definition ActionUserInvited :: string where "ActionUserInvited = ''user.invited''"
definition ActionInviteRevoked :: string where "ActionInviteRevoked = ''invitation.revoked''"
definition ActionInviteAccepted :: string where "ActionInviteAccepted = ''invitation.accepted''"
definition ActionSubscriptionChange :: string where
  "ActionSubscriptionChange = ''billing.subscription_changed''"

section \<open>repository.go\<close>

definition insert_audit_log :: "session \<Rightarrow> AuditLog \<Rightarrow> (db, err, unit) tx" where
  "insert_audit_log sess r =
     tx_bind (tx_query (\<lambda>d. insert_check (rls sess al_TenantID r) True
        (al_ID r \<notin> al_ID ` set (audit_logs d))
        (al_TenantID r \<in> tenant_ID ` set (tenants d)
         \<and> (case al_ActorID r of None \<Rightarrow> True | Some u \<Rightarrow> u \<in> user_ID ` set (users d)))))
       (\<lambda>chk. tx_bind (raise chk) (\<lambda>_.
     modify (\<lambda>d. d\<lparr>audit_logs := audit_logs d @ [r]\<rparr>)))"

definition insert_activity :: "session \<Rightarrow> ActivityEvent \<Rightarrow> (db, err, unit) tx" where
  "insert_activity sess r =
     tx_bind (tx_query (\<lambda>d. insert_check (rls sess ae_TenantID r) True
        (ae_ID r \<notin> ae_ID ` set (activity_events d))
        (ae_TenantID r \<in> tenant_ID ` set (tenants d)
         \<and> (case ae_ActorID r of None \<Rightarrow> True | Some u \<Rightarrow> u \<in> user_ID ` set (users d)))))
       (\<lambda>chk. tx_bind (raise chk) (\<lambda>_.
     modify (\<lambda>d. d\<lparr>activity_events := activity_events d @ [r]\<rparr>)))"

definition CreateAuditLog :: "env \<Rightarrow> AuditLog \<Rightarrow> (world, err, unit) op" where
  "CreateAuditLog ev r = WithTenantTxID ev ''CreateAuditLog'' (al_TenantID r) (\<lambda>sess.
     tx_map_err (Wrapped ''audit: create audit log'') (stmt ev ''CreateAuditLog.create'' (insert_audit_log sess r)))"

definition CreateActivityEvent :: "env \<Rightarrow> ActivityEvent \<Rightarrow> (world, err, unit) op" where
  "CreateActivityEvent ev r = WithTenantTxID ev ''CreateActivityEvent'' (ae_TenantID r) (\<lambda>sess.
     tx_map_err (Wrapped ''audit: create activity event'')
       (stmt ev ''CreateActivityEvent.create'' (insert_activity sess r)))"

text \<open>The shape of every list query: \<open>Count\<close>, then \<open>Order ... Limit ... Offset ... Find\<close>.\<close>

definition list_page :: "env \<Rightarrow> string \<Rightarrow> session \<Rightarrow> ('r \<Rightarrow> uuid) \<Rightarrow> ('r \<Rightarrow> bool) \<Rightarrow> ('r \<Rightarrow> int)
    \<Rightarrow> (db \<Rightarrow> 'r list) \<Rightarrow> int \<Rightarrow> int \<Rightarrow> (db, err, 'r list \<times> int) tx" where
  "list_page ev l sess ten P key tbl lim offset =
     tx_bind (stmt ev (l @ ''.count'') (tx_query (\<lambda>d. count_rows sess ten P (tbl d)))) (\<lambda>n.
     tx_bind (stmt ev (l @ ''.find'') (tx_query (\<lambda>d.
       page_of lim offset (sort_key key (select_rows sess ten P (tbl d)))))) (\<lambda>rs.
     tx_return (rs, n)))"

record AuditFilter =
  af_ActorID :: "uuid option"
  af_Action :: string
  af_From :: "gotime option"
  af_To :: "gotime option"

text \<open>A NULL \<open>actor_id\<close> equals nothing.\<close>

definition audit_matches :: "AuditFilter \<Rightarrow> AuditLog \<Rightarrow> bool" where
  "audit_matches f r \<longleftrightarrow>
     (case af_ActorID f of None \<Rightarrow> True | Some a \<Rightarrow> al_ActorID r = Some a)
     \<and> (af_Action f = '''' \<or> al_Action r = af_Action f)
     \<and> (case af_From f of None \<Rightarrow> True | Some t \<Rightarrow> al_CreatedAt r \<ge> t)
     \<and> (case af_To f of None \<Rightarrow> True | Some t \<Rightarrow> al_CreatedAt r \<le> t)"

definition audit_repo_ListAuditLogs :: "env \<Rightarrow> ctx \<Rightarrow> AuditFilter \<Rightarrow> int \<Rightarrow> int
    \<Rightarrow> (world, err, AuditLog list \<times> int) op" where
  "audit_repo_ListAuditLogs ev c f lim offset = op_map_err (Wrapped ''audit: list audit logs'')
     (WithTenantTx ev ''ListAuditLogs'' c (\<lambda>sess. list_page ev ''ListAuditLogs'' sess al_TenantID
        (audit_matches f) (\<lambda>r. - al_CreatedAt r) audit_logs lim offset))"

definition activity_matches :: "string \<Rightarrow> uuid option \<Rightarrow> ActivityEvent \<Rightarrow> bool" where
  "activity_matches targetType targetID r \<longleftrightarrow>
     (targetType = '''' \<or> ae_TargetType r = targetType)
     \<and> (case targetID of None \<Rightarrow> True | Some i \<Rightarrow> ae_TargetID r = i)"

definition audit_repo_ListActivity :: "env \<Rightarrow> ctx \<Rightarrow> string \<Rightarrow> uuid option \<Rightarrow> int \<Rightarrow> int
    \<Rightarrow> (world, err, ActivityEvent list \<times> int) op" where
  "audit_repo_ListActivity ev c targetType targetID lim offset = op_map_err (Wrapped ''audit: list activity'')
     (WithTenantTx ev ''ListActivity'' c (\<lambda>sess. list_page ev ''ListActivity'' sess ae_TenantID
        (activity_matches targetType targetID) (\<lambda>r. - ae_CreatedAt r) activity_events lim offset))"

section \<open>service.go\<close>

record Entry =
  en_TenantID :: uuid
  en_ActorID :: "uuid option"
  en_Action :: string
  en_TargetType :: string
  en_TargetID :: "uuid option"
  en_IPAddress :: string
  en_UserAgent :: string
  en_Metadata :: metadata

definition non_empty :: "string \<Rightarrow> string option" where
  "non_empty s = (if s = '''' then None else Some s)"

definition audit_row :: "env \<Rightarrow> uuid \<Rightarrow> Entry \<Rightarrow> AuditLog" where
  "audit_row ev newID e = \<lparr>al_ID = newID, al_TenantID = en_TenantID e, al_ActorID = en_ActorID e,
     al_Action = en_Action e, al_TargetType = non_empty (en_TargetType e),
     al_TargetID = en_TargetID e, al_IPAddress = non_empty (en_IPAddress e),
     al_UserAgent = en_UserAgent e, al_Metadata = en_Metadata e, al_CreatedAt = now ev\<rparr>"

definition audit_Record :: "env \<Rightarrow> uuid \<Rightarrow> Entry \<Rightarrow> world \<Rightarrow> world" where
  "audit_Record ev newID e w = snd (CreateAuditLog ev (audit_row ev newID e) w)"

record ActivityEntry =
  ac_TenantID :: uuid
  ac_ActorID :: "uuid option"
  ac_TargetType :: string
  ac_TargetID :: uuid
  ac_Verb :: string
  ac_Metadata :: metadata

definition RecordActivity :: "env \<Rightarrow> uuid \<Rightarrow> ActivityEntry \<Rightarrow> world \<Rightarrow> world" where
  "RecordActivity ev newID e w = snd (CreateActivityEvent ev
     \<lparr>ae_ID = newID, ae_TenantID = ac_TenantID e, ae_ActorID = ac_ActorID e,
      ae_TargetType = ac_TargetType e, ae_TargetID = ac_TargetID e, ae_Verb = ac_Verb e,
      ae_Metadata = ac_Metadata e, ae_CreatedAt = now ev\<rparr> w)"

definition audit_ListAuditLogs :: "env \<Rightarrow> ctx \<Rightarrow> AuditFilter \<Rightarrow> int \<Rightarrow> int
    \<Rightarrow> (world, err, AuditLog list \<times> int) op" where
  "audit_ListAuditLogs ev c f page pageSize = op_map_err (Wrap CodeInternal ''failed to list audit logs'')
     (audit_repo_ListAuditLogs ev c f pageSize (wrap64 (wrap64 (page - 1) * pageSize)))"

definition audit_ListActivity :: "env \<Rightarrow> ctx \<Rightarrow> string \<Rightarrow> uuid option \<Rightarrow> int \<Rightarrow> int
    \<Rightarrow> (world, err, ActivityEvent list \<times> int) op" where
  "audit_ListActivity ev c targetType targetID page pageSize =
     op_map_err (Wrap CodeInternal ''failed to list activity'')
       (audit_repo_ListActivity ev c targetType targetID pageSize (wrap64 (wrap64 (page - 1) * pageSize)))"

section \<open>handler.go\<close>

datatype audit_data = DAuditLogs "AuditLog list" | DActivity "ActivityEvent list"

definition EntryFromRequest :: "gctx \<Rightarrow> string \<Rightarrow> Entry" where
  "EntryFromRequest c action = (let cl = (case CallerFrom c of
        Some x \<Rightarrow> x | None \<Rightarrow> \<lparr>UserID = uuid_nil, TenantID = uuid_nil, Role = ''''\<rparr>)
     in \<lparr>en_TenantID = TenantID cl, en_ActorID = (if UserID cl \<noteq> uuid_nil then Some (UserID cl) else None),
         en_Action = action, en_TargetType = '''', en_TargetID = None, en_IPAddress = ClientIP c,
         en_UserAgent = UserAgent c, en_Metadata = []\<rparr>)"

text \<open>A handler behind \<open>RequireCaller\<close>, and the optional query parameters.\<close>

definition with_caller :: "gctx \<Rightarrow> (caller \<Rightarrow> 'd handler) \<Rightarrow> 'd handler" where
  "with_caller c k = (case RequireCaller c of Inl r \<Rightarrow> (\<lambda>w. (r, w)) | Inr cl \<Rightarrow> k cl)"

definition optional_query :: "gctx \<Rightarrow> string \<Rightarrow> (string \<Rightarrow> 'a option) \<Rightarrow> string \<Rightarrow> ('a option \<Rightarrow> 'd handler)
    \<Rightarrow> 'd handler" where
  "optional_query c name parse msg k = (let raw = Query c name in
     if raw = '''' then k None
     else case parse raw of None \<Rightarrow> bad_request c msg | Some v \<Rightarrow> k (Some v))"

definition respond_page :: "gctx \<Rightarrow> (int \<Rightarrow> int \<Rightarrow> (world, err, 'r list \<times> int) op) \<Rightarrow> ('r list \<Rightarrow> 'd)
    \<Rightarrow> 'd handler" where
  "respond_page c q mk = (let (page, pageSize) = ParsePageQuery c in
     respond c (q page pageSize) (\<lambda>(rs, n). SuccessPaginated c (mk rs) (NewPagination page pageSize n)))"

definition audit_h_ListAuditLogs :: "env \<Rightarrow> gctx \<Rightarrow> audit_data handler" where
  "audit_h_ListAuditLogs ev c = with_caller c (\<lambda>_.
     optional_query c ''actor_id'' (parse_uuid ev) ''invalid actor_id'' (\<lambda>actor.
     optional_query c ''from'' (parse_time ev) ''from must be an RFC3339 timestamp'' (\<lambda>from.
     optional_query c ''to'' (parse_time ev) ''to must be an RFC3339 timestamp'' (\<lambda>to.
     respond_page c (audit_ListAuditLogs ev (ctx_tenant c)
       \<lparr>af_ActorID = actor, af_Action = Query c ''action'', af_From = from, af_To = to\<rparr>) DAuditLogs))))"

definition audit_h_ListActivity :: "env \<Rightarrow> gctx \<Rightarrow> audit_data handler" where
  "audit_h_ListActivity ev c = with_caller c (\<lambda>_.
     optional_query c ''target_id'' (parse_uuid ev) ''invalid target_id'' (\<lambda>target.
     respond_page c (audit_ListActivity ev (ctx_tenant c) (Query c ''target_type'') target) DActivity))"

definition uuid_param :: "env \<Rightarrow> gctx \<Rightarrow> string \<Rightarrow> (uuid \<Rightarrow> 'd handler) \<Rightarrow> 'd handler" where
  "uuid_param ev c name k = (case UUIDParam (parse_uuid ev) c name of
     Inl r \<Rightarrow> (\<lambda>w. (r, w)) | Inr i \<Rightarrow> k i)"

section \<open>The contract of a recorder\<close>

type_synonym Recorder = "env \<Rightarrow> uuid \<Rightarrow> Entry \<Rightarrow> world \<Rightarrow> world"

text \<open>\<open>if s.audit != nil { ...; s.audit.Record(ctx, entry) }\<close>, then the result.\<close>

definition record_then :: "env \<Rightarrow> Recorder option \<Rightarrow> uuid \<Rightarrow> Entry \<Rightarrow> 'a \<Rightarrow> (world, err, 'a) op" where
  "record_then ev a i e r = (\<lambda>w. (Inr r, case a of None \<Rightarrow> w | Some rec \<Rightarrow> rec ev i e w))"

text \<open>
  What the modules that record rely on: recording appends to the audit log, for the tenant
  of the entry, and touches nothing else.
\<close>

definition logged :: "AuditLog list \<Rightarrow> world \<Rightarrow> world" where
  "logged xs w = w\<lparr>store := (store w)\<lparr>audit_logs := audit_logs (store w) @ xs\<rparr>\<rparr>"

locale recorder =
  fixes rec :: "env \<Rightarrow> uuid \<Rightarrow> Entry \<Rightarrow> world \<Rightarrow> world"
  assumes appends: "\<exists>xs. rec ev i e w = logged xs w \<and> al_TenantID ` set xs \<subseteq> {en_TenantID e}"
begin

lemma keeps_history: "\<exists>xs. audit_logs (store (rec ev i e w)) = audit_logs (store w) @ xs"
  using appends[of ev i e w] by (auto simp: logged_def)

lemma keeps_foreign: "foreign_view (en_TenantID e) (store (rec ev i e w)) = foreign_view (en_TenantID e) (store w)"
proof -
  obtain xs where "rec ev i e w = logged xs w" "al_TenantID ` set xs \<subseteq> {en_TenantID e}"
    using appends by blast
  moreover from this(2) have "filter (\<lambda>r. al_TenantID r \<noteq> en_TenantID e) xs = []"
    by (auto simp: filter_empty_conv)
  ultimately show ?thesis by (simp add: logged_def foreign_view_def)
qed

end

lemma audit_Record_logged:
  "\<exists>xs. audit_Record ev i e w = logged xs w \<and> set xs \<subseteq> {audit_row ev i e}"
proof -
  obtain r w' where m: "CreateAuditLog ev (audit_row ev i e) w = (r, w')" by force
  show ?thesis
  proof (cases r)
    case (Inl x)
    then have "w' = w" using m WithTenantTxID_rollback unfolding CreateAuditLog_def by fast
    then have "audit_Record ev i e w = logged [] w" using m by (simp add: audit_Record_def logged_def)
    then show ?thesis by fastforce
  next
    case (Inr u)
    then obtain d where "insert_audit_log (Some (al_TenantID (audit_row ev i e))) (audit_row ev i e) (store w) = Inr (u, d)"
        "w' = w\<lparr>store := d\<rparr>"
      using m WithTenantTxID_ok unfolding CreateAuditLog_def by (fastforce simp: stmt_Inr)
    then have "audit_Record ev i e w = logged [audit_row ev i e] w"
      using m by (auto simp: audit_Record_def logged_def insert_audit_log_def tx_inv)
    then show ?thesis by fastforce
  qed
qed

text \<open>What a service is given: no recorder, or one that keeps the contract.\<close>

definition recorder_ok :: "Recorder option \<Rightarrow> bool" where
  "recorder_ok a \<longleftrightarrow> (case a of None \<Rightarrow> True | Some rec \<Rightarrow> recorder rec)"

lemma record_then_logged:
  assumes "recorder_ok a" "record_then ev a i e r w = (x, w')"
  shows "x = Inr r \<and> (\<exists>xs. w' = logged xs w \<and> al_TenantID ` set xs \<subseteq> {en_TenantID e})"
proof (cases a)
  case None
  then have "w' = logged [] w" "x = Inr r" using assms(2) by (auto simp: record_then_def logged_def)
  then show ?thesis by fastforce
next
  case (Some rec)
  then have "recorder rec" using assms(1) by (simp add: recorder_ok_def)
  from recorder.appends[OF this, of ev i e w] show ?thesis using assms(2) Some by (auto simp: record_then_def)
qed

text \<open>A recorder leaves every other table and the rest of the world as it was.\<close>

lemma logged_simps [simp]:
  "api_keys (store (logged xs w)) = api_keys (store w)"
  "invitations (store (logged xs w)) = invitations (store w)"
  "users (store (logged xs w)) = users (store w)" "tenants (store (logged xs w)) = tenants (store w)"
  "subscriptions (store (logged xs w)) = subscriptions (store w)"
  "subscription_plans (store (logged xs w)) = subscription_plans (store w)"
  "user_roles (store (logged xs w)) = user_roles (store w)" "roles (store (logged xs w)) = roles (store w)"
  "refresh_tokens (store (logged xs w)) = refresh_tokens (store w)"
  "perm_cache (logged xs w) = perm_cache w" "outbox (logged xs w) = outbox w"
  "audit_logs (store (logged xs w)) = audit_logs (store w) @ xs"
  by (simp_all add: logged_def)

interpretation auditor: recorder audit_Record
proof
  fix ev i e w
  obtain xs where "audit_Record ev i e w = logged xs w" "set xs \<subseteq> {audit_row ev i e}"
    using audit_Record_logged by blast
  moreover from this(2) have "al_TenantID ` set xs \<subseteq> {en_TenantID e}" by (auto simp: audit_row_def)
  ultimately show "\<exists>xs. audit_Record ev i e w = logged xs w \<and> al_TenantID ` set xs \<subseteq> {en_TenantID e}"
    by blast
qed

section \<open>Lists\<close>

text \<open>A page is a sorted extract of the matching rows of the session's tenant; the total counts them all.\<close>

lemma list_page_Inr:
  assumes "list_page ev l sess ten P key tbl lim offset d = Inr ((rs, n), d')"
  shows "d' = d \<and> n = int (length (select_rows sess ten P (tbl d)))
    \<and> rs = page_of lim offset (sort_key key (select_rows sess ten P (tbl d)))"
  using assms by (auto simp: list_page_def count_rows_def tx_inv)

lemma sorted_page: "sorted (map key (page_of lim offset (sort_key key rows)))"
  by (simp add: page_of_def take_map[symmetric] drop_map[symmetric] sorted_wrt_take sorted_wrt_drop)

lemma set_page: "set (page_of lim offset (sort_key key rows)) \<subseteq> set rows"
  unfolding page_of_def using set_take_subset set_drop_subset by fastforce

lemma length_page: "length (page_of lim offset rows) = min (nat lim) (length rows - nat offset)"
  by (simp add: page_of_def)

end
