(* ===== verification/Apikeys.thy ===== *)
theory Apikeys
  imports Audit_Trail
begin

text \<open>
  internal/apikeys: long-lived machine credentials. A key is stored as the hash of its
  secret with the scopes it may use; the secret leaves the service once, in \<open>Create\<close>.
\<close>

section \<open>entity.go\<close>

definition keyPrefixLiteral :: string where "keyPrefixLiteral = ''sk_live_''"
definition storedPrefixLength :: nat where "storedPrefixLength = 12"

definition Active :: "env \<Rightarrow> api_key \<Rightarrow> bool" where
  "Active ev k = (if key_RevokedAt k \<noteq> None then False
     else (case key_ExpiresAt k of Some t \<Rightarrow> \<not> now ev > t | None \<Rightarrow> True))"

definition HashKey :: "env \<Rightarrow> string \<Rightarrow> string" where
  "HashKey ev plaintext = sha256_hex ev plaintext"

text \<open>The slice \<open>plaintext[:12]\<close> is in range: the base64 of 32 bytes has 43 characters.\<close>

definition GenerateKey :: "env \<Rightarrow> fresh \<Rightarrow> err + (string \<times> string \<times> string)" where
  "GenerateKey ev fr = (case fresh_bytes fr of
     None \<Rightarrow> Inl (Wrapped ''apikeys: generate key'' (Plain ''rand''))
   | Some buf \<Rightarrow> let plaintext = keyPrefixLiteral @ base64url ev buf
       in Inr (plaintext, take storedPrefixLength plaintext, HashKey ev plaintext))"

definition LooksLikeAPIKey :: "string \<Rightarrow> bool" where
  "LooksLikeAPIKey credential = HasPrefix credential keyPrefixLiteral"

section \<open>repository.go\<close>

definition apikeys_ErrNotFound :: err where "apikeys_ErrNotFound = Sentinel ''apikeys: key not found''"
definition ErrCredentialInactive :: err where
  "ErrCredentialInactive = Sentinel ''apikeys: credential subject inactive''"

definition insert_api_key :: "session \<Rightarrow> api_key \<Rightarrow> (db, err, unit) tx" where
  "insert_api_key sess k =
     tx_bind (tx_query (\<lambda>d. insert_check (rls sess key_TenantID k) True
        (key_ID k \<notin> key_ID ` set (api_keys d) \<and> key_KeyHash k \<notin> key_KeyHash ` set (api_keys d))
        (key_TenantID k \<in> tenant_ID ` set (tenants d)
         \<and> (case key_UserID k of None \<Rightarrow> True | Some u \<Rightarrow> u \<in> user_ID ` set (users d)))))
       (\<lambda>chk. tx_bind (raise chk) (\<lambda>_.
     modify (\<lambda>d. d\<lparr>api_keys := api_keys d @ [k]\<rparr>)))"

definition apikeys_repo_Create :: "env \<Rightarrow> ctx \<Rightarrow> api_key \<Rightarrow> (world, err, unit) op" where
  "apikeys_repo_Create ev c k = WithTenantTx ev ''apikeys.Create'' c (\<lambda>sess.
     stmt ev ''apikeys.Create.create'' (insert_api_key sess k))"

definition apikeys_repo_List :: "env \<Rightarrow> ctx \<Rightarrow> int \<Rightarrow> int \<Rightarrow> (world, err, api_key list \<times> int) op" where
  "apikeys_repo_List ev c lim offset = op_map_err (Wrapped ''apikeys: list'')
     (WithTenantTx ev ''apikeys.List'' c (\<lambda>sess. list_page ev ''apikeys.List'' sess key_TenantID
        (\<lambda>_. True) (\<lambda>k. - key_CreatedAt k) api_keys lim offset))"

definition apikeys_FindByID :: "env \<Rightarrow> ctx \<Rightarrow> uuid \<Rightarrow> (world, err, api_key) op" where
  "apikeys_FindByID ev c i = op_map_err
     (\<lambda>e. if errors_is e apikeys_ErrNotFound then e else Wrapped ''apikeys: find by id'' e)
     (WithTenantTx ev ''apikeys.FindByID'' c (\<lambda>sess.
        tx_map_err (\<lambda>e. if errors_is e ErrRecordNotFound then apikeys_ErrNotFound else e)
          (stmt ev ''apikeys.FindByID.first''
            (take_row (\<lambda>d. select_first sess key_TenantID (\<lambda>k. key_ID k = i) (api_keys d))))))"

definition revocable :: "uuid \<Rightarrow> api_key \<Rightarrow> bool" where
  "revocable i k \<longleftrightarrow> key_ID k = i \<and> key_RevokedAt k = None"

definition revoke_key :: "env \<Rightarrow> session \<Rightarrow> uuid \<Rightarrow> db \<Rightarrow> db" where
  "revoke_key ev sess i d = d\<lparr>api_keys := update_rows sess key_TenantID (revocable i)
     (\<lambda>k. k\<lparr>key_RevokedAt := Some (now ev)\<rparr>) (api_keys d)\<rparr>"

definition apikeys_repo_Revoke :: "env \<Rightarrow> ctx \<Rightarrow> uuid \<Rightarrow> (world, err, unit) op" where
  "apikeys_repo_Revoke ev c i = WithTenantTx ev ''apikeys.Revoke'' c (\<lambda>sess.
     tx_bind (stmt ev ''apikeys.Revoke.update''
       (tx_bind (tx_query (\<lambda>d. count_rows sess key_TenantID (revocable i) (api_keys d))) (\<lambda>affected.
        tx_bind (modify (revoke_key ev sess i)) (\<lambda>_. tx_return affected)))) (\<lambda>affected.
     require (affected \<noteq> 0) apikeys_ErrNotFound))"

definition FindByHash :: "env \<Rightarrow> string \<Rightarrow> (world, err, api_key) op" where
  "FindByHash ev h = op_try (WithoutTenantScope ev ''apikeys.FindByHash'' (\<lambda>_.
       stmt ev ''apikeys.FindByHash.scan'' (tx_query (\<lambda>d. filter (\<lambda>k. key_KeyHash k = h) (api_keys d)))))
     (\<lambda>e. op_fail (Wrapped ''apikeys: find by hash'' e))
     (\<lambda>ks. case ks of [] \<Rightarrow> op_fail apikeys_ErrNotFound | k # _ \<Rightarrow> op_return k)"

definition touch_key :: "env \<Rightarrow> session \<Rightarrow> uuid \<Rightarrow> db \<Rightarrow> db" where
  "touch_key ev sess i d = d\<lparr>api_keys := update_rows sess key_TenantID (\<lambda>k. key_ID k = i)
     (\<lambda>k. k\<lparr>key_LastUsedAt := Some (now ev)\<rparr>) (api_keys d)\<rparr>"

definition TouchLastUsed :: "env \<Rightarrow> uuid \<Rightarrow> uuid \<Rightarrow> (world, err, unit) op" where
  "TouchLastUsed ev tenantID keyID = WithTenantTxID ev ''TouchLastUsed'' tenantID (\<lambda>sess.
     stmt ev ''TouchLastUsed.update'' (modify (touch_key ev sess keyID)))"

definition apikeys_ValidateCredentialState :: "env \<Rightarrow> uuid \<Rightarrow> uuid option \<Rightarrow> (world, err, unit) op" where
  "apikeys_ValidateCredentialState ev tenantID userID =
     WithTenantTxID ev ''apikeys.ValidateCredentialState'' tenantID (\<lambda>sess.
       tx_bind (stmt ev ''apikeys.Validate.tenant''
         (tx_query (\<lambda>d. List.find (\<lambda>t. tenant_ID t = tenantID) (tenants d)))) (\<lambda>t.
       tx_bind (require (case t of Some t \<Rightarrow> tenant_Status t = ''active'' \<and> tenant_DeletedAt t = None
         | None \<Rightarrow> False) ErrCredentialInactive) (\<lambda>_.
       case userID of None \<Rightarrow> tx_return ()
       | Some u \<Rightarrow> tx_bind (stmt ev ''apikeys.Validate.user'' (tx_query (\<lambda>d. count_rows sess user_TenantID
           (\<lambda>q. user_ID q = u \<and> user_DeletedAt q = None \<and> user_Status q \<noteq> ''disabled'') (users d)))) (\<lambda>n.
         require (n = 1) ErrCredentialInactive))))"

section \<open>service.go\<close>

text \<open>\<open>aks_audit\<close> is the \<open>Recorder\<close> interface, which may be nil.\<close>

record apikeys_Service =
  aks_audit :: "Recorder option"
  aks_grantable :: "string list"

record CreateInput =
  ci_Name :: string
  ci_Scopes :: "string list"
  ci_ExpiresAt :: "gotime option"
  ci_OwnerUserID :: uuid

record CreateResult =
  cr_Key :: api_key
  cr_Secret :: string

fun validate_scopes :: "string list \<Rightarrow> string list \<Rightarrow> string list \<Rightarrow> err + string list" where
  "validate_scopes grantable seen [] = Inr []"
| "validate_scopes grantable seen (raw # raws) = (let scope = TrimSpace raw in
     if scope = '''' then validate_scopes grantable seen raws
     else if grantable \<noteq> [] \<and> scope \<notin> set grantable
     then Inl (New CodeValidation (''unknown scope: '' @ scope))
     else if scope \<in> set seen then validate_scopes grantable seen raws
     else (case validate_scopes grantable (scope # seen) raws of
             Inl e \<Rightarrow> Inl e | Inr out \<Rightarrow> Inr (scope # out)))"

definition validateScopes :: "apikeys_Service \<Rightarrow> string list \<Rightarrow> err + string list" where
  "validateScopes s requested =
     (if requested = [] then Inl (New CodeValidation
        ''at least one scope is required; a key with no scopes cannot do anything'')
      else case validate_scopes (aks_grantable s) [] requested of
        Inl e \<Rightarrow> Inl e
      | Inr out \<Rightarrow> if out = [] then Inl (New CodeValidation ''at least one valid scope is required'')
                   else Inr out)"

definition new_key :: "env \<Rightarrow> fresh \<Rightarrow> uuid \<Rightarrow> CreateInput \<Rightarrow> string \<Rightarrow> string \<Rightarrow> string \<Rightarrow> string list \<Rightarrow> api_key" where
  "new_key ev fr tenantID inp name prefix hash scopes = \<lparr>key_ID = fresh_id fr 0,
     key_TenantID = tenantID, key_UserID = Some (ci_OwnerUserID inp), key_Name = name,
     key_KeyPrefix = prefix, key_KeyHash = hash, key_Scopes = scopes, key_LastUsedAt = None,
     key_ExpiresAt = ci_ExpiresAt inp, key_RevokedAt = None, key_CreatedAt = now ev\<rparr>"

text \<open>The end of \<open>Create\<close>: the insert, the audit entry (which never holds the secret), the result.\<close>

definition store_key :: "env \<Rightarrow> apikeys_Service \<Rightarrow> fresh \<Rightarrow> ctx \<Rightarrow> Entry \<Rightarrow> api_key \<Rightarrow> string
    \<Rightarrow> (world, err, CreateResult) op" where
  "store_key ev s fr c entry key plaintext = op_try (apikeys_repo_Create ev c key)
     (\<lambda>e. op_fail (Wrap CodeInternal ''failed to create api key'' e))
     (\<lambda>_. record_then ev (aks_audit s) (fresh_id fr 1)
        (entry\<lparr>en_Action := ActionAPIKeyCreated, en_TargetType := ''api_key'',
           en_TargetID := Some (key_ID key), en_Metadata := [(''name'', JStr (key_Name key)),
             (''key_prefix'', JStr (key_KeyPrefix key)), (''scopes'', JStrs (key_Scopes key))]\<rparr>)
        \<lparr>cr_Key = key, cr_Secret = plaintext\<rparr>)"

definition apikeys_Create :: "env \<Rightarrow> apikeys_Service \<Rightarrow> fresh \<Rightarrow> ctx \<Rightarrow> Entry \<Rightarrow> uuid \<Rightarrow> CreateInput
    \<Rightarrow> (world, err, CreateResult) op" where
  "apikeys_Create ev s fr c entry tenantID inp =
     (if TrimSpace (ci_Name inp) = '''' then op_fail (New CodeValidation ''name is required'')
      else case validateScopes s (ci_Scopes inp) of Inl e \<Rightarrow> op_fail e | Inr scopes \<Rightarrow>
      if (case ci_ExpiresAt inp of Some t \<Rightarrow> t < now ev | None \<Rightarrow> False)
      then op_fail (New CodeValidation ''expires_at must be in the future'')
      else case GenerateKey ev fr of
        Inl e \<Rightarrow> op_fail (Wrap CodeInternal ''failed to generate api key'' e)
      | Inr (plaintext, prefix, hash) \<Rightarrow> store_key ev s fr c entry
          (new_key ev fr tenantID inp (TrimSpace (ci_Name inp)) prefix hash scopes) plaintext)"

definition apikeys_List :: "env \<Rightarrow> ctx \<Rightarrow> int \<Rightarrow> int \<Rightarrow> (world, err, api_key list \<times> int) op" where
  "apikeys_List ev c page pageSize = op_map_err (Wrap CodeInternal ''failed to list api keys'')
     (apikeys_repo_List ev c pageSize (wrap64 (wrap64 (page - 1) * pageSize)))"

definition apikeys_Revoke :: "env \<Rightarrow> apikeys_Service \<Rightarrow> fresh \<Rightarrow> ctx \<Rightarrow> Entry \<Rightarrow> uuid \<Rightarrow> (world, err, unit) op" where
  "apikeys_Revoke ev s fr c entry keyID =
     op_try (apikeys_FindByID ev c keyID)
       (\<lambda>e. op_fail (if errors_is e apikeys_ErrNotFound then New CodeNotFound ''api key not found''
                     else Wrap CodeInternal ''failed to load api key'' e))
       (\<lambda>key. op_try (apikeys_repo_Revoke ev c keyID)
          (\<lambda>e. op_fail (if errors_is e apikeys_ErrNotFound then New CodeConflict ''api key is already revoked''
                        else Wrap CodeInternal ''failed to revoke api key'' e))
          (\<lambda>_. record_then ev (aks_audit s) (fresh_id fr 1)
             (entry\<lparr>en_Action := ActionAPIKeyRevoked, en_TargetType := ''api_key'',
                en_TargetID := Some keyID, en_Metadata := [(''name'', JStr (key_Name key)),
                  (''key_prefix'', JStr (key_KeyPrefix key))]\<rparr>) ()))"

record Authenticated =
  auth_KeyID :: uuid
  auth_TenantID :: uuid
  auth_UserID :: "uuid option"
  auth_Scopes :: "string list"

definition invalid_key :: err where "invalid_key = New CodeUnauthorized ''invalid api key''"

definition apikeys_svc_Authenticate :: "env \<Rightarrow> string \<Rightarrow> (world, err, Authenticated) op" where
  "apikeys_svc_Authenticate ev plaintext =
     (if \<not> LooksLikeAPIKey plaintext then op_fail invalid_key
      else op_try (FindByHash ev (HashKey ev plaintext)) (\<lambda>e. op_fail invalid_key) (\<lambda>key.
        if \<not> Active ev key then op_fail invalid_key
        else op_try (apikeys_ValidateCredentialState ev (key_TenantID key) (key_UserID key))
          (\<lambda>e. op_fail invalid_key)
          (\<lambda>_. op_ignore (TouchLastUsed ev (key_TenantID key) (key_ID key))
             (op_return \<lparr>auth_KeyID = key_ID key, auth_TenantID = key_TenantID key,
                auth_UserID = key_UserID key, auth_Scopes = key_Scopes key\<rparr>))))"

section \<open>middleware.go\<close>

definition CtxAPIKeyID :: string where "CtxAPIKeyID = ''api_key_id''"

definition presentedKey :: "gctx \<Rightarrow> string" where
  "presentedKey c = (let header = TrimSpace (GetHeader c ''X-API-Key'') in
     if header \<noteq> '''' then header
     else (case SplitN2 (TrimSpace (GetHeader c ''Authorization'')) CHR '' '' of
       [scheme, rest] \<Rightarrow>
         if EqualFold scheme ''Bearer''
         then (let credential = TrimSpace rest in if LooksLikeAPIKey credential then credential else '''')
         else ''''
     | _ \<Rightarrow> ''''))"

definition set_key_identity :: "Authenticated \<Rightarrow> gctx \<Rightarrow> gctx" where
  "set_key_identity auth c =
     (let c = ctx_set CtxAPIKeyID (VUuid (auth_KeyID auth)) (ctx_set CtxAuthenticated (VBool True)
          (ctx_set CtxAPIKeyScopes (VStrings (auth_Scopes auth))
          (ctx_set CtxTenantID (VUuid (auth_TenantID auth)) c)))
      in case auth_UserID auth of None \<Rightarrow> c | Some u \<Rightarrow> ctx_set CtxUserID (VUuid u) c)"

definition apikeys_Authenticate :: "env \<Rightarrow> gctx \<Rightarrow> (world, unit response, gctx) op" where
  "apikeys_Authenticate ev c = (let presented = presentedKey c in
     if presented = '''' then op_return c
     else op_try (apikeys_svc_Authenticate ev presented)
       (\<lambda>e. abort c CodeUnauthorized ''invalid api key'')
       (\<lambda>auth. case OverrideFromCredential c (auth_TenantID auth) of
          Inl e \<Rightarrow> abort c CodeTenantMismatch ''api key tenant does not match resolved tenant''
        | Inr c' \<Rightarrow> op_return (set_key_identity auth c')))"

definition RequireUserSession :: "gctx \<Rightarrow> (world, unit response, gctx) op" where
  "RequireUserSession c = (if keys c CtxAPIKeyScopes \<noteq> None
     then abort c CodeForbidden ''this endpoint requires a user session and cannot be used with an API key''
     else op_return c)"

section \<open>handler.go\<close>

datatype apikeys_data = DCreatedKey CreateResult | DKeys "api_key list" | DKeyMessage string

record createKeyRequest =
  ck_Name :: string
  ck_Scopes :: "string list"
  ck_ExpiresAt :: "gotime option"

definition apikeys_h_Create :: "env \<Rightarrow> apikeys_Service \<Rightarrow> fresh \<Rightarrow> gctx \<Rightarrow> string + createKeyRequest
    \<Rightarrow> apikeys_data handler" where
  "apikeys_h_Create ev s fr c req = with_caller c (\<lambda>cl. with_body c req (\<lambda>q.
     respond c (apikeys_Create ev s fr (ctx_tenant c) (EntryFromRequest c ActionAPIKeyCreated) (TenantID cl)
         \<lparr>ci_Name = ck_Name q, ci_Scopes = ck_Scopes q, ci_ExpiresAt = ck_ExpiresAt q,
          ci_OwnerUserID = UserID cl\<rparr>)
       (\<lambda>r. Success c 201 (DCreatedKey r))))"

definition apikeys_h_List :: "env \<Rightarrow> gctx \<Rightarrow> apikeys_data handler" where
  "apikeys_h_List ev c = with_caller c (\<lambda>_. respond_page c (apikeys_List ev (ctx_tenant c)) DKeys)"

definition apikeys_h_Revoke :: "env \<Rightarrow> apikeys_Service \<Rightarrow> fresh \<Rightarrow> gctx \<Rightarrow> apikeys_data handler" where
  "apikeys_h_Revoke ev s fr c = with_caller c (\<lambda>_. uuid_param ev c ''keyID'' (\<lambda>keyID.
     respond c (apikeys_Revoke ev s fr (ctx_tenant c) (EntryFromRequest c ActionAPIKeyRevoked) keyID)
       (\<lambda>_. Success c 200 (DKeyMessage ''api key revoked''))))"

end
