(* ===== verification/Apikeys_Props.thy ===== *)
theory Apikeys_Props
  imports Apikeys Sample_Identity Identity_Facts
begin

text \<open>
  What makes API keys safe: a key authenticates only while its row is live and its tenant
  and owner are active, its requests stay inside its scopes and its tenant, a created secret
  is the credential of exactly the validated scopes, and revocation is final.
\<close>

abbreviation keys_of :: "world \<Rightarrow> api_key list" where "keys_of w \<equiv> api_keys (store w)"

section \<open>Inversion of the operations\<close>

lemma FindByHash_Inr:
  assumes "FindByHash ev h w = (Inr k, w')"
  shows "w' = w \<and> k \<in> set (keys_of w) \<and> key_KeyHash k = h"
proof -
  let ?q = "WithoutTenantScope ev ''apikeys.FindByHash'' (\<lambda>_. stmt ev ''apikeys.FindByHash.scan''
      (tx_query (\<lambda>d. filter (\<lambda>k. key_KeyHash k = h) (api_keys d))))"
  obtain ks w1 where q: "?q w = (Inr ks, w1)"
    and k: "(case ks of [] \<Rightarrow> op_fail apikeys_ErrNotFound | k # _ \<Rightarrow> op_return k) w1 = (Inr k, w')"
    using assms unfolding FindByHash_def op_try_eq by auto
  from k have "w1 = w' \<and> k \<in> set ks" by (cases ks) auto
  with q have "?q w = (Inr ks, w')" "k \<in> set ks" by auto
  then show ?thesis unfolding WithoutTenantScope_def
    by (auto dest!: run_tx_ok simp: tx_inv dest: filter_eq_ConsD)
qed

lemma count_rows_one: "count_rows (Some t) ten P rows = 1 \<Longrightarrow> \<exists>r\<in>set rows. ten r = t \<and> P r"
  using set_select_rows[of "Some t" ten P rows]
  by (cases "select_rows (Some t) ten P rows") (auto simp: count_rows_def)

lemma apikeys_Validate_Inr:
  assumes "apikeys_ValidateCredentialState ev t u w = (Inr x, w')"
  shows "w' = w \<and> (\<exists>q\<in>set (tenants (store w)). tenant_ID q = t \<and> tenant_Status q = ''active''
      \<and> tenant_DeletedAt q = None)
    \<and> (case u of None \<Rightarrow> True | Some i \<Rightarrow> \<exists>q\<in>set (users (store w)). user_TenantID q = t \<and> user_ID q = i
         \<and> user_DeletedAt q = None \<and> user_Status q \<noteq> ''disabled'')"
  using WithTenantTxID_ok[OF assms[unfolded apikeys_ValidateCredentialState_def]]
  by (auto simp: tx_inv dest!: find_SomeD count_rows_one split: option.splits)

lemma TouchLastUsed_cases:
  "snd (TouchLastUsed ev t i w) \<in> {w, w\<lparr>store := touch_key ev (Some t) i (store w)\<rparr>}"
proof -
  obtain r w' where m: "TouchLastUsed ev t i w = (r, w')" by force
  then show ?thesis unfolding TouchLastUsed_def
    by (cases r) (auto dest!: WithTenantTxID_rollback WithTenantTxID_ok simp: tx_inv)
qed

lemma svc_Authenticate_Inr:
  assumes "apikeys_svc_Authenticate ev p w = (Inr a, w')"
  shows "LooksLikeAPIKey p \<and> (\<exists>k\<in>set (keys_of w). key_KeyHash k = HashKey ev p \<and> Active ev k
    \<and> a = \<lparr>auth_KeyID = key_ID k, auth_TenantID = key_TenantID k, auth_UserID = key_UserID k, auth_Scopes = key_Scopes k\<rparr>
    \<and> (\<exists>q\<in>set (tenants (store w)). tenant_ID q = key_TenantID k \<and> tenant_Status q = ''active'' \<and> tenant_DeletedAt q = None)
    \<and> (case key_UserID k of None \<Rightarrow> True | Some i \<Rightarrow> \<exists>q\<in>set (users (store w)). user_TenantID q = key_TenantID k
         \<and> user_ID q = i \<and> user_DeletedAt q = None \<and> user_Status q \<noteq> ''disabled'')
    \<and> w' \<in> {w, w\<lparr>store := touch_key ev (Some (key_TenantID k)) (key_ID k) (store w)\<rparr>})"
proof -
  have l: "LooksLikeAPIKey p" using assms by (cases "LooksLikeAPIKey p") (auto simp: apikeys_svc_Authenticate_def)
  obtain k w1 where k: "FindByHash ev (HashKey ev p) w = (Inr k, w1)"
    and r1: "(if \<not> Active ev k then op_fail invalid_key
        else op_try (apikeys_ValidateCredentialState ev (key_TenantID k) (key_UserID k))
          (\<lambda>e. op_fail invalid_key)
          (\<lambda>_. op_ignore (TouchLastUsed ev (key_TenantID k) (key_ID k))
             (op_return \<lparr>auth_KeyID = key_ID k, auth_TenantID = key_TenantID k,
                auth_UserID = key_UserID k, auth_Scopes = key_Scopes k\<rparr>))) w1 = (Inr a, w')"
    using assms l unfolding apikeys_svc_Authenticate_def by (auto dest!: op_try_fail_Inr)
  have act: "Active ev k" using r1 by (cases "Active ev k") auto
  obtain x w2 where v: "apikeys_ValidateCredentialState ev (key_TenantID k) (key_UserID k) w1 = (Inr x, w2)"
    and e: "a = \<lparr>auth_KeyID = key_ID k, auth_TenantID = key_TenantID k, auth_UserID = key_UserID k, auth_Scopes = key_Scopes k\<rparr>"
    and t: "w' = snd (TouchLastUsed ev (key_TenantID k) (key_ID k) w2)"
    using r1 act by (auto dest!: op_try_fail_Inr simp: op_ignore_eq)
  show ?thesis using l act e t FindByHash_Inr[OF k] apikeys_Validate_Inr[OF v]
      TouchLastUsed_cases[of ev "key_TenantID k" "key_ID k" w] by auto
qed

section \<open>Key rows through every operation\<close>

text \<open>A key is dead when its rows carry a revocation; \<open>dead\<close> survives every operation below.\<close>

definition dead_key :: "uuid \<Rightarrow> api_key list \<Rightarrow> bool" where
  "dead_key i ks \<longleftrightarrow> (\<exists>k\<in>set ks. key_ID k = i) \<and> (\<forall>k\<in>set ks. key_ID k = i \<longrightarrow> key_RevokedAt k \<noteq> None)"

lemma dead_key_append: "dead_key i ks \<Longrightarrow> key_ID k \<notin> key_ID ` set ks \<Longrightarrow> dead_key i (ks @ [k])"
  by (auto simp: dead_key_def)

lemma dead_key_update:
  assumes "dead_key i ks" "\<And>k. key_ID (f k) = key_ID k" "\<And>k. key_RevokedAt k \<noteq> None \<Longrightarrow> key_RevokedAt (f k) \<noteq> None"
  shows "dead_key i (update_rows sess ten P f ks)"
proof -
  define g where "g k = (if rls sess ten k \<and> P k then f k else k)" for k
  have "key_ID (g k) = key_ID k" "key_RevokedAt k \<noteq> None \<Longrightarrow> key_RevokedAt (g k) \<noteq> None" for k
    using assms(2,3) by (simp_all add: g_def)
  then have "dead_key i (map g ks)" using assms(1) by (simp add: dead_key_def)
  then show ?thesis by (simp add: update_rows_def g_def[abs_def])
qed

lemma insert_api_key_Inr:
  "insert_api_key sess k d = Inr (u, d') \<Longrightarrow> key_ID k \<notin> key_ID ` set (api_keys d)
     \<and> key_KeyHash k \<notin> key_KeyHash ` set (api_keys d) \<and> sess = Some (key_TenantID k)
     \<and> d' = d\<lparr>api_keys := api_keys d @ [k]\<rparr>"
  by (auto simp: insert_api_key_def tx_inv insert_check_None rls_def)

lemma store_key_Inr:
  assumes "recorder_ok (aks_audit s)" "store_key ev s fr c entry key plain w = (Inr r, w')"
  shows "r = \<lparr>cr_Key = key, cr_Secret = plain\<rparr> \<and> c = Some (key_TenantID key)
    \<and> key_ID key \<notin> key_ID ` set (keys_of w) \<and> key_KeyHash key \<notin> key_KeyHash ` set (keys_of w)
    \<and> (\<exists>xs. w' = logged xs (w\<lparr>store := (store w)\<lparr>api_keys := keys_of w @ [key]\<rparr>\<rparr>)
        \<and> al_TenantID ` set xs \<subseteq> {en_TenantID entry})"
proof -
  let ?e = "entry\<lparr>en_Action := ActionAPIKeyCreated, en_TargetType := ''api_key'',
      en_TargetID := Some (key_ID key), en_Metadata := [(''name'', JStr (key_Name key)),
        (''key_prefix'', JStr (key_KeyPrefix key)), (''scopes'', JStrs (key_Scopes key))]\<rparr>"
  obtain u w1 where m: "apikeys_repo_Create ev c key w = (Inr u, w1)"
    and r: "record_then ev (aks_audit s) (fresh_id fr 1) ?e \<lparr>cr_Key = key, cr_Secret = plain\<rparr> w1 = (Inr r, w')"
    using op_try_fail_Inr[OF assms(2)[unfolded store_key_def]] by blast
  from WithTenantTx_ok[OF m[unfolded apikeys_repo_Create_def]] obtain t d where d: "c = Some t"
    "insert_api_key (Some t) key (store w) = Inr (u, d)" "w1 = w\<lparr>store := d\<rparr>" by (auto simp: stmt_Inr)
  show ?thesis using record_then_logged[OF assms(1) r] insert_api_key_Inr[OF d(2)] d by auto
qed

text \<open>What a successful \<open>Create\<close> went through.\<close>

lemma apikeys_Create_Inr:
  assumes "apikeys_Create ev s fr c entry t inp w = (Inr r, w')"
  shows "\<exists>pre plain scopes buf. validateScopes s (ci_Scopes inp) = Inr scopes \<and> fresh_bytes fr = Some buf
    \<and> plain = keyPrefixLiteral @ base64url ev buf
    \<and> (case ci_ExpiresAt inp of Some e \<Rightarrow> now ev \<le> e | None \<Rightarrow> True)
    \<and> store_key ev s fr c entry (new_key ev fr t inp (TrimSpace (ci_Name inp)) pre (HashKey ev plain) scopes) plain w
        = (Inr r, w')"
  using assms unfolding apikeys_Create_def GenerateKey_def Let_def
  by (auto simp: op_fail_def split: if_splits option.splits sum.splits)

lemma apikeys_Create_keys:
  assumes "recorder_ok (aks_audit s)" "apikeys_Create ev s fr c entry t inp w = (r, w')"
  shows "keys_of w' = keys_of w \<or> (\<exists>k. key_ID k \<notin> key_ID ` set (keys_of w) \<and> keys_of w' = keys_of w @ [k])"
proof (cases r)
  case (Inr x)
  then show ?thesis using apikeys_Create_Inr[of ev s fr c entry t inp w x w'] assms store_key_Inr[OF assms(1)]
    by fastforce
next
  case (Inl x)
  have st: "store_key ev s fr c entry k p w = (Inl y, w1) \<Longrightarrow> w1 = w" for k p y w1
    unfolding store_key_def op_try_eq record_then_def apikeys_repo_Create_def
    by (auto dest: WithTenantTx_rollback)
  have "w' = w" using assms(2) Inl unfolding apikeys_Create_def
    by (auto simp: op_fail_def dest: st split: if_splits option.splits sum.splits prod.splits)
  then show ?thesis by simp
qed

lemma apikeys_Revoke_Inr:
  assumes "recorder_ok (aks_audit s)" "apikeys_Revoke ev s fr c entry i w = (Inr u, w')"
  shows "\<exists>t k. c = Some t \<and> k \<in> set (keys_of w) \<and> key_ID k = i \<and> key_TenantID k = t \<and> key_RevokedAt k = None
    \<and> keys_of w' = update_rows (Some t) key_TenantID (revocable i) (\<lambda>k. k\<lparr>key_RevokedAt := Some (now ev)\<rparr>) (keys_of w)"
proof -
  obtain k w1 where f: "apikeys_FindByID ev c i w = (Inr k, w1)" and r1: "op_try (apikeys_repo_Revoke ev c i)
      (\<lambda>e. op_fail (if errors_is e apikeys_ErrNotFound then New CodeConflict ''api key is already revoked''
                    else Wrap CodeInternal ''failed to revoke api key'' e))
      (\<lambda>_. record_then ev (aks_audit s) (fresh_id fr 1)
         (entry\<lparr>en_Action := ActionAPIKeyRevoked, en_TargetType := ''api_key'',
            en_TargetID := Some i, en_Metadata := [(''name'', JStr (key_Name k)),
              (''key_prefix'', JStr (key_KeyPrefix k))]\<rparr>) ()) w1 = (Inr u, w')"
    using op_try_fail_Inr[OF assms(2)[unfolded apikeys_Revoke_def]] by blast
  have w1: "w1 = w" using f unfolding apikeys_FindByID_def op_map_err_Inr by (auto dest!: WithTenantTx_ok simp: tx_inv)
  obtain w2 where m: "apikeys_repo_Revoke ev c i w = (Inr (), w2)"
    and r2: "record_then ev (aks_audit s) (fresh_id fr 1) (entry\<lparr>en_Action := ActionAPIKeyRevoked,
       en_TargetType := ''api_key'', en_TargetID := Some i, en_Metadata := [(''name'', JStr (key_Name k)),
       (''key_prefix'', JStr (key_KeyPrefix k))]\<rparr>) () w2 = (Inr u, w')"
    using op_try_fail_Inr[OF r1] w1 by auto
  from WithTenantTx_ok[OF m[unfolded apikeys_repo_Revoke_def]] obtain t where t: "c = Some t"
    "count_rows (Some t) key_TenantID (revocable i) (keys_of w) \<noteq> 0" "w2 = w\<lparr>store := revoke_key ev (Some t) i (store w)\<rparr>"
    by (auto simp: tx_inv)
  from t(2) obtain q where "q \<in> set (select_rows (Some t) key_TenantID (revocable i) (keys_of w))"
    by (cases "select_rows (Some t) key_TenantID (revocable i) (keys_of w)") (auto simp: count_rows_def)
  then have "q \<in> set (keys_of w)" "key_TenantID q = t" "revocable i q" by (auto simp: set_select_rows)
  moreover have "keys_of w' = keys_of w2" using record_then_logged[OF assms(1) r2] by auto
  ultimately show ?thesis using t(1,3) by (auto simp: revoke_key_def revocable_def)
qed

lemma apikeys_Revoke_keys:
  assumes "recorder_ok (aks_audit s)" "apikeys_Revoke ev s fr c entry i w = (r, w')"
  shows "keys_of w' = keys_of w \<or> (\<exists>t. keys_of w' = update_rows t key_TenantID (revocable i)
    (\<lambda>k. k\<lparr>key_RevokedAt := Some (now ev)\<rparr>) (keys_of w))"
proof (cases r)
  case (Inr x) then show ?thesis using apikeys_Revoke_Inr assms by blast
next
  case (Inl e)
  have f: "w1 = w" if "apikeys_FindByID ev c i w = (x, w1)" for x w1
    using that unfolding apikeys_FindByID_def op_map_err_eq
    by (auto dest!: WithTenantTx_ok WithTenantTx_rollback simp: tx_inv)
  have "w' = w" using assms(2) Inl unfolding apikeys_Revoke_def op_try_eq record_then_def apikeys_repo_Revoke_def
    by (auto dest!: f dest: WithTenantTx_rollback)
  then show ?thesis by simp
qed

section \<open>Histories\<close>

text \<open>One request: the three operations that write keys, or anything that leaves the table alone.\<close>

inductive key_step :: "world \<Rightarrow> world \<Rightarrow> bool" where
  create: "recorder_ok (aks_audit s) \<Longrightarrow> apikeys_Create ev s fr c entry t inp w = (r1, w') \<Longrightarrow> key_step w w'"
| revoke: "recorder_ok (aks_audit s) \<Longrightarrow> apikeys_Revoke ev s fr c entry i w = (r2, w') \<Longrightarrow> key_step w w'"
| authenticate: "apikeys_svc_Authenticate ev p w = (r3, w') \<Longrightarrow> key_step w w'"
| other: "keys_of w' = keys_of w \<Longrightarrow> key_step w w'"

lemma svc_Authenticate_keys:
  assumes "apikeys_svc_Authenticate ev p w = (r, w')"
  shows "keys_of w' = keys_of w \<or> (\<exists>t i. keys_of w' = update_rows t key_TenantID (\<lambda>k. key_ID k = i)
    (\<lambda>k. k\<lparr>key_LastUsedAt := Some (now ev)\<rparr>) (keys_of w))"
proof (cases r)
  case (Inr a)
  with assms have "apikeys_svc_Authenticate ev p w = (Inr a, w')" by simp
  from svc_Authenticate_Inr[OF this] obtain k :: api_key where
    "w' \<in> {w, w\<lparr>store := touch_key ev (Some (key_TenantID k)) (key_ID k) (store w)\<rparr>}" by blast
  then have "keys_of w' = keys_of w \<or> keys_of w' = update_rows (Some (key_TenantID k)) key_TenantID
      (\<lambda>q. key_ID q = key_ID k) (\<lambda>k. k\<lparr>key_LastUsedAt := Some (now ev)\<rparr>) (keys_of w)"
    by (auto simp: touch_key_def)
  then show ?thesis by blast
next
  case (Inl e)
  have f: "w1 = w" if "FindByHash ev h w = (x, w1)" for h x w1
  proof (cases x)
    case (Inr k) then show ?thesis using FindByHash_Inr that by blast
  next
    case (Inl y) then show ?thesis using that unfolding FindByHash_def op_try_eq WithoutTenantScope_def
      by (auto dest!: run_tx_ok run_tx_rollback simp: tx_inv neq_Nil_conv split: list.splits)
  qed
  have v: "w1 = w" if "apikeys_ValidateCredentialState ev t u w = (x, w1)" for t u x w1
  proof (cases x)
    case (Inr y) then show ?thesis using apikeys_Validate_Inr that by fast
  next
    case (Inl y) then show ?thesis using that WithTenantTxID_rollback
      unfolding apikeys_ValidateCredentialState_def by fast
  qed
  have "w' = w" using assms Inl unfolding apikeys_svc_Authenticate_def
    by (auto simp: op_try_eq op_ignore_eq dest!: f v split: if_splits)
  then show ?thesis by simp
qed

lemma key_step_dead: "key_step w w' \<Longrightarrow> dead_key i (keys_of w) \<Longrightarrow> dead_key i (keys_of w')"
proof (induction rule: key_step.induct)
  case create then show ?case using apikeys_Create_keys dead_key_append by fastforce
next
  case (revoke s ev fr c entry j w r w')
  have "dead_key i (update_rows t key_TenantID (revocable j) (\<lambda>k. k\<lparr>key_RevokedAt := Some (now ev)\<rparr>) (keys_of w))"
    for t by (rule dead_key_update[OF revoke(3)]) simp_all
  then show ?case using apikeys_Revoke_keys[OF revoke(1,2)] revoke(3) by metis
next
  case (authenticate ev p w r w')
  have "dead_key i (update_rows t key_TenantID (\<lambda>k. key_ID k = j) (\<lambda>k. k\<lparr>key_LastUsedAt := Some (now ev)\<rparr>)
      (keys_of w))" for t j
    by (rule dead_key_update[OF authenticate(2)]) simp_all
  then show ?case using svc_Authenticate_keys[OF authenticate(1)] authenticate(2) by metis
qed auto

lemma key_steps_dead: "key_step\<^sup>*\<^sup>* w w' \<Longrightarrow> dead_key i (keys_of w) \<Longrightarrow> dead_key i (keys_of w')"
  by (induction rule: rtranclp_induct) (auto intro: key_step_dead)

lemma revoked_dead:
  assumes "recorder_ok (aks_audit s)" "distinct (map key_ID (keys_of w))"
    and "apikeys_Revoke ev s fr c entry i w = (Inr u, w')"
  shows "dead_key i (keys_of w')"
proof -
  obtain t k where k: "k \<in> set (keys_of w)" "key_ID k = i" "key_TenantID k = t"
    and u: "keys_of w' = update_rows (Some t) key_TenantID (revocable i) (\<lambda>k. k\<lparr>key_RevokedAt := Some (now ev)\<rparr>) (keys_of w)"
    using apikeys_Revoke_Inr[OF assms(1,3)] by blast
  have "q = k" if "q \<in> set (keys_of w)" "key_ID q = i" for q
    using that k assms(2) by (metis distinct_map inj_on_def)
  then have d: "key_RevokedAt (if rls (Some t) key_TenantID q \<and> revocable i q
      then q\<lparr>key_RevokedAt := Some (now ev)\<rparr> else q) \<noteq> None"
    if "q \<in> set (keys_of w)" "key_ID q = i" for q
    using that k(3) by (auto simp: rls_def revocable_def)
  have i: "key_ID (if b then q\<lparr>key_RevokedAt := x\<rparr> else q) = key_ID q" for b x and q :: api_key by simp
  show ?thesis unfolding dead_key_def u update_rows_def set_map ball_simps bex_simps i using k(1,2) d by blast
qed

section \<open>Scopes\<close>

lemma validate_scopes_Inr:
  "validate_scopes g seen raws = Inr out \<Longrightarrow> distinct out \<and> set out \<inter> set seen = {}
     \<and> set out \<subseteq> TrimSpace ` set raws - {''''} \<and> (g \<noteq> [] \<longrightarrow> set out \<subseteq> set g)"
proof (induction g seen raws arbitrary: out rule: validate_scopes.induct)
  case (2 g seen raw raws)
  let ?s = "TrimSpace raw"
  show ?case
  proof (cases "?s = '''' \<or> ?s \<in> set seen")
    case True
    then have "validate_scopes g seen raws = Inr out" using 2(4) by (auto simp: Let_def split: if_splits)
    moreover have "?s = '''' \<or> \<not> (g \<noteq> [] \<and> ?s \<notin> set g)" using 2(4) by (auto simp: Let_def split: if_splits)
    ultimately show ?thesis using 2(1)[OF refl] 2(2)[OF refl] True by (cases "?s = ''''") auto
  next
    case False
    then obtain o' where "validate_scopes g (?s # seen) raws = Inr o'" "out = ?s # o'"
      and "\<not> (g \<noteq> [] \<and> ?s \<notin> set g)"
      using 2(4) by (auto simp: Let_def split: if_splits sum.splits)
    then show ?thesis using 2(3)[OF refl, of o'] False by auto
  qed
qed simp

lemma validateScopes_Inr:
  "validateScopes s raws = Inr out \<Longrightarrow> out \<noteq> [] \<and> distinct out \<and> set out \<subseteq> TrimSpace ` set raws - {''''}
     \<and> (aks_grantable s \<noteq> [] \<longrightarrow> set out \<subseteq> set (aks_grantable s))"
  unfolding validateScopes_def using validate_scopes_Inr[of "aks_grantable s" "[]" raws out]
  by (auto split: if_splits sum.splits)

section \<open>Properties\<close>

text \<open>A presented key is accepted only if it hashes to a stored key that is neither revoked nor
  expired, whose tenant is active and whose owner, if it has one, is a live, enabled user of
  that tenant; the identity returned is that row's, and the request writes at most its last use.\<close>

theorem api_key_Authenticate_sound:
  assumes "apikeys_svc_Authenticate ev p w = (Inr a, w')"
  shows "LooksLikeAPIKey p \<and> (\<exists>k\<in>set (api_keys (store w)). key_KeyHash k = HashKey ev p \<and> Active ev k
    \<and> a = \<lparr>auth_KeyID = key_ID k, auth_TenantID = key_TenantID k, auth_UserID = key_UserID k, auth_Scopes = key_Scopes k\<rparr>
    \<and> (\<exists>q\<in>set (tenants (store w)). tenant_ID q = key_TenantID k \<and> tenant_Status q = ''active'' \<and> tenant_DeletedAt q = None)
    \<and> (case key_UserID k of None \<Rightarrow> True | Some i \<Rightarrow> \<exists>q\<in>set (users (store w)). user_TenantID q = key_TenantID k
         \<and> user_ID q = i \<and> user_DeletedAt q = None \<and> user_Status q \<noteq> ''disabled'')
    \<and> w' \<in> {w, w\<lparr>store := touch_key ev (Some (key_TenantID k)) (key_ID k) (store w)\<rparr>})"
  using assms by (rule svc_Authenticate_Inr)

text \<open>A request let through by an API key stays inside that key: it runs under the key's tenant, a
  permission gate opens only for a scope of the key, whatever roles its owner has, and the
  routes that require a user session refuse it.\<close>

theorem api_key_request_confined:
  assumes "apikeys_Authenticate ev c w = (Inr c', w1)" and "presentedKey c \<noteq> ''''"
  shows "\<exists>k\<in>set (api_keys (store w)). key_KeyHash k = HashKey ev (presentedKey c) \<and> Active ev k
    \<and> ctx_tenant c' = Some (key_TenantID k)
    \<and> RequirePermission ev' code c' w2 = (if code \<in> set (key_Scopes k) then (Inr c', w2)
        else abort c' CodeForbidden (''api key is not scoped for '' @ code) w2)
    \<and> fst (RequireUserSession c' w2) \<noteq> Inr c'"
proof -
  obtain a where a: "apikeys_svc_Authenticate ev (presentedKey c) w = (Inr a, w1)"
    and o: "(case OverrideFromCredential c (auth_TenantID a) of
          Inl e \<Rightarrow> abort c CodeTenantMismatch ''api key tenant does not match resolved tenant''
        | Inr c' \<Rightarrow> op_return (set_key_identity a c')) w1 = (Inr c', w1)"
    using assms unfolding apikeys_Authenticate_def Let_def
    by (fastforce dest!: op_try_fail_Inr split: if_splits sum.splits)
  then obtain c1 where c1: "OverrideFromCredential c (auth_TenantID a) = Inr c1" "c' = set_key_identity a c1"
    by (auto split: sum.splits)
  have "ctx_tenant c' = Some (auth_TenantID a)" "scopesFromContext c' = Some (auth_Scopes a)"
    "keys c' CtxAPIKeyScopes \<noteq> None"
    using OverrideFromCredential_Inr[OF c1(1)] c1(2)
    by (auto simp: set_key_identity_def Let_def ctx_set_def scopesFromContext_def CtxAPIKeyScopes_def
        CtxAuthenticated_def CtxAPIKeyID_def CtxUserID_def split: option.splits)
  then show ?thesis using svc_Authenticate_Inr[OF a]
    by (auto simp: RequirePermission_key RequireUserSession_def op_return_def op_fail_def)
qed

text \<open>C12: the secret \<open>Create\<close> returns authenticates, until the key expires and while its tenant and owner
  stay active, as the tenant and owner it was created for and with exactly the validated
  scopes, which are distinct and all grantable.\<close>

theorem created_key_authenticates:
  assumes "recorder_ok (aks_audit s)" and "apikeys_Create ev s fr c entry t inp w = (Inr r, w1)"
    and "\<And>l. sql_fault ev2 l = None" and "sha256_hex ev2 = sha256_hex ev"
    and "case ci_ExpiresAt inp of None \<Rightarrow> True | Some e \<Rightarrow> now ev2 \<le> e"
    and "\<exists>q. List.find (\<lambda>q. tenant_ID q = t) (tenants (store w)) = Some q
      \<and> tenant_Status q = ''active'' \<and> tenant_DeletedAt q = None"
    and "count_rows (Some t) user_TenantID (\<lambda>q. user_ID q = ci_OwnerUserID inp \<and> user_DeletedAt q = None
      \<and> user_Status q \<noteq> ''disabled'') (users (store w)) = 1"
  shows "\<exists>scopes w2. apikeys_svc_Authenticate ev2 (cr_Secret r) w1 = (Inr \<lparr>auth_KeyID = fresh_id fr 0,
      auth_TenantID = t, auth_UserID = Some (ci_OwnerUserID inp), auth_Scopes = scopes\<rparr>, w2)
    \<and> validateScopes s (ci_Scopes inp) = Inr scopes \<and> distinct scopes
    \<and> (aks_grantable s = [] \<or> set scopes \<subseteq> set (aks_grantable s))"
proof -
  obtain pre plain scopes buf where v: "validateScopes s (ci_Scopes inp) = Inr scopes"
    and p: "plain = keyPrefixLiteral @ base64url ev buf"
    and st: "store_key ev s fr c entry (new_key ev fr t inp (TrimSpace (ci_Name inp)) pre (HashKey ev plain) scopes) plain w
        = (Inr r, w1)"
    using apikeys_Create_Inr[OF assms(2)] by blast
  let ?k = "new_key ev fr t inp (TrimSpace (ci_Name inp)) pre (HashKey ev plain) scopes"
  from store_key_Inr[OF assms(1) st] obtain xs where r: "cr_Secret r = plain"
    and fresh: "key_KeyHash ?k \<notin> key_KeyHash ` set (keys_of w)"
    and w1: "w1 = logged xs (w\<lparr>store := (store w)\<lparr>api_keys := keys_of w @ [?k]\<rparr>\<rparr>)" by auto
  have "filter (\<lambda>k. key_KeyHash k = HashKey ev2 plain) (keys_of w1) = [?k]"
    using fresh assms(4) by (auto simp: w1 new_key_def HashKey_def filter_empty_conv image_iff)
  then have f: "FindByHash ev2 (HashKey ev2 plain) w1 = (Inr ?k, w1)"
    using assms(3) by (simp add: FindByHash_def WithoutTenantScope_def run_tx_run op_try_def tx_query_def op_return_def)
  have act: "Active ev2 ?k" using assms(5) by (auto simp: Active_def new_key_def split: option.splits)
  obtain q where q: "List.find (\<lambda>q. tenant_ID q = t) (tenants (store w1)) = Some q"
    "tenant_Status q = ''active''" "tenant_DeletedAt q = None" using assms(6) by (auto simp: w1)
  have n: "count_rows (Some t) user_TenantID (\<lambda>q. user_ID q = ci_OwnerUserID inp \<and> user_DeletedAt q = None
      \<and> user_Status q \<noteq> ''disabled'') (users (store w1)) = 1" using assms(7) by (simp add: w1)
  have val: "apikeys_ValidateCredentialState ev2 t (Some (ci_OwnerUserID inp)) w1 = (Inr (), w1)"
    using assms(3) q n unfolding apikeys_ValidateCredentialState_def
    by (simp add: WithTenantTxID_run tx_bind_def tx_query_def require_def tx_return_def)
  have "LooksLikeAPIKey plain" by (simp add: LooksLikeAPIKey_def HasPrefix_def p)
  then have "\<exists>w2. apikeys_svc_Authenticate ev2 plain w1 = (Inr \<lparr>auth_KeyID = fresh_id fr 0,
      auth_TenantID = t, auth_UserID = Some (ci_OwnerUserID inp), auth_Scopes = scopes\<rparr>, w2)"
    using f act val by (simp add: apikeys_svc_Authenticate_def op_try_def op_ignore_def op_return_def new_key_def)
  then show ?thesis using v r validateScopes_Inr[OF v] by auto
qed

text \<open>C13: once a key is revoked, no history of later requests makes it authenticate again.\<close>

theorem revoked_key_never_authenticates:
  assumes "recorder_ok (aks_audit s)" and "distinct (map key_ID (api_keys (store w)))"
    and "apikeys_Revoke ev s fr c entry i w = (Inr u, w1)"
    and "key_step\<^sup>*\<^sup>* w1 w2" and "apikeys_svc_Authenticate ev2 p w2 = (Inr a, w3)"
  shows "auth_KeyID a \<noteq> i"
proof -
  have "dead_key i (keys_of w2)" using key_steps_dead[OF assms(4) revoked_dead[OF assms(1-3)]] .
  then show ?thesis using svc_Authenticate_Inr[OF assms(5)] by (auto simp: dead_key_def Active_def)
qed

section \<open>Witnesses\<close>

definition demo_key :: "uuid \<Rightarrow> string \<Rightarrow> api_key" where
  "demo_key i h = \<lparr>key_ID = i, key_TenantID = 1, key_UserID = Some 10, key_Name = ''ci'',
     key_KeyPrefix = ''sk_live_abcd'', key_KeyHash = h, key_Scopes = [''project:view''],
     key_LastUsedAt = None, key_ExpiresAt = Some (2000 * second), key_RevokedAt = None, key_CreatedAt = 0\<rparr>"

definition demo_key_world :: world where
  "demo_key_world = demo_world\<lparr>store := demo_db\<lparr>api_keys := [demo_key 70 ''hsk_live_abcdef'', demo_key 71 ''hsk_live_other'']\<rparr>\<rparr>"

definition demo_keys_svc :: apikeys_Service where
  "demo_keys_svc = \<lparr>aks_audit = Some audit_Record, aks_grantable = GrantableScopes\<rparr>"

definition demo_entry :: Entry where
  "demo_entry = \<lparr>en_TenantID = 1, en_ActorID = Some 10, en_Action = '''', en_TargetType = '''',
     en_TargetID = None, en_IPAddress = '''', en_UserAgent = '''', en_Metadata = []\<rparr>"

definition demo_key_request :: gctx where
  "demo_key_request = \<lparr>keys = \<lambda>_. None, ctx_tenant = None,
     GetHeader = (\<lambda>h. if h = ''X-API-Key'' then ''sk_live_abcdef'' else ''''), HeaderValues = \<lambda>_. [],
     Query = \<lambda>_. '''', Param = \<lambda>_. '''', Host = '''', ClientIP = '''', UserAgent = ''''\<rparr>"

definition demo_key_input :: CreateInput where
  "demo_key_input = \<lparr>ci_Name = '' ci '', ci_Scopes = [''project:view'', '' project:view ''],
     ci_ExpiresAt = None, ci_OwnerUserID = 10\<rparr>"

lemma recorder_ok_auditor [simp]: "recorder_ok (Some audit_Record)"
  by (simp add: recorder_ok_def auditor.recorder_axioms)

lemma demo_keys_svc_ok: "recorder_ok (aks_audit demo_keys_svc)"
  by (simp add: demo_keys_svc_def)

theorem api_key_Authenticate_sound_witness:
  "\<exists>a w'. apikeys_svc_Authenticate demo_env ''sk_live_abcdef'' demo_key_world = (Inr a, w')
     \<and> (\<exists>k\<in>set (api_keys (store demo_key_world)). key_ID k = auth_KeyID a \<and> Active demo_env k)"
proof -
  have "\<not> isl (fst (apikeys_svc_Authenticate demo_env ''sk_live_abcdef'' demo_key_world))" by code_simp
  from okI[OF this] obtain a w' where
    m: "apikeys_svc_Authenticate demo_env ''sk_live_abcdef'' demo_key_world = (Inr a, w')" by blast
  from api_key_Authenticate_sound[OF m] show ?thesis using m by auto
qed

theorem api_key_request_confined_witness:
  "\<exists>c' k. k \<in> set (api_keys (store demo_key_world)) \<and> ctx_tenant c' = Some (key_TenantID k)
     \<and> fst (RequireUserSession c' demo_key_world) \<noteq> Inr c'"
proof -
  have "\<not> isl (fst (apikeys_Authenticate demo_env demo_key_request demo_key_world))"
    and p: "presentedKey demo_key_request \<noteq> ''''" by code_simp+
  from okI[OF this(1)] obtain c' w1 where
    m: "apikeys_Authenticate demo_env demo_key_request demo_key_world = (Inr c', w1)" by blast
  from api_key_request_confined[OF m p, of _ _ demo_key_world] show ?thesis by blast
qed

theorem created_key_authenticates_witness:
  "\<exists>r w1 w2. apikeys_Create demo_env demo_keys_svc demo_fresh (Some 1) demo_entry 1 demo_key_input demo_world = (Inr r, w1)
     \<and> apikeys_svc_Authenticate demo_env (cr_Secret r) w1 = (Inr \<lparr>auth_KeyID = fresh_id demo_fresh 0,
        auth_TenantID = 1, auth_UserID = Some 10, auth_Scopes = [''project:view'']\<rparr>, w2)"
proof -
  have "\<not> isl (fst (apikeys_Create demo_env demo_keys_svc demo_fresh (Some 1) demo_entry 1 demo_key_input demo_world))"
    and sc: "validateScopes demo_keys_svc (ci_Scopes demo_key_input) = Inr [''project:view'']"
    and q: "(case List.find (\<lambda>q. tenant_ID q = 1) (tenants (store demo_world)) of None \<Rightarrow> False
       | Some q \<Rightarrow> tenant_Status q = ''active'' \<and> tenant_DeletedAt q = None)"
    and n: "count_rows (Some 1) user_TenantID (\<lambda>q. user_ID q = ci_OwnerUserID demo_key_input
       \<and> user_DeletedAt q = None \<and> user_Status q \<noteq> ''disabled'') (users (store demo_world)) = 1"
    and e: "(case ci_ExpiresAt demo_key_input of None \<Rightarrow> True | Some e \<Rightarrow> now demo_env \<le> e)" by code_simp+
  from okI[OF this(1)] obtain r w1 where
    m: "apikeys_Create demo_env demo_keys_svc demo_fresh (Some 1) demo_entry 1 demo_key_input demo_world = (Inr r, w1)" by blast
  have q': "\<exists>q. List.find (\<lambda>q. tenant_ID q = 1) (tenants (store demo_world)) = Some q
      \<and> tenant_Status q = ''active'' \<and> tenant_DeletedAt q = None" using q by (auto split: option.splits)
  show ?thesis using created_key_authenticates[OF demo_keys_svc_ok m _ refl e q' n] m sc
    by (fastforce simp: demo_key_input_def)
qed

theorem revoked_key_never_authenticates_witness:
  "\<exists>u w1 a w3. apikeys_Revoke demo_env demo_keys_svc demo_fresh (Some 1) demo_entry 70 demo_key_world = (Inr u, w1)
     \<and> apikeys_svc_Authenticate demo_env ''sk_live_other'' w1 = (Inr a, w3) \<and> auth_KeyID a \<noteq> 70"
proof -
  let ?r = "apikeys_Revoke demo_env demo_keys_svc demo_fresh (Some 1) demo_entry 70 demo_key_world"
  have r: "\<not> isl (fst ?r)" and a: "\<not> isl (fst (apikeys_svc_Authenticate demo_env ''sk_live_other'' (snd ?r)))"
    and d: "distinct (map key_ID (api_keys (store demo_key_world)))" by code_simp+
  from okI[OF r] obtain u where u: "?r = (Inr u, snd ?r)" by blast
  from okI[OF a] obtain x w3 where x: "apikeys_svc_Authenticate demo_env ''sk_live_other'' (snd ?r) = (Inr x, w3)" by blast
  from revoked_key_never_authenticates[OF demo_keys_svc_ok d u rtranclp.rtrancl_refl x] show ?thesis using u x by blast
qed

end
