(* ===== verification/Paths.thy ===== *)
theory Paths
  imports Gostrings
begin

text \<open>
  What internal/files uses of the standard library: \<open>strings.Split\<close> and \<open>strings.Join\<close>,
  \<open>path/filepath\<close> on Unix (\<open>Clean\<close>, \<open>Join\<close>, \<open>Abs\<close>, \<open>IsAbs\<close>, \<open>Base\<close>; \<open>FromSlash\<close> is the
  identity there) and \<open>mime.FormatMediaType\<close> with one parameter.
\<close>

section \<open>Split and Join\<close>

text \<open>With a one-byte separator.\<close>

fun Split :: "string \<Rightarrow> char \<Rightarrow> string list" where
  "Split [] sep = [[]]"
| "Split (c # s) sep = (if c = sep then [] # Split s sep
     else (case Split s sep of [] \<Rightarrow> [[c]] | x # xs \<Rightarrow> (c # x) # xs))"

fun strings_Join :: "string list \<Rightarrow> char \<Rightarrow> string" where
  "strings_Join [] sep = ''''"
| "strings_Join [s] sep = s"
| "strings_Join (s # t # ss) sep = s @ sep # strings_Join (t # ss) sep"

lemma Split_nonempty [simp]: "Split s c \<noteq> []"
  by (induction s) (auto split: list.splits)

lemma Split_chars: "c \<notin> set s \<Longrightarrow> Split s c = [s]"
  by (induction s) auto

lemma Split_append: "c \<notin> set s \<Longrightarrow> Split (s @ c # r) c = s # Split r c"
  by (induction s) auto

lemma Split_Join: "\<forall>s\<in>set ss. c \<notin> set s \<Longrightarrow> ss \<noteq> [] \<Longrightarrow> Split (strings_Join ss c) c = ss"
  by (induction ss c rule: strings_Join.induct) (simp_all add: Split_chars Split_append)

lemma Join_Cons: "strings_Join (s # ss) c = (if ss = [] then s else s @ c # strings_Join ss c)"
  by (cases ss) auto

lemma Join_append: "xs \<noteq> [] \<Longrightarrow> ys \<noteq> [] \<Longrightarrow> strings_Join (xs @ ys) c = strings_Join xs c @ c # strings_Join ys c"
  by (induction xs) (auto simp: Join_Cons)

lemma Split_append_all: "Split (a @ c # b) c = Split a c @ Split b c"
  by (induction a) (auto split: list.splits)

lemma Join_empty: "strings_Join ss c = '''' \<longleftrightarrow> ss = [] \<or> ss = ['''']"
  by (induction ss c rule: strings_Join.induct) auto

lemma Split_parts: "x \<in> set (Split s c) \<Longrightarrow> c \<notin> set x"
  by (induction s arbitrary: x) (auto split: list.splits if_splits)

section \<open>Package path/filepath\<close>

definition IsAbs :: "string \<Rightarrow> bool" where
  "IsAbs p \<longleftrightarrow> HasPrefix p ''/''"

text \<open>
  \<open>Clean\<close>: empty and \<open>.\<close> elements are dropped, an inner \<open>..\<close> cancels the element before it,
  a \<open>..\<close> that begins a rooted path is dropped. The elements kept so far are in reverse.
\<close>

definition clean_step :: "bool \<Rightarrow> string list \<Rightarrow> string \<Rightarrow> string list" where
  "clean_step rooted out e =
     (if e = '''' \<or> e = ''.'' then out
      else if e = ''..'' then
        (case out of [] \<Rightarrow> if rooted then [] else [''..'']
         | x # xs \<Rightarrow> if x = ''..'' then ''..'' # out else xs)
      else e # out)"

definition clean_elements :: "bool \<Rightarrow> string \<Rightarrow> string list" where
  "clean_elements rooted p = rev (foldl (clean_step rooted) [] (Split p CHR ''/''))"

definition Clean :: "string \<Rightarrow> string" where
  "Clean p = (if p = '''' then ''.''
     else if IsAbs p then CHR ''/'' # strings_Join (clean_elements True p) CHR ''/''
     else (let es = clean_elements False p in if es = [] then ''.'' else strings_Join es CHR ''/''))"

definition Join2 :: "string \<Rightarrow> string \<Rightarrow> string" where
  "Join2 a b = (if a = '''' then (if b = '''' then '''' else Clean b) else Clean (a @ ''/'' @ b))"

definition Abs_path :: "string \<Rightarrow> string \<Rightarrow> string" where
  "Abs_path cwd p = (if IsAbs p then Clean p else Join2 cwd p)"

definition Base :: "string \<Rightarrow> string" where
  "Base p = (if p = '''' then ''.''
     else (let b = last (Split (TrimRight p CHR ''/'') CHR ''/'') in if b = '''' then ''/'' else b))"

text \<open>An element that names an entry of a directory.\<close>

definition plain :: "string \<Rightarrow> bool" where
  "plain e \<longleftrightarrow> e \<noteq> '''' \<and> e \<noteq> ''.'' \<and> e \<noteq> ''..'' \<and> CHR ''/'' \<notin> set e"

lemma clean_step_plain [simp]: "plain e \<Longrightarrow> clean_step rooted out e = e # out"
  by (simp add: clean_step_def plain_def)

lemma clean_steps_plain: "list_all plain es \<Longrightarrow> foldl (clean_step rooted) out es = rev es @ out"
  by (induction es arbitrary: out) auto

lemma plain_Split_Join: "list_all plain es \<Longrightarrow> es \<noteq> [] \<Longrightarrow> Split (strings_Join es CHR ''/'') CHR ''/'' = es"
  by (rule Split_Join) (auto simp: plain_def list_all_iff)

text \<open>The elements of a cleaned path are plain, after some \<open>..\<close> if it is relative.\<close>

lemma clean_steps_rooted:
  "list_all plain out \<Longrightarrow> \<forall>e\<in>set es. CHR ''/'' \<notin> set e \<Longrightarrow> list_all plain (foldl (clean_step True) out es)"
proof (induction es arbitrary: out)
  case (Cons e es)
  have "list_all plain (clean_step True out e)"
  proof (cases "plain e")
    case False
    then have "e = '''' \<or> e = ''.'' \<or> e = ''..''" using Cons.prems by (auto simp: plain_def)
    then show ?thesis using Cons.prems(1) by (cases out) (auto simp: clean_step_def)
  qed (use Cons.prems in simp)
  then show ?case using Cons.IH Cons.prems(2) by simp
qed simp

lemma clean_elements_rooted: "list_all plain (clean_elements True p)"
proof -
  have "list_all plain (foldl (clean_step True) [] (Split p CHR ''/''))"
    by (rule clean_steps_rooted) (auto dest: Split_parts)
  then show ?thesis by (simp add: clean_elements_def list_all_iff)
qed

lemma clean_steps_relative:
  "list_all plain ns \<Longrightarrow> \<forall>e\<in>set es. CHR ''/'' \<notin> set e \<Longrightarrow>
    \<exists>ns' k'. foldl (clean_step False) (ns @ replicate k ''..'') es = ns' @ replicate k' ''..'' \<and> list_all plain ns'"
proof (induction es arbitrary: ns k)
  case (Cons e es)
  have "\<exists>n' k'. clean_step False (ns @ replicate k ''..'') e = n' @ replicate k' ''..'' \<and> list_all plain n'"
  proof (cases "plain e")
    case True
    then have "clean_step False (ns @ replicate k ''..'') e = (e # ns) @ replicate k ''..'' \<and> list_all plain (e # ns)"
      using Cons.prems by simp
    then show ?thesis by blast
  next
    case False
    then consider "e = '''' \<or> e = ''.''" | "e = ''..''" using Cons.prems by (auto simp: plain_def)
    then show ?thesis
    proof cases
      case 1 then show ?thesis using Cons.prems by (auto simp: clean_step_def)
    next
      case 2
      show ?thesis
      proof (cases ns)
        case Nil
        have "clean_step False (ns @ replicate k ''..'') e = [] @ replicate (Suc k) ''..''"
          using 2 Nil by (cases k) (simp_all add: clean_step_def)
        then show ?thesis by (metis list.pred_inject(1))
      next
        case (Cons n ns')
        then have "clean_step False (ns @ replicate k ''..'') e = ns' @ replicate k ''..''" "list_all plain ns'"
          using 2 \<open>list_all plain ns\<close> by (auto simp: clean_step_def plain_def)
        then show ?thesis by blast
      qed
    qed
  qed
  then obtain n' k' where "clean_step False (ns @ replicate k ''..'') e = n' @ replicate k' ''..''" "list_all plain n'" by blast
  then show ?case using Cons.IH[of n' k'] Cons.prems by simp
qed auto

lemma clean_elements_relative: "\<exists>k ns. clean_elements False p = replicate k ''..'' @ ns \<and> list_all plain ns"
proof -
  obtain ns k where "foldl (clean_step False) ([] @ replicate 0 ''..'') (Split p CHR ''/'') = ns @ replicate k ''..''" "list_all plain ns"
    using clean_steps_relative[of "[]" "Split p CHR ''/''" 0] Split_parts by fastforce
  then have "clean_elements False p = replicate k ''..'' @ rev ns" "list_all plain (rev ns)"
    by (simp_all add: clean_elements_def list_all_iff)
  then show ?thesis by blast
qed

section \<open>Cleaned paths\<close>

lemma IsAbs_simps [simp]: "IsAbs (c # p) \<longleftrightarrow> c = CHR ''/''" "\<not> IsAbs ''''"
  by (auto simp: IsAbs_def HasPrefix_def)

lemma IsAbs_append: "IsAbs p \<Longrightarrow> IsAbs (p @ q)"
  by (cases p) auto

lemma Join_plain_head: "list_all plain es \<Longrightarrow> es \<noteq> [] \<Longrightarrow> \<not> IsAbs (strings_Join es CHR ''/'') \<and> strings_Join es CHR ''/'' \<noteq> ''''"
  by (cases es; cases "hd es") (auto simp: Join_Cons plain_def)

lemma Clean_IsAbs: "IsAbs p \<Longrightarrow> \<exists>rs. list_all plain rs \<and> Clean p = CHR ''/'' # strings_Join rs CHR ''/''"
  using clean_elements_rooted by (auto simp: Clean_def)

lemma Abs_path_rooted:
  assumes "IsAbs cwd" "p \<noteq> ''''"
  shows "\<exists>rs. list_all plain rs \<and> Abs_path cwd p = CHR ''/'' # strings_Join rs CHR ''/''"
proof -
  have "cwd \<noteq> ''''" using assms(1) by auto
  then show ?thesis using assms Clean_IsAbs[OF IsAbs_append[OF assms(1)]] Clean_IsAbs[of p]
    by (simp add: Abs_path_def Join2_def)
qed

text \<open>The elements of a relative path that stays inside the directory it starts from.\<close>

definition stays_inside :: "string \<Rightarrow> bool" where
  "stays_inside q \<longleftrightarrow> \<not> (q = ''.'' \<or> IsAbs q \<or> q = ''..'' \<or> HasPrefix q ''../'')"

lemma Clean_inside:
  assumes "stays_inside (Clean p)"
  shows "\<exists>ns. ns \<noteq> [] \<and> list_all plain ns \<and> Clean p = strings_Join ns CHR ''/''"
proof -
  have "\<not> IsAbs p" using assms Clean_IsAbs[of p] by (auto simp: stays_inside_def)
  moreover have "Clean '''' = ''.''" by (simp add: Clean_def)
  then have "p \<noteq> ''''" using assms by (auto simp: stays_inside_def)
  ultimately have p: "p \<noteq> ''''" "\<not> IsAbs p" by blast+
  obtain k ns where es: "clean_elements False p = replicate k ''..'' @ ns" "list_all plain ns"
    using clean_elements_relative by blast
  have q: "Clean p = (if replicate k ''..'' @ ns = [] then ''.'' else strings_Join (replicate k ''..'' @ ns) CHR ''/'')"
    using p es by (simp add: Clean_def)
  have "k = 0"
  proof (cases k)
    case (Suc j)
    then have "Clean p = ''..'' \<or> HasPrefix (Clean p) ''../''"
      unfolding q by (auto simp: Join_Cons HasPrefix_def)
    then show ?thesis using assms by (auto simp: stays_inside_def)
  qed simp
  then show ?thesis using q es(2) assms by (cases "ns = []") (auto simp: stays_inside_def)
qed

lemma Clean_Join_plain:
  assumes "list_all plain ns" "ns \<noteq> []"
  shows "Clean (strings_Join ns CHR ''/'') = strings_Join ns CHR ''/''" and "stays_inside (strings_Join ns CHR ''/'')"
proof -
  have "clean_elements False (strings_Join ns CHR ''/'') = ns"
    using assms by (simp add: clean_elements_def plain_Split_Join clean_steps_plain)
  then show c: "Clean (strings_Join ns CHR ''/'') = strings_Join ns CHR ''/''"
    using Join_plain_head[OF assms] assms(2) by (simp add: Clean_def)
  obtain n ms where n: "ns = n # ms" "plain n" using assms by (cases ns) auto
  have "strings_Join ns CHR ''/'' \<noteq> ''.''" "strings_Join ns CHR ''/'' \<noteq> ''..''"
    using plain_Split_Join[OF assms] n by (force simp: plain_def)+
  moreover have "\<not> HasPrefix (strings_Join ns CHR ''/'') ''../''"
  proof
    assume "HasPrefix (strings_Join ns CHR ''/'') ''../''"
    then obtain r where "strings_Join ns CHR ''/'' = ''..'' @ CHR ''/'' # r" by (auto simp: HasPrefix_def) (metis append_Cons append_Nil append_take_drop_id)
    then have "Split (strings_Join ns CHR ''/'') CHR ''/'' = ''..'' # Split r CHR ''/''" by (simp add: Split_append)
    then show False using plain_Split_Join[OF assms] n by (simp add: plain_def)
  qed
  ultimately show "stays_inside (strings_Join ns CHR ''/'')" using Join_plain_head[OF assms] by (simp add: stays_inside_def)
qed

lemma Join2_rooted:
  assumes "list_all plain rs" "list_all plain ns" "ns \<noteq> []"
  shows "Join2 (CHR ''/'' # strings_Join rs CHR ''/'') (strings_Join ns CHR ''/'') = CHR ''/'' # strings_Join (rs @ ns) CHR ''/''"
proof -
  let ?p = "CHR ''/'' # strings_Join rs CHR ''/'' @ CHR ''/'' # strings_Join ns CHR ''/''"
  have "Split ?p CHR ''/'' = [] # (if rs = [] then [[]] else rs) @ ns"
    using assms by (simp add: Split_append_all plain_Split_Join)
  then have "clean_elements True ?p = rs @ ns"
    using assms by (simp add: clean_elements_def clean_steps_plain clean_step_def)
  then show ?thesis by (simp add: Join2_def Clean_def)
qed

lemma rooted_inj:
  assumes "list_all plain es" "list_all plain fs" "es \<noteq> []" "fs \<noteq> []" "strings_Join es CHR ''/'' = strings_Join fs CHR ''/''"
  shows "es = fs"
  using assms by (metis plain_Split_Join)

section \<open>Package mime\<close>

definition upperhex :: "int \<Rightarrow> char" where
  "upperhex n = char_of (if n < 10 then 48 + n else 55 + n)"

definition isTSpecial :: "char \<Rightarrow> bool" where
  "isTSpecial c \<longleftrightarrow> c \<in> set ''()<>@,;:/[]?='' \<or> byte c = 34 \<or> byte c = 92"

definition isTokenChar :: "char \<Rightarrow> bool" where
  "isTokenChar c \<longleftrightarrow> byte c > 32 \<and> byte c < 127 \<and> \<not> isTSpecial c"

definition isToken :: "string \<Rightarrow> bool" where
  "isToken s \<longleftrightarrow> s \<noteq> '''' \<and> list_all isTokenChar s"

definition needsEncoding :: "string \<Rightarrow> bool" where
  "needsEncoding s \<longleftrightarrow> list_ex (\<lambda>c. (byte c < 32 \<or> byte c > 126) \<and> byte c \<noteq> 9) s"

text \<open>RFC 2231 percent-encoding, and the quoting of a quoted-string.\<close>

definition percent :: "char \<Rightarrow> string" where
  "percent c = (if byte c \<le> 32 \<or> byte c \<ge> 127 \<or> c = CHR ''*'' \<or> byte c = 39 \<or> c = CHR ''%'' \<or> isTSpecial c
     then [CHR ''%'', upperhex (byte c div 16), upperhex (byte c mod 16)] else [c])"

definition quote_char :: "char \<Rightarrow> string" where
  "quote_char c = (if byte c = 34 \<or> byte c = 92 then [char_of (92 :: int), c] else [c])"

text \<open>\<open>mime.FormatMediaType(t, {attribute: value})\<close>, for lower-case tokens \<open>t\<close> and \<open>attribute\<close>.\<close>

definition FormatMediaType :: "string \<Rightarrow> string \<Rightarrow> string \<Rightarrow> string" where
  "FormatMediaType t attribute v = t @ ''; '' @ attribute @
     (if needsEncoding v then ''*='' @ ''utf-8'' @ [char_of (39 :: int), char_of (39 :: int)] @ concat (map percent v)
      else if isToken v then ''='' @ v
      else ''='' @ [char_of (34 :: int)] @ concat (map quote_char v) @ [char_of (34 :: int)])"

lemma byte_of [simp]: "0 \<le> n \<Longrightarrow> n < 256 \<Longrightarrow> byte (char_of n) = n"
  by (simp add: byte_def)

lemma byte_range: "0 \<le> byte c" "byte c < 256"
proof -
  have "byte c = int (of_char c)" by (simp add: byte_def of_nat_of_char)
  moreover have "(of_char c :: nat) < 256" by (rule nat_of_char_less_256)
  ultimately show "0 \<le> byte c" "byte c < 256" by auto
qed

text \<open>No value puts a control byte or a byte above 126 into the header.\<close>

definition header_safe :: "string \<Rightarrow> bool" where
  "header_safe s \<longleftrightarrow> list_all (\<lambda>c. (32 \<le> byte c \<and> byte c \<le> 126) \<or> byte c = 9) s"

lemma header_safe_append [simp]: "header_safe (a @ b) \<longleftrightarrow> header_safe a \<and> header_safe b"
  by (simp add: header_safe_def)

lemma header_safe_concat: "(\<And>c. c \<in> set v \<Longrightarrow> header_safe (f c)) \<Longrightarrow> header_safe (concat (map f v))"
  by (auto simp: header_safe_def list_all_iff)

lemma upperhex_safe: "0 \<le> n \<Longrightarrow> n < 16 \<Longrightarrow> header_safe [upperhex n]"
  by (auto simp: upperhex_def header_safe_def)

lemma percent_safe: "header_safe (percent c)"
proof (cases "byte c \<le> 32 \<or> byte c \<ge> 127 \<or> c = CHR ''*'' \<or> byte c = 39 \<or> c = CHR ''%'' \<or> isTSpecial c")
  case True
  have "header_safe [CHR ''%'']" by (simp add: header_safe_def byte_def)
  moreover have "header_safe [upperhex (byte c div 16)]" "header_safe [upperhex (byte c mod 16)]"
    using byte_range[of c] by (auto intro!: upperhex_safe)
  moreover have "percent c = [CHR ''%''] @ [upperhex (byte c div 16)] @ [upperhex (byte c mod 16)]"
    using True by (simp add: percent_def)
  ultimately show ?thesis by (simp only: header_safe_append)
qed (auto simp: percent_def header_safe_def)

lemma FormatMediaType_safe:
  assumes "header_safe t" "header_safe a"
  shows "header_safe (FormatMediaType t a v)"
proof (cases "needsEncoding v")
  case True
  have "header_safe (concat (map percent v))" by (rule header_safe_concat) (rule percent_safe)
  then show ?thesis using True assms by (simp add: FormatMediaType_def) (simp add: header_safe_def byte_def)
next
  case False
  then have v: "header_safe v" by (fastforce simp: needsEncoding_def header_safe_def list_ex_iff list_all_iff)
  have "header_safe (concat (map quote_char v))"
    by (rule header_safe_concat) (use v in \<open>auto simp: quote_char_def header_safe_def list_all_iff\<close>)
  then show ?thesis using False v assms by (simp add: FormatMediaType_def) (simp add: header_safe_def byte_def)
qed

end
