(* ===== verification/Preferences_Svc.thy ===== *)
theory Preferences_Svc
  imports Audit_Trail Identity_Http Authz_Service Paths
begin

text \<open>
  internal/preferences: per-user settings, created on the first write, and self-service
  profile management (display name, avatar, password), always on the caller's own account.
\<close>

section \<open>entity.go\<close>

definition ThemeSystem :: string where "ThemeSystem = ''system''"
definition ThemeLight :: string where "ThemeLight = ''light''"
definition ThemeDark :: string where "ThemeDark = ''dark''"

definition ActionUserProfileUpdate :: string where "ActionUserProfileUpdate = ''user.profile_updated''"
definition ActionPasswordChanged :: string where "ActionPasswordChanged = ''auth.password_changed''"
definition TargetUser :: string where "TargetUser = ''user''"

text \<open>The zero \<open>time.Time\<close>: 1 January of the year 1.\<close>

definition zero_time :: gotime where "zero_time = - 62135596800 * second"

definition Defaults :: "uuid \<Rightarrow> uuid \<Rightarrow> Preferences" where
  "Defaults tenantID userID = \<lparr>pref_UserID = userID, pref_TenantID = tenantID, pref_Timezone = ''UTC'',
     pref_Locale = ''en-US'', pref_Theme = ThemeDark, pref_EmailNotifications = True, pref_UpdatedAt = zero_time\<rparr>"

record Organization =
  org_ID :: uuid
  org_Name :: string
  org_Slug :: string
  org_PlanCode :: string

record Profile =
  prof_UserID :: uuid
  prof_TenantID :: uuid
  prof_Email :: string
  prof_FullName :: string
  prof_AvatarURL :: "string option"
  prof_Status :: string
  prof_EmailVerifiedAt :: "gotime option"
  prof_LastLoginAt :: "gotime option"
  prof_CreatedAt :: gotime
  prof_Roles :: "string list"
  prof_Permissions :: "string list"
  prof_Preferences :: Preferences
  prof_Organization :: Organization

section \<open>repository.go\<close>

definition preferences_ErrNotFound :: err where "preferences_ErrNotFound = Sentinel ''preferences: not found''"

definition keep_not_found :: "string \<Rightarrow> err \<Rightarrow> err" where
  "keep_not_found msg e = (if errors_is e preferences_ErrNotFound then e else Wrapped msg e)"

definition own_preferences :: "session \<Rightarrow> db \<Rightarrow> uuid \<Rightarrow> Preferences option" where
  "own_preferences sess d userID = select_first sess pref_TenantID (\<lambda>p. pref_UserID p = userID) (user_preferences d)"

definition preferences_Find :: "env \<Rightarrow> ctx \<Rightarrow> uuid \<Rightarrow> (world, err, Preferences) op" where
  "preferences_Find ev c userID = op_map_err (keep_not_found ''preferences: find'')
     (WithTenantTx ev ''preferences.Find'' c (\<lambda>sess.
        tx_map_err (\<lambda>e. if errors_is e ErrRecordNotFound then preferences_ErrNotFound else e)
          (stmt ev ''preferences.Find.first'' (take_row (\<lambda>d. own_preferences sess d userID)))))"

text \<open>
  \<open>INSERT ... ON CONFLICT (user_id) DO UPDATE\<close>: the conflict sees every row, and updating one
  that the policy hides is an error.
\<close>

definition theme_ok :: "Preferences \<Rightarrow> bool" where
  "theme_ok p \<longleftrightarrow> pref_Theme p \<in> {''system'', ''light'', ''dark''}"

definition upsert_preferences :: "session \<Rightarrow> Preferences \<Rightarrow> (db, err, unit) tx" where
  "upsert_preferences sess p =
     tx_bind (tx_query (\<lambda>d. List.find (\<lambda>q. pref_UserID q = pref_UserID p) (user_preferences d))) (\<lambda>old.
     tx_bind (tx_query (\<lambda>d. insert_check (rls sess pref_TenantID p \<and> (case old of None \<Rightarrow> True | Some q \<Rightarrow> rls sess pref_TenantID q))
        (theme_ok p) True
        (old \<noteq> None \<or> pref_UserID p \<in> user_ID ` set (users d) \<and> pref_TenantID p \<in> tenant_ID ` set (tenants d)))) (\<lambda>chk.
     tx_bind (raise chk) (\<lambda>_.
     modify (\<lambda>d. d\<lparr>user_preferences := (case old of None \<Rightarrow> user_preferences d @ [p]
       | Some _ \<Rightarrow> map (\<lambda>q. if pref_UserID q = pref_UserID p
           then q\<lparr>pref_Timezone := pref_Timezone p, pref_Locale := pref_Locale p, pref_Theme := pref_Theme p,
                  pref_EmailNotifications := pref_EmailNotifications p, pref_UpdatedAt := pref_UpdatedAt p\<rparr>
           else q) (user_preferences d))\<rparr>))))"

text \<open>
  A \<open>TIMESTAMPTZ\<close> column counts microseconds: the driver cuts the nanoseconds of a \<open>time.Time\<close> off.
\<close>

definition timestamptz :: "gotime \<Rightarrow> gotime" where
  "timestamptz t = t div 1000 * 1000"

text \<open>
  \<open>prefs.UpdatedAt = time.Now()\<close> is visible to the caller through the pointer, in nanoseconds.
\<close>

definition Upsert :: "env \<Rightarrow> ctx \<Rightarrow> Preferences \<Rightarrow> (world, err, Preferences) op" where
  "Upsert ev c p0 = (let p = p0\<lparr>pref_UpdatedAt := now ev\<rparr> in
     op_map_err (Wrapped ''preferences: upsert'') (WithTenantTx ev ''preferences.Upsert'' c (\<lambda>sess.
       tx_bind (stmt ev ''preferences.Upsert.create'' (upsert_preferences sess
         (p\<lparr>pref_UpdatedAt := timestamptz (pref_UpdatedAt p)\<rparr>))) (\<lambda>_. tx_return p))))"

text \<open>\<open>Scan\<close> leaves the zero record when there is no row.\<close>

definition FindUser :: "env \<Rightarrow> ctx \<Rightarrow> uuid \<Rightarrow> (world, err, user) op" where
  "FindUser ev c userID =
     op_bind (op_map_err (Wrapped ''preferences: find user'') (WithTenantTx ev ''preferences.FindUser'' c (\<lambda>sess.
       stmt ev ''preferences.FindUser.scan'' (tx_query (\<lambda>d. live_user sess d userID))))) (\<lambda>u.
     case u of None \<Rightarrow> op_fail preferences_ErrNotFound
     | Some u \<Rightarrow> if user_ID u = uuid_nil then op_fail preferences_ErrNotFound else op_return u)"

text \<open>An \<open>UPDATE users ... WHERE id = ? AND deleted_at IS NULL\<close> that must affect a row.\<close>

definition write_user :: "session \<Rightarrow> uuid \<Rightarrow> (user \<Rightarrow> user) \<Rightarrow> (db, err, unit) tx" where
  "write_user sess userID f =
     (let P = (\<lambda>u. user_ID u = userID \<and> user_DeletedAt u = None) in
      tx_bind (tx_query (\<lambda>d. count_rows sess user_TenantID P (users d))) (\<lambda>affected.
      tx_bind (modify (\<lambda>d. d\<lparr>users := update_rows sess user_TenantID P f (users d)\<rparr>)) (\<lambda>_.
      require (affected \<noteq> 0) preferences_ErrNotFound)))"

definition preferences_repo_UpdateProfile :: "env \<Rightarrow> ctx \<Rightarrow> uuid \<Rightarrow> string \<Rightarrow> string option \<Rightarrow> (world, err, unit) op" where
  "preferences_repo_UpdateProfile ev c userID fullName avatarURL = op_map_err (keep_not_found ''preferences: update profile'')
     (WithTenantTx ev ''preferences.UpdateProfile'' c (\<lambda>sess. stmt ev ''preferences.UpdateProfile.update''
        (write_user sess userID (\<lambda>u. u\<lparr>user_FullName := fullName, user_AvatarURL := avatarURL, user_UpdatedAt := now ev\<rparr>))))"

definition UpdatePassword :: "env \<Rightarrow> ctx \<Rightarrow> uuid \<Rightarrow> string \<Rightarrow> (world, err, unit) op" where
  "UpdatePassword ev c userID passwordHash = op_map_err (keep_not_found ''preferences: update password'')
     (WithTenantTx ev ''preferences.UpdatePassword'' c (\<lambda>sess. stmt ev ''preferences.UpdatePassword.update''
        (write_user sess userID (\<lambda>u. u\<lparr>user_PasswordHash := Some passwordHash, user_UpdatedAt := now ev\<rparr>))))"

definition RevokeAllRefreshTokens :: "env \<Rightarrow> ctx \<Rightarrow> uuid \<Rightarrow> (world, err, unit) op" where
  "RevokeAllRefreshTokens ev c userID = op_map_err (Wrapped ''preferences: revoke refresh tokens'')
     (WithTenantTx ev ''preferences.RevokeAllRefreshTokens'' c (\<lambda>sess. stmt ev ''preferences.RevokeAllRefreshTokens.update''
        (modify (revoke_tokens ev sess (\<lambda>r. rt_UserID r = userID)))))"

definition OrganizationSummary :: "env \<Rightarrow> ctx \<Rightarrow> uuid \<Rightarrow> (world, err, Organization) op" where
  "OrganizationSummary ev c tenantID = op_map_err (Wrapped ''preferences: organization summary'')
     (WithTenantTx ev ''OrganizationSummary'' c (\<lambda>sess. stmt ev ''OrganizationSummary.scan'' (tx_query (\<lambda>d.
        case List.find (\<lambda>t. tenant_ID t = tenantID) (tenants d) of
          None \<Rightarrow> \<lparr>org_ID = uuid_nil, org_Name = '''', org_Slug = '''', org_PlanCode = ''''\<rparr>
        | Some t \<Rightarrow> \<lparr>org_ID = tenant_ID t, org_Name = tenant_Name t, org_Slug = tenant_Slug t, org_PlanCode = tenant_PlanCode t\<rparr>))))"

text \<open>The slugs of a user's roles, \<open>ORDER BY rank ASC\<close>.\<close>

definition roles_by_rank :: "session \<Rightarrow> uuid \<Rightarrow> db \<Rightarrow> role list" where
  "roles_by_rank sess userID d = sort_key role_Rank [r.
     ur \<leftarrow> select_rows sess ur_TenantID (\<lambda>ur. ur_UserID ur = userID) (user_roles d),
     r \<leftarrow> select_rows sess role_TenantID (\<lambda>r. role_ID r = ur_RoleID ur) (roles d)]"

definition RoleSlugs :: "env \<Rightarrow> ctx \<Rightarrow> uuid \<Rightarrow> (world, err, string list) op" where
  "RoleSlugs ev c userID = op_map_err (Wrapped ''preferences: role slugs'')
     (WithTenantTx ev ''RoleSlugs'' c (\<lambda>sess. stmt ev ''RoleSlugs.pluck''
        (tx_query (\<lambda>d. map role_Slug (roles_by_rank sess userID d)))))"

text \<open>\<open>string_agg(r.slug, ',')\<close>.\<close>

definition string_agg :: "string list \<Rightarrow> string" where
  "string_agg ss = strings_Join ss CHR '',''"

text \<open>The projection of \<open>loadProfileQuery\<close>; the preferences are those of the row or the defaults.\<close>

record profileRecord =
  pr_User :: user
  pr_Timezone :: string
  pr_Locale :: string
  pr_Theme :: string
  pr_EmailNotify :: bool
  pr_UpdatedAt :: "gotime option"
  pr_Organization :: Organization
  pr_RoleSlugs :: string

definition loadProfileQuery :: "session \<Rightarrow> uuid \<Rightarrow> db \<Rightarrow> profileRecord option" where
  "loadProfileQuery sess userID d = (case live_user sess d userID of None \<Rightarrow> None
     | Some u \<Rightarrow> (case List.find (\<lambda>t. tenant_ID t = user_TenantID u) (tenants d) of None \<Rightarrow> None
       | Some t \<Rightarrow> (let up = own_preferences sess d (user_ID u) in Some
           \<lparr>pr_User = u,
            pr_Timezone = (case up of None \<Rightarrow> ''UTC'' | Some p \<Rightarrow> pref_Timezone p),
            pr_Locale = (case up of None \<Rightarrow> ''en-US'' | Some p \<Rightarrow> pref_Locale p),
            pr_Theme = (case up of None \<Rightarrow> ''dark'' | Some p \<Rightarrow> pref_Theme p),
            pr_EmailNotify = (case up of None \<Rightarrow> True | Some p \<Rightarrow> pref_EmailNotifications p),
            pr_UpdatedAt = map_option pref_UpdatedAt up,
            pr_Organization = \<lparr>org_ID = tenant_ID t, org_Name = tenant_Name t, org_Slug = tenant_Slug t, org_PlanCode = tenant_PlanCode t\<rparr>,
            pr_RoleSlugs = string_agg (map role_Slug (roles_by_rank sess userID d))\<rparr>)))"

definition LoadProfile :: "env \<Rightarrow> ctx \<Rightarrow> uuid \<Rightarrow> (world, err, profileRecord) op" where
  "LoadProfile ev c userID =
     op_bind (op_map_err (Wrapped ''preferences: load profile'') (WithTenantTx ev ''LoadProfile'' c (\<lambda>sess.
       stmt ev ''LoadProfile.scan'' (tx_query (loadProfileQuery sess userID))))) (\<lambda>x.
     case x of None \<Rightarrow> op_fail preferences_ErrNotFound
     | Some x \<Rightarrow> if user_ID (pr_User x) = uuid_nil then op_fail preferences_ErrNotFound else op_return x)"


section \<open>service.go\<close>

type_synonym PermissionReader = "env \<Rightarrow> ctx \<Rightarrow> uuid \<Rightarrow> uuid \<Rightarrow> (world, err, string list) op"

record preferences_Service =
  pfs_audit :: "Recorder option"
  pfs_perms :: "PermissionReader option"

definition preferences_Get :: "env \<Rightarrow> ctx \<Rightarrow> uuid \<Rightarrow> uuid \<Rightarrow> (world, err, Preferences) op" where
  "preferences_Get ev c tenantID userID = op_try (preferences_Find ev c userID)
     (\<lambda>e. if errors_is e preferences_ErrNotFound then op_return (Defaults tenantID userID)
        else op_fail (Wrap CodeInternal ''failed to load preferences'' e))
     op_return"

record UpdateInput =
  ui_Timezone :: "string option"
  ui_Locale :: "string option"
  ui_Theme :: "string option"
  ui_EmailNotifications :: "bool option"

text \<open>The merge of \<open>Update\<close>, field by field.\<close>

definition set_bounded :: "string option \<Rightarrow> nat \<Rightarrow> string \<Rightarrow> 'p \<Rightarrow> (string \<Rightarrow> 'p) \<Rightarrow> err + 'p" where
  "set_bounded v n msg p f = (case v of None \<Rightarrow> Inr p | Some raw \<Rightarrow> (let s = TrimSpace raw in
     if s = '''' \<or> length s > n then Inl (New CodeValidation msg) else Inr (f s)))"

definition merge_preferences :: "UpdateInput \<Rightarrow> Preferences \<Rightarrow> err + Preferences" where
  "merge_preferences inp p0 =
     (case set_bounded (ui_Timezone inp) 50 ''timezone must be 1-50 characters'' p0 (\<lambda>s. p0\<lparr>pref_Timezone := s\<rparr>) of Inl e \<Rightarrow> Inl e | Inr p1 \<Rightarrow>
     (case set_bounded (ui_Locale inp) 10 ''locale must be 1-10 characters'' p1 (\<lambda>s. p1\<lparr>pref_Locale := s\<rparr>) of Inl e \<Rightarrow> Inl e | Inr p2 \<Rightarrow>
     (case (case ui_Theme inp of None \<Rightarrow> Inr p2
          | Some t \<Rightarrow> if t = ThemeSystem \<or> t = ThemeLight \<or> t = ThemeDark then Inr (p2\<lparr>pref_Theme := t\<rparr>)
              else Inl (New CodeValidation ''theme must be system, light, or dark'')) of Inl e \<Rightarrow> Inl e | Inr p3 \<Rightarrow>
      Inr (case ui_EmailNotifications inp of None \<Rightarrow> p3 | Some b \<Rightarrow> p3\<lparr>pref_EmailNotifications := b\<rparr>))))"

definition preferences_Update :: "env \<Rightarrow> ctx \<Rightarrow> uuid \<Rightarrow> uuid \<Rightarrow> UpdateInput \<Rightarrow> (world, err, Preferences) op" where
  "preferences_Update ev c tenantID userID inp = op_bind (preferences_Get ev c tenantID userID) (\<lambda>p0.
     op_bind (op_lift (merge_preferences inp p0)) (\<lambda>p.
     op_map_err (Wrap CodeInternal ''failed to save preferences'')
       (Upsert ev c (p\<lparr>pref_TenantID := tenantID, pref_UserID := userID\<rparr>))))"

text \<open>The caller's permissions, best effort.\<close>

definition profile_permissions :: "env \<Rightarrow> preferences_Service \<Rightarrow> ctx \<Rightarrow> uuid \<Rightarrow> uuid \<Rightarrow> world \<Rightarrow> string list \<times> world" where
  "profile_permissions ev s c tenantID userID w = (case pfs_perms s of None \<Rightarrow> ([], w)
     | Some f \<Rightarrow> (case f ev c tenantID userID w of (Inl e, w') \<Rightarrow> ([], w') | (Inr ps, w') \<Rightarrow> (ps, w')))"

definition profile_of :: "uuid \<Rightarrow> uuid \<Rightarrow> profileRecord \<Rightarrow> string list \<Rightarrow> Profile" where
  "profile_of tenantID userID x perms = (let u = pr_User x; d = Defaults tenantID userID in
     \<lparr>prof_UserID = user_ID u, prof_TenantID = tenantID, prof_Email = user_Email u, prof_FullName = user_FullName u,
      prof_AvatarURL = user_AvatarURL u, prof_Status = user_Status u, prof_EmailVerifiedAt = user_EmailVerifiedAt u,
      prof_LastLoginAt = user_LastLoginAt u, prof_CreatedAt = user_CreatedAt u,
      prof_Roles = (if pr_RoleSlugs x = '''' then [] else Split (pr_RoleSlugs x) CHR '',''),
      prof_Permissions = perms,
      prof_Preferences = d\<lparr>pref_Timezone := pr_Timezone x, pref_Locale := pr_Locale x, pref_Theme := pr_Theme x,
        pref_EmailNotifications := pr_EmailNotify x,
        pref_UpdatedAt := (case pr_UpdatedAt x of None \<Rightarrow> pref_UpdatedAt d | Some t \<Rightarrow> t)\<rparr>,
      prof_Organization = pr_Organization x\<rparr>)"

definition GetProfile :: "env \<Rightarrow> preferences_Service \<Rightarrow> ctx \<Rightarrow> uuid \<Rightarrow> uuid \<Rightarrow> (world, err, Profile) op" where
  "GetProfile ev s c tenantID userID = op_try (LoadProfile ev c userID)
     (\<lambda>e. op_fail (if errors_is e preferences_ErrNotFound then New CodeNotFound ''user not found''
        else Wrap CodeInternal ''failed to load profile'' e))
     (\<lambda>x w. (case profile_permissions ev s c tenantID userID w of (perms, w') \<Rightarrow>
        (Inr (profile_of tenantID userID x perms), w')))"

record ProfileInput =
  pfi_FullName :: "string option"
  pfi_AvatarURL :: "string option"
  pfi_ClearAvatar :: bool

definition validateAvatarURL :: "string \<Rightarrow> err option" where
  "validateAvatarURL raw =
     (if raw = '''' then Some (New CodeValidation ''avatar_url cannot be empty; omit it or set clear_avatar'')
      else if length raw > 1000 then Some (New CodeValidation ''avatar_url is too long'')
      else if \<not> HasPrefix raw ''https://'' then Some (New CodeValidation ''avatar_url must be an absolute https:// URL'')
      else None)"

definition new_avatar :: "ProfileInput \<Rightarrow> string option \<Rightarrow> err + string option" where
  "new_avatar inp old = (if pfi_ClearAvatar inp then Inr None
     else (case pfi_AvatarURL inp of None \<Rightarrow> Inr old
       | Some raw \<Rightarrow> (let trimmed = TrimSpace raw in
           case validateAvatarURL trimmed of Some e \<Rightarrow> Inl e | None \<Rightarrow> Inr (Some trimmed))))"

definition preferences_UpdateProfile :: "env \<Rightarrow> preferences_Service \<Rightarrow> fresh \<Rightarrow> ctx \<Rightarrow> Entry \<Rightarrow> uuid \<Rightarrow> uuid \<Rightarrow> ProfileInput
    \<Rightarrow> (world, err, Profile) op" where
  "preferences_UpdateProfile ev s fr c entry tenantID userID inp = op_try (FindUser ev c userID)
     (\<lambda>e. op_fail (Wrap CodeInternal ''failed to load profile'' e))
     (\<lambda>u. op_bind (op_lift (set_bounded (pfi_FullName inp) 255 ''full_name must be 1-255 characters'' (user_FullName u) (\<lambda>n. n))) (\<lambda>fullName.
     op_bind (op_lift (new_avatar inp (user_AvatarURL u))) (\<lambda>avatarURL.
     op_try (preferences_repo_UpdateProfile ev c userID fullName avatarURL)
       (\<lambda>e. op_fail (if errors_is e preferences_ErrNotFound then New CodeNotFound ''user not found''
          else Wrap CodeInternal ''failed to update profile'' e))
       (\<lambda>_. op_bind (record_then ev (pfs_audit s) (fresh_id fr 1)
            (entry\<lparr>en_Action := ActionUserProfileUpdate, en_TargetType := TargetUser, en_TargetID := Some userID\<rparr>) ())
          (\<lambda>_. GetProfile ev s c tenantID userID)))))"

definition ChangePassword :: "env \<Rightarrow> preferences_Service \<Rightarrow> fresh \<Rightarrow> ctx \<Rightarrow> Entry \<Rightarrow> uuid \<Rightarrow> uuid \<Rightarrow> string \<Rightarrow> string
    \<Rightarrow> (world, err, unit) op" where
  "ChangePassword ev s fr c entry tenantID userID currentPassword newPassword = op_try (FindUser ev c userID)
     (\<lambda>e. op_fail (Wrap CodeInternal ''failed to load user'' e))
     (\<lambda>u. case user_PasswordHash u of
        None \<Rightarrow> op_fail (New CodeUnprocessable ''this account has no password set; use the password reset flow instead'')
      | Some h \<Rightarrow>
          if \<not> CheckPassword ev h currentPassword then op_fail (New CodeUnauthorized ''current password is incorrect'')
          else if length newPassword < 8 then op_fail (New CodeValidation ''new password must be at least 8 characters'')
          else if currentPassword = newPassword
          then op_fail (New CodeValidation ''new password must differ from the current password'')
          else op_try (op_lift (HashPassword ev newPassword))
            (\<lambda>e. op_fail (Wrap CodeInternal ''failed to process password'' e))
            (\<lambda>hashed. op_try (UpdatePassword ev c userID hashed)
              (\<lambda>e. op_fail (Wrap CodeInternal ''failed to update password'' e))
              (\<lambda>_. op_try (RevokeAllRefreshTokens ev c userID)
                (\<lambda>e. op_fail (Wrap CodeInternal ''failed to revoke existing sessions'' e))
                (\<lambda>_. record_then ev (pfs_audit s) (fresh_id fr 1)
                   (entry\<lparr>en_Action := ActionPasswordChanged, en_TargetType := TargetUser, en_TargetID := Some userID\<rparr>) ()))))"

section \<open>handler.go\<close>

datatype preferences_data = DPreferences Preferences | DProfile Profile | DPrefMessage string

definition preferences_h_GetProfile :: "env \<Rightarrow> preferences_Service \<Rightarrow> gctx \<Rightarrow> preferences_data handler" where
  "preferences_h_GetProfile ev s c = with_caller c (\<lambda>cl.
     respond c (GetProfile ev s (ctx_tenant c) (TenantID cl) (UserID cl)) (\<lambda>p. Success c 200 (DProfile p)))"

definition preferences_h_UpdateProfile :: "env \<Rightarrow> preferences_Service \<Rightarrow> fresh \<Rightarrow> gctx \<Rightarrow> string + ProfileInput \<Rightarrow> preferences_data handler" where
  "preferences_h_UpdateProfile ev s fr c req = with_caller c (\<lambda>cl. with_body c req (\<lambda>q.
     respond c (preferences_UpdateProfile ev s fr (ctx_tenant c) (EntryFromRequest c ActionUserProfileUpdate) (TenantID cl) (UserID cl) q)
       (\<lambda>p. Success c 200 (DProfile p))))"

definition preferences_h_Get :: "env \<Rightarrow> gctx \<Rightarrow> preferences_data handler" where
  "preferences_h_Get ev c = with_caller c (\<lambda>cl.
     respond c (preferences_Get ev (ctx_tenant c) (TenantID cl) (UserID cl)) (\<lambda>p. Success c 200 (DPreferences p)))"

definition preferences_h_Update :: "env \<Rightarrow> gctx \<Rightarrow> string + UpdateInput \<Rightarrow> preferences_data handler" where
  "preferences_h_Update ev c req = with_caller c (\<lambda>cl. with_body c req (\<lambda>q.
     respond c (preferences_Update ev (ctx_tenant c) (TenantID cl) (UserID cl) q) (\<lambda>p. Success c 200 (DPreferences p))))"

definition preferences_h_ChangePassword :: "env \<Rightarrow> preferences_Service \<Rightarrow> fresh \<Rightarrow> gctx \<Rightarrow> string + string \<times> string
    \<Rightarrow> preferences_data handler" where
  "preferences_h_ChangePassword ev s fr c req = with_caller c (\<lambda>cl. with_body c req (\<lambda>(cur, new).
     respond c (ChangePassword ev s fr (ctx_tenant c) (EntryFromRequest c ActionPasswordChanged) (TenantID cl) (UserID cl) cur new)
       (\<lambda>_. Success c 200 (DPrefMessage ''password changed; other sessions have been signed out''))))"

end
