(* ===== verification/Billing.thy ===== *)
theory Billing
  imports Audit_Trail
begin

text \<open>
  internal/billing: the plan catalog, the tenant's single subscription, kept in step with
  \<open>tenants.plan_code\<close>, and the quota checks the other modules call. \<open>time.Time.AddDate\<close>
  and \<open>%d\<close> formatting, from Go's library, are defined first; the server's zone is UTC.
\<close>

section \<open>Go's calendar and decimal formatting\<close>

text \<open>Days since 1970-01-01 of a proleptic Gregorian date, and back.\<close>

definition days_from_civil :: "int \<Rightarrow> int \<Rightarrow> int \<Rightarrow> int" where
  "days_from_civil y m d =
     (let y = (if m \<le> 2 then y - 1 else y); era = y div 400; yoe = y mod 400;
          doy = (153 * (if m > 2 then m - 3 else m + 9) + 2) div 5 + d - 1
      in era * 146097 + (yoe * 365 + yoe div 4 - yoe div 100 + doy) - 719468)"

definition civil_from_days :: "int \<Rightarrow> int \<times> int \<times> int" where
  "civil_from_days z =
     (let z = z + 719468; era = z div 146097; doe = z mod 146097;
          yoe = (doe - doe div 1460 + doe div 36524 - doe div 146096) div 365;
          doy = doe - (365 * yoe + yoe div 4 - yoe div 100);
          mp = (5 * doy + 2) div 153; d = doy - (153 * mp + 2) div 5 + 1;
          m = (if mp < 10 then mp + 3 else mp - 9); y = yoe + era * 400
      in (if m \<le> 2 then y + 1 else y, m, d))"

text \<open>A day of the month past its end runs into the next month, as in \<open>time.Date\<close>.\<close>

definition AddDate :: "gotime \<Rightarrow> int \<Rightarrow> int \<Rightarrow> gotime" where
  "AddDate t years months =
     (let day = t div (24 * hour); (y, m, d) = civil_from_days day; k = m - 1 + months
      in (days_from_civil (y + years + k div 12) (k mod 12 + 1) 1 + (d - 1)) * (24 * hour) + t mod (24 * hour))"

fun decimal_nat :: "nat \<Rightarrow> string" where
  "decimal_nat n = (if n < 10 then [char_of (48 + n)]
     else decimal_nat (n div 10) @ [char_of (48 + n mod 10)])"

declare decimal_nat.simps [simp del]

definition decimal :: "int \<Rightarrow> string" where
  "decimal i = (if i < 0 then CHR ''-'' # decimal_nat (nat (- i)) else decimal_nat (nat i))"

section \<open>entity.go\<close>

definition PlanFree :: string where "PlanFree = ''free''"
definition StatusActive :: string where "StatusActive = ''active''"

record SubscriptionView =
  sv_Subscription :: "subscription option"
  sv_Plan :: plan

record Usage =
  us_PlanCode :: string
  us_Seats :: int
  us_MaxSeats :: "int option"
  us_Projects :: int
  us_MaxProjects :: "int option"
  us_Teams :: int
  us_StorageBytes :: int
  us_MaxStorageMB :: "int option"

section \<open>repository.go\<close>

definition ErrPlanNotFound :: err where "ErrPlanNotFound = Sentinel ''billing: plan not found''"
definition ErrSubscriptionNotFound :: err where
  "ErrSubscriptionNotFound = Sentinel ''billing: subscription not found''"

definition billing_repo_ListPlans :: "env \<Rightarrow> (world, err, plan list) op" where
  "billing_repo_ListPlans ev = op_map_err (Wrapped ''billing: list plans'')
     (run_stmt ev ''ListPlans'' (tx_query (\<lambda>d.
        sort_key plan_PriceCents (filter plan_IsActive (subscription_plans d)))))"

definition FindPlanByCode :: "env \<Rightarrow> string \<Rightarrow> (world, err, plan) op" where
  "FindPlanByCode ev code = op_map_err
     (\<lambda>e. if errors_is e ErrRecordNotFound then ErrPlanNotFound else Wrapped ''billing: find plan by code'' e)
     (run_stmt ev ''FindPlanByCode'' (take_row (\<lambda>d.
        List.find (\<lambda>p. plan_Code p = code \<and> plan_IsActive p) (subscription_plans d))))"

definition FindPlanByID :: "env \<Rightarrow> uuid \<Rightarrow> (world, err, plan) op" where
  "FindPlanByID ev i = op_map_err
     (\<lambda>e. if errors_is e ErrRecordNotFound then ErrPlanNotFound else Wrapped ''billing: find plan by id'' e)
     (run_stmt ev ''FindPlanByID'' (take_row (\<lambda>d. List.find (\<lambda>p. plan_ID p = i) (subscription_plans d))))"

definition FindSubscription :: "env \<Rightarrow> ctx \<Rightarrow> (world, err, subscription) op" where
  "FindSubscription ev c = op_map_err
     (\<lambda>e. if errors_is e ErrSubscriptionNotFound then e else Wrapped ''billing: find subscription'' e)
     (WithTenantTx ev ''FindSubscription'' c (\<lambda>sess.
        tx_map_err (\<lambda>e. if errors_is e ErrRecordNotFound then ErrSubscriptionNotFound else e)
          (stmt ev ''FindSubscription.first''
            (take_row (\<lambda>d. select_first sess sub_TenantID (\<lambda>_. True) (subscriptions d))))))"

definition insert_subscription :: "session \<Rightarrow> subscription \<Rightarrow> (db, err, unit) tx" where
  "insert_subscription sess s =
     tx_bind (tx_query (\<lambda>d. insert_check (rls sess sub_TenantID s)
        (sub_Status s \<in> {''trialing'', ''active'', ''past_due'', ''canceled''})
        (sub_ID s \<notin> sub_ID ` set (subscriptions d) \<and> sub_TenantID s \<notin> sub_TenantID ` set (subscriptions d))
        (sub_TenantID s \<in> tenant_ID ` set (tenants d) \<and> sub_PlanID s \<in> plan_ID ` set (subscription_plans d))))
       (\<lambda>chk. tx_bind (raise chk) (\<lambda>_.
     modify (\<lambda>d. d\<lparr>subscriptions := subscriptions d @ [s]\<rparr>)))"

text \<open>The \<open>Updates\<close> of an existing row, with the foreign key and CHECK constraints of the columns.\<close>

definition update_subscription :: "env \<Rightarrow> session \<Rightarrow> uuid \<Rightarrow> subscription \<Rightarrow> (db, err, unit) tx" where
  "update_subscription ev sess i s =
     tx_bind (tx_query (\<lambda>d. insert_check True
        (sub_Status s \<in> {''trialing'', ''active'', ''past_due'', ''canceled''}) True
        (sub_PlanID s \<in> plan_ID ` set (subscription_plans d)))) (\<lambda>chk. tx_bind (raise chk) (\<lambda>_.
     modify (\<lambda>d. d\<lparr>subscriptions := update_rows sess sub_TenantID (\<lambda>q. sub_ID q = i)
       (\<lambda>q. q\<lparr>sub_PlanID := sub_PlanID s, sub_Status := sub_Status s,
          sub_ProviderSubscriptionID := sub_ProviderSubscriptionID s,
          sub_CurrentPeriodStart := sub_CurrentPeriodStart s, sub_CurrentPeriodEnd := sub_CurrentPeriodEnd s,
          sub_CancelAtPeriodEnd := sub_CancelAtPeriodEnd s, sub_CanceledAt := sub_CanceledAt s,
          sub_UpdatedAt := now ev\<rparr>) (subscriptions d)\<rparr>)))"

definition set_plan_code :: "env \<Rightarrow> uuid \<Rightarrow> string \<Rightarrow> db \<Rightarrow> db" where
  "set_plan_code ev t code d = d\<lparr>tenants := map (\<lambda>q. if tenant_ID q = t
     then q\<lparr>tenant_PlanCode := code, tenant_UpdatedAt := now ev\<rparr> else q) (tenants d)\<rparr>"

text \<open>The caller's \<open>sub\<close> takes the id and creation time of the row it updates.\<close>

definition UpsertSubscription_tx :: "env \<Rightarrow> subscription \<Rightarrow> string \<Rightarrow> subscription body" where
  "UpsertSubscription_tx ev sub planCode = (\<lambda>sess.
     tx_bind (stmt ev ''Upsert.first'' (tx_query (\<lambda>d.
       select_first sess sub_TenantID (\<lambda>q. sub_TenantID q = sub_TenantID sub) (subscriptions d)))) (\<lambda>existing.
     tx_bind (case existing of
         None \<Rightarrow> tx_bind (stmt ev ''Upsert.create'' (insert_subscription sess sub)) (\<lambda>_. tx_return sub)
       | Some q \<Rightarrow> let sub' = sub\<lparr>sub_ID := sub_ID q, sub_CreatedAt := sub_CreatedAt q\<rparr> in
           tx_bind (stmt ev ''Upsert.update'' (update_subscription ev sess (sub_ID q) sub')) (\<lambda>_.
           tx_return sub')) (\<lambda>sub'.
     tx_bind (stmt ev ''Upsert.tenant'' (modify (set_plan_code ev (sub_TenantID sub) planCode))) (\<lambda>_.
     tx_return sub'))))"

definition UpsertSubscription :: "env \<Rightarrow> subscription \<Rightarrow> string \<Rightarrow> (world, err, subscription) op" where
  "UpsertSubscription ev sub planCode = op_map_err (Wrapped ''billing: upsert subscription'')
     (WithTenantTxID ev ''UpsertSubscription'' (sub_TenantID sub) (UpsertSubscription_tx ev sub planCode))"

record UsageCounts =
  uc_Seats :: int
  uc_Projects :: int
  uc_Teams :: int
  uc_PendingInvitations :: int
  uc_StorageBytes :: int

definition usage_counts :: "session \<Rightarrow> gotime \<Rightarrow> db \<Rightarrow> UsageCounts" where
  "usage_counts sess t d =
     \<lparr>uc_Seats = count_rows sess user_TenantID
        (\<lambda>u. user_DeletedAt u = None \<and> user_Status u \<noteq> ''disabled'') (users d),
      uc_Projects = count_rows sess proj_TenantID (\<lambda>p. proj_DeletedAt p = None) (projects d),
      uc_Teams = count_rows sess team_TenantID (\<lambda>q. team_DeletedAt q = None) (teams d),
      uc_PendingInvitations = count_rows sess inv_TenantID
        (\<lambda>i. inv_Status i = ''pending'' \<and> inv_ExpiresAt i > t) (invitations d),
      uc_StorageBytes = sum_list (map file_SizeBytes (select_rows sess file_TenantID (\<lambda>_. True) (files d)))\<rparr>"

definition CountUsage :: "env \<Rightarrow> ctx \<Rightarrow> gotime \<Rightarrow> (world, err, UsageCounts) op" where
  "CountUsage ev c t = op_map_err (Wrapped ''billing: count usage'')
     (WithTenantTx ev ''CountUsage'' c (\<lambda>sess. stmt ev ''CountUsage.scan'' (tx_query (usage_counts sess t))))"

section \<open>service.go\<close>

record billing_Service =
  bl_audit :: "Recorder option"

definition billing_ListPlans :: "env \<Rightarrow> (world, err, plan list) op" where
  "billing_ListPlans ev = op_map_err (Wrap CodeInternal ''failed to list plans'') (billing_repo_ListPlans ev)"

definition activePlan :: "env \<Rightarrow> ctx \<Rightarrow> (world, err, plan) op" where
  "activePlan ev c = op_try (FindSubscription ev c)
     (\<lambda>e. if errors_is e ErrSubscriptionNotFound
          then op_map_err (Wrap CodeInternal ''failed to load default plan'') (FindPlanByCode ev PlanFree)
          else op_fail (Wrap CodeInternal ''failed to load subscription'' e))
     (\<lambda>sub. op_map_err (Wrap CodeInternal ''failed to load plan'') (FindPlanByID ev (sub_PlanID sub)))"

definition GetSubscription :: "env \<Rightarrow> ctx \<Rightarrow> (world, err, SubscriptionView) op" where
  "GetSubscription ev c = op_try (FindSubscription ev c)
     (\<lambda>e. if errors_is e ErrSubscriptionNotFound
          then op_try (FindPlanByCode ev PlanFree)
            (\<lambda>e. op_fail (Wrap CodeInternal ''failed to load default plan'' e))
            (\<lambda>p. op_return \<lparr>sv_Subscription = None, sv_Plan = p\<rparr>)
          else op_fail (Wrap CodeInternal ''failed to load subscription'' e))
     (\<lambda>sub. op_try (FindPlanByID ev (sub_PlanID sub))
        (\<lambda>e. op_fail (Wrap CodeInternal ''failed to load plan'' e))
        (\<lambda>p. op_return \<lparr>sv_Subscription = Some sub, sv_Plan = p\<rparr>))"

definition currentUsage :: "env \<Rightarrow> ctx \<Rightarrow> string \<Rightarrow> plan \<Rightarrow> (world, err, Usage) op" where
  "currentUsage ev c planCode p = op_try (CountUsage ev c (now ev))
     (\<lambda>e. op_fail (Wrap CodeInternal ''failed to count usage'' e))
     (\<lambda>u. op_return \<lparr>us_PlanCode = planCode, us_Seats = uc_Seats u, us_MaxSeats = plan_MaxSeats p,
        us_Projects = uc_Projects u, us_MaxProjects = plan_MaxProjects p, us_Teams = uc_Teams u,
        us_StorageBytes = uc_StorageBytes u, us_MaxStorageMB = plan_MaxStorageMB p\<rparr>)"

definition exceeds :: "int \<Rightarrow> int option \<Rightarrow> bool" where
  "exceeds n lim \<longleftrightarrow> (case lim of None \<Rightarrow> False | Some k \<Rightarrow> n > k)"

definition new_subscription :: "env \<Rightarrow> uuid \<Rightarrow> uuid \<Rightarrow> plan \<Rightarrow> subscription" where
  "new_subscription ev newID tenantID p = \<lparr>sub_ID = newID, sub_TenantID = tenantID,
     sub_PlanID = plan_ID p, sub_Status = StatusActive, sub_ProviderSubscriptionID = None,
     sub_CurrentPeriodStart = now ev,
     sub_CurrentPeriodEnd = (if plan_BillingPeriod p = ''yearly'' then AddDate (now ev) 1 0 else AddDate (now ev) 0 1),
     sub_CancelAtPeriodEnd = False, sub_CanceledAt = None, sub_CreatedAt = now ev, sub_UpdatedAt = now ev\<rparr>"

text \<open>The end of both mutations: the upsert, the audit entry, the view.\<close>

definition save_subscription :: "env \<Rightarrow> billing_Service \<Rightarrow> fresh \<Rightarrow> Entry \<Rightarrow> uuid \<Rightarrow> string \<Rightarrow> metadata
    \<Rightarrow> subscription \<Rightarrow> plan \<Rightarrow> (world, err, SubscriptionView) op" where
  "save_subscription ev s fr entry tenantID failure md sub p = op_try (UpsertSubscription ev sub (plan_Code p))
     (\<lambda>e. op_fail (Wrap CodeInternal failure e))
     (\<lambda>sub'. record_then ev (bl_audit s) (fresh_id fr 1)
        (entry\<lparr>en_Action := ActionSubscriptionChange, en_TargetType := ''organization'',
           en_TargetID := Some tenantID, en_Metadata := md\<rparr>)
        \<lparr>sv_Subscription = Some sub', sv_Plan = p\<rparr>)"

definition seats_message :: "plan \<Rightarrow> int \<Rightarrow> int \<Rightarrow> string" where
  "seats_message p n k = ''cannot switch to '' @ plan_Name p @ '': '' @ decimal n
     @ '' seats in use exceeds the plan limit of '' @ decimal k @ ''; remove members first''"

definition projects_message :: "plan \<Rightarrow> int \<Rightarrow> int \<Rightarrow> string" where
  "projects_message p n k = ''cannot switch to '' @ plan_Name p @ '': '' @ decimal n
     @ '' projects exceeds the plan limit of '' @ decimal k @ ''; archive or delete projects first''"

definition ChangePlan :: "env \<Rightarrow> billing_Service \<Rightarrow> fresh \<Rightarrow> ctx \<Rightarrow> Entry \<Rightarrow> uuid \<Rightarrow> string
    \<Rightarrow> (world, err, SubscriptionView) op" where
  "ChangePlan ev s fr c entry tenantID planCode = op_try (FindPlanByCode ev planCode)
     (\<lambda>e. op_fail (if errors_is e ErrPlanNotFound then New CodeValidation ''unknown or inactive plan''
                   else Wrap CodeInternal ''failed to load plan'' e))
     (\<lambda>p. op_bind (currentUsage ev c planCode p) (\<lambda>u.
        if exceeds (us_Seats u) (plan_MaxSeats p)
        then op_fail (New CodeUnprocessable (seats_message p (us_Seats u) (the (plan_MaxSeats p))))
        else if exceeds (us_Projects u) (plan_MaxProjects p)
        then op_fail (New CodeUnprocessable (projects_message p (us_Projects u) (the (plan_MaxProjects p))))
        else save_subscription ev s fr entry tenantID ''failed to change plan''
          [(''plan_code'', JStr (plan_Code p)), (''plan_name'', JStr (plan_Name p))]
          (new_subscription ev (fresh_id fr 0) tenantID p) p))"

definition Cancel :: "env \<Rightarrow> billing_Service \<Rightarrow> fresh \<Rightarrow> ctx \<Rightarrow> Entry \<Rightarrow> uuid
    \<Rightarrow> (world, err, SubscriptionView) op" where
  "Cancel ev s fr c entry tenantID = op_try (FindSubscription ev c)
     (\<lambda>e. op_fail (if errors_is e ErrSubscriptionNotFound
            then New CodeNotFound ''no active paid subscription to cancel''
            else Wrap CodeInternal ''failed to load subscription'' e))
     (\<lambda>sub. let sub = sub\<lparr>sub_CancelAtPeriodEnd := True, sub_CanceledAt := Some (now ev), sub_UpdatedAt := now ev\<rparr> in
        op_try (FindPlanByID ev (sub_PlanID sub))
          (\<lambda>e. op_fail (Wrap CodeInternal ''failed to load plan'' e))
          (\<lambda>p. save_subscription ev s fr entry tenantID ''failed to cancel subscription''
             [(''canceled'', JBool True), (''effective'', JTime (sub_CurrentPeriodEnd sub))] sub p))"

definition GetUsage :: "env \<Rightarrow> ctx \<Rightarrow> (world, err, Usage) op" where
  "GetUsage ev c = op_bind (GetSubscription ev c) (\<lambda>v. currentUsage ev c (plan_Code (sv_Plan v)) (sv_Plan v))"

definition CheckProjectQuota :: "env \<Rightarrow> ctx \<Rightarrow> uuid \<Rightarrow> int \<Rightarrow> (world, err, unit) op" where
  "CheckProjectQuota ev c tenantID currentCount = op_bind (activePlan ev c) (\<lambda>p.
     case plan_MaxProjects p of None \<Rightarrow> op_return ()
     | Some k \<Rightarrow> if currentCount \<ge> k
         then op_fail (New CodeForbidden (''the '' @ plan_Name p @ '' plan allows '' @ decimal k
                @ '' projects; upgrade to add more''))
         else op_return ())"

definition CheckSeatQuota :: "env \<Rightarrow> ctx \<Rightarrow> uuid \<Rightarrow> (world, err, unit) op" where
  "CheckSeatQuota ev c tenantID = op_bind (activePlan ev c) (\<lambda>p.
     case plan_MaxSeats p of None \<Rightarrow> op_return ()
     | Some k \<Rightarrow> op_try (CountUsage ev c (now ev))
         (\<lambda>e. op_fail (Wrap CodeInternal ''failed to count seat usage'' e))
         (\<lambda>u. if wrap64 (uc_Seats u + uc_PendingInvitations u) \<ge> k
            then op_fail (New CodeForbidden (''the '' @ plan_Name p @ '' plan allows '' @ decimal k @ '' seats (''
                   @ decimal (uc_Seats u) @ '' used, '' @ decimal (uc_PendingInvitations u)
                   @ '' pending invites); upgrade to invite more''))
            else op_return ()))"

definition CheckStorageQuota :: "env \<Rightarrow> ctx \<Rightarrow> int \<Rightarrow> (world, err, unit) op" where
  "CheckStorageQuota ev c additionalBytes =
     (if additionalBytes \<le> 0 then op_fail (New CodeValidation ''file size must be greater than zero'')
      else op_bind (activePlan ev c) (\<lambda>p.
        case plan_MaxStorageMB p of None \<Rightarrow> op_return ()
        | Some mb \<Rightarrow> op_try (CountUsage ev c (now ev))
            (\<lambda>e. op_fail (Wrap CodeInternal ''failed to count storage usage'' e))
            (\<lambda>u. if uc_StorageBytes u > wrap64 (wrap64 (wrap64 (mb * 1024) * 1024) - additionalBytes)
               then op_fail (New CodeForbidden (''the '' @ plan_Name p @ '' plan allows '' @ decimal mb
                      @ '' MB of storage; delete files or upgrade before uploading more''))
               else op_return ())))"

section \<open>handler.go\<close>

datatype billing_data = DPlans "plan list" | DSubscription SubscriptionView | DUsage Usage

definition billing_h_ListPlans :: "env \<Rightarrow> gctx \<Rightarrow> billing_data handler" where
  "billing_h_ListPlans ev c = respond c (billing_ListPlans ev) (\<lambda>ps. Success c 200 (DPlans ps))"

definition billing_h_GetSubscription :: "env \<Rightarrow> gctx \<Rightarrow> billing_data handler" where
  "billing_h_GetSubscription ev c = with_caller c (\<lambda>_.
     respond c (GetSubscription ev (ctx_tenant c)) (\<lambda>v. Success c 200 (DSubscription v)))"

definition billing_h_GetUsage :: "env \<Rightarrow> gctx \<Rightarrow> billing_data handler" where
  "billing_h_GetUsage ev c = with_caller c (\<lambda>_.
     respond c (GetUsage ev (ctx_tenant c)) (\<lambda>u. Success c 200 (DUsage u)))"

definition billing_h_ChangePlan :: "env \<Rightarrow> billing_Service \<Rightarrow> fresh \<Rightarrow> gctx \<Rightarrow> string + string \<Rightarrow> billing_data handler" where
  "billing_h_ChangePlan ev s fr c req = with_caller c (\<lambda>cl. with_body c req (\<lambda>planCode.
     respond c (ChangePlan ev s fr (ctx_tenant c) (EntryFromRequest c ActionSubscriptionChange) (TenantID cl) planCode)
       (\<lambda>v. Success c 200 (DSubscription v))))"

definition billing_h_Cancel :: "env \<Rightarrow> billing_Service \<Rightarrow> fresh \<Rightarrow> gctx \<Rightarrow> billing_data handler" where
  "billing_h_Cancel ev s fr c = with_caller c (\<lambda>cl.
     respond c (Cancel ev s fr (ctx_tenant c) (EntryFromRequest c ActionSubscriptionChange) (TenantID cl))
       (\<lambda>v. Success c 200 (DSubscription v)))"

section \<open>Sanity of the calendar\<close>

text \<open>2024-01-31 plus a month is 2024-03-02, and 2024-02-29 plus a year 2025-03-01.\<close>

lemma AddDate_examples:
  "AddDate (days_from_civil 2024 1 31 * (24 * hour)) 0 1 = days_from_civil 2024 3 2 * (24 * hour)"
  "AddDate (days_from_civil 2024 2 29 * (24 * hour) + 5) 1 0 = days_from_civil 2025 3 1 * (24 * hour) + 5"
  "civil_from_days 0 = (1970, 1, 1)" "civil_from_days 19782 = (2024, 2, 29)"
  by code_simp+

end
