(* ===== verification/Billing_Facts.thy ===== *)
theory Billing_Facts
  imports Billing Identity_Facts
begin

text \<open>
  What the billing operations read and write: the plan a tenant is on, the quota checks as
  predicates on the database, and the agreement between \<open>subscriptions\<close> and
  \<open>tenants.plan_code\<close>.
\<close>

section \<open>Lookups\<close>

lemma op_map_err_reads': "(\<And>r w'. m w = (r, w') \<Longrightarrow> w' = w) \<Longrightarrow> op_map_err g m w = (r, w') \<Longrightarrow> w' = w"
  by (auto simp: op_map_err_eq)

lemma FindPlanByCode_reads: "FindPlanByCode ev code w = (r, w') \<Longrightarrow> w' = w"
  unfolding FindPlanByCode_def by (auto simp: op_map_err_eq dest: run_stmt_reads[OF reads_only_take])

lemma FindPlanByID_reads: "FindPlanByID ev i w = (r, w') \<Longrightarrow> w' = w"
  unfolding FindPlanByID_def by (auto simp: op_map_err_eq dest: run_stmt_reads[OF reads_only_take])

lemma FindPlanByCode_Inr: "FindPlanByCode ev code w = (Inr p, w') \<Longrightarrow>
    w' = w \<and> List.find (\<lambda>p. plan_Code p = code \<and> plan_IsActive p) (subscription_plans (store w)) = Some p"
  unfolding FindPlanByCode_def op_map_err_Inr by (auto dest!: run_stmt_Inr simp: tx_inv)

lemma FindPlanByID_Inr: "FindPlanByID ev i w = (Inr p, w') \<Longrightarrow>
    w' = w \<and> List.find (\<lambda>p. plan_ID p = i) (subscription_plans (store w)) = Some p"
  unfolding FindPlanByID_def op_map_err_Inr by (auto dest!: run_stmt_Inr simp: tx_inv)

lemma FindSubscription_reads: "FindSubscription ev c w = (r, w') \<Longrightarrow> w' = w"
  unfolding FindSubscription_def
  by (erule op_map_err_reads'[rotated], erule WithTenantTx_reads[rotated]) (auto intro!: reads_only_map_err reads_only_stmt)

lemma FindSubscription_Inr: "FindSubscription ev c w = (Inr s, w') \<Longrightarrow>
    w' = w \<and> (\<exists>t. c = Some t \<and> select_first (Some t) sub_TenantID (\<lambda>_. True) (subscriptions (store w)) = Some s)"
  unfolding FindSubscription_def op_map_err_Inr by (auto dest!: WithTenantTx_ok simp: tx_inv)

lemma FindSubscription_missing:
  assumes "FindSubscription ev (Some t) w = (Inl e, w')" "errors_is e ErrSubscriptionNotFound"
  shows "select_first (Some t) sub_TenantID (\<lambda>_. True) (subscriptions (store w)) = None"
  using assms unfolding FindSubscription_def WithTenantTx_def TenantIDFromContext_def WithTenantTxID_def run_tx_def
    set_tenant_def
  by (auto simp: op_map_err_eq tx_bind_Inl tx_map_err_def tx_bind_def stmt_def ErrSubscriptionNotFound_def
      ErrRecordNotFound_def take_row_def tx_fail_def tx_return_def split: option.splits sum.splits if_splits)

lemma CountUsage_reads: "CountUsage ev c t w = (r, w') \<Longrightarrow> w' = w"
  unfolding CountUsage_def
  by (erule op_map_err_reads'[rotated], erule WithTenantTx_reads[rotated]) (auto intro!: reads_only_stmt)

lemma CountUsage_Inr: "CountUsage ev c n w = (Inr u, w') \<Longrightarrow>
    w' = w \<and> (\<exists>t. c = Some t \<and> u = usage_counts (Some t) n (store w))"
  unfolding CountUsage_def op_map_err_Inr by (auto dest!: WithTenantTx_ok simp: tx_inv)

section \<open>The plan a tenant is on\<close>

definition effective_plan :: "uuid \<Rightarrow> db \<Rightarrow> plan option" where
  "effective_plan t d = (case select_first (Some t) sub_TenantID (\<lambda>_. True) (subscriptions d) of
     None \<Rightarrow> List.find (\<lambda>p. plan_Code p = PlanFree \<and> plan_IsActive p) (subscription_plans d)
   | Some s \<Rightarrow> List.find (\<lambda>p. plan_ID p = sub_PlanID s) (subscription_plans d))"

lemma activePlan_reads: "activePlan ev c w = (r, w') \<Longrightarrow> w' = w"
  unfolding activePlan_def op_try_eq
  by (auto simp: op_map_err_eq split: if_splits dest!: FindSubscription_reads FindPlanByCode_reads FindPlanByID_reads)

lemma activePlan_Inr:
  assumes "activePlan ev (Some t) w = (Inr p, w')"
  shows "w' = w \<and> effective_plan t (store w) = Some p"
  using assms activePlan_reads[OF assms] unfolding activePlan_def op_try_eq
  by (auto simp: op_map_err_eq effective_plan_def split: if_splits dest: FindSubscription_reads
      dest!: FindSubscription_missing FindPlanByCode_Inr FindPlanByID_Inr FindSubscription_Inr)

lemma find_run:
  "(\<And>l. sql_fault ev l = None) \<Longrightarrow> q (store w) = Some r \<Longrightarrow> run_stmt ev l (take_row q) w = (Inr r, w)"
  by (simp add: run_stmt_def take_row_def)

lemma activePlan_run:
  assumes "\<And>l. sql_fault ev l = None" "effective_plan t (store w) = Some p"
  shows "activePlan ev (Some t) w = (Inr p, w)"
proof (cases "select_first (Some t) sub_TenantID (\<lambda>_. True) (subscriptions (store w))")
  case None
  then have "FindSubscription ev (Some t) w = (Inl ErrSubscriptionNotFound, w)"
    using assms(1) by (simp add: FindSubscription_def WithTenantTx_run op_map_err_def op_try_def tx_map_err_def
        take_row_def op_fail_def ErrSubscriptionNotFound_def ErrRecordNotFound_def)
  moreover have "FindPlanByCode ev PlanFree w = (Inr p, w)"
    using assms None by (simp add: FindPlanByCode_def effective_plan_def find_run op_map_err_def op_try_def op_return_def)
  ultimately show ?thesis
    by (simp add: activePlan_def op_try_def op_map_err_def op_return_def ErrSubscriptionNotFound_def)
next
  case (Some s)
  then have "FindSubscription ev (Some t) w = (Inr s, w)"
    using assms(1) by (simp add: FindSubscription_def WithTenantTx_run op_map_err_def op_try_def tx_map_err_def
        take_row_def op_return_def)
  moreover have "FindPlanByID ev (sub_PlanID s) w = (Inr p, w)"
    using assms Some by (simp add: FindPlanByID_def effective_plan_def find_run op_map_err_def op_try_def op_return_def)
  ultimately show ?thesis by (simp add: activePlan_def op_try_def op_map_err_def op_return_def)
qed

section \<open>Quotas\<close>

definition seats_used :: "uuid \<Rightarrow> gotime \<Rightarrow> db \<Rightarrow> int" where
  "seats_used t n d = uc_Seats (usage_counts (Some t) n d) + uc_PendingInvitations (usage_counts (Some t) n d)"

text \<open>One more seat fits the plan; the sum is an \<open>int64\<close>.\<close>

definition seats_left :: "env \<Rightarrow> uuid \<Rightarrow> db \<Rightarrow> bool" where
  "seats_left ev t d \<longleftrightarrow> (\<exists>p. effective_plan t d = Some p
     \<and> (case plan_MaxSeats p of None \<Rightarrow> True | Some k \<Rightarrow> wrap64 (seats_used t (now ev) d) < k))"

lemma CheckSeatQuota_reads: "CheckSeatQuota ev c t w = (r, w') \<Longrightarrow> w' = w"
  unfolding CheckSeatQuota_def op_bind_eq
  by (auto simp: op_try_eq split: option.splits if_splits dest!: activePlan_reads CountUsage_reads)

lemma CheckSeatQuota_Inr:
  assumes "CheckSeatQuota ev (Some t) t' w = (Inr u, w')"
  shows "seats_left ev t (store w)"
proof -
  obtain p w1 where p: "activePlan ev (Some t) w = (Inr p, w1)"
    and r: "(case plan_MaxSeats p of None \<Rightarrow> op_return ()
     | Some k \<Rightarrow> op_try (CountUsage ev (Some t) (now ev))
         (\<lambda>e. op_fail (Wrap CodeInternal ''failed to count seat usage'' e))
         (\<lambda>u. if wrap64 (uc_Seats u + uc_PendingInvitations u) \<ge> k
            then op_fail (New CodeForbidden (''the '' @ plan_Name p @ '' plan allows '' @ decimal k @ '' seats (''
                   @ decimal (uc_Seats u) @ '' used, '' @ decimal (uc_PendingInvitations u)
                   @ '' pending invites); upgrade to invite more''))
            else op_return ())) w1 = (Inr u, w')"
    using assms unfolding CheckSeatQuota_def op_bind_Inr by blast
  show ?thesis
  proof (cases "plan_MaxSeats p")
    case None then show ?thesis using activePlan_Inr[OF p] by (auto simp: seats_left_def)
  next
    case (Some k)
    then obtain x w2 where "CountUsage ev (Some t) (now ev) w = (Inr x, w2)" "wrap64 (uc_Seats x + uc_PendingInvitations x) < k"
      using r activePlan_Inr[OF p] by (auto dest!: op_try_fail_Inr split: if_splits)
    then show ?thesis using activePlan_Inr[OF p] Some CountUsage_Inr by (fastforce simp: seats_left_def seats_used_def)
  qed
qed

section \<open>Writes\<close>

abbreviation subs_of :: "world \<Rightarrow> subscription list" where "subs_of w \<equiv> subscriptions (store w)"

definition upserted :: "env \<Rightarrow> subscription \<Rightarrow> db \<Rightarrow> subscription list" where
  "upserted ev sub d = (case select_first (Some (sub_TenantID sub)) sub_TenantID (\<lambda>_. True) (subscriptions d) of
     None \<Rightarrow> subscriptions d @ [sub]
   | Some x \<Rightarrow> update_rows (Some (sub_TenantID sub)) sub_TenantID (\<lambda>q. sub_ID q = sub_ID x)
       (\<lambda>q. q\<lparr>sub_PlanID := sub_PlanID sub, sub_Status := sub_Status sub,
          sub_ProviderSubscriptionID := sub_ProviderSubscriptionID sub,
          sub_CurrentPeriodStart := sub_CurrentPeriodStart sub, sub_CurrentPeriodEnd := sub_CurrentPeriodEnd sub,
          sub_CancelAtPeriodEnd := sub_CancelAtPeriodEnd sub, sub_CanceledAt := sub_CanceledAt sub,
          sub_UpdatedAt := now ev\<rparr>) (subscriptions d))"

lemma select_first_tenant:
  "select_first (Some t) ten (\<lambda>q. ten q = t) rows = select_first (Some t) ten (\<lambda>_. True) rows"
  unfolding select_first_def rls_def by (rule arg_cong[where f = "\<lambda>P. List.find P rows"]) auto

lemma UpsertSubscription_Inr:
  assumes "UpsertSubscription ev sub code w = (Inr sub', w')"
  shows "w' = w\<lparr>store := set_plan_code ev (sub_TenantID sub) code ((store w)\<lparr>subscriptions := upserted ev sub (store w)\<rparr>)\<rparr>
    \<and> sub_PlanID sub' = sub_PlanID sub \<and> sub_TenantID sub' = sub_TenantID sub"
proof -
  obtain d where m: "UpsertSubscription_tx ev sub code (Some (sub_TenantID sub)) (store w) = Inr (sub', d)"
    and w': "w' = w\<lparr>store := d\<rparr>"
    using WithTenantTxID_ok[OF assms[unfolded UpsertSubscription_def op_map_err_Inr]] by blast
  show ?thesis
  proof (cases "select_first (Some (sub_TenantID sub)) sub_TenantID (\<lambda>_. True) (subs_of w)")
    case None
    then show ?thesis using m w' unfolding UpsertSubscription_tx_def
      by (auto simp: tx_inv select_first_tenant upserted_def insert_subscription_def)
  next
    case (Some x)
    then show ?thesis using m w' unfolding UpsertSubscription_tx_def Let_def
      by (auto simp: tx_inv select_first_tenant upserted_def update_subscription_def)
  qed
qed

lemma save_subscription_Inr:
  assumes "recorder_ok (bl_audit s)" "save_subscription ev s fr entry t f md sub p w = (Inr v, w')"
  shows "\<exists>xs sub'. w' = logged xs (w\<lparr>store := set_plan_code ev (sub_TenantID sub) (plan_Code p)
      ((store w)\<lparr>subscriptions := upserted ev sub (store w)\<rparr>)\<rparr>)
    \<and> al_TenantID ` set xs \<subseteq> {en_TenantID entry} \<and> v = \<lparr>sv_Subscription = Some sub', sv_Plan = p\<rparr>
    \<and> sub_PlanID sub' = sub_PlanID sub \<and> sub_TenantID sub' = sub_TenantID sub"
proof -
  obtain sub' w1 where u: "UpsertSubscription ev sub (plan_Code p) w = (Inr sub', w1)"
    and r: "record_then ev (bl_audit s) (fresh_id fr 1)
        (entry\<lparr>en_Action := ActionSubscriptionChange, en_TargetType := ''organization'',
           en_TargetID := Some t, en_Metadata := md\<rparr>)
        \<lparr>sv_Subscription = Some sub', sv_Plan = p\<rparr> w1 = (Inr v, w')"
    using op_try_fail_Inr[OF assms(2)[unfolded save_subscription_def]] by blast
  show ?thesis using UpsertSubscription_Inr[OF u] record_then_logged[OF assms(1) r] by auto
qed

lemma save_subscription_Inl: "save_subscription ev s fr entry t f md sub p w = (Inl e, w') \<Longrightarrow> w' = w"
  unfolding save_subscription_def UpsertSubscription_def record_then_def op_try_eq op_map_err_eq
  by (auto dest: WithTenantTxID_rollback)

lemma currentUsage_Inr: "currentUsage ev c code p w = (Inr u, w') \<Longrightarrow> w' = w \<and> (\<exists>t. c = Some t
    \<and> us_Seats u = uc_Seats (usage_counts (Some t) (now ev) (store w))
    \<and> us_Projects u = uc_Projects (usage_counts (Some t) (now ev) (store w))
    \<and> us_StorageBytes u = uc_StorageBytes (usage_counts (Some t) (now ev) (store w)))"
  unfolding currentUsage_def by (auto dest!: op_try_fail_Inr CountUsage_Inr)

lemma currentUsage_reads: "currentUsage ev c code p w = (r, w') \<Longrightarrow> w' = w"
  unfolding currentUsage_def op_try_eq by (auto dest!: CountUsage_reads)

text \<open>A mutation either changes nothing or is one upsert with a plan of the catalog.\<close>

lemma ChangePlan_Inr:
  assumes "ChangePlan ev s fr c entry t code w = (Inr v, w')"
  shows "\<exists>p tn md. c = Some tn \<and> List.find (\<lambda>p. plan_Code p = code \<and> plan_IsActive p) (subscription_plans (store w)) = Some p
    \<and> \<not> exceeds (uc_Seats (usage_counts c (now ev) (store w))) (plan_MaxSeats p)
    \<and> \<not> exceeds (uc_Projects (usage_counts c (now ev) (store w))) (plan_MaxProjects p)
    \<and> save_subscription ev s fr entry t ''failed to change plan'' md (new_subscription ev (fresh_id fr 0) t p) p w = (Inr v, w')"
proof -
  obtain p w1 where p: "FindPlanByCode ev code w = (Inr p, w1)" and r: "op_bind (currentUsage ev c code p) (\<lambda>u.
        if exceeds (us_Seats u) (plan_MaxSeats p)
        then op_fail (New CodeUnprocessable (seats_message p (us_Seats u) (the (plan_MaxSeats p))))
        else if exceeds (us_Projects u) (plan_MaxProjects p)
        then op_fail (New CodeUnprocessable (projects_message p (us_Projects u) (the (plan_MaxProjects p))))
        else save_subscription ev s fr entry t ''failed to change plan''
          [(''plan_code'', JStr (plan_Code p)), (''plan_name'', JStr (plan_Name p))]
          (new_subscription ev (fresh_id fr 0) t p) p) w1 = (Inr v, w')"
    using op_try_fail_Inr[OF assms[unfolded ChangePlan_def]] by blast
  obtain u w2 where u: "currentUsage ev c code p w1 = (Inr u, w2)"
    and s: "\<not> exceeds (us_Seats u) (plan_MaxSeats p)" "\<not> exceeds (us_Projects u) (plan_MaxProjects p)"
      "\<exists>md. save_subscription ev s fr entry t ''failed to change plan'' md
          (new_subscription ev (fresh_id fr 0) t p) p w2 = (Inr v, w')"
    using r unfolding op_bind_Inr by (auto split: if_splits)
  show ?thesis using FindPlanByCode_Inr[OF p] currentUsage_Inr[OF u] s by auto
qed

lemma Cancel_Inr:
  assumes "Cancel ev s fr c entry t w = (Inr v, w')"
  shows "\<exists>p tn q md. c = Some tn \<and> select_first c sub_TenantID (\<lambda>_. True) (subs_of w) = Some q
    \<and> List.find (\<lambda>p. plan_ID p = sub_PlanID q) (subscription_plans (store w)) = Some p
    \<and> save_subscription ev s fr entry t ''failed to cancel subscription'' md
        (q\<lparr>sub_CancelAtPeriodEnd := True, sub_CanceledAt := Some (now ev), sub_UpdatedAt := now ev\<rparr>) p w = (Inr v, w')"
proof -
  obtain q w1 where q: "FindSubscription ev c w = (Inr q, w1)" and r: "(let sub =
       q\<lparr>sub_CancelAtPeriodEnd := True, sub_CanceledAt := Some (now ev), sub_UpdatedAt := now ev\<rparr> in
        op_try (FindPlanByID ev (sub_PlanID sub))
          (\<lambda>e. op_fail (Wrap CodeInternal ''failed to load plan'' e))
          (\<lambda>p. save_subscription ev s fr entry t ''failed to cancel subscription''
             [(''canceled'', JBool True), (''effective'', JTime (sub_CurrentPeriodEnd sub))] sub p)) w1 = (Inr v, w')"
    using op_try_fail_Inr[OF assms[unfolded Cancel_def]] by blast
  from op_try_fail_Inr[OF r[unfolded Let_def]] obtain p w2 where p: "FindPlanByID ev (sub_PlanID q) w1 = (Inr p, w2)"
    and s: "\<exists>md. save_subscription ev s fr entry t ''failed to cancel subscription'' md
        (q\<lparr>sub_CancelAtPeriodEnd := True, sub_CanceledAt := Some (now ev), sub_UpdatedAt := now ev\<rparr>) p w2 = (Inr v, w')"
    by auto
  show ?thesis using FindSubscription_Inr[OF q] FindPlanByID_Inr[OF p] s by auto
qed

lemma ChangePlan_Inl:
  assumes "ChangePlan ev s fr c entry t code w = (Inl e, w')"
  shows "w' = w"
proof -
  let ?k = "\<lambda>p u. if exceeds (us_Seats u) (plan_MaxSeats p)
        then op_fail (New CodeUnprocessable (seats_message p (us_Seats u) (the (plan_MaxSeats p))))
        else if exceeds (us_Projects u) (plan_MaxProjects p)
        then op_fail (New CodeUnprocessable (projects_message p (us_Projects u) (the (plan_MaxProjects p))))
        else save_subscription ev s fr entry t ''failed to change plan''
          [(''plan_code'', JStr (plan_Code p)), (''plan_name'', JStr (plan_Name p))]
          (new_subscription ev (fresh_id fr 0) t p) p"
  have k: "?k p u w1 = (Inl x, w2) \<Longrightarrow> w2 = w1" for p u w1 x w2
    using save_subscription_Inl by (auto split: if_splits)
  show ?thesis using assms unfolding ChangePlan_def op_try_eq op_bind_eq
    by (auto dest!: k dest: FindPlanByCode_reads currentUsage_reads)
qed

lemma Cancel_Inl: "Cancel ev s fr c entry t w = (Inl e, w') \<Longrightarrow> w' = w"
  unfolding Cancel_def Let_def op_try_eq
  by (auto dest!: save_subscription_Inl dest: FindSubscription_reads FindPlanByID_reads)

section \<open>Agreement of subscriptions and plan codes\<close>

text \<open>
  One subscription per tenant, and a tenant that has one carries the code of its plan.
\<close>

definition plan_in_step :: "db \<Rightarrow> bool" where
  "plan_in_step d \<longleftrightarrow> distinct (map sub_TenantID (subscriptions d)) \<and>
     (\<forall>s\<in>set (subscriptions d). \<forall>q\<in>set (tenants d). tenant_ID q = sub_TenantID s \<longrightarrow>
        (\<exists>p\<in>set (subscription_plans d). plan_ID p = sub_PlanID s \<and> plan_Code p = tenant_PlanCode q))"

lemma upserted_distinct:
  "distinct (map sub_TenantID (subscriptions d)) \<Longrightarrow> distinct (map sub_TenantID (upserted ev sub d))"
  by (auto simp: upserted_def map_update_rows dest: select_first_NoneD split: option.splits)

lemma upserted_rows:
  assumes "distinct (map sub_TenantID (subscriptions d))" "s \<in> set (upserted ev sub d)"
  shows "if sub_TenantID s = sub_TenantID sub then sub_PlanID s = sub_PlanID sub else s \<in> set (subscriptions d)"
proof (cases "select_first (Some (sub_TenantID sub)) sub_TenantID (\<lambda>_. True) (subscriptions d)")
  case None then show ?thesis using assms by (auto simp: upserted_def dest: select_first_NoneD)
next
  case (Some x)
  then have x: "x \<in> set (subscriptions d)" "sub_TenantID x = sub_TenantID sub" by (auto dest: select_first_SomeD)
  obtain r where r: "r \<in> set (subscriptions d)" "sub_TenantID s = sub_TenantID r"
    and s: "s = r \<or> sub_PlanID s = sub_PlanID sub" "sub_TenantID r = sub_TenantID sub \<and> sub_ID r = sub_ID x \<longrightarrow> sub_PlanID s = sub_PlanID sub"
      "sub_TenantID r \<noteq> sub_TenantID sub \<longrightarrow> s = r"
    using assms(2) Some by (auto simp: upserted_def update_rows_def rls_def)
  have "r = x" if "sub_TenantID r = sub_TenantID sub"
    using that x r(1) assms(1) by (metis distinct_map inj_on_def)
  then show ?thesis using r s by auto
qed

lemma save_subscription_in_step:
  assumes "recorder_ok (bl_audit s)" "save_subscription ev s fr entry t f md sub p w = (r, w')"
    and "plan_in_step (store w)" "p \<in> set (subscription_plans (store w))" "plan_ID p = sub_PlanID sub"
  shows "plan_in_step (store w')"
proof (cases r)
  case (Inl e) then show ?thesis using assms(2,3) save_subscription_Inl by fastforce
next
  case (Inr v)
  with assms(2) have "save_subscription ev s fr entry t f md sub p w = (Inr v, w')" by simp
  from save_subscription_Inr[OF assms(1) this] obtain xs where
    w': "w' = logged xs (w\<lparr>store := set_plan_code ev (sub_TenantID sub) (plan_Code p)
      ((store w)\<lparr>subscriptions := upserted ev sub (store w)\<rparr>)\<rparr>)" by blast
  have d: "distinct (map sub_TenantID (subs_of w))" using assms(3) by (simp add: plan_in_step_def)
  let ?ts = "tenants (set_plan_code ev (sub_TenantID sub) (plan_Code p) (store w))"
  have c: "\<exists>pa\<in>set (subscription_plans (store w)). plan_ID pa = sub_PlanID s \<and> plan_Code pa = tenant_PlanCode q"
    if sq: "s \<in> set (upserted ev sub (store w))" "q \<in> set ?ts" "tenant_ID q = sub_TenantID s" for s q
  proof -
    obtain q0 where q0: "q0 \<in> set (tenants (store w))" "tenant_ID q = tenant_ID q0"
      "tenant_PlanCode q = (if tenant_ID q0 = sub_TenantID sub then plan_Code p else tenant_PlanCode q0)"
      using sq(2) by (auto simp: set_plan_code_def)
    show ?thesis
    proof (cases "sub_TenantID s = sub_TenantID sub")
      case True then show ?thesis using upserted_rows[OF d sq(1)] sq(3) q0 assms(4,5) by auto
    next
      case False
      then show ?thesis using upserted_rows[OF d sq(1)] sq(3) q0 assms(3) by (auto simp: plan_in_step_def)
    qed
  qed
  have "subs_of w' = upserted ev sub (store w)" "tenants (store w') = ?ts"
    "subscription_plans (store w') = subscription_plans (store w)"
    using w' by (simp_all add: set_plan_code_def)
  then show ?thesis using upserted_distinct[OF d, of ev sub] c by (simp add: plan_in_step_def)
qed

end
