(* ===== verification/Invitations.thy ===== *)
theory Invitations
  imports Audit_Trail
begin

text \<open>
  internal/invitations: an emailed single-use token that lets its holder join an organization
  with one role. Redemption is the SECURITY DEFINER function \<open>accept_invitation\<close> of
  migrations/000012. Billing, authz, tenancy and the mailer are reached through interfaces
  declared here, each of which may be nil; the locales below say what the module relies on.
\<close>

section \<open>Interfaces\<close>

type_synonym SeatQuotaChecker = "env \<Rightarrow> ctx \<Rightarrow> uuid \<Rightarrow> (world, err, unit) op"
type_synonym RoleDelegationAuthorizer = "env \<Rightarrow> ctx \<Rightarrow> uuid \<Rightarrow> uuid \<Rightarrow> uuid \<Rightarrow> (world, err, unit) op"
type_synonym TenantNamer = "env \<Rightarrow> uuid \<Rightarrow> (world, err, string) op"

text \<open>\<open>SendInvitation\<close> has no result; it takes the address, the organization, the token and the expiry.\<close>

type_synonym InvitationMailer = "string \<Rightarrow> string \<Rightarrow> string \<Rightarrow> gotime \<Rightarrow> world \<Rightarrow> world"

record invitations_Service =
  ins_audit :: "Recorder option"
  ins_quotas :: "SeatQuotaChecker option"
  ins_roles :: "RoleDelegationAuthorizer option"
  ins_mail :: "InvitationMailer option"
  ins_names :: "TenantNamer option"
  ins_TTL :: duration

definition invitations_NewService :: "Recorder option \<Rightarrow> SeatQuotaChecker option \<Rightarrow> RoleDelegationAuthorizer option
    \<Rightarrow> InvitationMailer option \<Rightarrow> TenantNamer option \<Rightarrow> duration \<Rightarrow> invitations_Service" where
  "invitations_NewService au qu ro ma na ttl = \<lparr>ins_audit = au, ins_quotas = qu, ins_roles = ro, ins_mail = ma,
     ins_names = na, ins_TTL = (if ttl \<le> 0 then 7 * 24 * hour else ttl)\<rparr>"

section \<open>entity.go\<close>

definition StatusPending :: string where "StatusPending = ''pending''"
definition StatusAccepted :: string where "StatusAccepted = ''accepted''"
definition StatusRevoked :: string where "StatusRevoked = ''revoked''"
definition StatusExpired :: string where "StatusExpired = ''expired''"

lemmas status_defs = StatusPending_def StatusAccepted_def StatusRevoked_def StatusExpired_def

record Preview =
  pv_Email :: string
  pv_OrganizationName :: string
  pv_OrganizationSlug :: string
  pv_RoleName :: string
  pv_ExpiresAt :: gotime
  pv_RequiresPassword :: bool

record AcceptResult =
  acc_TenantID :: uuid
  acc_UserID :: uuid
  acc_Email :: string

definition HashToken :: "env \<Rightarrow> string \<Rightarrow> string" where
  "HashToken ev plaintext = sha256_hex ev plaintext"

definition GenerateToken :: "env \<Rightarrow> fresh \<Rightarrow> err + (string \<times> string)" where
  "GenerateToken ev fr = (case fresh_bytes fr of
     None \<Rightarrow> Inl (Wrapped ''invitations: generate token'' (Plain ''rand''))
   | Some buf \<Rightarrow> Inr (base64url ev buf, HashToken ev (base64url ev buf)))"

section \<open>repository.go\<close>

definition invitations_ErrNotFound :: err where
  "invitations_ErrNotFound = Sentinel ''invitations: invitation not found''"

definition invitation_unique :: "env \<Rightarrow> invitation \<Rightarrow> db \<Rightarrow> bool" where
  "invitation_unique ev i d \<longleftrightarrow> inv_ID i \<notin> inv_ID ` set (invitations d)
     \<and> inv_TokenHash i \<notin> inv_TokenHash ` set (invitations d)
     \<and> \<not> (inv_Status i = ''pending'' \<and> (\<exists>q\<in>set (invitations d). inv_Status q = ''pending''
            \<and> inv_TenantID q = inv_TenantID i \<and> citext ev (inv_Email q) = citext ev (inv_Email i)))"

definition insert_invitation :: "env \<Rightarrow> session \<Rightarrow> invitation \<Rightarrow> (db, err, unit) tx" where
  "insert_invitation ev sess i =
     tx_bind (tx_query (\<lambda>d. insert_check (rls sess inv_TenantID i)
        (inv_Status i \<in> {''pending'', ''accepted'', ''revoked'', ''expired''}) (invitation_unique ev i d)
        (inv_TenantID i \<in> tenant_ID ` set (tenants d) \<and> inv_RoleID i \<in> role_ID ` set (roles d)
         \<and> (case inv_InvitedBy i of None \<Rightarrow> True | Some u \<Rightarrow> u \<in> user_ID ` set (users d)))))
       (\<lambda>chk. tx_bind (raise chk) (\<lambda>_.
     modify (\<lambda>d. d\<lparr>invitations := invitations d @ [i]\<rparr>)))"

definition invitations_repo_Create :: "env \<Rightarrow> ctx \<Rightarrow> invitation \<Rightarrow> (world, err, unit) op" where
  "invitations_repo_Create ev c i = WithTenantTx ev ''invitations.Create'' c (\<lambda>sess.
     stmt ev ''invitations.Create.create'' (insert_invitation ev sess i))"

text \<open>\<open>Detail\<close>: an invitation with the name and slug of its role.\<close>

type_synonym Detail = "invitation \<times> string \<times> string"

definition invitation_details :: "session \<Rightarrow> string \<Rightarrow> db \<Rightarrow> Detail list" where
  "invitation_details sess status d =
     [(i, role_Name r, role_Slug r). i \<leftarrow> select_rows sess inv_TenantID
          (\<lambda>i. status = '''' \<or> inv_Status i = status) (invitations d),
        r \<leftarrow> select_rows sess role_TenantID (\<lambda>r. role_ID r = inv_RoleID i) (roles d)]"

definition invitations_repo_List :: "env \<Rightarrow> ctx \<Rightarrow> string \<Rightarrow> int \<Rightarrow> int \<Rightarrow> (world, err, Detail list \<times> int) op" where
  "invitations_repo_List ev c status lim offset = op_map_err (Wrapped ''invitations: list'')
     (WithTenantTx ev ''invitations.List'' c (\<lambda>sess.
        tx_bind (stmt ev ''invitations.List.count'' (tx_query (\<lambda>d. count_rows sess inv_TenantID
          (\<lambda>i. status = '''' \<or> inv_Status i = status) (invitations d)))) (\<lambda>n.
        tx_bind (stmt ev ''invitations.List.find'' (tx_query (\<lambda>d.
          page_of lim offset (sort_key (\<lambda>x. - inv_CreatedAt (fst x)) (invitation_details sess status d))))) (\<lambda>ds.
        tx_return (ds, n)))))"

definition invitations_FindByID :: "env \<Rightarrow> ctx \<Rightarrow> uuid \<Rightarrow> (world, err, invitation) op" where
  "invitations_FindByID ev c i = op_map_err
     (\<lambda>e. if errors_is e invitations_ErrNotFound then e else Wrapped ''invitations: find by id'' e)
     (WithTenantTx ev ''invitations.FindByID'' c (\<lambda>sess.
        tx_map_err (\<lambda>e. if errors_is e ErrRecordNotFound then invitations_ErrNotFound else e)
          (stmt ev ''invitations.FindByID.first''
            (take_row (\<lambda>d. select_first sess inv_TenantID (\<lambda>q. inv_ID q = i) (invitations d))))))"

definition set_status :: "session \<Rightarrow> (invitation \<Rightarrow> bool) \<Rightarrow> string \<Rightarrow> db \<Rightarrow> db" where
  "set_status sess P to d = d\<lparr>invitations :=
     update_rows sess inv_TenantID P (\<lambda>q. q\<lparr>inv_Status := to\<rparr>) (invitations d)\<rparr>"

definition UpdateStatus :: "env \<Rightarrow> ctx \<Rightarrow> uuid \<Rightarrow> string \<Rightarrow> string \<Rightarrow> (world, err, unit) op" where
  "UpdateStatus ev c i from to = WithTenantTx ev ''UpdateStatus'' c (\<lambda>sess.
     tx_bind (stmt ev ''UpdateStatus.update''
       (tx_bind (tx_query (\<lambda>d. count_rows sess inv_TenantID (\<lambda>q. inv_ID q = i \<and> inv_Status q = from)
          (invitations d))) (\<lambda>affected.
        tx_bind (modify (set_status sess (\<lambda>q. inv_ID q = i \<and> inv_Status q = from) to)) (\<lambda>_.
        tx_return affected)))) (\<lambda>affected.
     require (affected \<noteq> 0) invitations_ErrNotFound))"

definition FindByTokenHash :: "env \<Rightarrow> string \<Rightarrow> (world, err, invitation) op" where
  "FindByTokenHash ev h = op_try (WithoutTenantScope ev ''FindByTokenHash'' (\<lambda>_.
       stmt ev ''FindByTokenHash.scan'' (tx_query (\<lambda>d. filter (\<lambda>i. inv_TokenHash i = h) (invitations d)))))
     (\<lambda>e. op_fail (Wrapped ''invitations: find by token hash'' e))
     (\<lambda>is. case is of [] \<Rightarrow> op_fail invitations_ErrNotFound | i # _ \<Rightarrow> op_return i)"

text \<open>A \<open>Scan\<close> that finds no row leaves the zero value.\<close>

definition LoadPreviewContext :: "env \<Rightarrow> invitation \<Rightarrow> (world, err, string \<times> string \<times> string) op" where
  "LoadPreviewContext ev i = op_map_err (Wrapped ''invitations: load preview context'')
     (WithTenantTxID ev ''LoadPreviewContext'' (inv_TenantID i) (\<lambda>sess.
        tx_bind (stmt ev ''LoadPreviewContext.role'' (tx_query (\<lambda>d.
          select_first sess role_TenantID (\<lambda>r. role_ID r = inv_RoleID i) (roles d)))) (\<lambda>r.
        tx_bind (stmt ev ''LoadPreviewContext.tenant'' (tx_query (\<lambda>d.
          List.find (\<lambda>t. tenant_ID t = inv_TenantID i) (tenants d)))) (\<lambda>t.
        tx_return (case t of None \<Rightarrow> '''' | Some t \<Rightarrow> tenant_Name t,
          case t of None \<Rightarrow> '''' | Some t \<Rightarrow> tenant_Slug t, case r of None \<Rightarrow> '''' | Some r \<Rightarrow> role_Name r)))))"

definition UserExistsInTenant :: "env \<Rightarrow> uuid \<Rightarrow> string \<Rightarrow> (world, err, bool) op" where
  "UserExistsInTenant ev tenantID email = op_map_err (Wrapped ''invitations: check existing user'')
     (WithTenantTxID ev ''UserExistsInTenant'' tenantID (\<lambda>sess. stmt ev ''UserExistsInTenant.count''
        (tx_query (\<lambda>d. count_rows sess user_TenantID (\<lambda>u. citext ev (user_Email u) = citext ev email
           \<and> user_DeletedAt u = None) (users d) > 0))))"

text \<open>
  \<open>accept_invitation(p_token_hash, p_user_id, p_full_name, p_password_hash)\<close>. As a SECURITY DEFINER
  function it is not subject to the policies. \<open>P0002\<close> is \<open>no_data_found\<close>, \<open>22023\<close> is
  \<open>invalid_parameter_value\<close>. The claim and its row count come before the user is touched.
\<close>

definition claimable :: "uuid \<Rightarrow> invitation \<Rightarrow> bool" where
  "claimable i q \<longleftrightarrow> inv_ID q = i \<and> inv_Status q = ''pending''"

definition claim_invitation :: "env \<Rightarrow> uuid \<Rightarrow> db \<Rightarrow> db" where
  "claim_invitation ev i d = d\<lparr>invitations := map (\<lambda>q. if claimable i q
     then q\<lparr>inv_Status := ''accepted'', inv_AcceptedAt := Some (now ev)\<rparr> else q) (invitations d)\<rparr>"

definition invited_user :: "env \<Rightarrow> uuid \<Rightarrow> string \<Rightarrow> string option \<Rightarrow> invitation \<Rightarrow> user" where
  "invited_user ev newID fullName passwordHash i = \<lparr>user_ID = newID, user_TenantID = inv_TenantID i,
     user_Email = inv_Email i, user_PasswordHash = passwordHash, user_FullName = fullName,
     user_AvatarURL = None, user_Status = ''active'', user_EmailVerifiedAt = Some (now ev),
     user_LastLoginAt = None, user_CreatedAt = now ev, user_UpdatedAt = now ev, user_DeletedAt = None\<rparr>"

definition invited_role :: "env \<Rightarrow> invitation \<Rightarrow> uuid \<Rightarrow> user_role" where
  "invited_role ev i userID = \<lparr>ur_UserID = userID, ur_RoleID = inv_RoleID i, ur_TenantID = inv_TenantID i,
     ur_AssignedAt = now ev, ur_AssignedBy = inv_InvitedBy i\<rparr>"

definition invited_existing :: "env \<Rightarrow> invitation \<Rightarrow> db \<Rightarrow> user option" where
  "invited_existing ev i d = List.find (\<lambda>u. user_TenantID u = inv_TenantID i
     \<and> citext ev (user_Email u) = citext ev (inv_Email i) \<and> user_DeletedAt u = None) (users d)"

definition accept_invitation :: "env \<Rightarrow> string \<Rightarrow> uuid \<Rightarrow> string \<Rightarrow> string option \<Rightarrow> (db, err, uuid) tx" where
  "accept_invitation ev h newID fullName passwordHash =
     tx_bind (tx_query (\<lambda>d. List.find (\<lambda>i. inv_TokenHash i = h) (invitations d))) (\<lambda>found.
     case found of None \<Rightarrow> tx_fail (PgError ''P0002'') | Some i \<Rightarrow>
     tx_bind (require (inv_Status i = ''pending'') (PgError ''22023'')) (\<lambda>_.
     tx_bind (require (\<not> inv_ExpiresAt i \<le> now ev) (PgError ''22023'')) (\<lambda>_.
     tx_bind (tx_query (\<lambda>d. filter (claimable (inv_ID i)) (invitations d))) (\<lambda>claimed.
     tx_bind (modify (claim_invitation ev (inv_ID i))) (\<lambda>_.
     tx_bind (require (claimed \<noteq> []) (PgError ''22023'')) (\<lambda>_.
     tx_bind (tx_query (invited_existing ev i)) (\<lambda>existing.
     tx_bind (case existing of Some u \<Rightarrow> tx_return (user_ID u)
        | None \<Rightarrow> tx_bind (insert_user ev (Some (inv_TenantID i))
            (invited_user ev newID fullName passwordHash i)) (\<lambda>_. tx_return newID)) (\<lambda>userID.
     tx_bind (insert_user_role_do_nothing (Some (inv_TenantID i)) (invited_role ev i userID)) (\<lambda>_.
     tx_return userID)))))))))"

definition invitations_repo_Accept :: "env \<Rightarrow> uuid \<Rightarrow> string \<Rightarrow> string \<Rightarrow> string option \<Rightarrow> (world, err, uuid) op" where
  "invitations_repo_Accept ev newID h fullName passwordHash = op_map_err (Wrapped ''invitations: accept'')
     (WithoutTenantScope ev ''invitations.Accept'' (\<lambda>_.
        stmt ev ''invitations.Accept.scan'' (accept_invitation ev h newID fullName passwordHash)))"

definition ExpirePending :: "env \<Rightarrow> ctx \<Rightarrow> (world, err, int) op" where
  "ExpirePending ev c = op_map_err (Wrapped ''invitations: expire pending'')
     (WithTenantTx ev ''ExpirePending'' c (\<lambda>sess. stmt ev ''ExpirePending.update''
        (tx_bind (tx_query (\<lambda>d. count_rows sess inv_TenantID
           (\<lambda>q. inv_Status q = StatusPending \<and> inv_ExpiresAt q \<le> now ev) (invitations d))) (\<lambda>affected.
         tx_bind (modify (set_status sess (\<lambda>q. inv_Status q = StatusPending \<and> inv_ExpiresAt q \<le> now ev) StatusExpired))
           (\<lambda>_. tx_return affected)))))"

definition RoleExists :: "env \<Rightarrow> ctx \<Rightarrow> uuid \<Rightarrow> (world, err, bool) op" where
  "RoleExists ev c rid = op_map_err (Wrapped ''invitations: verify role'')
     (WithTenantTx ev ''RoleExists'' c (\<lambda>sess. stmt ev ''RoleExists.count''
        (tx_query (\<lambda>d. count_rows sess role_TenantID (\<lambda>r. role_ID r = rid) (roles d) > 0))))"

definition invitations_FindRoleBySlug :: "env \<Rightarrow> ctx \<Rightarrow> string \<Rightarrow> (world, err, uuid) op" where
  "invitations_FindRoleBySlug ev c slug = op_try
     (WithTenantTx ev ''invitations.FindRoleBySlug'' c (\<lambda>sess. stmt ev ''invitations.FindRoleBySlug.scan''
        (tx_query (\<lambda>d. select_first sess role_TenantID (\<lambda>r. role_Slug r = slug) (roles d)))))
     (\<lambda>e. op_fail (Wrapped ''invitations: find role by slug'' e))
     (\<lambda>r. let i = (case r of None \<Rightarrow> uuid_nil | Some r \<Rightarrow> role_ID r) in
        if i = uuid_nil then op_fail invitations_ErrNotFound else op_return i)"

section \<open>service.go\<close>

record InviteInput =
  ii_Email :: string
  ii_RoleID :: "uuid option"
  ii_RoleSlug :: string

record InviteResult =
  ir_Invitation :: invitation
  ir_Token :: string

text \<open>A call through an interface that may be nil.\<close>

definition when_set :: "'i option \<Rightarrow> ('i \<Rightarrow> (world, err, unit) op) \<Rightarrow> (world, err, unit) op" where
  "when_set o1 f = (case o1 of None \<Rightarrow> op_return () | Some i \<Rightarrow> f i)"

definition resolveRole :: "env \<Rightarrow> ctx \<Rightarrow> InviteInput \<Rightarrow> (world, err, uuid) op" where
  "resolveRole ev c inp = (case ii_RoleID inp of
     Some rid \<Rightarrow> op_try (RoleExists ev c rid)
       (\<lambda>e. op_fail (Wrap CodeInternal ''failed to verify role'' e))
       (\<lambda>exists. if \<not> exists then op_fail (New CodeValidation ''role not found in this organization'')
          else op_return rid)
   | None \<Rightarrow> let slug = TrimSpace (ii_RoleSlug inp) in
       if slug = '''' then op_fail (New CodeValidation ''role_id or role_slug is required'')
       else op_try (invitations_FindRoleBySlug ev c slug)
         (\<lambda>e. op_fail (New CodeValidation ''role not found in this organization'')) op_return)"

definition new_invitation :: "env \<Rightarrow> invitations_Service \<Rightarrow> uuid \<Rightarrow> uuid \<Rightarrow> uuid \<Rightarrow> string \<Rightarrow> uuid \<Rightarrow> string
    \<Rightarrow> invitation" where
  "new_invitation ev s newID tenantID actorID email roleID h = \<lparr>inv_ID = newID, inv_TenantID = tenantID,
     inv_Email = email, inv_RoleID = roleID, inv_TokenHash = h, inv_Status = StatusPending,
     inv_InvitedBy = Some actorID, inv_ExpiresAt = now ev + ins_TTL s, inv_AcceptedAt = None,
     inv_CreatedAt = now ev\<rparr>"

text \<open>\<open>if s.mail != nil { ... }\<close>: a failed name lookup leaves the empty name.\<close>

definition send_invitation :: "env \<Rightarrow> invitations_Service \<Rightarrow> invitation \<Rightarrow> string \<Rightarrow> world \<Rightarrow> world" where
  "send_invitation ev s i plaintext w = (case ins_mail s of None \<Rightarrow> w
   | Some send \<Rightarrow> (case ins_names s of
       None \<Rightarrow> send (inv_Email i) '''' plaintext (inv_ExpiresAt i) w
     | Some name_of \<Rightarrow> (case name_of ev (inv_TenantID i) w of
         (Inl e, w') \<Rightarrow> send (inv_Email i) '''' plaintext (inv_ExpiresAt i) w'
       | (Inr n, w') \<Rightarrow> send (inv_Email i) n plaintext (inv_ExpiresAt i) w')))"

definition store_invitation :: "env \<Rightarrow> invitations_Service \<Rightarrow> fresh \<Rightarrow> ctx \<Rightarrow> Entry \<Rightarrow> invitation \<Rightarrow> string
    \<Rightarrow> (world, err, InviteResult) op" where
  "store_invitation ev s fr c entry i plaintext = op_try (invitations_repo_Create ev c i)
     (\<lambda>e. op_fail (if IsUniqueViolation e
        then New CodeConflict ''an invitation for that email is already pending''
        else Wrap CodeInternal ''failed to create invitation'' e))
     (\<lambda>_. op_bind (record_then ev (ins_audit s) (fresh_id fr 1)
          (entry\<lparr>en_Action := ActionUserInvited, en_TargetType := ''user'', en_TargetID := Some (inv_ID i),
             en_Metadata := [(''email'', JStr (inv_Email i)), (''role_id'', JUuid (inv_RoleID i))]\<rparr>)
          \<lparr>ir_Invitation = i, ir_Token = plaintext\<rparr>)
        (\<lambda>r w. (Inr r, send_invitation ev s i plaintext w)))"

definition invitations_Create :: "env \<Rightarrow> invitations_Service \<Rightarrow> fresh \<Rightarrow> ctx \<Rightarrow> Entry \<Rightarrow> uuid \<Rightarrow> uuid \<Rightarrow> InviteInput
    \<Rightarrow> (world, err, InviteResult) op" where
  "invitations_Create ev s fr c entry tenantID actorID inp =
     (let email = ToLower (unicode_lower ev) (TrimSpace (ii_Email inp)) in
      if email = '''' then op_fail (New CodeValidation ''email is required'')
      else op_bind (resolveRole ev c inp) (\<lambda>roleID.
      op_bind (when_set (ins_roles s) (\<lambda>f. f ev c tenantID actorID roleID)) (\<lambda>_.
      op_bind (when_set (ins_quotas s) (\<lambda>f. f ev c tenantID)) (\<lambda>_.
      case GenerateToken ev fr of
        Inl e \<Rightarrow> op_fail (Wrap CodeInternal ''failed to generate invitation token'' e)
      | Inr (plaintext, h) \<Rightarrow> store_invitation ev s fr c entry
          (new_invitation ev s (fresh_id fr 0) tenantID actorID email roleID h) plaintext))))"

definition validStatus :: "string \<Rightarrow> bool" where
  "validStatus status \<longleftrightarrow> status = StatusPending \<or> status = StatusAccepted \<or> status = StatusRevoked
     \<or> status = StatusExpired"

definition invitations_List :: "env \<Rightarrow> ctx \<Rightarrow> string \<Rightarrow> int \<Rightarrow> int \<Rightarrow> (world, err, Detail list \<times> int) op" where
  "invitations_List ev c status page pageSize =
     (if status \<noteq> '''' \<and> \<not> validStatus status
      then op_fail (New CodeValidation ''status must be pending, accepted, revoked, or expired'')
      else op_map_err (Wrap CodeInternal ''failed to list invitations'')
        (invitations_repo_List ev c status pageSize (wrap64 (wrap64 (page - 1) * pageSize))))"

definition invitations_Revoke :: "env \<Rightarrow> invitations_Service \<Rightarrow> fresh \<Rightarrow> ctx \<Rightarrow> Entry \<Rightarrow> uuid \<Rightarrow> (world, err, unit) op" where
  "invitations_Revoke ev s fr c entry i = op_try (invitations_FindByID ev c i)
     (\<lambda>e. op_fail (if errors_is e invitations_ErrNotFound then New CodeNotFound ''invitation not found''
                   else Wrap CodeInternal ''failed to load invitation'' e))
     (\<lambda>q. if inv_Status q \<noteq> StatusPending
        then op_fail (New CodeConflict ''only pending invitations can be revoked'')
        else op_try (UpdateStatus ev c i StatusPending StatusRevoked)
          (\<lambda>e. op_fail (if errors_is e invitations_ErrNotFound
                 then New CodeConflict ''invitation is no longer pending''
                 else Wrap CodeInternal ''failed to revoke invitation'' e))
          (\<lambda>_. record_then ev (ins_audit s) (fresh_id fr 1)
             (entry\<lparr>en_Action := ActionInviteRevoked, en_TargetType := ''user'', en_TargetID := Some i,
                en_Metadata := [(''email'', JStr (inv_Email q))]\<rparr>) ()))"

definition invalid_invitation :: err where
  "invalid_invitation = New CodeNotFound ''invitation is invalid or has expired''"

text \<open>The lookup \<open>Preview\<close> and \<open>Accept\<close> share; every refusal is the same 404.\<close>

definition redeemable :: "env \<Rightarrow> string \<Rightarrow> (world, err, invitation) op" where
  "redeemable ev token = op_try (FindByTokenHash ev (HashToken ev token))
     (\<lambda>e. op_fail invalid_invitation)
     (\<lambda>i. if inv_Status i \<noteq> StatusPending \<or> now ev > inv_ExpiresAt i then op_fail invalid_invitation
        else op_return i)"

definition invitations_Preview :: "env \<Rightarrow> string \<Rightarrow> (world, err, Preview) op" where
  "invitations_Preview ev token = op_bind (redeemable ev token) (\<lambda>i.
     op_try (LoadPreviewContext ev i) (\<lambda>e. op_fail (Wrap CodeInternal ''failed to load invitation'' e))
       (\<lambda>(orgName, orgSlug, roleName). op_try (UserExistsInTenant ev (inv_TenantID i) (inv_Email i))
          (\<lambda>e. op_fail (Wrap CodeInternal ''failed to load invitation'' e))
          (\<lambda>exists. op_return \<lparr>pv_Email = inv_Email i, pv_OrganizationName = orgName,
             pv_OrganizationSlug = orgSlug, pv_RoleName = roleName, pv_ExpiresAt = inv_ExpiresAt i,
             pv_RequiresPassword = (\<not> exists)\<rparr>)))"

record AcceptInput =
  ai_Token :: string
  ai_FullName :: string
  ai_Password :: string

text \<open>A new user needs a password of at least 8 bytes; an existing one keeps theirs.\<close>

definition accept_password :: "env \<Rightarrow> bool \<Rightarrow> string \<Rightarrow> err + string option" where
  "accept_password ev exists password =
     (if exists then Inr None
      else if length password < 8 then Inl (New CodeValidation ''password must be at least 8 characters'')
      else case HashPassword ev password of
        Inl e \<Rightarrow> Inl (Wrap CodeInternal ''failed to process password'' e) | Inr h \<Rightarrow> Inr (Some h))"

text \<open>The redemption itself: the SQL function, then the audit entry of the new member.\<close>

definition redeem :: "env \<Rightarrow> invitations_Service \<Rightarrow> fresh \<Rightarrow> AcceptInput \<Rightarrow> invitation \<Rightarrow> string option
    \<Rightarrow> (world, err, AcceptResult) op" where
  "redeem ev s fr inp i passwordHash =
     (let fullName = TrimSpace (ai_FullName inp) in
      op_try (invitations_repo_Accept ev (fresh_id fr 0) (HashToken ev (ai_Token inp))
          (if fullName = '''' then inv_Email i else fullName) passwordHash)
        (\<lambda>e. op_fail (Wrap CodeConflict ''invitation could not be accepted; it may have already been used'' e))
        (\<lambda>userID. record_then ev (ins_audit s) (fresh_id fr 1)
           \<lparr>en_TenantID = inv_TenantID i, en_ActorID = Some userID, en_Action = ActionInviteAccepted,
            en_TargetType = ''user'', en_TargetID = Some (inv_ID i), en_IPAddress = '''', en_UserAgent = '''',
            en_Metadata = [(''email'', JStr (inv_Email i))]\<rparr>
           \<lparr>acc_TenantID = inv_TenantID i, acc_UserID = userID, acc_Email = inv_Email i\<rparr>))"

definition invitations_Accept :: "env \<Rightarrow> invitations_Service \<Rightarrow> fresh \<Rightarrow> AcceptInput \<Rightarrow> (world, err, AcceptResult) op" where
  "invitations_Accept ev s fr inp = op_bind (redeemable ev (ai_Token inp)) (\<lambda>i.
     op_try (UserExistsInTenant ev (inv_TenantID i) (inv_Email i))
       (\<lambda>e. op_fail (Wrap CodeInternal ''failed to accept invitation'' e))
       (\<lambda>exists. op_bind (op_lift (accept_password ev exists (ai_Password inp))) (redeem ev s fr inp i)))"

section \<open>handler.go\<close>

datatype invitations_data = DInvited InviteResult | DInvitations "Detail list" | DPreview Preview
  | DInviteMessage string | DAccepted string string uuid

record createInviteRequest =
  civ_Email :: string
  civ_RoleID :: "uuid option"
  civ_RoleSlug :: string

definition invitations_h_Create :: "env \<Rightarrow> invitations_Service \<Rightarrow> fresh \<Rightarrow> gctx \<Rightarrow> string + createInviteRequest
    \<Rightarrow> invitations_data handler" where
  "invitations_h_Create ev s fr c req = with_caller c (\<lambda>cl. with_body c req (\<lambda>q.
     respond c (invitations_Create ev s fr (ctx_tenant c) (EntryFromRequest c ActionUserInvited)
         (TenantID cl) (UserID cl) \<lparr>ii_Email = civ_Email q, ii_RoleID = civ_RoleID q, ii_RoleSlug = civ_RoleSlug q\<rparr>)
       (\<lambda>r. Success c 201 (DInvited r))))"

definition invitations_h_List :: "env \<Rightarrow> gctx \<Rightarrow> invitations_data handler" where
  "invitations_h_List ev c = with_caller c (\<lambda>_.
     respond_page c (invitations_List ev (ctx_tenant c) (Query c ''status'')) DInvitations)"

definition invitations_h_Revoke :: "env \<Rightarrow> invitations_Service \<Rightarrow> fresh \<Rightarrow> gctx \<Rightarrow> invitations_data handler" where
  "invitations_h_Revoke ev s fr c = with_caller c (\<lambda>_. uuid_param ev c ''inviteID'' (\<lambda>i.
     respond c (invitations_Revoke ev s fr (ctx_tenant c) (EntryFromRequest c ActionInviteRevoked) i)
       (\<lambda>_. Success c 200 (DInviteMessage ''invitation revoked''))))"

definition invitations_h_Preview :: "env \<Rightarrow> gctx \<Rightarrow> invitations_data handler" where
  "invitations_h_Preview ev c = (let token = Query c ''token'' in
     if token = '''' then bad_request c ''token is required''
     else respond c (invitations_Preview ev token) (\<lambda>p. Success c 200 (DPreview p)))"

definition invitations_h_Accept :: "env \<Rightarrow> invitations_Service \<Rightarrow> fresh \<Rightarrow> gctx \<Rightarrow> string + AcceptInput
    \<Rightarrow> invitations_data handler" where
  "invitations_h_Accept ev s fr c req = with_body c req (\<lambda>q.
     respond c (invitations_Accept ev s fr q) (\<lambda>r. Success c 200
       (DAccepted ''invitation accepted, you can now sign in'' (acc_Email r) (acc_TenantID r))))"

end
