(* ===== verification/Invitations_Facts.thy ===== *)
theory Invitations_Facts
  imports Invitations Billing_Facts
begin

text \<open>
  What the invitation operations read and write, the contracts of the interfaces the module
  is given, and the fate of a redeemed token through every later request.
\<close>

abbreviation invs_of :: "world \<Rightarrow> invitation list" where "invs_of w \<equiv> invitations (store w)"

section \<open>Lookups\<close>

lemma RoleExists_reads: "RoleExists ev c i w = (r, w') \<Longrightarrow> w' = w"
  unfolding RoleExists_def
  by (erule op_map_err_reads'[rotated], erule WithTenantTx_reads[rotated]) (auto intro!: reads_only_stmt)

lemma role_of_slug_reads: "invitations_FindRoleBySlug ev c slug w = (r, w') \<Longrightarrow> w' = w"
  unfolding invitations_FindRoleBySlug_def op_try_eq Let_def
  by (auto split: if_splits dest!: WithTenantTx_reads[rotated] intro!: reads_only_stmt)

lemma resolveRole_reads: "resolveRole ev c inp w = (r, w') \<Longrightarrow> w' = w"
  unfolding resolveRole_def Let_def
  by (auto simp: op_try_eq split: option.splits if_splits dest: RoleExists_reads role_of_slug_reads)

lemma FindByTokenHash_reads: "FindByTokenHash ev h w = (r, w') \<Longrightarrow> w' = w"
proof -
  assume m: "FindByTokenHash ev h w = (r, w')"
  have q: "WithoutTenantScope ev ''FindByTokenHash'' (\<lambda>_. stmt ev ''FindByTokenHash.scan''
      (tx_query (\<lambda>d. filter (\<lambda>i. inv_TokenHash i = h) (invitations d)))) w = (x, w1) \<Longrightarrow> w1 = w" for x w1
    unfolding WithoutTenantScope_def by (erule run_tx_reads[rotated]) (auto intro!: reads_only_stmt)
  have k: "(case is of [] \<Rightarrow> op_fail invitations_ErrNotFound | i # _ \<Rightarrow> op_return i) w1 = (r, w') \<Longrightarrow> w' = w1" for "is" w1
    by (cases "is") auto
  show ?thesis using m unfolding FindByTokenHash_def op_try_eq by (auto dest!: q k)
qed

lemma FindByTokenHash_Inr:
  assumes "FindByTokenHash ev h w = (Inr i, w')"
  shows "i \<in> set (invs_of w) \<and> inv_TokenHash i = h"
proof -
  let ?q = "WithoutTenantScope ev ''FindByTokenHash'' (\<lambda>_. stmt ev ''FindByTokenHash.scan''
      (tx_query (\<lambda>d. filter (\<lambda>i. inv_TokenHash i = h) (invitations d))))"
  obtain xs w1 where q: "?q w = (Inr xs, w1)"
    and k: "(case xs of [] \<Rightarrow> op_fail invitations_ErrNotFound | i # _ \<Rightarrow> op_return i) w1 = (Inr i, w')"
    using assms unfolding FindByTokenHash_def op_try_eq by auto
  from k have "i \<in> set xs" by (cases xs) auto
  then show ?thesis using q unfolding WithoutTenantScope_def by (auto dest!: run_tx_ok simp: tx_inv)
qed

lemma redeemable_reads: "redeemable ev tok w = (r, w') \<Longrightarrow> w' = w"
  unfolding redeemable_def op_try_eq by (auto split: if_splits dest: FindByTokenHash_reads)

lemma redeemable_Inr:
  assumes "redeemable ev tok w = (Inr i, w')"
  shows "i \<in> set (invs_of w) \<and> inv_TokenHash i = HashToken ev tok \<and> inv_Status i = ''pending''
    \<and> now ev \<le> inv_ExpiresAt i"
  using op_try_fail_Inr[OF assms[unfolded redeemable_def]]
  by (auto split: if_splits simp: StatusPending_def dest!: FindByTokenHash_Inr)

lemma UserExists_reads: "UserExistsInTenant ev t email w = (r, w') \<Longrightarrow> w' = w"
  unfolding UserExistsInTenant_def WithTenantTxID_def
  by (erule op_map_err_reads'[rotated], erule run_tx_reads[rotated])
    (auto simp: set_tenant_def intro!: reads_only_stmt reads_only_map_err)

section \<open>Contracts\<close>

text \<open>
  What the module relies on: checks and lookups change nothing, a passed quota check means
  there is room, a passed delegation check means the role is within the actor's authority,
  and mailing does not touch the database.
\<close>

locale seat_quota =
  fixes check :: SeatQuotaChecker and room :: "env \<Rightarrow> uuid \<Rightarrow> db \<Rightarrow> bool"
  assumes check_keeps: "check ev c t' w = (r, w') \<Longrightarrow> w' = w"
    and check_room: "check ev (Some t) t' w = (Inr u, w') \<Longrightarrow> room ev t (store w)"

locale role_authority =
  fixes allow :: RoleDelegationAuthorizer and within :: "uuid \<Rightarrow> uuid \<Rightarrow> uuid \<Rightarrow> db \<Rightarrow> bool"
  assumes allow_keeps: "allow ev c t' a rid w = (r, w') \<Longrightarrow> w' = w"
    and allow_within: "allow ev (Some t) t' a rid w = (Inr u, w') \<Longrightarrow> within t a rid (store w)"

locale invitation_mail =
  fixes send :: InvitationMailer and name_of :: TenantNamer
  assumes send_store: "store (send addr org tok ex w) = store w"
    and name_keeps: "name_of ev t w = (r, w') \<Longrightarrow> w' = w"

locale inviting = seat_quota check room + role_authority allow within + invitation_mail send name_of
  for check room allow within send name_of +
  fixes s :: invitations_Service
  assumes wired: "ins_quotas s = Some check" "ins_roles s = Some allow" "ins_mail s = Some send"
      "ins_names s = Some name_of" "recorder_ok (ins_audit s)"
begin

lemma send_invitation_store: "store (send_invitation ev s i tok w) = store w"
  using name_keeps[of ev "inv_TenantID i" w]
  by (auto simp: send_invitation_def wired send_store split: prod.splits sum.splits)

lemma store_invitation_Inr:
  assumes "store_invitation ev s fr (Some t) entry i tok w = (Inr r, w')"
  shows "r = \<lparr>ir_Invitation = i, ir_Token = tok\<rparr> \<and> invitation_unique ev i (store w) \<and> inv_TenantID i = t
    \<and> (\<exists>xs. store w' = (store w)\<lparr>invitations := invs_of w @ [i], audit_logs := audit_logs (store w) @ xs\<rparr>)"
proof -
  obtain u w1 where m: "invitations_repo_Create ev (Some t) i w = (Inr u, w1)"
    and r: "op_bind (record_then ev (ins_audit s) (fresh_id fr 1)
          (entry\<lparr>en_Action := ActionUserInvited, en_TargetType := ''user'', en_TargetID := Some (inv_ID i),
             en_Metadata := [(''email'', JStr (inv_Email i)), (''role_id'', JUuid (inv_RoleID i))]\<rparr>)
          \<lparr>ir_Invitation = i, ir_Token = tok\<rparr>)
        (\<lambda>r w. (Inr r, send_invitation ev s i tok w)) w1 = (Inr r, w')"
    using op_try_fail_Inr[OF assms[unfolded store_invitation_def]] by blast
  from WithTenantTx_Some[OF m[unfolded invitations_repo_Create_def]] have
    w1: "w1 = w\<lparr>store := (store w)\<lparr>invitations := invs_of w @ [i]\<rparr>\<rparr>" "invitation_unique ev i (store w)" "inv_TenantID i = t"
    by (auto simp: tx_inv insert_invitation_def insert_check_None rls_def)
  from r obtain x w2 where rec: "record_then ev (ins_audit s) (fresh_id fr 1)
          (entry\<lparr>en_Action := ActionUserInvited, en_TargetType := ''user'', en_TargetID := Some (inv_ID i),
             en_Metadata := [(''email'', JStr (inv_Email i)), (''role_id'', JUuid (inv_RoleID i))]\<rparr>)
          \<lparr>ir_Invitation = i, ir_Token = tok\<rparr> w1 = (Inr x, w2)" "r = x" "w' = send_invitation ev s i tok w2"
    unfolding op_bind_Inr by auto
  from record_then_logged[OF wired(5) rec(1)] obtain xs where "x = \<lparr>ir_Invitation = i, ir_Token = tok\<rparr>"
    "w2 = logged xs w1" by auto
  then show ?thesis using w1 rec(2,3) by (auto simp: send_invitation_store logged_def)
qed

lemma Create_Inr:
  assumes "invitations_Create ev s fr (Some t) entry t' a inp w = (Inr r, w')"
  shows "\<exists>rid h. room ev t (store w) \<and> within t a rid (store w)
    \<and> ir_Invitation r = new_invitation ev s (fresh_id fr 0) t' a (ToLower (unicode_lower ev) (TrimSpace (ii_Email inp))) rid h
    \<and> t' = t \<and> h = HashToken ev (ir_Token r) \<and> invitation_unique ev (ir_Invitation r) (store w)
    \<and> (\<exists>xs. store w' = (store w)\<lparr>invitations := invs_of w @ [ir_Invitation r], audit_logs := audit_logs (store w) @ xs\<rparr>)"
proof -
  let ?email = "ToLower (unicode_lower ev) (TrimSpace (ii_Email inp))"
  let ?k = "\<lambda>rid. case GenerateToken ev fr of
        Inl e \<Rightarrow> op_fail (Wrap CodeInternal ''failed to generate invitation token'' e)
      | Inr (plaintext, h) \<Rightarrow> store_invitation ev s fr (Some t) entry
          (new_invitation ev s (fresh_id fr 0) t' a ?email rid h) plaintext"
  have ne: "?email \<noteq> ''''" using assms by (auto simp: invitations_Create_def Let_def)
  obtain rid w1 where rid: "resolveRole ev (Some t) inp w = (Inr rid, w1)"
    and r1: "op_bind (allow ev (Some t) t' a rid) (\<lambda>_. op_bind (check ev (Some t) t') (\<lambda>_. ?k rid)) w1 = (Inr r, w')"
    using assms ne by (auto simp: invitations_Create_def Let_def wired when_set_def op_bind_Inr)
  obtain u1 u2 w2 w3 where al: "allow ev (Some t) t' a rid w1 = (Inr u1, w2)"
    and ch: "check ev (Some t) t' w2 = (Inr u2, w3)" and k: "?k rid w3 = (Inr r, w')"
    using r1 unfolding op_bind_Inr by blast
  have w: "w1 = w" "w2 = w1" "w3 = w2" using resolveRole_reads[OF rid] allow_keeps[OF al] check_keeps[OF ch] .
  obtain tok where st: "store_invitation ev s fr (Some t) entry
      (new_invitation ev s (fresh_id fr 0) t' a ?email rid (HashToken ev tok)) tok w = (Inr r, w')"
    using k w by (auto simp: GenerateToken_def op_fail_def split: option.splits)
  show ?thesis using allow_within[OF al] check_room[OF ch] w store_invitation_Inr[OF st]
    by (auto simp: new_invitation_def)
qed

end

section \<open>Redemption\<close>

lemma insert_user_invs:
  "insert_user ev sess u d = Inr (x, d') \<Longrightarrow> d' = d\<lparr>users := users d @ [u]\<rparr>"
  by (auto simp: insert_user_def tx_inv)

text \<open>
  The whole effect of one redemption on the database: the account if the address has none, the
  grant if the account does not hold the role yet, and the invitation marked.
\<close>

definition invited_users :: "env \<Rightarrow> uuid \<Rightarrow> string \<Rightarrow> string option \<Rightarrow> invitation \<Rightarrow> db \<Rightarrow> user list" where
  "invited_users ev newID fullName pw i d =
     (case invited_existing ev i d of None \<Rightarrow> [invited_user ev newID fullName pw i] | Some u \<Rightarrow> [])"

definition invited_id :: "env \<Rightarrow> uuid \<Rightarrow> invitation \<Rightarrow> db \<Rightarrow> uuid" where
  "invited_id ev newID i d = (case invited_existing ev i d of None \<Rightarrow> newID | Some u \<Rightarrow> user_ID u)"

definition invited_grants :: "env \<Rightarrow> invitation \<Rightarrow> uuid \<Rightarrow> db \<Rightarrow> user_role list" where
  "invited_grants ev i uid d = (if user_role_fresh (invited_role ev i uid) d then [invited_role ev i uid] else [])"

definition redeemed :: "env \<Rightarrow> uuid \<Rightarrow> string \<Rightarrow> string option \<Rightarrow> invitation \<Rightarrow> db \<Rightarrow> db" where
  "redeemed ev newID fullName pw i d = (claim_invitation ev (inv_ID i) d)
     \<lparr>users := users d @ invited_users ev newID fullName pw i d,
      user_roles := user_roles d @ invited_grants ev i (invited_id ev newID i d) d\<rparr>"

lemma redeemed_tables [simp]:
  "users (redeemed ev newID n pw i d) = users d @ invited_users ev newID n pw i d"
  "user_roles (redeemed ev newID n pw i d) = user_roles d @ invited_grants ev i (invited_id ev newID i d) d"
  "invitations (redeemed ev newID n pw i d) = invitations (claim_invitation ev (inv_ID i) d)"
  "roles (redeemed ev newID n pw i d) = roles d" "role_permissions (redeemed ev newID n pw i d) = role_permissions d"
  "permissions (redeemed ev newID n pw i d) = permissions d"
  by (simp_all add: redeemed_def claim_invitation_def)

lemma accept_invitation_Inr:
  assumes "accept_invitation ev h newID fullName pw d = Inr (uid, d')"
  shows "\<exists>i. i \<in> set (invitations d) \<and> inv_TokenHash i = h \<and> inv_Status i = ''pending'' \<and> now ev < inv_ExpiresAt i
    \<and> uid = invited_id ev newID i d \<and> d' = redeemed ev newID fullName pw i d
    \<and> ur_RoleID ` set (invited_grants ev i uid d) \<subseteq> role_ID ` set (roles d)"
proof -
  obtain i where i: "List.find (\<lambda>i. inv_TokenHash i = h) (invitations d) = Some i"
    and p: "inv_Status i = ''pending''" "now ev < inv_ExpiresAt i"
    using assms unfolding accept_invitation_def by (auto simp: tx_inv split: option.splits)
  let ?d1 = "claim_invitation ev (inv_ID i) d"
  let ?d2 = "?d1\<lparr>users := users d @ invited_users ev newID fullName pw i d\<rparr>"
  have ex: "invited_existing ev i ?d1 = invited_existing ev i d" by (simp add: invited_existing_def claim_invitation_def)
  have u: "?d1\<lparr>users := users d\<rparr> = ?d1" "users ?d1 = users d" by (simp_all add: claim_invitation_def)
  have r: "uid = invited_id ev newID i d
      \<and> insert_user_role_do_nothing (Some (inv_TenantID i)) (invited_role ev i uid) ?d2 = Inr ((), d')"
    using assms i p ex unfolding accept_invitation_def invited_users_def invited_id_def
    by (cases "invited_existing ev i d") (auto simp: tx_inv u dest!: insert_user_invs)
  have k: "user_role_fresh g ?d2 = user_role_fresh g d" "roles ?d2 = roles d" "user_roles ?d2 = user_roles d" for g
    by (simp_all add: user_role_fresh_def claim_invitation_def)
  have "?d2 = ?d2\<lparr>user_roles := user_roles d @ []\<rparr>" by (simp add: claim_invitation_def)
  then have "d' = redeemed ev newID fullName pw i d
    \<and> ur_RoleID ` set (invited_grants ev i uid d) \<subseteq> role_ID ` set (roles d)"
    using r unfolding insert_user_role_do_nothing_Inr k redeemed_def invited_grants_def user_role_fks_def
    by (auto split: if_splits)
  then show ?thesis using find_SomeD[OF i] p r by blast
qed

lemma invited_id_member:
  "\<exists>u\<in>set (users (redeemed ev newID n pw i d)). user_ID u = invited_id ev newID i d \<and> user_TenantID u = inv_TenantID i
     \<and> citext ev (user_Email u) = citext ev (inv_Email i) \<and> user_DeletedAt u = None"
  by (cases "invited_existing ev i d")
    (auto simp: invited_users_def invited_id_def invited_user_def invited_existing_def dest!: find_SomeD)

lemma invited_id_holds:
  "\<exists>q\<in>set (user_roles (redeemed ev newID n pw i d)). ur_UserID q = invited_id ev newID i d \<and> ur_RoleID q = inv_RoleID i"
proof (cases "user_role_fresh (invited_role ev i (invited_id ev newID i d)) d")
  case True then show ?thesis by (simp add: invited_grants_def) (simp add: invited_role_def)
next
  case False then show ?thesis by (simp add: invited_grants_def user_role_fresh_def invited_role_def)
qed

lemma invitations_repo_Accept_Inr:
  "invitations_repo_Accept ev newID h n pw w = (Inr uid, w') \<Longrightarrow>
     \<exists>d. accept_invitation ev h newID n pw (store w) = Inr (uid, d) \<and> w' = w\<lparr>store := d\<rparr>"
  unfolding invitations_repo_Accept_def op_map_err_Inr WithoutTenantScope_def
  by (auto dest!: run_tx_ok simp: tx_inv)

lemma invitations_repo_Accept_Inl: "invitations_repo_Accept ev newID h n pw w = (Inl e, w') \<Longrightarrow> w' = w"
  unfolding invitations_repo_Accept_def WithoutTenantScope_def
  by (auto simp: op_map_err_eq dest: run_tx_rollback)

lemma redeem_Inr:
  assumes "redeem ev s fr inp i pw w = (Inr r, w')" "recorder_ok (ins_audit s)"
  shows "\<exists>d xs. accept_invitation ev (HashToken ev (ai_Token inp)) (fresh_id fr 0)
      (if TrimSpace (ai_FullName inp) = '''' then inv_Email i else TrimSpace (ai_FullName inp)) pw (store w) = Inr (acc_UserID r, d)
    \<and> w' = logged xs (w\<lparr>store := d\<rparr>) \<and> al_TenantID ` set xs \<subseteq> {inv_TenantID i}
    \<and> acc_TenantID r = inv_TenantID i \<and> acc_Email r = inv_Email i"
proof -
  let ?n = "if TrimSpace (ai_FullName inp) = '''' then inv_Email i else TrimSpace (ai_FullName inp)"
  obtain uid w1 e where a: "invitations_repo_Accept ev (fresh_id fr 0) (HashToken ev (ai_Token inp)) ?n pw w = (Inr uid, w1)"
    and rec: "record_then ev (ins_audit s) (fresh_id fr 1) e
        \<lparr>acc_TenantID = inv_TenantID i, acc_UserID = uid, acc_Email = inv_Email i\<rparr> w1 = (Inr r, w')"
    and e: "en_TenantID e = inv_TenantID i"
    using op_try_fail_Inr[OF assms(1)[unfolded redeem_def Let_def]] by fastforce
  from invitations_repo_Accept_Inr[OF a] record_then_logged[OF assms(2) rec] e show ?thesis by fastforce
qed

lemma redeem_Inl: "redeem ev s fr inp i pw w = (Inl e, w') \<Longrightarrow> w' = w"
  unfolding redeem_def Let_def op_try_eq record_then_def by (auto dest: invitations_repo_Accept_Inl)

lemma UserExists_Inr:
  assumes "UserExistsInTenant ev (inv_TenantID i) (inv_Email i) w = (Inr b, w')"
  shows "b \<longleftrightarrow> invited_existing ev i (store w) \<noteq> None"
proof -
  let ?P = "\<lambda>u. user_TenantID u = inv_TenantID i \<and> citext ev (user_Email u) = citext ev (inv_Email i) \<and> user_DeletedAt u = None"
  have "b \<longleftrightarrow> count_rows (Some (inv_TenantID i)) user_TenantID (\<lambda>u. citext ev (user_Email u) = citext ev (inv_Email i)
      \<and> user_DeletedAt u = None) (users (store w)) > 0"
    using assms unfolding UserExistsInTenant_def op_map_err_Inr by (auto simp: tx_inv dest!: WithTenantTxID_ok)
  also have "\<dots> \<longleftrightarrow> (\<exists>u\<in>set (users (store w)). ?P u)"
    by (auto simp: count_rows_def select_rows_def rls_def filter_empty_conv)
  also have "\<dots> \<longleftrightarrow> List.find ?P (users (store w)) \<noteq> None" by (auto simp: find_None_iff)
  finally show ?thesis by (simp add: invited_existing_def)
qed

lemma invitations_Accept_Inr:
  assumes "invitations_Accept ev s fr inp w = (Inr r, w')"
  shows "\<exists>i pw. i \<in> set (invs_of w) \<and> inv_TokenHash i = HashToken ev (ai_Token inp)
    \<and> accept_password ev (invited_existing ev i (store w) \<noteq> None) (ai_Password inp) = Inr pw
    \<and> redeem ev s fr inp i pw w = (Inr r, w')"
proof -
  obtain i w1 where i: "redeemable ev (ai_Token inp) w = (Inr i, w1)"
    and r1: "op_try (UserExistsInTenant ev (inv_TenantID i) (inv_Email i))
       (\<lambda>e. op_fail (Wrap CodeInternal ''failed to accept invitation'' e))
       (\<lambda>exists. op_bind (op_lift (accept_password ev exists (ai_Password inp))) (redeem ev s fr inp i)) w1 = (Inr r, w')"
    using assms unfolding invitations_Accept_def op_bind_Inr by blast
  obtain ex w2 where ex: "UserExistsInTenant ev (inv_TenantID i) (inv_Email i) w1 = (Inr ex, w2)"
    and r2: "op_bind (op_lift (accept_password ev ex (ai_Password inp))) (redeem ev s fr inp i) w2 = (Inr r, w')"
    using op_try_fail_Inr[OF r1] by blast
  have w: "w1 = w" "w2 = w" using redeemable_reads[OF i] UserExists_reads[OF ex] by simp_all
  have "ex \<longleftrightarrow> invited_existing ev i (store w) \<noteq> None" using UserExists_Inr[OF ex] w by simp
  then show ?thesis using r2 redeemable_Inr[OF i] w unfolding op_bind_Inr op_lift_Inr by auto
qed

lemma invitations_Accept_Inl:
  assumes "invitations_Accept ev s fr inp w = (Inl e, w')"
  shows "w' = w"
  using assms unfolding invitations_Accept_def op_bind_eq op_try_eq
  by (auto dest: redeemable_reads UserExists_reads redeem_Inl)

section \<open>Spent tokens\<close>

text \<open>A token is spent when its invitation exists and is no longer pending.\<close>

definition spent :: "string \<Rightarrow> invitation list \<Rightarrow> bool" where
  "spent h is \<longleftrightarrow> (\<exists>i\<in>set is. inv_TokenHash i = h) \<and> (\<forall>i\<in>set is. inv_TokenHash i = h \<longrightarrow> inv_Status i \<noteq> ''pending'')"

lemma spent_append: "spent h is \<Longrightarrow> inv_TokenHash i \<notin> inv_TokenHash ` set is \<Longrightarrow> spent h (is @ [i])"
  by (auto simp: spent_def)

lemma spent_map:
  assumes "spent h is" "\<And>i. inv_TokenHash (g i) = inv_TokenHash i"
    and "\<And>i. inv_Status (g i) = ''pending'' \<Longrightarrow> inv_Status i = ''pending''"
  shows "spent h (map g is)"
  using assms by (fastforce simp: spent_def)

lemma spent_set_status:
  "spent h (invitations d) \<Longrightarrow> to \<noteq> ''pending'' \<Longrightarrow> spent h (invitations (set_status sess P to d))"
  unfolding set_status_def update_rows_def by (simp, rule spent_map) (auto split: if_splits)

lemma spent_claim: "spent h (invitations d) \<Longrightarrow> spent h (invitations (claim_invitation ev i d))"
  unfolding claim_invitation_def by (simp, rule spent_map) (auto split: if_splits)

lemma claim_spends:
  assumes "i \<in> set (invitations d)" "inv_TokenHash i = h"
    and "distinct (map inv_TokenHash (invitations d))"
  shows "spent h (invitations (claim_invitation ev (inv_ID i) d))"
proof -
  define g where "g q = (if claimable (inv_ID i) q
      then q\<lparr>inv_Status := ''accepted'', inv_AcceptedAt := Some (now ev)\<rparr> else q)" for q
  have h: "inv_TokenHash (g q) = inv_TokenHash q" for q by (simp add: g_def)
  have st: "inv_Status (g i) \<noteq> ''pending''" by (simp add: g_def claimable_def)
  have u: "q = i" if "q \<in> set (invitations d)" "inv_TokenHash q = h" for q
    using that assms by (metis distinct_map inj_on_def)
  have "spent h (map g (invitations d))"
    unfolding spent_def set_map ball_simps bex_simps h using assms(1,2) u st by blast
  then show ?thesis by (simp add: claim_invitation_def g_def[abs_def])
qed

lemma spent_refused: "spent (HashToken ev (ai_Token inp)) (invs_of w) \<Longrightarrow>
    \<exists>e. fst (invitations_Accept ev s fr inp w) = Inl e"
proof -
  assume sp: "spent (HashToken ev (ai_Token inp)) (invs_of w)"
  show ?thesis
  proof (cases "redeemable ev (ai_Token inp) w")
    case (Pair r w1)
    then show ?thesis using sp redeemable_Inr[of ev "ai_Token inp" w _ w1]
      by (cases r) (auto simp: spent_def invitations_Accept_def op_bind_def op_try_def op_fail_def)
  qed
qed

end
