(* ===== verification/Billing_Props.thy ===== *)
theory Billing_Props
  imports Billing_Facts Sample_Identity
begin

text \<open>
  The properties of billing: the two records of a tenant's plan never disagree, a plan change
  takes effect within the limits it checks, and a cancellation does not end the plan.
\<close>

section \<open>Histories\<close>

text \<open>
  One request: the two mutations, or anything else; the rest of the program changes neither
  subscriptions nor plans, and at most adds a tenant that has no subscription yet.
\<close>

inductive bill_step :: "world \<Rightarrow> world \<Rightarrow> bool" where
  change: "recorder_ok (bl_audit s) \<Longrightarrow> ChangePlan ev s fr c entry t code w = (r1, w') \<Longrightarrow> bill_step w w'"
| cancel: "recorder_ok (bl_audit s) \<Longrightarrow> Cancel ev s fr c entry t w = (r2, w') \<Longrightarrow> bill_step w w'"
| other: "subs_of w' = subs_of w \<Longrightarrow> subscription_plans (store w') = subscription_plans (store w) \<Longrightarrow>
    (\<And>q'. q' \<in> set (tenants (store w')) \<Longrightarrow> tenant_ID q' \<notin> sub_TenantID ` set (subs_of w)
       \<or> (\<exists>q\<in>set (tenants (store w)). tenant_ID q = tenant_ID q' \<and> tenant_PlanCode q = tenant_PlanCode q')) \<Longrightarrow>
    bill_step w w'"

lemma bill_step_in_step: "bill_step w w' \<Longrightarrow> plan_in_step (store w) \<Longrightarrow> plan_in_step (store w')"
proof (induction rule: bill_step.induct)
  case (change s ev fr c entry t code w r w')
  show ?case
  proof (cases r)
    case (Inl e) then show ?thesis using change ChangePlan_Inl by fastforce
  next
    case (Inr v)
    with change(2) have "ChangePlan ev s fr c entry t code w = (Inr v, w')" by simp
    from ChangePlan_Inr[OF this] obtain p md where
      p: "List.find (\<lambda>p. plan_Code p = code \<and> plan_IsActive p) (subscription_plans (store w)) = Some p"
      and sv: "save_subscription ev s fr entry t ''failed to change plan'' md (new_subscription ev (fresh_id fr 0) t p) p w = (Inr v, w')"
      by blast
    show ?thesis using save_subscription_in_step[OF change(1) sv change(3)] find_SomeD[OF p]
      by (simp add: new_subscription_def)
  qed
next
  case (cancel s ev fr c entry t w r w')
  show ?case
  proof (cases r)
    case (Inl e) then show ?thesis using cancel Cancel_Inl by fastforce
  next
    case (Inr v)
    with cancel(2) have "Cancel ev s fr c entry t w = (Inr v, w')" by simp
    from Cancel_Inr[OF this] obtain p q md where
      p: "List.find (\<lambda>p. plan_ID p = sub_PlanID q) (subscription_plans (store w)) = Some p"
      and sv: "save_subscription ev s fr entry t ''failed to cancel subscription'' md
        (q\<lparr>sub_CancelAtPeriodEnd := True, sub_CanceledAt := Some (now ev), sub_UpdatedAt := now ev\<rparr>) p w = (Inr v, w')"
      by blast
    show ?thesis using save_subscription_in_step[OF cancel(1) sv cancel(3)] find_SomeD[OF p] by simp
  qed
next
  case (other w' w)
  show ?case unfolding plan_in_step_def
  proof (intro conjI ballI impI)
    show "distinct (map sub_TenantID (subs_of w'))" using other(1,4) by (simp add: plan_in_step_def)
    fix s q' assume s: "s \<in> set (subs_of w')" and q': "q' \<in> set (tenants (store w'))" "tenant_ID q' = sub_TenantID s"
    then obtain q where q: "q \<in> set (tenants (store w))" "tenant_ID q = sub_TenantID s" "tenant_PlanCode q = tenant_PlanCode q'"
      using other(1) other(3)[OF q'(1)] by auto
    then have "\<exists>p\<in>set (subscription_plans (store w)). plan_ID p = sub_PlanID s \<and> plan_Code p = tenant_PlanCode q"
      using other(4) s[unfolded other(1)] unfolding plan_in_step_def by blast
    then show "\<exists>p\<in>set (subscription_plans (store w')). plan_ID p = sub_PlanID s \<and> plan_Code p = tenant_PlanCode q'"
      using other(2) q(3) by simp
  qed
qed

section \<open>The plan after an upsert\<close>

lemma select_first_upserted:
  assumes "distinct (map sub_TenantID (subscriptions d))"
  shows "\<exists>s. select_first (Some (sub_TenantID sub)) sub_TenantID (\<lambda>_. True) (upserted ev sub d) = Some s
    \<and> s \<in> set (upserted ev sub d) \<and> sub_PlanID s = sub_PlanID sub"
proof -
  have "\<exists>s\<in>set (upserted ev sub d). sub_TenantID s = sub_TenantID sub"
  proof (cases "select_first (Some (sub_TenantID sub)) sub_TenantID (\<lambda>_. True) (subscriptions d)")
    case (Some x)
    let ?f = "\<lambda>q. q\<lparr>sub_PlanID := sub_PlanID sub, sub_Status := sub_Status sub,
          sub_ProviderSubscriptionID := sub_ProviderSubscriptionID sub,
          sub_CurrentPeriodStart := sub_CurrentPeriodStart sub, sub_CurrentPeriodEnd := sub_CurrentPeriodEnd sub,
          sub_CancelAtPeriodEnd := sub_CancelAtPeriodEnd sub, sub_CanceledAt := sub_CanceledAt sub,
          sub_UpdatedAt := now ev\<rparr>"
    have x: "x \<in> set (subscriptions d)" "sub_TenantID x = sub_TenantID sub" using Some by (auto dest: select_first_SomeD)
    then have "?f x \<in> set (upserted ev sub d)" using Some by (force simp: upserted_def update_rows_def rls_def)
    moreover have "sub_TenantID (?f x) = sub_TenantID sub" using x by simp
    ultimately show ?thesis by blast
  qed (auto simp: upserted_def)
  then obtain s where s: "select_first (Some (sub_TenantID sub)) sub_TenantID (\<lambda>_. True) (upserted ev sub d) = Some s"
    by (metis (mono_tags) select_first_NoneD not_Some_eq)
  then show ?thesis using select_first_SomeD[OF s] upserted_rows[OF assms, of s ev sub] by auto
qed

lemma effective_upserted:
  assumes "distinct (map sub_TenantID (subs_of w))" "subs_of w' = upserted ev sub (store w)"
    and "subscription_plans (store w') = subscription_plans (store w)"
  shows "effective_plan (sub_TenantID sub) (store w') = List.find (\<lambda>p. plan_ID p = sub_PlanID sub) (subscription_plans (store w))"
  using select_first_upserted[OF assms(1), of sub ev] assms(2,3) by (auto simp: effective_plan_def)

lemma saved_world:
  assumes "recorder_ok (bl_audit s)" "save_subscription ev s fr entry t f md sub p w = (Inr v, w')"
  shows "subs_of w' = upserted ev sub (store w)" "subscription_plans (store w') = subscription_plans (store w)"
    "tenants (store w') = tenants (set_plan_code ev (sub_TenantID sub) (plan_Code p) (store w))" "sv_Plan v = p"
  using save_subscription_Inr[OF assms] by (auto simp: set_plan_code_def)

lemma set_plan_code_tenants:
  "q \<in> set (tenants (set_plan_code ev t code d)) \<Longrightarrow> tenant_ID q = t \<Longrightarrow> tenant_PlanCode q = code"
proof -
  assume q: "q \<in> set (tenants (set_plan_code ev t code d))" "tenant_ID q = t"
  from q(1) have "q \<in> (\<lambda>x. if tenant_ID x = t then x\<lparr>tenant_PlanCode := code, tenant_UpdatedAt := now ev\<rparr> else x)
      ` set (tenants d)" by (simp add: set_plan_code_def del: if_image_distrib)
  then obtain x where "q = (if tenant_ID x = t then x\<lparr>tenant_PlanCode := code, tenant_UpdatedAt := now ev\<rparr> else x)"
    by (rule imageE)
  then show ?thesis using q(2) by (cases "tenant_ID x = t") simp_all
qed

section \<open>Properties\<close>

text \<open>C14: the denormalized plan code of a tenant never disagrees with its subscription: whatever history of
  plan changes, cancellations and other requests, of any tenants and with any driver failures,
  a tenant has at most one subscription, and if it has one it carries the code of its plan.\<close>

theorem plan_code_agrees:
  assumes "bill_step\<^sup>*\<^sup>* w w'" and "plan_in_step (store w)"
  shows "plan_in_step (store w')"
  using assms by (induction rule: rtranclp_induct) (auto intro: bill_step_in_step)

text \<open>A successful plan change is a change to an active plan whose seat and project limits hold the
  tenant's current use, and from then on that plan is the one the quota checks apply.\<close>

theorem ChangePlan_effect:
  assumes "ChangePlan ev s fr (Some t) entry t code w = (Inr v, w')" and "recorder_ok (bl_audit s)"
    and "plan_in_step (store w)" and "distinct (map plan_ID (subscription_plans (store w)))"
  shows "plan_Code (sv_Plan v) = code \<and> plan_IsActive (sv_Plan v)
    \<and> effective_plan t (store w') = Some (sv_Plan v)
    \<and> (case plan_MaxSeats (sv_Plan v) of None \<Rightarrow> True | Some k \<Rightarrow> uc_Seats (usage_counts (Some t) (now ev) (store w)) \<le> k)
    \<and> (case plan_MaxProjects (sv_Plan v) of None \<Rightarrow> True | Some k \<Rightarrow> uc_Projects (usage_counts (Some t) (now ev) (store w)) \<le> k)
    \<and> (\<forall>q\<in>set (tenants (store w')). tenant_ID q = t \<longrightarrow> tenant_PlanCode q = code)"
proof -
  obtain p md where
    p: "List.find (\<lambda>p. plan_Code p = code \<and> plan_IsActive p) (subscription_plans (store w)) = Some p"
    and q: "\<not> exceeds (uc_Seats (usage_counts (Some t) (now ev) (store w))) (plan_MaxSeats p)"
      "\<not> exceeds (uc_Projects (usage_counts (Some t) (now ev) (store w))) (plan_MaxProjects p)"
    and sv: "save_subscription ev s fr entry t ''failed to change plan'' md (new_subscription ev (fresh_id fr 0) t p) p w = (Inr v, w')"
    using ChangePlan_Inr[OF assms(1)] by blast
  note w' = saved_world[OF assms(2) sv]
  have f: "List.find (\<lambda>r. plan_ID r = plan_ID p) (subscription_plans (store w)) = Some p"
  proof -
    obtain r where r: "List.find (\<lambda>r. plan_ID r = plan_ID p) (subscription_plans (store w)) = Some r"
      using find_SomeD[OF p] by (metis (mono_tags, lifting) find_None not_Some_eq)
    then show ?thesis using find_SomeD[OF r] find_SomeD[OF p] assms(4) by (metis distinct_map inj_on_def)
  qed
  have "distinct (map sub_TenantID (subs_of w))" using assms(3) by (simp add: plan_in_step_def)
  from effective_upserted[OF this w'(1,2)] have "effective_plan t (store w') = Some p"
    using f by (simp add: new_subscription_def)
  moreover have "case plan_MaxSeats p of None \<Rightarrow> True | Some k \<Rightarrow> uc_Seats (usage_counts (Some t) (now ev) (store w)) \<le> k"
    "case plan_MaxProjects p of None \<Rightarrow> True | Some k \<Rightarrow> uc_Projects (usage_counts (Some t) (now ev) (store w)) \<le> k"
    using q unfolding exceeds_def by (cases "plan_MaxSeats p"; simp) (cases "plan_MaxProjects p"; use q in \<open>simp add: exceeds_def\<close>)
  moreover have "\<forall>q\<in>set (tenants (store w')). tenant_ID q = t \<longrightarrow> tenant_PlanCode q = plan_Code p"
    unfolding w'(3) using set_plan_code_tenants[of _ ev t "plan_Code p" "store w"] by (simp add: new_subscription_def)
  moreover have "plan_Code p = code" "plan_IsActive p" using find_SomeD[OF p] by simp_all
  ultimately show ?thesis unfolding w'(4) by blast
qed

text \<open>C15: a cancelled subscription never lapses: after a successful cancellation every later resolution of
  the tenant's plan, at any time and past the end of the paid period, still yields the plan
  that was cancelled, as long as nobody changes it.\<close>

theorem Cancel_never_lapses:
  assumes "Cancel ev s fr (Some t) entry t' w = (Inr v, w')" and "recorder_ok (bl_audit s)"
    and "plan_in_step (store w)" and "\<And>l. sql_fault ev2 l = None"
    and "subscriptions (store w2) = subscriptions (store w')" and "subscription_plans (store w2) = subscription_plans (store w')"
  shows "activePlan ev2 (Some t) w2 = (Inr (sv_Plan v), w2)"
proof -
  obtain p q md where q: "select_first (Some t) sub_TenantID (\<lambda>_. True) (subs_of w) = Some q"
    and p: "List.find (\<lambda>p. plan_ID p = sub_PlanID q) (subscription_plans (store w)) = Some p"
    and sv: "save_subscription ev s fr entry t' ''failed to cancel subscription'' md
        (q\<lparr>sub_CancelAtPeriodEnd := True, sub_CanceledAt := Some (now ev), sub_UpdatedAt := now ev\<rparr>) p w = (Inr v, w')"
    using Cancel_Inr[OF assms(1)] by auto
  note w' = saved_world[OF assms(2) sv]
  have t: "sub_TenantID q = t" using select_first_SomeD[OF q] by simp
  have "distinct (map sub_TenantID (subs_of w))" using assms(3) by (simp add: plan_in_step_def)
  from effective_upserted[OF this w'(1,2)] have "effective_plan t (store w') = Some p" using p t by simp
  then have "effective_plan t (store w2) = Some p" using assms(5,6) by (simp add: effective_plan_def split: option.splits)
  from activePlan_run[OF assms(4) this] show ?thesis using w'(4) by simp
qed

section \<open>Witnesses\<close>

definition demo_plan :: "uuid \<Rightarrow> string \<Rightarrow> int \<Rightarrow> plan" where
  "demo_plan i code k = \<lparr>plan_ID = i, plan_Code = code, plan_Name = code, plan_PriceCents = 0,
     plan_BillingPeriod = ''monthly'', plan_MaxSeats = Some k, plan_MaxProjects = Some k,
     plan_MaxStorageMB = Some (100 * k), plan_Features = '''', plan_IsActive = True, plan_CreatedAt = 0\<rparr>"

definition demo_billing_world :: world where
  "demo_billing_world = demo_world\<lparr>store := demo_db
     \<lparr>tenants := [demo_tenant\<lparr>tenant_PlanCode := ''pro''\<rparr>],
      subscription_plans := [demo_plan 80 ''free'' 5, demo_plan 81 ''pro'' 50],
      subscriptions := [(new_subscription demo_env 85 1 (demo_plan 81 ''pro'' 50))]\<rparr>\<rparr>"

definition demo_billing :: billing_Service where
  "demo_billing = \<lparr>bl_audit = None\<rparr>"

definition demo_bill_entry :: Entry where
  "demo_bill_entry = \<lparr>en_TenantID = 1, en_ActorID = Some 10, en_Action = '''', en_TargetType = '''',
     en_TargetID = None, en_IPAddress = '''', en_UserAgent = '''', en_Metadata = []\<rparr>"

definition demo_changed :: "(err + SubscriptionView) \<times> world" where
  "demo_changed = ChangePlan demo_env demo_billing demo_fresh (Some 1) demo_bill_entry 1 ''free'' demo_billing_world"

definition demo_cancelled :: "(err + SubscriptionView) \<times> world" where
  "demo_cancelled = Cancel demo_env demo_billing demo_fresh (Some 1) demo_bill_entry 1 demo_billing_world"

lemma demo_billing_ok: "recorder_ok (bl_audit demo_billing)" "plan_in_step (store demo_billing_world)"
  "distinct (map plan_ID (subscription_plans (store demo_billing_world)))"
  by code_simp+

lemma demo_changed_ok: "\<exists>v. ChangePlan demo_env demo_billing demo_fresh (Some 1) demo_bill_entry 1 ''free'' demo_billing_world
    = (Inr v, snd demo_changed)"
proof -
  have "\<not> isl (fst demo_changed)" unfolding demo_changed_def by code_simp
  from okI[OF this] show ?thesis unfolding demo_changed_def by simp
qed

theorem plan_code_agrees_witness:
  "plan_in_step (store (snd demo_changed)) \<and> map tenant_PlanCode (tenants (store (snd demo_changed))) = [''free'']"
proof -
  have "bill_step\<^sup>*\<^sup>* demo_billing_world (snd demo_changed)"
    using bill_step.change[OF demo_billing_ok(1)] demo_changed_ok by blast
  from plan_code_agrees[OF this demo_billing_ok(2)] show ?thesis
    unfolding demo_changed_def by (rule conjI) code_simp
qed

theorem ChangePlan_effect_witness:
  "\<exists>v. ChangePlan demo_env demo_billing demo_fresh (Some 1) demo_bill_entry 1 ''free'' demo_billing_world
      = (Inr v, snd demo_changed) \<and> plan_Code (sv_Plan v) = ''free''
    \<and> effective_plan 1 (store (snd demo_changed)) = Some (sv_Plan v)"
  using demo_changed_ok ChangePlan_effect[OF _ demo_billing_ok] by blast

theorem Cancel_never_lapses_witness:
  "\<exists>v. demo_cancelled = (Inr v, snd demo_cancelled)
    \<and> activePlan (demo_env\<lparr>now := now demo_env + 10 * 365 * 24 * hour\<rparr>) (Some 1) (snd demo_cancelled)
        = (Inr (sv_Plan v), snd demo_cancelled)"
proof -
  have "\<not> isl (fst demo_cancelled)" unfolding demo_cancelled_def by code_simp
  from okI[OF this] obtain v where v: "demo_cancelled = (Inr v, snd demo_cancelled)" by blast
  have "activePlan (demo_env\<lparr>now := now demo_env + 10 * 365 * 24 * hour\<rparr>) (Some 1) (snd demo_cancelled)
      = (Inr (sv_Plan v), snd demo_cancelled)"
    by (rule Cancel_never_lapses[OF v[unfolded demo_cancelled_def] demo_billing_ok(1,2)])
      (simp_all add: demo_cancelled_def)
  with v show ?thesis by blast
qed

end
