(* ===== verification/Invitations_Props.thy ===== *)
theory Invitations_Props
  imports Invitations_Facts Authz_Props Billing_Props
begin

text \<open>
  The invitations module as \<open>internal/routes\<close> wires it, and its properties: an invitation stays
  within its author's authority and the seats of the plan, redeeming one gives exactly what it
  says, and only once.
\<close>

section \<open>Refused and foreign requests\<close>

lemma resolveRole_Some: "resolveRole ev c inp w = (Inr rid, w') \<Longrightarrow> \<exists>t. c = Some t"
  unfolding resolveRole_def RoleExists_def invitations_FindRoleBySlug_def Let_def
  by (auto simp: op_map_err_Inr split: option.splits if_splits dest!: op_try_fail_Inr WithTenantTx_ok)

context inviting
begin

lemma Create_Some: "invitations_Create ev s fr c entry t' a inp w = (Inr r, w') \<Longrightarrow> \<exists>t. c = Some t"
  unfolding invitations_Create_def Let_def
  by (auto simp: op_bind_Inr split: if_splits dest!: resolveRole_Some)

lemma store_invitation_Inl: "store_invitation ev s fr c entry i tok w = (Inl e, w') \<Longrightarrow> w' = w"
  using wired(5) unfolding store_invitation_def op_try_eq op_bind_eq invitations_repo_Create_def
  by (auto dest: WithTenantTx_rollback record_then_logged)

lemma Create_Inl:
  assumes "invitations_Create ev s fr c entry t' a inp w = (Inl e, w')"
  shows "w' = w"
  using assms unfolding invitations_Create_def Let_def
  by (cases "GenerateToken ev fr") (auto simp: op_bind_eq wired when_set_def split: if_splits prod.splits
      dest!: resolveRole_reads allow_keeps check_keeps dest: store_invitation_Inl)

end

section \<open>Wiring\<close>

text \<open>\<open>mailNotifier.SendInvitation\<close>: the message is handed to the mail transport.\<close>

definition enqueue_invitation :: InvitationMailer where
  "enqueue_invitation dest org token expiresAt = (\<lambda>w.
     w\<lparr>outbox := outbox w @ [\<lparr>mail_Kind = ''member-invitation'', mail_To = dest, mail_Token = token\<rparr>]\<rparr>)"

definition platform_invitations :: "duration \<Rightarrow> invitations_Service" where
  "platform_invitations ttl = invitations_NewService (Some audit_Record) (Some CheckSeatQuota)
     (Some CanDelegateRole) (Some enqueue_invitation) (Some NameByID) ttl"

text \<open>The role may be handed out by the actor, in the terms of internal/authz.\<close>

definition delegable :: "uuid \<Rightarrow> uuid \<Rightarrow> uuid \<Rightarrow> db \<Rightarrow> bool" where
  "delegable t a rid d \<longleftrightarrow> (\<exists>r. role_by_id (Some t) d rid = Some r
     \<and> authorizeRoleDelegation (access_of (Some t) d a) r (role_codes (Some t) d rid) = None)"

lemma NameByID_reads: "NameByID ev i w = (r, w') \<Longrightarrow> w' = w"
  unfolding NameByID_def op_try_eq Let_def
  by (auto split: if_splits dest!: run_stmt_reads[rotated] intro!: reads_only_stmt)

lemma platform_recorder: "recorder_ok (Some audit_Record)"
  unfolding recorder_ok_def using auditor.recorder_axioms by simp

interpretation seats: seat_quota CheckSeatQuota seats_left
  by unfold_locales (blast dest: CheckSeatQuota_reads CheckSeatQuota_Inr)+

interpretation delegation: role_authority CanDelegateRole delegable
proof
  show "CanDelegateRole ev c t' a rid w = (r, w') \<Longrightarrow> w' = w" for ev c t' a rid w r w'
    by (rule CanDelegateRole_world)
  show "CanDelegateRole ev (Some t) t' a rid w = (Inr u, w') \<Longrightarrow> delegable t a rid (store w)" for ev t t' a rid w u w'
    unfolding CanDelegateRole_def op_map_err_Inr delegable_def
    by (auto dest!: WithTenantTx_Some CanDelegateRole_tx_Inr)
qed

interpretation mailing: invitation_mail enqueue_invitation NameByID
  by unfold_locales (auto simp: enqueue_invitation_def dest: NameByID_reads)

interpretation invites: inviting CheckSeatQuota seats_left CanDelegateRole delegable
    enqueue_invitation NameByID "platform_invitations ttl" for ttl
  by unfold_locales (use platform_recorder in \<open>simp_all add: platform_invitations_def invitations_NewService_def\<close>)

lemma platform_ttl: "0 < ins_TTL (platform_invitations ttl)"
  by (simp add: platform_invitations_def invitations_NewService_def)


section \<open>Histories\<close>

text \<open>
  One request of any tenant: the operations of this module, or anything else, which does not
  touch the invitations.
\<close>

inductive inv_step :: "world \<Rightarrow> world \<Rightarrow> bool" where
  create: "invitations_Create ev (platform_invitations ttl) fr c entry t a inp w = (r1, w') \<Longrightarrow> inv_step w w'"
| revoke: "invitations_Revoke ev (platform_invitations ttl) fr c entry i w = (r2, w') \<Longrightarrow> inv_step w w'"
| accept: "invitations_Accept ev (platform_invitations ttl) fr ainp w = (r3, w') \<Longrightarrow> inv_step w w'"
| expire: "ExpirePending ev c w = (r4, w') \<Longrightarrow> inv_step w w'"
| other: "invs_of w' = invs_of w \<Longrightarrow> inv_step w w'"

lemma invitations_repo_reads: "invitations_FindByID ev c i w = (r, w') \<Longrightarrow> w' = w"
  unfolding invitations_FindByID_def
  by (erule op_map_err_reads'[rotated], erule WithTenantTx_reads[rotated])
    (auto intro!: reads_only_map_err reads_only_stmt reads_only_take)

text \<open>The invitations after some of them may have been given a final status.\<close>

definition restatused :: "string \<Rightarrow> db \<Rightarrow> invitation list \<Rightarrow> bool" where
  "restatused to d is \<longleftrightarrow> is = invitations d \<or> (\<exists>sess P. is = invitations (set_status sess P to d))"

lemma restatused_intros: "restatused to d (invitations d)" "restatused to d (invitations (set_status sess P to d))"
  by (auto simp: restatused_def)

lemma UpdateStatus_invs: "UpdateStatus ev c i from to w = (r, w') \<Longrightarrow> restatused to (store w) (invs_of w')"
  unfolding UpdateStatus_def
  by (cases r) (auto simp: tx_inv restatused_intros dest!: WithTenantTx_rollback WithTenantTx_ok)

lemma Revoke_invs:
  assumes "invitations_Revoke ev (platform_invitations ttl) fr c entry i w = (r, w')"
  shows "restatused ''revoked'' (store w) (invs_of w')"
proof -
  have rec: "invs_of w2 = invs_of w1" if "record_then ev (ins_audit (platform_invitations ttl)) j e () w1 = (x, w2)" for j e x w1 w2
    using record_then_logged[OF invites.wired(5) that] by (auto simp: logged_def)
  show ?thesis using assms unfolding invitations_Revoke_def op_try_eq
    by (auto simp: op_try_eq StatusRevoked_def restatused_intros split: if_splits
        dest!: invitations_repo_reads UpdateStatus_invs rec)
qed

lemma ExpirePending_invs:
  "ExpirePending ev c w = (r, w') \<Longrightarrow> restatused ''expired'' (store w) (invs_of w')"
  unfolding ExpirePending_def
  by (cases r) (auto simp: tx_inv op_map_err_eq StatusExpired_def restatused_intros
      dest!: WithTenantTx_rollback WithTenantTx_ok)

lemma spent_restatused: "restatused to d is \<Longrightarrow> to \<noteq> ''pending'' \<Longrightarrow> spent h (invitations d) \<Longrightarrow> spent h is"
  by (auto simp: restatused_def intro: spent_set_status)

lemma Accept_invs:
  assumes "invitations_Accept ev (platform_invitations ttl) fr inp w = (r, w')"
  shows "invs_of w' = invs_of w \<or> (\<exists>i. invs_of w' = invitations (claim_invitation ev i (store w)))"
proof (cases r)
  case (Inl e) then show ?thesis using assms invitations_Accept_Inl by fastforce
next
  case (Inr x)
  from invitations_Accept_Inr[OF assms[unfolded Inr]] obtain i pw
    where m: "redeem ev (platform_invitations ttl) fr inp i pw w = (Inr x, w')" by blast
  from redeem_Inr[OF m invites.wired(5)] show ?thesis
    by (auto simp: logged_def dest!: accept_invitation_Inr)
qed

lemma Create_invs:
  assumes "invitations_Create ev (platform_invitations ttl) fr c entry t a inp w = (r, w')"
  shows "invs_of w' = invs_of w \<or> (\<exists>i. inv_TokenHash i \<notin> inv_TokenHash ` set (invs_of w) \<and> invs_of w' = invs_of w @ [i])"
proof (cases r)
  case (Inl e) then show ?thesis using assms invites.Create_Inl by fastforce
next
  case (Inr x)
  then obtain t' where "c = Some t'" using assms invites.Create_Some by blast
  with assms Inr have "invitations_Create ev (platform_invitations ttl) fr (Some t') entry t a inp w = (Inr x, w')" by simp
  from invites.Create_Inr[OF this] show ?thesis by (auto simp: invitation_unique_def)
qed

lemma inv_step_spent: "inv_step w w' \<Longrightarrow> spent h (invs_of w) \<Longrightarrow> spent h (invs_of w')"
proof (induction rule: inv_step.induct)
  case (create ev ttl fr c entry t a inp w r w')
  then have "inv_TokenHash i \<notin> inv_TokenHash ` set (invs_of w) \<Longrightarrow> spent h (invs_of w @ [i])" for i
    by (intro spent_append)
  then show ?case using Create_invs[OF create(1)] create(2) by auto
next
  case (accept ev ttl fr inp w r w')
  then show ?case using Accept_invs[OF accept(1)] by (auto intro: spent_claim)
qed (auto dest!: Revoke_invs ExpirePending_invs intro: spent_restatused)

section \<open>Effects of one redemption\<close>

lemma token_unique:
  "distinct (map inv_TokenHash is) \<Longrightarrow> i \<in> set is \<Longrightarrow> j \<in> set is \<Longrightarrow> inv_TokenHash i = inv_TokenHash j \<Longrightarrow> i = j"
  by (metis distinct_map inj_on_def)

lemma platform_Accept_Inr:
  assumes "invitations_Accept ev (platform_invitations ttl) fr inp w = (Inr r, w')"
    and "distinct (map inv_TokenHash (invs_of w))"
  shows "\<exists>i pw xs. i \<in> set (invs_of w) \<and> inv_TokenHash i = HashToken ev (ai_Token inp)
    \<and> inv_Status i = ''pending'' \<and> now ev < inv_ExpiresAt i
    \<and> accept_password ev (invited_existing ev i (store w) \<noteq> None) (ai_Password inp) = Inr pw
    \<and> w' = logged xs (w\<lparr>store := redeemed ev (fresh_id fr 0)
        (if TrimSpace (ai_FullName inp) = '''' then inv_Email i else TrimSpace (ai_FullName inp)) pw i (store w)\<rparr>)
    \<and> al_TenantID ` set xs \<subseteq> {inv_TenantID i} \<and> acc_TenantID r = inv_TenantID i \<and> acc_Email r = inv_Email i
    \<and> acc_UserID r = invited_id ev (fresh_id fr 0) i (store w)
    \<and> ur_RoleID ` set (invited_grants ev i (acc_UserID r) (store w)) \<subseteq> role_ID ` set (roles (store w))"
proof -
  obtain i pw where i: "i \<in> set (invs_of w)" "inv_TokenHash i = HashToken ev (ai_Token inp)"
    and pw: "accept_password ev (invited_existing ev i (store w) \<noteq> None) (ai_Password inp) = Inr pw"
    and rd: "redeem ev (platform_invitations ttl) fr inp i pw w = (Inr r, w')"
    using invitations_Accept_Inr[OF assms(1)] by blast
  let ?n = "if TrimSpace (ai_FullName inp) = '''' then inv_Email i else TrimSpace (ai_FullName inp)"
  obtain d xs where ac: "accept_invitation ev (HashToken ev (ai_Token inp)) (fresh_id fr 0) ?n pw (store w) = Inr (acc_UserID r, d)"
    and w': "w' = logged xs (w\<lparr>store := d\<rparr>)" "al_TenantID ` set xs \<subseteq> {inv_TenantID i}"
      "acc_TenantID r = inv_TenantID i" "acc_Email r = inv_Email i"
    using redeem_Inr[OF rd invites.wired(5)] by blast
  obtain j where j: "j \<in> set (invs_of w)" "inv_TokenHash j = HashToken ev (ai_Token inp)"
    "inv_Status j = ''pending''" "now ev < inv_ExpiresAt j" "acc_UserID r = invited_id ev (fresh_id fr 0) j (store w)"
    "d = redeemed ev (fresh_id fr 0) ?n pw j (store w)"
    "ur_RoleID ` set (invited_grants ev j (acc_UserID r) (store w)) \<subseteq> role_ID ` set (roles (store w))"
    using accept_invitation_Inr[OF ac] by blast
  have "j = i" using token_unique[OF assms(2) j(1) i(1)] i(2) j(2) by simp
  then show ?thesis using i pw w' j by blast
qed

lemma seats_after_invitation:
  assumes "inv_TenantID i = t" "inv_Status i = ''pending''" "n < inv_ExpiresAt i"
    and "store w' = (store w)\<lparr>invitations := invs_of w @ [i], audit_logs := xs\<rparr>"
  shows "seats_used t n (store w') = seats_used t n (store w) + 1"
  using assms by (simp add: seats_used_def usage_counts_def count_rows_def select_rows_def rls_def)

section \<open>Properties\<close>

text \<open>C16: an invitation never exceeds its author's authority or the plan: one that is created carries a
  role of the tenant whose permissions the author holds and that the author outranks (the
  Owner role only from an Owner), and with it counted the members and open invitations still
  fit the seats of the plan in force.\<close>

theorem invitation_within_authority:
  assumes "invitations_Create ev (platform_invitations ttl) fr (Some t) entry ten a inp w = (Inr r, w')"
    and "seats_used t (now ev) (store w) < 2 ^ 63"
  shows "\<exists>ro p. role_by_id (Some t) (store w) (inv_RoleID (ir_Invitation r)) = Some ro
    \<and> set (role_codes (Some t) (store w) (role_ID ro)) \<subseteq> set (user_codes (Some t) (store w) a)
    \<and> (role_Slug ro = RoleOwner \<longrightarrow> IsOwner (access_of (Some t) (store w) a))
    \<and> (IsOwner (access_of (Some t) (store w) a) \<or> Rank (access_of (Some t) (store w) a) < role_Rank ro)
    \<and> effective_plan t (store w) = Some p
    \<and> (case plan_MaxSeats p of None \<Rightarrow> True | Some k \<Rightarrow> seats_used t (now ev) (store w') \<le> k)
    \<and> invs_of w' = invs_of w @ [ir_Invitation r] \<and> inv_TenantID (ir_Invitation r) = t \<and> ten = t"
proof -
  obtain rid h xs where ro: "seats_left ev t (store w)" and de: "delegable t a rid (store w)"
    and i: "ir_Invitation r = new_invitation ev (platform_invitations ttl) (fresh_id fr 0) ten a
        (ToLower (unicode_lower ev) (TrimSpace (ii_Email inp))) rid h" "ten = t"
    and w': "store w' = (store w)\<lparr>invitations := invs_of w @ [ir_Invitation r], audit_logs := audit_logs (store w) @ xs\<rparr>"
    using invites.Create_Inr[OF assms(1)] by blast
  have f: "inv_RoleID (ir_Invitation r) = rid" "inv_TenantID (ir_Invitation r) = t"
    "inv_Status (ir_Invitation r) = ''pending''" "now ev < inv_ExpiresAt (ir_Invitation r)"
    using i platform_ttl[of ttl] by (simp_all add: new_invitation_def StatusPending_def)
  have n: "seats_used t (now ev) (store w') = seats_used t (now ev) (store w) + 1"
    by (rule seats_after_invitation[OF f(2-4) w'])
  have "0 \<le> seats_used t (now ev) (store w)" by (simp add: seats_used_def usage_counts_def count_rows_def)
  then have "wrap64 (seats_used t (now ev) (store w)) = seats_used t (now ev) (store w)"
    using assms(2) by (intro wrap64_id) simp_all
  with ro n obtain p where p: "effective_plan t (store w) = Some p"
      "case plan_MaxSeats p of None \<Rightarrow> True | Some k \<Rightarrow> seats_used t (now ev) (store w') \<le> k"
    unfolding seats_left_def by (force split: option.splits)
  from de obtain q where q: "role_by_id (Some t) (store w) rid = Some q"
    "authorizeRoleDelegation (access_of (Some t) (store w) a) q (role_codes (Some t) (store w) rid) = None"
    unfolding delegable_def by blast
  moreover have "role_ID q = rid" using q(1) by (auto simp: role_by_id_def dest: select_first_SomeD)
  ultimately show ?thesis using p f w' i(2) by (auto simp: authorizeRoleDelegation_None)
qed

text \<open>The accounts of an organization with the address of an invitation.\<close>

definition holds_address :: "env \<Rightarrow> invitation \<Rightarrow> db \<Rightarrow> user \<Rightarrow> bool" where
  "holds_address ev i d u \<longleftrightarrow> u \<in> set (users d) \<and> user_TenantID u = inv_TenantID i
     \<and> citext ev (user_Email u) = citext ev (inv_Email i) \<and> user_DeletedAt u = None"

lemma invited_existing_None: "invited_existing ev i d = None \<longleftrightarrow> (\<nexists>u. holds_address ev i d u)"
  by (auto simp: invited_existing_def holds_address_def find_None_iff)

lemma invited_existing_Some: "invited_existing ev i d = Some u \<Longrightarrow> holds_address ev i d u"
  by (auto simp: invited_existing_def holds_address_def dest!: find_SomeD)

text \<open>C17: redeeming an invitation does what it says and no more. The token is that of a pending
  invitation that has not expired. If its address has an account in its organization, that
  account stays as it is; otherwise exactly one is created, active and verified, under the
  given name and with the hash of the given password. That account is granted the role of the
  invitation unless it holds it already. The invitation becomes accepted, and its token is
  spent. Except for audit entries of the organization, nothing else in the world changes: every other
  account, grant, invitation and table, the caches and the mail queue are as they were.\<close>

theorem Accept_effect:
  assumes "invitations_Accept ev (platform_invitations ttl) fr inp w = (Inr r, w')"
    and "distinct (map inv_TokenHash (invs_of w))"
  shows "\<exists>i\<in>set (invs_of w). \<exists>us gs xs. inv_TokenHash i = HashToken ev (ai_Token inp)
    \<and> inv_Status i = ''pending'' \<and> now ev < inv_ExpiresAt i
    \<and> acc_TenantID r = inv_TenantID i \<and> acc_Email r = inv_Email i
    \<and> w' = w\<lparr>store := (store w)\<lparr>users := users (store w) @ us, user_roles := user_roles (store w) @ gs,
        invitations := map (\<lambda>q. if inv_ID q = inv_ID i \<and> inv_Status q = ''pending''
          then q\<lparr>inv_Status := ''accepted'', inv_AcceptedAt := Some (now ev)\<rparr> else q) (invs_of w),
        audit_logs := audit_logs (store w) @ xs\<rparr>\<rparr>
    \<and> (if \<exists>u. holds_address ev i (store w) u
       then us = [] \<and> (\<exists>u. holds_address ev i (store w) u \<and> user_ID u = acc_UserID r)
       else acc_UserID r = fresh_id fr 0 \<and> 8 \<le> length (ai_Password inp)
         \<and> (\<exists>h. HashPassword ev (ai_Password inp) = Inr h
           \<and> us = [\<lparr>user_ID = acc_UserID r, user_TenantID = inv_TenantID i, user_Email = inv_Email i,
               user_PasswordHash = Some h,
               user_FullName = (if TrimSpace (ai_FullName inp) = '''' then inv_Email i else TrimSpace (ai_FullName inp)),
               user_AvatarURL = None, user_Status = ''active'', user_EmailVerifiedAt = Some (now ev),
               user_LastLoginAt = None, user_CreatedAt = now ev, user_UpdatedAt = now ev, user_DeletedAt = None\<rparr>]))
    \<and> gs = (if \<exists>q\<in>set (user_roles (store w)). ur_UserID q = acc_UserID r \<and> ur_RoleID q = inv_RoleID i then []
        else [\<lparr>ur_UserID = acc_UserID r, ur_RoleID = inv_RoleID i, ur_TenantID = inv_TenantID i,
               ur_AssignedAt = now ev, ur_AssignedBy = inv_InvitedBy i\<rparr>])
    \<and> al_TenantID ` set xs \<subseteq> {inv_TenantID i} \<and> spent (inv_TokenHash i) (invs_of w')"
proof -
  let ?n = "\<lambda>i. if TrimSpace (ai_FullName inp) = '''' then inv_Email i else TrimSpace (ai_FullName inp)"
  obtain i pw xs where i: "i \<in> set (invs_of w)" "inv_TokenHash i = HashToken ev (ai_Token inp)"
    and p: "inv_Status i = ''pending''" "now ev < inv_ExpiresAt i"
    and pw: "accept_password ev (invited_existing ev i (store w) \<noteq> None) (ai_Password inp) = Inr pw"
    and w': "w' = logged xs (w\<lparr>store := redeemed ev (fresh_id fr 0) (?n i) pw i (store w)\<rparr>)"
    and xs: "al_TenantID ` set xs \<subseteq> {inv_TenantID i}"
    and r: "acc_TenantID r = inv_TenantID i" "acc_Email r = inv_Email i"
      "acc_UserID r = invited_id ev (fresh_id fr 0) i (store w)"
    using platform_Accept_Inr[OF assms] by blast
  have sp: "spent (inv_TokenHash i) (invs_of w')"
    using claim_spends[OF i(1) refl assms(2)] unfolding w' by (simp add: logged_def)
  define us gs where "us = invited_users ev (fresh_id fr 0) (?n i) pw i (store w)"
    and "gs = invited_grants ev i (acc_UserID r) (store w)"
  have st: "w' = w\<lparr>store := (store w)\<lparr>users := users (store w) @ us, user_roles := user_roles (store w) @ gs,
        invitations := map (\<lambda>q. if inv_ID q = inv_ID i \<and> inv_Status q = ''pending''
          then q\<lparr>inv_Status := ''accepted'', inv_AcceptedAt := Some (now ev)\<rparr> else q) (invs_of w),
        audit_logs := audit_logs (store w) @ xs\<rparr>\<rparr>"
    by (simp add: w' logged_def redeemed_def claim_invitation_def claimable_def us_def gs_def r(3))
  have gs: "gs = (if \<exists>q\<in>set (user_roles (store w)). ur_UserID q = acc_UserID r \<and> ur_RoleID q = inv_RoleID i then []
        else [\<lparr>ur_UserID = acc_UserID r, ur_RoleID = inv_RoleID i, ur_TenantID = inv_TenantID i,
               ur_AssignedAt = now ev, ur_AssignedBy = inv_InvitedBy i\<rparr>])"
    by (simp add: gs_def invited_grants_def user_role_fresh_def invited_role_def)
  show ?thesis
  proof (cases "invited_existing ev i (store w)")
    case None
    then have n: "\<nexists>u. holds_address ev i (store w) u" using invited_existing_None by simp
    obtain h where h: "HashPassword ev (ai_Password inp) = Inr h" "8 \<le> length (ai_Password inp)" "pw = Some h"
      using pw None by (auto simp: accept_password_def split: if_splits sum.splits)
    show ?thesis using i p r xs st gs sp n h None
      by (intro bexI[OF _ i(1)] exI[of _ us] exI[of _ gs] exI[of _ xs])
        (simp add: us_def invited_users_def invited_id_def invited_user_def)
  next
    case (Some u)
    then have u: "holds_address ev i (store w) u" using invited_existing_Some by simp
    show ?thesis using i p r xs st gs sp u Some
      by (intro bexI[OF _ i(1)] exI[of _ us] exI[of _ gs] exI[of _ xs])
        (auto simp: us_def invited_users_def invited_id_def)
  qed
qed

text \<open>C18: an invitation can be redeemed at most once: after a successful redemption, whatever anyone
  does next (new invitations, revocations, redemptions, expiry runs, anything else, in any
  order and with any failures), the same token is refused.\<close>

theorem invitation_accepted_once:
  assumes "invitations_Accept ev (platform_invitations ttl) fr inp w = (Inr r, w1)"
    and "distinct (map inv_TokenHash (invs_of w))"
    and "inv_step\<^sup>*\<^sup>* w1 w2"
    and "HashToken ev2 (ai_Token inp2) = HashToken ev (ai_Token inp)"
  shows "\<exists>e. invitations_Accept ev2 (platform_invitations ttl2) fr2 inp2 w2 = (Inl e, w2)"
proof -
  have "spent (HashToken ev (ai_Token inp)) (invs_of w1)"
    using platform_Accept_Inr[OF assms(1,2)] claim_spends[OF _ _ assms(2)] by (fastforce simp: logged_def)
  from assms(3) this have "spent (HashToken ev (ai_Token inp)) (invs_of w2)"
    by (induction rule: rtranclp_induct) (auto intro: inv_step_spent)
  then obtain e where "fst (invitations_Accept ev2 (platform_invitations ttl2) fr2 inp2 w2) = Inl e"
    using spent_refused assms(4) by metis
  then show ?thesis using invitations_Accept_Inl by (metis prod.collapse)
qed

text \<open>C19: an expired invitation that nobody revoked is dead but still in the way: its token is refused, and
  so is a new invitation to the same address, with nothing changed by either.\<close>

theorem expired_invitation_blocks:
  assumes "i \<in> set (invs_of w)" and "inv_Status i = ''pending''" and "inv_ExpiresAt i < now ev"
    and "distinct (map inv_TokenHash (invs_of w))"
    and "citext ev (inv_Email i) = citext ev (ToLower (unicode_lower ev) (TrimSpace (ii_Email inp)))"
    and "HashToken ev (ai_Token ainp) = inv_TokenHash i"
  shows "(\<exists>e. invitations_Create ev (platform_invitations ttl) fr (Some (inv_TenantID i)) entry ten a inp w = (Inl e, w))
    \<and> (\<exists>e. invitations_Accept ev (platform_invitations ttl) fr2 ainp w = (Inl e, w))"
proof
  obtain r w' where m: "invitations_Create ev (platform_invitations ttl) fr (Some (inv_TenantID i)) entry ten a inp w = (r, w')"
    by force
  show "\<exists>e. invitations_Create ev (platform_invitations ttl) fr (Some (inv_TenantID i)) entry ten a inp w = (Inl e, w)"
  proof (cases r)
    case (Inl e) then show ?thesis using m invites.Create_Inl by blast
  next
    case (Inr x)
    from invites.Create_Inr[OF m[unfolded Inr]] assms(1,2,5)
    have False by (auto simp: invitation_unique_def new_invitation_def StatusPending_def)
    then show ?thesis ..
  qed
  obtain r w' where m: "invitations_Accept ev (platform_invitations ttl) fr2 ainp w = (r, w')" by force
  show "\<exists>e. invitations_Accept ev (platform_invitations ttl) fr2 ainp w = (Inl e, w)"
  proof (cases r)
    case (Inl e) then show ?thesis using m invitations_Accept_Inl by blast
  next
    case (Inr x)
    from platform_Accept_Inr[OF m[unfolded Inr] assms(4)] token_unique[OF assms(4) _ assms(1)] assms(3,6)
    have False by fastforce
    then show ?thesis ..
  qed
qed

section \<open>Witnesses\<close>

definition demo_invite :: InviteInput where
  "demo_invite = \<lparr>ii_Email = '' Eve@x '', ii_RoleID = Some 21, ii_RoleSlug = ''''\<rparr>"

definition demo_redemption :: AcceptInput where
  "demo_redemption = \<lparr>ai_Token = ''seed'', ai_FullName = ''Eve'', ai_Password = ''password''\<rparr>"

definition demo_invited :: "(err + InviteResult) \<times> world" where
  "demo_invited = invitations_Create demo_env (platform_invitations 0) demo_fresh (Some 1) demo_bill_entry 1 10
     demo_invite demo_billing_world"

definition demo_joined :: "(err + AcceptResult) \<times> world" where
  "demo_joined = invitations_Accept demo_env (platform_invitations 0) demo_fresh demo_redemption (snd demo_invited)"

lemma demo_invited_ok: "\<exists>r. invitations_Create demo_env (platform_invitations 0) demo_fresh (Some 1) demo_bill_entry 1 10
     demo_invite demo_billing_world = (Inr r, snd demo_invited)"
proof -
  have "\<not> isl (fst demo_invited)" unfolding demo_invited_def by code_simp
  from okI[OF this] show ?thesis unfolding demo_invited_def by simp
qed

lemma demo_joined_ok: "\<exists>r. invitations_Accept demo_env (platform_invitations 0) demo_fresh demo_redemption (snd demo_invited)
     = (Inr r, snd demo_joined)"
proof -
  have "\<not> isl (fst demo_joined)" unfolding demo_joined_def demo_invited_def by code_simp
  from okI[OF this] show ?thesis unfolding demo_joined_def by simp
qed

lemma demo_invited_invs: "map inv_TokenHash (invs_of (snd demo_invited)) = [''hseed'']"
  unfolding demo_invited_def by code_simp

theorem invitation_within_authority_witness:
  "\<exists>r ro p. demo_invited = (Inr r, snd demo_invited)
    \<and> role_by_id (Some 1) (store demo_billing_world) (inv_RoleID (ir_Invitation r)) = Some ro
    \<and> effective_plan 1 (store demo_billing_world) = Some p
    \<and> (case plan_MaxSeats p of None \<Rightarrow> True | Some k \<Rightarrow> seats_used 1 (now demo_env) (store (snd demo_invited)) \<le> k)"
proof -
  obtain r where r: "invitations_Create demo_env (platform_invitations 0) demo_fresh (Some 1) demo_bill_entry 1 10
     demo_invite demo_billing_world = (Inr r, snd demo_invited)" using demo_invited_ok by blast
  have "seats_used 1 (now demo_env) (store demo_billing_world) < 2 ^ 63" by code_simp
  from invitation_within_authority[OF r this] r show ?thesis unfolding demo_invited_def by fastforce
qed

theorem Accept_effect_witness:
  "\<exists>i\<in>set (invs_of (snd demo_invited)). inv_Status i = ''pending'' \<and> spent (inv_TokenHash i) (invs_of (snd demo_joined))"
proof -
  have "distinct (map inv_TokenHash (invs_of (snd demo_invited)))" by (simp add: demo_invited_invs)
  from Accept_effect[OF _ this] demo_joined_ok show ?thesis by blast
qed

theorem invitation_accepted_once_witness:
  "\<exists>e. invitations_Accept demo_env (platform_invitations 0) demo_fresh demo_redemption (snd demo_joined)
    = (Inl e, snd demo_joined)"
proof -
  have "distinct (map inv_TokenHash (invs_of (snd demo_invited)))" by (simp add: demo_invited_invs)
  from invitation_accepted_once[OF _ this rtranclp.rtrancl_refl refl] demo_joined_ok show ?thesis by blast
qed

definition later :: env where
  "later = demo_env\<lparr>now := now demo_env + 30 * 24 * hour\<rparr>"

theorem expired_invitation_blocks_witness:
  "(\<exists>e. invitations_Create later (platform_invitations 0) demo_fresh (Some 1) demo_bill_entry 1 10 demo_invite
      (snd demo_invited) = (Inl e, snd demo_invited))
   \<and> (\<exists>e. invitations_Accept later (platform_invitations 0) demo_fresh demo_redemption (snd demo_invited)
      = (Inl e, snd demo_invited))"
proof -
  obtain i where i: "invs_of (snd demo_invited) = [i]" using demo_invited_invs by auto
  have f: "map (\<lambda>i. (inv_Status i, inv_ExpiresAt i, inv_Email i, inv_TenantID i)) (invs_of (snd demo_invited))
      = [(''pending'', now demo_env + 7 * 24 * hour, ''eve@x'', 1)]"
    unfolding demo_invited_def by code_simp
  have c: "citext later ''eve@x'' = citext later (ToLower (unicode_lower later) (TrimSpace (ii_Email demo_invite)))"
    by code_simp
  have t: "now demo_env + 7 * 24 * hour < now later" "HashToken later (ai_Token demo_redemption) = ''hseed''" by code_simp+
  have "distinct (map inv_TokenHash (invs_of (snd demo_invited)))" by (simp add: demo_invited_invs)
  then show ?thesis
    using expired_invitation_blocks[of i "snd demo_invited" later demo_invite demo_redemption] i f c t demo_invited_invs by simp
qed

end
