(* ===== verification/Preferences_Props.thy ===== *)
theory Preferences_Props
  imports Preferences_Svc Billing_Facts Sample_Identity Invitations_Props
begin

text \<open>
  Properties of internal/preferences as \<open>internal/routes\<close> wires it: what changing a password
  does, what a profile update can touch, what is stored is what is read back, and the
  one-query profile agrees with the separate queries.
\<close>

definition platform_preferences :: preferences_Service where
  "platform_preferences = \<lparr>pfs_audit = Some audit_Record, pfs_perms = Some UserPermissions\<rparr>"

section \<open>Reads\<close>

lemma FindUser_Inr: "FindUser ev c i w = (r, w') \<Longrightarrow> w' = w \<and>
    (\<forall>u. r = Inr u \<longrightarrow> (\<exists>t. c = Some t \<and> live_user (Some t) (store w) i = Some u))"
proof -
  assume m: "FindUser ev c i w = (r, w')"
  have q: "w1 = w \<and> (\<forall>x. q = Inr x \<longrightarrow> (\<exists>t. c = Some t \<and> x = live_user (Some t) (store w) i))"
    if "op_map_err (Wrapped ''preferences: find user'') (WithTenantTx ev ''preferences.FindUser'' c (\<lambda>sess.
       stmt ev ''preferences.FindUser.scan'' (tx_query (\<lambda>d. live_user sess d i)))) w = (q, w1)" for q w1
    using that by (cases q) (auto simp: op_map_err_eq tx_inv dest!: WithTenantTx_rollback WithTenantTx_ok)
  obtain q1 w1 where q1: "op_map_err (Wrapped ''preferences: find user'') (WithTenantTx ev ''preferences.FindUser'' c (\<lambda>sess.
       stmt ev ''preferences.FindUser.scan'' (tx_query (\<lambda>d. live_user sess d i)))) w = (q1, w1)" by force
  show ?thesis
  proof (cases "\<exists>u. q1 = Inr (Some u)")
    case True
    then obtain u where "q1 = Inr (Some u)" by blast
    then show ?thesis using m q1 q[OF q1] unfolding FindUser_def
      by (auto simp: op_bind_def op_try_def split: if_splits)
  next
    case False
    then show ?thesis using m q1 q[OF q1] unfolding FindUser_def
      by (cases q1) (auto simp: op_bind_def op_try_def op_fail_def split: option.splits)
  qed
qed

lemma write_user_Inr: "write_user sess i f d = Inr (x, d') \<Longrightarrow>
    d' = d\<lparr>users := update_rows sess user_TenantID (\<lambda>u. user_ID u = i \<and> user_DeletedAt u = None) f (users d)\<rparr>"
  unfolding write_user_def Let_def by (auto simp: tx_inv)

lemma UpdatePassword_cases: "UpdatePassword ev c i h w = (r, w') \<Longrightarrow>
    (case r of Inl e \<Rightarrow> w' = w | Inr _ \<Rightarrow> (\<exists>t. c = Some t \<and> w' = w\<lparr>store := set_password ev (Some t) i h (store w)\<rparr>))"
  unfolding UpdatePassword_def set_password_def
  by (cases r) (auto simp: op_map_err_eq tx_inv dest!: WithTenantTx_rollback WithTenantTx_ok write_user_Inr)

lemma RevokeAll_cases: "RevokeAllRefreshTokens ev c i w = (r, w') \<Longrightarrow>
    (case r of Inl e \<Rightarrow> w' = w | Inr _ \<Rightarrow> (\<exists>t. c = Some t \<and> w' = w\<lparr>store := revoke_tokens ev (Some t) (\<lambda>r. rt_UserID r = i) (store w)\<rparr>))"
  unfolding RevokeAllRefreshTokens_def
  by (cases r) (auto simp: op_map_err_eq tx_inv dest!: WithTenantTx_rollback WithTenantTx_ok)

section \<open>Changing a password\<close>

lemma ChangePassword_cases:
  assumes "ChangePassword ev platform_preferences fr (Some t) entry ten i cur new w = (r, w')"
  shows "(isl r \<and> w' = w) \<or> (\<exists>u h n. live_user (Some t) (store w) i = Some u \<and> user_PasswordHash u = Some h
     \<and> CheckPassword ev h cur \<and> 8 \<le> length new \<and> new \<noteq> cur \<and> bcrypt ev new = Some n
     \<and> ((isl r \<and> w' = w\<lparr>store := set_password ev (Some t) i n (store w)\<rparr>)
        \<or> (r = Inr () \<and> (\<exists>xs. w' = logged xs (w\<lparr>store := revoke_tokens ev (Some t) (\<lambda>r. rt_UserID r = i)
              (set_password ev (Some t) i n (store w))\<rparr>)))))"
proof -
  obtain x w1 where x: "FindUser ev (Some t) i w = (x, w1)" by force
  then have w1: "w1 = w" using FindUser_Inr by blast
  show ?thesis
  proof (cases x)
    case (Inl e) then show ?thesis using assms x w1 by (auto simp: ChangePassword_def op_try_def op_fail_def)
  next
    case (Inr u)
    then have u: "live_user (Some t) (store w) i = Some u" using FindUser_Inr[OF x] by auto
    show ?thesis
    proof (cases "\<exists>h. user_PasswordHash u = Some h \<and> CheckPassword ev h cur \<and> 8 \<le> length new \<and> new \<noteq> cur")
      case False
      then show ?thesis using assms x w1 Inr unfolding ChangePassword_def
        by (auto simp: op_try_def op_fail_def split: option.splits if_splits)
    next
      case True
      then obtain h where h: "user_PasswordHash u = Some h" "CheckPassword ev h cur" "8 \<le> length new" "new \<noteq> cur" by blast
      show ?thesis
      proof (cases "bcrypt ev new")
        case None
        then show ?thesis using assms x w1 Inr h unfolding ChangePassword_def HashPassword_def
          by (auto simp: op_try_def op_fail_def op_lift_def)
      next
        case (Some n)
        obtain y w2 where y: "UpdatePassword ev (Some t) i n w = (y, w2)" by force
        obtain z w3 where z: "RevokeAllRefreshTokens ev (Some t) i w2 = (z, w3)" by force
        obtain r4 w4 where l: "record_then ev (pfs_audit platform_preferences) (fresh_id fr 1)
             (entry\<lparr>en_Action := ActionPasswordChanged, en_TargetType := TargetUser, en_TargetID := Some i\<rparr>) () w3 = (r4, w4)" by force
        have l': "r4 = Inr () \<and> (\<exists>xs. w4 = logged xs w3)"
          using record_then_logged[OF _ l] platform_recorder by (auto simp: platform_preferences_def)
        have "isl r \<and> w' = w \<or> isl r \<and> w' = w2 \<and> \<not> isl y \<and> isl z \<or> r = r4 \<and> w' = w4 \<and> \<not> isl y \<and> \<not> isl z"
          using assms x w1 Inr h Some y z l UpdatePassword_cases[OF y] RevokeAll_cases[OF z] unfolding ChangePassword_def HashPassword_def
          by (cases y; cases z) (auto simp: op_try_def op_fail_def op_lift_def)
        then show ?thesis using u h Some UpdatePassword_cases[OF y] RevokeAll_cases[OF z] l'
          by (cases y; cases z) auto
      qed
    qed
  qed
qed

lemma revoke_tokens_of:
  fixes t i :: uuid and d :: db and ev :: env
  defines "ts \<equiv> refresh_tokens (revoke_tokens ev (Some t) (\<lambda>r. rt_UserID r = i) d)"
  shows "q \<in> set ts \<Longrightarrow> rt_TenantID q = t \<Longrightarrow> rt_UserID q = i \<Longrightarrow> \<not> live_token q"
    and "filter (\<lambda>q. rt_TenantID q \<noteq> t \<or> rt_UserID q \<noteq> i) ts = filter (\<lambda>q. rt_TenantID q \<noteq> t \<or> rt_UserID q \<noteq> i) (refresh_tokens d)"
proof -
  let ?g = "\<lambda>r. if rls (Some t) rt_TenantID r \<and> rt_UserID r = i \<and> rt_RevokedAt r = None then r\<lparr>rt_RevokedAt := Some (now ev)\<rparr> else r"
  have ts: "ts = map ?g (refresh_tokens d)" by (simp add: ts_def revoke_tokens_def update_rows_def)
  have dead: "rt_TenantID (?g r) = t \<Longrightarrow> rt_UserID (?g r) = i \<Longrightarrow> \<not> live_token (?g r)" for r
    by (auto simp: live_token_def rls_def split: if_splits)
  show "q \<in> set ts \<Longrightarrow> rt_TenantID q = t \<Longrightarrow> rt_UserID q = i \<Longrightarrow> \<not> live_token q"
    unfolding ts set_map using dead by blast
  have keep: "filter Q (map ?g rs) = filter Q rs" if "\<And>r. Q (?g r) = Q r" "\<And>r. Q r \<Longrightarrow> ?g r = r" for Q rs
    by (induction rs) (use that in simp_all)
  show "filter (\<lambda>q. rt_TenantID q \<noteq> t \<or> rt_UserID q \<noteq> i) ts = filter (\<lambda>q. rt_TenantID q \<noteq> t \<or> rt_UserID q \<noteq> i) (refresh_tokens d)"
    unfolding ts by (rule keep) (auto simp: rls_def)
qed

text \<open>C25: changing a password requires the current one and, when it succeeds, stores the hash of the new
  one for that account alone and ends every session of the account, the caller's included;
  when it fails either nothing has changed or, if ending the sessions failed, the new
  password is in force and the old sessions live on.\<close>

theorem ChangePassword_effect:
  assumes "ChangePassword ev platform_preferences fr (Some t) entry ten i cur new w = (r, w')"
  shows "case r of
     Inl e \<Rightarrow> w' = w \<or> (\<exists>n. bcrypt ev new = Some n \<and> w' = w\<lparr>store := set_password ev (Some t) i n (store w)\<rparr>)
   | Inr _ \<Rightarrow> (\<exists>u h n. live_user (Some t) (store w) i = Some u \<and> user_PasswordHash u = Some h \<and> CheckPassword ev h cur
       \<and> bcrypt ev new = Some n \<and> new \<noteq> cur \<and> users (store w') = users (set_password ev (Some t) i n (store w))
       \<and> (\<forall>q\<in>set (toks w'). rt_TenantID q = t \<and> rt_UserID q = i \<longrightarrow> \<not> live_token q)
       \<and> filter (\<lambda>q. rt_TenantID q \<noteq> t \<or> rt_UserID q \<noteq> i) (toks w') = filter (\<lambda>q. rt_TenantID q \<noteq> t \<or> rt_UserID q \<noteq> i) (toks w))"
proof -
  let ?d = "\<lambda>n. revoke_tokens ev (Some t) (\<lambda>r. rt_UserID r = i) (set_password ev (Some t) i n (store w))"
  have u: "users (?d n) = users (set_password ev (Some t) i n (store w))" for n by (simp add: revoke_tokens_def)
  have f: "filter (\<lambda>q. rt_TenantID q \<noteq> t \<or> rt_UserID q \<noteq> i) (refresh_tokens (?d n)) = filter (\<lambda>q. rt_TenantID q \<noteq> t \<or> rt_UserID q \<noteq> i) (toks w)" for n
    unfolding revoke_tokens_of(2) by (simp add: set_password_def)
  have l: "\<forall>q\<in>set (refresh_tokens (?d n)). rt_TenantID q = t \<and> rt_UserID q = i \<longrightarrow> \<not> live_token q" for n
    using revoke_tokens_of(1) by blast
  show ?thesis
  proof (cases r)
    case (Inl e) then show ?thesis using ChangePassword_cases[OF assms] by auto
  next
    case (Inr v)
    then obtain v h n xs where ok: "live_user (Some t) (store w) i = Some v" "user_PasswordHash v = Some h" "CheckPassword ev h cur"
      "bcrypt ev new = Some n" "new \<noteq> cur" and w': "w' = logged xs (w\<lparr>store := ?d n\<rparr>)" using ChangePassword_cases[OF assms] by auto
    have s: "users (store w') = users (?d n)" "toks w' = refresh_tokens (?d n)" using w' by (simp_all add: logged_def)
    show ?thesis unfolding Inr sum.case
      by (rule exI[of _ v], rule exI[of _ h], rule exI[of _ n]) (simp only: s ok u f simp_thms, rule l)
  qed
qed

section \<open>What is saved is what is read\<close>

text \<open>Stored preferences fit their columns: VARCHAR(50), VARCHAR(10) and the CHECK on the theme.\<close>

definition prefs_typed :: "Preferences \<Rightarrow> bool" where
  "prefs_typed p \<longleftrightarrow> pref_Timezone p \<noteq> '''' \<and> length (pref_Timezone p) \<le> 50
     \<and> pref_Locale p \<noteq> '''' \<and> length (pref_Locale p) \<le> 10 \<and> theme_ok p"

lemma set_bounded_Inr: "set_bounded v n msg p f = Inr q \<Longrightarrow> q = p \<or> (\<exists>s. s \<noteq> '''' \<and> length s \<le> n \<and> q = f s)"
  by (auto simp: set_bounded_def Let_def split: option.splits if_splits)

lemma merge_preferences_typed:
  assumes "merge_preferences inp p0 = Inr p" "prefs_typed p0"
  shows "prefs_typed p"
proof -
  obtain p1 p2 p3 where p1: "set_bounded (ui_Timezone inp) 50 ''timezone must be 1-50 characters'' p0 (\<lambda>s. p0\<lparr>pref_Timezone := s\<rparr>) = Inr p1"
    and p2: "set_bounded (ui_Locale inp) 10 ''locale must be 1-10 characters'' p1 (\<lambda>s. p1\<lparr>pref_Locale := s\<rparr>) = Inr p2"
    and p3: "p3 = p2 \<or> (\<exists>t. (t = ThemeSystem \<or> t = ThemeLight \<or> t = ThemeDark) \<and> p3 = p2\<lparr>pref_Theme := t\<rparr>)"
    and p: "p = (case ui_EmailNotifications inp of None \<Rightarrow> p3 | Some b \<Rightarrow> p3\<lparr>pref_EmailNotifications := b\<rparr>)"
    using assms(1) by (auto simp: merge_preferences_def split: sum.splits option.splits if_splits)
  have "prefs_typed p1" using set_bounded_Inr[OF p1] assms(2) by (auto simp: prefs_typed_def theme_ok_def)
  then have "prefs_typed p2" using set_bounded_Inr[OF p2] by (auto simp: prefs_typed_def theme_ok_def)
  then have "prefs_typed p3" using p3 by (auto simp: prefs_typed_def theme_ok_def ThemeSystem_def ThemeLight_def ThemeDark_def)
  then show ?thesis using p by (auto simp: prefs_typed_def theme_ok_def split: option.splits)
qed

lemma Defaults_typed: "prefs_typed (Defaults t i)"
  by (simp add: prefs_typed_def theme_ok_def Defaults_def ThemeDark_def)

lemma preferences_Find_cases: "preferences_Find ev c i w = (r, w') \<Longrightarrow> w' = w \<and>
    (\<forall>p. r = Inr p \<longrightarrow> (\<exists>t. c = Some t \<and> own_preferences (Some t) (store w) i = Some p))"
  unfolding preferences_Find_def
  by (cases r) (auto simp: op_map_err_eq tx_inv dest!: WithTenantTx_rollback WithTenantTx_ok)

lemma preferences_Find_run:
  assumes "\<And>l. sql_fault ev l = None"
  shows "preferences_Find ev (Some t) i w = ((case own_preferences (Some t) (store w) i of
      None \<Rightarrow> Inl preferences_ErrNotFound | Some p \<Rightarrow> Inr p), w)"
  using assms by (auto simp: preferences_Find_def op_map_err_def op_try_def WithTenantTx_run tx_map_err_def take_row_def
      op_return_def op_fail_def keep_not_found_def preferences_ErrNotFound_def ErrRecordNotFound_def split: option.splits)

lemma preferences_Get_run:
  assumes "\<And>l. sql_fault ev l = None"
  shows "preferences_Get ev (Some t) ten i w = (Inr (case own_preferences (Some t) (store w) i of
      None \<Rightarrow> Defaults ten i | Some p \<Rightarrow> p), w)"
  by (simp add: preferences_Get_def op_try_def preferences_Find_run[OF assms] op_return_def preferences_ErrNotFound_def split: option.splits)

lemma preferences_Get_Inr: "preferences_Get ev c ten i w = (Inr p, w') \<Longrightarrow> w' = w \<and>
    (p = Defaults ten i \<or> (\<exists>t. c = Some t \<and> own_preferences (Some t) (store w) i = Some p))"
  unfolding preferences_Get_def op_try_eq by (auto split: if_splits dest!: preferences_Find_cases)

lemma own_preferences_SomeD: "own_preferences (Some t) d i = Some p \<Longrightarrow> p \<in> set (user_preferences d) \<and> pref_UserID p = i \<and> pref_TenantID p = t"
  by (auto simp: own_preferences_def dest: select_first_SomeD)

lemma find_append: "List.find P xs = None \<Longrightarrow> List.find (\<lambda>x. R x \<and> P x) (xs @ [y]) = (if R y \<and> P y then Some y else None)"
  by (induction xs) (auto split: if_splits)

lemma upsert_preferences_Inr:
  assumes "upsert_preferences (Some t) p d = Inr (u, d')"
  shows "own_preferences (Some t) d' (pref_UserID p) = Some p
    \<and> (\<forall>q\<in>set (user_preferences d'). q \<in> set (user_preferences d) \<or> (\<exists>r. q = p\<lparr>pref_TenantID := r\<rparr>))"
proof (cases "List.find (\<lambda>q. pref_UserID q = pref_UserID p) (user_preferences d)")
  case None
  have d': "user_preferences d' = user_preferences d @ [p]" "pref_TenantID p = t"
    using assms None by (auto simp: upsert_preferences_def tx_inv insert_check_None rls_def)
  have "List.find (\<lambda>q. rls (Some t) pref_TenantID q \<and> pref_UserID q = pref_UserID p) (user_preferences d @ [p]) = Some p"
    using find_append[OF None] d'(2) by (simp add: rls_def)
  then show ?thesis using d' by (auto simp: own_preferences_def select_first_def intro: exI[of _ t])
next
  case (Some q)
  let ?g = "\<lambda>q. if pref_UserID q = pref_UserID p
           then q\<lparr>pref_Timezone := pref_Timezone p, pref_Locale := pref_Locale p, pref_Theme := pref_Theme p,
                  pref_EmailNotifications := pref_EmailNotifications p, pref_UpdatedAt := pref_UpdatedAt p\<rparr> else q"
  have d': "user_preferences d' = map ?g (user_preferences d)" "pref_TenantID p = t" "pref_TenantID q = t"
    using assms Some by (auto simp: upsert_preferences_def tx_inv insert_check_None rls_def)
  have g: "pref_UserID x = pref_UserID p \<Longrightarrow> ?g x = p\<lparr>pref_TenantID := pref_TenantID x\<rparr>" for x by simp
  have "List.find (\<lambda>q. rls (Some t) pref_TenantID q \<and> pref_UserID q = pref_UserID p) (map ?g rows) = Some p"
    if "List.find (\<lambda>q. pref_UserID q = pref_UserID p) rows = Some q" for rows
    using that d'(2,3) by (induction rows) (auto simp: rls_def split: if_splits)
  then have "own_preferences (Some t) d' (pref_UserID p) = Some p" using Some d'(1) by (simp add: own_preferences_def select_first_def)
  moreover have "x \<in> set (user_preferences d) \<or> (\<exists>r. x = p\<lparr>pref_TenantID := r\<rparr>)" if "x \<in> set (user_preferences d')" for x
  proof -
    from that d'(1) obtain y where y: "y \<in> set (user_preferences d)" "x = ?g y" by auto
    show ?thesis
    proof (cases "pref_UserID y = pref_UserID p")
      case True then show ?thesis using g[OF True] y(2) by blast
    next
      case False then show ?thesis using y by simp
    qed
  qed
  ultimately show ?thesis by blast
qed

text \<open>The row a saved record is stored as.\<close>

abbreviation stored_prefs :: "Preferences \<Rightarrow> Preferences" where
  "stored_prefs p \<equiv> p\<lparr>pref_UpdatedAt := timestamptz (pref_UpdatedAt p)\<rparr>"

lemma timestamptz_bounds: "timestamptz t \<le> t" "t < timestamptz t + 1000" "timestamptz (timestamptz t) = timestamptz t"
  unfolding timestamptz_def by (simp_all add: minus_mod_eq_div_mult [symmetric])

lemma Upsert_Inr: "Upsert ev c p0 w = (Inr p, w') \<Longrightarrow> p = p0\<lparr>pref_UpdatedAt := now ev\<rparr> \<and>
    (\<exists>t d. c = Some t \<and> upsert_preferences (Some t) (stored_prefs p) (store w) = Inr ((), d) \<and> w' = w\<lparr>store := d\<rparr>)"
  unfolding Upsert_def Let_def op_map_err_Inr by (auto simp: tx_inv dest!: WithTenantTx_ok)

text \<open>C26: preferences that are saved are what is read from then on: the answer to the save is the row the
  next read returns, but for its update time, which the answer carries in nanoseconds and the
  column keeps to the microsecond. Every stored row keeps fitting its columns: a non-empty
  time zone of at most 50 bytes, a non-empty locale of at most 10, one of the three themes.\<close>

theorem saved_preferences_are_read:
  assumes "preferences_Update ev (Some t) ten i inp w = (Inr p, w')"
    and "\<And>q. q \<in> set (user_preferences (store w)) \<Longrightarrow> prefs_typed q" and "\<And>l. sql_fault ev2 l = None"
  shows "preferences_Get ev2 (Some t) ten i w' = (Inr (p\<lparr>pref_UpdatedAt := now ev div 1000 * 1000\<rparr>), w')
    \<and> pref_UserID p = i \<and> pref_TenantID p = ten \<and> pref_UpdatedAt p = now ev
    \<and> (\<forall>q\<in>set (user_preferences (store w')). prefs_typed q)"
proof -
  obtain p0 w1 where p0: "preferences_Get ev (Some t) ten i w = (Inr p0, w1)"
    and r: "op_bind (op_lift (merge_preferences inp p0)) (\<lambda>p. op_map_err (Wrap CodeInternal ''failed to save preferences'')
       (Upsert ev (Some t) (p\<lparr>pref_TenantID := ten, pref_UserID := i\<rparr>))) w1 = (Inr p, w')"
    using assms(1) unfolding preferences_Update_def op_bind_Inr by blast
  have w1: "w1 = w" using preferences_Get_Inr[OF p0] by blast
  from r[unfolded w1 op_bind_Inr op_lift_eq op_map_err_Inr] obtain p1 where p1: "merge_preferences inp p0 = Inr p1"
    and u: "Upsert ev (Some t) (p1\<lparr>pref_TenantID := ten, pref_UserID := i\<rparr>) w = (Inr p, w')"
    by (elim exE conjE) metis
  have "prefs_typed p0" using preferences_Get_Inr[OF p0] Defaults_typed assms(2) own_preferences_SomeD by blast
  then have "prefs_typed p1" using p1 merge_preferences_typed by blast
  then have ty: "prefs_typed ((stored_prefs p)\<lparr>pref_TenantID := x\<rparr>)"
    and i: "pref_UserID p = i" "pref_TenantID p = ten" "pref_UpdatedAt p = now ev" for x
    using Upsert_Inr[OF u] by (auto simp: prefs_typed_def theme_ok_def)
  obtain d where d: "upsert_preferences (Some t) (stored_prefs p) (store w) = Inr ((), d)" "w' = w\<lparr>store := d\<rparr>"
    using Upsert_Inr[OF u] by auto
  have own: "own_preferences (Some t) d i = Some (stored_prefs p)"
    and rows: "\<forall>q\<in>set (user_preferences d). q \<in> set (user_preferences (store w)) \<or> (\<exists>r. q = (stored_prefs p)\<lparr>pref_TenantID := r\<rparr>)"
    using upsert_preferences_Inr[OF d(1)] i(1) by auto
  have "preferences_Get ev2 (Some t) ten i w' = (Inr (stored_prefs p), w')"
    using own d(2) by (simp add: preferences_Get_run[OF assms(3)])
  moreover have "\<forall>q\<in>set (user_preferences (store w')). prefs_typed q" using rows ty assms(2) d(2) by fastforce
  ultimately show ?thesis using i by (simp add: timestamptz_def)
qed

section \<open>The one-query profile\<close>

lemma Split_string_agg: "\<forall>s\<in>set ss. CHR '','' \<notin> set s \<Longrightarrow> ss \<noteq> [] \<Longrightarrow> Split (string_agg ss) CHR '','' = ss"
  unfolding string_agg_def by (rule Split_Join)

lemma string_agg_empty: "string_agg ss = '''' \<longleftrightarrow> ss = [] \<or> ss = ['''']"
  by (simp add: string_agg_def Join_empty)

lemma UserPermissions_run:
  assumes "\<And>l. sql_fault ev l = None"
  shows "\<exists>ps w'. UserPermissions ev (Some t) ten i w = (Inr ps, w')"
  using assms by (simp add: UserPermissions_def UserPermissionCodes_def op_bind_def op_try_def op_map_err_def WithTenantTx_run
      tx_query_def op_return_def split: option.splits)

lemma GetProfile_Inr:
  assumes "GetProfile ev platform_preferences (Some t) ten i w = (Inr p, w')"
  shows "\<exists>x perms. loadProfileQuery (Some t) i (store w) = Some x \<and> p = profile_of ten i x perms
    \<and> (case UserPermissions ev (Some t) ten i w of (Inl e, w1) \<Rightarrow> perms = [] | (Inr ps, w1) \<Rightarrow> perms = ps)"
proof -
  obtain y w1 where y: "LoadProfile ev (Some t) i w = (y, w1)" by force
  obtain q w0 where q: "op_map_err (Wrapped ''preferences: load profile'') (WithTenantTx ev ''LoadProfile'' (Some t) (\<lambda>sess.
       stmt ev ''LoadProfile.scan'' (tx_query (loadProfileQuery sess i)))) w = (q, w0)" by force
  have q': "w0 = w \<and> (\<forall>x. q = Inr x \<longrightarrow> x = loadProfileQuery (Some t) i (store w))"
    using q by (cases q) (auto simp: op_map_err_eq tx_inv dest!: WithTenantTx_rollback WithTenantTx_ok)
  obtain x where x: "y = Inr x" using assms y by (cases y) (auto simp: GetProfile_def op_try_def op_fail_def)
  have "w1 = w \<and> loadProfileQuery (Some t) i (store w) = Some x"
    using y q q' x by (cases q) (auto simp: LoadProfile_def op_bind_def op_try_def op_fail_def split: option.splits if_splits)
  then show ?thesis using assms y x
    by (cases "UserPermissions ev (Some t) ten i w"; cases "fst (UserPermissions ev (Some t) ten i w)")
      (auto simp: GetProfile_def op_try_def profile_permissions_def platform_preferences_def)
qed

text \<open>The profile, read with one query, agrees with the separate endpoints: its preferences are those
  the preferences endpoint returns, its roles the role slugs by rank, its organization and
  permissions those of the separate queries (slugs contain no comma, and a single role has a
  non-empty one).\<close>

theorem GetProfile_agrees:
  assumes "GetProfile ev platform_preferences (Some t) t i w = (Inr p, w')" and "\<And>l. sql_fault ev l = None"
    and "\<forall>r\<in>set (roles (store w)). CHR '','' \<notin> set (role_Slug r) \<and> role_Slug r \<noteq> ''''"
  shows "preferences_Get ev (Some t) t i w = (Inr (prof_Preferences p), w)
    \<and> RoleSlugs ev (Some t) i w = (Inr (prof_Roles p), w)
    \<and> OrganizationSummary ev (Some t) t w = (Inr (prof_Organization p), w)
    \<and> fst (UserPermissions ev (Some t) t i w) = Inr (prof_Permissions p)
    \<and> prof_UserID p = i"
proof -
  obtain x perms where x: "loadProfileQuery (Some t) i (store w) = Some x" and p: "p = profile_of t i x perms"
    and ps: "case UserPermissions ev (Some t) t i w of (Inl e, w1) \<Rightarrow> perms = [] | (Inr ps, w1) \<Rightarrow> perms = ps"
    using GetProfile_Inr[OF assms(1)] by (elim exE conjE) (rule that; assumption)
  obtain u tn where u: "live_user (Some t) (store w) i = Some u" and tn: "List.find (\<lambda>q. tenant_ID q = user_TenantID u) (tenants (store w)) = Some tn"
    using x by (auto simp: loadProfileQuery_def split: option.splits)
  have ut: "user_ID u = i" "user_TenantID u = t" using u by (auto simp: live_user_def dest: select_first_SomeD)
  let ?up = "own_preferences (Some t) (store w) i"
  let ?rs = "map role_Slug (roles_by_rank (Some t) i (store w))"
  have xs: "pr_User x = u" "pr_RoleSlugs x = string_agg ?rs" "pr_UpdatedAt x = map_option pref_UpdatedAt ?up"
    "pr_Timezone x = (case ?up of None \<Rightarrow> ''UTC'' | Some p \<Rightarrow> pref_Timezone p)" "pr_Locale x = (case ?up of None \<Rightarrow> ''en-US'' | Some p \<Rightarrow> pref_Locale p)"
    "pr_Theme x = (case ?up of None \<Rightarrow> ''dark'' | Some p \<Rightarrow> pref_Theme p)" "pr_EmailNotify x = (case ?up of None \<Rightarrow> True | Some p \<Rightarrow> pref_EmailNotifications p)"
    "pr_Organization x = \<lparr>org_ID = tenant_ID tn, org_Name = tenant_Name tn, org_Slug = tenant_Slug tn, org_PlanCode = tenant_PlanCode tn\<rparr>"
    using x u tn ut(1) by (auto simp: loadProfileQuery_def Let_def)
  have pref: "preferences_Get ev (Some t) t i w = (Inr (prof_Preferences p), w)"
  proof (cases ?up)
    case None
    then show ?thesis using xs p by (simp add: preferences_Get_run[OF assms(2)] profile_of_def Let_def Defaults_def ThemeDark_def)
  next
    case (Some q)
    then have "pref_UserID q = i" "pref_TenantID q = t" using own_preferences_SomeD by blast+
    then show ?thesis using xs p Some by (simp add: preferences_Get_run[OF assms(2)] profile_of_def Let_def Defaults_def)
  qed
  have "set (roles_by_rank (Some t) i (store w)) \<subseteq> set (roles (store w))"
    by (auto simp: roles_by_rank_def select_rows_def)
  then have "\<forall>s\<in>set ?rs. CHR '','' \<notin> set s \<and> s \<noteq> ''''" using assms(3) by auto
  then have "(if string_agg ?rs = '''' then [] else Split (string_agg ?rs) CHR '','') = ?rs"
    by (auto simp: string_agg_empty Split_string_agg)
  then have "prof_Roles p = ?rs" unfolding p profile_of_def Let_def xs(2) by simp
  then have roles: "RoleSlugs ev (Some t) i w = (Inr (prof_Roles p), w)"
    using assms(2) by (simp add: RoleSlugs_def op_map_err_def op_try_def WithTenantTx_run tx_query_def op_return_def)
  have org: "OrganizationSummary ev (Some t) t w = (Inr (prof_Organization p), w)"
    using assms(2) tn ut xs p by (simp add: OrganizationSummary_def op_map_err_def op_try_def WithTenantTx_run tx_query_def op_return_def profile_of_def Let_def)
  obtain qs w1 where "UserPermissions ev (Some t) t i w = (Inr qs, w1)" using UserPermissions_run[OF assms(2)] by blast
  then have "fst (UserPermissions ev (Some t) t i w) = Inr (prof_Permissions p)" using ps p by (simp add: profile_of_def Let_def)
  then show ?thesis using pref roles org p xs(1) ut(1) by (simp add: profile_of_def Let_def)
qed

section \<open>Profile updates\<close>

definition avatar_ok :: "string option \<Rightarrow> bool" where
  "avatar_ok a \<longleftrightarrow> (case a of None \<Rightarrow> True | Some s \<Rightarrow> HasPrefix s ''https://'' \<and> length s \<le> 1000)"

lemma new_avatar_Inr: "new_avatar inp old = Inr a \<Longrightarrow> a = old \<or> avatar_ok a"
  by (auto simp: new_avatar_def validateAvatarURL_def avatar_ok_def Let_def split: if_splits option.splits)

lemma GetProfile_store: "GetProfile ev platform_preferences c ten i w = (r, w') \<Longrightarrow> store w' = store w"
proof -
  assume m: "GetProfile ev platform_preferences c ten i w = (r, w')"
  have l: "w1 = w" if "LoadProfile ev c i w = (y, w1)" for y w1
  proof -
    have q: "w0 = w" if "op_map_err (Wrapped ''preferences: load profile'') (WithTenantTx ev ''LoadProfile'' c (\<lambda>sess.
       stmt ev ''LoadProfile.scan'' (tx_query (loadProfileQuery sess i)))) w = (q, w0)" for q w0
      using that by (cases q) (auto simp: op_map_err_eq tx_inv dest!: WithTenantTx_rollback WithTenantTx_ok)
    then show ?thesis using that unfolding LoadProfile_def op_bind_eq by (auto split: option.splits if_splits)
  qed
  have u: "store w2 = store w1" if "UserPermissions ev c ten i w1 = (q, w2)" for q w1 w2
    using UserPermissions_store that by (metis snd_conv)
  show ?thesis using m unfolding GetProfile_def op_try_eq
    by (auto simp: profile_permissions_def platform_preferences_def split: prod.splits sum.splits dest!: l u)
qed

text \<open>A profile update can only change the caller's own live account, and of it only the display name,
  the avatar and the time stamp, whatever the request holds; a new avatar is an https URL of
  at most 1000 bytes. Every other row and table, the audit log apart, stays as it was.\<close>

theorem UpdateProfile_confined:
  assumes "preferences_UpdateProfile ev platform_preferences fr (Some t) entry ten i inp w = (r, w')"
  shows "(store w')\<lparr>users := users (store w), audit_logs := audit_logs (store w)\<rparr> = store w
    \<and> (users (store w') = users (store w) \<or> (\<exists>u n a. live_user (Some t) (store w) i = Some u
        \<and> (a = user_AvatarURL u \<or> avatar_ok a) \<and> (n = user_FullName u \<or> n \<noteq> '''' \<and> length n \<le> 255)
        \<and> users (store w') = update_rows (Some t) user_TenantID (\<lambda>q. user_ID q = i \<and> user_DeletedAt q = None)
            (\<lambda>q. q\<lparr>user_FullName := n, user_AvatarURL := a, user_UpdatedAt := now ev\<rparr>) (users (store w))))"
proof -
  obtain x w1 where x: "FindUser ev (Some t) i w = (x, w1)" by force
  then have w1: "w1 = w" using FindUser_Inr by blast
  show ?thesis
  proof (cases "\<exists>u n a. x = Inr u \<and> set_bounded (pfi_FullName inp) 255 ''full_name must be 1-255 characters'' (user_FullName u) (\<lambda>n. n) = Inr n
      \<and> new_avatar inp (user_AvatarURL u) = Inr a")
    case False
    then have "w' = w" using assms x w1 unfolding preferences_UpdateProfile_def
      by (cases x) (auto simp: op_try_def op_bind_def op_lift_def op_fail_def split: sum.splits prod.splits)
    then show ?thesis by simp
  next
    case True
    then obtain u n a where u: "x = Inr u"
      "set_bounded (pfi_FullName inp) 255 ''full_name must be 1-255 characters'' (user_FullName u) (\<lambda>n. n) = Inr n"
      "new_avatar inp (user_AvatarURL u) = Inr a" by blast
    obtain y w2 where y: "preferences_repo_UpdateProfile ev (Some t) i n a w = (y, w2)" by force
    obtain z w3 where z: "record_then ev (pfs_audit platform_preferences) (fresh_id fr 1)
        (entry\<lparr>en_Action := ActionUserProfileUpdate, en_TargetType := TargetUser, en_TargetID := Some i\<rparr>) () w2 = (z, w3)" by force
    obtain p w4 where p: "GetProfile ev platform_preferences (Some t) ten i w3 = (p, w4)" by force
    have z': "z = Inr () \<and> (\<exists>xs. w3 = logged xs w2)"
      using record_then_logged[OF _ z] platform_recorder by (auto simp: platform_preferences_def)
    have w': "w' = (if isl y then w2 else w4)" using assms x w1 u y z z' p unfolding preferences_UpdateProfile_def
      by (cases y) (auto simp: op_try_def op_bind_def op_lift_def op_fail_def)
    have y': "if isl y then w2 = w else w2 = w\<lparr>store := (store w)\<lparr>users := update_rows (Some t) user_TenantID (\<lambda>q. user_ID q = i \<and> user_DeletedAt q = None)
            (\<lambda>q. q\<lparr>user_FullName := n, user_AvatarURL := a, user_UpdatedAt := now ev\<rparr>) (users (store w))\<rparr>\<rparr>"
      using y unfolding preferences_repo_UpdateProfile_def
      by (cases y) (auto simp: op_map_err_eq tx_inv dest!: WithTenantTx_rollback WithTenantTx_Some write_user_Inr)
    have n: "n = user_FullName u \<or> n \<noteq> '''' \<and> length n \<le> 255" using set_bounded_Inr[OF u(2)] by auto
    have lu: "live_user (Some t) (store w) i = Some u" using FindUser_Inr[OF x] u(1) by auto
    show ?thesis
    proof (cases "isl y")
      case True then show ?thesis using w' y' by simp
    next
      case False
      then have s: "store w' = (store w2)\<lparr>audit_logs := audit_logs (store w')\<rparr>" using w' z' GetProfile_store[OF p] by (auto simp: logged_def)
      have us: "users (store w') = update_rows (Some t) user_TenantID (\<lambda>q. user_ID q = i \<and> user_DeletedAt q = None)
            (\<lambda>q. q\<lparr>user_FullName := n, user_AvatarURL := a, user_UpdatedAt := now ev\<rparr>) (users (store w))"
        by (subst s) (use y' False in simp)
      have "(store w')\<lparr>users := users (store w), audit_logs := audit_logs (store w)\<rparr> = store w" by (subst s) (use y' False in simp)
      then show ?thesis using us n lu new_avatar_Inr[OF u(3)] by blast
    qed
  qed
qed


section \<open>Witnesses\<close>

definition demo_password_changed :: "(err + unit) \<times> world" where
  "demo_password_changed = ChangePassword demo_env platform_preferences demo_fresh (Some 1) demo_bill_entry 1 10
     ''pw'' ''newsecret'' demo_session_world"

theorem ChangePassword_effect_witness:
  "filter (\<lambda>q. rt_TenantID q = 1 \<and> rt_UserID q = 10 \<and> live_token q) (toks (snd demo_password_changed)) = []
    \<and> filter (\<lambda>q. rt_TenantID q = 1 \<and> rt_UserID q = 10 \<and> live_token q) (toks demo_session_world) \<noteq> []"
proof -
  have "\<not> isl (fst demo_password_changed)" by code_simp
  then obtain u where "demo_password_changed = (Inr u, snd demo_password_changed)" using okI by blast
  from ChangePassword_effect[OF this[unfolded demo_password_changed_def]]
  have "filter (\<lambda>q. rt_TenantID q = 1 \<and> rt_UserID q = 10 \<and> live_token q) (toks (snd demo_password_changed)) = []"
    by (fastforce simp: filter_empty_conv demo_password_changed_def)
  moreover have "filter (\<lambda>q. rt_TenantID q = 1 \<and> rt_UserID q = 10 \<and> live_token q) (toks demo_session_world) \<noteq> []" by code_simp
  ultimately show ?thesis by blast
qed

definition demo_prefs_in :: UpdateInput where
  "demo_prefs_in = \<lparr>ui_Timezone = Some '' Europe/Oslo '', ui_Locale = None, ui_Theme = Some ''light'', ui_EmailNotifications = Some False\<rparr>"

definition demo_prefs_saved :: "(err + Preferences) \<times> world" where
  "demo_prefs_saved = preferences_Update demo_env (Some 1) 1 10 demo_prefs_in demo_session_world"

theorem saved_preferences_are_read_witness:
  "\<exists>p. fst demo_prefs_saved = Inr p \<and> preferences_Get demo_env (Some 1) 1 10 (snd demo_prefs_saved)
      = (Inr (p\<lparr>pref_UpdatedAt := now demo_env div 1000 * 1000\<rparr>), snd demo_prefs_saved)"
proof -
  have "\<not> isl (fst demo_prefs_saved)" by code_simp
  then obtain p where p: "demo_prefs_saved = (Inr p, snd demo_prefs_saved)" using okI by blast
  have "user_preferences (store demo_session_world) = []" by code_simp
  from saved_preferences_are_read[OF p[unfolded demo_prefs_saved_def], of demo_env] this p show ?thesis
    unfolding demo_prefs_saved_def by (metis demo_env_no_fault empty_iff fst_conv list.set(1))
qed

definition demo_profile :: "(err + Profile) \<times> world" where
  "demo_profile = GetProfile demo_env platform_preferences (Some 1) 1 11 demo_session_world"

theorem GetProfile_agrees_witness:
  "\<exists>p. fst demo_profile = Inr p \<and> RoleSlugs demo_env (Some 1) 11 demo_session_world = (Inr (prof_Roles p), demo_session_world)"
proof -
  have "\<not> isl (fst demo_profile)" by code_simp
  then obtain p where p: "demo_profile = (Inr p, snd demo_profile)" using okI by blast
  have "roles (store demo_session_world) = [demo_role 20 ''owner'' True 0, demo_role 21 ''member'' True 30, demo_role 22 ''qa'' False 100]"
    by (simp add: demo_session_world_def demo_defs)
  then have "\<forall>r\<in>set (roles (store demo_session_world)). CHR '','' \<notin> set (role_Slug r) \<and> role_Slug r \<noteq> ''''"
    by (simp add: demo_role_def)
  from GetProfile_agrees[OF p[unfolded demo_profile_def] _ this] p show ?thesis by (metis demo_env_no_fault fst_conv)
qed

definition demo_profile_in :: ProfileInput where
  "demo_profile_in = \<lparr>pfi_FullName = Some ''Ann'', pfi_AvatarURL = Some ''https://x/a'', pfi_ClearAvatar = False\<rparr>"

definition demo_profile_saved :: "(err + Profile) \<times> world" where
  "demo_profile_saved = preferences_UpdateProfile demo_env platform_preferences demo_fresh (Some 1) demo_bill_entry 1 10
     demo_profile_in demo_session_world"

theorem UpdateProfile_confined_witness:
  "\<not> isl (fst demo_profile_saved) \<and> map user_FullName (users (store (snd demo_profile_saved))) = [''Ann'', '''']
    \<and> toks (snd demo_profile_saved) = toks demo_session_world"
proof -
  have "preferences_UpdateProfile demo_env platform_preferences demo_fresh (Some 1) demo_bill_entry 1 10
     demo_profile_in demo_session_world = (fst demo_profile_saved, snd demo_profile_saved)" by (simp add: demo_profile_saved_def)
  from arg_cong[OF conjunct1[OF UpdateProfile_confined[OF this]], of refresh_tokens]
  have "toks (snd demo_profile_saved) = toks demo_session_world" by simp
  moreover have "\<not> isl (fst demo_profile_saved)" by code_simp
  moreover have "map user_FullName (users (store (snd demo_profile_saved))) = [''Ann'', '''']" by code_simp
  ultimately show ?thesis by blast
qed

end
