(* ===== verification/Files_Store.thy ===== *)
theory Files_Store
  imports Paths Billing "HOL-Library.AList"
begin

text \<open>
  internal/files/storage.go: the \<open>ObjectStore\<close> interface and its two implementations. The
  interface is a record of operations over a state \<open>'o\<close> and the locale \<open>object_store\<close> states
  what its clients rely on; it is interpreted on \<open>LocalStore\<close>, whose state is the regular
  files of the host by absolute path. \<open>S3Store\<close> runs over the operations of the MinIO client,
  which are parameters. A system call may fail by its label (\<open>os_fault\<close>), which covers
  permissions, full disks and paths that name a directory; directories are not represented.
\<close>

text \<open>An \<open>io.Reader\<close>: the bytes it delivers, then the end or an error.\<close>

record reader =
  rd_bytes :: string
  rd_error :: "string option"

record 'o ObjectStore =
  os_Put :: "string \<Rightarrow> reader \<Rightarrow> int \<Rightarrow> string \<Rightarrow> ('o, err, string) op"
  os_Open :: "string \<Rightarrow> ('o, err, reader) op"
  os_Delete :: "string \<Rightarrow> ('o, err, unit) op"

definition ErrObjectNotFound :: err where "ErrObjectNotFound = Sentinel ''files: object not found''"

section \<open>LocalStore\<close>

type_synonym disk = "(string \<times> string) list"

text \<open>
  The host: failing system calls, the working directory (absolute, its leading slash left
  out; \<open>None\<close> if \<open>Getwd\<close> fails) and the random names \<open>os.CreateTemp\<close> tries in turn.
\<close>

record host =
  os_fault :: "string \<Rightarrow> string option"
  os_cwd :: "string option"
  os_random :: "string list"

definition sys :: "host \<Rightarrow> string \<Rightarrow> string \<Rightarrow> (disk, err, unit) op" where
  "sys h call msg = (case os_fault h call of None \<Rightarrow> op_return () | Some t \<Rightarrow> op_fail (Wrapped msg (Plain t)))"

definition Abs :: "host \<Rightarrow> string \<Rightarrow> err + string" where
  "Abs h p = (if IsAbs p then Inr (Clean p)
     else (case os_cwd h of None \<Rightarrow> Inl (Plain ''getwd'') | Some c \<Rightarrow> Inr (Abs_path (CHR ''/'' # c) p)))"

definition LocalStore_path :: "host \<Rightarrow> string \<Rightarrow> string \<Rightarrow> err + string" where
  "LocalStore_path h root key =
     (if root = '''' then Inl (Plain ''files: local storage root is empty'')
      else (let cleanKey = Clean key in
        if cleanKey = ''.'' \<or> IsAbs cleanKey \<or> cleanKey = ''..'' \<or> HasPrefix cleanKey ''../''
        then Inl (Plain ''files: invalid storage key'')
        else (case Abs h root of Inl e \<Rightarrow> Inl (Wrapped ''files: resolve storage root'' e)
          | Inr r \<Rightarrow> (let path = Join2 r cleanKey in
              if path \<noteq> r \<and> \<not> HasPrefix path (r @ ''/'') then Inl (Plain ''files: storage key escapes root'')
              else Inr path))))"

text \<open>The temporary file lies in the root, under a name no file has.\<close>

definition temp_path :: "host \<Rightarrow> string \<Rightarrow> string \<Rightarrow> string" where
  "temp_path h root r = (case Abs h (root @ (if HasSuffix root ''/'' then '''' else ''/'') @ ''.upload-'' @ r) of
     Inl e \<Rightarrow> '''' | Inr p \<Rightarrow> p)"

definition CreateTemp :: "host \<Rightarrow> string \<Rightarrow> (disk, err, string) op" where
  "CreateTemp h root d = (case os_fault h ''createtemp'' of
     Some t \<Rightarrow> (Inl (Wrapped ''files: create temporary object'' (Plain t)), d)
   | None \<Rightarrow> (case List.find (\<lambda>p. map_of d p = None) (map (temp_path h root) (os_random h)) of
       None \<Rightarrow> (Inl (Wrapped ''files: create temporary object'' (Plain ''file exists'')), d)
     | Some p \<Rightarrow> (Inr p, AList.update p '''' d)))"

text \<open>\<open>os.Remove\<close>, its error ignored, before failing with \<open>e\<close>.\<close>

definition discard :: "host \<Rightarrow> string \<Rightarrow> err \<Rightarrow> (disk, err, 'a) op" where
  "discard h tmp e d = (Inl e, if os_fault h ''remove temporary'' = None then AList.delete tmp d else d)"

text \<open>\<open>io.Copy\<close> into the temporary file and the hash: the bytes written, the hash of the same bytes.\<close>

definition copy_object :: "host \<Rightarrow> string \<Rightarrow> reader \<Rightarrow> (disk, err, string) op" where
  "copy_object h tmp content d =
     (case os_fault h ''write'' of Some t \<Rightarrow> (Inl (Plain t), d)
      | None \<Rightarrow> (case rd_error content of
          Some t \<Rightarrow> (Inl (Plain t), AList.update tmp (rd_bytes content) d)
        | None \<Rightarrow> (Inr (rd_bytes content), AList.update tmp (rd_bytes content) d)))"

definition rename_object :: "host \<Rightarrow> string \<Rightarrow> string \<Rightarrow> (disk, err, unit) op" where
  "rename_object h tmp path d = (case os_fault h ''rename'' of
     Some t \<Rightarrow> (Inl (Wrapped ''files: finalize object'' (Plain t)), d)
   | None \<Rightarrow> (case map_of d tmp of
       None \<Rightarrow> (Inl (Wrapped ''files: finalize object'' (Plain ''no such file'')), d)
     | Some b \<Rightarrow> (Inr (), AList.update path b (AList.delete tmp d))))"

definition LocalStore_Put :: "env \<Rightarrow> host \<Rightarrow> string \<Rightarrow> string \<Rightarrow> reader \<Rightarrow> int \<Rightarrow> string \<Rightarrow> (disk, err, string) op" where
  "LocalStore_Put ev h root key content sizeBytes contentType =
     op_bind (op_lift (LocalStore_path h root key)) (\<lambda>path.
     op_bind (sys h ''mkdir root'' ''files: create storage root'') (\<lambda>_.
     op_bind (sys h ''mkdir dir'' ''files: create storage directory'') (\<lambda>_.
     op_bind (CreateTemp h root) (\<lambda>tmp.
     op_try (copy_object h tmp content) (\<lambda>e. discard h tmp (Wrapped ''files: write object'' e)) (\<lambda>written.
     if sizeBytes \<ge> 0 \<and> int (length written) \<noteq> sizeBytes
     then discard h tmp (Plain (''files: upload size changed while reading: expected '' @ decimal sizeBytes
            @ '' bytes, wrote '' @ decimal (int (length written))))
     else op_try (sys h ''sync'' ''files: sync object'') (discard h tmp) (\<lambda>_.
     op_try (sys h ''close'' ''files: close object'') (discard h tmp) (\<lambda>_.
     op_try (rename_object h tmp path) (discard h tmp) (\<lambda>_.
     op_return (sha256_hex ev written)))))))))"

definition LocalStore_Open :: "host \<Rightarrow> string \<Rightarrow> string \<Rightarrow> (disk, err, reader) op" where
  "LocalStore_Open h root key = op_bind (op_lift (LocalStore_path h root key)) (\<lambda>path d.
     case map_of d path of None \<Rightarrow> (Inl ErrObjectNotFound, d)
     | Some b \<Rightarrow> (case os_fault h ''open'' of Some t \<Rightarrow> (Inl (Wrapped ''files: open object'' (Plain t)), d)
         | None \<Rightarrow> (Inr \<lparr>rd_bytes = b, rd_error = None\<rparr>, d)))"

definition LocalStore_Delete :: "host \<Rightarrow> string \<Rightarrow> string \<Rightarrow> (disk, err, unit) op" where
  "LocalStore_Delete h root key = op_bind (op_lift (LocalStore_path h root key)) (\<lambda>path d.
     case map_of d path of None \<Rightarrow> (Inr (), d)
     | Some b \<Rightarrow> (case os_fault h ''remove'' of Some t \<Rightarrow> (Inl (Wrapped ''files: delete object'' (Plain t)), d)
         | None \<Rightarrow> (Inr (), AList.delete path d)))"

definition NewLocalStore :: "env \<Rightarrow> host \<Rightarrow> string \<Rightarrow> disk ObjectStore" where
  "NewLocalStore ev h root = \<lparr>os_Put = LocalStore_Put ev h root, os_Open = LocalStore_Open h root,
     os_Delete = LocalStore_Delete h root\<rparr>"

section \<open>S3Store\<close>

text \<open>
  The MinIO client: \<open>PutObject\<close> says how many bytes it took from the reader, \<open>GetObject\<close> with
  \<open>Stat\<close> gives the object or an error with its code.
\<close>

record 'c s3_client =
  s3_PutObject :: "string \<Rightarrow> string \<Rightarrow> reader \<Rightarrow> int \<Rightarrow> string \<Rightarrow> 'c \<Rightarrow> (string + nat) \<times> 'c"
  s3_GetObject :: "string \<Rightarrow> string \<Rightarrow> 'c \<Rightarrow> (string + reader) \<times> 'c"
  s3_RemoveObject :: "string \<Rightarrow> string \<Rightarrow> 'c \<Rightarrow> (string + unit) \<times> 'c"

datatype BucketLookupType = BucketLookupPath | BucketLookupAuto

definition bucketLookup :: "bool \<Rightarrow> BucketLookupType" where
  "bucketLookup pathStyle = (if pathStyle then BucketLookupPath else BucketLookupAuto)"

definition TrimPrefix :: "string \<Rightarrow> string \<Rightarrow> string" where
  "TrimPrefix s p = (if HasPrefix s p then drop (length p) s else s)"

definition s3_endpoint :: "string \<Rightarrow> string" where
  "s3_endpoint endpoint0 = (let endpoint = TrimSpace endpoint0;
       endpoint = (if endpoint = '''' then ''s3.amazonaws.com'' else endpoint)
     in TrimPrefix (TrimPrefix endpoint ''https://'') ''http://'')"

definition S3Store_Put :: "env \<Rightarrow> 'c s3_client \<Rightarrow> string \<Rightarrow> string \<Rightarrow> reader \<Rightarrow> int \<Rightarrow> string \<Rightarrow> ('c, err, string) op" where
  "S3Store_Put ev cl bucket key content sizeBytes contentType s =
     (case s3_PutObject cl bucket key content sizeBytes contentType s of
        (Inl t, s') \<Rightarrow> (Inl (Wrapped ''files: put s3 object'' (Plain t)), s')
      | (Inr n, s') \<Rightarrow> (Inr (sha256_hex ev (take n (rd_bytes content))), s'))"

definition S3Store_Open :: "'c s3_client \<Rightarrow> string \<Rightarrow> string \<Rightarrow> ('c, err, reader) op" where
  "S3Store_Open cl bucket key s = (case s3_GetObject cl bucket key s of
     (Inl cd, s') \<Rightarrow> (Inl (if cd = ''NoSuchKey'' then ErrObjectNotFound else Wrapped ''files: stat s3 object'' (Plain cd)), s')
   | (Inr r, s') \<Rightarrow> (Inr r, s'))"

definition S3Store_Delete :: "'c s3_client \<Rightarrow> string \<Rightarrow> string \<Rightarrow> ('c, err, unit) op" where
  "S3Store_Delete cl bucket key s = (case s3_RemoveObject cl bucket key s of
     (Inl t, s') \<Rightarrow> (Inl (Wrapped ''files: delete s3 object'' (Plain t)), s') | (Inr _, s') \<Rightarrow> (Inr (), s'))"

text \<open>\<open>connect\<close> is \<open>minio.New\<close>.\<close>

definition NewS3Store :: "env \<Rightarrow> (string \<Rightarrow> string \<Rightarrow> BucketLookupType \<Rightarrow> bool \<Rightarrow> string + 'c s3_client) \<Rightarrow> string \<Rightarrow> string \<Rightarrow> string
    \<Rightarrow> bool \<Rightarrow> bool \<Rightarrow> err + 'c ObjectStore" where
  "NewS3Store ev connect endpoint region bucket secure pathStyle =
     (case connect (s3_endpoint endpoint) region (bucketLookup pathStyle) secure of
        Inl t \<Rightarrow> Inl (Wrapped ''files: configure s3 storage'' (Plain t))
      | Inr cl \<Rightarrow> Inr \<lparr>os_Put = S3Store_Put ev cl bucket, os_Open = S3Store_Open cl bucket, os_Delete = S3Store_Delete cl bucket\<rparr>)"

section \<open>Paths of keys\<close>

text \<open>A resolved key is a path strictly below the root, whatever the key.\<close>

lemma LocalStore_path_inside:
  assumes "LocalStore_path h root key = Inr p"
  shows "\<exists>rs ns. list_all plain rs \<and> rs \<noteq> [] \<and> list_all plain ns \<and> ns \<noteq> [] \<and> Abs h root = Inr (CHR ''/'' # strings_Join rs CHR ''/'')
    \<and> Clean key = strings_Join ns CHR ''/'' \<and> p = CHR ''/'' # strings_Join (rs @ ns) CHR ''/''"
proof -
  obtain r where r: "Abs h root = Inr r" "root \<noteq> ''''" "stays_inside (Clean key)" "p = Join2 r (Clean key)"
    and c: "p = r \<or> HasPrefix p (r @ ''/'')"
    using assms by (auto simp: LocalStore_path_def Let_def stays_inside_def split: if_splits sum.splits)
  obtain ns where ns: "ns \<noteq> []" "list_all plain ns" "Clean key = strings_Join ns CHR ''/''"
    using Clean_inside[OF r(3)] by blast
  obtain rs where rs: "list_all plain rs" "r = CHR ''/'' # strings_Join rs CHR ''/''"
    using r(1,2) Clean_IsAbs[of root] Abs_path_rooted[of "CHR ''/'' # the (os_cwd h)" root]
    by (auto simp: Abs_def split: if_splits option.splits)
  have p: "p = CHR ''/'' # strings_Join (rs @ ns) CHR ''/''"
    using Join2_rooted[OF rs(1) ns(2,1)] r(4) ns(3) rs(2) by simp
  have "rs \<noteq> []"
  proof
    assume "rs = []"
    then have "strings_Join ns CHR ''/'' = '''' \<or> IsAbs (strings_Join ns CHR ''/'')"
      using c p rs(2) by (cases "strings_Join ns CHR ''/''") (auto simp: HasPrefix_def)
    then show False using Join_plain_head[OF ns(2,1)] by blast
  qed
  then show ?thesis using rs ns p r(1) by blast
qed

lemma Abs_root: "list_all plain rs \<Longrightarrow> list_all plain qs \<Longrightarrow> rs \<noteq> [] \<Longrightarrow> qs \<noteq> [] \<Longrightarrow>
    CHR ''/'' # strings_Join rs CHR ''/'' = CHR ''/'' # strings_Join qs CHR ''/'' \<Longrightarrow> rs = qs"
  using rooted_inj by blast

text \<open>Keys that are already clean are never confused.\<close>

lemma LocalStore_path_inj:
  assumes "LocalStore_path h root k1 = Inr p" "LocalStore_path h root k2 = Inr p" "Clean k1 = k1" "Clean k2 = k2"
  shows "k1 = k2"
proof -
  obtain rs ns where a: "list_all plain rs" "rs \<noteq> []" "list_all plain ns" "ns \<noteq> []" "Abs h root = Inr (CHR ''/'' # strings_Join rs CHR ''/'')"
    "Clean k1 = strings_Join ns CHR ''/''" "p = CHR ''/'' # strings_Join (rs @ ns) CHR ''/''"
    using LocalStore_path_inside[OF assms(1)] by blast
  obtain qs ms where b: "list_all plain qs" "qs \<noteq> []" "list_all plain ms" "ms \<noteq> []" "Abs h root = Inr (CHR ''/'' # strings_Join qs CHR ''/'')"
    "Clean k2 = strings_Join ms CHR ''/''" "p = CHR ''/'' # strings_Join (qs @ ms) CHR ''/''"
    using LocalStore_path_inside[OF assms(2)] by blast
  have "rs = qs" using a b Abs_root by simp
  moreover have "rs @ ns = qs @ ms" using a b rooted_inj[of "rs @ ns" "qs @ ms"] by simp
  ultimately show ?thesis using a(6) b(6) assms(3,4) by simp
qed

lemma plain_key_path:
  assumes "list_all plain ns" "ns \<noteq> []" "root \<noteq> ''''" "Abs h root = Inr r" "r \<noteq> ''/''"
  shows "LocalStore_path h root (strings_Join ns CHR ''/'') = Inr (r @ ''/'' @ strings_Join ns CHR ''/'')"
proof -
  obtain rs where rs: "list_all plain rs" "r = CHR ''/'' # strings_Join rs CHR ''/''"
    using assms(3,4) Clean_IsAbs[of root] Abs_path_rooted[of "CHR ''/'' # the (os_cwd h)" root]
    by (auto simp: Abs_def split: if_splits option.splits)
  then have "rs \<noteq> []" using assms(5) by auto
  then have "Join2 r (strings_Join ns CHR ''/'') = r @ ''/'' @ strings_Join ns CHR ''/''"
    using Join2_rooted[OF rs(1) assms(1,2)] rs(2) assms(2) by (simp add: Join_append)
  then show ?thesis using assms Clean_Join_plain[OF assms(1,2)]
    by (simp add: LocalStore_path_def Let_def stays_inside_def HasPrefix_def)
qed

section \<open>What the operations of LocalStore do\<close>

lemma CreateTemp_Inr: "CreateTemp h root d = (Inr tmp, d') \<Longrightarrow> map_of d tmp = None \<and> d' = AList.update tmp '''' d
    \<and> tmp \<in> temp_path h root ` set (os_random h)"
  by (auto simp: CreateTemp_def split: option.splits dest!: find_SomeD)

lemma CreateTemp_Inl: "CreateTemp h root d = (Inl e, d') \<Longrightarrow> d' = d"
  by (auto simp: CreateTemp_def split: option.splits)

lemma sys_eq: "sys h call msg d = (r, d') \<longleftrightarrow> d' = d \<and> r = (case os_fault h call of None \<Rightarrow> Inr () | Some t \<Rightarrow> Inl (Wrapped msg (Plain t)))"
  by (auto simp: sys_def split: option.splits)

lemma copy_object_cases: "copy_object h tmp content d = (r, d') \<Longrightarrow>
    (case r of Inl e \<Rightarrow> d' = d \<or> (\<exists>b. d' = AList.update tmp b d)
     | Inr b \<Rightarrow> rd_error content = None \<and> b = rd_bytes content \<and> d' = AList.update tmp b d)"
  by (auto simp: copy_object_def split: option.splits)

text \<open>A disk that differs from another at one path that was free, if at all.\<close>

definition scratch :: "string \<Rightarrow> disk \<Rightarrow> disk \<Rightarrow> bool" where
  "scratch tmp d d' \<longleftrightarrow> map_of d tmp = None \<and> (\<forall>q. q \<noteq> tmp \<longrightarrow> map_of d' q = map_of d q)"

lemma scratch_ops:
  "map_of d tmp = None \<Longrightarrow> scratch tmp d d"
  "scratch tmp d d' \<Longrightarrow> scratch tmp d (AList.update tmp b d')"
  "scratch tmp d d' \<Longrightarrow> scratch tmp d (AList.delete tmp d')"
  by (auto simp: scratch_def update_conv' delete_conv')

lemma scratch_keeps: "scratch tmp d d' \<Longrightarrow> map_of d q = Some b \<Longrightarrow> map_of d' q = Some b"
  by (cases "q = tmp") (auto simp: scratch_def)

lemma discard_scratch: "discard h tmp e d1 = (r, d') \<Longrightarrow> scratch tmp d d1 \<Longrightarrow> isl r \<and> scratch tmp d d'"
  by (auto simp: discard_def scratch_ops split: if_splits)

lemma LocalStore_Put_cases:
  assumes "LocalStore_Put ev h root key content n ct d = (r, d')"
  shows "(isl r \<and> (d' = d \<or> (\<exists>tmp\<in>temp_path h root ` set (os_random h). scratch tmp d d'))) \<or>
    (\<exists>p. r = Inr (sha256_hex ev (rd_bytes content)) \<and> LocalStore_path h root key = Inr p \<and> rd_error content = None
      \<and> (0 \<le> n \<longrightarrow> int (length (rd_bytes content)) = n) \<and> map_of d' = (map_of d)(p \<mapsto> rd_bytes content))"
proof (cases "LocalStore_path h root key")
  case (Inl e)
  then have "isl r \<and> d' = d" using assms unfolding LocalStore_Put_def by (simp add: op_bind_eq isl_def)
  then show ?thesis by blast
next
  case (Inr p)
  obtain t d1 where t: "CreateTemp h root d = (t, d1)" by force
  show ?thesis
  proof (cases "\<exists>tmp. t = Inr tmp \<and> os_fault h ''mkdir root'' = None \<and> os_fault h ''mkdir dir'' = None")
    case False
    then have "isl r \<and> d' = d" using assms Inr t CreateTemp_Inl unfolding LocalStore_Put_def
      by (cases t) (auto simp: op_bind_eq op_try_eq sys_eq split: option.splits)
    then show ?thesis by blast
  next
    case True
    then obtain tmp where tmp: "t = Inr tmp" "os_fault h ''mkdir root'' = None" "os_fault h ''mkdir dir'' = None" by blast
    have free: "map_of d tmp = None" "d1 = AList.update tmp '''' d" "tmp \<in> temp_path h root ` set (os_random h)" using CreateTemp_Inr t tmp(1) by auto
    have s1: "scratch tmp d d1" using free by (simp add: scratch_ops)
    obtain c d2 where c: "copy_object h tmp content d1 = (c, d2)" by force
    have s2: "scratch tmp d d2" using copy_object_cases[OF c] s1 by (cases c) (auto simp: scratch_ops)
    let ?k = "\<lambda>written. if n \<ge> 0 \<and> int (length written) \<noteq> n
     then discard h tmp (Plain (''files: upload size changed while reading: expected '' @ decimal n
            @ '' bytes, wrote '' @ decimal (int (length written))))
     else op_try (sys h ''sync'' ''files: sync object'') (discard h tmp) (\<lambda>_.
     op_try (sys h ''close'' ''files: close object'') (discard h tmp) (\<lambda>_.
     op_try (rename_object h tmp p) (discard h tmp) (\<lambda>_.
     op_return (sha256_hex ev written))))"
    have run: "op_try (copy_object h tmp content) (\<lambda>e. discard h tmp (Wrapped ''files: write object'' e)) ?k d1 = (r, d')"
      using assms Inr t tmp unfolding LocalStore_Put_def by (simp add: op_bind_def op_try_def sys_def op_lift_def op_return_def)
    show ?thesis
    proof (cases c)
      case (Inl e)
      then have "discard h tmp (Wrapped ''files: write object'' e) d2 = (r, d')" using run c by (simp add: op_try_def)
      then show ?thesis using discard_scratch[OF _ s2] free(3) by blast
    next
      case Inrc: (Inr b)
      then have k: "?k b d2 = (r, d')" using run c by (simp add: op_try_def)
      have b: "b = rd_bytes content" "rd_error content = None" "d2 = AList.update tmp b d1" using copy_object_cases[OF c] Inrc by auto
      have m2: "map_of d2 tmp = Some b" using b by (simp add: update_conv')
      show ?thesis
      proof (cases "(0 \<le> n \<longrightarrow> int (length b) = n) \<and> os_fault h ''sync'' = None \<and> os_fault h ''close'' = None \<and> os_fault h ''rename'' = None")
        case False
        then have "\<exists>e. discard h tmp e d2 = (r, d')"
          using k m2 by (auto simp: op_try_eq sys_eq rename_object_def split: if_splits option.splits)
        then show ?thesis using discard_scratch[OF _ s2] free(3) by blast
      next
        case True
        then have "r = Inr (sha256_hex ev b)" "d' = AList.update p b (AList.delete tmp d2)"
          using k m2 by (auto simp: op_try_def sys_def rename_object_def op_return_def)
        moreover have "map_of (AList.update p b (AList.delete tmp d2)) = (map_of d)(p \<mapsto> b)"
          using free b by (auto simp: update_conv' delete_conv' fun_eq_iff)
        ultimately show ?thesis using Inr b True by auto
      qed
    qed
  qed
qed

section \<open>The contract of an object store\<close>

text \<open>
  \<open>obj\<close> is the content kept under a key, \<open>valid\<close> the keys the laws are about, \<open>up\<close> that
  reading works. A failed \<open>Put\<close> or \<open>Delete\<close>, and one for another key, keeps every object.
\<close>

locale object_store =
  fixes st :: "'o ObjectStore" and obj :: "'o \<Rightarrow> string \<Rightarrow> string option" and valid :: "string \<Rightarrow> bool"
    and up :: bool and digest :: "string \<Rightarrow> string"
  assumes put_stores: "valid k \<Longrightarrow> os_Put st k content n ct s = (Inr h, s') \<Longrightarrow>
      obj s' k = Some (rd_bytes content) \<and> h = digest (rd_bytes content) \<and> (0 \<le> n \<longrightarrow> int (length (rd_bytes content)) = n)"
    and put_keeps: "valid j \<Longrightarrow> valid k \<Longrightarrow> os_Put st k content n ct s = (r, s') \<Longrightarrow> obj s j = Some b \<Longrightarrow> j \<noteq> k \<or> isl r \<Longrightarrow> obj s' j = Some b"
    and open_reads: "os_Open st k s = (r2, s') \<Longrightarrow> s' = s \<and> (\<forall>c. r2 = Inr c \<longrightarrow> obj s k = Some (rd_bytes c))"
    and open_up: "valid k \<Longrightarrow> obj s k = Some b \<Longrightarrow> up \<Longrightarrow> os_Open st k s = (Inr \<lparr>rd_bytes = b, rd_error = None\<rparr>, s)"
    and open_missing: "valid k \<Longrightarrow> obj s k = None \<Longrightarrow> os_Open st k s = (Inl ErrObjectNotFound, s)"
    and delete_removes: "os_Delete st k s = (Inr u, s') \<Longrightarrow> obj s' k = None"
    and delete_keeps: "valid j \<Longrightarrow> valid k \<Longrightarrow> os_Delete st k s = (r3, s') \<Longrightarrow> obj s j = Some b \<Longrightarrow> j \<noteq> k \<or> isl r3 \<Longrightarrow> obj s' j = Some b"
    and delete_missing: "valid k \<Longrightarrow> obj s k = None \<Longrightarrow> os_Delete st k s = (Inr (), s)"
begin

text \<open>An object outlives every call that is not its own deletion or replacement.\<close>

lemma put_then_open:
  assumes "valid k" "up" "os_Put st k content n ct s = (Inr h, s')"
  shows "os_Open st k s' = (Inr \<lparr>rd_bytes = rd_bytes content, rd_error = None\<rparr>, s')"
  using open_up[OF assms(1) _ assms(2)] put_stores[OF assms(1,3)] by blast

lemma open_content: "valid k \<Longrightarrow> os_Open st k s = (Inr c, s') \<Longrightarrow> obj s k = Some (rd_bytes c)"
  using open_reads by blast

end

definition local_object :: "host \<Rightarrow> string \<Rightarrow> disk \<Rightarrow> string \<Rightarrow> string option" where
  "local_object h root d key = (case LocalStore_path h root key of Inl e \<Rightarrow> None | Inr p \<Rightarrow> map_of d p)"

definition local_key :: "host \<Rightarrow> string \<Rightarrow> string \<Rightarrow> bool" where
  "local_key h root key \<longleftrightarrow> Clean key = key \<and> \<not> isl (LocalStore_path h root key)"

lemma local_keyE:
  assumes "local_key h root key"
  obtains p where "LocalStore_path h root key = Inr p" "Clean key = key"
  using assms by (cases "LocalStore_path h root key") (auto simp: local_key_def)

lemma NewLocalStore_ops [simp]:
  "os_Put (NewLocalStore ev h root) = LocalStore_Put ev h root"
  "os_Open (NewLocalStore ev h root) = LocalStore_Open h root"
  "os_Delete (NewLocalStore ev h root) = LocalStore_Delete h root"
  by (simp_all add: NewLocalStore_def)

lemma LocalStore_Open_eq:
  assumes "LocalStore_path h root k = Inr p"
  shows "LocalStore_Open h root k d = (case map_of d p of None \<Rightarrow> (Inl ErrObjectNotFound, d)
     | Some b \<Rightarrow> (case os_fault h ''open'' of Some t \<Rightarrow> (Inl (Wrapped ''files: open object'' (Plain t)), d)
         | None \<Rightarrow> (Inr \<lparr>rd_bytes = b, rd_error = None\<rparr>, d)))"
  using assms by (simp add: LocalStore_Open_def op_bind_def op_try_def op_lift_def)

lemma LocalStore_Delete_eq:
  assumes "LocalStore_path h root k = Inr p"
  shows "LocalStore_Delete h root k d = (case map_of d p of None \<Rightarrow> (Inr (), d)
     | Some b \<Rightarrow> (case os_fault h ''remove'' of Some t \<Rightarrow> (Inl (Wrapped ''files: delete object'' (Plain t)), d)
         | None \<Rightarrow> (Inr (), AList.delete p d)))"
  using assms by (simp add: LocalStore_Delete_def op_bind_def op_try_def op_lift_def)

lemma local_bad_key:
  assumes "LocalStore_path h root k = Inl e"
  shows "LocalStore_Open h root k d = (Inl e, d)" "LocalStore_Delete h root k d = (Inl e, d)"
  using assms by (simp_all add: LocalStore_Open_def LocalStore_Delete_def op_bind_def op_try_def op_lift_def op_fail_def)

interpretation local_store: object_store "NewLocalStore ev h root" "local_object h root" "local_key h root"
    "os_fault h ''open'' = None" "sha256_hex ev" for ev h root
proof (unfold_locales, goal_cases)
  case (1 k content n ct s hh s')
  then obtain p where "LocalStore_path h root k = Inr p" by (blast elim: local_keyE)
  then show ?case using LocalStore_Put_cases[of ev h root k content n ct s "Inr hh" s'] 1
    by (auto simp: local_object_def)
next
  case (2 j k content n ct s r s' b)
  then obtain pj pk where p: "LocalStore_path h root j = Inr pj" "LocalStore_path h root k = Inr pk" "Clean j = j" "Clean k = k"
    by (blast elim: local_keyE)
  then have "j \<noteq> k \<Longrightarrow> pj \<noteq> pk" using LocalStore_path_inj by blast
  then show ?case using LocalStore_Put_cases[of ev h root k content n ct s r s'] 2 p
    by (auto simp: local_object_def dest: scratch_keeps)
next
  case (3 k s r s')
  then show ?case by (cases "LocalStore_path h root k")
    (auto simp: local_object_def LocalStore_Open_eq local_bad_key split: option.splits)
next
  case (4 k s b)
  then show ?case by (auto simp: local_object_def LocalStore_Open_eq elim: local_keyE)
next
  case (5 k s)
  then show ?case by (auto simp: local_object_def LocalStore_Open_eq elim: local_keyE)
next
  case (6 k s u s')
  then show ?case by (cases "LocalStore_path h root k")
    (auto simp: local_object_def LocalStore_Delete_eq local_bad_key delete_conv' split: option.splits)
next
  case (7 j k s r s' b)
  then obtain pj pk where p: "LocalStore_path h root j = Inr pj" "LocalStore_path h root k = Inr pk" "Clean j = j" "Clean k = k"
    by (blast elim: local_keyE)
  then have "j \<noteq> k \<Longrightarrow> pj \<noteq> pk" using LocalStore_path_inj by blast
  then show ?case using 7 p by (auto simp: local_object_def LocalStore_Delete_eq delete_conv' split: option.splits)
next
  case (8 k s)
  then show ?case by (auto simp: local_object_def LocalStore_Delete_eq elim: local_keyE)
qed

end
