(* ===== verification/Files_Svc.thy ===== *)
theory Files_Svc
  imports Files_Store
begin

text \<open>
  internal/files: file metadata under the tenant's row level security, the bytes in an object
  store under the key tenant/file. The state of a call is the world together with the state
  of the store.
\<close>

section \<open>internal/audit/entity.go\<close>

definition ActionFileUploaded :: string where "ActionFileUploaded = ''file.uploaded''"
definition ActionFileDeleted :: string where "ActionFileDeleted = ''file.deleted''"
definition TargetFile :: string where "TargetFile = ''file''"

section \<open>repository.go\<close>

definition files_ErrNotFound :: err where "files_ErrNotFound = Sentinel ''files: file not found''"

definition insert_file :: "session \<Rightarrow> file_row \<Rightarrow> (db, err, unit) tx" where
  "insert_file sess f =
     tx_bind (tx_query (\<lambda>d. insert_check (rls sess file_TenantID f) (file_SizeBytes f > 0)
        (file_ID f \<notin> file_ID ` set (files d) \<and> file_StorageKey f \<notin> file_StorageKey ` set (files d))
        (file_TenantID f \<in> tenant_ID ` set (tenants d) \<and> file_UploadedBy f \<in> user_ID ` set (users d)
         \<and> (case file_ProjectID f of None \<Rightarrow> True | Some p \<Rightarrow> p \<in> proj_ID ` set (projects d)))))
       (\<lambda>chk. tx_bind (raise chk) (\<lambda>_. modify (\<lambda>d. d\<lparr>files := files d @ [f]\<rparr>)))"

definition files_repo_Create :: "env \<Rightarrow> ctx \<Rightarrow> file_row \<Rightarrow> (world, err, unit) op" where
  "files_repo_Create ev c f = WithTenantTx ev ''files.Create'' c (\<lambda>sess.
     stmt ev ''files.Create.create'' (insert_file sess f))"

definition files_repo_List :: "env \<Rightarrow> ctx \<Rightarrow> uuid option \<Rightarrow> int \<Rightarrow> int \<Rightarrow> (world, err, file_row list \<times> int) op" where
  "files_repo_List ev c projectID lim offset = op_map_err (Wrapped ''files: list'')
     (WithTenantTx ev ''files.List'' c (\<lambda>sess. list_page ev ''files.List'' sess file_TenantID
        (\<lambda>f. case projectID of None \<Rightarrow> True | Some p \<Rightarrow> file_ProjectID f = Some p) (\<lambda>f. - file_CreatedAt f) files lim offset))"

definition own_file :: "session \<Rightarrow> db \<Rightarrow> uuid \<Rightarrow> file_row option" where
  "own_file sess d i = select_first sess file_TenantID (\<lambda>f. file_ID f = i) (files d)"

definition files_FindByID :: "env \<Rightarrow> ctx \<Rightarrow> uuid \<Rightarrow> (world, err, file_row) op" where
  "files_FindByID ev c i = op_map_err
     (\<lambda>e. if errors_is e files_ErrNotFound then e else Wrapped ''files: find by id'' e)
     (WithTenantTx ev ''files.FindByID'' c (\<lambda>sess.
        tx_map_err (\<lambda>e. if errors_is e ErrRecordNotFound then files_ErrNotFound else e)
          (stmt ev ''files.FindByID.first'' (take_row (\<lambda>d. own_file sess d i)))))"

definition files_repo_Delete :: "env \<Rightarrow> ctx \<Rightarrow> uuid \<Rightarrow> (world, err, unit) op" where
  "files_repo_Delete ev c i = op_map_err
     (\<lambda>e. if errors_is e files_ErrNotFound then e else Wrapped ''files: delete'' e)
     (WithTenantTx ev ''files.Delete'' c (\<lambda>sess.
        tx_bind (stmt ev ''files.Delete.delete'' (tx_bind (tx_query (\<lambda>d. count_rows sess file_TenantID (\<lambda>f. file_ID f = i) (files d))) (\<lambda>n.
          tx_bind (modify (\<lambda>d. d\<lparr>files := delete_rows sess file_TenantID (\<lambda>f. file_ID f = i) (files d)\<rparr>)) (\<lambda>_. tx_return n))))
        (\<lambda>affected. require (affected \<noteq> 0) files_ErrNotFound)))"

definition ProjectExists :: "env \<Rightarrow> ctx \<Rightarrow> uuid \<Rightarrow> (world, err, bool) op" where
  "ProjectExists ev c projectID = op_map_err (Wrapped ''files: verify project'')
     (WithTenantTx ev ''ProjectExists'' c (\<lambda>sess. stmt ev ''ProjectExists.count'' (tx_query (\<lambda>d.
        count_rows sess proj_TenantID (\<lambda>p. proj_ID p = projectID \<and> proj_DeletedAt p = None) (projects d) > 0))))"

section \<open>service.go\<close>

definition maxFilenameRunes :: nat where "maxFilenameRunes = 255"

text \<open>\<open>strings.ReplaceAll\<close> of a byte by nothing and by a byte.\<close>

definition cleanFilename :: "string \<Rightarrow> err + string" where
  "cleanFilename raw = (let name = TrimSpace (filter (\<lambda>ch. byte ch \<noteq> 0) raw);
       name = map (\<lambda>ch. if byte ch = 92 then CHR ''/'' else ch) name;
       name = Base name
     in if name = '''' \<or> name = ''.'' \<or> name = ''..'' then Inl (New CodeValidation ''filename is required'')
        else if length (chunks name) > maxFilenameRunes then Inl (New CodeValidation ''filename is too long'')
        else Inr name)"

type_synonym StorageQuotaChecker = "env \<Rightarrow> ctx \<Rightarrow> uuid \<Rightarrow> int \<Rightarrow> (world, err, unit) op"

record 'o files_Service =
  fls_store :: "'o ObjectStore"
  fls_audit :: "Recorder option"
  fls_quotas :: "StorageQuotaChecker option"
  fls_maxBytes :: int

record UploadInput =
  upl_ProjectID :: "uuid option"
  upl_Name :: string
  upl_ContentType :: string
  upl_SizeBytes :: int
  upl_Content :: "reader option"

text \<open>A call that works on one half of the state.\<close>

definition on_world :: "(world, err, 'a) op \<Rightarrow> (world \<times> 'o, err, 'a) op" where
  "on_world m = (\<lambda>(w, s). case m w of (r, w') \<Rightarrow> (r, (w', s)))"

definition on_store :: "('o, err, 'a) op \<Rightarrow> (world \<times> 'o, err, 'a) op" where
  "on_store m = (\<lambda>(w, s). case m s of (r, s') \<Rightarrow> (r, (w, s')))"

text \<open>The part of \<open>Upload\<close> before the bytes are stored: the name and the content, if all is well.\<close>

definition upload_checks :: "env \<Rightarrow> 'o files_Service \<Rightarrow> ctx \<Rightarrow> uuid \<Rightarrow> UploadInput \<Rightarrow> (world, err, string \<times> reader) op" where
  "upload_checks ev s c tenantID inp = op_bind (op_lift (cleanFilename (upl_Name inp))) (\<lambda>name.
     if upl_SizeBytes inp \<le> 0 then op_fail (New CodeValidation ''file must not be empty'')
     else if fls_maxBytes s > 0 \<and> upl_SizeBytes inp > fls_maxBytes s
     then op_fail (New CodeUnprocessable (''file exceeds the upload limit of '' @ decimal (fls_maxBytes s) @ '' bytes''))
     else (case upl_Content inp of None \<Rightarrow> op_fail (New CodeValidation ''file content is required'')
     | Some content \<Rightarrow> op_bind (case upl_ProjectID inp of None \<Rightarrow> op_return ()
         | Some p \<Rightarrow> op_try (ProjectExists ev c p)
             (\<lambda>e. op_fail (Wrap CodeInternal ''failed to verify project'' e))
             (\<lambda>exists. if \<not> exists then op_fail (New CodeNotFound ''project not found in this organization'') else op_return ()))
       (\<lambda>_. op_bind (case fls_quotas s of None \<Rightarrow> op_return () | Some q \<Rightarrow> q ev c tenantID (upl_SizeBytes inp))
       (\<lambda>_. op_return (name, content)))))"

definition storage_key :: "env \<Rightarrow> uuid \<Rightarrow> uuid \<Rightarrow> string" where
  "storage_key ev tenantID fileID = uuid_string ev tenantID @ ''/'' @ uuid_string ev fileID"

definition upload_type :: "UploadInput \<Rightarrow> string" where
  "upload_type inp = (let ct = TrimSpace (upl_ContentType inp) in if ct = '''' then ''application/octet-stream'' else ct)"

text \<open>gorm fills in \<open>CreatedAt\<close>.\<close>

definition new_file :: "env \<Rightarrow> uuid \<Rightarrow> uuid \<Rightarrow> uuid \<Rightarrow> string \<Rightarrow> UploadInput \<Rightarrow> string \<Rightarrow> file_row" where
  "new_file ev fileID tenantID userID name inp sha256 = \<lparr>file_ID = fileID, file_TenantID = tenantID,
     file_ProjectID = upl_ProjectID inp, file_UploadedBy = userID, file_OriginalName = name,
     file_StorageKey = storage_key ev tenantID fileID, file_ContentType = upload_type inp,
     file_SizeBytes = upl_SizeBytes inp, file_SHA256 = sha256, file_CreatedAt = now ev\<rparr>"

definition uploaded_entry :: "Entry \<Rightarrow> file_row \<Rightarrow> Entry" where
  "uploaded_entry entry f = entry\<lparr>en_Action := ActionFileUploaded, en_TargetType := TargetFile, en_TargetID := Some (file_ID f),
     en_Metadata := [(''name'', JStr (file_OriginalName f)), (''size_bytes'', JInt (file_SizeBytes f)),
       (''content_type'', JStr (file_ContentType f))]\<rparr>"

text \<open>The rest of \<open>Upload\<close>: the bytes, then the row; without a row the bytes are deleted again.\<close>

definition store_upload :: "env \<Rightarrow> 'o files_Service \<Rightarrow> fresh \<Rightarrow> ctx \<Rightarrow> Entry \<Rightarrow> uuid \<Rightarrow> uuid \<Rightarrow> UploadInput \<Rightarrow> string \<Rightarrow> reader
    \<Rightarrow> (world \<times> 'o, err, file_row) op" where
  "store_upload ev s fr c entry tenantID userID inp name content =
     (let fileID = fresh_id fr 0; key = storage_key ev tenantID fileID in
      op_try (on_store (os_Put (fls_store s) key content (upl_SizeBytes inp) (upload_type inp)))
        (\<lambda>e. op_fail (Wrap CodeInternal ''failed to store file'' e))
        (\<lambda>sha256. let f = new_file ev fileID tenantID userID name inp sha256 in
          op_try (on_world (files_repo_Create ev c f))
            (\<lambda>e. op_ignore (on_store (os_Delete (fls_store s) key)) (op_fail (Wrap CodeInternal ''failed to record file'' e)))
            (\<lambda>_. on_world (record_then ev (fls_audit s) (fresh_id fr 1) (uploaded_entry entry f) f))))"

definition files_Upload :: "env \<Rightarrow> 'o files_Service \<Rightarrow> fresh \<Rightarrow> ctx \<Rightarrow> Entry \<Rightarrow> uuid \<Rightarrow> uuid \<Rightarrow> UploadInput
    \<Rightarrow> (world \<times> 'o, err, file_row) op" where
  "files_Upload ev s fr c entry tenantID userID inp =
     op_bind (on_world (upload_checks ev s c tenantID inp)) (\<lambda>(name, content).
       store_upload ev s fr c entry tenantID userID inp name content)"

definition files_List :: "env \<Rightarrow> ctx \<Rightarrow> uuid option \<Rightarrow> int \<Rightarrow> int \<Rightarrow> (world, err, file_row list \<times> int) op" where
  "files_List ev c projectID page pageSize = op_map_err (Wrap CodeInternal ''failed to list files'')
     (files_repo_List ev c projectID pageSize (wrap64 (wrap64 (page - 1) * pageSize)))"

definition files_Get :: "env \<Rightarrow> ctx \<Rightarrow> uuid \<Rightarrow> (world, err, file_row) op" where
  "files_Get ev c i = op_map_err (\<lambda>e. if errors_is e files_ErrNotFound then New CodeNotFound ''file not found''
     else Wrap CodeInternal ''failed to load file'' e) (files_FindByID ev c i)"

definition files_Open :: "env \<Rightarrow> 'o files_Service \<Rightarrow> ctx \<Rightarrow> uuid \<Rightarrow> (world \<times> 'o, err, file_row \<times> reader) op" where
  "files_Open ev s c i = op_bind (on_world (files_Get ev c i)) (\<lambda>f.
     op_try (on_store (os_Open (fls_store s) (file_StorageKey f)))
       (\<lambda>e. op_fail (if errors_is e ErrObjectNotFound then New CodeNotFound ''file content not found''
          else Wrap CodeInternal ''failed to open file'' e))
       (\<lambda>r. op_return (f, r)))"

definition files_Delete :: "env \<Rightarrow> 'o files_Service \<Rightarrow> fresh \<Rightarrow> ctx \<Rightarrow> Entry \<Rightarrow> uuid \<Rightarrow> (world \<times> 'o, err, unit) op" where
  "files_Delete ev s fr c entry i = op_bind (on_world (files_Get ev c i)) (\<lambda>f.
     op_try (on_store (os_Delete (fls_store s) (file_StorageKey f)))
       (\<lambda>e. op_fail (Wrap CodeInternal ''failed to delete file content'' e))
       (\<lambda>_. op_try (on_world (files_repo_Delete ev c i))
          (\<lambda>e. op_fail (Wrap CodeInternal ''failed to delete file record'' e))
          (\<lambda>_. on_world (record_then ev (fls_audit s) (fresh_id fr 1)
             (entry\<lparr>en_Action := ActionFileDeleted, en_TargetType := TargetFile, en_TargetID := Some i,
                en_Metadata := [(''name'', JStr (file_OriginalName f)), (''size_bytes'', JInt (file_SizeBytes f))]\<rparr>) ()))))"

section \<open>handler.go\<close>

datatype files_data = DFile file_row | DFiles "file_row list" | DFileMessage string

text \<open>A \<open>multipart.FileHeader\<close>; \<open>fh_Content\<close> is what \<open>Open\<close> returns, \<open>None\<close> on failure.\<close>

record file_header =
  fh_Filename :: string
  fh_ContentType :: string
  fh_Size :: int
  fh_Content :: "reader option"

definition optionalUUID :: "env \<Rightarrow> string \<Rightarrow> string + uuid option" where
  "optionalUUID ev raw = (if raw = '''' then Inr None
     else (case parse_uuid ev raw of None \<Rightarrow> Inl ''invalid UUID'' | Some i \<Rightarrow> Inr (Some i)))"

type_synonym ('o, 'r) files_handler = "world \<times> 'o \<Rightarrow> 'r \<times> world \<times> 'o"

definition files_respond :: "(world \<times> 'o, err, 'a) op \<Rightarrow> (err \<Rightarrow> 'r) \<Rightarrow> ('a \<Rightarrow> 'r) \<Rightarrow> ('o, 'r) files_handler" where
  "files_respond m bad ok = (\<lambda>x. case m x of (Inl e, x') \<Rightarrow> (bad e, x') | (Inr a, x') \<Rightarrow> (ok a, x'))"

text \<open>
  \<open>formFile\<close> is gin's \<open>FormFile("file")\<close> on a body of at most the given number of bytes,
  \<open>postForm\<close> its \<open>PostForm\<close>.
\<close>

definition files_h_Upload :: "env \<Rightarrow> 'o files_Service \<Rightarrow> int \<Rightarrow> fresh \<Rightarrow> gctx \<Rightarrow> (int option \<Rightarrow> file_header option)
    \<Rightarrow> (string \<Rightarrow> string) \<Rightarrow> ('o, files_data response) files_handler" where
  "files_h_Upload ev s maxBytes fr c formFile postForm = (case RequireCaller c of Inl r \<Rightarrow> (\<lambda>x. (r, x)) | Inr cl \<Rightarrow>
     (case formFile (if maxBytes > 0 then Some (wrap64 (maxBytes + 2 ^ 20)) else None) of
        None \<Rightarrow> (\<lambda>x. (BadRequest c ''file is required'', x))
      | Some hdr \<Rightarrow> (case optionalUUID ev (postForm ''project_id'') of
          Inl _ \<Rightarrow> (\<lambda>x. (BadRequest c ''invalid project_id'', x))
        | Inr projectID \<Rightarrow> (case fh_Content hdr of
            None \<Rightarrow> (\<lambda>x. (BadRequest c ''could not read uploaded file'', x))
          | Some content \<Rightarrow> files_respond (files_Upload ev s fr (ctx_tenant c) (EntryFromRequest c ActionFileUploaded)
                (TenantID cl) (UserID cl)
                \<lparr>upl_ProjectID = projectID, upl_Name = fh_Filename hdr, upl_ContentType = fh_ContentType hdr,
                 upl_SizeBytes = fh_Size hdr, upl_Content = Some content\<rparr>)
              (RespondError c) (\<lambda>f. Success c 201 (DFile f))))))"

definition files_h_List :: "env \<Rightarrow> gctx \<Rightarrow> files_data handler" where
  "files_h_List ev c = with_caller c (\<lambda>_. optional_query c ''project_id'' (parse_uuid ev) ''invalid project_id'' (\<lambda>p.
     respond_page c (files_List ev (ctx_tenant c) p) DFiles))"

definition files_h_Get :: "env \<Rightarrow> gctx \<Rightarrow> files_data handler" where
  "files_h_Get ev c = with_caller c (\<lambda>_. uuid_param ev c ''fileID'' (\<lambda>i.
     respond c (files_Get ev (ctx_tenant c) i) (\<lambda>f. Success c 200 (DFile f))))"

text \<open>What \<open>Download\<close> sends: the headers and the body, or an error.\<close>

datatype download = Refused "files_data response" | Sent string string string reader

definition files_h_Download :: "env \<Rightarrow> 'o files_Service \<Rightarrow> gctx \<Rightarrow> ('o, download) files_handler" where
  "files_h_Download ev s c = (case RequireCaller c of Inl r \<Rightarrow> (\<lambda>x. (Refused r, x)) | Inr _ \<Rightarrow>
     (case UUIDParam (parse_uuid ev) c ''fileID'' of Inl r \<Rightarrow> (\<lambda>x. (Refused r, x)) | Inr i \<Rightarrow>
       files_respond (files_Open ev s (ctx_tenant c) i) (\<lambda>e. Refused (RespondError c e))
         (\<lambda>(f, r). Sent (FormatMediaType ''attachment'' ''filename'' (file_OriginalName f))
            (decimal (file_SizeBytes f)) (file_ContentType f) r)))"

definition files_h_Delete :: "env \<Rightarrow> 'o files_Service \<Rightarrow> fresh \<Rightarrow> gctx \<Rightarrow> ('o, files_data response) files_handler" where
  "files_h_Delete ev s fr c = (case RequireCaller c of Inl r \<Rightarrow> (\<lambda>x. (r, x)) | Inr _ \<Rightarrow>
     (case UUIDParam (parse_uuid ev) c ''fileID'' of Inl r \<Rightarrow> (\<lambda>x. (r, x)) | Inr i \<Rightarrow>
       files_respond (files_Delete ev s fr (ctx_tenant c) (EntryFromRequest c ActionFileDeleted) i)
         (RespondError c) (\<lambda>_. Success c 200 (DFileMessage ''file deleted''))))"

end
