(* ===== verification/Files_Facts.thy ===== *)
theory Files_Facts
  imports Files_Svc Billing_Facts
begin

text \<open>
  What the steps of internal/files do, with any object store that keeps its contract and any
  recorder: one record of the file table, one key of the store.
\<close>

section \<open>Everything LocalStore touches lies below its root\<close>

lemma clean_elements_snoc:
  assumes "plain e"
  shows "clean_elements True (q @ CHR ''/'' # e) = clean_elements True q @ [e]"
  using assms by (simp add: clean_elements_def Split_append_all Split_chars plain_def clean_step_def)

lemma clean_elements_slash: "clean_elements True (q @ ''/'') = clean_elements True q"
  using Split_append_all[of q "CHR ''/''" "[]"] by (simp add: clean_elements_def clean_step_def)

lemma HasSuffix_slash: "HasSuffix p ''/'' \<Longrightarrow> \<exists>q. p = q @ ''/''"
  by (auto simp: HasSuffix_def) (metis append_take_drop_id)

lemma clean_below:
  assumes "IsAbs p" "plain e"
  shows "Clean (p @ (if HasSuffix p ''/'' then '''' else ''/'') @ e)
    = CHR ''/'' # strings_Join (clean_elements True p @ [e]) CHR ''/''"
proof (cases "HasSuffix p ''/''")
  case True
  then obtain q where q: "p = q @ ''/''" using HasSuffix_slash by blast
  then have "clean_elements True (p @ e) = clean_elements True p @ [e]"
    using clean_elements_snoc[OF assms(2), of q] clean_elements_slash[of q] by simp
  then show ?thesis using True assms IsAbs_append[OF assms(1), of e] by (auto simp: Clean_def)
next
  case False
  have "IsAbs (p @ CHR ''/'' # e)" "p @ CHR ''/'' # e \<noteq> ''''" using IsAbs_append[OF assms(1)] by auto
  then show ?thesis using False clean_elements_snoc[OF assms(2), of p] by (simp add: Clean_def)
qed

lemma HasSuffix_slash_append: "p \<noteq> '''' \<Longrightarrow> HasSuffix (a @ p) ''/'' \<longleftrightarrow> HasSuffix p ''/''"
  by (cases p rule: rev_cases) (auto simp: HasSuffix_def)

lemma temp_path_below:
  assumes "Abs h root = Inr r" "root \<noteq> ''''" "CHR ''/'' \<notin> set x"
  shows "\<exists>rs. list_all plain rs \<and> r = CHR ''/'' # strings_Join rs CHR ''/''
    \<and> temp_path h root x = CHR ''/'' # strings_Join (rs @ [''.upload-'' @ x]) CHR ''/''"
proof -
  let ?e = "''.upload-'' @ x"
  have e: "plain ?e" using assms(3) by (simp add: plain_def)
  have "\<exists>p. IsAbs p \<and> r = Clean p \<and> temp_path h root x = Clean (p @ (if HasSuffix p ''/'' then '''' else ''/'') @ ?e)"
  proof (cases "IsAbs root")
    case True
    then show ?thesis using assms(1) IsAbs_append[OF True] by (auto simp: Abs_def temp_path_def intro!: exI[of _ root])
  next
    case False
    then obtain c where c: "os_cwd h = Some c" "r = Clean ((CHR ''/'' # c) @ ''/'' @ root)"
      using assms(1) by (auto simp: Abs_def Abs_path_def Join2_def split: option.splits)
    let ?p = "(CHR ''/'' # c) @ ''/'' @ root"
    have "HasSuffix ?p ''/'' \<longleftrightarrow> HasSuffix root ''/''" using HasSuffix_slash_append[of root "(CHR ''/'' # c) @ ''/''"] assms(2) by simp
    moreover have "\<not> IsAbs (root @ z)" for z using False assms(2) by (cases root) auto
    ultimately have "temp_path h root x = Clean (?p @ (if HasSuffix ?p ''/'' then '''' else ''/'') @ ?e)"
      using c False by (simp add: temp_path_def Abs_def Abs_path_def Join2_def)
    then show ?thesis using c by (intro exI[of _ ?p]) simp
  qed
  then obtain p where p: "IsAbs p" "r = Clean p" "temp_path h root x = Clean (p @ (if HasSuffix p ''/'' then '''' else ''/'') @ ?e)" by blast
  have "r = CHR ''/'' # strings_Join (clean_elements True p) CHR ''/''" using p(1,2) by (auto simp: Clean_def)
  then show ?thesis using p clean_below[OF p(1) e] clean_elements_rooted by auto
qed

text \<open>The paths strictly below a directory.\<close>

definition below :: "string \<Rightarrow> string \<Rightarrow> bool" where
  "below r p \<longleftrightarrow> (\<exists>rs ns. list_all plain rs \<and> list_all plain ns \<and> ns \<noteq> [] \<and> r = CHR ''/'' # strings_Join rs CHR ''/''
     \<and> p = CHR ''/'' # strings_Join (rs @ ns) CHR ''/'')"

lemma key_below: "LocalStore_path h root key = Inr p \<Longrightarrow> \<exists>r. Abs h root = Inr r \<and> below r p"
  using LocalStore_path_inside unfolding below_def by blast

lemma temp_below:
  assumes "Abs h root = Inr r" "root \<noteq> ''''" "CHR ''/'' \<notin> set x"
  shows "below r (temp_path h root x)"
proof -
  have "list_all plain [''.upload-'' @ x]" using assms(3) by (simp add: plain_def)
  then show ?thesis using temp_path_below[OF assms] unfolding below_def by blast
qed

lemma Put_below:
  assumes "LocalStore_Put ev h root key content n ct d = (x, d')" "\<And>z. z \<in> set (os_random h) \<Longrightarrow> CHR ''/'' \<notin> set z"
    "Abs h root = Inr r" "map_of d' q \<noteq> map_of d q"
  shows "below r q"
proof (cases "root = ''''")
  case True
  then have "d' = d" using assms(1) by (simp add: LocalStore_Put_def LocalStore_path_def op_bind_eq)
  then show ?thesis using assms(4) by simp
next
  case False
  from LocalStore_Put_cases[OF assms(1)] consider "\<exists>z\<in>set (os_random h). q = temp_path h root z" | "LocalStore_path h root key = Inr q"
    using assms(4) by (auto simp: scratch_def split: if_splits)
  then show ?thesis using temp_below[OF assms(3) False] assms(2) key_below assms(3) by cases fastforce+
qed

lemma Delete_below:
  assumes "LocalStore_Delete h root key d = (x, d')" "Abs h root = Inr r" "map_of d' q \<noteq> map_of d q"
  shows "below r q"
proof (cases "LocalStore_path h root key")
  case (Inr p)
  then have "q = p" using assms(1,3) by (auto simp: LocalStore_Delete_eq delete_conv' split: option.splits if_splits)
  then show ?thesis using key_below[OF Inr] assms(2) by auto
qed (use assms in \<open>simp add: local_bad_key\<close>)

section \<open>Statements\<close>

lemma files_repo_Create_Inl: "files_repo_Create ev c f w = (Inl e, w') \<Longrightarrow> w' = w"
  unfolding files_repo_Create_def by (rule WithTenantTx_rollback)

lemma files_repo_Create_Inr:
  assumes "files_repo_Create ev c f w = (Inr u, w')"
  shows "c = Some (file_TenantID f) \<and> file_SizeBytes f > 0 \<and> file_ID f \<notin> file_ID ` set (files (store w))
    \<and> w' = w\<lparr>store := (store w)\<lparr>files := files (store w) @ [f]\<rparr>\<rparr>"
  using assms unfolding files_repo_Create_def
  by (auto dest!: WithTenantTx_ok simp: insert_file_def tx_inv insert_check_None rls_def)

lemma files_FindByID_Inr: "files_FindByID ev c i w = (r, w') \<Longrightarrow> w' = w \<and>
    (\<forall>f. r = Inr f \<longrightarrow> (\<exists>t. c = Some t \<and> own_file (Some t) (store w) i = Some f))"
  unfolding files_FindByID_def
  by (cases r) (auto simp: op_map_err_eq tx_inv dest!: WithTenantTx_rollback WithTenantTx_ok)

lemma files_Get_Inr: "files_Get ev c i w = (r, w') \<Longrightarrow> w' = w \<and>
    (\<forall>f. r = Inr f \<longrightarrow> (\<exists>t. c = Some t \<and> own_file (Some t) (store w) i = Some f))"
  unfolding files_Get_def op_map_err_eq using files_FindByID_Inr by fastforce

lemma files_Get_run:
  assumes "\<And>l. sql_fault ev l = None" "own_file (Some t) (store w) i = Some f"
  shows "files_Get ev (Some t) i w = (Inr f, w)"
  using assms by (simp add: files_Get_def files_FindByID_def op_map_err_def op_try_def op_return_def WithTenantTx_run tx_map_err_def take_row_def)

lemma own_fileD: "own_file sess d i = Some f \<Longrightarrow> f \<in> set (files d) \<and> file_ID f = i \<and> sess = Some (file_TenantID f)"
  unfolding own_file_def by (drule select_first_SomeD) auto

lemma files_repo_Delete_cases: "files_repo_Delete ev c i w = (r, w') \<Longrightarrow>
    (case r of Inl e \<Rightarrow> w' = w | Inr _ \<Rightarrow> (\<exists>t. c = Some t
       \<and> w' = w\<lparr>store := (store w)\<lparr>files := delete_rows (Some t) file_TenantID (\<lambda>f. file_ID f = i) (files (store w))\<rparr>\<rparr>))"
  unfolding files_repo_Delete_def
  by (cases r) (auto simp: op_map_err_eq tx_inv dest!: WithTenantTx_rollback WithTenantTx_ok)

lemma files_repo_Delete_run:
  assumes "\<And>l. sql_fault ev l = None" "own_file (Some t) (store w) i = Some f"
  shows "files_repo_Delete ev (Some t) i w = (Inr (),
     w\<lparr>store := (store w)\<lparr>files := delete_rows (Some t) file_TenantID (\<lambda>f. file_ID f = i) (files (store w))\<rparr>\<rparr>)"
proof -
  have "f \<in> set (select_rows (Some t) file_TenantID (\<lambda>f. file_ID f = i) (files (store w)))"
    using own_fileD[OF assms(2)] by (simp add: set_select_rows)
  then have "count_rows (Some t) file_TenantID (\<lambda>f. file_ID f = i) (files (store w)) \<noteq> 0"
    by (auto simp: count_rows_def)
  then show ?thesis using assms(1) by (simp add: files_repo_Delete_def op_map_err_def op_try_def op_return_def WithTenantTx_run
      tx_bind_def tx_query_def modify_def tx_return_def require_def)
qed

section \<open>Uploads\<close>

lemma new_file_simps [simp]:
  "file_ID (new_file ev i t u name inp sha) = i" "file_TenantID (new_file ev i t u name inp sha) = t"
  "file_StorageKey (new_file ev i t u name inp sha) = storage_key ev t i"
  "file_SizeBytes (new_file ev i t u name inp sha) = upl_SizeBytes inp"
  "file_SHA256 (new_file ev i t u name inp sha) = sha" "file_OriginalName (new_file ev i t u name inp sha) = name"
  by (simp_all add: new_file_def)

text \<open>What a service of files is given.\<close>

definition files_wired :: "'o files_Service \<Rightarrow> bool" where
  "files_wired s \<longleftrightarrow> recorder_ok (fls_audit s)
     \<and> (\<forall>q ev c t n w r w'. fls_quotas s = Some q \<longrightarrow> q ev c t n w = (r, w') \<longrightarrow> w' = w)"

lemma ProjectExists_reads: "ProjectExists ev c p w = (r, w') \<Longrightarrow> w' = w"
  unfolding ProjectExists_def
  by (erule op_map_err_reads'[rotated], erule WithTenantTx_reads[rotated]) (auto intro!: reads_only_stmt)

lemma upload_checks_cases:
  assumes "files_wired s" "upload_checks ev s c t inp w = (r, w')"
  shows "w' = w \<and> (\<forall>name content. r = Inr (name, content) \<longrightarrow> cleanFilename (upl_Name inp) = Inr name \<and> upl_Content inp = Some content
    \<and> 0 < upl_SizeBytes inp \<and> (0 < fls_maxBytes s \<longrightarrow> upl_SizeBytes inp \<le> fls_maxBytes s)
    \<and> (\<forall>q. fls_quotas s = Some q \<longrightarrow> q ev c t (upl_SizeBytes inp) w = (Inr (), w)))"
proof -
  let ?P = "case upl_ProjectID inp of None \<Rightarrow> op_return ()
         | Some p \<Rightarrow> op_try (ProjectExists ev c p) (\<lambda>e. op_fail (Wrap CodeInternal ''failed to verify project'' e))
             (\<lambda>exists. if \<not> exists then op_fail (New CodeNotFound ''project not found in this organization'') else op_return ())"
  let ?Q = "case fls_quotas s of None \<Rightarrow> op_return () | Some q \<Rightarrow> q ev c t (upl_SizeBytes inp)"
  show ?thesis
  proof (cases "\<exists>name content. cleanFilename (upl_Name inp) = Inr name \<and> upl_Content inp = Some content \<and> 0 < upl_SizeBytes inp
      \<and> (0 < fls_maxBytes s \<longrightarrow> upl_SizeBytes inp \<le> fls_maxBytes s)")
    case False
    then have "w' = w \<and> isl r" using assms(2) unfolding upload_checks_def
      by (cases "cleanFilename (upl_Name inp)") (auto simp: op_bind_def op_try_def op_lift_def op_fail_def split: if_splits option.splits)
    then show ?thesis by auto
  next
    case True
    then obtain name content where ok: "cleanFilename (upl_Name inp) = Inr name" "upl_Content inp = Some content" "0 < upl_SizeBytes inp"
      "0 < fls_maxBytes s \<longrightarrow> upl_SizeBytes inp \<le> fls_maxBytes s" by blast
    obtain x w1 where x: "?P w = (x, w1)" by force
    then have w1: "w1 = w" by (auto simp: op_try_eq dest: ProjectExists_reads split: option.splits if_splits)
    obtain y w2 where y: "?Q w = (y, w2)" by force
    then have w2: "w2 = w" using assms(1) by (auto simp: files_wired_def split: option.splits)
    have "w' = w \<and> (\<forall>z. r = Inr z \<longrightarrow> z = (name, content) \<and> y = Inr ())"
      using assms(2) ok x[unfolded w1] y[unfolded w2] unfolding upload_checks_def
      by (cases x; cases y) (auto simp: op_bind_def op_try_def op_lift_def op_fail_def op_return_def)
    then show ?thesis using ok y w2 by auto
  qed
qed

context object_store
begin

lemma store_upload_cases:
  assumes "fls_store s = st" "files_wired s"
    and m: "store_upload ev s fr c entry ten u inp name content (w, o1) = (r, w', o')"
  defines "key \<equiv> storage_key ev ten (fresh_id fr 0)"
  shows "(\<exists>p o2. os_Put st key content (upl_SizeBytes inp) (upload_type inp) o1 = (p, o2) \<and> isl r \<and> w' = w
       \<and> (if isl p then o' = o2 else (\<exists>x. os_Delete st key o2 = (x, o'))))
    \<or> (\<exists>sha f xs. os_Put st key content (upl_SizeBytes inp) (upload_type inp) o1 = (Inr sha, o') \<and> r = Inr f
        \<and> f = new_file ev (fresh_id fr 0) ten u name inp sha \<and> c = Some ten \<and> file_ID f \<notin> file_ID ` set (files (store w))
        \<and> w' = logged xs (w\<lparr>store := (store w)\<lparr>files := files (store w) @ [f]\<rparr>\<rparr>))"
proof -
  obtain p o2 where p: "os_Put st key content (upl_SizeBytes inp) (upload_type inp) o1 = (p, o2)" by force
  show ?thesis
  proof (cases p)
    case (Inl e)
    then have "isl r \<and> w' = w \<and> o' = o2" using m p assms(1) unfolding store_upload_def key_def[symmetric] Let_def
      by (auto simp: op_try_def on_store_def op_fail_def)
    then show ?thesis using p Inl by (intro disjI1 exI[of _ p] exI[of _ o2]) simp
  next
    case (Inr sha)
    let ?f = "new_file ev (fresh_id fr 0) ten u name inp sha"
    obtain q w2 where q: "files_repo_Create ev c ?f w = (q, w2)" by force
    show ?thesis
    proof (cases q)
      case (Inl e)
      obtain x o3 where x: "os_Delete st key o2 = (x, o3)" by force
      then have "isl r \<and> w' = w \<and> o' = o3" using m p Inr q Inl files_repo_Create_Inl assms(1) unfolding store_upload_def key_def[symmetric] Let_def
        by (auto simp: op_try_def on_store_def on_world_def op_fail_def op_ignore_def)
      then show ?thesis using p Inr x by (intro disjI1 exI[of _ p] exI[of _ o2]) auto
    next
      case Inrq: (Inr v)
      obtain y w3 where y: "record_then ev (fls_audit s) (fresh_id fr 1) (uploaded_entry entry ?f) ?f w2 = (y, w3)" by force
      have "recorder_ok (fls_audit s)" using assms(2) by (simp add: files_wired_def)
      from record_then_logged[OF this y] obtain xs where xs: "y = Inr ?f" "w3 = logged xs w2" by blast
      have "file_ID ?f \<notin> file_ID ` set (files (store w))" using files_repo_Create_Inr[OF q[unfolded Inrq]] by blast
      note fresh = this[unfolded new_file_simps]
      from xs have "r = Inr ?f \<and> w' = logged xs w2 \<and> o' = o2" using m p Inr q Inrq y assms(1) unfolding store_upload_def key_def[symmetric] Let_def
        by (auto simp: op_try_def on_store_def on_world_def)
      then show ?thesis using p Inr files_repo_Create_Inr[OF q[unfolded Inrq], unfolded new_file_simps] fresh
        by (intro disjI2 exI[of _ sha] exI[of _ ?f] exI[of _ xs]) simp
    qed
  qed
qed

end

section \<open>Keys\<close>

text \<open>What the printed form of a UUID is relied on for: distinct ids are distinct path elements.\<close>

definition uuid_text :: "(uuid \<Rightarrow> string) \<Rightarrow> bool" where
  "uuid_text U \<longleftrightarrow> inj U \<and> (\<forall>u. plain (U u))"

text \<open>Every row of the file table names its own object.\<close>

definition ledger :: "(uuid \<Rightarrow> string) \<Rightarrow> db \<Rightarrow> bool" where
  "ledger U d \<longleftrightarrow> (\<forall>f\<in>set (files d). file_StorageKey f = U (file_TenantID f) @ ''/'' @ U (file_ID f))"

lemma storage_key_Join: "storage_key ev t i = strings_Join [uuid_string ev t, uuid_string ev i] CHR ''/''"
  by (simp add: storage_key_def)

lemma storage_key_inj:
  assumes "uuid_text (uuid_string ev)" "storage_key ev t i = storage_key ev t' j"
  shows "i = j"
proof -
  have "[uuid_string ev t, uuid_string ev i] = [uuid_string ev t', uuid_string ev j]"
    using assms rooted_inj[of "[uuid_string ev t, uuid_string ev i]" "[uuid_string ev t', uuid_string ev j]"]
    unfolding storage_key_Join uuid_text_def by simp
  then show ?thesis using assms(1) by (simp add: uuid_text_def inj_def)
qed

lemma ledger_key: "ledger (uuid_string ev) d \<Longrightarrow> f \<in> set (files d) \<Longrightarrow> file_StorageKey f = storage_key ev (file_TenantID f) (file_ID f)"
  by (simp add: ledger_def storage_key_def)

lemma own_file_add: "own_file sess d i = Some f \<Longrightarrow> own_file sess (d\<lparr>files := files d @ [g]\<rparr>) i = Some f"
proof -
  have "List.find P (xs @ ys) = Some x" if "List.find P xs = Some x" for P :: "file_row \<Rightarrow> bool" and xs ys x
    using that by (induction xs) (auto split: if_splits)
  then show "own_file sess d i = Some f \<Longrightarrow> ?thesis" by (simp add: own_file_def select_first_def)
qed

lemma own_file_delete: "i \<noteq> j \<Longrightarrow> own_file sess (d\<lparr>files := delete_rows c file_TenantID (\<lambda>f. file_ID f = j) (files d)\<rparr>) i = own_file sess d i"
proof -
  assume "i \<noteq> j"
  then have "List.find (\<lambda>f. rls sess file_TenantID f \<and> file_ID f = i) (filter (\<lambda>f. \<not> (rls c file_TenantID f \<and> file_ID f = j)) xs)
    = List.find (\<lambda>f. rls sess file_TenantID f \<and> file_ID f = i) xs" for xs
    by (induction xs) auto
  then show ?thesis by (simp add: own_file_def select_first_def delete_rows_def)
qed

lemma own_file_gone: "own_file (Some t) (d\<lparr>files := delete_rows (Some t) file_TenantID (\<lambda>f. file_ID f = i) (files d)\<rparr>) i = None"
  unfolding own_file_def select_first_def delete_rows_def by (auto simp: find_None)

lemma ledger_add: "ledger U d \<Longrightarrow> file_StorageKey g = U (file_TenantID g) @ ''/'' @ U (file_ID g) \<Longrightarrow> ledger U (d\<lparr>files := files d @ [g]\<rparr>)"
  by (simp add: ledger_def)

lemma ledger_delete: "ledger U d \<Longrightarrow> ledger U (d\<lparr>files := delete_rows c file_TenantID P (files d)\<rparr>)"
  by (simp add: ledger_def set_delete_rows)

lemma logged_files [simp]: "files (store (logged xs w)) = files (store w)"
  by (simp add: logged_def)

lemma own_file_cong: "files d' = files d \<Longrightarrow> own_file sess d' i = own_file sess d i"
  by (simp add: own_file_def)

lemma ledger_cong: "files d' = files d \<Longrightarrow> ledger U d' = ledger U d"
  by (simp add: ledger_def)

section \<open>One file, through the calls of others\<close>

text \<open>The file \<open>f\<close> of tenant \<open>t\<close> is recorded and its bytes are \<open>b\<close>.\<close>

definition holds :: "(uuid \<Rightarrow> string) \<Rightarrow> ('o \<Rightarrow> string \<Rightarrow> string option) \<Rightarrow> uuid \<Rightarrow> file_row \<Rightarrow> string \<Rightarrow> world \<times> 'o \<Rightarrow> bool" where
  "holds U ob t f b x \<longleftrightarrow> ledger U (store (fst x)) \<and> own_file (Some t) (store (fst x)) (file_ID f) = Some f
     \<and> ob (snd x) (file_StorageKey f) = Some b"

context object_store
begin

lemma files_Upload_cases:
  assumes s: "fls_store s = st" "files_wired s"
    and m: "files_Upload ev s fr c entry ten u inp (w, o1) = (r, w', o')"
  defines "key \<equiv> storage_key ev ten (fresh_id fr 0)"
  shows "(isl r \<and> w' = w \<and> o' = o1) \<or> (\<exists>content.
    (\<exists>p o2. os_Put st key content (upl_SizeBytes inp) (upload_type inp) o1 = (p, o2) \<and> isl r \<and> w' = w
       \<and> (if isl p then o' = o2 else (\<exists>x. os_Delete st key o2 = (x, o'))))
    \<or> (\<exists>sha f xs name. os_Put st key content (upl_SizeBytes inp) (upload_type inp) o1 = (Inr sha, o') \<and> r = Inr f
        \<and> f = new_file ev (fresh_id fr 0) ten u name inp sha \<and> c = Some ten \<and> file_ID f \<notin> file_ID ` set (files (store w))
        \<and> upl_Content inp = Some content \<and> upload_checks ev s c ten inp w = (Inr (name, content), w)
        \<and> w' = logged xs (w\<lparr>store := (store w)\<lparr>files := files (store w) @ [f]\<rparr>\<rparr>)))"
proof -
  obtain y w1 where y: "upload_checks ev s c ten inp w = (y, w1)" by force
  then have w1: "w1 = w" using upload_checks_cases[OF s(2)] by blast
  show ?thesis
  proof (cases y)
    case (Inl e)
    then have "isl r \<and> w' = w \<and> o' = o1" using m y w1 by (auto simp: files_Upload_def op_bind_def op_try_def on_world_def op_fail_def)
    then show ?thesis by blast
  next
    case (Inr z)
    obtain name content where z: "z = (name, content)" by force
    have k: "store_upload ev s fr c entry ten u inp name content (w, o1) = (r, w', o')"
      using m y w1 Inr z by (simp add: files_Upload_def op_bind_def op_try_def on_world_def)
    have ct: "upl_Content inp = Some content" "upload_checks ev s c ten inp w = (Inr (name, content), w)"
      using upload_checks_cases[OF s(2) y] y w1 Inr z by blast+
    from store_upload_cases[OF s k] show ?thesis unfolding key_def[symmetric] using ct by blast
  qed
qed

lemma files_Delete_cases:
  assumes s: "fls_store s = st" "files_wired s"
    and m: "files_Delete ev s fr c entry i (w, o1) = (r, w', o')"
  shows "(isl r \<and> w' = w \<and> o' = o1) \<or> (\<exists>f t p. c = Some t \<and> own_file (Some t) (store w) i = Some f
    \<and> os_Delete st (file_StorageKey f) o1 = (p, o')
    \<and> ((isl r \<and> w' = w) \<or> (p = Inr () \<and> r = Inr () \<and> (\<exists>xs. w' = logged xs (w\<lparr>store := (store w)
         \<lparr>files := delete_rows (Some t) file_TenantID (\<lambda>f. file_ID f = i) (files (store w))\<rparr>\<rparr>)))))"
proof -
  obtain y w1 where y: "files_Get ev c i w = (y, w1)" by force
  then have w1: "w1 = w" using files_Get_Inr by blast
  show ?thesis
  proof (cases y)
    case (Inl e)
    then have "isl r \<and> w' = w \<and> o' = o1" using m y w1 by (auto simp: files_Delete_def op_bind_def op_try_def on_world_def op_fail_def)
    then show ?thesis by blast
  next
    case (Inr f)
    then obtain t where f: "c = Some t" "own_file (Some t) (store w) i = Some f" using files_Get_Inr[OF y] by blast
    obtain p o2 where p: "os_Delete st (file_StorageKey f) o1 = (p, o2)" by force
    obtain q w2 where q: "files_repo_Delete ev c i w = (q, w2)" by force
    let ?e = "entry\<lparr>en_Action := ActionFileDeleted, en_TargetType := TargetFile, en_TargetID := Some i,
                en_Metadata := [(''name'', JStr (file_OriginalName f)), (''size_bytes'', JInt (file_SizeBytes f))]\<rparr>"
    obtain v w3 where v: "record_then ev (fls_audit s) (fresh_id fr 1) ?e () w2 = (v, w3)" by force
    have "recorder_ok (fls_audit s)" using s(2) by (simp add: files_wired_def)
    from record_then_logged[OF this v] obtain xs where xs: "v = Inr ()" "w3 = logged xs w2" by blast
    have "o' = o2 \<and> (isl r \<and> w' = w \<or> p = Inr () \<and> q = Inr () \<and> r = Inr () \<and> w' = w3)"
      using m y w1 Inr p q v xs s(1) files_repo_Delete_cases[OF q]
      by (cases p; cases q) (auto simp: files_Delete_def op_bind_def op_try_def on_world_def on_store_def op_fail_def)
    then show ?thesis using f p files_repo_Delete_cases[OF q] xs by auto
  qed
qed

lemma files_Upload_holds:
  assumes s: "fls_store s = st" "files_wired s" "uuid_text (uuid_string ev)" "\<And>t i. valid (storage_key ev t i)"
    and fresh: "fresh_id fr 0 \<noteq> file_ID f"
    and m: "files_Upload ev s fr c entry ten u inp x = (r, x')" and h: "holds (uuid_string ev) obj t f b x"
  shows "holds (uuid_string ev) obj t f b x'"
proof -
  obtain w o1 w' o' where x: "x = (w, o1)" "x' = (w', o')" by (cases x; cases x') auto
  let ?k = "file_StorageKey f" let ?j = "storage_key ev ten (fresh_id fr 0)"
  have own: "own_file (Some t) (store w) (file_ID f) = Some f" "ledger (uuid_string ev) (store w)" "obj o1 ?k = Some b"
    using h x by (simp_all add: holds_def)
  then have k: "?k = storage_key ev (file_TenantID f) (file_ID f)" using ledger_key own_fileD by blast
  then have kj: "?k \<noteq> ?j" "valid ?k" using storage_key_inj[OF s(3)] fresh s(4) by metis+
  have put: "obj o2 ?k = Some b" if "os_Put st ?j content (upl_SizeBytes inp) (upload_type inp) o1 = (p, o2)" for content p o2
    using put_keeps[OF kj(2) s(4) that own(3)] kj(1) by blast
  have del: "obj o3 ?k = Some b" if "os_Delete st ?j o2 = (y, o3)" "obj o2 ?k = Some b" for y o2 o3
    using delete_keeps[OF kj(2) s(4) that] kj(1) by blast
  show ?thesis
    using files_Upload_cases[OF s(1,2) m[unfolded x]]
  proof (elim disjE exE conjE)
    assume "isl r" "w' = w" "o' = o1" then show ?thesis using h x by simp
  next
    fix content p o2 assume a: "os_Put st ?j content (upl_SizeBytes inp) (upload_type inp) o1 = (p, o2)" "isl r" "w' = w"
      "if isl p then o' = o2 else \<exists>x. os_Delete st ?j o2 = (x, o')"
    then have "obj o' ?k = Some b" using put[OF a(1)] del by (cases "isl p") auto
    then show ?thesis using h x a by (simp add: holds_def)
  next
    fix content sha g xs name
    assume a: "os_Put st ?j content (upl_SizeBytes inp) (upload_type inp) o1 = (Inr sha, o')" "g = new_file ev (fresh_id fr 0) ten u name inp sha"
      "w' = logged xs (w\<lparr>store := (store w)\<lparr>files := files (store w) @ [g]\<rparr>\<rparr>)"
    let ?d = "(store w)\<lparr>files := files (store w) @ [g]\<rparr>"
    have e: "files (store w') = files ?d" using a(3) by simp
    have "ledger (uuid_string ev) ?d" by (rule ledger_add[OF own(2)]) (simp add: a(2) storage_key_def)
    then have "ledger (uuid_string ev) (store w')" using ledger_cong[OF e] by blast
    moreover have "own_file (Some t) (store w') (file_ID f) = Some f" using own_file_add[OF own(1)] own_file_cong[OF e] by metis
    ultimately show ?thesis using put[OF a(1)] x by (simp add: holds_def)
  qed
qed

lemma files_Delete_holds:
  assumes s: "fls_store s = st" "files_wired s" "uuid_text (uuid_string ev)" "\<And>t i. valid (storage_key ev t i)"
    and other: "i \<noteq> file_ID f"
    and m: "files_Delete ev s fr c entry i x = (r, x')" and h: "holds (uuid_string ev) obj t f b x"
  shows "holds (uuid_string ev) obj t f b x'"
proof -
  obtain w o1 w' o' where x: "x = (w, o1)" "x' = (w', o')" by (cases x; cases x') auto
  let ?k = "file_StorageKey f"
  have own: "own_file (Some t) (store w) (file_ID f) = Some f" "ledger (uuid_string ev) (store w)" "obj o1 ?k = Some b"
    using h x by (simp_all add: holds_def)
  have k: "?k = storage_key ev (file_TenantID f) (file_ID f)" using ledger_key own own_fileD by blast
  let ?d = "\<lambda>t'. (store w)\<lparr>files := delete_rows (Some t') file_TenantID (\<lambda>f. file_ID f = i) (files (store w))\<rparr>"
  from files_Delete_cases[OF s(1,2) m[unfolded x]] consider "w' = w" "o' = o1"
    | g t' p where "own_file (Some t') (store w) i = Some g" "os_Delete st (file_StorageKey g) o1 = (p, o')"
      "files (store w') = files (store w) \<or> files (store w') = files (?d t')" by fastforce
  then show ?thesis
  proof cases
    case 1 then show ?thesis using h x by simp
  next
    case (2 g t' p)
    note g = 2(1) and d = 2(2)
    have gk: "file_StorageKey g = storage_key ev (file_TenantID g) i" using ledger_key own(2) own_fileD[OF g] by blast
    then have "?k \<noteq> file_StorageKey g" "valid ?k" "valid (file_StorageKey g)" using storage_key_inj[OF s(3)] other k s(4) by metis+
    then have ob: "obj o' ?k = Some b" using delete_keeps[OF _ _ d own(3)] by blast
    from 2(3) have "own_file (Some t) (store w') (file_ID f) = Some f \<and> ledger (uuid_string ev) (store w')"
    proof
      assume e: "files (store w') = files (store w)"
      show ?thesis unfolding own_file_cong[OF e] ledger_cong[OF e] using own by blast
    next
      assume e: "files (store w') = files (?d t')"
      show ?thesis unfolding own_file_cong[OF e] ledger_cong[OF e] own_file_delete[OF other[symmetric]] using own ledger_delete by blast
    qed
    then show ?thesis using ob x by (simp add: holds_def)
  qed
qed

lemma files_Upload_establishes:
  assumes s: "fls_store s = st" "files_wired s" "\<And>t i. valid (storage_key ev t i)" "ledger (uuid_string ev) (store w)"
    and m: "files_Upload ev s fr (Some t) entry ten u inp (w, o1) = (Inr f, x')"
  shows "\<exists>content. upl_Content inp = Some content \<and> holds (uuid_string ev) obj t f (rd_bytes content) x' \<and> ten = t
    \<and> file_SHA256 f = digest (rd_bytes content) \<and> file_SizeBytes f = int (length (rd_bytes content))"
proof -
  obtain w' o' where x: "x' = (w', o')" by force
  let ?j = "storage_key ev ten (fresh_id fr 0)"
  from files_Upload_cases[OF s(1,2) m[unfolded x]] obtain content sha xs name where
    a: "os_Put st ?j content (upl_SizeBytes inp) (upload_type inp) o1 = (Inr sha, o')" "f = new_file ev (fresh_id fr 0) ten u name inp sha"
      "t = ten" "file_ID f \<notin> file_ID ` set (files (store w))" "upl_Content inp = Some content"
      "upload_checks ev s (Some t) ten inp w = (Inr (name, content), w)"
      "w' = logged xs (w\<lparr>store := (store w)\<lparr>files := files (store w) @ [f]\<rparr>\<rparr>)" by auto
  have n: "0 \<le> upl_SizeBytes inp" using upload_checks_cases[OF s(2) a(6)] by auto
  have p: "obj o' ?j = Some (rd_bytes content)" "sha = digest (rd_bytes content)" "int (length (rd_bytes content)) = upl_SizeBytes inp"
    using put_stores[OF s(3) a(1)] n by auto
  have fi: "file_ID f = fresh_id fr 0" "file_TenantID f = t" "file_StorageKey f = ?j" using a(2,3) by simp_all
  have "own_file (Some t) ((store w)\<lparr>files := files (store w) @ [f]\<rparr>) (file_ID f) = Some f"
  proof -
    have find: "List.find P (gs @ [f]) = Some f" if "\<forall>g\<in>set gs. \<not> P g" "P f" for P gs using that by (induction gs) auto
    have "\<forall>g\<in>set (files (store w)). \<not> (rls (Some t) file_TenantID g \<and> file_ID g = file_ID f)" using a(4) by (metis image_eqI)
    from find[OF this] show ?thesis using fi(2) by (simp add: own_file_def select_first_def rls_def)
  qed
  moreover have "ledger (uuid_string ev) ((store w)\<lparr>files := files (store w) @ [f]\<rparr>)"
    by (rule ledger_add[OF s(4)]) (simp add: fi storage_key_def a(3))
  moreover have e: "files (store w') = files ((store w)\<lparr>files := files (store w) @ [f]\<rparr>)" using a(7) by simp
  ultimately have "holds (uuid_string ev) obj t f (rd_bytes content) x'"
    unfolding holds_def x fst_conv snd_conv own_file_cong[OF e] ledger_cong[OF e] using p(1) fi(3) by simp
  then show ?thesis using a p by auto
qed

end

end
