(* ===== verification/Files_Props.thy ===== *)
theory Files_Props
  imports Files_Facts Billing_Props
begin

text \<open>
  Properties of internal/files over \<open>LocalStore\<close>, as \<open>internal/routes\<close> wires it: where files may
  lie on disk, that an uploaded file survives every history of other uploads and deletions,
  the storage limit of the plan, interrupted deletions, and the names and headers of files.
\<close>

section \<open>Wiring\<close>

definition storage_driver :: "env \<Rightarrow> string \<Rightarrow> string" where
  "storage_driver ev configured = (let d = ToLower (unicode_lower ev) (TrimSpace configured) in if d = '''' then ''local'' else d)"

definition storage_root :: "string \<Rightarrow> string" where
  "storage_root configured = (if configured = '''' then ''./data/uploads'' else configured)"

definition platform_files :: "env \<Rightarrow> host \<Rightarrow> string \<Rightarrow> int \<Rightarrow> disk files_Service" where
  "platform_files ev h configured mx = \<lparr>fls_store = NewLocalStore ev h (storage_root configured),
     fls_audit = Some audit_Record, fls_quotas = Some (\<lambda>ev c _ n. CheckStorageQuota ev c n), fls_maxBytes = mx\<rparr>"

lemma CheckStorageQuota_reads: "CheckStorageQuota ev c n w = (r, w') \<Longrightarrow> w' = w"
  unfolding CheckStorageQuota_def op_bind_eq
  by (auto simp: op_try_eq op_bind_eq split: option.splits if_splits dest!: activePlan_reads CountUsage_reads)

lemma platform_files_wired [simp]:
  "files_wired (platform_files ev h root mx)" "fls_store (platform_files ev h root mx) = NewLocalStore ev h (storage_root root)"
  using auditor.recorder_axioms by (auto simp: files_wired_def platform_files_def recorder_ok_def dest: CheckStorageQuota_reads)

lemma Abs_cwd: "os_cwd h' = os_cwd h \<Longrightarrow> Abs h' p = Abs h p"
  unfolding Abs_def by (rule arg_cong[of _ _ "\<lambda>cw. if IsAbs p then Inr (Clean p) else (case cw of None \<Rightarrow> Inl (Plain ''getwd'')
    | Some c \<Rightarrow> Inr (Abs_path (CHR ''/'' # c) p))"])

lemma LocalStore_path_cwd:
  assumes "os_cwd h' = os_cwd h"
  shows "LocalStore_path h' root k = LocalStore_path h root k"
  by (simp only: LocalStore_path_def Abs_cwd[OF assms])

lemma local_object_cwd:
  assumes "os_cwd h' = os_cwd h"
  shows "local_object h' root = local_object h root"
  by (intro ext) (simp only: local_object_def LocalStore_path_cwd[OF assms])

text \<open>Where one key has a path, every key of the service has one.\<close>

lemma storage_keys_valid:
  assumes "LocalStore_path h root k = Inr p" "os_cwd h' = os_cwd h" "uuid_text (uuid_string ev)"
  shows "local_key h' root (storage_key ev t i)"
proof -
  obtain rs where rs: "list_all plain rs" "rs \<noteq> []" "Abs h root = Inr (CHR ''/'' # strings_Join rs CHR ''/'')"
    using LocalStore_path_inside[OF assms(1)] by blast
  have root: "root \<noteq> ''''" using assms(1) by (auto simp: LocalStore_path_def)
  have ns: "list_all plain [uuid_string ev t, uuid_string ev i]" using assms(3) by (simp add: uuid_text_def)
  have a: "Abs h' root = Inr (CHR ''/'' # strings_Join rs CHR ''/'')" using rs(3) Abs_cwd[OF assms(2)] by simp
  have "CHR ''/'' # strings_Join rs CHR ''/'' \<noteq> ''/''" using Join_plain_head[OF rs(1,2)] by simp
  from plain_key_path[OF ns _ root a this] Clean_Join_plain[OF ns] show ?thesis
    unfolding local_key_def storage_key_Join by simp
qed

section \<open>An uploaded file survives\<close>

text \<open>The calls and outside events between an upload and a download of the file \<open>i\<close>.\<close>

inductive file_step :: "string \<Rightarrow> string option \<Rightarrow> (uuid \<Rightarrow> string) \<Rightarrow> uuid \<Rightarrow> world \<times> disk \<Rightarrow> world \<times> disk \<Rightarrow> bool"
  for root cwd U i where
  upload: "os_cwd h = cwd \<Longrightarrow> uuid_string ev = U \<Longrightarrow> fresh_id fr 0 \<noteq> i \<Longrightarrow>
    files_Upload ev (platform_files ev h root mx) fr c e ten u inp x = (r1, x') \<Longrightarrow> file_step root cwd U i x x'"
| delete: "os_cwd h = cwd \<Longrightarrow> uuid_string ev = U \<Longrightarrow> j \<noteq> i \<Longrightarrow>
    files_Delete ev (platform_files ev h root mx) fr c e j x = (r2, x') \<Longrightarrow> file_step root cwd U i x x'"
| other: "files (store w') = files (store w) \<Longrightarrow> file_step root cwd U i (w, s) (w', s)"

lemma file_step_holds:
  assumes "file_step root (os_cwd h) U (file_ID f) x x'" "uuid_text U" "LocalStore_path h (storage_root root) k = Inr p"
    and "holds U (local_object h (storage_root root)) t f b x"
  shows "holds U (local_object h (storage_root root)) t f b x'"
  using assms(1)
proof cases
  case (upload h' ev fr mx c e ten u inp r1)
  note ob = local_object_cwd[OF upload(1), symmetric]
  have v: "local_key h' (storage_root root) (storage_key ev t i)" for t i
    using storage_keys_valid[OF assms(3) upload(1)] upload(2) assms(2) by simp
  show ?thesis using local_store.files_Upload_holds[OF _ _ _ v upload(3,4)] upload(2) assms(2,4) ob by simp
next
  case (delete h' ev j mx fr c e r2)
  note ob = local_object_cwd[OF delete(1), symmetric]
  have v: "local_key h' (storage_root root) (storage_key ev t i)" for t i
    using storage_keys_valid[OF assms(3) delete(1)] delete(2) assms(2) by simp
  show ?thesis using local_store.files_Delete_holds[OF _ _ _ v delete(3,4)] delete(2) assms(2,4) ob by simp
next
  case (other w' w s)
  show ?thesis using assms(4) own_file_cong[OF other(3)] ledger_cong[OF other(3)] unfolding other(1,2) holds_def fst_conv snd_conv by metis
qed

lemma file_steps_hold:
  assumes "(file_step root (os_cwd h) U (file_ID f))\<^sup>*\<^sup>* x x'" "uuid_text U" "LocalStore_path h (storage_root root) k = Inr p"
    and "holds U (local_object h (storage_root root)) t f b x"
  shows "holds U (local_object h (storage_root root)) t f b x'"
  using assms(1,4) by (induction rule: rtranclp_induct) (use file_step_holds[OF _ assms(2,3)] in blast)+

text \<open>C27: what was uploaded is what is downloaded: after a successful upload and any history of other
  uploads, deletions of other files and changes outside the file table, a download of the file
  by its tenant returns the recorded row and exactly the uploaded bytes, whose length and hash
  the row states.\<close>

theorem uploaded_file_survives:
  assumes "files_Upload ev (platform_files ev h root mx) fr (Some t) entry ten u inp (w, s) = (Inr f, x)"
    and "uuid_text (uuid_string ev)" and "ledger (uuid_string ev) (store w)"
    and "(file_step root (os_cwd h) (uuid_string ev) (file_ID f))\<^sup>*\<^sup>* x x'"
    and "os_cwd h' = os_cwd h" and "os_fault h' ''open'' = None" and "\<And>l. sql_fault ev' l = None"
  shows "\<exists>content. upl_Content inp = Some content
    \<and> files_Open ev' (platform_files ev' h' root mx') (Some t) (file_ID f) x' = (Inr (f, \<lparr>rd_bytes = rd_bytes content, rd_error = None\<rparr>), x')
    \<and> file_SHA256 f = sha256_hex ev (rd_bytes content) \<and> file_SizeBytes f = int (length (rd_bytes content))"
proof -
  have "\<exists>k p. LocalStore_path h (storage_root root) k = Inr p"
  proof -
    obtain w1 s1 where x: "x = (w1, s1)" by force
    from local_store.files_Upload_cases[OF platform_files_wired(2,1) assms(1)[unfolded x]] obtain content sha where
      "LocalStore_Put ev h (storage_root root) (storage_key ev ten (fresh_id fr 0)) content (upl_SizeBytes inp) (upload_type inp) s = (Inr sha, s1)"
      by auto
    then show ?thesis using LocalStore_Put_cases by fastforce
  qed
  then obtain k p where k: "LocalStore_path h (storage_root root) k = Inr p" by blast
  have v: "local_key h'' (storage_root root) (storage_key ev t i)" if "os_cwd h'' = os_cwd h" for h'' t i
    by (rule storage_keys_valid[OF k that assms(2)])
  obtain content where c: "upl_Content inp = Some content" "holds (uuid_string ev) (local_object h (storage_root root)) t f (rd_bytes content) x"
      "ten = t" "file_SHA256 f = sha256_hex ev (rd_bytes content)" "file_SizeBytes f = int (length (rd_bytes content))"
    using local_store.files_Upload_establishes[OF _ _ v[OF refl] assms(3,1)] by auto
  obtain w2 s2 where x': "x' = (w2, s2)" by force
  have h2: "own_file (Some t) (store w2) (file_ID f) = Some f" "ledger (uuid_string ev) (store w2)"
      "local_object h' (storage_root root) s2 (file_StorageKey f) = Some (rd_bytes content)"
    using file_steps_hold[OF assms(4,2) k c(2)] x' local_object_cwd[OF assms(5)] by (simp_all add: holds_def)
  have "file_StorageKey f = storage_key ev (file_TenantID f) (file_ID f)" using ledger_key[OF h2(2)] own_fileD[OF h2(1)] by blast
  then have "local_key h' (storage_root root) (file_StorageKey f)" using v[OF assms(5)] by simp
  from local_store.open_up[OF this h2(3) assms(6)]
  have "files_Open ev' (platform_files ev' h' root mx') (Some t) (file_ID f) x' = (Inr (f, \<lparr>rd_bytes = rd_bytes content, rd_error = None\<rparr>), x')"
    using files_Get_run[OF assms(7) h2(1)] x'
    by (simp add: files_Open_def op_bind_def op_try_def on_world_def on_store_def op_return_def)
  then show ?thesis using c by blast
qed

section \<open>Where files lie\<close>

text \<open>C28: no key makes LocalStore read, write or delete outside its root: a call changes only paths
  strictly below the cleaned absolute root, temporary files included, and reading changes
  nothing and returns the content of such a path.\<close>

theorem local_store_confined:
  assumes "Abs h root = Inr r" and "\<And>z. z \<in> set (os_random h) \<Longrightarrow> CHR ''/'' \<notin> set z"
  shows "(map_of (snd (LocalStore_Put ev h root key content n ct d)) q = map_of d q \<or> below r q)
    \<and> (map_of (snd (LocalStore_Delete h root key d)) q = map_of d q \<or> below r q)
    \<and> snd (LocalStore_Open h root key d) = d
    \<and> (case fst (LocalStore_Open h root key d) of Inl e \<Rightarrow> True | Inr c \<Rightarrow> (\<exists>p. below r p \<and> map_of d p = Some (rd_bytes c)))"
proof -
  have "map_of (snd (LocalStore_Put ev h root key content n ct d)) q = map_of d q \<or> below r q"
    using Put_below[OF _ assms(2,1)] by (metis prod.collapse)
  moreover have "map_of (snd (LocalStore_Delete h root key d)) q = map_of d q \<or> below r q"
    using Delete_below[OF _ assms(1)] by (metis prod.collapse)
  moreover have "snd (LocalStore_Open h root key d) = d"
    by (cases "LocalStore_path h root key") (auto simp: local_bad_key LocalStore_Open_eq split: option.splits)
  moreover have "case fst (LocalStore_Open h root key d) of Inl e \<Rightarrow> True | Inr c \<Rightarrow> (\<exists>p. below r p \<and> map_of d p = Some (rd_bytes c))"
  proof (cases "LocalStore_path h root key")
    case (Inr p)
    then have "below r p" using key_below assms(1) by fastforce
    then show ?thesis by (auto simp: LocalStore_Open_eq[OF Inr] split: option.splits)
  qed (simp add: local_bad_key)
  ultimately show ?thesis by blast
qed

section \<open>The storage limit\<close>

lemma CheckStorageQuota_Inr:
  assumes "CheckStorageQuota ev (Some t) n w = (Inr u, w')"
  shows "0 < n \<and> (\<exists>p. effective_plan t (store w) = Some p \<and> (case plan_MaxStorageMB p of None \<Rightarrow> True
    | Some mb \<Rightarrow> uc_StorageBytes (usage_counts (Some t) (now ev) (store w)) \<le> wrap64 (wrap64 (wrap64 (mb * 1024) * 1024) - n)))"
proof -
  have n: "0 < n" using assms by (auto simp: CheckStorageQuota_def split: if_splits)
  then obtain p w1 where p: "activePlan ev (Some t) w = (Inr p, w1)" and r: "(case plan_MaxStorageMB p of None \<Rightarrow> op_return ()
        | Some mb \<Rightarrow> op_try (CountUsage ev (Some t) (now ev))
            (\<lambda>e. op_fail (Wrap CodeInternal ''failed to count storage usage'' e))
            (\<lambda>u. if uc_StorageBytes u > wrap64 (wrap64 (wrap64 (mb * 1024) * 1024) - n)
               then op_fail (New CodeForbidden (''the '' @ plan_Name p @ '' plan allows '' @ decimal mb
                      @ '' MB of storage; delete files or upgrade before uploading more''))
               else op_return ())) w1 = (Inr u, w')"
    using assms unfolding CheckStorageQuota_def by (auto simp: op_bind_Inr)
  show ?thesis
  proof (cases "plan_MaxStorageMB p")
    case None then show ?thesis using activePlan_Inr[OF p] n by auto
  next
    case (Some mb)
    then obtain x w2 where "CountUsage ev (Some t) (now ev) w = (Inr x, w2)"
        "\<not> uc_StorageBytes x > wrap64 (wrap64 (wrap64 (mb * 1024) * 1024) - n)"
      using r activePlan_Inr[OF p] by (auto dest!: op_try_fail_Inr split: if_splits)
    then show ?thesis using activePlan_Inr[OF p] Some n CountUsage_Inr by fastforce
  qed
qed

text \<open>C29: an upload succeeds only within the limits: the size is at most the configured maximum, and the
  bytes recorded for the tenant, the new file counted, do not exceed the storage of the plan in
  force (limits below 2^43 MB, where the 64-bit product does not wrap).\<close>

theorem upload_within_plan:
  assumes "files_Upload ev (platform_files ev h root mx) fr (Some t) entry ten u inp (w, s) = (Inr f, w', s')"
    and "upl_SizeBytes inp < 2 ^ 63"
  shows "(0 < mx \<longrightarrow> file_SizeBytes f \<le> mx) \<and> (\<exists>p. effective_plan t (store w) = Some p
    \<and> (case plan_MaxStorageMB p of None \<Rightarrow> True | Some mb \<Rightarrow> 0 \<le> mb \<and> mb < 2 ^ 43
         \<longrightarrow> uc_StorageBytes (usage_counts (Some t) (now ev) (store w')) \<le> mb * 2 ^ 20))"
proof -
  from local_store.files_Upload_cases[OF platform_files_wired(2,1) assms(1)] obtain content sha xs name where
    f: "f = new_file ev (fresh_id fr 0) ten u name inp sha" "t = ten"
      "upload_checks ev (platform_files ev h root mx) (Some t) ten inp w = (Inr (name, content), w)"
      "w' = logged xs (w\<lparr>store := (store w)\<lparr>files := files (store w) @ [f]\<rparr>\<rparr>)" by auto
  have c: "0 < mx \<longrightarrow> upl_SizeBytes inp \<le> mx" "CheckStorageQuota ev (Some t) (upl_SizeBytes inp) w = (Inr (), w)"
    using upload_checks_cases[OF platform_files_wired(1) f(3)] by (auto simp: platform_files_def)
  have u: "uc_StorageBytes (usage_counts (Some t) (now ev) (store w')) = uc_StorageBytes (usage_counts (Some t) (now ev) (store w)) + upl_SizeBytes inp"
    using f by (simp add: usage_counts_def select_rows_def rls_def)
  show ?thesis using CheckStorageQuota_Inr[OF c(2)] c(1) f(1) assms(2) u
    by (auto simp: wrap64_id split: option.splits)
qed

section \<open>Interrupted deletions\<close>

text \<open>C30: a deletion that fails has changed no record, and can be repeated to completion once the disk and the
  database work: if the first attempt removed the bytes the file is still listed, and a
  download answers that its content is missing.\<close>

theorem interrupted_delete_resumes:
  assumes "files_Delete ev (platform_files ev h root mx) fr (Some t) entry i (w, s) = (Inl e, w', s')"
    and "own_file (Some t) (store w) i = Some f" and "local_key h (storage_root root) (file_StorageKey f)"
    and "os_cwd h' = os_cwd h" and "os_fault h' ''remove'' = None" and "\<And>l. sql_fault ev' l = None"
  shows "w' = w \<and> (\<exists>w'' s''. files_Delete ev' (platform_files ev' h' root mx) fr' (Some t) entry' i (w', s') = (Inr (), w'', s'')
      \<and> own_file (Some t) (store w'') i = None \<and> local_object h' (storage_root root) s'' (file_StorageKey f) = None)
    \<and> (local_object h (storage_root root) s' (file_StorageKey f) = None \<longrightarrow>
        fst (files_Open ev' (platform_files ev' h' root mx) (Some t) i (w', s')) = Inl (New CodeNotFound ''file content not found''))"
proof -
  have w: "w' = w" using local_store.files_Delete_cases[OF platform_files_wired(2,1) assms(1)] by auto
  obtain p where p: "LocalStore_path h (storage_root root) (file_StorageKey f) = Inr p" using assms(3) by (blast elim: local_keyE)
  then have p': "LocalStore_path h' (storage_root root) (file_StorageKey f) = Inr p" using LocalStore_path_cwd[OF assms(4)] by simp
  have v': "local_key h' (storage_root root) (file_StorageKey f)" using assms(3) p p' by (simp add: local_key_def)
  obtain r2 w2 s2 where d: "files_Delete ev' (platform_files ev' h' root mx) fr' (Some t) entry' i (w, s') = (r2, w2, s2)" by (metis prod.collapse)
  obtain s3 where s3: "LocalStore_Delete h' (storage_root root) (file_StorageKey f) s' = (Inr (), s3)"
    using assms(5) by (cases "map_of s' p") (simp_all add: LocalStore_Delete_eq[OF p'])
  have "s2 = s3 \<and> r2 = Inr ()"
    using d s3 files_Get_run[OF assms(6,2)] files_repo_Delete_run[OF assms(6,2)]
    by (auto simp: files_Delete_def op_bind_def op_try_def on_world_def on_store_def record_then_def)
  with local_store.files_Delete_cases[OF platform_files_wired(2,1) d] obtain xs where
    "w2 = logged xs (w\<lparr>store := (store w)\<lparr>files := delete_rows (Some t) file_TenantID (\<lambda>f. file_ID f = i) (files (store w))\<rparr>\<rparr>)" by auto
  then have e: "files (store w2) = files ((store w)\<lparr>files := delete_rows (Some t) file_TenantID (\<lambda>f. file_ID f = i) (files (store w))\<rparr>)" by simp
  have "own_file (Some t) (store w2) i = None" unfolding own_file_cong[OF e] by (rule own_file_gone)
  moreover have "local_object h' (storage_root root) s2 (file_StorageKey f) = None"
    using local_store.delete_removes[of ev' h' "storage_root root" "file_StorageKey f" s' "()" s3] s3 \<open>s2 = s3 \<and> r2 = Inr ()\<close> by simp
  moreover have "fst (files_Open ev' (platform_files ev' h' root mx) (Some t) i (w, s')) = Inl (New CodeNotFound ''file content not found'')"
    if "local_object h (storage_root root) s' (file_StorageKey f) = None"
  proof -
    have "local_object h' (storage_root root) s' (file_StorageKey f) = None" using that local_object_cwd[OF assms(4)] by simp
    from local_store.open_missing[OF v' this] show ?thesis using files_Get_run[OF assms(6,2)]
      by (simp add: files_Open_def op_bind_def op_try_def on_world_def on_store_def op_fail_def ErrObjectNotFound_def)
  qed
  ultimately show ?thesis using d w \<open>s2 = s3 \<and> r2 = Inr ()\<close> by blast
qed

section \<open>Names and headers\<close>

lemma chunks_concat: "concat (map snd (chunks s)) = s"
  by (induction s rule: chunks.induct) (auto simp del: decode_rune.simps split: prod.splits)

lemma TrimSpace_set: "set (TrimSpace s) \<subseteq> set s"
proof -
  have "set (TrimSpace s) \<subseteq> set (concat (map snd (chunks s)))"
    using trim_list_set[of "\<lambda>c. is_space (fst c)" "chunks s"] by (auto simp: TrimSpace_def)
  then show ?thesis by (simp add: chunks_concat)
qed

lemma Split_set: "x \<in> set (Split s c) \<Longrightarrow> set x \<subseteq> set s"
proof (induction s arbitrary: x)
  case (Cons a s)
  obtain y ys where y: "Split s c = y # ys" by (cases "Split s c") auto
  then have "set y \<subseteq> set s" "\<And>z. z \<in> set ys \<Longrightarrow> set z \<subseteq> set s" using Cons.IH by auto
  then show ?case using Cons.prems y by (cases "a = c") fastforce+
qed simp

lemma Base_cases: "Base p = ''.'' \<or> Base p = ''/'' \<or> (CHR ''/'' \<notin> set (Base p) \<and> Base p \<noteq> '''' \<and> set (Base p) \<subseteq> set p)"
proof -
  let ?t = "TrimRight p CHR ''/''"
  have "last (Split ?t CHR ''/'') \<in> set (Split ?t CHR ''/'')" by simp
  from Split_parts[OF this] Split_set[OF this] have "CHR ''/'' \<notin> set (last (Split ?t CHR ''/''))" "set (last (Split ?t CHR ''/'')) \<subseteq> set ?t" .
  moreover have "set ?t \<subseteq> set p" using set_dropWhileD unfolding TrimRight_def by fastforce
  ultimately show ?thesis by (auto simp: Base_def Let_def)
qed

text \<open>A file name that is accepted is a single path element (or the name \<open>/\<close>) without NUL and
  backslash, of at most 255 runes, whatever path the client sent.\<close>

theorem cleanFilename_safe:
  assumes "cleanFilename raw = Inr name"
  shows "(plain name \<or> name = ''/'') \<and> (\<forall>ch\<in>set name. byte ch \<noteq> 0 \<and> byte ch \<noteq> 92) \<and> length (chunks name) \<le> 255"
proof -
  let ?m = "map (\<lambda>ch. if byte ch = 92 then CHR ''/'' else ch) (TrimSpace (filter (\<lambda>ch. byte ch \<noteq> 0) raw))"
  have n: "name = Base ?m" "name \<noteq> ''.''" "name \<noteq> ''..''" "name \<noteq> ''''" "length (chunks name) \<le> 255"
    using assms unfolding cleanFilename_def Let_def maxFilenameRunes_def by (simp_all split: if_splits)
  have slash: "byte CHR ''/'' = 47" by (simp add: byte_def)
  have "byte ch \<noteq> 0 \<and> byte ch \<noteq> 92" if "ch \<in> set ?m" for ch
    using that TrimSpace_set[of "filter (\<lambda>ch. byte ch \<noteq> 0) raw"] slash by auto
  note m = this
  from Base_cases[of ?m] n(2) consider "name = ''/''" | "CHR ''/'' \<notin> set name" "set name \<subseteq> set ?m"
    unfolding n(1)[symmetric] by blast
  then show ?thesis
  proof cases
    case 1 then show ?thesis using slash n(5) by simp
  next
    case 2
    then have "plain name" using n(2-4) by (simp add: plain_def)
    then show ?thesis using m 2(2) n(5) by blast
  qed
qed

text \<open>C31: a download sends a file of the tenant of the request only, with its recorded type and length, and
  a Content-Disposition header of printable ASCII, so that no file name can break out of it.\<close>

theorem download_confined:
  assumes "files_h_Download ev (platform_files ev h root mx) c (w, s) = (Sent disposition len ctype content, x')"
  shows "header_safe disposition \<and> x' = (w, s) \<and> (\<exists>t f i. ctx_tenant c = Some t \<and> own_file (Some t) (store w) i = Some f
    \<and> disposition = FormatMediaType ''attachment'' ''filename'' (file_OriginalName f) \<and> len = decimal (file_SizeBytes f)
    \<and> ctype = file_ContentType f \<and> local_object h (storage_root root) s (file_StorageKey f) = Some (rd_bytes content))"
proof -
  obtain i f where o: "files_Open ev (platform_files ev h root mx) (ctx_tenant c) i (w, s) = (Inr (f, content), x')"
    and r: "disposition = FormatMediaType ''attachment'' ''filename'' (file_OriginalName f)" "len = decimal (file_SizeBytes f)" "ctype = file_ContentType f"
    using assms by (auto simp: files_h_Download_def files_respond_def split: sum.splits prod.splits)
  obtain y w1 where y: "files_Get ev (ctx_tenant c) i w = (y, w1)" by force
  obtain g where g: "y = Inr g" using o y by (cases y) (auto simp: files_Open_def op_bind_def op_try_def on_world_def)
  have w1: "w1 = w" "\<exists>t. ctx_tenant c = Some t \<and> own_file (Some t) (store w) i = Some g" using files_Get_Inr[OF y] g by auto
  obtain z s1 where z: "os_Open (NewLocalStore ev h (storage_root root)) (file_StorageKey g) s = (z, s1)" by force
  have "z = Inr content \<and> f = g \<and> x' = (w, s1)" using o y g w1(1) z
    by (cases z) (auto simp: files_Open_def op_bind_def op_try_def on_world_def on_store_def op_return_def op_fail_def)
  then have "local_object h (storage_root root) s (file_StorageKey f) = Some (rd_bytes content)" "x' = (w, s)" "f = g"
    using local_store.open_reads[OF z] by auto
  moreover have "header_safe ''attachment''" "header_safe ''filename''" by (simp_all add: header_safe_def byte_def)
  then have "header_safe disposition" unfolding r(1) by (rule FormatMediaType_safe)
  ultimately show ?thesis using w1(2) r by blast
qed

section \<open>Witnesses\<close>

text \<open>One upload on a working host, then another user's upload and its deletion.\<close>

definition demo_file_env :: env where
  "demo_file_env = demo_env\<lparr>uuid_string := (\<lambda>u. CHR ''x'' # replicate (unat u) CHR ''x''),
     parse_uuid := (\<lambda>s. if s = ''u100'' then Some 100 else None)\<rparr>"

definition demo_host :: host where
  "demo_host = \<lparr>os_fault = (\<lambda>_. None), os_cwd = Some ''srv'', os_random = [''7'']\<rparr>"

definition demo_files :: "disk files_Service" where
  "demo_files = platform_files demo_file_env demo_host '''' 100"

definition demo_upload_in :: "string \<Rightarrow> UploadInput" where
  "demo_upload_in body = \<lparr>upl_ProjectID = None, upl_Name = ''dir/a b.txt'', upl_ContentType = '''',
     upl_SizeBytes = int (length body), upl_Content = Some \<lparr>rd_bytes = body, rd_error = None\<rparr>\<rparr>"

definition demo_other_fresh :: fresh where
  "demo_other_fresh = \<lparr>fresh_id = (\<lambda>n. word_of_nat (200 + n)), fresh_bytes = None\<rparr>"

definition demo_uploaded :: "(err + file_row) \<times> world \<times> disk" where
  "demo_uploaded = files_Upload demo_file_env demo_files demo_fresh (Some 1) demo_bill_entry 1 10 (demo_upload_in ''hello'') (demo_billing_world, [])"

definition demo_second_upload :: "(err + file_row) \<times> world \<times> disk" where
  "demo_second_upload = files_Upload demo_file_env demo_files demo_other_fresh (Some 1) demo_bill_entry 1 11 (demo_upload_in ''other'') (snd demo_uploaded)"

definition demo_second_deleted :: "(err + unit) \<times> world \<times> disk" where
  "demo_second_deleted = files_Delete demo_file_env demo_files demo_fresh (Some 1) demo_bill_entry 200 (snd demo_second_upload)"

lemma demo_uuid_text: "uuid_text (uuid_string demo_file_env)"
proof -
  have "plain (CHR ''x'' # replicate n CHR ''x'')" for n by (cases n) (auto simp: plain_def)
  moreover have "inj (\<lambda>u :: uuid. CHR ''x'' # replicate (unat u) CHR ''x'')" by (auto intro!: injI unsigned_word_eqI simp: replicate_eq_replicate)
  ultimately show ?thesis by (simp add: uuid_text_def demo_file_env_def)
qed

lemma demo_uploaded_ok: "\<exists>f. demo_uploaded = (Inr f, snd demo_uploaded) \<and> file_ID f = 100"
proof -
  have "\<not> isl (fst demo_uploaded)" by code_simp
  then obtain f where f: "demo_uploaded = (Inr f, snd demo_uploaded)" using okI by blast
  have "map_sum (\<lambda>_. ()) file_ID (fst demo_uploaded) = Inr 100" by code_simp
  then show ?thesis using f by (metis fst_conv map_sum.simps(2) sum.inject(2))
qed


theorem uploaded_file_survives_witness:
  "\<exists>f. fst demo_uploaded = Inr f \<and> fst (files_Open demo_file_env demo_files (Some 1) (file_ID f) (snd demo_second_deleted))
      = Inr (f, \<lparr>rd_bytes = ''hello'', rd_error = None\<rparr>)"
proof -
  obtain f where f: "demo_uploaded = (Inr f, snd demo_uploaded)" "file_ID f = 100" using demo_uploaded_ok by blast
  have u: "files_Upload demo_file_env (platform_files demo_file_env demo_host '''' 100) demo_fresh (Some 1) demo_bill_entry 1 10
      (demo_upload_in ''hello'') (demo_billing_world, []) = (Inr f, snd demo_uploaded)"
    using f(1) by (simp add: demo_uploaded_def demo_files_def)
  have "files (store demo_billing_world) = []" by code_simp
  then have l: "ledger (uuid_string demo_file_env) (store demo_billing_world)" by (simp add: ledger_def)
  have fr: "fresh_id demo_other_fresh 0 \<noteq> file_ID f" unfolding f(2) by code_simp
  let ?R = "file_step '''' (os_cwd demo_host) (uuid_string demo_file_env) (file_ID f)"
  have "?R (snd demo_uploaded) (snd demo_second_upload)"
    by (rule file_step.upload[OF refl refl fr]) (simp add: demo_second_upload_def demo_files_def prod_eq_iff)
  moreover have "?R (snd demo_second_upload) (snd demo_second_deleted)"
    by (rule file_step.delete[where j = 200]) (auto simp: demo_second_deleted_def demo_files_def f(2) prod_eq_iff)
  ultimately have steps: "?R\<^sup>*\<^sup>* (snd demo_uploaded) (snd demo_second_deleted)" by simp
  have h: "os_fault demo_host ''open'' = None" "\<And>l. sql_fault demo_file_env l = None"
    by (simp_all add: demo_host_def demo_file_env_def)
  have "fst demo_uploaded = Inr f" using f(1) by (metis fst_conv)
  with uploaded_file_survives[OF u demo_uuid_text l steps refl h, of 100] show ?thesis
    by (auto simp: demo_files_def demo_upload_in_def intro!: exI[of _ f])
qed

theorem local_store_confined_witness:
  "below ''/srv/data/uploads'' ''/srv/data/uploads/t/f'' \<and>
    map_of (snd (LocalStore_Put demo_file_env demo_host ''./data/uploads'' ''t//f'' \<lparr>rd_bytes = ''x'', rd_error = None\<rparr> 1 '''' [])) ''/srv/data/uploads/t/f'' = Some ''x''"
proof -
  have a: "Abs demo_host ''./data/uploads'' = Inr ''/srv/data/uploads''" by code_simp
  have z: "CHR ''/'' \<notin> set z" if "z \<in> set (os_random demo_host)" for z using that by (simp add: demo_host_def)
  have m: "map_of (snd (LocalStore_Put demo_file_env demo_host ''./data/uploads'' ''t//f'' \<lparr>rd_bytes = ''x'', rd_error = None\<rparr> 1 '''' [])) ''/srv/data/uploads/t/f'' = Some ''x''"
    by code_simp
  from local_store_confined[OF a z, of demo_file_env "''t//f''" "\<lparr>rd_bytes = ''x'', rd_error = None\<rparr>" 1 "''''" "[]" "''/srv/data/uploads/t/f''"] m
  show ?thesis by simp
qed

theorem upload_within_plan_witness:
  "\<exists>f. fst demo_uploaded = Inr f \<and> file_SizeBytes f \<le> 100
    \<and> uc_StorageBytes (usage_counts (Some 1) (1000 * second) (store (fst (snd demo_uploaded)))) \<le> 5000 * 2 ^ 20"
proof -
  obtain f where f: "demo_uploaded = (Inr f, snd demo_uploaded)" using demo_uploaded_ok by blast
  then have u: "files_Upload demo_file_env (platform_files demo_file_env demo_host '''' 100) demo_fresh (Some 1) demo_bill_entry 1 10
      (demo_upload_in ''hello'') (demo_billing_world, []) = (Inr f, fst (snd demo_uploaded), snd (snd demo_uploaded))"
    by (simp add: demo_uploaded_def demo_files_def)
  have n: "upl_SizeBytes (demo_upload_in ''hello'') < 2 ^ 63" by code_simp
  have p: "map_option plan_MaxStorageMB (effective_plan 1 (store demo_billing_world)) = Some (Some 5000)" by code_simp
  have "now demo_file_env = 1000 * second" by (simp add: demo_file_env_def demo_env_def)
  moreover have "fst demo_uploaded = Inr f" using f by (metis fst_conv)
  ultimately show ?thesis using upload_within_plan[OF u n] p by auto
qed

definition demo_stuck_host :: host where
  "demo_stuck_host = demo_host\<lparr>os_fault := (\<lambda>l. if l = ''remove'' then Some ''EIO'' else None)\<rparr>"

definition demo_stuck :: "(err + unit) \<times> world \<times> disk" where
  "demo_stuck = files_Delete demo_file_env (platform_files demo_file_env demo_stuck_host '''' 100) demo_fresh (Some 1) demo_bill_entry 100 (snd demo_uploaded)"

theorem interrupted_delete_resumes_witness:
  "isl (fst demo_stuck) \<and> (\<exists>w'' s''. files_Delete demo_file_env (platform_files demo_file_env demo_host '''' 100) demo_other_fresh (Some 1)
     demo_bill_entry 100 (snd demo_stuck) = (Inr (), w'', s'') \<and> own_file (Some 1) (store w'') 100 = None)"
proof -
  have i: "isl (fst demo_stuck)" by code_simp
  then obtain e where e: "demo_stuck = (Inl e, fst (snd demo_stuck), snd (snd demo_stuck))" by (metis isl_def prod.collapse)
  have d: "files_Delete demo_file_env (platform_files demo_file_env demo_stuck_host '''' 100) demo_fresh (Some 1) demo_bill_entry 100
      (fst (snd demo_uploaded), snd (snd demo_uploaded)) = (Inl e, fst (snd demo_stuck), snd (snd demo_stuck))"
    using e by (simp add: demo_stuck_def)
  have "own_file (Some 1) (store (fst (snd demo_uploaded))) 100 \<noteq> None" by code_simp
  then obtain f where f: "own_file (Some 1) (store (fst (snd demo_uploaded))) 100 = Some f" by blast
  have "map_option file_StorageKey (own_file (Some 1) (store (fst (snd demo_uploaded))) 100) = Some (storage_key demo_file_env 1 100)" by code_simp
  then have "file_StorageKey f = storage_key demo_file_env 1 100" using f by simp
  moreover have "local_key demo_stuck_host (storage_root '''') (storage_key demo_file_env 1 100)" by code_simp
  ultimately have k: "local_key demo_stuck_host (storage_root '''') (file_StorageKey f)" by simp
  have h: "os_cwd demo_host = os_cwd demo_stuck_host" "os_fault demo_host ''remove'' = None" "\<And>l. sql_fault demo_file_env l = None"
    by (simp_all add: demo_host_def demo_stuck_host_def demo_file_env_def)
  from interrupted_delete_resumes[OF d f k h, of demo_other_fresh demo_bill_entry] i show ?thesis by auto
qed

theorem cleanFilename_safe_witness: "cleanFilename [CHR ''a'', char_of (92 :: int), CHR ''b''] = Inr ''b'' \<and> plain ''b''"
proof -
  have c: "cleanFilename [CHR ''a'', char_of (92 :: int), CHR ''b''] = Inr ''b''" by code_simp
  with cleanFilename_safe[OF c] show ?thesis by auto
qed

definition demo_download :: "download \<times> world \<times> disk" where
  "demo_download = files_h_Download demo_file_env demo_files
     \<lparr>keys = [CtxUserID \<mapsto> VUuid 10, CtxTenantID \<mapsto> VUuid 1], ctx_tenant = Some 1, GetHeader = (\<lambda>_. ''''), HeaderValues = (\<lambda>_. []),
      Query = (\<lambda>_. ''''), Param = (\<lambda>_. ''u100''), Host = '''', ClientIP = '''', UserAgent = ''''\<rparr> (snd demo_uploaded)"

theorem download_confined_witness:
  "\<exists>disposition len ctype content x'. demo_download = (Sent disposition len ctype content, x') \<and> header_safe disposition
    \<and> rd_bytes content = ''hello''"
proof -
  have "(case fst demo_download of Refused r \<Rightarrow> None | Sent d l t c \<Rightarrow> Some (rd_bytes c)) = Some ''hello''" by code_simp
  then obtain d l t c where d: "fst demo_download = Sent d l t c" "rd_bytes c = ''hello''" by (auto split: download.splits)
  then have s: "demo_download = (Sent d l t c, snd demo_download)" by (metis prod.collapse)
  then have "files_h_Download demo_file_env (platform_files demo_file_env demo_host '''' 100)
     \<lparr>keys = [CtxUserID \<mapsto> VUuid 10, CtxTenantID \<mapsto> VUuid 1], ctx_tenant = Some 1, GetHeader = (\<lambda>_. ''''), HeaderValues = (\<lambda>_. []),
      Query = (\<lambda>_. ''''), Param = (\<lambda>_. ''u100''), Host = '''', ClientIP = '''', UserAgent = ''''\<rparr> (fst (snd demo_uploaded), snd (snd demo_uploaded))
     = (Sent d l t c, snd demo_download)" by (simp add: demo_download_def demo_files_def)
  from download_confined[OF this] s d(2) show ?thesis by blast
qed

end
