(* ===== verification/Realtime.thy ===== *)
theory Realtime
  imports Audit_Trail Sample "HOL-Library.Sublist"
begin

text \<open>
  internal/realtime: the life of the broker as a step relation (publications from this or
  another instance, subscriptions, the forwarding goroutines, lost messages, reads by the
  streams), what a subscriber can receive, and the SSE handler of sse.go.
\<close>

section \<open>The broker over time\<close>

text \<open>
  A \<open>feed\<close> is the broker with what happened so far: the events published (by any instance),
  for whom each Go channel was made, and what was read from it.
\<close>

record feed =
  fd_broker :: Broker
  fd_published :: "Event list"
  fd_owner :: "nat \<Rightarrow> (uuid \<times> uuid) option"
  fd_read :: "nat \<Rightarrow> Event list"

definition new_feed :: "bool \<Rightarrow> feed" where
  "new_feed redis = \<lparr>fd_broker = new_broker redis, fd_published = [], fd_owner = (\<lambda>_. None), fd_read = (\<lambda>_. [])\<rparr>"

inductive hub_step :: "env \<Rightarrow> codec \<Rightarrow> feed \<Rightarrow> feed \<Rightarrow> bool" for ev cd where
  publish: "hub_step ev cd f (f\<lparr>fd_broker := Publish (ev\<lparr>redis_fault := rf\<rparr>) cd e (fd_broker f),
      fd_published := fd_published f @ [e]\<rparr>)"
| subscribe: "Subscribe ev t u (fd_broker f) = (s, b) \<Longrightarrow>
    hub_step ev cd f (f\<lparr>fd_broker := b, fd_owner := (fd_owner f)(s \<mapsto> (t, u))\<rparr>)"
| unsubscribe: "fd_owner f s = Some (t, u) \<Longrightarrow>
    hub_step ev cd f (f\<lparr>fd_broker := unsubscribe (channelFor ev t u) s (fd_broker f)\<rparr>)"
| forward: "hub_step ev cd f (f\<lparr>fd_broker := forwardRedis cd s (fd_broker f)\<rparr>)"
| lose: "br_wire (fd_broker f) s = raw # rest \<Longrightarrow>
    hub_step ev cd f (f\<lparr>fd_broker := (fd_broker f)\<lparr>br_wire := (br_wire (fd_broker f))(s := rest)\<rparr>\<rparr>)"
| read: "receive s (fd_broker f) = (Some e, b) \<Longrightarrow>
    hub_step ev cd f (f\<lparr>fd_broker := b, fd_read := (fd_read f)(s := fd_read f s @ [e])\<rparr>)"

inductive_cases hub_stepE: "hub_step ev cd f f'"

section \<open>What an operation does to one subscriber\<close>

lemma offer_simps [simp]:
  "br_out (offer s e b) q = (if q = s \<and> length (br_out b s) < out_buffer then br_out b s @ [e] else br_out b q)"
  "br_redis (offer s e b) = br_redis b" "br_subs (offer s e b) = br_subs b" "br_next (offer s e b) = br_next b"
  "br_pubsub (offer s e b) = br_pubsub b" "br_wire (offer s e b) = br_wire b"
  by (auto simp: offer_def)

lemma fold_offer_simps [simp]:
  "br_redis (fold (\<lambda>s. offer s e) ss b) = br_redis b" "br_subs (fold (\<lambda>s. offer s e) ss b) = br_subs b"
  "br_next (fold (\<lambda>s. offer s e) ss b) = br_next b" "br_pubsub (fold (\<lambda>s. offer s e) ss b) = br_pubsub b"
  "br_wire (fold (\<lambda>s. offer s e) ss b) = br_wire b"
  by (induction ss arbitrary: b) simp_all

lemma fold_offer_out:
  "distinct ss \<Longrightarrow> br_out (fold (\<lambda>s. offer s e) ss b) q =
     (if q \<in> set ss \<and> length (br_out b q) < out_buffer then br_out b q @ [e] else br_out b q)"
  by (induction ss arbitrary: b) auto

text \<open>The messages under way to a subscriber, in the order it will get them.\<close>

definition pending :: "codec \<Rightarrow> Broker \<Rightarrow> nat \<Rightarrow> Event list" where
  "pending cd b s = br_out b s @ List.map_filter (unmarshal cd) (br_wire b s)"

definition event_channel :: "env \<Rightarrow> Event \<Rightarrow> string" where
  "event_channel ev e = channelFor ev (mustParseUUID ev (ev_TenantID e)) (mustParseUUID ev (ev_UserID e))"

text \<open>The invariant: every registration is that of its owner, and nobody gets more than was sent.\<close>

type_synonym owners = "nat \<Rightarrow> (uuid \<times> uuid) option"

definition owned :: "env \<Rightarrow> owners \<Rightarrow> string \<Rightarrow> nat \<Rightarrow> bool" where
  "owned ev own ch s \<longleftrightarrow> (\<exists>t u. own s = Some (t, u) \<and> ch = channelFor ev t u)"

definition roster_ok :: "env \<Rightarrow> owners \<Rightarrow> string \<Rightarrow> nat list \<Rightarrow> bool" where
  "roster_ok ev own ch ss \<longleftrightarrow> ss \<noteq> [] \<and> distinct ss \<and> (\<forall>s\<in>set ss. owned ev own ch s)"

definition registered_ok :: "env \<Rightarrow> owners \<Rightarrow> Broker \<Rightarrow> bool" where
  "registered_ok ev own b \<longleftrightarrow>
     (\<forall>ch ss. br_subs b ch = Some ss \<longrightarrow> roster_ok ev own ch ss)
     \<and> (\<forall>s ch. br_pubsub b s = Some ch \<longrightarrow> br_redis b \<and> owned ev own ch s)
     \<and> (\<forall>s. own s \<noteq> None \<longrightarrow> s < br_next b)
     \<and> (\<forall>s. br_wire b s \<noteq> [] \<longrightarrow> br_redis b)"

lemma env_fault_simps [simp]:
  "channelFor (ev\<lparr>redis_fault := rf\<rparr>) = channelFor ev" "mustParseUUID (ev\<lparr>redis_fault := rf\<rparr>) = mustParseUUID ev"
  "event_channel (ev\<lparr>redis_fault := rf\<rparr>) = event_channel ev"
  by (simp_all add: channelFor_def mustParseUUID_def event_channel_def fun_eq_iff)

lemma Publish_cases:
  "Publish ev cd e b = b
   \<or> br_redis b \<and> (\<exists>raw. marshal cd e = Some raw \<and> Publish ev cd e b = redis_publish (event_channel ev e) raw b)
   \<or> \<not> br_redis b \<and> Publish ev cd e b = publishLocal (event_channel ev e) e b"
  by (auto simp: Publish_def Let_def event_channel_def split: option.splits)

text \<open>Steps that leave the registrations alone.\<close>

lemma registered_frame:
  assumes "registered_ok ev own b" "br_subs b' = br_subs b" "br_pubsub b' = br_pubsub b"
    and "br_next b' = br_next b" "br_redis b' = br_redis b"
    and "\<And>s. br_wire b' s \<noteq> [] \<Longrightarrow> br_wire b s = [] \<Longrightarrow> br_redis b"
  shows "registered_ok ev own b'"
  using assms unfolding registered_ok_def by metis

lemma registered_fresh: "registered_ok ev own b \<Longrightarrow> own (br_next b) = None"
  unfolding registered_ok_def by (metis less_irrefl)

lemma registered_publish: "registered_ok ev own b \<Longrightarrow> registered_ok ev own (Publish (ev\<lparr>redis_fault := rf\<rparr>) cd e b)"
  using Publish_cases[of "ev\<lparr>redis_fault := rf\<rparr>" cd e b]
  by (elim disjE exE conjE) (auto intro: registered_frame simp: redis_publish_def publishLocal_def)

lemma owned_subscribe: "owned ev own ch q \<Longrightarrow> own s = None \<Longrightarrow> owned ev (own(s \<mapsto> tu)) ch q"
  by (auto simp: owned_def)

lemma roster_subscribe: "roster_ok ev own ch ss \<Longrightarrow> own s = None \<Longrightarrow> roster_ok ev (own(s \<mapsto> tu)) ch ss"
  by (auto simp: roster_ok_def intro: owned_subscribe)

lemma roster_new:
  assumes "own s = None" "ss = [] \<or> roster_ok ev own (channelFor ev t u) ss"
  shows "roster_ok ev (own(s \<mapsto> (t, u))) (channelFor ev t u) (ss @ [s])"
  using assms by (auto simp: roster_ok_def owned_def)

lemma registered_subscribe:
  assumes "registered_ok ev own b" "Subscribe ev t u b = (s, b')"
  shows "registered_ok ev (own(s \<mapsto> (t, u))) b'"
proof -
  let ?ch = "channelFor ev t u" and ?own = "own(s \<mapsto> (t, u))"
  let ?ss = "case br_subs b ?ch of None \<Rightarrow> [] | Some ss \<Rightarrow> ss"
  have s: "s = br_next b" and b: "br_next b' = Suc s" "br_redis b' = br_redis b" "br_wire b' = br_wire b"
    "br_subs b' = (br_subs b)(?ch \<mapsto> ?ss @ [s])" "br_pubsub b' = (if br_redis b then (br_pubsub b)(s \<mapsto> ?ch) else br_pubsub b)"
    using assms(2) by (auto simp: Subscribe_def Let_def)
  have fresh: "own s = None" using registered_fresh[OF assms(1)] s by simp
  have old: "roster_ok ev ?own ch ss" if "br_subs b ch = Some ss" for ch ss
    using that assms(1) fresh roster_subscribe unfolding registered_ok_def by blast
  have "?ss = [] \<or> roster_ok ev own ?ch ?ss"
    using assms(1) by (auto simp: registered_ok_def split: option.splits)
  from roster_new[OF fresh this] have new: "roster_ok ev ?own ?ch (?ss @ [s])" .
  have "br_pubsub b' q = Some ch \<Longrightarrow> br_redis b \<and> owned ev ?own ch q" for q ch
    using assms(1) owned_subscribe[of ev own ch q s "(t, u)"] fresh b(5)
    by (auto simp: registered_ok_def owned_def split: if_splits)
  moreover have "?own q \<noteq> None \<Longrightarrow> q < Suc s" for q
    using assms(1) s by (auto simp: registered_ok_def less_Suc_eq split: if_splits)
  moreover have "br_wire b q \<noteq> [] \<Longrightarrow> br_redis b" for q using assms(1) unfolding registered_ok_def by blast
  moreover have "br_subs b' ch = Some ss \<Longrightarrow> roster_ok ev ?own ch ss" for ch ss
    using old new b(4) by (cases "ch = ?ch") simp_all
  ultimately show ?thesis unfolding registered_ok_def b(1-3) by blast
qed

lemma registered_unsubscribe:
  assumes "registered_ok ev own b"
  shows "registered_ok ev own (unsubscribe ch s b)"
proof -
  have "roster_ok ev own c ss \<Longrightarrow> removeAll s ss \<noteq> [] \<Longrightarrow> roster_ok ev own c (removeAll s ss)" for c ss
    by (simp add: roster_ok_def distinct_removeAll)
  then show ?thesis using assms unfolding registered_ok_def unsubscribe_def Let_def
    by (simp split: option.splits)
qed

lemma registered_forward: "registered_ok ev own b \<Longrightarrow> registered_ok ev own (forwardRedis cd s b)"
  by (erule registered_frame) (auto simp: forwardRedis_def Let_def split: list.splits option.splits if_splits)

lemma hub_step_registered:
  "hub_step ev cd f f' \<Longrightarrow> registered_ok ev (fd_owner f) (fd_broker f) \<Longrightarrow> registered_ok ev (fd_owner f') (fd_broker f')"
proof (induction rule: hub_step.induct)
  case (read s f e b)
  show ?case by (simp, rule registered_frame[OF read(2)])
    (use read(1) in \<open>auto simp: receive_def split: list.splits\<close>)
next
  case (lose f s raw rest)
  show ?case by (simp, rule registered_frame[OF lose(2)]) (use lose(1) in \<open>auto split: if_splits\<close>)
qed (auto intro: registered_publish registered_subscribe registered_unsubscribe registered_forward)

section \<open>Deliveries\<close>

text \<open>One subscriber: the step appends to what it will get at most the event published for it.\<close>

definition one_ok :: "env \<Rightarrow> codec \<Rightarrow> Event list \<Rightarrow> (uuid \<times> uuid) option \<Rightarrow> Event list \<Rightarrow> Broker \<Rightarrow> nat \<Rightarrow> bool" where
  "one_ok ev cd pub own rd b s \<longleftrightarrow> length (br_out b s) \<le> out_buffer
     \<and> (case own of
          None \<Rightarrow> rd = [] \<and> br_out b s = [] \<and> br_wire b s = []
        | Some (t, u) \<Rightarrow> subseq (rd @ pending cd b s) (filter (\<lambda>e. event_channel ev e = channelFor ev t u) pub))"

definition codec_ok :: "codec \<Rightarrow> bool" where
  "codec_ok cd \<longleftrightarrow> (\<forall>e raw. marshal cd e = Some raw \<longrightarrow> unmarshal cd raw = Some e)"

lemma one_ok_shrink:
  assumes "one_ok ev cd pub own rd b s" "subseq (rd' @ pending cd b' s) (rd @ pending cd b s)"
    and "length (br_out b' s) \<le> out_buffer" "own = None \<Longrightarrow> rd' = [] \<and> br_out b' s = [] \<and> br_wire b' s = []"
  shows "one_ok ev cd pub own rd' b' s"
  using assms by (auto simp: one_ok_def split: option.splits intro: subseq_order.order_trans)

lemma one_ok_later: "one_ok ev cd pub own rd b s \<Longrightarrow> one_ok ev cd (pub @ [e]) own rd b s"
  by (auto simp: one_ok_def split: option.splits)

lemma one_ok_frame:
  "br_out b' s = br_out b s \<Longrightarrow> br_wire b' s = br_wire b s \<Longrightarrow> one_ok ev cd pub own rd b s \<Longrightarrow> one_ok ev cd pub own rd b' s"
  by (auto simp: one_ok_def pending_def split: option.splits)

lemma one_ok_sent:
  assumes "one_ok ev cd pub (Some (t, u)) rd b s" "event_channel ev e = channelFor ev t u"
    and "pending cd b' s = pending cd b s @ [e]" "length (br_out b' s) \<le> out_buffer"
  shows "one_ok ev cd (pub @ [e]) (Some (t, u)) rd b' s"
  using assms by (simp add: one_ok_def flip: append_assoc)

lemma one_ok_publish:
  assumes "one_ok ev cd pub (own s) rd b s" "registered_ok ev own b" "codec_ok cd"
  shows "one_ok ev cd (pub @ [e]) (own s) rd (Publish (ev\<lparr>redis_fault := rf\<rparr>) cd e b) s"
  using Publish_cases[of "ev\<lparr>redis_fault := rf\<rparr>" cd e b]
proof (elim disjE exE conjE)
  fix raw assume m: "marshal cd e = Some raw"
    and P: "Publish (ev\<lparr>redis_fault := rf\<rparr>) cd e b = redis_publish (event_channel (ev\<lparr>redis_fault := rf\<rparr>) e) raw b"
  show ?thesis
  proof (cases "br_pubsub b s = Some (event_channel ev e)")
    case True
    then obtain t u where "own s = Some (t, u)" "event_channel ev e = channelFor ev t u"
      using assms(2) unfolding registered_ok_def owned_def by metis
    moreover have "pending cd (redis_publish (event_channel ev e) raw b) s = pending cd b s @ [e]"
      using True m assms(3) by (simp add: pending_def redis_publish_def codec_ok_def map_filter_def)
    ultimately show ?thesis using one_ok_sent assms(1) P by (simp add: redis_publish_def one_ok_def)
  next
    case False
    then have "br_wire (redis_publish (event_channel ev e) raw b) s = br_wire b s" by (simp add: redis_publish_def)
    moreover have "br_out (redis_publish (event_channel ev e) raw b) s = br_out b s" by (simp add: redis_publish_def)
    ultimately show ?thesis using one_ok_frame one_ok_later[OF assms(1)] P by simp
  qed
next
  assume l: "\<not> br_redis b" and P: "Publish (ev\<lparr>redis_fault := rf\<rparr>) cd e b = publishLocal (event_channel (ev\<lparr>redis_fault := rf\<rparr>) e) e b"
  let ?ss = "case br_subs b (event_channel ev e) of None \<Rightarrow> [] | Some ss \<Rightarrow> ss"
  have "?ss = [] \<or> roster_ok ev own (event_channel ev e) ?ss"
    using assms(2) by (auto simp: registered_ok_def split: option.splits)
  then have ss: "distinct ?ss" "\<And>q. q \<in> set ?ss \<Longrightarrow> owned ev own (event_channel ev e) q"
    unfolding roster_ok_def by (cases ?ss; fastforce)+
  have w: "br_wire b s = []" using l assms(2) by (auto simp: registered_ok_def)
  show ?thesis
  proof (cases "s \<in> set ?ss \<and> length (br_out b s) < out_buffer")
    case True
    then obtain t u where "own s = Some (t, u)" "event_channel ev e = channelFor ev t u"
      using ss(2)[of s] unfolding owned_def by blast
    then show ?thesis using one_ok_sent[of ev cd pub t u rd b s e "publishLocal (event_channel ev e) e b"] assms(1) P True ss(1) w
      by (simp add: publishLocal_def fold_offer_out pending_def)
  next
    case False
    then have "br_out (publishLocal (event_channel ev e) e b) s = br_out b s"
      unfolding publishLocal_def fold_offer_out[OF ss(1)] by auto
    moreover have "br_wire (publishLocal (event_channel ev e) e b) s = br_wire b s" by (simp add: publishLocal_def)
    ultimately show ?thesis using one_ok_frame one_ok_later[OF assms(1)] P by simp
  qed
qed (use one_ok_later[OF assms(1)] in simp)

lemma one_ok_forward:
  assumes "one_ok ev cd pub own rd b s"
  shows "one_ok ev cd pub own rd (forwardRedis cd q b) s"
proof (cases "br_wire b q")
  case Nil then show ?thesis using assms by (simp add: forwardRedis_def)
next
  case (Cons raw rest)
  have "subseq (pending cd (forwardRedis cd q b) s) (pending cd b s)"
    using Cons by (auto simp: forwardRedis_def pending_def map_filter_def Let_def split: option.splits
        intro!: list_emb_append_mono)
  then have "subseq (rd @ pending cd (forwardRedis cd q b) s) (rd @ pending cd b s)" by (rule list_emb_append_mono[OF subseq_order.order_refl])
  then show ?thesis
    by (rule one_ok_shrink[OF assms]) (use assms Cons in \<open>auto simp: forwardRedis_def one_ok_def Let_def split: option.splits\<close>)
qed

lemma one_ok_lose:
  assumes "one_ok ev cd pub own rd b s" "br_wire b q = raw # rest"
  shows "one_ok ev cd pub own rd (b\<lparr>br_wire := (br_wire b)(q := rest)\<rparr>) s"
proof -
  have "subseq (pending cd (b\<lparr>br_wire := (br_wire b)(q := rest)\<rparr>) s) (pending cd b s)"
    using assms(2) by (auto simp: pending_def map_filter_def intro!: list_emb_append_mono)
  then have "subseq (rd @ pending cd (b\<lparr>br_wire := (br_wire b)(q := rest)\<rparr>) s) (rd @ pending cd b s)"
    by (rule list_emb_append_mono[OF subseq_order.order_refl])
  then show ?thesis by (rule one_ok_shrink[OF assms(1)]) (use assms in \<open>auto simp: one_ok_def\<close>)
qed

lemma one_ok_read:
  assumes "one_ok ev cd pub own (rd q) b q" "one_ok ev cd pub own' (rd s) b s" "receive q b = (Some e, b')" "s = q \<Longrightarrow> own = own'"
  shows "one_ok ev cd pub own' ((rd(q := rd q @ [e])) s) b' s"
  using assms by (auto simp: one_ok_def receive_def pending_def split: list.splits option.splits)

text \<open>The invariant of a feed, and that every step keeps it.\<close>

definition feed_ok :: "env \<Rightarrow> codec \<Rightarrow> feed \<Rightarrow> bool" where
  "feed_ok ev cd f \<longleftrightarrow> registered_ok ev (fd_owner f) (fd_broker f)
     \<and> (\<forall>s. one_ok ev cd (fd_published f) (fd_owner f s) (fd_read f s) (fd_broker f) s)"

lemma feed_ok_new: "feed_ok ev cd (new_feed redis)"
  by (simp add: feed_ok_def registered_ok_def one_ok_def new_feed_def new_broker_def)

lemma hub_step_feed_ok: "hub_step ev cd f f' \<Longrightarrow> codec_ok cd \<Longrightarrow> feed_ok ev cd f \<Longrightarrow> feed_ok ev cd f'"
proof (induction rule: hub_step.induct)
  case (publish f rf e)
  then show ?case by (auto simp: feed_ok_def intro: registered_publish one_ok_publish)
next
  case (subscribe t u f s b)
  have b: "br_out b = br_out (fd_broker f)" "br_wire b = br_wire (fd_broker f)" "s = br_next (fd_broker f)"
    using subscribe(1) by (auto simp: Subscribe_def Let_def)
  then have fresh: "fd_owner f s = None" using subscribe(3) registered_fresh by (auto simp: feed_ok_def)
  have "one_ok ev cd (fd_published f) (((fd_owner f)(s \<mapsto> (t, u))) q) (fd_read f q) b q" for q
  proof (cases "q = s")
    case True
    have "one_ok ev cd (fd_published f) None (fd_read f s) (fd_broker f) s"
      using subscribe(3) fresh unfolding feed_ok_def by metis
    then show ?thesis using True b by (simp add: one_ok_def pending_def map_filter_def)
  next
    case False
    have "one_ok ev cd (fd_published f) (fd_owner f q) (fd_read f q) (fd_broker f) q"
      using subscribe(3) by (simp add: feed_ok_def)
    then show ?thesis using False one_ok_frame[of b q "fd_broker f"] b by simp
  qed
  then show ?case using subscribe(3) registered_subscribe[OF _ subscribe(1)] unfolding feed_ok_def by simp
next
  case (unsubscribe f s t u)
  have "one_ok ev cd (fd_published f) (fd_owner f q) (fd_read f q) (unsubscribe ch s (fd_broker f)) q" for ch q
    using unsubscribe(3) one_ok_frame[of "unsubscribe ch s (fd_broker f)" q "fd_broker f"]
    by (simp add: feed_ok_def unsubscribe_def)
  then show ?case using unsubscribe registered_unsubscribe by (simp add: feed_ok_def)
next
  case (forward f s)
  then show ?case by (auto simp: feed_ok_def intro: registered_forward one_ok_forward)
next
  case (lose f s raw rest)
  then have "hub_step ev cd f (f\<lparr>fd_broker := (fd_broker f)\<lparr>br_wire := (br_wire (fd_broker f))(s := rest)\<rparr>\<rparr>)"
    by (intro hub_step.lose)
  from hub_step_registered[OF this] lose show ?case by (auto simp: feed_ok_def intro: one_ok_lose)
next
  case (read s f e b)
  then have "hub_step ev cd f (f\<lparr>fd_broker := b, fd_read := (fd_read f)(s := fd_read f s @ [e])\<rparr>)"
    by (intro hub_step.read)
  from hub_step_registered[OF this] read show ?case
    using one_ok_read[of ev cd "fd_published f" "fd_owner f s" "fd_read f" s "fd_broker f" _ _ e b]
    by (fastforce simp: feed_ok_def)
qed

section \<open>sse.go\<close>

text \<open>
  What the loop of \<open>Stream\<close> selects at each turn: the end of the request, the heartbeat, an event.
  The boolean says whether writing to the connection succeeds; a failed write ends the stream.
\<close>

datatype turn = CtxDone | Heartbeat bool | Incoming Event bool

datatype frame = FReady | FPing | FNotification string

fun stream_loop :: "env \<Rightarrow> codec \<Rightarrow> caller \<Rightarrow> turn list \<Rightarrow> frame list" where
  "stream_loop ev cd cl [] = []"
| "stream_loop ev cd cl (CtxDone # ts) = []"
| "stream_loop ev cd cl (Heartbeat ok # ts) = (if ok then FPing # stream_loop ev cd cl ts else [])"
| "stream_loop ev cd cl (Incoming e ok # ts) =
     (if ev_TenantID e \<noteq> uuid_string ev (TenantID cl) \<or> ev_UserID e \<noteq> uuid_string ev (UserID cl)
      then stream_loop ev cd cl ts
      else (case marshal cd e of None \<Rightarrow> stream_loop ev cd cl ts
        | Some raw \<Rightarrow> if ok then FNotification raw # stream_loop ev cd cl ts else []))"

text \<open>The frames written by \<open>Stream\<close> for a caller; \<open>ready\<close> says whether the first write succeeds.\<close>

definition Stream :: "env \<Rightarrow> codec \<Rightarrow> gctx \<Rightarrow> bool \<Rightarrow> turn list \<Rightarrow> 'd response + frame list" where
  "Stream ev cd c ready ts = (case RequireCaller c of Inl r \<Rightarrow> Inl r
     | Inr cl \<Rightarrow> Inr (if ready then FReady # stream_loop ev cd cl ts else []))"

definition QueryTokenAuth :: "gctx \<Rightarrow> gctx" where
  "QueryTokenAuth c = (if GetHeader c ''Authorization'' = '''' then
       (let token = Query c ''access_token'' in
        if token \<noteq> '''' then c\<lparr>GetHeader := (GetHeader c)(''Authorization'' := ''Bearer '' @ token)\<rparr> else c)
     else c)"

lemma stream_loop_mem:
  "FNotification raw \<in> set (stream_loop ev cd cl ts) \<Longrightarrow> \<exists>e ok. Incoming e ok \<in> set ts \<and> marshal cd e = Some raw
     \<and> ev_TenantID e = uuid_string ev (TenantID cl) \<and> ev_UserID e = uuid_string ev (UserID cl)"
  by (induction ev cd cl ts rule: stream_loop.induct) (auto split: if_splits option.splits)

section \<open>Properties\<close>

lemma channelFor_inj:
  assumes "\<And>x. CHR '':'' \<notin> set (uuid_string ev x)" "inj (uuid_string ev)"
  shows "channelFor ev t u = channelFor ev t' u' \<longleftrightarrow> t = t' \<and> u = u'"
proof
  assume "channelFor ev t u = channelFor ev t' u'"
  then have eq: "uuid_string ev t @ CHR '':'' # uuid_string ev u = uuid_string ev t' @ CHR '':'' # uuid_string ev u'"
    by (simp add: channelFor_def)
  from append_Cons_eq_iff[THEN iffD1, OF assms(1) assms(1) eq] show "t = t' \<and> u = u'"
    using assms(2) by (simp add: inj_eq)
qed simp

text \<open>C20: a live subscriber gets exactly what was published for it, at most once and in order: over any
  history of publications from any instance, subscriptions, disconnections, lost and dropped
  messages, what a stream has read from its subscription is a subsequence of the events
  published for its own tenant and user, and no more than 32 wait in its buffer.\<close>

theorem live_delivery_isolated:
  assumes "(hub_step ev cd)\<^sup>*\<^sup>* (new_feed redis) f" and "codec_ok cd"
    and "\<And>x. CHR '':'' \<notin> set (uuid_string ev x)" and "inj (uuid_string ev)"
    and "fd_owner f s = Some (t, u)"
  shows "subseq (fd_read f s) (filter (\<lambda>e. mustParseUUID ev (ev_TenantID e) = t \<and> mustParseUUID ev (ev_UserID e) = u)
      (fd_published f))
    \<and> length (br_out (fd_broker f) s) \<le> 32"
proof -
  from assms(1) have "feed_ok ev cd f"
    by (induction rule: rtranclp_induct) (auto intro: feed_ok_new hub_step_feed_ok assms(2))
  then have ok: "one_ok ev cd (fd_published f) (Some (t, u)) (fd_read f s) (fd_broker f) s"
    using assms(5) unfolding feed_ok_def by metis
  have "filter (\<lambda>e. event_channel ev e = channelFor ev t u) = filter (\<lambda>e. mustParseUUID ev (ev_TenantID e) = t
      \<and> mustParseUUID ev (ev_UserID e) = u)"
    unfolding event_channel_def channelFor_inj[OF assms(3,4)] ..
  moreover have "subseq (fd_read f s) (fd_read f s @ pending cd (fd_broker f) s)"
    using list_emb_append_mono[OF subseq_order.order_refl[of "fd_read f s"] list_emb_Nil] by simp
  ultimately show ?thesis using ok by (auto simp: one_ok_def out_buffer_def intro: subseq_order.order_trans)
qed

text \<open>A stream never writes another user's notification: every notification frame is the encoding of
  an event that carries the tenant and the user of the caller, even when the subscription
  hands it a mis-addressed one.\<close>

theorem Stream_never_leaks:
  assumes "Stream ev cd c ready ts = Inr frames" and "FNotification raw \<in> set frames"
  shows "\<exists>cl e. CallerFrom c = Some cl \<and> marshal cd e = Some raw
    \<and> ev_TenantID e = uuid_string ev (TenantID cl) \<and> ev_UserID e = uuid_string ev (UserID cl)"
  using assms by (auto simp: Stream_def RequireCaller_def split: option.splits if_splits dest!: stream_loop_mem)

text \<open>Reading a subscription dry.\<close>

lemma read_all:
  assumes "br_out (fd_broker f) s = es"
  shows "\<exists>f'. (hub_step ev cd)\<^sup>*\<^sup>* f f' \<and> fd_read f' s = fd_read f s @ es \<and> fd_published f' = fd_published f
    \<and> br_out (fd_broker f') s = [] \<and> br_wire (fd_broker f') = br_wire (fd_broker f)"
  using assms
proof (induction es arbitrary: f)
  case Nil then show ?case by auto
next
  case (Cons e es)
  let ?b = "(fd_broker f)\<lparr>br_out := (br_out (fd_broker f))(s := es)\<rparr>"
  let ?f = "f\<lparr>fd_broker := ?b, fd_read := (fd_read f)(s := fd_read f s @ [e])\<rparr>"
  have "receive s (fd_broker f) = (Some e, ?b)" using Cons.prems by (simp add: receive_def)
  then have st: "hub_step ev cd f ?f" by (rule hub_step.read)
  obtain f' where "(hub_step ev cd)\<^sup>*\<^sup>* ?f f'" "fd_read f' s = fd_read ?f s @ es" "fd_published f' = fd_published ?f"
    "br_out (fd_broker f') s = []" "br_wire (fd_broker f') = br_wire (fd_broker ?f)"
    using Cons.IH[of ?f] by auto
  then show ?case using st by (intro exI[of _ f']) (auto intro: converse_rtranclp_into_rtranclp)
qed

text \<open>Draining what Redis has handed over, when the stream keeps reading.\<close>

lemma drain:
  assumes "br_out (fd_broker f) s = []" "br_wire (fd_broker f) s = ws"
  shows "\<exists>f'. (hub_step ev cd)\<^sup>*\<^sup>* f f' \<and> fd_read f' s = fd_read f s @ List.map_filter (unmarshal cd) ws
    \<and> fd_published f' = fd_published f"
  using assms
proof (induction ws arbitrary: f)
  case Nil then show ?case by (auto simp: map_filter_def)
next
  case (Cons raw ws)
  let ?f = "f\<lparr>fd_broker := forwardRedis cd s (fd_broker f)\<rparr>"
  have st: "hub_step ev cd f ?f" by (rule hub_step.forward)
  have w: "br_wire (fd_broker ?f) s = ws" using Cons.prems by (simp add: forwardRedis_def Let_def split: option.splits)
  have o: "br_out (fd_broker ?f) s = (case unmarshal cd raw of None \<Rightarrow> [] | Some e \<Rightarrow> [e])"
    using Cons.prems by (simp add: forwardRedis_def Let_def out_buffer_def split: option.splits)
  obtain f1 where f1: "(hub_step ev cd)\<^sup>*\<^sup>* ?f f1" "fd_read f1 s = fd_read f s @ (case unmarshal cd raw of None \<Rightarrow> [] | Some e \<Rightarrow> [e])"
    "fd_published f1 = fd_published f" "br_out (fd_broker f1) s = []" "br_wire (fd_broker f1) s = ws"
    using read_all[OF o, of ev cd] w by auto
  obtain f' where "(hub_step ev cd)\<^sup>*\<^sup>* f1 f'" "fd_read f' s = fd_read f1 s @ List.map_filter (unmarshal cd) ws"
    "fd_published f' = fd_published f1"
    using Cons.IH[OF f1(4,5)] by blast
  then show ?case using st f1
    by (intro exI[of _ f']) (auto simp: map_filter_def split: option.splits intro: converse_rtranclp_into_rtranclp rtranclp_trans)
qed

lemma drain_all: "\<exists>f'. (hub_step ev cd)\<^sup>*\<^sup>* f f' \<and> fd_read f' s = fd_read f s @ pending cd (fd_broker f) s"
proof -
  obtain f1 where f1: "(hub_step ev cd)\<^sup>*\<^sup>* f f1" "fd_read f1 s = fd_read f s @ br_out (fd_broker f) s"
    "br_out (fd_broker f1) s = []" "br_wire (fd_broker f1) s = br_wire (fd_broker f) s"
    using read_all[OF refl, of ev cd f s] by auto
  then show ?thesis using drain[OF f1(3,4), of ev cd] by (auto simp: pending_def intro: rtranclp_trans)
qed

lemma hub_step_redis: "hub_step ev cd f f' \<Longrightarrow> br_redis (fd_broker f') = br_redis (fd_broker f)"
proof (induction rule: hub_step.induct)
  case (publish f e rf)
  then show ?case using Publish_cases[of "ev\<lparr>redis_fault := rf\<rparr>" cd e "fd_broker f"]
    by (auto simp: redis_publish_def publishLocal_def)
qed (auto simp: Subscribe_def unsubscribe_def forwardRedis_def receive_def Let_def split: list.splits option.splits)

lemma pending_publish:
  assumes "registered_ok ev own b" "codec_ok cd" "marshal cd e = Some raw" "\<not> redis_fault ev ''realtime.publish''"
    and "if br_redis b then br_pubsub b s = Some (event_channel ev e)
         else \<exists>ss. br_subs b (event_channel ev e) = Some ss \<and> s \<in> set ss"
    and "length (br_out b s) < out_buffer"
  shows "pending cd (Publish ev cd e b) s = pending cd b s @ [e]"
proof (cases "br_redis b")
  case True
  then show ?thesis using assms(2-5) unfolding Publish_def event_channel_def[symmetric]
    by (simp add: redis_publish_def pending_def codec_ok_def map_filter_def)
next
  case False
  then obtain ss where ss: "br_subs b (event_channel ev e) = Some ss" "s \<in> set ss" using assms(5) by auto
  moreover have "distinct ss" "br_wire b s = []" using assms(1) ss(1) False by (auto simp: registered_ok_def roster_ok_def)
  ultimately show ?thesis using assms(6) False unfolding Publish_def event_channel_def[symmetric]
    by (simp add: publishLocal_def fold_offer_out pending_def map_filter_def)
qed

text \<open>Live delivery works: in whatever state the broker has got to, a notification published for a
  registered subscriber with room in its buffer can still reach it: the forwarding and
  reading steps alone lead to a state in which the stream has read it, after everything that
  was waiting before it.\<close>

theorem published_can_be_read:
  assumes "(hub_step ev cd)\<^sup>*\<^sup>* (new_feed redis) f" and "codec_ok cd"
    and "marshal cd e = Some raw" and "\<not> redis_fault ev ''realtime.publish''"
    and "if redis then br_pubsub (fd_broker f) s = Some (event_channel ev e)
         else \<exists>ss. br_subs (fd_broker f) (event_channel ev e) = Some ss \<and> s \<in> set ss"
    and "length (br_out (fd_broker f) s) < 32"
  shows "\<exists>f'. (hub_step ev cd)\<^sup>*\<^sup>* (f\<lparr>fd_broker := Publish ev cd e (fd_broker f), fd_published := fd_published f @ [e]\<rparr>) f'
    \<and> fd_read f' s = fd_read f s @ pending cd (fd_broker f) s @ [e]"
proof -
  have new: "br_redis (fd_broker (new_feed redis)) = redis" by (simp add: new_feed_def new_broker_def)
  have ok: "feed_ok ev cd f \<and> br_redis (fd_broker f) = redis" using assms(1)
    by (induction rule: rtranclp_induct) (auto intro: feed_ok_new hub_step_feed_ok assms(2) dest: hub_step_redis simp: new)
  let ?f = "f\<lparr>fd_broker := Publish ev cd e (fd_broker f), fd_published := fd_published f @ [e]\<rparr>"
  have "pending cd (fd_broker ?f) s = pending cd (fd_broker f) s @ [e]"
    using pending_publish[of ev "fd_owner f" "fd_broker f" cd e raw s] assms(2-6) ok
    by (simp add: feed_ok_def out_buffer_def)
  then show ?thesis using drain_all[of ev cd ?f s] by simp
qed

section \<open>Witnesses\<close>

definition demo_live :: env where
  "demo_live = demo_env\<lparr>parse_uuid := (\<lambda>s. Some (word_of_nat (length s)))\<rparr>"

definition demo_event :: Event where
  "demo_event = notification_event demo_live \<lparr>ntf_ID = 3, ntf_TenantID = 1, ntf_UserID = 2, ntf_Type = ''t'',
     ntf_Title = ''hi'', ntf_Body = '''', ntf_Metadata = [], ntf_ReadAt = None, ntf_CreatedAt = 0\<rparr>"

definition demo_codec :: codec where
  "demo_codec = \<lparr>marshal = (\<lambda>e. if e = demo_event then Some ''{}'' else None),
     unmarshal = (\<lambda>s. if s = ''{}'' then Some demo_event else None)\<rparr>"

definition demo_subscribed :: feed where
  "demo_subscribed = (new_feed True)\<lparr>fd_broker := snd (Subscribe demo_live 1 2 (new_broker True)),
     fd_owner := [0 \<mapsto> (1, 2)]\<rparr>"

lemma demo_codec_ok: "codec_ok demo_codec"
  by (auto simp: codec_ok_def demo_codec_def)

lemma demo_uuid_strings: "CHR '':'' \<notin> set (uuid_string demo_live x)" "inj (uuid_string demo_live)"
  by (auto simp: demo_live_def demo_env_def inj_def word_unat_eq_iff)

lemma demo_subscribed_reached: "(hub_step demo_live demo_codec)\<^sup>*\<^sup>* (new_feed True) demo_subscribed"
proof (rule r_into_rtranclp)
  have "Subscribe demo_live 1 2 (fd_broker (new_feed True)) = (0, snd (Subscribe demo_live 1 2 (new_broker True)))"
    by (simp add: Subscribe_def new_feed_def new_broker_def Let_def)
  from hub_step.subscribe[OF this, of demo_codec] show "hub_step demo_live demo_codec (new_feed True) demo_subscribed"
    by (simp add: demo_subscribed_def new_feed_def)
qed

theorem published_can_be_read_witness:
  "\<exists>f. (hub_step demo_live demo_codec)\<^sup>*\<^sup>* (new_feed True) f \<and> fd_read f 0 = [demo_event] \<and> fd_owner demo_subscribed 0 = Some (1, 2)"
proof -
  let ?p = "demo_subscribed\<lparr>fd_broker := Publish demo_live demo_codec demo_event (fd_broker demo_subscribed),
     fd_published := fd_published demo_subscribed @ [demo_event]\<rparr>"
  have m: "marshal demo_codec demo_event = Some ''{}''" by (simp add: demo_codec_def)
  have rf: "\<not> redis_fault demo_live ''realtime.publish''" by (simp add: demo_live_def demo_env_def)
  have ps: "if True then br_pubsub (fd_broker demo_subscribed) 0 = Some (event_channel demo_live demo_event)
         else \<exists>ss. br_subs (fd_broker demo_subscribed) (event_channel demo_live demo_event) = Some ss \<and> 0 \<in> set ss"
    unfolding if_True by code_simp
  have room: "length (br_out (fd_broker demo_subscribed) 0) < 32" by code_simp
  from published_can_be_read[OF demo_subscribed_reached demo_codec_ok m rf ps room]
  obtain f where f: "(hub_step demo_live demo_codec)\<^sup>*\<^sup>* ?p f"
    "fd_read f 0 = fd_read demo_subscribed 0 @ pending demo_codec (fd_broker demo_subscribed) 0 @ [demo_event]" by blast
  have "hub_step demo_live demo_codec demo_subscribed ?p"
    using hub_step.publish[of demo_live demo_codec demo_subscribed demo_event "redis_fault demo_live"] by simp
  then have "(hub_step demo_live demo_codec)\<^sup>*\<^sup>* (new_feed True) f"
    using demo_subscribed_reached f(1) by (meson rtranclp.rtrancl_into_rtrancl rtranclp_trans)
  moreover have "fd_read demo_subscribed 0 @ pending demo_codec (fd_broker demo_subscribed) 0 = []"
    by (simp add: demo_subscribed_def new_feed_def new_broker_def Subscribe_def pending_def map_filter_def Let_def)
  ultimately show ?thesis using f(2) by (auto simp: demo_subscribed_def)
qed

definition demo_sent :: feed where
  "demo_sent = demo_subscribed\<lparr>fd_broker := Publish demo_live demo_codec demo_event (fd_broker demo_subscribed),
     fd_published := [demo_event]\<rparr>"

definition demo_forwarded :: feed where
  "demo_forwarded = demo_sent\<lparr>fd_broker := forwardRedis demo_codec 0 (fd_broker demo_sent)\<rparr>"

definition demo_read :: feed where
  "demo_read = demo_forwarded\<lparr>fd_broker := snd (receive 0 (fd_broker demo_forwarded)),
     fd_read := (fd_read demo_forwarded)(0 := [demo_event])\<rparr>"

lemma demo_read_reached: "(hub_step demo_live demo_codec)\<^sup>*\<^sup>* (new_feed True) demo_read"
proof -
  have "fd_published demo_subscribed = []" by code_simp
  then have "hub_step demo_live demo_codec demo_subscribed demo_sent"
    using hub_step.publish[of demo_live demo_codec demo_subscribed demo_event "redis_fault demo_live"] by (simp add: demo_sent_def)
  moreover have "hub_step demo_live demo_codec demo_sent demo_forwarded"
    unfolding demo_forwarded_def by (rule hub_step.forward)
  moreover have "fst (receive 0 (fd_broker demo_forwarded)) = Some demo_event" "fd_read demo_forwarded 0 = []" by code_simp+
  then have "hub_step demo_live demo_codec demo_forwarded demo_read"
    using hub_step.read[of 0 demo_forwarded demo_event "snd (receive 0 (fd_broker demo_forwarded))"]
    by (simp add: demo_read_def prod_eq_iff)
  ultimately show ?thesis using demo_subscribed_reached by (meson rtranclp.rtrancl_into_rtrancl)
qed

theorem live_delivery_isolated_witness:
  "fd_read demo_read 0 = [demo_event] \<and> subseq (fd_read demo_read 0)
      (filter (\<lambda>e. mustParseUUID demo_live (ev_TenantID e) = 1 \<and> mustParseUUID demo_live (ev_UserID e) = 2) (fd_published demo_read))"
proof -
  have o: "fd_owner demo_read 0 = Some (1, 2)" by code_simp
  have "fd_read demo_read 0 = [demo_event]" by (simp add: demo_read_def)
  with live_delivery_isolated[OF demo_read_reached demo_codec_ok demo_uuid_strings o] show ?thesis by blast
qed

definition demo_stream_request :: gctx where
  "demo_stream_request = \<lparr>keys = [CtxUserID \<mapsto> VUuid 2, CtxTenantID \<mapsto> VUuid 1], ctx_tenant = Some 1,
     GetHeader = (\<lambda>_. ''''), HeaderValues = (\<lambda>_. []), Query = (\<lambda>_. ''''), Param = (\<lambda>_. ''''),
     Host = '''', ClientIP = '''', UserAgent = ''''\<rparr>"

theorem Stream_never_leaks_witness:
  "\<exists>frames cl e. (Stream demo_live demo_codec demo_stream_request True
        [Incoming (demo_event\<lparr>ev_UserID := ''''\<rparr>) True, Heartbeat True, Incoming demo_event True, CtxDone] :: unit response + frame list)
      = Inr frames \<and> frames = [FReady, FPing, FNotification ''{}'']
    \<and> CallerFrom demo_stream_request = Some cl \<and> marshal demo_codec e = Some ''{}'' \<and> ev_UserID e = uuid_string demo_live (UserID cl)"
proof -
  have s: "(Stream demo_live demo_codec demo_stream_request True
      [Incoming (demo_event\<lparr>ev_UserID := ''''\<rparr>) True, Heartbeat True, Incoming demo_event True, CtxDone] :: unit response + frame list)
      = Inr [FReady, FPing, FNotification ''{}'']" by code_simp
  from Stream_never_leaks[OF s, of "''{}''"] s show ?thesis by auto
qed

end
