(* ===== verification/Notifications.thy ===== *)
theory Notifications
  imports Realtime
begin

text \<open>
  internal/notifications: the per-user notifications. Row level security confines a statement
  to the tenant; the \<open>user_id\<close> predicate of every query is what keeps users of one tenant
  apart. A stored notification is then published to the live subscribers.
\<close>

section \<open>entity.go\<close>

definition TypeTeamInvite :: string where "TypeTeamInvite = ''team_invite''"
definition TypeProjectAssigned :: string where "TypeProjectAssigned = ''project_assigned''"

section \<open>repository.go\<close>

definition insert_notification :: "session \<Rightarrow> notification \<Rightarrow> (db, err, unit) tx" where
  "insert_notification sess n =
     tx_bind (tx_query (\<lambda>d. insert_check (rls sess ntf_TenantID n) True
        (ntf_ID n \<notin> ntf_ID ` set (notifications d))
        (ntf_TenantID n \<in> tenant_ID ` set (tenants d) \<and> ntf_UserID n \<in> user_ID ` set (users d))))
       (\<lambda>chk. tx_bind (raise chk) (\<lambda>_.
     modify (\<lambda>d. d\<lparr>notifications := notifications d @ [n]\<rparr>)))"

fun insert_notifications :: "session \<Rightarrow> notification list \<Rightarrow> (db, err, unit) tx" where
  "insert_notifications sess [] = tx_return ()"
| "insert_notifications sess (n # ns) = tx_bind (insert_notification sess n) (\<lambda>_. insert_notifications sess ns)"

definition notifications_repo_Create :: "env \<Rightarrow> notification \<Rightarrow> (world, err, unit) op" where
  "notifications_repo_Create ev n = WithTenantTxID ev ''notifications.Create'' (ntf_TenantID n) (\<lambda>sess.
     stmt ev ''notifications.Create.create'' (insert_notification sess n))"

definition CreateBatch :: "env \<Rightarrow> uuid \<Rightarrow> notification list \<Rightarrow> (world, err, unit) op" where
  "CreateBatch ev tenantID rows = (if rows = [] then op_return ()
     else WithTenantTxID ev ''CreateBatch'' tenantID (\<lambda>sess.
       stmt ev ''CreateBatch.create'' (insert_notifications sess rows)))"

definition unread_of :: "uuid \<Rightarrow> notification \<Rightarrow> bool" where
  "unread_of userID n \<longleftrightarrow> ntf_UserID n = userID \<and> ntf_ReadAt n = None"

definition notifications_repo_List :: "env \<Rightarrow> ctx \<Rightarrow> uuid \<Rightarrow> bool \<Rightarrow> int \<Rightarrow> int
    \<Rightarrow> (world, err, notification list \<times> int) op" where
  "notifications_repo_List ev c userID unreadOnly lim offset = op_map_err (Wrapped ''notifications: list'')
     (WithTenantTx ev ''notifications.List'' c (\<lambda>sess. list_page ev ''notifications.List'' sess ntf_TenantID
        (\<lambda>n. ntf_UserID n = userID \<and> (unreadOnly \<longrightarrow> ntf_ReadAt n = None)) (\<lambda>n. - ntf_CreatedAt n)
        notifications lim offset))"

definition CountUnread :: "env \<Rightarrow> ctx \<Rightarrow> uuid \<Rightarrow> (world, err, int) op" where
  "CountUnread ev c userID = op_map_err (Wrapped ''notifications: count unread'')
     (WithTenantTx ev ''CountUnread'' c (\<lambda>sess. stmt ev ''CountUnread.count'' (tx_query (\<lambda>d.
        count_rows sess ntf_TenantID (unread_of userID) (notifications d)))))"

text \<open>An \<open>UPDATE ... SET read_at = now()\<close> and the number of rows it affects.\<close>

definition mark_read :: "env \<Rightarrow> session \<Rightarrow> (notification \<Rightarrow> bool) \<Rightarrow> (db, err, int) tx" where
  "mark_read ev sess P =
     tx_bind (tx_query (\<lambda>d. count_rows sess ntf_TenantID P (notifications d))) (\<lambda>affected.
     tx_bind (modify (\<lambda>d. d\<lparr>notifications := update_rows sess ntf_TenantID P
        (\<lambda>n. n\<lparr>ntf_ReadAt := Some (now ev)\<rparr>) (notifications d)\<rparr>)) (\<lambda>_. tx_return affected))"

definition notifications_repo_MarkRead :: "env \<Rightarrow> ctx \<Rightarrow> uuid \<Rightarrow> uuid \<Rightarrow> (world, err, bool) op" where
  "notifications_repo_MarkRead ev c userID notificationID = op_map_err (Wrapped ''notifications: mark read'')
     (WithTenantTx ev ''notifications.MarkRead'' c (\<lambda>sess.
        tx_bind (stmt ev ''notifications.MarkRead.update''
          (mark_read ev sess (\<lambda>n. ntf_ID n = notificationID \<and> unread_of userID n)))
          (\<lambda>affected. tx_return (affected > 0))))"

definition notifications_repo_MarkAllRead :: "env \<Rightarrow> ctx \<Rightarrow> uuid \<Rightarrow> (world, err, int) op" where
  "notifications_repo_MarkAllRead ev c userID = op_map_err (Wrapped ''notifications: mark all read'')
     (WithTenantTx ev ''notifications.MarkAllRead'' c (\<lambda>sess.
        stmt ev ''notifications.MarkAllRead.update'' (mark_read ev sess (unread_of userID))))"

definition notifications_repo_Delete :: "env \<Rightarrow> ctx \<Rightarrow> uuid \<Rightarrow> uuid \<Rightarrow> (world, err, bool) op" where
  "notifications_repo_Delete ev c userID notificationID = op_map_err (Wrapped ''notifications: delete'')
     (WithTenantTx ev ''notifications.Delete'' c (\<lambda>sess. stmt ev ''notifications.Delete.delete''
        (tx_bind (tx_query (\<lambda>d. count_rows sess ntf_TenantID
            (\<lambda>n. ntf_ID n = notificationID \<and> ntf_UserID n = userID) (notifications d))) (\<lambda>affected.
         tx_bind (modify (\<lambda>d. d\<lparr>notifications := delete_rows sess ntf_TenantID
            (\<lambda>n. ntf_ID n = notificationID \<and> ntf_UserID n = userID) (notifications d)\<rparr>)) (\<lambda>_.
         tx_return (affected > 0))))))"

section \<open>service.go\<close>

type_synonym Publisher = "env \<Rightarrow> notification \<Rightarrow> world \<Rightarrow> world"

record notifications_Service =
  nts_publisher :: "Publisher option"

definition SetPublisher :: "Publisher \<Rightarrow> notifications_Service \<Rightarrow> notifications_Service" where
  "SetPublisher p s = s\<lparr>nts_publisher := Some p\<rparr>"

definition publish :: "env \<Rightarrow> notifications_Service \<Rightarrow> notification \<Rightarrow> world \<Rightarrow> world" where
  "publish ev s n w = (case nts_publisher s of None \<Rightarrow> w | Some p \<Rightarrow> p ev n w)"

record NotifyInput =
  ni_TenantID :: uuid
  ni_UserID :: uuid
  ni_Type :: string
  ni_Title :: string
  ni_Body :: string
  ni_Metadata :: metadata

text \<open>A nil metadata map becomes the empty one; both are \<open>[]\<close> here.\<close>

definition new_notification :: "env \<Rightarrow> uuid \<Rightarrow> uuid \<Rightarrow> uuid \<Rightarrow> NotifyInput \<Rightarrow> notification" where
  "new_notification ev newID tenantID userID inp = \<lparr>ntf_ID = newID, ntf_TenantID = tenantID,
     ntf_UserID = userID, ntf_Type = ni_Type inp, ntf_Title = TrimSpace (ni_Title inp),
     ntf_Body = TrimSpace (ni_Body inp), ntf_Metadata = ni_Metadata inp, ntf_ReadAt = None,
     ntf_CreatedAt = now ev\<rparr>"

definition Notify :: "env \<Rightarrow> notifications_Service \<Rightarrow> uuid \<Rightarrow> NotifyInput \<Rightarrow> (world, err, unit) op" where
  "Notify ev s newID inp =
     (if TrimSpace (ni_Title inp) = '''' then op_fail (New CodeValidation ''notification title is required'')
      else let n = new_notification ev newID (ni_TenantID inp) (ni_UserID inp) inp in
        op_try (notifications_repo_Create ev n)
          (\<lambda>e. op_fail (Wrap CodeInternal ''failed to create notification'' e))
          (\<lambda>_ w. (Inr (), publish ev s n w)))"

definition NotifyMany :: "env \<Rightarrow> notifications_Service \<Rightarrow> fresh \<Rightarrow> uuid \<Rightarrow> uuid list \<Rightarrow> NotifyInput
    \<Rightarrow> (world, err, unit) op" where
  "NotifyMany ev s fr tenantID userIDs inp =
     (if userIDs = [] then op_return ()
      else let rows = map (\<lambda>(k, u). new_notification ev (fresh_id fr k) tenantID u inp) (enumerate 0 userIDs) in
        op_try (CreateBatch ev tenantID rows)
          (\<lambda>e. op_fail (Wrap CodeInternal ''failed to create notifications'' e))
          (\<lambda>_ w. (Inr (), fold (publish ev s) rows w)))"

definition notifications_List :: "env \<Rightarrow> ctx \<Rightarrow> uuid \<Rightarrow> bool \<Rightarrow> int \<Rightarrow> int
    \<Rightarrow> (world, err, notification list \<times> int) op" where
  "notifications_List ev c userID unreadOnly page pageSize =
     op_map_err (Wrap CodeInternal ''failed to list notifications'')
       (notifications_repo_List ev c userID unreadOnly pageSize (wrap64 (wrap64 (page - 1) * pageSize)))"

definition UnreadCount :: "env \<Rightarrow> ctx \<Rightarrow> uuid \<Rightarrow> (world, err, int) op" where
  "UnreadCount ev c userID = op_map_err (Wrap CodeInternal ''failed to count notifications'') (CountUnread ev c userID)"

definition notifications_MarkRead :: "env \<Rightarrow> ctx \<Rightarrow> uuid \<Rightarrow> uuid \<Rightarrow> (world, err, unit) op" where
  "notifications_MarkRead ev c userID notificationID = op_try (notifications_repo_MarkRead ev c userID notificationID)
     (\<lambda>e. op_fail (Wrap CodeInternal ''failed to mark notification read'' e)) (\<lambda>_. op_return ())"

definition notifications_MarkAllRead :: "env \<Rightarrow> ctx \<Rightarrow> uuid \<Rightarrow> (world, err, int) op" where
  "notifications_MarkAllRead ev c userID = op_map_err (Wrap CodeInternal ''failed to mark notifications read'')
     (notifications_repo_MarkAllRead ev c userID)"

definition notifications_Delete :: "env \<Rightarrow> ctx \<Rightarrow> uuid \<Rightarrow> uuid \<Rightarrow> (world, err, unit) op" where
  "notifications_Delete ev c userID notificationID = op_try (notifications_repo_Delete ev c userID notificationID)
     (\<lambda>e. op_fail (Wrap CodeInternal ''failed to delete notification'' e))
     (\<lambda>deleted. if \<not> deleted then op_fail (New CodeNotFound ''notification not found'') else op_return ())"

section \<open>handler.go\<close>

datatype notifications_data = DNotifications "notification list" | DUnread int | DMarked int | DNtfMessage string

definition notifications_h_List :: "env \<Rightarrow> gctx \<Rightarrow> notifications_data handler" where
  "notifications_h_List ev c = with_caller c (\<lambda>cl.
     respond_page c (notifications_List ev (ctx_tenant c) (UserID cl) (Query c ''unread_only'' = ''true'')) DNotifications)"

definition notifications_h_UnreadCount :: "env \<Rightarrow> gctx \<Rightarrow> notifications_data handler" where
  "notifications_h_UnreadCount ev c = with_caller c (\<lambda>cl.
     respond c (UnreadCount ev (ctx_tenant c) (UserID cl)) (\<lambda>n. Success c 200 (DUnread n)))"

definition notifications_h_MarkRead :: "env \<Rightarrow> gctx \<Rightarrow> notifications_data handler" where
  "notifications_h_MarkRead ev c = with_caller c (\<lambda>cl. uuid_param ev c ''notificationID'' (\<lambda>i.
     respond c (notifications_MarkRead ev (ctx_tenant c) (UserID cl) i)
       (\<lambda>_. Success c 200 (DNtfMessage ''notification marked read''))))"

definition notifications_h_MarkAllRead :: "env \<Rightarrow> gctx \<Rightarrow> notifications_data handler" where
  "notifications_h_MarkAllRead ev c = with_caller c (\<lambda>cl.
     respond c (notifications_MarkAllRead ev (ctx_tenant c) (UserID cl)) (\<lambda>n. Success c 200 (DMarked n)))"

definition notifications_h_Delete :: "env \<Rightarrow> gctx \<Rightarrow> notifications_data handler" where
  "notifications_h_Delete ev c = with_caller c (\<lambda>cl. uuid_param ev c ''notificationID'' (\<lambda>i.
     respond c (notifications_Delete ev (ctx_tenant c) (UserID cl) i)
       (\<lambda>_. Success c 200 (DNtfMessage ''notification deleted''))))"

section \<open>Wiring\<close>

text \<open>routes.Setup: the publisher is the broker's \<open>PublishNotification\<close>.\<close>

definition live_publisher :: "codec \<Rightarrow> Publisher" where
  "live_publisher cd ev n w = w\<lparr>hub := PublishNotification ev cd n (hub w)\<rparr>"

definition platform_notifications :: "codec \<Rightarrow> notifications_Service" where
  "platform_notifications cd = SetPublisher (live_publisher cd) \<lparr>nts_publisher = None\<rparr>"

end
