(* ===== verification/Notifications_Props.thy ===== *)
theory Notifications_Props
  imports Notifications Identity_Facts
begin

text \<open>
  What the notification operations do, the contract other modules rely on when they notify
  (locale \<open>notifier\<close>, interpreted on the wired service), and the properties: nothing is
  published that is not stored, and users of one tenant cannot touch each other's
  notifications.
\<close>

abbreviation ntfs_of :: "world \<Rightarrow> notification list" where "ntfs_of w \<equiv> notifications (store w)"

section \<open>Writes\<close>

lemma insert_notification_Inr:
  "insert_notification (Some t) n d = Inr (u, d') \<longleftrightarrow> d' = d\<lparr>notifications := notifications d @ [n]\<rparr>
     \<and> ntf_TenantID n = t \<and> ntf_ID n \<notin> ntf_ID ` set (notifications d)
     \<and> ntf_TenantID n \<in> tenant_ID ` set (tenants d) \<and> ntf_UserID n \<in> user_ID ` set (users d)"
  by (auto simp: insert_notification_def tx_inv insert_check_None rls_def)

lemma insert_notifications_Inr:
  "insert_notifications (Some t) ns d = Inr (u, d') \<Longrightarrow>
     d' = d\<lparr>notifications := notifications d @ ns\<rparr> \<and> ntf_TenantID ` set ns \<subseteq> {t}"
proof (induction ns arbitrary: d)
  case (Cons n ns)
  then have "insert_notifications (Some t) ns (d\<lparr>notifications := notifications d @ [n]\<rparr>) = Inr (u, d')" "ntf_TenantID n = t"
    by (auto simp: tx_inv insert_notification_Inr)
  then show ?case using Cons.IH by fastforce
qed (simp add: tx_inv)

lemma Notify_Inr:
  assumes "Notify ev s i inp w = (Inr u, w')"
  shows "\<exists>n. n = new_notification ev i (ni_TenantID inp) (ni_UserID inp) inp \<and> ntf_Title n \<noteq> ''''
    \<and> ntf_UserID n \<in> user_ID ` set (users (store w)) \<and> ntf_ID n \<notin> ntf_ID ` set (ntfs_of w)
    \<and> w' = publish ev s n (w\<lparr>store := (store w)\<lparr>notifications := ntfs_of w @ [n]\<rparr>\<rparr>)"
proof -
  let ?n = "new_notification ev i (ni_TenantID inp) (ni_UserID inp) inp"
  have t: "TrimSpace (ni_Title inp) \<noteq> ''''" using assms by (auto simp: Notify_def split: if_splits)
  then obtain w1 where m: "notifications_repo_Create ev ?n w = (Inr (), w1)" and w': "w' = publish ev s ?n w1"
    using assms by (auto simp: Notify_def Let_def op_try_eq)
  from WithTenantTxID_ok[OF m[unfolded notifications_repo_Create_def]]
  show ?thesis using t w' by (auto simp: tx_inv insert_notification_Inr new_notification_def)
qed

lemma Notify_Inl: "Notify ev s i inp w = (Inl e, w') \<Longrightarrow> w' = w"
  unfolding Notify_def notifications_repo_Create_def Let_def
  by (auto simp: op_try_eq split: if_splits dest: WithTenantTxID_rollback)

lemma mark_read_Inr:
  "mark_read ev sess P d = Inr (k, d') \<longleftrightarrow> k = count_rows sess ntf_TenantID P (notifications d)
     \<and> d' = d\<lparr>notifications := update_rows sess ntf_TenantID P (\<lambda>n. n\<lparr>ntf_ReadAt := Some (now ev)\<rparr>) (notifications d)\<rparr>"
  by (auto simp: mark_read_def tx_inv)

lemma select_updated: "(\<And>n. \<not> P (g n)) \<Longrightarrow> select_rows sess ten P (update_rows sess ten P g rows) = []"
  by (induction rows) (auto simp: select_rows_def update_rows_def)

text \<open>Everything but the notifications of one user of one tenant.\<close>

definition not_of :: "uuid \<Rightarrow> uuid \<Rightarrow> notification \<Rightarrow> bool" where
  "not_of t u n \<longleftrightarrow> \<not> (ntf_TenantID n = t \<and> ntf_UserID n = u)"

lemma not_of_update:
  assumes "\<And>n. P n \<Longrightarrow> ntf_UserID n = u" "\<And>n. ntf_TenantID (g n) = ntf_TenantID n \<and> ntf_UserID (g n) = ntf_UserID n"
  shows "filter (not_of t u) (update_rows (Some t) ntf_TenantID P g rows) = filter (not_of t u) rows"
  using assms by (induction rows) (auto simp: update_rows_def rls_def not_of_def)

lemma not_of_delete:
  assumes "\<And>n. P n \<Longrightarrow> ntf_UserID n = u"
  shows "filter (not_of t u) (delete_rows (Some t) ntf_TenantID P rows) = filter (not_of t u) rows"
  using assms by (induction rows) (auto simp: delete_rows_def rls_def not_of_def)

section \<open>The contract of a notifier\<close>

type_synonym Notifier = "env \<Rightarrow> uuid \<Rightarrow> NotifyInput \<Rightarrow> (world, err, unit) op"

text \<open>
  What a module that notifies relies on: whether or not it succeeds, a call at most appends
  notifications of the addressee, and hands something to the live broker.
\<close>

definition told :: "notification list \<Rightarrow> Broker \<Rightarrow> world \<Rightarrow> world" where
  "told xs b w = w\<lparr>store := (store w)\<lparr>notifications := ntfs_of w @ xs\<rparr>, hub := b\<rparr>"

lemma told_simps [simp]:
  "store (told xs b w) = (store w)\<lparr>notifications := ntfs_of w @ xs\<rparr>" "hub (told xs b w) = b"
  "perm_cache (told xs b w) = perm_cache w" "tenant_cache (told xs b w) = tenant_cache w" "outbox (told xs b w) = outbox w"
  by (simp_all add: told_def)

locale notifier =
  fixes notify :: Notifier
  assumes tells: "notify ev i inp w = (r, w') \<Longrightarrow> \<exists>xs b. w' = told xs b w
    \<and> (\<forall>n\<in>set xs. ntf_TenantID n = ni_TenantID inp \<and> ntf_UserID n = ni_UserID inp)"
begin

lemma keeps_rest: "notify ev i inp w = (r, w') \<Longrightarrow> (store w')\<lparr>notifications := xs\<rparr> = (store w)\<lparr>notifications := xs\<rparr>"
  by (drule tells) auto

lemma keeps_others:
  assumes "notify ev i inp w = (r, w')"
  shows "filter (not_of (ni_TenantID inp) (ni_UserID inp)) (ntfs_of w') = filter (not_of (ni_TenantID inp) (ni_UserID inp)) (ntfs_of w)"
  using tells[OF assms] by (auto simp: not_of_def filter_empty_conv)

lemma keeps_foreign: "notify ev i inp w = (r, w') \<Longrightarrow> foreign_view (ni_TenantID inp) (store w') = foreign_view (ni_TenantID inp) (store w)"
  by (drule tells) (auto simp: foreign_view_def filter_empty_conv)

end

definition platform_notify :: "codec \<Rightarrow> Notifier" where
  "platform_notify cd ev i inp = Notify ev (platform_notifications cd) i inp"

lemma platform_publish:
  "publish ev (platform_notifications cd) n w = w\<lparr>hub := PublishNotification ev cd n (hub w)\<rparr>"
  by (simp add: publish_def platform_notifications_def SetPublisher_def live_publisher_def)

interpretation notifying: notifier "platform_notify cd" for cd
proof
  fix ev i inp w r w'
  assume m: "platform_notify cd ev i inp w = (r, w')"
  show "\<exists>xs b. w' = told xs b w \<and> (\<forall>n\<in>set xs. ntf_TenantID n = ni_TenantID inp \<and> ntf_UserID n = ni_UserID inp)"
  proof (cases r)
    case (Inl e)
    then have "w' = told [] (hub w) w" using m Notify_Inl by (auto simp: platform_notify_def told_def)
    then show ?thesis by fastforce
  next
    case (Inr u)
    let ?n = "new_notification ev i (ni_TenantID inp) (ni_UserID inp) inp"
    have "w' = told [?n] (PublishNotification ev cd ?n (hub w)) w"
      using Notify_Inr[OF m[unfolded platform_notify_def Inr]] by (auto simp: platform_publish told_def)
    then show ?thesis by (fastforce simp: new_notification_def)
  qed
qed

section \<open>Histories of one user\<close>

text \<open>The acknowledging requests of user \<open>u\<close> of tenant \<open>t\<close>.\<close>

inductive ntf_step :: "uuid \<Rightarrow> uuid \<Rightarrow> world \<Rightarrow> world \<Rightarrow> bool" for t u where
  mark: "notifications_MarkRead ev (Some t) u i w = (r1, w') \<Longrightarrow> ntf_step t u w w'"
| mark_all: "notifications_MarkAllRead ev (Some t) u w = (r2, w') \<Longrightarrow> ntf_step t u w w'"
| delete: "notifications_Delete ev (Some t) u i w = (r3, w') \<Longrightarrow> ntf_step t u w w'"
| list: "notifications_List ev (Some t) u b p k w = (r4, w') \<Longrightarrow> ntf_step t u w w'"
| count: "UnreadCount ev (Some t) u w = (r5, w') \<Longrightarrow> ntf_step t u w w'"

definition untouched :: "uuid \<Rightarrow> uuid \<Rightarrow> world \<Rightarrow> world \<Rightarrow> bool" where
  "untouched t u w w' \<longleftrightarrow> filter (not_of t u) (ntfs_of w') = filter (not_of t u) (ntfs_of w)
     \<and> w'\<lparr>store := (store w')\<lparr>notifications := []\<rparr>\<rparr> = w\<lparr>store := (store w)\<lparr>notifications := []\<rparr>\<rparr>"

lemma untouched_refl [simp]: "untouched t u w w"
  by (simp add: untouched_def)

lemma untouched_trans: "untouched t u w w1 \<Longrightarrow> untouched t u w1 w2 \<Longrightarrow> untouched t u w w2"
  by (simp add: untouched_def)

lemma untouched_write:
  "filter (not_of t u) xs = filter (not_of t u) (ntfs_of w) \<Longrightarrow> untouched t u w (w\<lparr>store := (store w)\<lparr>notifications := xs\<rparr>\<rparr>)"
  by (simp add: untouched_def)

lemma ntf_step_untouched: "ntf_step t u w w' \<Longrightarrow> untouched t u w w'"
proof (induction rule: ntf_step.induct)
  case (mark ev i w r w')
  then show ?case unfolding notifications_MarkRead_def notifications_repo_MarkRead_def
    by (cases r) (auto simp: op_try_eq op_map_err_eq tx_inv mark_read_Inr unread_of_def
        intro!: untouched_write not_of_update dest!: WithTenantTx_rollback WithTenantTx_ok)
next
  case (mark_all ev w r w')
  then show ?case unfolding notifications_MarkAllRead_def notifications_repo_MarkAllRead_def
    by (cases r) (auto simp: op_map_err_eq tx_inv mark_read_Inr unread_of_def
        intro!: untouched_write not_of_update dest!: WithTenantTx_rollback WithTenantTx_ok)
next
  case (delete ev i w r w')
  then show ?case unfolding notifications_Delete_def notifications_repo_Delete_def
    by (cases r) (auto simp: op_try_eq op_map_err_eq tx_inv split: if_splits
        intro!: untouched_write not_of_delete dest!: WithTenantTx_rollback WithTenantTx_ok)
next
  case (list ev b p k w r w')
  then show ?case unfolding notifications_List_def notifications_repo_List_def
    by (cases r) (auto simp: op_map_err_eq dest!: WithTenantTx_rollback WithTenantTx_ok list_page_Inr)
next
  case (count ev w r w')
  then show ?case unfolding UnreadCount_def CountUnread_def
    by (cases r) (auto simp: op_map_err_eq tx_inv dest!: WithTenantTx_rollback WithTenantTx_ok)
qed

section \<open>Properties\<close>

text \<open>C21: users of one tenant cannot touch each other's notifications: whatever sequence of reads,
  acknowledgements and deletions a user sends, with whatever ids and failures, the
  notifications of every other user, and everything else, stay exactly as they were.\<close>

theorem notifications_private:
  assumes "(ntf_step t u)\<^sup>*\<^sup>* w w'"
  shows "filter (not_of t u) (ntfs_of w') = filter (not_of t u) (ntfs_of w)
    \<and> w'\<lparr>store := (store w')\<lparr>notifications := []\<rparr>\<rparr> = w\<lparr>store := (store w)\<lparr>notifications := []\<rparr>\<rparr>"
proof -
  from assms have "untouched t u w w'"
    by (induction rule: rtranclp_induct) (auto dest: ntf_step_untouched intro: untouched_trans)
  then show ?thesis by (simp add: untouched_def)
qed

text \<open>Nothing is published live that is not stored: a notification that succeeds has appended its row,
  for an existing user, and handed exactly that row to the broker; one that fails has changed
  nothing and published nothing.\<close>

theorem Notify_stores_then_publishes:
  assumes "Notify ev (platform_notifications cd) i inp w = (r, w')"
  shows "case r of
     Inl e \<Rightarrow> w' = w
   | Inr _ \<Rightarrow> (\<exists>n. ntfs_of w' = ntfs_of w @ [n] \<and> ntf_ID n = i \<and> ntf_ReadAt n = None
       \<and> ntf_TenantID n = ni_TenantID inp \<and> ntf_UserID n = ni_UserID inp
       \<and> ntf_UserID n \<in> user_ID ` set (users (store w))
       \<and> hub w' = Publish ev cd (notification_event ev n) (hub w))"
proof (cases r)
  case (Inl e) then show ?thesis using assms Notify_Inl by fastforce
next
  case (Inr u)
  from Notify_Inr[OF assms[unfolded Inr]] show ?thesis unfolding Inr platform_publish
    by (auto simp: PublishNotification_def new_notification_def)
qed

text \<open>Marking all notifications read reports the unread count there was, and leaves none: the badge
  count that follows is zero.\<close>

theorem MarkAllRead_clears:
  assumes "notifications_MarkAllRead ev (Some t) u w = (Inr k, w')" and "\<And>l. sql_fault ev2 l = None"
  shows "UnreadCount ev2 (Some t) u w = (Inr k, w) \<and> UnreadCount ev2 (Some t) u w' = (Inr 0, w')"
proof -
  have c: "UnreadCount ev2 (Some t) u x = (Inr (count_rows (Some t) ntf_TenantID (unread_of u) (ntfs_of x)), x)" for x
    by (simp add: UnreadCount_def CountUnread_def op_map_err_eq WithTenantTx_run[OF assms(2)] assms(2) tx_query_def)
  have w': "k = count_rows (Some t) ntf_TenantID (unread_of u) (ntfs_of w)"
    "ntfs_of w' = update_rows (Some t) ntf_TenantID (unread_of u) (\<lambda>n. n\<lparr>ntf_ReadAt := Some (now ev)\<rparr>) (ntfs_of w)"
    using assms(1) by (auto simp: notifications_MarkAllRead_def notifications_repo_MarkAllRead_def op_map_err_Inr
        tx_inv mark_read_Inr dest!: WithTenantTx_Some)
  have "select_rows (Some t) ntf_TenantID (unread_of u) (ntfs_of w') = []"
    unfolding w'(2) by (rule select_updated) (simp add: unread_of_def)
  then show ?thesis using c w'(1) by (simp add: count_rows_def)
qed

section \<open>Witnesses\<close>

definition demo_note :: NotifyInput where
  "demo_note = \<lparr>ni_TenantID = 1, ni_UserID = 11, ni_Type = TypeTeamInvite, ni_Title = ''hello'', ni_Body = '''', ni_Metadata = []\<rparr>"

definition demo_notified :: "(err + unit) \<times> world" where
  "demo_notified = Notify demo_live (platform_notifications demo_codec) 70 demo_note demo_world"

definition demo_marked :: "(err + int) \<times> world" where
  "demo_marked = notifications_MarkAllRead demo_live (Some 1) 11 (snd demo_notified)"

theorem Notify_stores_then_publishes_witness:
  "\<exists>n. ntfs_of (snd demo_notified) = [n] \<and> ntf_ID n = 70
     \<and> hub (snd demo_notified) = Publish demo_live demo_codec (notification_event demo_live n) (hub demo_world)"
proof -
  have "fst demo_notified = Inr ()" unfolding demo_notified_def by code_simp
  then have m: "Notify demo_live (platform_notifications demo_codec) 70 demo_note demo_world = (Inr (), snd demo_notified)"
    by (simp add: demo_notified_def prod_eq_iff)
  have "ntfs_of demo_world = []" by code_simp
  then show ?thesis using Notify_stores_then_publishes[OF m] by auto
qed

theorem notifications_private_witness:
  "filter (not_of 1 10) (ntfs_of (snd (notifications_MarkAllRead demo_live (Some 1) 10 (snd demo_notified)))) = ntfs_of (snd demo_notified)"
proof -
  have st: "ntf_step 1 10 (snd demo_notified) (snd (notifications_MarkAllRead demo_live (Some 1) 10 (snd demo_notified)))"
    by (rule ntf_step.mark_all[of demo_live _ _ _ "fst (notifications_MarkAllRead demo_live (Some 1) 10 (snd demo_notified))"]) simp
  have "filter (not_of 1 10) (ntfs_of (snd demo_notified)) = ntfs_of (snd demo_notified)"
    unfolding demo_notified_def by code_simp
  with notifications_private[OF r_into_rtranclp[of "ntf_step 1 10", OF st]] show ?thesis by simp
qed

theorem MarkAllRead_clears_witness:
  "fst demo_marked = Inr 1 \<and> UnreadCount demo_live (Some 1) 11 (snd demo_marked) = (Inr 0, snd demo_marked)"
proof -
  have r: "fst demo_marked = Inr 1" unfolding demo_marked_def demo_notified_def by code_simp
  then have m: "notifications_MarkAllRead demo_live (Some 1) 11 (snd demo_notified) = (Inr 1, snd demo_marked)"
    by (simp add: demo_marked_def prod_eq_iff)
  have "sql_fault demo_live l = None" for l by (simp add: demo_live_def demo_env_def)
  from MarkAllRead_clears[OF m this] r show ?thesis by simp
qed

end
