(* ===== verification/Roster.thy ===== *)
theory Roster
  imports Notifications_Props Slug Billing_Facts
begin

text \<open>
  What internal/teams and internal/projects share: the codes they record under, the two-method
  \<open>Recorder\<close> interface (audit log and activity feed) with its contract \<open>chronicler\<close>,
  interpreted on internal/audit, the best-effort notification of a new member, and the
  columns of a member list.
\<close>

section \<open>internal/audit/entity.go\<close>

definition ActionTeamCreated :: string where "ActionTeamCreated = ''team.created''"
definition ActionTeamUpdated :: string where "ActionTeamUpdated = ''team.updated''"
definition ActionTeamDeleted :: string where "ActionTeamDeleted = ''team.deleted''"
definition ActionTeamMemberAdded :: string where "ActionTeamMemberAdded = ''team.member_added''"
definition ActionTeamMemberRemoved :: string where "ActionTeamMemberRemoved = ''team.member_removed''"
definition ActionProjectCreated :: string where "ActionProjectCreated = ''project.created''"
definition ActionProjectUpdated :: string where "ActionProjectUpdated = ''project.updated''"
definition ActionProjectArchived :: string where "ActionProjectArchived = ''project.archived''"
definition ActionProjectDeleted :: string where "ActionProjectDeleted = ''project.deleted''"

definition TargetTeam :: string where "TargetTeam = ''team''"
definition TargetProject :: string where "TargetProject = ''project''"

definition VerbCreated :: string where "VerbCreated = ''created''"
definition VerbUpdated :: string where "VerbUpdated = ''updated''"
definition VerbDeleted :: string where "VerbDeleted = ''deleted''"
definition VerbArchived :: string where "VerbArchived = ''archived''"
definition VerbJoined :: string where "VerbJoined = ''joined''"
definition VerbLeft :: string where "VerbLeft = ''left''"

section \<open>The recorder\<close>

type_synonym ActivityRecorder = "env \<Rightarrow> uuid \<Rightarrow> ActivityEntry \<Rightarrow> world \<Rightarrow> world"

record Chronicle =
  chr_Record :: Recorder
  chr_RecordActivity :: ActivityRecorder

definition chronicled :: "AuditLog list \<Rightarrow> ActivityEvent list \<Rightarrow> world \<Rightarrow> world" where
  "chronicled xs ys w = w\<lparr>store := (store w)\<lparr>audit_logs := audit_logs (store w) @ xs,
     activity_events := activity_events (store w) @ ys\<rparr>\<rparr>"

lemma chronicled_simps [simp]:
  "store (chronicled xs ys w) = (store w)\<lparr>audit_logs := audit_logs (store w) @ xs, activity_events := activity_events (store w) @ ys\<rparr>"
  "perm_cache (chronicled xs ys w) = perm_cache w" "tenant_cache (chronicled xs ys w) = tenant_cache w"
  "outbox (chronicled xs ys w) = outbox w" "hub (chronicled xs ys w) = hub w"
  by (simp_all add: chronicled_def)

lemma chronicled_none: "chronicled [] [] w = w"
  by (simp add: chronicled_def)

lemma chronicled_twice: "chronicled xs ys (chronicled xs' ys' w) = chronicled (xs' @ xs) (ys' @ ys) w"
  by (simp add: chronicled_def)

lemma logged_chronicled: "logged xs w = chronicled xs [] w"
  by (simp add: logged_def chronicled_def)

locale chronicler = recorder rec for rec +
  fixes act :: ActivityRecorder
  assumes act_appends: "\<exists>ys. act ev i a w = chronicled [] ys w \<and> ae_TenantID ` set ys \<subseteq> {ac_TenantID a}"
begin

lemma both: "\<exists>xs ys. act ev i a (rec ev' j e w) = chronicled xs ys w
    \<and> al_TenantID ` set xs \<subseteq> {en_TenantID e} \<and> ae_TenantID ` set ys \<subseteq> {ac_TenantID a}"
proof -
  obtain xs where "rec ev' j e w = logged xs w" "al_TenantID ` set xs \<subseteq> {en_TenantID e}" using appends by blast
  moreover obtain ys where "act ev i a (logged xs w) = chronicled [] ys (logged xs w)" "ae_TenantID ` set ys \<subseteq> {ac_TenantID a}"
    using act_appends by blast
  ultimately show ?thesis by (auto simp: logged_chronicled chronicled_twice)
qed

end

definition platform_chronicle :: Chronicle where
  "platform_chronicle = \<lparr>chr_Record = audit_Record, chr_RecordActivity = RecordActivity\<rparr>"

interpretation platform_chronicler: chronicler audit_Record RecordActivity
proof
  fix ev :: env and i and a :: ActivityEntry and w
  let ?r = "\<lparr>ae_ID = i, ae_TenantID = ac_TenantID a, ae_ActorID = ac_ActorID a, ae_TargetType = ac_TargetType a,
      ae_TargetID = ac_TargetID a, ae_Verb = ac_Verb a, ae_Metadata = ac_Metadata a, ae_CreatedAt = now ev\<rparr>"
  obtain r w' where m: "CreateActivityEvent ev ?r w = (r, w')" by force
  then have w': "RecordActivity ev i a w = w'" by (simp add: RecordActivity_def)
  show "\<exists>ys. RecordActivity ev i a w = chronicled [] ys w \<and> ae_TenantID ` set ys \<subseteq> {ac_TenantID a}"
  proof (cases r)
    case (Inl e)
    then have "w' = chronicled [] [] w" using m WithTenantTxID_rollback unfolding CreateActivityEvent_def chronicled_none by fast
    then show ?thesis using w' by fastforce
  next
    case (Inr u)
    then obtain d where "insert_activity (Some (ac_TenantID a)) ?r (store w) = Inr (u, d)" "w' = w\<lparr>store := d\<rparr>"
      using m WithTenantTxID_ok unfolding CreateActivityEvent_def by (fastforce simp: stmt_Inr)
    then have "w' = chronicled [] [?r] w" by (auto simp: chronicled_def insert_activity_def tx_inv)
    then show ?thesis using w' by fastforce
  qed
qed

definition chronicle_ok :: "Chronicle option \<Rightarrow> bool" where
  "chronicle_ok a \<longleftrightarrow> (case a of None \<Rightarrow> True | Some r \<Rightarrow> chronicler (chr_Record r) (chr_RecordActivity r))"

lemma platform_chronicle_ok: "chronicle_ok (Some platform_chronicle)"
  unfolding chronicle_ok_def platform_chronicle_def using platform_chronicler.chronicler_axioms by simp

text \<open>\<open>if s.audit != nil { s.audit.Record(...); s.audit.RecordActivity(...) }\<close>.\<close>

definition chronicle :: "env \<Rightarrow> Chronicle option \<Rightarrow> fresh \<Rightarrow> Entry \<Rightarrow> ActivityEntry \<Rightarrow> world \<Rightarrow> world" where
  "chronicle ev a fr e v w = (case a of None \<Rightarrow> w
     | Some r \<Rightarrow> chr_RecordActivity r ev (fresh_id fr 2) v (chr_Record r ev (fresh_id fr 1) e w))"

lemma chronicle_appends:
  assumes "chronicle_ok a"
  shows "\<exists>xs ys. chronicle ev a fr e v w = chronicled xs ys w
    \<and> al_TenantID ` set xs \<subseteq> {en_TenantID e} \<and> ae_TenantID ` set ys \<subseteq> {ac_TenantID v}"
proof (cases a)
  case None
  then have "chronicle ev a fr e v w = chronicled [] [] w" by (simp add: chronicle_def chronicled_def)
  then show ?thesis by fastforce
next
  case (Some r)
  then have "chronicler (chr_Record r) (chr_RecordActivity r)" using assms by (simp add: chronicle_ok_def)
  from chronicler.both[OF this] show ?thesis using Some by (simp add: chronicle_def)
qed

section \<open>Notifying a new member\<close>

definition notifier_ok :: "Notifier option \<Rightarrow> bool" where
  "notifier_ok n \<longleftrightarrow> (case n of None \<Rightarrow> True | Some f \<Rightarrow> notifier f)"

lemma platform_notifier_ok: "notifier_ok (Some (platform_notify cd))"
  unfolding notifier_ok_def using notifying.notifier_axioms by simp

text \<open>\<open>if thing, err := FindByID(id); err == nil { _ = Notify(...) }\<close>: best effort.\<close>

definition notify_about :: "env \<Rightarrow> Notifier option \<Rightarrow> uuid \<Rightarrow> (world, err, 'a) op \<Rightarrow> ('a \<Rightarrow> NotifyInput) \<Rightarrow> world \<Rightarrow> world" where
  "notify_about ev n i find_it msg w = (case n of None \<Rightarrow> w
     | Some notify \<Rightarrow> (case find_it w of (Inl e, w') \<Rightarrow> w' | (Inr a, w') \<Rightarrow> snd (notify ev i (msg a) w')))"

lemma notify_about_tells:
  assumes "notifier_ok n" "\<And>w r w'. find_it w = (r, w') \<Longrightarrow> w' = w"
    and "\<And>a. ni_TenantID (msg a) = t \<and> ni_UserID (msg a) = u"
  shows "\<exists>xs b. notify_about ev n i find_it msg w = told xs b w \<and> (\<forall>m\<in>set xs. ntf_TenantID m = t \<and> ntf_UserID m = u)"
proof -
  have none: "\<exists>xs b. w = told xs b w \<and> (\<forall>m\<in>set xs. ntf_TenantID m = t \<and> ntf_UserID m = u)"
    by (rule exI[of _ "[]"], rule exI[of _ "hub w"]) (simp add: told_def)
  show ?thesis
  proof (cases n)
    case None then show ?thesis using none by (simp add: notify_about_def)
  next
    case (Some f)
    obtain r w1 where f: "find_it w = (r, w1)" by force
    with assms(2) have w1: "w1 = w" by blast
    show ?thesis
    proof (cases r)
      case (Inl e) then show ?thesis using none f w1 Some by (simp add: notify_about_def)
    next
      case (Inr a)
      have "notifier f" using assms(1) Some by (simp add: notifier_ok_def)
      from notifier.tells[OF this prod.collapse[symmetric], of ev i "msg a" w] show ?thesis
        unfolding notify_about_def Some option.case f w1 Inr prod.case sum.case by (simp add: assms(3))
    qed
  qed
qed

section \<open>Member lists\<close>

record MemberDetail =
  md_UserID :: uuid
  md_Email :: string
  md_FullName :: string
  md_Status :: string
  md_JoinedAt :: gotime

definition member_detail :: "user \<Rightarrow> gotime \<Rightarrow> MemberDetail" where
  "member_detail u t = \<lparr>md_UserID = user_ID u, md_Email = user_Email u, md_FullName = user_FullName u,
     md_Status = user_Status u, md_JoinedAt = t\<rparr>"

text \<open>\<open>WHERE id = ? AND deleted_at IS NULL\<close> counted, under the policy of users.\<close>

definition live_user_count :: "session \<Rightarrow> uuid \<Rightarrow> db \<Rightarrow> int" where
  "live_user_count sess userID d = count_rows sess user_TenantID (\<lambda>u. user_ID u = userID \<and> user_DeletedAt u = None) (users d)"

lemma count_rows_pos: "count_rows sess ten P rows > 0 \<longleftrightarrow> (\<exists>r\<in>set rows. sess = Some (ten r) \<and> P r)"
  by (auto simp: count_rows_def select_rows_def rls_def filter_empty_conv)

end
