(* ===== verification/Teams.thy ===== *)
theory Teams
  imports Roster
begin

text \<open>
  internal/teams: teams, soft-deleted so that a slug can be reused, and their members.
\<close>

section \<open>repository.go\<close>

definition teams_ErrNotFound :: err where "teams_ErrNotFound = Sentinel ''teams: team not found''"

text \<open>The partial unique index on \<open>(tenant_id, slug) WHERE deleted_at IS NULL\<close>; \<open>slug\<close> is CITEXT.\<close>

definition team_slug_free :: "env \<Rightarrow> team \<Rightarrow> db \<Rightarrow> bool" where
  "team_slug_free ev t d \<longleftrightarrow> team_DeletedAt t \<noteq> None \<or> \<not> (\<exists>q\<in>set (teams d). team_DeletedAt q = None
     \<and> team_ID q \<noteq> team_ID t \<and> team_TenantID q = team_TenantID t
     \<and> citext ev (team_Slug q) = citext ev (team_Slug t))"

definition insert_team :: "env \<Rightarrow> session \<Rightarrow> team \<Rightarrow> (db, err, unit) tx" where
  "insert_team ev sess t =
     tx_bind (tx_query (\<lambda>d. insert_check (rls sess team_TenantID t) True
        (team_ID t \<notin> team_ID ` set (teams d) \<and> team_slug_free ev t d)
        (team_TenantID t \<in> tenant_ID ` set (tenants d)
         \<and> (case team_CreatedBy t of None \<Rightarrow> True | Some u \<Rightarrow> u \<in> user_ID ` set (users d)))))
       (\<lambda>chk. tx_bind (raise chk) (\<lambda>_. modify (\<lambda>d. d\<lparr>teams := teams d @ [t]\<rparr>)))"

definition teams_repo_Create :: "env \<Rightarrow> ctx \<Rightarrow> team \<Rightarrow> (world, err, unit) op" where
  "teams_repo_Create ev c t = WithTenantTx ev ''teams.Create'' c (\<lambda>sess.
     stmt ev ''teams.Create.create'' (insert_team ev sess t))"

text \<open>A team with its member count, and the rows of the list query.\<close>

type_synonym TeamDetail = "team \<times> int"

definition team_detail :: "session \<Rightarrow> db \<Rightarrow> team \<Rightarrow> TeamDetail" where
  "team_detail sess d t = (t, count_rows sess tm_TenantID (\<lambda>m. tm_TeamID m = team_ID t) (team_members d))"

definition team_matches :: "env \<Rightarrow> string \<Rightarrow> team \<Rightarrow> bool" where
  "team_matches ev search t \<longleftrightarrow> team_DeletedAt t = None
     \<and> (search \<noteq> '''' \<longrightarrow> (let pattern = ''%'' @ search @ ''%'' in ilike ev (team_Name t) pattern \<or> ilike ev (team_Slug t) pattern))"

definition teams_repo_List :: "env \<Rightarrow> ctx \<Rightarrow> string \<Rightarrow> int \<Rightarrow> int \<Rightarrow> (world, err, TeamDetail list \<times> int) op" where
  "teams_repo_List ev c search lim offset = op_map_err (Wrapped ''teams: list'')
     (WithTenantTx ev ''teams.List'' c (\<lambda>sess. list_page ev ''teams.List'' sess (\<lambda>x. team_TenantID (fst x))
        (\<lambda>x. team_matches ev search (fst x)) (\<lambda>x. - team_CreatedAt (fst x))
        (\<lambda>d. map (team_detail sess d) (teams d)) lim offset))"

definition live_team :: "session \<Rightarrow> db \<Rightarrow> uuid \<Rightarrow> team option" where
  "live_team sess d i = select_first sess team_TenantID (\<lambda>t. team_ID t = i \<and> team_DeletedAt t = None) (teams d)"

definition teams_FindByID :: "env \<Rightarrow> ctx \<Rightarrow> uuid \<Rightarrow> (world, err, team) op" where
  "teams_FindByID ev c i = op_map_err
     (\<lambda>e. if errors_is e teams_ErrNotFound then e else Wrapped ''teams: find by id'' e)
     (WithTenantTx ev ''teams.FindByID'' c (\<lambda>sess.
        tx_map_err (\<lambda>e. if errors_is e ErrRecordNotFound then teams_ErrNotFound else e)
          (stmt ev ''teams.FindByID.first'' (take_row (\<lambda>d. live_team sess d i)))))"

text \<open>
  An \<open>UPDATE teams ... WHERE id = ? AND deleted_at IS NULL\<close>, the number of rows it affects,
  and the unique index on the rows it writes.
\<close>

definition write_team :: "env \<Rightarrow> session \<Rightarrow> uuid \<Rightarrow> (team \<Rightarrow> team) \<Rightarrow> (db, err, int) tx" where
  "write_team ev sess i f =
     (let P = (\<lambda>q. team_ID q = i \<and> team_DeletedAt q = None) in
      tx_bind (tx_query (\<lambda>d. select_rows sess team_TenantID P (teams d))) (\<lambda>hit.
      tx_bind (tx_query (\<lambda>d. insert_check True True (\<forall>q\<in>set hit. team_slug_free ev (f q) d) True)) (\<lambda>chk.
      tx_bind (raise chk) (\<lambda>_.
      tx_bind (modify (\<lambda>d. d\<lparr>teams := update_rows sess team_TenantID P f (teams d)\<rparr>)) (\<lambda>_.
      tx_return (int (length hit)))))))"

definition teams_repo_Update :: "env \<Rightarrow> ctx \<Rightarrow> team \<Rightarrow> (world, err, unit) op" where
  "teams_repo_Update ev c t = WithTenantTx ev ''teams.Update'' c (\<lambda>sess.
     tx_bind (stmt ev ''teams.Update.update'' (write_team ev sess (team_ID t)
       (\<lambda>q. q\<lparr>team_Name := team_Name t, team_Slug := team_Slug t, team_Description := team_Description t,
          team_UpdatedAt := now ev\<rparr>))) (\<lambda>affected.
     require (affected \<noteq> 0) teams_ErrNotFound))"

definition teams_SoftDelete :: "env \<Rightarrow> ctx \<Rightarrow> uuid \<Rightarrow> (world, err, unit) op" where
  "teams_SoftDelete ev c i = WithTenantTx ev ''teams.SoftDelete'' c (\<lambda>sess.
     tx_bind (stmt ev ''teams.SoftDelete.update'' (write_team ev sess i
       (\<lambda>q. q\<lparr>team_DeletedAt := Some (now ev), team_UpdatedAt := now ev\<rparr>))) (\<lambda>affected.
     require (affected \<noteq> 0) teams_ErrNotFound))"

text \<open>\<open>INSERT ... ON CONFLICT (team_id, user_id) DO NOTHING\<close>: the conflict sees every row.\<close>

definition insert_team_member :: "session \<Rightarrow> team_member \<Rightarrow> (db, err, unit) tx" where
  "insert_team_member sess m =
     tx_bind (tx_query (\<lambda>d. \<exists>q\<in>set (team_members d). tm_TeamID q = tm_TeamID m \<and> tm_UserID q = tm_UserID m)) (\<lambda>conflict.
     if rls sess tm_TenantID m \<and> conflict then tx_return ()
     else tx_bind (tx_query (\<lambda>d. insert_check (rls sess tm_TenantID m) True True
        (tm_TeamID m \<in> team_ID ` set (teams d) \<and> tm_UserID m \<in> user_ID ` set (users d)
         \<and> tm_TenantID m \<in> tenant_ID ` set (tenants d)))) (\<lambda>chk.
       tx_bind (raise chk) (\<lambda>_. modify (\<lambda>d. d\<lparr>team_members := team_members d @ [m]\<rparr>))))"

definition teams_repo_AddMember :: "env \<Rightarrow> ctx \<Rightarrow> team_member \<Rightarrow> (world, err, unit) op" where
  "teams_repo_AddMember ev c m = WithTenantTx ev ''teams.AddMember'' c (\<lambda>sess.
     stmt ev ''teams.AddMember.create'' (insert_team_member sess m))"

definition teams_repo_RemoveMember :: "env \<Rightarrow> ctx \<Rightarrow> uuid \<Rightarrow> uuid \<Rightarrow> (world, err, unit) op" where
  "teams_repo_RemoveMember ev c teamID userID = WithTenantTx ev ''teams.RemoveMember'' c (\<lambda>sess.
     stmt ev ''teams.RemoveMember.delete'' (modify (\<lambda>d. d\<lparr>team_members := delete_rows sess tm_TenantID
       (\<lambda>m. tm_TeamID m = teamID \<and> tm_UserID m = userID) (team_members d)\<rparr>)))"

text \<open>The roster query: members joined with the live users the policy shows.\<close>

definition team_roster :: "session \<Rightarrow> uuid \<Rightarrow> db \<Rightarrow> MemberDetail list" where
  "team_roster sess teamID d = [member_detail u (tm_JoinedAt m).
     m \<leftarrow> select_rows sess tm_TenantID (\<lambda>m. tm_TeamID m = teamID) (team_members d),
     u \<leftarrow> select_rows sess user_TenantID (\<lambda>u. user_ID u = tm_UserID m \<and> user_DeletedAt u = None) (users d)]"

definition teams_repo_ListMembers :: "env \<Rightarrow> ctx \<Rightarrow> uuid \<Rightarrow> int \<Rightarrow> int \<Rightarrow> (world, err, MemberDetail list \<times> int) op" where
  "teams_repo_ListMembers ev c teamID lim offset = op_map_err (Wrapped ''teams: list members'')
     (WithTenantTx ev ''teams.ListMembers'' c (\<lambda>sess.
        tx_bind (stmt ev ''teams.ListMembers.count'' (tx_query (\<lambda>d.
          count_rows sess tm_TenantID (\<lambda>m. tm_TeamID m = teamID) (team_members d)))) (\<lambda>n.
        tx_bind (stmt ev ''teams.ListMembers.find'' (tx_query (\<lambda>d.
          page_of lim offset (sort_key md_JoinedAt (team_roster sess teamID d))))) (\<lambda>ms.
        tx_return (ms, n)))))"

definition teams_UserBelongsToTenant :: "env \<Rightarrow> ctx \<Rightarrow> uuid \<Rightarrow> (world, err, bool) op" where
  "teams_UserBelongsToTenant ev c userID = op_map_err (Wrapped ''teams: verify user tenant'')
     (WithTenantTx ev ''teams.UserBelongsToTenant'' c (\<lambda>sess. stmt ev ''teams.UserBelongsToTenant.count''
        (tx_query (\<lambda>d. live_user_count sess userID d > 0))))"

definition teams_CountLive :: "env \<Rightarrow> ctx \<Rightarrow> (world, err, int) op" where
  "teams_CountLive ev c = op_map_err (Wrapped ''teams: count live'')
     (WithTenantTx ev ''teams.CountLive'' c (\<lambda>sess. stmt ev ''teams.CountLive.count''
        (tx_query (\<lambda>d. count_rows sess team_TenantID (\<lambda>t. team_DeletedAt t = None) (teams d)))))"

section \<open>service.go\<close>

record teams_Service =
  tms_audit :: "Chronicle option"
  tms_notifier :: "Notifier option"

definition teams_translateNotFound :: "string \<Rightarrow> err \<Rightarrow> err" where
  "teams_translateNotFound message e = (if errors_is e teams_ErrNotFound
     then New CodeNotFound ''team not found'' else Wrap CodeInternal message e)"

definition team_conflict :: "(err \<Rightarrow> err) \<Rightarrow> err \<Rightarrow> err" where
  "team_conflict f e = (if IsUniqueViolation e
     then New CodeConflict ''a team with that slug already exists'' else f e)"

definition recordTeamAction :: "env \<Rightarrow> teams_Service \<Rightarrow> fresh \<Rightarrow> Entry \<Rightarrow> string \<Rightarrow> string \<Rightarrow> team \<Rightarrow> world \<Rightarrow> world" where
  "recordTeamAction ev s fr entry action verb t = chronicle ev (tms_audit s) fr
     (entry\<lparr>en_Action := action, en_TargetType := TargetTeam, en_TargetID := Some (team_ID t),
        en_Metadata := [(''name'', JStr (team_Name t)), (''slug'', JStr (team_Slug t))]\<rparr>)
     \<lparr>ac_TenantID = team_TenantID t, ac_ActorID = en_ActorID entry, ac_TargetType = TargetTeam,
      ac_TargetID = team_ID t, ac_Verb = verb, ac_Metadata = [(''name'', JStr (team_Name t))]\<rparr>"

record createTeamRequest =
  ctr_Name :: string
  ctr_Slug :: string
  ctr_Description :: string

definition new_team :: "env \<Rightarrow> uuid \<Rightarrow> uuid \<Rightarrow> uuid \<Rightarrow> string \<Rightarrow> createTeamRequest \<Rightarrow> team" where
  "new_team ev newID tenantID actorID teamSlug inp = \<lparr>team_ID = newID, team_TenantID = tenantID,
     team_Name = TrimSpace (ctr_Name inp), team_Slug = teamSlug, team_Description = TrimSpace (ctr_Description inp),
     team_CreatedBy = Some actorID, team_CreatedAt = now ev, team_UpdatedAt = now ev, team_DeletedAt = None\<rparr>"

definition teams_Create :: "env \<Rightarrow> teams_Service \<Rightarrow> fresh \<Rightarrow> ctx \<Rightarrow> Entry \<Rightarrow> uuid \<Rightarrow> uuid \<Rightarrow> createTeamRequest
    \<Rightarrow> (world, err, team) op" where
  "teams_Create ev s fr c entry tenantID actorID inp =
     op_bind (op_lift (Resolve (unicode_lower ev) (ctr_Slug inp) (ctr_Name inp))) (\<lambda>teamSlug.
     let t = new_team ev (fresh_id fr 0) tenantID actorID teamSlug inp in
     op_try (teams_repo_Create ev c t)
       (\<lambda>e. op_fail (team_conflict (Wrap CodeInternal ''failed to create team'') e))
       (\<lambda>_ w. (Inr t, recordTeamAction ev s fr entry ActionTeamCreated VerbCreated t w)))"

definition teams_List :: "env \<Rightarrow> ctx \<Rightarrow> string \<Rightarrow> int \<Rightarrow> int \<Rightarrow> (world, err, TeamDetail list \<times> int) op" where
  "teams_List ev c search page pageSize = op_map_err (Wrap CodeInternal ''failed to list teams'')
     (teams_repo_List ev c (TrimSpace search) pageSize (wrap64 (wrap64 (page - 1) * pageSize)))"

definition load_team :: "env \<Rightarrow> ctx \<Rightarrow> uuid \<Rightarrow> (world, err, team) op" where
  "load_team ev c i = op_map_err (teams_translateNotFound ''failed to load team'') (teams_FindByID ev c i)"

definition teams_Get :: "env \<Rightarrow> ctx \<Rightarrow> uuid \<Rightarrow> (world, err, team) op" where
  "teams_Get ev c i = load_team ev c i"

record updateTeamRequest =
  utr_Name :: "string option"
  utr_Slug :: "string option"
  utr_Description :: "string option"

text \<open>The changes of \<open>Update\<close> to the loaded team, or the validation error.\<close>

definition set_name :: "string option \<Rightarrow> 't \<Rightarrow> (string \<Rightarrow> 't) \<Rightarrow> err + 't" where
  "set_name n x f = (case n of None \<Rightarrow> Inr x | Some v \<Rightarrow> (let name = TrimSpace v in
     if name = '''' then Inl (New CodeValidation ''name cannot be empty'') else Inr (f name)))"

definition set_slug :: "env \<Rightarrow> string option \<Rightarrow> string \<Rightarrow> 't \<Rightarrow> (string \<Rightarrow> 't) \<Rightarrow> err + 't" where
  "set_slug ev sl name x f = (case sl of None \<Rightarrow> Inr x | Some v \<Rightarrow>
     (case Resolve (unicode_lower ev) v name of Inl e \<Rightarrow> Inl e | Inr newSlug \<Rightarrow> Inr (f newSlug)))"

definition edit_team :: "env \<Rightarrow> updateTeamRequest \<Rightarrow> team \<Rightarrow> err + team" where
  "edit_team ev inp t0 = (case set_name (utr_Name inp) t0 (\<lambda>n. t0\<lparr>team_Name := n\<rparr>) of Inl e \<Rightarrow> Inl e | Inr t1 \<Rightarrow>
     (case set_slug ev (utr_Slug inp) (team_Name t1) t1 (\<lambda>sl. t1\<lparr>team_Slug := sl\<rparr>) of Inl e \<Rightarrow> Inl e | Inr t2 \<Rightarrow>
      Inr (case utr_Description inp of None \<Rightarrow> t2 | Some v \<Rightarrow> t2\<lparr>team_Description := TrimSpace v\<rparr>)))"

definition teams_Update :: "env \<Rightarrow> teams_Service \<Rightarrow> fresh \<Rightarrow> ctx \<Rightarrow> Entry \<Rightarrow> uuid \<Rightarrow> updateTeamRequest
    \<Rightarrow> (world, err, team) op" where
  "teams_Update ev s fr c entry teamID inp = op_bind (load_team ev c teamID) (\<lambda>t0.
     op_bind (op_lift (edit_team ev inp t0)) (\<lambda>t.
     op_try (teams_repo_Update ev c t)
       (\<lambda>e. op_fail (team_conflict (teams_translateNotFound ''failed to update team'') e))
       (\<lambda>_ w. (Inr t, recordTeamAction ev s fr entry ActionTeamUpdated VerbUpdated t w))))"

definition teams_Delete :: "env \<Rightarrow> teams_Service \<Rightarrow> fresh \<Rightarrow> ctx \<Rightarrow> Entry \<Rightarrow> uuid \<Rightarrow> (world, err, unit) op" where
  "teams_Delete ev s fr c entry teamID = op_bind (load_team ev c teamID) (\<lambda>t.
     op_try (teams_SoftDelete ev c teamID)
       (\<lambda>e. op_fail (teams_translateNotFound ''failed to delete team'' e))
       (\<lambda>_ w. (Inr (), recordTeamAction ev s fr entry ActionTeamDeleted VerbDeleted t w)))"

definition record_membership :: "env \<Rightarrow> teams_Service \<Rightarrow> fresh \<Rightarrow> Entry \<Rightarrow> string \<Rightarrow> string \<Rightarrow> uuid \<Rightarrow> uuid \<Rightarrow> uuid
    \<Rightarrow> world \<Rightarrow> world" where
  "record_membership ev s fr entry action verb tenantID teamID userID = chronicle ev (tms_audit s) fr
     (entry\<lparr>en_Action := action, en_TargetType := TargetTeam, en_TargetID := Some teamID,
        en_Metadata := [(''user_id'', JUuid userID)]\<rparr>)
     \<lparr>ac_TenantID = tenantID, ac_ActorID = en_ActorID entry, ac_TargetType = TargetTeam,
      ac_TargetID = teamID, ac_Verb = verb, ac_Metadata = [(''user_id'', JUuid userID)]\<rparr>"

definition team_invite :: "uuid \<Rightarrow> uuid \<Rightarrow> uuid \<Rightarrow> team \<Rightarrow> NotifyInput" where
  "team_invite tenantID teamID userID t = \<lparr>ni_TenantID = tenantID, ni_UserID = userID, ni_Type = TypeTeamInvite,
     ni_Title = ''You were added to '' @ team_Name t,
     ni_Body = ''You now have access to the '' @ team_Name t @ '' team.'',
     ni_Metadata = [(''team_id'', JUuid teamID), (''team_slug'', JStr (team_Slug t))]\<rparr>"

definition teams_AddMember :: "env \<Rightarrow> teams_Service \<Rightarrow> fresh \<Rightarrow> ctx \<Rightarrow> Entry \<Rightarrow> uuid \<Rightarrow> uuid \<Rightarrow> uuid
    \<Rightarrow> (world, err, unit) op" where
  "teams_AddMember ev s fr c entry tenantID teamID userID = op_bind (load_team ev c teamID) (\<lambda>_.
     op_try (teams_UserBelongsToTenant ev c userID)
       (\<lambda>e. op_fail (Wrap CodeInternal ''failed to verify user'' e))
       (\<lambda>belongs. if \<not> belongs then op_fail (New CodeNotFound ''user not found in this organization'')
     else op_try (teams_repo_AddMember ev c
            \<lparr>tm_TeamID = teamID, tm_UserID = userID, tm_TenantID = tenantID, tm_JoinedAt = now ev\<rparr>)
       (\<lambda>e. op_fail (Wrap CodeInternal ''failed to add team member'' e))
       (\<lambda>_ w. (Inr (), notify_about ev (tms_notifier s) (fresh_id fr 3) (teams_FindByID ev c teamID)
          (team_invite tenantID teamID userID)
          (record_membership ev s fr entry ActionTeamMemberAdded VerbJoined tenantID teamID userID w)))))"

definition teams_RemoveMember :: "env \<Rightarrow> teams_Service \<Rightarrow> fresh \<Rightarrow> ctx \<Rightarrow> Entry \<Rightarrow> uuid \<Rightarrow> uuid \<Rightarrow> uuid
    \<Rightarrow> (world, err, unit) op" where
  "teams_RemoveMember ev s fr c entry tenantID teamID userID = op_bind (load_team ev c teamID) (\<lambda>_.
     op_try (teams_repo_RemoveMember ev c teamID userID)
       (\<lambda>e. op_fail (Wrap CodeInternal ''failed to remove team member'' e))
       (\<lambda>_ w. (Inr (), record_membership ev s fr entry ActionTeamMemberRemoved VerbLeft tenantID teamID userID w)))"

definition teams_ListMembers :: "env \<Rightarrow> ctx \<Rightarrow> uuid \<Rightarrow> int \<Rightarrow> int \<Rightarrow> (world, err, MemberDetail list \<times> int) op" where
  "teams_ListMembers ev c teamID page pageSize = op_bind (load_team ev c teamID) (\<lambda>_.
     op_map_err (Wrap CodeInternal ''failed to list team members'')
       (teams_repo_ListMembers ev c teamID pageSize (wrap64 (wrap64 (page - 1) * pageSize))))"

section \<open>handler.go\<close>

datatype teams_data = DTeam team | DTeams "TeamDetail list" | DMembers "MemberDetail list" | DTeamMessage string

definition teams_h_Create :: "env \<Rightarrow> teams_Service \<Rightarrow> fresh \<Rightarrow> gctx \<Rightarrow> string + createTeamRequest \<Rightarrow> teams_data handler" where
  "teams_h_Create ev s fr c req = with_caller c (\<lambda>cl. with_body c req (\<lambda>q.
     respond c (teams_Create ev s fr (ctx_tenant c) (EntryFromRequest c ActionTeamCreated) (TenantID cl) (UserID cl) q)
       (\<lambda>t. Success c 201 (DTeam t))))"

definition teams_h_List :: "env \<Rightarrow> gctx \<Rightarrow> teams_data handler" where
  "teams_h_List ev c = with_caller c (\<lambda>_. respond_page c (teams_List ev (ctx_tenant c) (Query c ''search'')) DTeams)"

definition teams_h_Get :: "env \<Rightarrow> gctx \<Rightarrow> teams_data handler" where
  "teams_h_Get ev c = with_caller c (\<lambda>_. uuid_param ev c ''teamID'' (\<lambda>i.
     respond c (teams_Get ev (ctx_tenant c) i) (\<lambda>t. Success c 200 (DTeam t))))"

definition teams_h_Update :: "env \<Rightarrow> teams_Service \<Rightarrow> fresh \<Rightarrow> gctx \<Rightarrow> string + updateTeamRequest \<Rightarrow> teams_data handler" where
  "teams_h_Update ev s fr c req = with_caller c (\<lambda>_. uuid_param ev c ''teamID'' (\<lambda>i. with_body c req (\<lambda>q.
     respond c (teams_Update ev s fr (ctx_tenant c) (EntryFromRequest c ActionTeamUpdated) i q)
       (\<lambda>t. Success c 200 (DTeam t)))))"

definition teams_h_Delete :: "env \<Rightarrow> teams_Service \<Rightarrow> fresh \<Rightarrow> gctx \<Rightarrow> teams_data handler" where
  "teams_h_Delete ev s fr c = with_caller c (\<lambda>_. uuid_param ev c ''teamID'' (\<lambda>i.
     respond c (teams_Delete ev s fr (ctx_tenant c) (EntryFromRequest c ActionTeamDeleted) i)
       (\<lambda>_. Success c 200 (DTeamMessage ''team deleted''))))"

definition teams_h_ListMembers :: "env \<Rightarrow> gctx \<Rightarrow> teams_data handler" where
  "teams_h_ListMembers ev c = with_caller c (\<lambda>_. uuid_param ev c ''teamID'' (\<lambda>i.
     respond_page c (teams_ListMembers ev (ctx_tenant c) i) DMembers))"

definition teams_h_AddMember :: "env \<Rightarrow> teams_Service \<Rightarrow> fresh \<Rightarrow> gctx \<Rightarrow> string + uuid \<Rightarrow> teams_data handler" where
  "teams_h_AddMember ev s fr c req = with_caller c (\<lambda>cl. uuid_param ev c ''teamID'' (\<lambda>i. with_body c req (\<lambda>u.
     respond c (teams_AddMember ev s fr (ctx_tenant c) (EntryFromRequest c ActionTeamMemberAdded) (TenantID cl) i u)
       (\<lambda>_. Success c 200 (DTeamMessage ''member added to team'')))))"

definition teams_h_RemoveMember :: "env \<Rightarrow> teams_Service \<Rightarrow> fresh \<Rightarrow> gctx \<Rightarrow> teams_data handler" where
  "teams_h_RemoveMember ev s fr c = with_caller c (\<lambda>cl. uuid_param ev c ''teamID'' (\<lambda>i. uuid_param ev c ''userID'' (\<lambda>u.
     respond c (teams_RemoveMember ev s fr (ctx_tenant c) (EntryFromRequest c ActionTeamMemberRemoved) (TenantID cl) i u)
       (\<lambda>_. Success c 200 (DTeamMessage ''member removed from team'')))))"

end
