(* ===== verification/Projects.thy ===== *)
theory Projects
  imports Teams
begin

text \<open>
  internal/projects: projects, optionally attached to a team of the same tenant, limited in
  number by the plan, soft-deleted, and their members.
\<close>

section \<open>entity.go\<close>

definition project_StatusActive :: string where "project_StatusActive = ''active''"
definition StatusArchived :: string where "StatusArchived = ''archived''"

section \<open>repository.go\<close>

definition projects_ErrNotFound :: err where "projects_ErrNotFound = Sentinel ''projects: project not found''"

record ListFilter =
  lf_Search :: string
  lf_Status :: string
  lf_TeamID :: "uuid option"

definition project_slug_free :: "env \<Rightarrow> project \<Rightarrow> db \<Rightarrow> bool" where
  "project_slug_free ev p d \<longleftrightarrow> proj_DeletedAt p \<noteq> None \<or> \<not> (\<exists>q\<in>set (projects d). proj_DeletedAt q = None
     \<and> proj_ID q \<noteq> proj_ID p \<and> proj_TenantID q = proj_TenantID p
     \<and> citext ev (proj_Slug q) = citext ev (proj_Slug p))"

text \<open>The foreign keys and the CHECK of the columns an INSERT or UPDATE writes.\<close>

definition project_refs :: "project \<Rightarrow> db \<Rightarrow> bool" where
  "project_refs p d \<longleftrightarrow> proj_TenantID p \<in> tenant_ID ` set (tenants d)
     \<and> (case proj_TeamID p of None \<Rightarrow> True | Some i \<Rightarrow> i \<in> team_ID ` set (teams d))
     \<and> (case proj_CreatedBy p of None \<Rightarrow> True | Some u \<Rightarrow> u \<in> user_ID ` set (users d))"

definition project_check :: "project \<Rightarrow> bool" where
  "project_check p \<longleftrightarrow> proj_Status p \<in> {''active'', ''archived''}"

definition insert_project :: "env \<Rightarrow> session \<Rightarrow> project \<Rightarrow> (db, err, unit) tx" where
  "insert_project ev sess p =
     tx_bind (tx_query (\<lambda>d. insert_check (rls sess proj_TenantID p) (project_check p)
        (proj_ID p \<notin> proj_ID ` set (projects d) \<and> project_slug_free ev p d) (project_refs p d)))
       (\<lambda>chk. tx_bind (raise chk) (\<lambda>_. modify (\<lambda>d. d\<lparr>projects := projects d @ [p]\<rparr>)))"

definition projects_repo_Create :: "env \<Rightarrow> ctx \<Rightarrow> project \<Rightarrow> (world, err, unit) op" where
  "projects_repo_Create ev c p = WithTenantTx ev ''projects.Create'' c (\<lambda>sess.
     stmt ev ''projects.Create.create'' (insert_project ev sess p))"

text \<open>A project with the name of its live team and its member count.\<close>

type_synonym ProjectDetail = "project \<times> string option \<times> int"

definition project_detail :: "session \<Rightarrow> db \<Rightarrow> project \<Rightarrow> ProjectDetail" where
  "project_detail sess d p = (p,
     (case proj_TeamID p of None \<Rightarrow> None | Some i \<Rightarrow> map_option team_Name (live_team sess d i)),
     count_rows sess pm_TenantID (\<lambda>m. pm_ProjectID m = proj_ID p) (project_members d))"

definition project_matches :: "env \<Rightarrow> ListFilter \<Rightarrow> project \<Rightarrow> bool" where
  "project_matches ev f p \<longleftrightarrow> proj_DeletedAt p = None
     \<and> (lf_Search f \<noteq> '''' \<longrightarrow> (let pattern = ''%'' @ lf_Search f @ ''%''
          in ilike ev (proj_Name p) pattern \<or> ilike ev (proj_Slug p) pattern))
     \<and> (lf_Status f \<noteq> '''' \<longrightarrow> proj_Status p = lf_Status f)
     \<and> (case lf_TeamID f of None \<Rightarrow> True | Some i \<Rightarrow> proj_TeamID p = Some i)"

definition projects_repo_List :: "env \<Rightarrow> ctx \<Rightarrow> ListFilter \<Rightarrow> int \<Rightarrow> int \<Rightarrow> (world, err, ProjectDetail list \<times> int) op" where
  "projects_repo_List ev c f lim offset = op_map_err (Wrapped ''projects: list'')
     (WithTenantTx ev ''projects.List'' c (\<lambda>sess. list_page ev ''projects.List'' sess (\<lambda>x. proj_TenantID (fst x))
        (\<lambda>x. project_matches ev f (fst x)) (\<lambda>x. - proj_CreatedAt (fst x))
        (\<lambda>d. map (project_detail sess d) (projects d)) lim offset))"

definition live_project :: "session \<Rightarrow> db \<Rightarrow> uuid \<Rightarrow> project option" where
  "live_project sess d i = select_first sess proj_TenantID (\<lambda>p. proj_ID p = i \<and> proj_DeletedAt p = None) (projects d)"

definition projects_FindByID :: "env \<Rightarrow> ctx \<Rightarrow> uuid \<Rightarrow> (world, err, project) op" where
  "projects_FindByID ev c i = op_map_err
     (\<lambda>e. if errors_is e projects_ErrNotFound then e else Wrapped ''projects: find by id'' e)
     (WithTenantTx ev ''projects.FindByID'' c (\<lambda>sess.
        tx_map_err (\<lambda>e. if errors_is e ErrRecordNotFound then projects_ErrNotFound else e)
          (stmt ev ''projects.FindByID.first'' (take_row (\<lambda>d. live_project sess d i)))))"

definition write_project :: "env \<Rightarrow> session \<Rightarrow> uuid \<Rightarrow> (project \<Rightarrow> project) \<Rightarrow> (db, err, int) tx" where
  "write_project ev sess i f =
     (let P = (\<lambda>q. proj_ID q = i \<and> proj_DeletedAt q = None) in
      tx_bind (tx_query (\<lambda>d. select_rows sess proj_TenantID P (projects d))) (\<lambda>hit.
      tx_bind (tx_query (\<lambda>d. insert_check True (\<forall>q\<in>set hit. project_check (f q))
        (\<forall>q\<in>set hit. project_slug_free ev (f q) d) (\<forall>q\<in>set hit. project_refs (f q) d))) (\<lambda>chk.
      tx_bind (raise chk) (\<lambda>_.
      tx_bind (modify (\<lambda>d. d\<lparr>projects := update_rows sess proj_TenantID P f (projects d)\<rparr>)) (\<lambda>_.
      tx_return (int (length hit)))))))"

definition projects_repo_Update :: "env \<Rightarrow> ctx \<Rightarrow> project \<Rightarrow> (world, err, unit) op" where
  "projects_repo_Update ev c p = WithTenantTx ev ''projects.Update'' c (\<lambda>sess.
     tx_bind (stmt ev ''projects.Update.update'' (write_project ev sess (proj_ID p)
       (\<lambda>q. q\<lparr>proj_Name := proj_Name p, proj_Slug := proj_Slug p, proj_Description := proj_Description p,
          proj_Status := proj_Status p, proj_TeamID := proj_TeamID p, proj_UpdatedAt := now ev\<rparr>))) (\<lambda>affected.
     require (affected \<noteq> 0) projects_ErrNotFound))"

definition projects_SoftDelete :: "env \<Rightarrow> ctx \<Rightarrow> uuid \<Rightarrow> (world, err, unit) op" where
  "projects_SoftDelete ev c i = WithTenantTx ev ''projects.SoftDelete'' c (\<lambda>sess.
     tx_bind (stmt ev ''projects.SoftDelete.update'' (write_project ev sess i
       (\<lambda>q. q\<lparr>proj_DeletedAt := Some (now ev), proj_UpdatedAt := now ev\<rparr>))) (\<lambda>affected.
     require (affected \<noteq> 0) projects_ErrNotFound))"

definition insert_project_member :: "session \<Rightarrow> project_member \<Rightarrow> (db, err, unit) tx" where
  "insert_project_member sess m =
     tx_bind (tx_query (\<lambda>d. \<exists>q\<in>set (project_members d). pm_ProjectID q = pm_ProjectID m \<and> pm_UserID q = pm_UserID m)) (\<lambda>conflict.
     if rls sess pm_TenantID m \<and> conflict then tx_return ()
     else tx_bind (tx_query (\<lambda>d. insert_check (rls sess pm_TenantID m) True True
        (pm_ProjectID m \<in> proj_ID ` set (projects d) \<and> pm_UserID m \<in> user_ID ` set (users d)
         \<and> pm_TenantID m \<in> tenant_ID ` set (tenants d)))) (\<lambda>chk.
       tx_bind (raise chk) (\<lambda>_. modify (\<lambda>d. d\<lparr>project_members := project_members d @ [m]\<rparr>))))"

definition projects_repo_AddMember :: "env \<Rightarrow> ctx \<Rightarrow> project_member \<Rightarrow> (world, err, unit) op" where
  "projects_repo_AddMember ev c m = WithTenantTx ev ''projects.AddMember'' c (\<lambda>sess.
     stmt ev ''projects.AddMember.create'' (insert_project_member sess m))"

definition projects_repo_RemoveMember :: "env \<Rightarrow> ctx \<Rightarrow> uuid \<Rightarrow> uuid \<Rightarrow> (world, err, unit) op" where
  "projects_repo_RemoveMember ev c projectID userID = WithTenantTx ev ''projects.RemoveMember'' c (\<lambda>sess.
     stmt ev ''projects.RemoveMember.delete'' (modify (\<lambda>d. d\<lparr>project_members := delete_rows sess pm_TenantID
       (\<lambda>m. pm_ProjectID m = projectID \<and> pm_UserID m = userID) (project_members d)\<rparr>)))"

definition project_roster :: "session \<Rightarrow> uuid \<Rightarrow> db \<Rightarrow> MemberDetail list" where
  "project_roster sess projectID d = [member_detail u (pm_JoinedAt m).
     m \<leftarrow> select_rows sess pm_TenantID (\<lambda>m. pm_ProjectID m = projectID) (project_members d),
     u \<leftarrow> select_rows sess user_TenantID (\<lambda>u. user_ID u = pm_UserID m \<and> user_DeletedAt u = None) (users d)]"

definition projects_repo_ListMembers :: "env \<Rightarrow> ctx \<Rightarrow> uuid \<Rightarrow> int \<Rightarrow> int \<Rightarrow> (world, err, MemberDetail list \<times> int) op" where
  "projects_repo_ListMembers ev c projectID lim offset = op_map_err (Wrapped ''projects: list members'')
     (WithTenantTx ev ''projects.ListMembers'' c (\<lambda>sess.
        tx_bind (stmt ev ''projects.ListMembers.count'' (tx_query (\<lambda>d.
          count_rows sess pm_TenantID (\<lambda>m. pm_ProjectID m = projectID) (project_members d)))) (\<lambda>n.
        tx_bind (stmt ev ''projects.ListMembers.find'' (tx_query (\<lambda>d.
          page_of lim offset (sort_key md_JoinedAt (project_roster sess projectID d))))) (\<lambda>ms.
        tx_return (ms, n)))))"

definition projects_UserBelongsToTenant :: "env \<Rightarrow> ctx \<Rightarrow> uuid \<Rightarrow> (world, err, bool) op" where
  "projects_UserBelongsToTenant ev c userID = op_map_err (Wrapped ''projects: verify user tenant'')
     (WithTenantTx ev ''projects.UserBelongsToTenant'' c (\<lambda>sess. stmt ev ''projects.UserBelongsToTenant.count''
        (tx_query (\<lambda>d. live_user_count sess userID d > 0))))"

definition TeamExists :: "env \<Rightarrow> ctx \<Rightarrow> uuid \<Rightarrow> (world, err, bool) op" where
  "TeamExists ev c teamID = op_map_err (Wrapped ''projects: verify team'')
     (WithTenantTx ev ''TeamExists'' c (\<lambda>sess. stmt ev ''TeamExists.count''
        (tx_query (\<lambda>d. count_rows sess team_TenantID (\<lambda>t. team_ID t = teamID \<and> team_DeletedAt t = None) (teams d) > 0))))"

definition live_projects :: "session \<Rightarrow> db \<Rightarrow> int" where
  "live_projects sess d = count_rows sess proj_TenantID (\<lambda>p. proj_DeletedAt p = None) (projects d)"

definition projects_CountLive :: "env \<Rightarrow> ctx \<Rightarrow> (world, err, int) op" where
  "projects_CountLive ev c = op_map_err (Wrapped ''projects: count live'')
     (WithTenantTx ev ''projects.CountLive'' c (\<lambda>sess. stmt ev ''projects.CountLive.count''
        (tx_query (live_projects sess))))"

section \<open>service.go\<close>

type_synonym QuotaChecker = "env \<Rightarrow> ctx \<Rightarrow> uuid \<Rightarrow> int \<Rightarrow> (world, err, unit) op"

record projects_Service =
  prs_audit :: "Chronicle option"
  prs_quotas :: "QuotaChecker option"
  prs_notifier :: "Notifier option"

definition projects_translateNotFound :: "string \<Rightarrow> err \<Rightarrow> err" where
  "projects_translateNotFound message e = (if errors_is e projects_ErrNotFound
     then New CodeNotFound ''project not found'' else Wrap CodeInternal message e)"

definition project_conflict :: "(err \<Rightarrow> err) \<Rightarrow> err \<Rightarrow> err" where
  "project_conflict f e = (if IsUniqueViolation e
     then New CodeConflict ''a project with that slug already exists'' else f e)"

definition recordProjectAction :: "env \<Rightarrow> projects_Service \<Rightarrow> fresh \<Rightarrow> Entry \<Rightarrow> string \<Rightarrow> string \<Rightarrow> project
    \<Rightarrow> world \<Rightarrow> world" where
  "recordProjectAction ev s fr entry action verb p = chronicle ev (prs_audit s) fr
     (entry\<lparr>en_Action := action, en_TargetType := TargetProject, en_TargetID := Some (proj_ID p),
        en_Metadata := [(''name'', JStr (proj_Name p)), (''slug'', JStr (proj_Slug p)), (''status'', JStr (proj_Status p))]\<rparr>)
     \<lparr>ac_TenantID = proj_TenantID p, ac_ActorID = en_ActorID entry, ac_TargetType = TargetProject,
      ac_TargetID = proj_ID p, ac_Verb = verb, ac_Metadata = [(''name'', JStr (proj_Name p))]\<rparr>"

text \<open>Membership changes go to the activity feed only.\<close>

definition recordMembership :: "env \<Rightarrow> projects_Service \<Rightarrow> fresh \<Rightarrow> Entry \<Rightarrow> uuid \<Rightarrow> uuid \<Rightarrow> uuid \<Rightarrow> string
    \<Rightarrow> world \<Rightarrow> world" where
  "recordMembership ev s fr entry tenantID projectID userID verb w = (case prs_audit s of None \<Rightarrow> w
     | Some r \<Rightarrow> chr_RecordActivity r ev (fresh_id fr 2)
         \<lparr>ac_TenantID = tenantID, ac_ActorID = en_ActorID entry, ac_TargetType = TargetProject,
          ac_TargetID = projectID, ac_Verb = verb, ac_Metadata = [(''user_id'', JUuid userID)]\<rparr> w)"

record createProjectRequest =
  cpr_Name :: string
  cpr_Slug :: string
  cpr_Description :: string
  cpr_TeamID :: "uuid option"

definition require_team :: "env \<Rightarrow> ctx \<Rightarrow> uuid \<Rightarrow> (world, err, unit) op" where
  "require_team ev c i = op_try (TeamExists ev c i)
     (\<lambda>e. op_fail (Wrap CodeInternal ''failed to verify team'' e))
     (\<lambda>exists. if \<not> exists then op_fail (New CodeValidation ''team not found in this organization'') else op_return ())"

definition check_quota :: "env \<Rightarrow> projects_Service \<Rightarrow> ctx \<Rightarrow> uuid \<Rightarrow> (world, err, unit) op" where
  "check_quota ev s c tenantID = (case prs_quotas s of None \<Rightarrow> op_return ()
     | Some q \<Rightarrow> op_try (projects_CountLive ev c)
         (\<lambda>e. op_fail (Wrap CodeInternal ''failed to count projects'' e))
         (\<lambda>current. q ev c tenantID current))"

definition new_project :: "env \<Rightarrow> uuid \<Rightarrow> uuid \<Rightarrow> uuid \<Rightarrow> string \<Rightarrow> createProjectRequest \<Rightarrow> project" where
  "new_project ev newID tenantID actorID projectSlug inp = \<lparr>proj_ID = newID, proj_TenantID = tenantID,
     proj_TeamID = cpr_TeamID inp, proj_Name = TrimSpace (cpr_Name inp), proj_Slug = projectSlug,
     proj_Description = TrimSpace (cpr_Description inp), proj_Status = project_StatusActive,
     proj_CreatedBy = Some actorID, proj_CreatedAt = now ev, proj_UpdatedAt = now ev, proj_DeletedAt = None\<rparr>"

definition projects_Create :: "env \<Rightarrow> projects_Service \<Rightarrow> fresh \<Rightarrow> ctx \<Rightarrow> Entry \<Rightarrow> uuid \<Rightarrow> uuid \<Rightarrow> createProjectRequest
    \<Rightarrow> (world, err, project) op" where
  "projects_Create ev s fr c entry tenantID actorID inp =
     op_bind (op_lift (Resolve (unicode_lower ev) (cpr_Slug inp) (cpr_Name inp))) (\<lambda>projectSlug.
     op_bind (case cpr_TeamID inp of None \<Rightarrow> op_return () | Some i \<Rightarrow> require_team ev c i) (\<lambda>_.
     op_bind (check_quota ev s c tenantID) (\<lambda>_.
     let p = new_project ev (fresh_id fr 0) tenantID actorID projectSlug inp in
     op_try (projects_repo_Create ev c p)
       (\<lambda>e. op_fail (project_conflict (Wrap CodeInternal ''failed to create project'') e))
       (\<lambda>_ w. (Inr p, recordProjectAction ev s fr entry ActionProjectCreated VerbCreated p w)))))"

definition projects_List :: "env \<Rightarrow> ctx \<Rightarrow> ListFilter \<Rightarrow> int \<Rightarrow> int \<Rightarrow> (world, err, ProjectDetail list \<times> int) op" where
  "projects_List ev c f page pageSize =
     (if lf_Status f \<noteq> '''' \<and> lf_Status f \<noteq> project_StatusActive \<and> lf_Status f \<noteq> StatusArchived
      then op_fail (New CodeValidation ''status must be active or archived'')
      else op_map_err (Wrap CodeInternal ''failed to list projects'')
        (projects_repo_List ev c (f\<lparr>lf_Search := TrimSpace (lf_Search f)\<rparr>) pageSize
          (wrap64 (wrap64 (page - 1) * pageSize))))"

definition load_project :: "env \<Rightarrow> ctx \<Rightarrow> uuid \<Rightarrow> (world, err, project) op" where
  "load_project ev c i = op_map_err (projects_translateNotFound ''failed to load project'') (projects_FindByID ev c i)"

definition projects_Get :: "env \<Rightarrow> ctx \<Rightarrow> uuid \<Rightarrow> (world, err, project) op" where
  "projects_Get ev c i = load_project ev c i"

record updateProjectRequest =
  upr_Name :: "string option"
  upr_Slug :: "string option"
  upr_Description :: "string option"
  upr_Status :: "string option"
  upr_TeamID :: "uuid option"
  upr_ClearTeam :: bool

definition edit_project :: "env \<Rightarrow> updateProjectRequest \<Rightarrow> project \<Rightarrow> err + project" where
  "edit_project ev inp p0 = (case set_name (upr_Name inp) p0 (\<lambda>n. p0\<lparr>proj_Name := n\<rparr>) of Inl e \<Rightarrow> Inl e | Inr p1 \<Rightarrow>
     (case set_slug ev (upr_Slug inp) (proj_Name p1) p1 (\<lambda>sl. p1\<lparr>proj_Slug := sl\<rparr>) of Inl e \<Rightarrow> Inl e | Inr p2 \<Rightarrow>
      (let p3 = (case upr_Description inp of None \<Rightarrow> p2 | Some v \<Rightarrow> p2\<lparr>proj_Description := TrimSpace v\<rparr>) in
       case upr_Status inp of None \<Rightarrow> Inr p3
       | Some st \<Rightarrow> if st \<noteq> project_StatusActive \<and> st \<noteq> StatusArchived
           then Inl (New CodeValidation ''status must be active or archived'')
           else Inr (p3\<lparr>proj_Status := st\<rparr>))))"

definition edit_team_of :: "env \<Rightarrow> ctx \<Rightarrow> updateProjectRequest \<Rightarrow> project \<Rightarrow> (world, err, project) op" where
  "edit_team_of ev c inp p = (if upr_ClearTeam inp then op_return (p\<lparr>proj_TeamID := None\<rparr>)
     else (case upr_TeamID inp of None \<Rightarrow> op_return p
       | Some i \<Rightarrow> op_bind (require_team ev c i) (\<lambda>_. op_return (p\<lparr>proj_TeamID := Some i\<rparr>))))"

definition projects_Update :: "env \<Rightarrow> projects_Service \<Rightarrow> fresh \<Rightarrow> ctx \<Rightarrow> Entry \<Rightarrow> uuid \<Rightarrow> updateProjectRequest
    \<Rightarrow> (world, err, project) op" where
  "projects_Update ev s fr c entry projectID inp = op_bind (load_project ev c projectID) (\<lambda>p0.
     op_bind (op_lift (edit_project ev inp p0)) (\<lambda>p1.
     op_bind (edit_team_of ev c inp p1) (\<lambda>p.
     op_try (projects_repo_Update ev c p)
       (\<lambda>e. op_fail (project_conflict (projects_translateNotFound ''failed to update project'') e))
       (\<lambda>_ w. (Inr p, if proj_Status p = StatusArchived
          then recordProjectAction ev s fr entry ActionProjectArchived VerbArchived p w
          else recordProjectAction ev s fr entry ActionProjectUpdated VerbUpdated p w)))))"

definition projects_Delete :: "env \<Rightarrow> projects_Service \<Rightarrow> fresh \<Rightarrow> ctx \<Rightarrow> Entry \<Rightarrow> uuid \<Rightarrow> (world, err, unit) op" where
  "projects_Delete ev s fr c entry projectID = op_bind (load_project ev c projectID) (\<lambda>p.
     op_try (projects_SoftDelete ev c projectID)
       (\<lambda>e. op_fail (projects_translateNotFound ''failed to delete project'' e))
       (\<lambda>_ w. (Inr (), recordProjectAction ev s fr entry ActionProjectDeleted VerbDeleted p w)))"

definition project_invite :: "uuid \<Rightarrow> uuid \<Rightarrow> uuid \<Rightarrow> project \<Rightarrow> NotifyInput" where
  "project_invite tenantID projectID userID p = \<lparr>ni_TenantID = tenantID, ni_UserID = userID,
     ni_Type = TypeProjectAssigned, ni_Title = ''You were added to '' @ proj_Name p,
     ni_Body = ''You now have access to the '' @ proj_Name p @ '' project.'',
     ni_Metadata = [(''project_id'', JUuid projectID), (''project_slug'', JStr (proj_Slug p))]\<rparr>"

definition projects_AddMember :: "env \<Rightarrow> projects_Service \<Rightarrow> fresh \<Rightarrow> ctx \<Rightarrow> Entry \<Rightarrow> uuid \<Rightarrow> uuid \<Rightarrow> uuid
    \<Rightarrow> (world, err, unit) op" where
  "projects_AddMember ev s fr c entry tenantID projectID userID = op_bind (load_project ev c projectID) (\<lambda>_.
     op_try (projects_UserBelongsToTenant ev c userID)
       (\<lambda>e. op_fail (Wrap CodeInternal ''failed to verify user'' e))
       (\<lambda>belongs. if \<not> belongs then op_fail (New CodeNotFound ''user not found in this organization'')
     else op_try (projects_repo_AddMember ev c
            \<lparr>pm_ProjectID = projectID, pm_UserID = userID, pm_TenantID = tenantID, pm_JoinedAt = now ev\<rparr>)
       (\<lambda>e. op_fail (Wrap CodeInternal ''failed to add project member'' e))
       (\<lambda>_ w. (Inr (), notify_about ev (prs_notifier s) (fresh_id fr 3) (projects_FindByID ev c projectID)
          (project_invite tenantID projectID userID)
          (recordMembership ev s fr entry tenantID projectID userID VerbJoined w)))))"

definition projects_RemoveMember :: "env \<Rightarrow> projects_Service \<Rightarrow> fresh \<Rightarrow> ctx \<Rightarrow> Entry \<Rightarrow> uuid \<Rightarrow> uuid \<Rightarrow> uuid
    \<Rightarrow> (world, err, unit) op" where
  "projects_RemoveMember ev s fr c entry tenantID projectID userID = op_bind (load_project ev c projectID) (\<lambda>_.
     op_try (projects_repo_RemoveMember ev c projectID userID)
       (\<lambda>e. op_fail (Wrap CodeInternal ''failed to remove project member'' e))
       (\<lambda>_ w. (Inr (), recordMembership ev s fr entry tenantID projectID userID VerbLeft w)))"

definition projects_ListMembers :: "env \<Rightarrow> ctx \<Rightarrow> uuid \<Rightarrow> int \<Rightarrow> int \<Rightarrow> (world, err, MemberDetail list \<times> int) op" where
  "projects_ListMembers ev c projectID page pageSize = op_bind (load_project ev c projectID) (\<lambda>_.
     op_map_err (Wrap CodeInternal ''failed to list project members'')
       (projects_repo_ListMembers ev c projectID pageSize (wrap64 (wrap64 (page - 1) * pageSize))))"

section \<open>handler.go\<close>

datatype projects_data = DProject project | DProjects "ProjectDetail list" | DProjectMembers "MemberDetail list"
  | DProjectMessage string

definition projects_h_Create :: "env \<Rightarrow> projects_Service \<Rightarrow> fresh \<Rightarrow> gctx \<Rightarrow> string + createProjectRequest
    \<Rightarrow> projects_data handler" where
  "projects_h_Create ev s fr c req = with_caller c (\<lambda>cl. with_body c req (\<lambda>q.
     respond c (projects_Create ev s fr (ctx_tenant c) (EntryFromRequest c ActionProjectCreated) (TenantID cl) (UserID cl) q)
       (\<lambda>p. Success c 201 (DProject p))))"

definition projects_h_List :: "env \<Rightarrow> gctx \<Rightarrow> projects_data handler" where
  "projects_h_List ev c = with_caller c (\<lambda>_.
     optional_query c ''team_id'' (parse_uuid ev) ''invalid team_id'' (\<lambda>team.
     respond_page c (projects_List ev (ctx_tenant c)
       \<lparr>lf_Search = Query c ''search'', lf_Status = Query c ''status'', lf_TeamID = team\<rparr>) DProjects))"

definition projects_h_Get :: "env \<Rightarrow> gctx \<Rightarrow> projects_data handler" where
  "projects_h_Get ev c = with_caller c (\<lambda>_. uuid_param ev c ''projectID'' (\<lambda>i.
     respond c (projects_Get ev (ctx_tenant c) i) (\<lambda>p. Success c 200 (DProject p))))"

definition projects_h_Update :: "env \<Rightarrow> projects_Service \<Rightarrow> fresh \<Rightarrow> gctx \<Rightarrow> string + updateProjectRequest
    \<Rightarrow> projects_data handler" where
  "projects_h_Update ev s fr c req = with_caller c (\<lambda>_. uuid_param ev c ''projectID'' (\<lambda>i. with_body c req (\<lambda>q.
     respond c (projects_Update ev s fr (ctx_tenant c) (EntryFromRequest c ActionProjectUpdated) i q)
       (\<lambda>p. Success c 200 (DProject p)))))"

definition projects_h_Delete :: "env \<Rightarrow> projects_Service \<Rightarrow> fresh \<Rightarrow> gctx \<Rightarrow> projects_data handler" where
  "projects_h_Delete ev s fr c = with_caller c (\<lambda>_. uuid_param ev c ''projectID'' (\<lambda>i.
     respond c (projects_Delete ev s fr (ctx_tenant c) (EntryFromRequest c ActionProjectDeleted) i)
       (\<lambda>_. Success c 200 (DProjectMessage ''project deleted''))))"

definition projects_h_ListMembers :: "env \<Rightarrow> gctx \<Rightarrow> projects_data handler" where
  "projects_h_ListMembers ev c = with_caller c (\<lambda>_. uuid_param ev c ''projectID'' (\<lambda>i.
     respond_page c (projects_ListMembers ev (ctx_tenant c) i) DProjectMembers))"

definition projects_h_AddMember :: "env \<Rightarrow> projects_Service \<Rightarrow> fresh \<Rightarrow> gctx \<Rightarrow> string + uuid \<Rightarrow> projects_data handler" where
  "projects_h_AddMember ev s fr c req = with_caller c (\<lambda>cl. uuid_param ev c ''projectID'' (\<lambda>i. with_body c req (\<lambda>u.
     respond c (projects_AddMember ev s fr (ctx_tenant c) (EntryFromRequest c ActionProjectUpdated) (TenantID cl) i u)
       (\<lambda>_. Success c 200 (DProjectMessage ''member added to project'')))))"

definition projects_h_RemoveMember :: "env \<Rightarrow> projects_Service \<Rightarrow> fresh \<Rightarrow> gctx \<Rightarrow> projects_data handler" where
  "projects_h_RemoveMember ev s fr c = with_caller c (\<lambda>cl. uuid_param ev c ''projectID'' (\<lambda>i. uuid_param ev c ''userID'' (\<lambda>u.
     respond c (projects_RemoveMember ev s fr (ctx_tenant c) (EntryFromRequest c ActionProjectUpdated) (TenantID cl) i u)
       (\<lambda>_. Success c 200 (DProjectMessage ''member removed from project'')))))"

end
