(* ===== verification/Workspace_Facts.thy ===== *)
theory Workspace_Facts
  imports Projects
begin

text \<open>
  What the operations of internal/teams and internal/projects do to their tables, stated once
  as an abstract relation \<open>edit\<close> (add, rewrite, join, leave) that every operation refines,
  and the invariants of the tables along it.
\<close>

section \<open>Unique keys among live rows\<close>

definition unique_live :: "('r \<Rightarrow> uuid) \<Rightarrow> ('r \<Rightarrow> bool) \<Rightarrow> ('r \<Rightarrow> 'k) \<Rightarrow> 'r list \<Rightarrow> bool" where
  "unique_live i live k rows \<longleftrightarrow> distinct (map i rows)
     \<and> (\<forall>q\<in>set rows. \<forall>r\<in>set rows. live q \<longrightarrow> live r \<longrightarrow> k q = k r \<longrightarrow> i q = i r)"

lemma unique_liveI:
  assumes "distinct (map i rows)"
    and "\<And>q r. q \<in> set rows \<Longrightarrow> r \<in> set rows \<Longrightarrow> live q \<Longrightarrow> live r \<Longrightarrow> k q = k r \<Longrightarrow> i q = i r"
  shows "unique_live i live k rows"
  using assms unfolding unique_live_def by blast

lemma unique_liveD:
  "unique_live i live k rows \<Longrightarrow> q \<in> set rows \<Longrightarrow> r \<in> set rows \<Longrightarrow> live q \<Longrightarrow> live r \<Longrightarrow> k q = k r \<Longrightarrow> i q = i r"
  unfolding unique_live_def by blast

lemma unique_live_append:
  assumes u: "unique_live i live k rows" and i: "i x \<notin> i ` set rows"
    and x: "live x \<Longrightarrow> \<forall>q\<in>set rows. live q \<and> i q \<noteq> i x \<longrightarrow> k q \<noteq> k x"
  shows "unique_live i live k (rows @ [x])"
proof (rule unique_liveI)
  show "distinct (map i (rows @ [x]))" using u i by (simp add: unique_live_def)
  have old: "i q = i x" if "q \<in> set rows" "live q" "live x" "k q = k x" for q
    using x[OF that(3)] that by blast
  fix q r assume "q \<in> set (rows @ [x])" "r \<in> set (rows @ [x])" "live q" "live r" "k q = k r"
  then show "i q = i r" using old[of q] old[of r] unique_liveD[OF u, of q r] by (cases "q = x"; cases "r = x") simp_all
qed

lemma unique_live_update:
  assumes u: "unique_live i live k rows" and f: "\<And>r. i (f r) = i r" and P: "\<And>r. P r \<Longrightarrow> i r = j"
    and free: "\<And>r. r \<in> set (select_rows sess ten P rows) \<Longrightarrow> live (f r)
      \<Longrightarrow> \<forall>q\<in>set rows. live q \<and> i q \<noteq> i (f r) \<longrightarrow> k q \<noteq> k (f r)"
  shows "unique_live i live k (update_rows sess ten P f rows)"
proof (rule unique_liveI)
  show "distinct (map i (update_rows sess ten P f rows))"
    using u f by (simp add: unique_live_def map_update_rows)
  let ?H = "\<lambda>r. rls sess ten r \<and> P r"
  have new: "i q = i r" if "q \<in> set rows" "live q" "r \<in> set rows" "?H r" "live (f r)" "k q = k (f r)" for q r
    using free[of r] that f[of r] by (auto simp: select_rows_def)
  fix q' r' assume m: "q' \<in> set (update_rows sess ten P f rows)" "r' \<in> set (update_rows sess ten P f rows)"
    "live q'" "live r'" "k q' = k r'"
  have source: "\<exists>q\<in>set rows. i x = i q \<and> (?H q \<and> x = f q \<or> x = q)" if "x \<in> set (update_rows sess ten P f rows)" for x
    using that f by (auto simp: update_rows_def)
  obtain q r where q: "q \<in> set rows" "i q' = i q" "?H q \<and> q' = f q \<or> q' = q"
    and r: "r \<in> set rows" "i r' = i r" "?H r \<and> r' = f r \<or> r' = r"
    using source[OF m(1)] source[OF m(2)] by blast
  from q(3) r(3) show "i q' = i r'"
  proof (elim disjE conjE)
    assume "P q" "P r" then show ?thesis using P q(2) r(2) by simp
  next
    assume "rls sess ten q" "P q" "q' = f q" "r' = r"
    then show ?thesis using new[of r q] m(3-5) q r by simp
  next
    assume "q' = q" "rls sess ten r" "P r" "r' = f r"
    then show ?thesis using new[of q r] m(3-5) q r by simp
  next
    assume "q' = q" "r' = r" then show ?thesis using unique_liveD[OF u q(1) r(1)] m(3-5) q r by simp
  qed
qed

section \<open>Edits\<close>

definition desk :: "db \<Rightarrow> user list \<times> team list \<times> project list \<times> team_member list \<times> project_member list" where
  "desk d = (users d, teams d, projects d, team_members d, project_members d)"

definition team_homes :: "db \<Rightarrow> (uuid \<times> uuid) set" where
  "team_homes d = (\<lambda>x. (team_ID x, team_TenantID x)) ` set (teams d)"

definition project_homes :: "db \<Rightarrow> (uuid \<times> uuid) set" where
  "project_homes d = (\<lambda>x. (proj_ID x, proj_TenantID x)) ` set (projects d)"

definition user_homes :: "db \<Rightarrow> (uuid \<times> uuid) set" where
  "user_homes d = (\<lambda>x. (user_ID x, user_TenantID x)) ` set (users d)"

abbreviation live_team_row :: "uuid \<Rightarrow> team \<Rightarrow> bool" where
  "live_team_row i \<equiv> \<lambda>q. team_ID q = i \<and> team_DeletedAt q = None"

abbreviation live_project_row :: "uuid \<Rightarrow> project \<Rightarrow> bool" where
  "live_project_row i \<equiv> \<lambda>q. proj_ID q = i \<and> proj_DeletedAt q = None"

inductive edit :: "env \<Rightarrow> session \<Rightarrow> db \<Rightarrow> db \<Rightarrow> bool" for ev sess d d' where
  keep: "desk d' = desk d \<Longrightarrow> edit ev sess d d'"
| add_team: "desk d' = desk (d\<lparr>teams := teams d @ [x]\<rparr>) \<Longrightarrow> sess = Some (team_TenantID x)
    \<Longrightarrow> team_ID x \<notin> team_ID ` set (teams d) \<Longrightarrow> team_slug_free ev x d \<Longrightarrow> edit ev sess d d'"
| rewrite_team: "desk d' = desk (d\<lparr>teams := update_rows sess team_TenantID (live_team_row i) f (teams d)\<rparr>)
    \<Longrightarrow> (\<And>q. team_ID (f q) = team_ID q \<and> team_TenantID (f q) = team_TenantID q)
    \<Longrightarrow> (\<And>q. q \<in> set (select_rows sess team_TenantID (live_team_row i) (teams d)) \<Longrightarrow> team_slug_free ev (f q) d)
    \<Longrightarrow> edit ev sess d d'"
| add_project: "desk d' = desk (d\<lparr>projects := projects d @ [p]\<rparr>) \<Longrightarrow> sess = Some (proj_TenantID p)
    \<Longrightarrow> proj_ID p \<notin> proj_ID ` set (projects d) \<Longrightarrow> project_slug_free ev p d
    \<Longrightarrow> (\<And>i. proj_TeamID p = Some i \<Longrightarrow> (i, proj_TenantID p) \<in> team_homes d) \<Longrightarrow> edit ev sess d d'"
| rewrite_project: "desk d' = desk (d\<lparr>projects := update_rows sess proj_TenantID (live_project_row i) g (projects d)\<rparr>)
    \<Longrightarrow> (\<And>q. proj_ID (g q) = proj_ID q \<and> proj_TenantID (g q) = proj_TenantID q)
    \<Longrightarrow> (\<And>q. q \<in> set (select_rows sess proj_TenantID (live_project_row i) (projects d)) \<Longrightarrow> project_slug_free ev (g q) d)
    \<Longrightarrow> (\<And>q k. q \<in> set (select_rows sess proj_TenantID (live_project_row i) (projects d)) \<Longrightarrow> proj_TeamID (g q) = Some k
         \<Longrightarrow> (k, proj_TenantID q) \<in> team_homes d
           \<or> (\<exists>p\<in>set (projects d). proj_TeamID p = Some k \<and> proj_TenantID p = proj_TenantID q))
    \<Longrightarrow> edit ev sess d d'"
| join_team: "desk d' = desk (d\<lparr>team_members := team_members d @ [m]\<rparr>) \<Longrightarrow> sess = Some (tm_TenantID m)
    \<Longrightarrow> (tm_TeamID m, tm_TenantID m) \<in> team_homes d \<Longrightarrow> (tm_UserID m, tm_TenantID m) \<in> user_homes d \<Longrightarrow> edit ev sess d d'"
| leave_team: "desk d' = desk (d\<lparr>team_members := delete_rows sess tm_TenantID P (team_members d)\<rparr>) \<Longrightarrow> edit ev sess d d'"
| join_project: "desk d' = desk (d\<lparr>project_members := project_members d @ [n]\<rparr>) \<Longrightarrow> sess = Some (pm_TenantID n)
    \<Longrightarrow> (pm_ProjectID n, pm_TenantID n) \<in> project_homes d \<Longrightarrow> (pm_UserID n, pm_TenantID n) \<in> user_homes d \<Longrightarrow> edit ev sess d d'"
| leave_project: "desk d' = desk (d\<lparr>project_members := delete_rows sess pm_TenantID R (project_members d)\<rparr>) \<Longrightarrow> edit ev sess d d'"

section \<open>Invariants along edits\<close>

text \<open>Memberships and the teams of projects stay within one tenant.\<close>

definition homed :: "db \<Rightarrow> bool" where
  "homed d \<longleftrightarrow>
     (\<forall>m\<in>set (team_members d). (tm_TeamID m, tm_TenantID m) \<in> team_homes d \<and> (tm_UserID m, tm_TenantID m) \<in> user_homes d)
   \<and> (\<forall>m\<in>set (project_members d). (pm_ProjectID m, pm_TenantID m) \<in> project_homes d \<and> (pm_UserID m, pm_TenantID m) \<in> user_homes d)
   \<and> (\<forall>p\<in>set (projects d). \<forall>i. proj_TeamID p = Some i \<longrightarrow> (i, proj_TenantID p) \<in> team_homes d)"

definition slugs_unique :: "(string \<Rightarrow> string) \<Rightarrow> db \<Rightarrow> bool" where
  "slugs_unique ci d \<longleftrightarrow>
     unique_live team_ID (\<lambda>q. team_DeletedAt q = None) (\<lambda>q. (team_TenantID q, ci (team_Slug q))) (teams d)
   \<and> unique_live proj_ID (\<lambda>q. proj_DeletedAt q = None) (\<lambda>q. (proj_TenantID q, ci (proj_Slug q))) (projects d)"

lemma desk_simps: "desk d' = desk d \<longleftrightarrow> users d' = users d \<and> teams d' = teams d \<and> projects d' = projects d
    \<and> team_members d' = team_members d \<and> project_members d' = project_members d"
  by (auto simp: desk_def)

lemmas homes_defs = team_homes_def project_homes_def user_homes_def

lemma image_update_rows:
  "(\<And>r. g (f r) = g r) \<Longrightarrow> g ` set (update_rows sess ten P f rows) = g ` set rows"
  using map_update_rows[of P g f sess ten rows] by (metis list.set_map)

lemma set_update_rows:
  "x \<in> set (update_rows sess ten P f rows) \<Longrightarrow> x \<in> set rows \<or> (\<exists>q\<in>set (select_rows sess ten P rows). x = f q)"
  by (auto simp: update_rows_def select_rows_def)

lemma homes_eqI: "users d' = users d \<Longrightarrow> teams d' = teams d \<Longrightarrow> projects d' = projects d \<Longrightarrow>
    team_homes d' = team_homes d \<and> user_homes d' = user_homes d \<and> project_homes d' = project_homes d"
  by (simp add: homes_defs)

lemma edit_homed: "edit ev sess d d' \<Longrightarrow> homed d \<Longrightarrow> homed d'"
proof (induction rule: edit.induct)
  case (rewrite_team i f)
  have "team_homes d' = team_homes d" "user_homes d' = user_homes d" "project_homes d' = project_homes d"
    using rewrite_team(1,2) by (simp_all add: homes_defs desk_simps image_update_rows)
  then show ?case using rewrite_team(1,4) by (simp add: homed_def desk_simps)
next
  case (rewrite_project i g)
  have h: "team_homes d' = team_homes d" "user_homes d' = user_homes d" "project_homes d' = project_homes d"
    using rewrite_project(1,2) by (simp_all add: homes_defs desk_simps image_update_rows)
  have "(k, proj_TenantID p) \<in> team_homes d" if p: "p \<in> set (projects d')" "proj_TeamID p = Some k" for p k
  proof -
    from p(1) rewrite_project(1) have "p \<in> set (update_rows sess proj_TenantID (live_project_row i) g (projects d))"
      by (simp add: desk_simps)
    from set_update_rows[OF this] show ?thesis
    proof
      assume "\<exists>q\<in>set (select_rows sess proj_TenantID (live_project_row i) (projects d)). p = g q"
      then obtain q where q: "q \<in> set (select_rows sess proj_TenantID (live_project_row i) (projects d))" "p = g q" by blast
      then have t: "proj_TenantID p = proj_TenantID q" "proj_TeamID (g q) = Some k" using rewrite_project(2)[of q] p(2) by simp_all
      show ?thesis using rewrite_project(4)[OF q(1) t(2)] rewrite_project(5) t(1) by (auto simp: homed_def)
    next
      assume "p \<in> set (projects d)" then show ?thesis using rewrite_project(5) p(2) by (simp add: homed_def)
    qed
  qed
  then show ?case using rewrite_project(1,5) h by (simp add: homed_def desk_simps)
next
  case (add_team x)
  have "team_homes d' = insert (team_ID x, team_TenantID x) (team_homes d)" "user_homes d' = user_homes d" "project_homes d' = project_homes d"
    using add_team(1) by (simp_all add: homes_defs desk_simps)
  then show ?case using add_team(1,5) by (simp add: homed_def desk_simps)
next
  case (add_project p)
  have "project_homes d' = insert (proj_ID p, proj_TenantID p) (project_homes d)" "user_homes d' = user_homes d" "team_homes d' = team_homes d"
    using add_project(1) by (simp_all add: homes_defs desk_simps)
  then show ?case using add_project(1,5,6) by (simp add: homed_def desk_simps)
next
  case keep
  then have "team_homes d' = team_homes d \<and> user_homes d' = user_homes d \<and> project_homes d' = project_homes d"
    by (intro homes_eqI) (simp_all add: desk_simps)
  then show ?case using keep by (simp add: homed_def desk_simps)
next
  case (join_team m)
  then have "team_homes d' = team_homes d \<and> user_homes d' = user_homes d \<and> project_homes d' = project_homes d"
    by (intro homes_eqI) (simp_all add: desk_simps)
  then show ?case using join_team by (simp add: homed_def desk_simps)
next
  case (leave_team P)
  then have "team_homes d' = team_homes d \<and> user_homes d' = user_homes d \<and> project_homes d' = project_homes d"
    by (intro homes_eqI) (simp_all add: desk_simps)
  then show ?case using leave_team by (simp add: homed_def desk_simps set_delete_rows)
next
  case (join_project n)
  then have "team_homes d' = team_homes d \<and> user_homes d' = user_homes d \<and> project_homes d' = project_homes d"
    by (intro homes_eqI) (simp_all add: desk_simps)
  then show ?case using join_project by (simp add: homed_def desk_simps)
next
  case (leave_project R)
  then have "team_homes d' = team_homes d \<and> user_homes d' = user_homes d \<and> project_homes d' = project_homes d"
    by (intro homes_eqI) (simp_all add: desk_simps)
  then show ?case using leave_project by (simp add: homed_def desk_simps set_delete_rows)
qed

lemma team_slug_freeD: "team_slug_free ev x d \<Longrightarrow> team_DeletedAt x = None \<Longrightarrow>
    \<forall>q\<in>set (teams d). team_DeletedAt q = None \<and> team_ID q \<noteq> team_ID x \<longrightarrow>
      (team_TenantID q, citext ev (team_Slug q)) \<noteq> (team_TenantID x, citext ev (team_Slug x))"
  by (auto simp: team_slug_free_def)

lemma project_slug_freeD: "project_slug_free ev x d \<Longrightarrow> proj_DeletedAt x = None \<Longrightarrow>
    \<forall>q\<in>set (projects d). proj_DeletedAt q = None \<and> proj_ID q \<noteq> proj_ID x \<longrightarrow>
      (proj_TenantID q, citext ev (proj_Slug q)) \<noteq> (proj_TenantID x, citext ev (proj_Slug x))"
  by (auto simp: project_slug_free_def)

lemma edit_slugs: "edit ev sess d d' \<Longrightarrow> slugs_unique (citext ev) d \<Longrightarrow> slugs_unique (citext ev) d'"
proof (induction rule: edit.induct)
  case (add_team x)
  then show ?case unfolding slugs_unique_def desk_simps
    by (auto intro!: unique_live_append simp: team_slug_free_def)
next
  case (rewrite_team i f)
  have "unique_live team_ID (\<lambda>q. team_DeletedAt q = None) (\<lambda>q. (team_TenantID q, citext ev (team_Slug q)))
      (update_rows sess team_TenantID (live_team_row i) f (teams d))"
    by (rule unique_live_update[where j = i])
      (use rewrite_team(2,4) team_slug_freeD[OF rewrite_team(3)] in \<open>simp_all add: slugs_unique_def\<close>)
  then show ?case using rewrite_team(1,4) by (simp add: slugs_unique_def desk_simps)
next
  case (add_project p)
  then show ?case unfolding slugs_unique_def desk_simps
    by (auto intro!: unique_live_append simp: project_slug_free_def)
next
  case (rewrite_project i g)
  have "unique_live proj_ID (\<lambda>q. proj_DeletedAt q = None) (\<lambda>q. (proj_TenantID q, citext ev (proj_Slug q)))
      (update_rows sess proj_TenantID (live_project_row i) g (projects d))"
    by (rule unique_live_update[where j = i])
      (use rewrite_project(2,5) project_slug_freeD[OF rewrite_project(3)] in \<open>simp_all add: slugs_unique_def\<close>)
  then show ?case using rewrite_project(1,5) by (simp add: slugs_unique_def desk_simps)
qed (simp_all add: slugs_unique_def desk_simps)

end
