(* ===== verification/Workspace_Steps.thy ===== *)
theory Workspace_Steps
  imports Workspace_Facts
begin

text \<open>
  Every operation of internal/teams and internal/projects refines one \<open>edit\<close>, whether it
  succeeds or fails, with any recorder and notifier that keep their contracts.
\<close>

section \<open>Reads\<close>

lemma teams_FindByID_reads: "teams_FindByID ev c i w = (r, w') \<Longrightarrow> w' = w"
  unfolding teams_FindByID_def
  by (erule op_map_err_reads'[rotated], erule WithTenantTx_reads[rotated])
    (auto intro!: reads_only_map_err reads_only_stmt)

lemma projects_FindByID_reads: "projects_FindByID ev c i w = (r, w') \<Longrightarrow> w' = w"
  unfolding projects_FindByID_def
  by (erule op_map_err_reads'[rotated], erule WithTenantTx_reads[rotated])
    (auto intro!: reads_only_map_err reads_only_stmt)

lemma teams_FindByID_Inr: "teams_FindByID ev c i w = (Inr x, w') \<Longrightarrow>
    w' = w \<and> (\<exists>t. c = Some t \<and> live_team (Some t) (store w) i = Some x)"
  unfolding teams_FindByID_def op_map_err_Inr by (auto dest!: WithTenantTx_ok simp: tx_inv)

lemma projects_FindByID_Inr: "projects_FindByID ev c i w = (Inr x, w') \<Longrightarrow>
    w' = w \<and> (\<exists>t. c = Some t \<and> live_project (Some t) (store w) i = Some x)"
  unfolding projects_FindByID_def op_map_err_Inr by (auto dest!: WithTenantTx_ok simp: tx_inv)

lemma live_team_home: "live_team (Some t) d i = Some x \<Longrightarrow> (i, t) \<in> team_homes d"
  by (force simp: live_team_def team_homes_def dest!: select_first_SomeD)

lemma live_project_home: "live_project (Some t) d i = Some x \<Longrightarrow> (i, t) \<in> project_homes d"
  by (force simp: live_project_def project_homes_def dest!: select_first_SomeD)

lemma load_team_reads: "load_team ev c i w = (r, w') \<Longrightarrow> w' = w"
  unfolding load_team_def by (auto simp: op_map_err_eq dest: teams_FindByID_reads)

lemma load_team_Inr: "load_team ev c i w = (Inr x, w') \<Longrightarrow>
    w' = w \<and> (\<exists>t. c = Some t \<and> live_team (Some t) (store w) i = Some x)"
  unfolding load_team_def op_map_err_Inr by (rule teams_FindByID_Inr)

lemma load_project_reads: "load_project ev c i w = (r, w') \<Longrightarrow> w' = w"
  unfolding load_project_def by (auto simp: op_map_err_eq dest: projects_FindByID_reads)

lemma load_project_Inr: "load_project ev c i w = (Inr x, w') \<Longrightarrow>
    w' = w \<and> (\<exists>t. c = Some t \<and> live_project (Some t) (store w) i = Some x)"
  unfolding load_project_def op_map_err_Inr by (rule projects_FindByID_Inr)

lemma live_user_home: "live_user_count (Some t) u d > 0 \<longleftrightarrow> (\<exists>x\<in>set (users d). user_ID x = u \<and> user_TenantID x = t \<and> user_DeletedAt x = None)"
  by (auto simp: live_user_count_def count_rows_pos)

lemma teams_UserBelongs_reads: "teams_UserBelongsToTenant ev c u w = (r, w') \<Longrightarrow> w' = w"
  unfolding teams_UserBelongsToTenant_def
  by (erule op_map_err_reads'[rotated], erule WithTenantTx_reads[rotated]) (auto intro!: reads_only_stmt)

lemma projects_UserBelongs_reads: "projects_UserBelongsToTenant ev c u w = (r, w') \<Longrightarrow> w' = w"
  unfolding projects_UserBelongsToTenant_def
  by (erule op_map_err_reads'[rotated], erule WithTenantTx_reads[rotated]) (auto intro!: reads_only_stmt)

lemma teams_UserBelongs_Inr: "teams_UserBelongsToTenant ev c u w = (Inr b, w') \<Longrightarrow> \<exists>t. c = Some t \<and> b = (live_user_count (Some t) u (store w) > 0)"
  unfolding teams_UserBelongsToTenant_def op_map_err_Inr by (auto dest!: WithTenantTx_ok simp: tx_inv)

lemma projects_UserBelongs_Inr: "projects_UserBelongsToTenant ev c u w = (Inr b, w') \<Longrightarrow> \<exists>t. c = Some t \<and> b = (live_user_count (Some t) u (store w) > 0)"
  unfolding projects_UserBelongsToTenant_def op_map_err_Inr by (auto dest!: WithTenantTx_ok simp: tx_inv)

lemma TeamExists_reads: "TeamExists ev c i w = (r, w') \<Longrightarrow> w' = w"
  unfolding TeamExists_def
  by (erule op_map_err_reads'[rotated], erule WithTenantTx_reads[rotated]) (auto intro!: reads_only_stmt)

lemma TeamExists_Inr: "TeamExists ev c i w = (Inr b, w') \<Longrightarrow> \<exists>t. c = Some t
    \<and> b = (\<exists>x\<in>set (teams (store w)). team_ID x = i \<and> team_TenantID x = t \<and> team_DeletedAt x = None)"
  unfolding TeamExists_def op_map_err_Inr
  by (auto dest!: WithTenantTx_ok simp: tx_inv count_rows_pos)

lemma require_team_reads: "require_team ev c i w = (r, w') \<Longrightarrow> w' = w"
  unfolding require_team_def op_try_eq by (auto dest!: TeamExists_reads split: if_splits)

lemma require_team_Inr: "require_team ev c i w = (Inr u, w') \<Longrightarrow> \<exists>t. c = Some t \<and> (i, t) \<in> team_homes (store w)"
  unfolding require_team_def by (force dest!: op_try_fail_Inr TeamExists_Inr simp: team_homes_def split: if_splits)

section \<open>The effect of one statement\<close>

lemma edit_desk: "edit ev sess d d1 \<Longrightarrow> desk d' = desk d1 \<Longrightarrow> edit ev sess d d'"
  by (erule edit.cases) (simp_all add: edit.intros)

lemma tx_edit:
  assumes "WithTenantTx ev l c fn w = (r, w')"
    and "\<And>t a d. c = Some t \<Longrightarrow> fn (Some t) (store w) = Inr (a, d) \<Longrightarrow> edit ev c (store w) d"
  shows "edit ev c (store w) (store w')"
  using assms by (cases r) (auto dest!: WithTenantTx_rollback WithTenantTx_ok intro: edit.keep)

lemma teams_repo_Create_edit: "teams_repo_Create ev c x w = (r, w') \<Longrightarrow> edit ev c (store w) (store w')"
  unfolding teams_repo_Create_def
  by (erule tx_edit) (auto simp: insert_team_def tx_inv insert_check_None rls_def intro!: edit.add_team)

lemma write_team_Inr: "write_team ev sess i f d = Inr (n, d') \<Longrightarrow>
    d' = d\<lparr>teams := update_rows sess team_TenantID (live_team_row i) f (teams d)\<rparr>
    \<and> n = int (length (select_rows sess team_TenantID (live_team_row i) (teams d)))
    \<and> (\<forall>q\<in>set (select_rows sess team_TenantID (live_team_row i) (teams d)). team_slug_free ev (f q) d)"
  unfolding write_team_def Let_def by (auto simp: tx_inv insert_check_None)

lemma write_project_Inr: "write_project ev sess i f d = Inr (n, d') \<Longrightarrow>
    d' = d\<lparr>projects := update_rows sess proj_TenantID (live_project_row i) f (projects d)\<rparr>
    \<and> n = int (length (select_rows sess proj_TenantID (live_project_row i) (projects d)))
    \<and> (\<forall>q\<in>set (select_rows sess proj_TenantID (live_project_row i) (projects d)). project_slug_free ev (f q) d)"
  unfolding write_project_def Let_def by (auto simp: tx_inv insert_check_None)

lemma teams_repo_Update_edit: "teams_repo_Update ev c x w = (r, w') \<Longrightarrow> edit ev c (store w) (store w')"
  unfolding teams_repo_Update_def
  by (erule tx_edit) (auto simp: tx_inv dest!: write_team_Inr intro!: edit.rewrite_team[OF refl])

lemma teams_SoftDelete_edit: "teams_SoftDelete ev c i w = (r, w') \<Longrightarrow> edit ev c (store w) (store w')"
  unfolding teams_SoftDelete_def
  by (erule tx_edit) (auto simp: tx_inv dest!: write_team_Inr intro!: edit.rewrite_team[OF refl])

lemma teams_repo_AddMember_edit:
  assumes "teams_repo_AddMember ev c m w = (r, w')"
    and "\<And>t. c = Some t \<Longrightarrow> (tm_TeamID m, t) \<in> team_homes (store w) \<and> (tm_UserID m, t) \<in> user_homes (store w)"
  shows "edit ev c (store w) (store w')"
  using assms(1) unfolding teams_repo_AddMember_def
proof (rule tx_edit)
  fix t a d assume "c = Some t" and m: "stmt ev ''teams.AddMember.create'' (insert_team_member (Some t) m) (store w) = Inr (a, d)"
  then show "edit ev c (store w) d" using assms(2)[of t]
    by (auto simp: insert_team_member_def tx_inv insert_check_None rls_def split: if_splits
        intro: edit.keep edit.join_team[OF refl])
qed

lemma teams_repo_RemoveMember_edit: "teams_repo_RemoveMember ev c i u w = (r, w') \<Longrightarrow> edit ev c (store w) (store w')"
  unfolding teams_repo_RemoveMember_def
  by (erule tx_edit) (auto simp: tx_inv intro: edit.leave_team[OF refl])

lemma projects_repo_Create_edit:
  assumes "projects_repo_Create ev c p w = (r, w')"
    and "\<And>t i. c = Some t \<Longrightarrow> proj_TeamID p = Some i \<Longrightarrow> (i, t) \<in> team_homes (store w)"
  shows "edit ev c (store w) (store w')"
  using assms(1) unfolding projects_repo_Create_def
proof (rule tx_edit)
  fix t a d assume "c = Some t" "stmt ev ''projects.Create.create'' (insert_project ev (Some t) p) (store w) = Inr (a, d)"
  then show "edit ev c (store w) d" using assms(2)[of t]
    by (auto simp: insert_project_def tx_inv insert_check_None rls_def intro!: edit.add_project[OF refl])
qed

lemma projects_repo_Update_edit:
  assumes "projects_repo_Update ev c p w = (r, w')"
    and "\<And>t k. c = Some t \<Longrightarrow> proj_TeamID p = Some k \<Longrightarrow> (k, t) \<in> team_homes (store w)
      \<or> (\<exists>q\<in>set (projects (store w)). proj_TeamID q = Some k \<and> proj_TenantID q = t)"
  shows "edit ev c (store w) (store w')"
  using assms(1) unfolding projects_repo_Update_def
proof (rule tx_edit)
  fix t a d
  let ?f = "\<lambda>q. q\<lparr>proj_Name := proj_Name p, proj_Slug := proj_Slug p, proj_Description := proj_Description p,
          proj_Status := proj_Status p, proj_TeamID := proj_TeamID p, proj_UpdatedAt := now ev\<rparr>"
  assume c: "c = Some t" and "tx_bind (stmt ev ''projects.Update.update'' (write_project ev (Some t) (proj_ID p) ?f))
      (\<lambda>affected. require (affected \<noteq> 0) projects_ErrNotFound) (store w) = Inr (a, d)"
  then have d: "d = (store w)\<lparr>projects := update_rows c proj_TenantID (live_project_row (proj_ID p)) ?f (projects (store w))\<rparr>"
    and free: "\<forall>q\<in>set (select_rows c proj_TenantID (live_project_row (proj_ID p)) (projects (store w))). project_slug_free ev (?f q) (store w)"
    by (auto simp: tx_inv dest!: write_project_Inr)
  show "edit ev c (store w) d"
  proof (rule edit.rewrite_project)
    show "desk d = desk ((store w)\<lparr>projects := update_rows c proj_TenantID (live_project_row (proj_ID p)) ?f (projects (store w))\<rparr>)"
      by (simp add: d)
    show "project_slug_free ev (?f q) (store w)"
      if "q \<in> set (select_rows c proj_TenantID (live_project_row (proj_ID p)) (projects (store w)))" for q
      using free that by blast
    show "(k, proj_TenantID q) \<in> team_homes (store w)
        \<or> (\<exists>p\<in>set (projects (store w)). proj_TeamID p = Some k \<and> proj_TenantID p = proj_TenantID q)"
      if "q \<in> set (select_rows c proj_TenantID (live_project_row (proj_ID p)) (projects (store w)))" "proj_TeamID (?f q) = Some k" for q k
      using that c assms(2)[of t k] by (simp add: set_select_rows)
  qed simp
qed

lemma projects_SoftDelete_edit: "projects_SoftDelete ev c i w = (r, w') \<Longrightarrow> edit ev c (store w) (store w')"
  unfolding projects_SoftDelete_def
  by (erule tx_edit) (auto simp: tx_inv set_select_rows dest!: write_project_Inr intro!: edit.rewrite_project[OF refl])

lemma projects_repo_AddMember_edit:
  assumes "projects_repo_AddMember ev c m w = (r, w')"
    and "\<And>t. c = Some t \<Longrightarrow> (pm_ProjectID m, t) \<in> project_homes (store w) \<and> (pm_UserID m, t) \<in> user_homes (store w)"
  shows "edit ev c (store w) (store w')"
  using assms(1) unfolding projects_repo_AddMember_def
proof (rule tx_edit)
  fix t a d assume "c = Some t" and m: "stmt ev ''projects.AddMember.create'' (insert_project_member (Some t) m) (store w) = Inr (a, d)"
  then show "edit ev c (store w) d" using assms(2)[of t]
    by (auto simp: insert_project_member_def tx_inv insert_check_None rls_def split: if_splits
        intro: edit.keep edit.join_project[OF refl])
qed

lemma projects_repo_RemoveMember_edit: "projects_repo_RemoveMember ev c i u w = (r, w') \<Longrightarrow> edit ev c (store w) (store w')"
  unfolding projects_repo_RemoveMember_def
  by (erule tx_edit) (auto simp: tx_inv intro: edit.leave_project[OF refl])


section \<open>The operations of the services\<close>

lemma chronicle_desk: "chronicle_ok a \<Longrightarrow> desk (store (chronicle ev a fr e v w)) = desk (store w)"
  using chronicle_appends[of a ev fr e v w] by (auto simp: desk_simps)

lemma notify_about_desk:
  assumes "notifier_ok n" "\<And>w r w'. find_it w = (r, w') \<Longrightarrow> w' = w" "\<And>a. ni_TenantID (msg a) = t \<and> ni_UserID (msg a) = u"
  shows "desk (store (notify_about ev n i find_it msg w)) = desk (store w)"
proof -
  from assms(1) have "\<exists>xs b. notify_about ev n i find_it msg w = told xs b w \<and> (\<forall>m\<in>set xs. ntf_TenantID m = t \<and> ntf_UserID m = u)"
    by (rule notify_about_tells) (fact assms(2,3))+
  then show ?thesis by (auto simp: desk_simps)
qed

definition teams_wired :: "teams_Service \<Rightarrow> bool" where
  "teams_wired s \<longleftrightarrow> chronicle_ok (tms_audit s) \<and> notifier_ok (tms_notifier s)"

definition projects_wired :: "projects_Service \<Rightarrow> bool" where
  "projects_wired s \<longleftrightarrow> chronicle_ok (prs_audit s) \<and> notifier_ok (prs_notifier s)
     \<and> (\<forall>q ev c t n w r w'. prs_quotas s = Some q \<longrightarrow> q ev c t n w = (r, w') \<longrightarrow> w' = w)"

lemma recordTeamAction_desk: "teams_wired s \<Longrightarrow> desk (store (recordTeamAction ev s fr entry a v t w)) = desk (store w)"
  unfolding recordTeamAction_def teams_wired_def by (simp add: chronicle_desk)

lemma record_membership_desk: "teams_wired s \<Longrightarrow> desk (store (record_membership ev s fr entry a v t i u w)) = desk (store w)"
  unfolding record_membership_def teams_wired_def by (simp add: chronicle_desk)

lemma recordProjectAction_desk: "projects_wired s \<Longrightarrow> desk (store (recordProjectAction ev s fr entry a v p w)) = desk (store w)"
  unfolding recordProjectAction_def projects_wired_def by (simp add: chronicle_desk)

lemma recordMembership_desk: "projects_wired s \<Longrightarrow> desk (store (recordMembership ev s fr entry t i u v w)) = desk (store w)"
proof (cases "prs_audit s")
  case (Some r)
  assume "projects_wired s"
  then have "chronicler (chr_Record r) (chr_RecordActivity r)" using Some by (simp add: projects_wired_def chronicle_ok_def)
  from chronicler.act_appends[OF this] obtain ys where "recordMembership ev s fr entry t i u v w = chronicled [] ys w"
    unfolding recordMembership_def Some option.case by blast
  then show ?thesis by (simp add: desk_simps)
qed (simp add: recordMembership_def)

lemma teams_Create_edit:
  "teams_wired s \<Longrightarrow> teams_Create ev s fr c entry t a inp w = (r, w') \<Longrightarrow> edit ev c (store w) (store w')"
  unfolding teams_Create_def Let_def op_bind_eq op_try_eq
  by (auto intro: edit.keep edit_desk[OF _ recordTeamAction_desk] teams_repo_Create_edit)

lemma teams_Update_edit:
  "teams_wired s \<Longrightarrow> teams_Update ev s fr c entry i inp w = (r, w') \<Longrightarrow> edit ev c (store w) (store w')"
  unfolding teams_Update_def op_bind_eq op_try_eq
  by (auto dest!: load_team_reads intro: edit.keep edit_desk[OF _ recordTeamAction_desk] teams_repo_Update_edit)

lemma teams_Delete_edit:
  "teams_wired s \<Longrightarrow> teams_Delete ev s fr c entry i w = (r, w') \<Longrightarrow> edit ev c (store w) (store w')"
  unfolding teams_Delete_def op_bind_eq op_try_eq
  by (auto dest!: load_team_reads intro: edit.keep edit_desk[OF _ recordTeamAction_desk] teams_SoftDelete_edit)

lemma teams_RemoveMember_edit:
  "teams_wired s \<Longrightarrow> teams_RemoveMember ev s fr c entry t i u w = (r, w') \<Longrightarrow> edit ev c (store w) (store w')"
  unfolding teams_RemoveMember_def op_bind_eq op_try_eq
  by (auto dest!: load_team_reads intro: edit.keep edit_desk[OF _ record_membership_desk] teams_repo_RemoveMember_edit)

lemma projects_CountLive_reads: "projects_CountLive ev c w = (r, w') \<Longrightarrow> w' = w"
  unfolding projects_CountLive_def
  by (erule op_map_err_reads'[rotated], erule WithTenantTx_reads[rotated]) (auto intro!: reads_only_stmt)

lemma check_quota_reads: "projects_wired s \<Longrightarrow> check_quota ev s c t w = (r, w') \<Longrightarrow> w' = w"
  unfolding check_quota_def projects_wired_def
  by (cases "prs_quotas s") (auto simp: op_try_eq dest!: projects_CountLive_reads)

lemma projects_Delete_edit:
  "projects_wired s \<Longrightarrow> projects_Delete ev s fr c entry i w = (r, w') \<Longrightarrow> edit ev c (store w) (store w')"
  unfolding projects_Delete_def op_bind_eq op_try_eq
  by (auto dest!: load_project_reads intro: edit.keep edit_desk[OF _ recordProjectAction_desk] projects_SoftDelete_edit)

lemma projects_RemoveMember_edit:
  "projects_wired s \<Longrightarrow> projects_RemoveMember ev s fr c entry t i u w = (r, w') \<Longrightarrow> edit ev c (store w) (store w')"
  unfolding projects_RemoveMember_def op_bind_eq op_try_eq
  by (auto dest!: load_project_reads intro: edit.keep edit_desk[OF _ recordMembership_desk] projects_repo_RemoveMember_edit)


lemma teams_AddMember_edit:
  assumes s: "teams_wired s" and m: "teams_AddMember ev s fr c entry t i u w = (r, w')"
  shows "edit ev c (store w) (store w')"
proof -
  let ?m = "\<lparr>tm_TeamID = i, tm_UserID = u, tm_TenantID = t, tm_JoinedAt = now ev\<rparr>"
  let ?done = "\<lambda>w. notify_about ev (tms_notifier s) (fresh_id fr 3) (teams_FindByID ev c i) (team_invite t i u)
          (record_membership ev s fr entry ActionTeamMemberAdded VerbJoined t i u w)"
  have fin: "desk (store (?done w1)) = desk (store w1)" for w1
    using s notify_about_desk[where find_it = "teams_FindByID ev c i" and n = "tms_notifier s" and msg = "team_invite t i u" and t = t and u = u]
      teams_FindByID_reads record_membership_desk by (simp add: teams_wired_def team_invite_def)
  have "w' = w \<or> (\<exists>x r1 w1. load_team ev c i w = (Inr x, w) \<and> teams_UserBelongsToTenant ev c u w = (Inr True, w)
      \<and> teams_repo_AddMember ev c ?m w = (r1, w1) \<and> w' \<in> {w1, ?done w1})"
  proof -
    obtain x w1 where x: "load_team ev c i w = (x, w1)" by force
    obtain b w2 where b: "teams_UserBelongsToTenant ev c u w1 = (b, w2)" by force
    obtain z w3 where z: "teams_repo_AddMember ev c ?m w2 = (z, w3)" by force
    have "w1 = w" "w2 = w1" using x b load_team_reads teams_UserBelongs_reads by blast+
    then show ?thesis using m x b z unfolding teams_AddMember_def
      by (cases x; cases b; cases z) (auto simp: op_bind_def op_try_def op_fail_def split: if_splits)
  qed
  then show ?thesis
  proof (elim disjE exE conjE)
    fix x r1 w1 assume l: "load_team ev c i w = (Inr x, w)" "teams_UserBelongsToTenant ev c u w = (Inr True, w)"
      and a: "teams_repo_AddMember ev c ?m w = (r1, w1)" and w': "w' \<in> {w1, ?done w1}"
    obtain q where t: "c = Some q" "live_team (Some q) (store w) i = Some x" using load_team_Inr[OF l(1)] by blast
    have "(i, q) \<in> team_homes (store w)" using live_team_home t(2) by blast
    moreover have "(u, q) \<in> user_homes (store w)"
      using teams_UserBelongs_Inr[OF l(2)] t(1) by (force simp: live_user_home user_homes_def)
    ultimately have "edit ev c (store w) (store w1)" using a t(1) by (intro teams_repo_AddMember_edit) auto
    then show ?thesis using w' edit_desk[OF _ fin] by blast
  qed (auto intro: edit.keep)
qed

lemma projects_AddMember_edit:
  assumes s: "projects_wired s" and m: "projects_AddMember ev s fr c entry t i u w = (r, w')"
  shows "edit ev c (store w) (store w')"
proof -
  let ?m = "\<lparr>pm_ProjectID = i, pm_UserID = u, pm_TenantID = t, pm_JoinedAt = now ev\<rparr>"
  let ?done = "\<lambda>w. notify_about ev (prs_notifier s) (fresh_id fr 3) (projects_FindByID ev c i) (project_invite t i u)
          (recordMembership ev s fr entry t i u VerbJoined w)"
  have fin: "desk (store (?done w1)) = desk (store w1)" for w1
    using s notify_about_desk[where find_it = "projects_FindByID ev c i" and n = "prs_notifier s" and msg = "project_invite t i u" and t = t and u = u]
      projects_FindByID_reads recordMembership_desk by (simp add: projects_wired_def project_invite_def)
  have "w' = w \<or> (\<exists>x r1 w1. load_project ev c i w = (Inr x, w) \<and> projects_UserBelongsToTenant ev c u w = (Inr True, w)
      \<and> projects_repo_AddMember ev c ?m w = (r1, w1) \<and> w' \<in> {w1, ?done w1})"
  proof -
    obtain x w1 where x: "load_project ev c i w = (x, w1)" by force
    obtain b w2 where b: "projects_UserBelongsToTenant ev c u w1 = (b, w2)" by force
    obtain z w3 where z: "projects_repo_AddMember ev c ?m w2 = (z, w3)" by force
    have "w1 = w" "w2 = w1" using x b load_project_reads projects_UserBelongs_reads by blast+
    then show ?thesis using m x b z unfolding projects_AddMember_def
      by (cases x; cases b; cases z) (auto simp: op_bind_def op_try_def op_fail_def split: if_splits)
  qed
  then show ?thesis
  proof (elim disjE exE conjE)
    fix x r1 w1 assume l: "load_project ev c i w = (Inr x, w)" "projects_UserBelongsToTenant ev c u w = (Inr True, w)"
      and a: "projects_repo_AddMember ev c ?m w = (r1, w1)" and w': "w' \<in> {w1, ?done w1}"
    obtain q where t: "c = Some q" "live_project (Some q) (store w) i = Some x" using load_project_Inr[OF l(1)] by blast
    have "(i, q) \<in> project_homes (store w)" using live_project_home t(2) by blast
    moreover have "(u, q) \<in> user_homes (store w)"
      using projects_UserBelongs_Inr[OF l(2)] t(1) by (force simp: live_user_home user_homes_def)
    ultimately have "edit ev c (store w) (store w1)" using a t(1) by (intro projects_repo_AddMember_edit) auto
    then show ?thesis using w' edit_desk[OF _ fin] by blast
  qed (auto intro: edit.keep)
qed

text \<open>What a successful or failed \<open>Create\<close> of a project has established.\<close>

lemma projects_Create_steps:
  assumes s: "projects_wired s" and m: "projects_Create ev s fr c entry t a inp w = (r, w')"
  shows "(w' = w \<and> isl r) \<or> (\<exists>sl p r1 w1. p = new_project ev (fresh_id fr 0) t a sl inp
     \<and> (\<forall>i. cpr_TeamID inp = Some i \<longrightarrow> (\<exists>q. c = Some q \<and> (i, q) \<in> team_homes (store w)))
     \<and> check_quota ev s c t w = (Inr (), w) \<and> projects_repo_Create ev c p w = (r1, w1)
     \<and> ((\<exists>e. r1 = Inl e \<and> isl r \<and> w' = w1)
        \<or> r1 = Inr () \<and> r = Inr p \<and> w' = recordProjectAction ev s fr entry ActionProjectCreated VerbCreated p w1))"
proof -
  let ?team = "case cpr_TeamID inp of None \<Rightarrow> op_return () | Some i \<Rightarrow> require_team ev c i"
  have team: "w2 = w1 \<and> (\<forall>i. x = Inr () \<and> cpr_TeamID inp = Some i \<longrightarrow> (\<exists>q. c = Some q \<and> (i, q) \<in> team_homes (store w1)))"
    if "?team w1 = (x, w2)" for x w1 w2
    using that by (cases "cpr_TeamID inp") (auto dest: require_team_reads require_team_Inr)
  show ?thesis
  proof (cases "Resolve (unicode_lower ev) (cpr_Slug inp) (cpr_Name inp)")
    case (Inl e) then show ?thesis using m unfolding projects_Create_def op_bind_eq by auto
  next
    case (Inr sl)
    obtain x w1 where x: "?team w = (x, w1)" by force
    obtain y w2 where y: "check_quota ev s c t w1 = (y, w2)" by force
    let ?p = "new_project ev (fresh_id fr 0) t a sl inp"
    obtain r1 w3 where r1: "projects_repo_Create ev c ?p w2 = (r1, w3)" by force
    have e: "w1 = w" "w2 = w1" using team[OF x] check_quota_reads[OF s y] by auto
    show ?thesis using m x y r1 Inr e team[OF x] unfolding projects_Create_def op_bind_eq op_try_eq Let_def
      by (cases x; cases y; cases r1) auto
  qed
qed

lemma projects_Create_edit:
  assumes s: "projects_wired s" and m: "projects_Create ev s fr c entry t a inp w = (r, w')"
  shows "edit ev c (store w) (store w')"
  using projects_Create_steps[OF assms]
proof (elim disjE exE conjE)
  fix sl p r1 w1 assume p: "p = new_project ev (fresh_id fr 0) t a sl inp"
    and h: "\<forall>i. cpr_TeamID inp = Some i \<longrightarrow> (\<exists>q. c = Some q \<and> (i, q) \<in> team_homes (store w))"
    and c: "projects_repo_Create ev c p w = (r1, w1)"
  have e: "edit ev c (store w) (store w1)"
    by (rule projects_repo_Create_edit[OF c]) (use p h in \<open>auto simp: new_project_def\<close>)
  { assume "w' = w1" then show ?thesis using e by simp }
  { assume "w' = recordProjectAction ev s fr entry ActionProjectCreated VerbCreated p w1"
    then show ?thesis using edit_desk[OF e recordProjectAction_desk[OF s]] by simp }
qed (auto intro: edit.keep)

lemma edit_project_TeamID: "edit_project ev inp p = Inr p' \<Longrightarrow> proj_TeamID p' = proj_TeamID p"
  unfolding edit_project_def set_name_def set_slug_def
  by (auto simp: Let_def split: option.splits sum.splits if_splits)

lemma projects_Update_edit:
  assumes s: "projects_wired s" and m: "projects_Update ev s fr c entry i inp w = (r, w')"
  shows "edit ev c (store w) (store w')"
proof -
  have te: "w2 = w1 \<and> (\<forall>p'. x = Inr p' \<longrightarrow> proj_TeamID p' \<in> {None, proj_TeamID p}
      \<or> (\<exists>k q. proj_TeamID p' = Some k \<and> c = Some q \<and> (k, q) \<in> team_homes (store w1)))"
    if "edit_team_of ev c inp p w1 = (x, w2)" for p x w1 w2
    using that unfolding edit_team_of_def
    by (auto simp: op_bind_eq split: if_splits option.splits dest: require_team_reads require_team_Inr)
  obtain x w1 where x: "load_project ev c i w = (x, w1)" by force
  then have w1: "w1 = w" using load_project_reads by blast
  have "w' = w \<or> (\<exists>p0 p1 p r1 w3. x = Inr p0 \<and> edit_project ev inp p0 = Inr p1 \<and> edit_team_of ev c inp p1 w = (Inr p, w)
     \<and> projects_repo_Update ev c p w = (r1, w3) \<and> desk (store w') = desk (store w3))"
  proof (cases "\<exists>p0 p1. x = Inr p0 \<and> edit_project ev inp p0 = Inr p1")
    case True
    then obtain p0 p1 where p: "x = Inr p0" "edit_project ev inp p0 = Inr p1" by blast
    obtain y w2 where y: "edit_team_of ev c inp p1 w = (y, w2)" by force
    then have w2: "w2 = w" using te by blast
    show ?thesis
    proof (cases y)
      case (Inl e) then show ?thesis using m x w1 p y w2 unfolding projects_Update_def by (simp add: op_bind_def op_lift_def op_try_def op_fail_def)
    next
      case (Inr p2)
      obtain z w3 where z: "projects_repo_Update ev c p2 w = (z, w3)" by force
      then have "desk (store w') = desk (store w3)" using m x w1 p y w2 Inr unfolding projects_Update_def
        by (cases z) (auto simp: op_bind_def op_lift_def op_try_def op_fail_def recordProjectAction_desk[OF s])
      then show ?thesis using p y w2 z Inr by blast
    qed
  next
    case False
    then show ?thesis using m x w1 unfolding projects_Update_def
      by (cases x) (auto simp: op_bind_def op_lift_def op_try_def op_fail_def split: sum.splits)
  qed
  then show ?thesis
  proof (elim disjE exE conjE)
    fix p0 p1 p r1 w3 assume p0: "x = Inr p0" and p1: "edit_project ev inp p0 = Inr p1"
      and p: "edit_team_of ev c inp p1 w = (Inr p, w)" and u: "projects_repo_Update ev c p w = (r1, w3)"
      and d: "desk (store w') = desk (store w3)"
    obtain q where q: "c = Some q" "live_project (Some q) (store w) i = Some p0"
      using load_project_Inr x p0 by blast
    then have "p0 \<in> set (projects (store w))" "proj_TenantID p0 = q"
      by (auto simp: live_project_def dest: select_first_SomeD)
    then have "edit ev c (store w) (store w3)"
      using te[OF p] edit_project_TeamID[OF p1] q(1) by (intro projects_repo_Update_edit[OF u]) auto
    then show ?thesis using edit_desk d by blast
  qed (auto intro: edit.keep)
qed

end
