(* ===== verification/Workspace_Props.thy ===== *)
theory Workspace_Props
  imports Workspace_Steps Billing_Props
begin

text \<open>
  Teams and projects as \<open>internal/routes\<close> wires them (audit, billing and notifications behind
  their interfaces), and their properties: nothing crosses tenants, live slugs are unique, the
  plan bounds the projects, and what deleting a team and adding a member do.
\<close>

section \<open>The quota interface of projects\<close>

text \<open>\<open>QuotaChecker\<close>: a check changes nothing, and when it passes there is room for one more.\<close>

locale project_quota =
  fixes check :: QuotaChecker and room :: "uuid \<Rightarrow> int \<Rightarrow> db \<Rightarrow> bool"
  assumes check_keeps: "check ev c t' n w = (r, w') \<Longrightarrow> w' = w"
    and check_grants: "check ev (Some t) t' n w = (Inr u, w') \<Longrightarrow> room t n (store w)"
begin

lemma granted:
  assumes "prs_quotas s = Some check" "check_quota ev s (Some t) t' w = (Inr u, w')"
  shows "room t (live_projects (Some t) (store w)) (store w)"
proof -
  have "op_try (projects_CountLive ev (Some t)) (\<lambda>e. op_fail (Wrap CodeInternal ''failed to count projects'' e))
      (check ev (Some t) t') w = (Inr u, w')" using assms by (simp add: check_quota_def)
  from op_try_fail_Inr[OF this] obtain n w1 where n: "projects_CountLive ev (Some t) w = (Inr n, w1)"
    and q: "check ev (Some t) t' n w1 = (Inr u, w')" by blast
  have "w1 = w" using n projects_CountLive_reads by blast
  moreover have "n = live_projects (Some t) (store w)"
    using n by (auto simp: projects_CountLive_def op_map_err_Inr tx_inv dest!: WithTenantTx_Some)
  ultimately show ?thesis using check_grants[OF q] by simp
qed

lemma wires: "prs_quotas s = Some check \<Longrightarrow> chronicle_ok (prs_audit s) \<Longrightarrow> notifier_ok (prs_notifier s) \<Longrightarrow> projects_wired s"
  unfolding projects_wired_def using check_keeps by auto

lemma Create_room:
  assumes s: "prs_quotas s = Some check" "projects_wired s"
    and m: "projects_Create ev s fr (Some t) entry t' a inp w = (Inr p, w')"
  shows "room t (live_projects (Some t) (store w)) (store w)
    \<and> desk (store w') = desk ((store w)\<lparr>projects := projects (store w) @ [p]\<rparr>)
    \<and> proj_TenantID p = t \<and> proj_TeamID p = cpr_TeamID inp \<and> proj_Status p = project_StatusActive \<and> proj_DeletedAt p = None
    \<and> (\<forall>i. cpr_TeamID inp = Some i \<longrightarrow> (i, t) \<in> team_homes (store w))"
proof -
  obtain sl w1 where p: "p = new_project ev (fresh_id fr 0) t' a sl inp"
    and h: "\<forall>i. cpr_TeamID inp = Some i \<longrightarrow> (i, t) \<in> team_homes (store w)"
    and q: "check_quota ev s (Some t) t' w = (Inr (), w)" and c: "projects_repo_Create ev (Some t) p w = (Inr (), w1)"
    and w': "w' = recordProjectAction ev s fr entry ActionProjectCreated VerbCreated p w1"
    using projects_Create_steps[OF s(2) m] by auto
  have "store w1 = (store w)\<lparr>projects := projects (store w) @ [p]\<rparr> \<and> proj_TenantID p = t"
    using c by (auto simp: projects_repo_Create_def insert_project_def tx_inv insert_check_None rls_def dest!: WithTenantTx_Some)
  then show ?thesis using granted[OF s(1) q] recordProjectAction_desk[OF s(2)] w' h p by (simp add: new_project_def)
qed

end

section \<open>Wiring\<close>

definition projects_left :: "uuid \<Rightarrow> int \<Rightarrow> db \<Rightarrow> bool" where
  "projects_left t n d \<longleftrightarrow> (\<exists>p. effective_plan t d = Some p
     \<and> (case plan_MaxProjects p of None \<Rightarrow> True | Some k \<Rightarrow> n < k))"

interpretation project_slots: project_quota CheckProjectQuota projects_left
proof
  show "CheckProjectQuota ev c t' n w = (r, w') \<Longrightarrow> w' = w" for ev c t' n w r w'
    unfolding CheckProjectQuota_def op_bind_eq by (auto split: option.splits if_splits dest!: activePlan_reads)
  show "CheckProjectQuota ev (Some t) t' n w = (Inr u, w') \<Longrightarrow> projects_left t n (store w)" for ev t t' n w u w'
  proof -
    assume "CheckProjectQuota ev (Some t) t' n w = (Inr u, w')"
    then obtain p w1 where p: "activePlan ev (Some t) w = (Inr p, w1)"
      and q: "case plan_MaxProjects p of None \<Rightarrow> True | Some k \<Rightarrow> n < k"
      unfolding CheckProjectQuota_def op_bind_Inr by (force split: option.splits if_splits)
    show "projects_left t n (store w)" using activePlan_Inr[OF p] q by (auto simp: projects_left_def)
  qed
qed

definition platform_teams :: "codec \<Rightarrow> teams_Service" where
  "platform_teams cd = \<lparr>tms_audit = Some platform_chronicle, tms_notifier = Some (platform_notify cd)\<rparr>"

definition platform_projects :: "codec \<Rightarrow> projects_Service" where
  "platform_projects cd = \<lparr>prs_audit = Some platform_chronicle, prs_quotas = Some CheckProjectQuota,
     prs_notifier = Some (platform_notify cd)\<rparr>"

lemma platform_teams_wired: "teams_wired (platform_teams cd)"
  unfolding teams_wired_def platform_teams_def
  using platform_chronicle_ok platform_notifier_ok by simp

lemma platform_projects_wired: "projects_wired (platform_projects cd)"
  by (rule project_slots.wires)
    (use platform_chronicle_ok platform_notifier_ok in \<open>simp_all add: platform_projects_def\<close>)

section \<open>Histories\<close>

text \<open>
  One request of any tenant: an operation of the two services, or anything else, which leaves
  their tables alone and keeps every user in its tenant.
\<close>

inductive ws_step :: "(string \<Rightarrow> string) \<Rightarrow> world \<Rightarrow> world \<Rightarrow> bool" for ci where
  create_team: "citext ev = ci \<Longrightarrow> teams_Create ev (platform_teams cd) fr c e t a i1 w = (r1, w') \<Longrightarrow> ws_step ci w w'"
| update_team: "citext ev = ci \<Longrightarrow> teams_Update ev (platform_teams cd) fr c e i i2 w = (r2, w') \<Longrightarrow> ws_step ci w w'"
| delete_team: "citext ev = ci \<Longrightarrow> teams_Delete ev (platform_teams cd) fr c e i w = (r3, w') \<Longrightarrow> ws_step ci w w'"
| join_team: "citext ev = ci \<Longrightarrow> teams_AddMember ev (platform_teams cd) fr c e t i u w = (r4, w') \<Longrightarrow> ws_step ci w w'"
| leave_team: "citext ev = ci \<Longrightarrow> teams_RemoveMember ev (platform_teams cd) fr c e t i u w = (r5, w') \<Longrightarrow> ws_step ci w w'"
| create_project: "citext ev = ci \<Longrightarrow> projects_Create ev (platform_projects cd) fr c e t a i3 w = (r6, w') \<Longrightarrow> ws_step ci w w'"
| update_project: "citext ev = ci \<Longrightarrow> projects_Update ev (platform_projects cd) fr c e i i4 w = (r7, w') \<Longrightarrow> ws_step ci w w'"
| delete_project: "citext ev = ci \<Longrightarrow> projects_Delete ev (platform_projects cd) fr c e i w = (r8, w') \<Longrightarrow> ws_step ci w w'"
| join_project: "citext ev = ci \<Longrightarrow> projects_AddMember ev (platform_projects cd) fr c e t i u w = (r9, w') \<Longrightarrow> ws_step ci w w'"
| leave_project: "citext ev = ci \<Longrightarrow> projects_RemoveMember ev (platform_projects cd) fr c e t i u w = (r10, w') \<Longrightarrow> ws_step ci w w'"
| other: "teams (store w') = teams (store w) \<Longrightarrow> projects (store w') = projects (store w)
    \<Longrightarrow> team_members (store w') = team_members (store w) \<Longrightarrow> project_members (store w') = project_members (store w)
    \<Longrightarrow> user_homes (store w) \<subseteq> user_homes (store w') \<Longrightarrow> ws_step ci w w'"

lemmas team_edits = teams_Create_edit teams_Update_edit teams_Delete_edit teams_AddMember_edit teams_RemoveMember_edit
lemmas project_edits = projects_Create_edit projects_Update_edit projects_Delete_edit projects_AddMember_edit projects_RemoveMember_edit

lemma ws_step_edit:
  assumes "ws_step ci w w'"
  shows "(\<exists>ev c. citext ev = ci \<and> edit ev c (store w) (store w'))
    \<or> teams (store w') = teams (store w) \<and> projects (store w') = projects (store w)
      \<and> team_members (store w') = team_members (store w) \<and> project_members (store w') = project_members (store w)
      \<and> user_homes (store w) \<subseteq> user_homes (store w')"
  using assms by cases (blast dest: team_edits[OF platform_teams_wired] project_edits[OF platform_projects_wired])+

lemma homed_mono:
  assumes "homed d" "teams d' = teams d" "projects d' = projects d" "team_members d' = team_members d"
    "project_members d' = project_members d" "user_homes d \<subseteq> user_homes d'"
  shows "homed d'"
  using assms unfolding homed_def team_homes_def project_homes_def by auto

lemma ws_step_homed: "ws_step ci w w' \<Longrightarrow> homed (store w) \<Longrightarrow> homed (store w')"
  using ws_step_edit[of ci w w'] edit_homed homed_mono[of "store w" "store w'"] by blast

lemma ws_step_slugs: "ws_step ci w w' \<Longrightarrow> slugs_unique ci (store w) \<Longrightarrow> slugs_unique ci (store w')"
  using ws_step_edit[of ci w w'] edit_slugs by (fastforce simp: slugs_unique_def)

section \<open>Properties\<close>

text \<open>C22: rosters never cross tenants: through any sequence of requests of any tenants on teams and
  projects, with any ids in the bodies and any failures, every team or project member is a
  user of the tenant of that team or project, and a project's team is a team of its tenant.\<close>

theorem rosters_within_tenant:
  assumes "(ws_step ci)\<^sup>*\<^sup>* w w'" and "homed (store w)"
  shows "(\<forall>m\<in>set (team_members (store w')). (tm_TeamID m, tm_TenantID m) \<in> team_homes (store w')
      \<and> (tm_UserID m, tm_TenantID m) \<in> user_homes (store w'))
    \<and> (\<forall>m\<in>set (project_members (store w')). (pm_ProjectID m, pm_TenantID m) \<in> project_homes (store w')
      \<and> (pm_UserID m, pm_TenantID m) \<in> user_homes (store w'))
    \<and> (\<forall>p\<in>set (projects (store w')). \<forall>i. proj_TeamID p = Some i \<longrightarrow> (i, proj_TenantID p) \<in> team_homes (store w'))"
proof -
  from assms have "homed (store w')" by (induction rule: rtranclp_induct) (auto dest: ws_step_homed)
  then show ?thesis unfolding homed_def .
qed

text \<open>The ids of teams and projects are unique, and so are the slugs of the live ones of a tenant,
  whatever their case, through any sequence of creations, renames and deletions.\<close>

theorem live_slugs_unique:
  assumes "(ws_step ci)\<^sup>*\<^sup>* w w'" and "slugs_unique ci (store w)"
  shows "slugs_unique ci (store w')"
  using assms by (induction rule: rtranclp_induct) (auto dest: ws_step_slugs)

lemma live_projects_add:
  "desk d' = desk (d\<lparr>projects := projects d @ [p]\<rparr>) \<Longrightarrow> proj_TenantID p = t \<Longrightarrow> proj_DeletedAt p = None \<Longrightarrow>
     live_projects (Some t) d' = live_projects (Some t) d + 1"
  by (simp add: live_projects_def count_rows_def select_rows_def rls_def desk_simps)

text \<open>C23: a project is created within the plan: the live projects of the tenant, the new one counted, do
  not exceed the limit of the plan in force, and a team given with it is a team of the tenant.\<close>

theorem project_within_plan:
  assumes "projects_Create ev (platform_projects cd) fr (Some t) entry ten a inp w = (Inr p, w')"
  shows "\<exists>pl. effective_plan t (store w) = Some pl
    \<and> (case plan_MaxProjects pl of None \<Rightarrow> True | Some k \<Rightarrow> live_projects (Some t) (store w') \<le> k)
    \<and> projects (store w') = projects (store w) @ [p] \<and> proj_TenantID p = t \<and> proj_Status p = project_StatusActive
    \<and> (\<forall>i. proj_TeamID p = Some i \<longrightarrow> (i, t) \<in> team_homes (store w))"
proof -
  have s: "prs_quotas (platform_projects cd) = Some CheckProjectQuota" by (simp add: platform_projects_def)
  from project_slots.Create_room[OF s platform_projects_wired assms]
  have r: "projects_left t (live_projects (Some t) (store w)) (store w)"
    and d: "desk (store w') = desk ((store w)\<lparr>projects := projects (store w) @ [p]\<rparr>)"
    and p: "proj_TenantID p = t" "proj_TeamID p = cpr_TeamID inp" "proj_Status p = project_StatusActive" "proj_DeletedAt p = None"
    and h: "\<forall>i. cpr_TeamID inp = Some i \<longrightarrow> (i, t) \<in> team_homes (store w)" by blast+
  have "live_projects (Some t) (store w') = live_projects (Some t) (store w) + 1"
    by (rule live_projects_add[OF d p(1,4)])
  then show ?thesis using r d p h unfolding projects_left_def by (force simp: desk_simps split: option.splits)
qed

lemma select_first_updated:
  "(\<And>q. \<not> P (f q)) \<Longrightarrow> select_first sess ten P (update_rows sess ten P f rows) = None"
  by (induction rows) (simp_all add: select_first_def update_rows_def)

lemma teams_Delete_Inr:
  assumes "teams_Delete ev (platform_teams cd) fr (Some t) entry i w = (Inr u, w')"
  shows "desk (store w') = desk ((store w)\<lparr>teams := update_rows (Some t) team_TenantID (live_team_row i)
      (\<lambda>q. q\<lparr>team_DeletedAt := Some (now ev), team_UpdatedAt := now ev\<rparr>) (teams (store w))\<rparr>)
    \<and> live_team (Some t) (store w) i \<noteq> None"
proof -
  obtain x w1 where x: "load_team ev (Some t) i w = (Inr x, w1)" and r: "op_try (teams_SoftDelete ev (Some t) i)
       (\<lambda>e. op_fail (teams_translateNotFound ''failed to delete team'' e))
       (\<lambda>_ w. (Inr (), recordTeamAction ev (platform_teams cd) fr entry ActionTeamDeleted VerbDeleted x w)) w1 = (Inr u, w')"
    using assms unfolding teams_Delete_def op_bind_Inr by blast
  obtain w2 where d: "teams_SoftDelete ev (Some t) i w1 = (Inr (), w2)"
    and w': "w' = recordTeamAction ev (platform_teams cd) fr entry ActionTeamDeleted VerbDeleted x w2"
    using op_try_fail_Inr[OF r] by auto
  have w1: "w1 = w" "live_team (Some t) (store w) i \<noteq> None" using load_team_Inr[OF x] by auto
  from d[unfolded teams_SoftDelete_def w1] have "store w2 = (store w)\<lparr>teams := update_rows (Some t) team_TenantID (live_team_row i)
      (\<lambda>q. q\<lparr>team_DeletedAt := Some (now ev), team_UpdatedAt := now ev\<rparr>) (teams (store w))\<rparr>"
    by (fastforce simp: tx_inv dest!: WithTenantTx_Some write_team_Inr)
  then show ?thesis unfolding w' recordTeamAction_desk[OF platform_teams_wired] using w1(2) by simp
qed

text \<open>Deleting a team deletes nothing else and detaches nothing: projects and members stay row for row,
  so its projects keep pointing at it, but the team is no longer found and its projects show
  no team.\<close>

theorem team_delete_keeps_projects:
  assumes "teams_Delete ev (platform_teams cd) fr (Some t) entry i w = (Inr u, w')"
  shows "projects (store w') = projects (store w) \<and> team_members (store w') = team_members (store w)
    \<and> project_members (store w') = project_members (store w) \<and> map team_ID (teams (store w')) = map team_ID (teams (store w))
    \<and> live_team (Some t) (store w) i \<noteq> None \<and> live_team (Some t) (store w') i = None
    \<and> (\<forall>p. proj_TeamID p = Some i \<longrightarrow> fst (snd (project_detail (Some t) (store w') p)) = None)"
proof -
  let ?f = "\<lambda>q. q\<lparr>team_DeletedAt := Some (now ev), team_UpdatedAt := now ev\<rparr>"
  have d: "desk (store w') = desk ((store w)\<lparr>teams := update_rows (Some t) team_TenantID (live_team_row i) ?f (teams (store w))\<rparr>)"
    and l: "live_team (Some t) (store w) i \<noteq> None" using teams_Delete_Inr[OF assms] by blast+
  then have "teams (store w') = update_rows (Some t) team_TenantID (live_team_row i) ?f (teams (store w))" by (simp add: desk_simps)
  moreover from this have "live_team (Some t) (store w') i = None"
    unfolding live_team_def by (simp only:) (rule select_first_updated, simp)
  moreover have "projects (store w') = projects (store w) \<and> team_members (store w') = team_members (store w)
    \<and> project_members (store w') = project_members (store w)" using d by (simp add: desk_simps)
  moreover have "map team_ID (update_rows (Some t) team_TenantID (live_team_row i) ?f (teams (store w))) = map team_ID (teams (store w))"
    by (rule map_update_rows) simp
  ultimately show ?thesis using l by (simp add: project_detail_def)
qed

section \<open>Adding a member, end to end\<close>

lemma TrimSpace_Cons: "0 \<le> byte c \<Longrightarrow> byte c < 128 \<Longrightarrow> \<not> is_space (byte c) \<Longrightarrow> TrimSpace (c # s) \<noteq> ''''"
  by (simp add: TrimSpace_def trim_list_def dropWhile_append3)

lemma Notify_run:
  assumes "\<And>l. sql_fault ev l = None" "TrimSpace (ni_Title inp) \<noteq> ''''" "k \<notin> ntf_ID ` set (ntfs_of w)"
    and "ni_TenantID inp \<in> tenant_ID ` set (tenants (store w))" "ni_UserID inp \<in> user_ID ` set (users (store w))"
  shows "platform_notify cd ev k inp w = (Inr (), (let n = new_notification ev k (ni_TenantID inp) (ni_UserID inp) inp in
    told [n] (PublishNotification ev cd n (hub w)) w))"
  using assms by (simp add: platform_notify_def Notify_def Let_def notifications_repo_Create_def op_try_def
      WithTenantTxID_run insert_notification_def tx_bind_def tx_query_def insert_check_def rls_def raise_def tx_return_def
      modify_def new_notification_def platform_publish told_def)

lemma teams_FindByID_run:
  assumes "\<And>l. sql_fault ev l = None" "live_team (Some t) (store w) i = Some x"
  shows "teams_FindByID ev (Some t) i w = (Inr x, w)"
  using assms by (simp add: teams_FindByID_def op_map_err_def op_try_def WithTenantTx_run tx_map_err_def take_row_def op_return_def)

lemma teams_repo_AddMember_run:
  assumes "\<And>l. sql_fault ev l = None" "tm_TenantID m = t" "tm_TeamID m \<in> team_ID ` set (teams (store w))"
    "tm_UserID m \<in> user_ID ` set (users (store w))" "t \<in> tenant_ID ` set (tenants (store w))"
  shows "\<exists>xs. teams_repo_AddMember ev (Some t) m w = (Inr (), w\<lparr>store := (store w)\<lparr>team_members := team_members (store w) @ xs\<rparr>\<rparr>)
    \<and> (\<exists>q\<in>set (team_members (store w) @ xs). tm_TeamID q = tm_TeamID m \<and> tm_UserID q = tm_UserID m)"
proof (cases "\<exists>q\<in>set (team_members (store w)). tm_TeamID q = tm_TeamID m \<and> tm_UserID q = tm_UserID m")
  case True
  then have "teams_repo_AddMember ev (Some t) m w = (Inr (), w\<lparr>store := (store w)\<lparr>team_members := team_members (store w) @ []\<rparr>\<rparr>)"
    using assms by (simp add: teams_repo_AddMember_def WithTenantTx_run insert_team_member_def tx_bind_def tx_query_def rls_def tx_return_def)
  then show ?thesis using True by (metis append_Nil2)
next
  case False
  then have "teams_repo_AddMember ev (Some t) m w = (Inr (), w\<lparr>store := (store w)\<lparr>team_members := team_members (store w) @ [m]\<rparr>\<rparr>)"
    using assms by (auto simp: teams_repo_AddMember_def WithTenantTx_run insert_team_member_def tx_bind_def tx_query_def rls_def
        tx_return_def insert_check_def raise_def modify_def)
  then show ?thesis by (metis in_set_conv_decomp)
qed

text \<open>C24: adding a user of the tenant to a live team succeeds, and tells the user: the membership is there,
  a notification of that user is stored, and its event is on the way to the user's live
  streams, whatever the audit trail did.\<close>

theorem AddMember_tells_user:
  assumes "\<And>l. sql_fault ev l = None" and "live_team (Some t) (store w) i = Some x"
    and "v \<in> set (users (store w))" "user_ID v = u" "user_TenantID v = t" "user_DeletedAt v = None"
    and "t \<in> tenant_ID ` set (tenants (store w))" and "fresh_id fr 3 \<notin> ntf_ID ` set (ntfs_of w)"
  shows "\<exists>w' n. teams_AddMember ev (platform_teams cd) fr (Some t) entry t i u w = (Inr (), w')
    \<and> (\<exists>m\<in>set (team_members (store w')). tm_TeamID m = i \<and> tm_UserID m = u)
    \<and> ntfs_of w' = ntfs_of w @ [n] \<and> ntf_TenantID n = t \<and> ntf_UserID n = u \<and> ntf_Type n = TypeTeamInvite
    \<and> hub w' = Publish ev cd (notification_event ev n) (hub w)"
proof -
  let ?s = "platform_teams cd"
  let ?m = "\<lparr>tm_TeamID = i, tm_UserID = u, tm_TenantID = t, tm_JoinedAt = now ev\<rparr>"
  let ?inp = "team_invite t i u x"
  have i: "i \<in> team_ID ` set (teams (store w))" using assms(2) by (auto simp: live_team_def dest: select_first_SomeD)
  have u: "u \<in> user_ID ` set (users (store w))" using assms(3,4) by blast
  obtain xs where a: "teams_repo_AddMember ev (Some t) ?m w = (Inr (), w\<lparr>store := (store w)\<lparr>team_members := team_members (store w) @ xs\<rparr>\<rparr>)"
    and q: "\<exists>q\<in>set (team_members (store w) @ xs). tm_TeamID q = i \<and> tm_UserID q = u"
    using teams_repo_AddMember_run[OF assms(1), of ?m t w] i u assms(7) by auto
  let ?w1 = "w\<lparr>store := (store w)\<lparr>team_members := team_members (store w) @ xs\<rparr>\<rparr>"
  have "chronicle_ok (tms_audit ?s)" using platform_chronicle_ok by (simp add: platform_teams_def)
  then obtain ls vs where r: "record_membership ev ?s fr entry ActionTeamMemberAdded VerbJoined t i u ?w1 = chronicled ls vs ?w1"
    unfolding record_membership_def using chronicle_appends by meson
  let ?w2 = "chronicled ls vs ?w1"
  have l: "live_team (Some t) (store ?w2) i = Some x" using assms(2) by (simp add: live_team_def)
  define n where "n = new_notification ev (fresh_id fr 3) (ni_TenantID ?inp) (ni_UserID ?inp) ?inp"
  have "TrimSpace (ni_Title ?inp) \<noteq> ''''" unfolding team_invite_def
    by (simp add: TrimSpace_Cons byte_def is_space_def within_def)
  then have nt: "platform_notify cd ev (fresh_id fr 3) ?inp ?w2 = (Inr (), told [n] (PublishNotification ev cd n (hub w)) ?w2)"
    using assms(1,7,8) u by (subst Notify_run) (auto simp: Let_def n_def team_invite_def)
  have ub: "teams_UserBelongsToTenant ev (Some t) u w = (Inr True, w)"
    using assms(1,3-6) by (auto simp: teams_UserBelongsToTenant_def op_map_err_def op_try_def WithTenantTx_run tx_query_def op_return_def live_user_home)
  have ld: "load_team ev (Some t) i w = (Inr x, w)"
    by (simp add: load_team_def op_map_err_def op_try_def op_return_def teams_FindByID_run[OF assms(1,2)])
  have nf: "tms_notifier ?s = Some (platform_notify cd)" by (simp add: platform_teams_def)
  have "teams_AddMember ev ?s fr (Some t) entry t i u w = (Inr (), told [n] (PublishNotification ev cd n (hub w)) ?w2)"
    unfolding teams_AddMember_def by (simp add: op_bind_def op_try_def ld ub a r notify_about_def nf teams_FindByID_run[OF assms(1) l] nt)
  moreover have "ntf_TenantID n = t \<and> ntf_UserID n = u \<and> ntf_Type n = TypeTeamInvite"
    by (simp add: n_def new_notification_def team_invite_def)
  ultimately show ?thesis using q by (auto simp: PublishNotification_def)
qed

section \<open>Witnesses\<close>

text \<open>Team 40 of tenant 1, with project 50 attached.\<close>

definition demo_team :: team where
  "demo_team = \<lparr>team_ID = 40, team_TenantID = 1, team_Name = ''Core'', team_Slug = ''core'', team_Description = '''',
     team_CreatedBy = Some 10, team_CreatedAt = 0, team_UpdatedAt = 0, team_DeletedAt = None\<rparr>"

definition demo_project :: project where
  "demo_project = \<lparr>proj_ID = 50, proj_TenantID = 1, proj_TeamID = Some 40, proj_Name = ''App'', proj_Slug = ''app'',
     proj_Description = '''', proj_Status = ''active'', proj_CreatedBy = Some 10, proj_CreatedAt = 0, proj_UpdatedAt = 0,
     proj_DeletedAt = None\<rparr>"

definition demo_desk :: world where
  "demo_desk = demo_billing_world\<lparr>store := (store demo_billing_world)\<lparr>teams := [demo_team], projects := [demo_project]\<rparr>\<rparr>"

definition demo_new_project :: createProjectRequest where
  "demo_new_project = \<lparr>cpr_Name = ''Web'', cpr_Slug = ''web'', cpr_Description = '''', cpr_TeamID = Some 40\<rparr>"

definition demo_created :: "(err + project) \<times> world" where
  "demo_created = projects_Create demo_env (platform_projects demo_codec) demo_fresh (Some 1) demo_bill_entry 1 10 demo_new_project demo_desk"

definition demo_joined_team :: "(err + unit) \<times> world" where
  "demo_joined_team = teams_AddMember demo_env (platform_teams demo_codec) demo_fresh (Some 1) demo_bill_entry 1 40 11 demo_desk"

definition demo_deleted_team :: "(err + unit) \<times> world" where
  "demo_deleted_team = teams_Delete demo_env (platform_teams demo_codec) demo_fresh (Some 1) demo_bill_entry 40 demo_desk"

lemma demo_desk_ok: "homed (store demo_desk)" "slugs_unique (citext demo_env) (store demo_desk)"
  by (simp_all add: homed_def team_homes_def demo_desk_def demo_billing_world_def demo_db_def empty_db_def
      demo_team_def demo_project_def slugs_unique_def unique_live_def)

theorem rosters_within_tenant_witness:
  "\<exists>m. team_members (store (snd demo_joined_team)) = [m] \<and> tm_UserID m = 11
    \<and> (tm_UserID m, tm_TenantID m) \<in> user_homes (store (snd demo_joined_team))
    \<and> (tm_TeamID m, tm_TenantID m) \<in> team_homes (store (snd demo_joined_team))"
proof -
  have "ws_step (citext demo_env) demo_desk (snd demo_joined_team)"
    by (rule ws_step.join_team[OF refl, of _ _ _ _ _ _ _ _ _ "fst demo_joined_team"]) (simp add: demo_joined_team_def)
  from rosters_within_tenant[OF r_into_rtranclp[of "ws_step (citext demo_env)", OF this] demo_desk_ok(1)]
  have h: "\<forall>m\<in>set (team_members (store (snd demo_joined_team))). (tm_TeamID m, tm_TenantID m) \<in> team_homes (store (snd demo_joined_team))
      \<and> (tm_UserID m, tm_TenantID m) \<in> user_homes (store (snd demo_joined_team))"
    by blast
  have "map tm_UserID (team_members (store (snd demo_joined_team))) = [11]" unfolding demo_joined_team_def by code_simp
  with h show ?thesis by auto
qed

theorem live_slugs_unique_witness:
  "slugs_unique (citext demo_env) (store (snd demo_created)) \<and> map proj_Slug (projects (store (snd demo_created))) = [''app'', ''web'']"
proof -
  have "ws_step (citext demo_env) demo_desk (snd demo_created)"
    by (rule ws_step.create_project[OF refl, of _ _ _ _ _ _ _ _ _ "fst demo_created"]) (simp add: demo_created_def)
  from live_slugs_unique[OF r_into_rtranclp[of "ws_step (citext demo_env)", OF this] demo_desk_ok(2)]
  have u: "slugs_unique (citext demo_env) (store (snd demo_created))" .
  have "map proj_Slug (projects (store (snd demo_created))) = [''app'', ''web'']" unfolding demo_created_def by code_simp
  with u show ?thesis by blast
qed

theorem project_within_plan_witness:
  "\<exists>p. demo_created = (Inr p, snd demo_created) \<and> projects (store (snd demo_created)) = [demo_project, p] \<and> proj_TeamID p = Some 40"
proof -
  have "\<not> isl (fst demo_created)" unfolding demo_created_def by code_simp
  from okI[OF this] obtain p where p: "demo_created = (Inr p, snd demo_created)" by blast
  then have m: "projects_Create demo_env (platform_projects demo_codec) demo_fresh (Some 1) demo_bill_entry 1 10 demo_new_project demo_desk
      = (Inr p, snd demo_created)" by (simp add: demo_created_def)
  have t: "map proj_TeamID (projects (store (snd demo_created))) = [Some 40, Some 40]" unfolding demo_created_def by code_simp
  have d: "projects (store demo_desk) = [demo_project]" by (simp add: demo_desk_def)
  from project_within_plan[OF m] t d p show ?thesis by auto
qed

theorem team_delete_keeps_projects_witness:
  "projects (store (snd demo_deleted_team)) = [demo_project] \<and> proj_TeamID demo_project = Some 40
    \<and> live_team (Some 1) (store (snd demo_deleted_team)) 40 = None"
proof -
  have "fst demo_deleted_team = Inr ()" unfolding demo_deleted_team_def by code_simp
  then have m: "teams_Delete demo_env (platform_teams demo_codec) demo_fresh (Some 1) demo_bill_entry 40 demo_desk = (Inr (), snd demo_deleted_team)"
    by (simp add: demo_deleted_team_def prod_eq_iff)
  from team_delete_keeps_projects[OF m] show ?thesis by (simp add: demo_desk_def demo_project_def)
qed

theorem AddMember_tells_user_witness:
  "\<exists>w' n. teams_AddMember demo_env (platform_teams demo_codec) demo_fresh (Some 1) demo_bill_entry 1 40 11 demo_desk = (Inr (), w')
    \<and> ntfs_of w' = ntfs_of demo_desk @ [n] \<and> ntf_UserID n = 11"
proof -
  have f: "sql_fault demo_env l = None" for l by (simp add: demo_env_def)
  have l: "live_team (Some 1) (store demo_desk) 40 = Some demo_team" by code_simp
  have v: "demo_user 11 ''bob@x'' \<in> set (users (store demo_desk))" "user_ID (demo_user 11 ''bob@x'') = 11"
    "user_TenantID (demo_user 11 ''bob@x'') = 1" "user_DeletedAt (demo_user 11 ''bob@x'') = None"
    "1 \<in> tenant_ID ` set (tenants (store demo_desk))" "fresh_id demo_fresh 3 \<notin> ntf_ID ` set (ntfs_of demo_desk)"
    by code_simp+
  from AddMember_tells_user[OF f l v] show ?thesis by blast
qed

end
