(* ===== verification/Metrics.thy ===== *)
theory Metrics
  imports Billing Paths
begin

text \<open>
  internal/platform/metrics: the process-lifetime counters, the SQL function \<open>platform_stats()\<close>
  of migrations/000016, file system usage, and the hand-written Prometheus exposition of
  \<open>/metrics\<close> with its optional token. Go's \<open>uint64\<close> and \<open>int64\<close> atomics are 64-bit words.
  A \<open>float64\<close> quotient is kept as numerator and
  denominator; dividing and formatting it is the parameter \<open>fmtf\<close> (digits after the point).
\<close>

section \<open>The registry\<close>

record Registry =
  startedAt :: gotime
  requestsTotal :: "64 word"
  requests2xx :: "64 word"
  requests4xx :: "64 word"
  requests5xx :: "64 word"
  inFlight :: "64 word"
  latencyNanosSum :: "64 word"
  cacheHits :: "64 word"
  cacheMisses :: "64 word"
  sseClients :: "64 word"

definition New_registry :: "gotime \<Rightarrow> Registry" where
  "New_registry t = \<lparr>startedAt = t, requestsTotal = 0, requests2xx = 0, requests4xx = 0, requests5xx = 0,
     inFlight = 0, latencyNanosSum = 0, cacheHits = 0, cacheMisses = 0, sseClients = 0\<rparr>"

text \<open>The two halves of the middleware, before and after \<open>c.Next()\<close>.\<close>

definition request_begins :: "Registry \<Rightarrow> Registry" where
  "request_begins r = r\<lparr>inFlight := inFlight r + 1\<rparr>"

definition request_ends :: "duration \<Rightarrow> int \<Rightarrow> Registry \<Rightarrow> Registry" where
  "request_ends elapsed status r =
     (let r = r\<lparr>inFlight := inFlight r - 1\<rparr>;
          r = r\<lparr>requestsTotal := requestsTotal r + 1, latencyNanosSum := latencyNanosSum r + word_of_int elapsed\<rparr>
      in if status \<ge> 200 \<and> status < 300 then r\<lparr>requests2xx := requests2xx r + 1\<rparr>
         else if status \<ge> 400 \<and> status < 500 then r\<lparr>requests4xx := requests4xx r + 1\<rparr>
         else if status \<ge> 500 then r\<lparr>requests5xx := requests5xx r + 1\<rparr> else r)"

text \<open>Nil-safe: the receiver of these methods may be a nil pointer.\<close>

definition RecordCacheHit :: "Registry option \<Rightarrow> Registry option" where
  "RecordCacheHit r = map_option (\<lambda>r. r\<lparr>cacheHits := cacheHits r + 1\<rparr>) r"

definition RecordCacheMiss :: "Registry option \<Rightarrow> Registry option" where
  "RecordCacheMiss r = map_option (\<lambda>r. r\<lparr>cacheMisses := cacheMisses r + 1\<rparr>) r"

definition AddSSEClients :: "int \<Rightarrow> Registry option \<Rightarrow> Registry option" where
  "AddSSEClients delta r = map_option (\<lambda>r. r\<lparr>sseClients := sseClients r + word_of_int delta\<rparr>) r"

text \<open>\<open>DefaultObserver\<close> is an interface holding the registry pointer; \<open>None\<close> until \<open>Setup\<close> assigns it.\<close>

definition ObserveHit :: "Registry option \<Rightarrow> Registry option" where
  "ObserveHit observer = (case observer of None \<Rightarrow> None | Some _ \<Rightarrow> RecordCacheHit observer)"

definition ObserveMiss :: "Registry option \<Rightarrow> Registry option" where
  "ObserveMiss observer = (case observer of None \<Rightarrow> None | Some _ \<Rightarrow> RecordCacheMiss observer)"

type_synonym quotient = "int \<times> int"

record Snapshot =
  UptimeSeconds :: quotient
  RequestsTotal :: "64 word"
  Requests2xx :: "64 word"
  Requests4xx :: "64 word"
  Requests5xx :: "64 word"
  InFlight :: "64 word"
  AvgLatencyMillis :: quotient
  CacheHits :: "64 word"
  CacheMisses :: "64 word"
  CacheHitRate :: quotient
  SSEClients :: "64 word"

definition snapshot :: "gotime \<Rightarrow> Registry option \<Rightarrow> Snapshot" where
  "snapshot t r = (case r of
     None \<Rightarrow> \<lparr>UptimeSeconds = (0, 1), RequestsTotal = 0, Requests2xx = 0, Requests4xx = 0, Requests5xx = 0, InFlight = 0,
        AvgLatencyMillis = (0, 1), CacheHits = 0, CacheMisses = 0, CacheHitRate = (0, 1), SSEClients = 0\<rparr>
   | Some r \<Rightarrow> (let tot = requestsTotal r; hits = cacheHits r; misses = cacheMisses r in
       \<lparr>UptimeSeconds = (t - startedAt r, second), RequestsTotal = tot, Requests2xx = requests2xx r,
        Requests4xx = requests4xx r, Requests5xx = requests5xx r, InFlight = inFlight r,
        AvgLatencyMillis = (if tot > 0 then (uint (latencyNanosSum r), uint tot * 1000000) else (0, 1)),
        CacheHits = hits, CacheMisses = misses,
        CacheHitRate = (if hits + misses > 0 then (uint hits, uint (hits + misses)) else (0, 1)),
        SSEClients = sseClients r\<rparr>))"

section \<open>platform\_stats()\<close>

record platformStats =
  ps_Tenants :: int
  ps_Users :: int
  ps_Teams :: int
  ps_Projects :: int
  ps_PendingInvitations :: int
  ps_ActiveAPIKeys :: int
  ps_Files :: int
  ps_StorageBytes :: int
  ps_AuditEvents30d :: int
  ps_ActiveUsers7d :: int

definition no_stats :: platformStats where
  "no_stats = \<lparr>ps_Tenants = 0, ps_Users = 0, ps_Teams = 0, ps_Projects = 0, ps_PendingInvitations = 0,
     ps_ActiveAPIKeys = 0, ps_Files = 0, ps_StorageBytes = 0, ps_AuditEvents30d = 0, ps_ActiveUsers7d = 0\<rparr>"

definition count_all :: "('r \<Rightarrow> bool) \<Rightarrow> 'r list \<Rightarrow> int" where
  "count_all P rows = int (length (filter P rows))"

text \<open>A SECURITY DEFINER function of the migration role: it sees the rows of every tenant.\<close>

definition platform_stats :: "gotime \<Rightarrow> db \<Rightarrow> platformStats" where
  "platform_stats t d = \<lparr>
     ps_Tenants = count_all (\<lambda>r. tenant_DeletedAt r = None) (tenants d),
     ps_Users = count_all (\<lambda>r. user_DeletedAt r = None) (users d),
     ps_Teams = count_all (\<lambda>r. team_DeletedAt r = None) (teams d),
     ps_Projects = count_all (\<lambda>r. proj_DeletedAt r = None) (projects d),
     ps_PendingInvitations = count_all (\<lambda>r. inv_Status r = ''pending'' \<and> inv_ExpiresAt r > t) (invitations d),
     ps_ActiveAPIKeys = count_all (\<lambda>r. key_RevokedAt r = None
        \<and> (case key_ExpiresAt r of None \<Rightarrow> True | Some x \<Rightarrow> x > t)) (api_keys d),
     ps_Files = count_all (\<lambda>r. True) (files d),
     ps_StorageBytes = sum_list (map file_SizeBytes (files d)),
     ps_AuditEvents30d = count_all (\<lambda>r. al_CreatedAt r > t - 30 * (24 * hour)) (audit_logs d),
     ps_ActiveUsers7d = count_all (\<lambda>r. user_DeletedAt r = None
        \<and> (case user_LastLoginAt r of None \<Rightarrow> False | Some x \<Rightarrow> x > t - 7 * (24 * hour))) (users d)\<rparr>"

text \<open>How the query goes: no pool, a row, no row, an error, or nothing within three seconds.\<close>

datatype stats_query = NoHandle | Answered platformStats | NoRows | Failed | TimedOut

definition queryPlatformStats :: "stats_query option \<Rightarrow> platformStats \<times> bool" where
  "queryPlatformStats q = (case q of None \<Rightarrow> (no_stats, False)
   | Some NoHandle \<Rightarrow> (no_stats, False) | Some (Answered s) \<Rightarrow> (s, True) | Some NoRows \<Rightarrow> (no_stats, True)
   | Some Failed \<Rightarrow> (no_stats, False) | Some TimedOut \<Rightarrow> (no_stats, False))"

section \<open>disk\_linux.go\<close>

text \<open>The fields of \<open>syscall.Statfs_t\<close> the code reads; the system call is a parameter.\<close>

record Statfs_t =
  Bsize :: int
  Blocks :: "64 word"
  Bavail :: "64 word"

definition statfsUsage :: "(string \<Rightarrow> Statfs_t option) \<Rightarrow> string \<Rightarrow> (64 word \<times> 64 word) option" where
  "statfsUsage sys path = (case sys (if path = '''' then ''.'' else path) of None \<Rightarrow> None
   | Some st \<Rightarrow> if Bsize st \<le> 0 then None
       else let block = word_of_int (Bsize st); totalBytes = block * Blocks st; freeBytes = block * Bavail st in
         if freeBytes > totalBytes then None else Some (totalBytes - freeBytes, totalBytes))"

section \<open>The exposition\<close>

record metric =
  m_name :: string
  m_help :: string
  m_typ :: string
  m_value :: string

definition newline :: char where "newline = CHR 0x0A"

definition write_metric :: "metric \<Rightarrow> string" where
  "write_metric m = ''# HELP '' @ m_name m @ '' '' @ m_help m @ [newline] @ ''# TYPE '' @ m_name m @ '' '' @ m_typ m
     @ [newline] @ m_name m @ '' '' @ m_value m @ [newline]"

definition gauge :: "string \<Rightarrow> string \<Rightarrow> string \<Rightarrow> metric" where
  "gauge n h v = \<lparr>m_name = n, m_help = h, m_typ = ''gauge'', m_value = v\<rparr>"

definition counter :: "string \<Rightarrow> string \<Rightarrow> string \<Rightarrow> metric" where
  "counter n h v = \<lparr>m_name = n, m_help = h, m_typ = ''counter'', m_value = v\<rparr>"

definition u64 :: "64 word \<Rightarrow> string" where "u64 w = decimal (uint w)"
definition i64 :: "64 word \<Rightarrow> string" where "i64 w = decimal (sint w)"

definition process_metrics :: "(nat \<Rightarrow> quotient \<Rightarrow> string) \<Rightarrow> Snapshot \<Rightarrow> metric list" where
  "process_metrics fmtf s = [
     gauge ''saas_uptime_seconds'' ''Process uptime in seconds.'' (fmtf 0 (UptimeSeconds s)),
     counter ''saas_api_requests_total'' ''Total HTTP requests served since start.'' (u64 (RequestsTotal s)),
     counter ''saas_api_requests_2xx_total'' ''HTTP requests answered 2xx since start.'' (u64 (Requests2xx s)),
     counter ''saas_api_requests_4xx_total'' ''HTTP requests answered 4xx since start.'' (u64 (Requests4xx s)),
     counter ''saas_api_requests_5xx_total'' ''HTTP requests answered 5xx since start.'' (u64 (Requests5xx s)),
     gauge ''saas_api_in_flight'' ''HTTP requests currently being served.'' (i64 (InFlight s)),
     gauge ''saas_api_latency_avg_millis'' ''Mean request latency in milliseconds since start.'' (fmtf 3 (AvgLatencyMillis s)),
     counter ''saas_cache_hits_total'' ''Redis cache hits since start.'' (u64 (CacheHits s)),
     counter ''saas_cache_misses_total'' ''Redis cache misses since start (includes fail-open fallbacks).'' (u64 (CacheMisses s)),
     gauge ''saas_cache_hit_rate'' ''Cache hit rate in [0,1] since start.'' (fmtf 4 (CacheHitRate s)),
     gauge ''saas_sse_clients'' ''Currently connected SSE notification subscribers.'' (i64 (SSEClients s))]"

definition domain_metrics :: "platformStats \<Rightarrow> metric list" where
  "domain_metrics s = [
     gauge ''saas_tenants'' ''Total organizations.'' (decimal (ps_Tenants s)),
     gauge ''saas_users'' ''Total users across all organizations.'' (decimal (ps_Users s)),
     gauge ''saas_teams'' ''Total teams across all organizations.'' (decimal (ps_Teams s)),
     gauge ''saas_projects'' ''Total projects across all organizations.'' (decimal (ps_Projects s)),
     gauge ''saas_invitations_pending'' ''Pending (unredeemed, unexpired) invitations.'' (decimal (ps_PendingInvitations s)),
     gauge ''saas_api_keys_active'' ''Unrevoked, unexpired API keys.'' (decimal (ps_ActiveAPIKeys s)),
     gauge ''saas_files'' ''Total stored files.'' (decimal (ps_Files s)),
     gauge ''saas_storage_bytes'' ''Total file bytes recorded in the catalog.'' (decimal (ps_StorageBytes s)),
     gauge ''saas_audit_events_30d'' ''Audit events recorded in the last 30 days.'' (decimal (ps_AuditEvents30d s)),
     gauge ''saas_active_users_7d'' ''Users with a login in the last 7 days.'' (decimal (ps_ActiveUsers7d s))]"

definition disk_metrics :: "(64 word \<times> 64 word) option \<Rightarrow> metric list" where
  "disk_metrics u = (case u of None \<Rightarrow> [] | Some (used, tot) \<Rightarrow> [
     gauge ''saas_storage_disk_used_bytes'' ''Bytes used on the filesystem holding the upload volume.'' (u64 used),
     gauge ''saas_storage_disk_total_bytes'' ''Total bytes on the filesystem holding the upload volume.'' (u64 tot)])"

record DBStats =
  OpenConnections :: int
  InUse :: int
  Idle :: int
  WaitCount :: int

definition pool_metrics :: "DBStats option \<Rightarrow> metric list" where
  "pool_metrics p = (case p of None \<Rightarrow> [] | Some st \<Rightarrow> [
     gauge ''saas_db_open_connections'' ''Open DB connections in the pool.'' (decimal (OpenConnections st)),
     gauge ''saas_db_in_use'' ''DB connections currently in use.'' (decimal (InUse st)),
     gauge ''saas_db_idle'' ''Idle DB connections in the pool.'' (decimal (Idle st)),
     counter ''saas_db_wait_count_total'' ''Total waits for a pooled DB connection.'' (decimal (WaitCount st))])"

text \<open>What a scrape finds outside the registry: the statistics query, the disk, the pool.\<close>

record scrape =
  sc_query :: "stats_query option"
  sc_statfs :: "string \<Rightarrow> Statfs_t option"
  sc_pool :: "DBStats option"

definition exposition :: "(nat \<Rightarrow> quotient \<Rightarrow> string) \<Rightarrow> gotime \<Rightarrow> Registry option \<Rightarrow> scrape \<Rightarrow> string \<Rightarrow> metric list" where
  "exposition fmtf t r s root = process_metrics fmtf (snapshot t r)
     @ (case queryPlatformStats (sc_query s) of (st, have_stats) \<Rightarrow> if have_stats then domain_metrics st else [])
     @ disk_metrics (statfsUsage (sc_statfs s) root) @ pool_metrics (sc_pool s)"

definition metrics_token_ok :: "string \<Rightarrow> gctx \<Rightarrow> bool" where
  "metrics_token_ok token c \<longleftrightarrow> token = '''' \<or> EqualFold (TrimSpace (GetHeader c ''Authorization'')) (''Bearer '' @ token)"

text \<open>Status and body; a refused scrape has no body.\<close>

definition metrics_Handler ::
  "(nat \<Rightarrow> quotient \<Rightarrow> string) \<Rightarrow> gotime \<Rightarrow> Registry option \<Rightarrow> scrape \<Rightarrow> string \<Rightarrow> string \<Rightarrow> gctx \<Rightarrow> int \<times> string option" where
  "metrics_Handler fmtf t r s root token c =
     (if \<not> metrics_token_ok token c then (401, None)
      else (200, Some (concat (map write_metric (exposition fmtf t r s root)))))"

section \<open>What a scraper reads\<close>

text \<open>The text format's sample lines: neither empty nor a comment, the name up to the first space.\<close>

definition sample_of :: "string \<Rightarrow> (string \<times> string) option" where
  "sample_of line = (if line = '''' \<or> hd line = CHR ''#'' then None else split_at CHR '' '' line)"

definition samples :: "string \<Rightarrow> (string \<times> string) list" where
  "samples text = List.map_filter sample_of (Split text newline)"

definition sample_safe :: "metric \<Rightarrow> bool" where
  "sample_safe m \<longleftrightarrow> m_name m \<noteq> '''' \<and> hd (m_name m) \<noteq> CHR ''#'' \<and> CHR '' '' \<notin> set (m_name m)
     \<and> newline \<notin> set (m_name m) \<and> newline \<notin> set (m_help m) \<and> newline \<notin> set (m_typ m) \<and> newline \<notin> set (m_value m)"

lemma split_at_append: "c \<notin> set a \<Longrightarrow> split_at c (a @ c # b) = Some (a, b)"
  by (induction a) auto

lemma newline_neq [simp]: "newline \<noteq> CHR '' ''" "newline \<noteq> CHR ''#''" "CHR '' '' \<noteq> newline" "CHR ''#'' \<noteq> newline"
  by (simp_all add: newline_def)

lemma sample_of_comment [simp]: "sample_of (CHR ''#'' # s) = None"
  by (simp add: sample_of_def)

lemma samples_write:
  assumes "sample_safe m"
  shows "samples (write_metric m @ rest) = (m_name m, m_value m) # samples rest"
proof -
  let ?h = "''# HELP '' @ m_name m @ '' '' @ m_help m" and ?t = "''# TYPE '' @ m_name m @ '' '' @ m_typ m"
    and ?v = "m_name m @ '' '' @ m_value m"
  have n: "newline \<notin> set ?h" "newline \<notin> set ?t" "newline \<notin> set ?v"
    using assms by (auto simp: sample_safe_def newline_def)
  have "Split (write_metric m @ rest) newline = ?h # ?t # ?v # Split rest newline"
    using Split_append[OF n(1), of "?t @ newline # ?v @ newline # rest"] Split_append[OF n(2), of "?v @ newline # rest"]
      Split_append[OF n(3), of rest] by (simp add: write_metric_def)
  moreover have "sample_of ?v = Some (m_name m, m_value m)"
    using assms split_at_append[of "CHR '' ''" "m_name m" "m_value m"] by (simp add: sample_of_def sample_safe_def hd_append)
  ultimately show ?thesis by (simp add: samples_def map_filter_simps)
qed

lemma samples_all:
  "(\<And>m. m \<in> set ms \<Longrightarrow> sample_safe m) \<Longrightarrow> samples (concat (map write_metric ms)) = map (\<lambda>m. (m_name m, m_value m)) ms"
proof (induction ms)
  case Nil
  then show ?case by (simp add: samples_def map_filter_simps sample_of_def)
next
  case (Cons m ms)
  then show ?case by (simp add: samples_write)
qed

lemma decimal_nat_line: "c \<in> set (decimal_nat n) \<Longrightarrow> is_digit c"
proof (induction n rule: decimal_nat.induct)
  case (1 n)
  have d: "is_digit (char_of (48 + k))" if "k < 10" for k :: nat
  proof -
    have "byte (char_of (48 + k)) = int (of_char (char_of (48 + k) :: char))" unfolding byte_def by (rule of_nat_of_char[symmetric])
    then show ?thesis using that by (simp add: is_digit_def within_def)
  qed
  show ?case 
  proof (cases "n < 10")
    case True
    then show ?thesis using 1(2) d[of n] by (simp add: decimal_nat.simps[of n])
  next
    case False
    then have "c \<in> set (decimal_nat (n div 10)) \<or> c = char_of (48 + n mod 10)" using 1(2) decimal_nat.simps[of n] by auto
    then show ?thesis using 1(1)[OF False] d[of "n mod 10"] by auto
  qed
qed

lemma decimal_line [simp]: "newline \<notin> set (decimal i)"
proof -
  have "\<not> is_digit newline" by code_simp
  then have "newline \<notin> set (decimal_nat n)" for n using decimal_nat_line by blast
  then show ?thesis by (simp add: decimal_def newline_def)
qed

lemma u64_line [simp]: "newline \<notin> set (u64 w)" "newline \<notin> set (i64 w)"
  by (simp_all add: u64_def i64_def)

lemma process_metrics_safe:
  assumes "\<And>n q. newline \<notin> set (fmtf n q)" and "m \<in> set (process_metrics fmtf s)"
  shows "sample_safe m"
proof -
  have "list_all sample_safe (process_metrics fmtf s)" using assms(1)
    by (simp add: process_metrics_def gauge_def counter_def sample_safe_def) (simp add: newline_def)
  then show ?thesis using assms(2) by (simp add: list_all_iff)
qed

lemma domain_metrics_safe: "m \<in> set (domain_metrics s) \<Longrightarrow> sample_safe m"
proof -
  have "list_all sample_safe (domain_metrics s)"
    by (simp add: domain_metrics_def gauge_def counter_def sample_safe_def) (simp add: newline_def)
  then show "m \<in> set (domain_metrics s) \<Longrightarrow> sample_safe m" by (simp add: list_all_iff)
qed

lemma disk_metrics_safe: "m \<in> set (disk_metrics u) \<Longrightarrow> sample_safe m"
proof -
  have "list_all sample_safe (disk_metrics u)"
    by (simp add: disk_metrics_def gauge_def counter_def sample_safe_def split: option.split prod.split) (simp add: newline_def)
  then show "m \<in> set (disk_metrics u) \<Longrightarrow> sample_safe m" by (simp add: list_all_iff)
qed

lemma pool_metrics_safe: "m \<in> set (pool_metrics u) \<Longrightarrow> sample_safe m"
proof -
  have "list_all sample_safe (pool_metrics u)"
    by (simp add: pool_metrics_def gauge_def counter_def sample_safe_def split: option.split) (simp add: newline_def)
  then show "m \<in> set (pool_metrics u) \<Longrightarrow> sample_safe m" by (simp add: list_all_iff)
qed

lemma exposition_safe:
  "(\<And>n q. newline \<notin> set (fmtf n q)) \<Longrightarrow> m \<in> set (exposition fmtf t r s root) \<Longrightarrow> sample_safe m"
  unfolding exposition_def set_append Un_iff
  by (elim disjE) (auto dest: domain_metrics_safe disk_metrics_safe pool_metrics_safe intro: process_metrics_safe[of fmtf]
      split: prod.splits if_splits)

definition metric_names :: "string list" where
  "metric_names = map m_name (process_metrics (\<lambda>_ _. '''') (snapshot 0 None) @ domain_metrics no_stats
     @ disk_metrics (Some (0, 0)) @ pool_metrics (Some \<lparr>OpenConnections = 0, InUse = 0, Idle = 0, WaitCount = 0\<rparr>))"

lemma distinct_parts:
  "distinct (p @ a @ b @ c) \<Longrightarrow> a' \<in> {[], a} \<Longrightarrow> b' \<in> {[], b} \<Longrightarrow> c' \<in> {[], c} \<Longrightarrow> distinct (p @ a' @ b' @ c')"
  by auto

lemma exposition_names: "distinct (map m_name (exposition fmtf t r s root))"
proof -
  have d: "distinct metric_names" by code_simp
  have p: "map m_name (process_metrics fmtf x) = map m_name (process_metrics (\<lambda>_ _. '''') (snapshot 0 None))" for x
    by (simp add: process_metrics_def gauge_def counter_def)
  have q: "map m_name (domain_metrics x) = map m_name (domain_metrics no_stats)" for x
    by (simp add: domain_metrics_def gauge_def)
  have u: "map m_name (disk_metrics x) \<in> {[], map m_name (disk_metrics (Some (0, 0)))}" for x
    by (auto simp: disk_metrics_def gauge_def split: option.split)
  have v: "map m_name (pool_metrics x) \<in> {[], map m_name (pool_metrics (Some \<lparr>OpenConnections = 0, InUse = 0, Idle = 0, WaitCount = 0\<rparr>))}" for x
    by (auto simp: pool_metrics_def gauge_def counter_def split: option.split)
  have "map m_name (case queryPlatformStats (sc_query s) of (st, have_stats) \<Rightarrow> if have_stats then domain_metrics st else [])
      \<in> {[], map m_name (domain_metrics no_stats)}"
  proof -
    obtain st h where e: "queryPlatformStats (sc_query s) = (st, h)" by force
    show ?thesis unfolding e by (cases h) (use q[of st] in simp_all)
  qed
  from distinct_parts[OF d[unfolded metric_names_def map_append] this u v]
  show ?thesis unfolding exposition_def map_append p .
qed

section \<open>Properties\<close>

text \<open>A scrape that is served reads back exactly the metrics written: every sample line gives its name
  and value, no name appears twice, the counters are the registry's, and the domain counts
  are there exactly when the statistics query succeeded.\<close>

theorem scrape_reads_registry:
  assumes "metrics_Handler fmtf t (Some r) s root token c = (st, Some body)" and "\<And>n q. newline \<notin> set (fmtf n q)"
  shows "st = 200 \<and> samples body = map (\<lambda>m. (m_name m, m_value m)) (exposition fmtf t (Some r) s root)
    \<and> distinct (map fst (samples body))
    \<and> map_of (samples body) ''saas_api_requests_total'' = Some (decimal (uint (requestsTotal r)))
    \<and> map_of (samples body) ''saas_api_in_flight'' = Some (decimal (sint (inFlight r)))
    \<and> map_of (samples body) ''saas_tenants'' = (case sc_query s of Some (Answered ps) \<Rightarrow> Some (decimal (ps_Tenants ps))
         | Some NoRows \<Rightarrow> Some (decimal 0) | _ \<Rightarrow> None)"
proof -
  have b: "st = 200" "body = concat (map write_metric (exposition fmtf t (Some r) s root))"
    using assms(1) by (auto simp: metrics_Handler_def split: if_splits)
  have sm: "samples body = map (\<lambda>m. (m_name m, m_value m)) (exposition fmtf t (Some r) s root)"
    unfolding b(2) by (rule samples_all) (rule exposition_safe[OF assms(2)])
  have n: "map fst (samples body) = map m_name (exposition fmtf t (Some r) s root)" by (simp add: sm)
  have req: "map_of (samples body) ''saas_api_requests_total'' = Some (decimal (uint (requestsTotal r)))"
    "map_of (samples body) ''saas_api_in_flight'' = Some (decimal (sint (inFlight r)))"
    by (simp_all add: sm exposition_def process_metrics_def gauge_def counter_def snapshot_def Let_def u64_def i64_def)
  have k: "map_of (map (\<lambda>m. (m_name m, m_value m)) (disk_metrics u @ pool_metrics p)) ''saas_tenants'' = None" for u p
    by (auto simp: disk_metrics_def pool_metrics_def gauge_def counter_def split: option.split)
  have "map_of (samples body) ''saas_tenants'' = (case queryPlatformStats (sc_query s) of (x, h) \<Rightarrow>
      if h then Some (decimal (ps_Tenants x)) else None)"
    using k by (simp add: sm exposition_def process_metrics_def domain_metrics_def gauge_def counter_def split: prod.split)
  moreover have "distinct (map fst (samples body))" unfolding n by (rule exposition_names)
  ultimately show ?thesis using b(1) sm req
    by (simp add: queryPlatformStats_def no_stats_def split: option.split stats_query.split)
qed

definition ascii_lower :: "char \<Rightarrow> char" where
  "ascii_lower c = (if within 65 90 (byte c) then char_of (byte c + 32) else c)"

lemma rune_fold_byte: "rune_fold (byte c) = byte (ascii_lower c)"
  using byte_range[of c] by (auto simp: rune_fold_def ascii_lower_def within_def)

lemma byte_inj: "byte a = byte b \<Longrightarrow> a = b"
  by (simp add: byte_def)

lemma EqualFold_ascii:
  assumes "ascii s" "ascii t"
  shows "EqualFold s t \<longleftrightarrow> map ascii_lower s = map ascii_lower t"
proof -
  have "map (\<lambda>c. byte (ascii_lower c)) s = map (\<lambda>c. byte (ascii_lower c)) t \<longleftrightarrow> map ascii_lower s = map ascii_lower t"
    using inj_map_eq_map[of byte "map ascii_lower s" "map ascii_lower t"] byte_inj by (auto simp: inj_def comp_def)
  then show ?thesis using assms by (simp add: EqualFold_def chunks_ascii rune_fold_byte comp_def)
qed

text \<open>The metrics token is compared without regard to letter case: a scrape is served exactly when its
  trimmed Authorization header equals \<open>Bearer\<close> and the token up to the case of every letter, so
  a secret that differs from the configured one in case is accepted.\<close>

theorem metrics_token_ignores_case:
  assumes "token \<noteq> ''''" "ascii token" "ascii (TrimSpace (GetHeader c ''Authorization''))"
  shows "fst (metrics_Handler fmtf t r s root token c) =
    (if map ascii_lower (TrimSpace (GetHeader c ''Authorization'')) = map ascii_lower (''Bearer '' @ token) then 200 else 401)"
proof -
  have "ascii (''Bearer '' @ token)" using assms(2) by (simp add: ascii_def byte_def)
  then show ?thesis using assms EqualFold_ascii by (simp add: metrics_Handler_def metrics_token_ok_def)
qed

section \<open>Witnesses\<close>

definition demo_scrape :: scrape where
  "demo_scrape = \<lparr>sc_query = Some (Answered (platform_stats 0 empty_db)), sc_statfs = (\<lambda>_. None), sc_pool = None\<rparr>"

definition demo_scrape_request :: gctx where
  "demo_scrape_request = \<lparr>keys = (\<lambda>_. None), ctx_tenant = None,
     GetHeader = (\<lambda>h. if h = ''Authorization'' then ''bEARER SEcret'' else ''''), HeaderValues = (\<lambda>_. []),
     Query = (\<lambda>_. ''''), Param = (\<lambda>_. ''''), Host = '''', ClientIP = '''', UserAgent = ''''\<rparr>"

theorem scrape_reads_registry_witness:
  "\<exists>st body. metrics_Handler (\<lambda>_ _. ''0'') 0 (Some (request_ends 1 200 (request_begins (New_registry 0)))) demo_scrape '''' '''' demo_scrape_request
      = (st, Some body) \<and> map_of (samples body) ''saas_api_requests_total'' = Some (decimal 1)"
proof -
  let ?r = "request_ends 1 200 (request_begins (New_registry 0))"
  have m: "metrics_Handler (\<lambda>_ _. ''0'') 0 (Some ?r) demo_scrape '''' '''' demo_scrape_request
      = (200, Some (concat (map write_metric (exposition (\<lambda>_ _. ''0'') 0 (Some ?r) demo_scrape ''''))))"
    by (simp add: metrics_Handler_def metrics_token_ok_def)
  have z: "newline \<notin> set ''0''" by (simp add: newline_def)
  have "requestsTotal ?r = 1" by (simp add: request_ends_def request_begins_def New_registry_def)
  then have u: "uint (requestsTotal ?r) = 1" by simp
  from scrape_reads_registry[OF m z, THEN conjunct2, THEN conjunct2, THEN conjunct2, THEN conjunct1, unfolded u]
  show ?thesis using m by (intro exI conjI)
qed

theorem metrics_token_ignores_case_witness:
  "fst (metrics_Handler (\<lambda>_ _. ''0'') 0 None demo_scrape '''' ''seCRET'' demo_scrape_request) = 200"
proof -
  have a: "ascii ''seCRET''" by code_simp
  have h: "TrimSpace (GetHeader demo_scrape_request ''Authorization'') = ''bEARER SEcret''" by code_simp
  have b: "ascii ''bEARER SEcret''" by code_simp
  have e: "map ascii_lower ''bEARER SEcret'' = map ascii_lower (''Bearer '' @ ''seCRET'')" by code_simp
  have "fst (metrics_Handler (\<lambda>_ _. ''0'') 0 None demo_scrape '''' ''seCRET'' demo_scrape_request)
      = (if map ascii_lower ''bEARER SEcret'' = map ascii_lower (''Bearer '' @ ''seCRET'') then 200 else 401)"
    by (rule metrics_token_ignores_case[of "''seCRET''" demo_scrape_request, unfolded h, OF _ a b]) simp
  then show ?thesis unfolding if_P[OF e] .
qed

text \<open>The check on the block size does not keep the product from wrapping: a file system of \<open>2 ^ 64\<close> bytes
  is reported as empty.\<close>

theorem statfs_total_wraps:
  "statfsUsage (\<lambda>_. Some \<lparr>Bsize = 2 ^ 32, Blocks = 2 ^ 32, Bavail = 0\<rparr>) '''' = Some (0, 0)"
  by (simp add: statfsUsage_def)

end
