(* ===== verification/Middleware.thy ===== *)
theory Middleware
  imports Metrics Sample Sample_Env
begin

text \<open>
  internal/middleware and the engine around it. A gin handler maps an exchange (request context
  and the response so far) and the server node to an outcome; \<open>c.Next()\<close> is the rest of the
  chain, so a middleware is a function from handlers to handlers, and a panic unwinds through
  the code after \<open>c.Next()\<close> unless something recovers. golang.org/x/time/rate is the
  parameter \<open>rate_lib\<close>.
\<close>

section \<open>Exchanges and the server node\<close>

datatype payload = NoBody | Envelope "unit response" | Raw string

record exchange =
  ex_ctx :: gctx
  ex_Method :: string
  ex_FullPath :: string
  ex_TLS :: bool
  ex_headers :: "string \<Rightarrow> string list"
  ex_answer :: "(int \<times> payload) option"

datatype attr = AStr string | AInt int | ADuration duration | AAny ctxval

record log_line =
  ll_Level :: string
  ll_Msg :: string
  ll_Attrs :: "(string \<times> attr) list"

record 'l visitor =
  limiter :: 'l
  lastSeen :: gotime

record 'l IPRateLimiter =
  visitors :: "string \<Rightarrow> 'l visitor option"
  rl_rate :: quotient
  rl_burst :: int

record 'l rate_lib =
  NewLimiter :: "quotient \<Rightarrow> int \<Rightarrow> 'l"
  Allow :: "gotime \<Rightarrow> 'l \<Rightarrow> bool \<times> 'l"

record 'l node =
  nd_world :: world
  nd_registry :: Registry
  nd_log :: "log_line list"
  nd_limiter :: "'l IPRateLimiter"
  nd_clock :: gotime

datatype outcome = Returned | Panicked string

type_synonym 'l chain_handler = "exchange \<Rightarrow> 'l node \<Rightarrow> outcome \<times> exchange \<times> 'l node"
type_synonym 'l middleware = "'l chain_handler \<Rightarrow> 'l chain_handler"

text \<open>The first status and body written are the ones sent; \<open>Status()\<close> is 200 until then.\<close>

definition answer :: "int \<Rightarrow> payload \<Rightarrow> exchange \<Rightarrow> exchange" where
  "answer st body ex = (case ex_answer ex of Some _ \<Rightarrow> ex | None \<Rightarrow> ex\<lparr>ex_answer := Some (st, body)\<rparr>)"

definition Status :: "exchange \<Rightarrow> int" where
  "Status ex = (case ex_answer ex of None \<Rightarrow> 200 | Some (st, _) \<Rightarrow> st)"

definition set_header :: "string \<Rightarrow> string \<Rightarrow> exchange \<Rightarrow> exchange" where
  "set_header k v ex = ex\<lparr>ex_headers := (ex_headers ex)(k := [v])\<rparr>"

definition add_header :: "string \<Rightarrow> string \<Rightarrow> exchange \<Rightarrow> exchange" where
  "add_header k v ex = ex\<lparr>ex_headers := (ex_headers ex)(k := ex_headers ex k @ [v])\<rparr>"

definition log_add :: "string \<Rightarrow> string \<Rightarrow> (string \<times> attr) list \<Rightarrow> 'l node \<Rightarrow> 'l node" where
  "log_add level msg attrs n = n\<lparr>nd_log := nd_log n @ [\<lparr>ll_Level = level, ll_Msg = msg, ll_Attrs = attrs\<rparr>]\<rparr>"

section \<open>requestid.go\<close>

definition ContextRequestID :: string where "ContextRequestID = ''request_id''"
definition HeaderRequestID :: string where "HeaderRequestID = ''X-Request-ID''"

definition RequestIDFromContext :: "gctx \<Rightarrow> string" where
  "RequestIDFromContext c = (case keys c ContextRequestID of Some (VString s) \<Rightarrow> s | _ \<Rightarrow> '''')"

definition request_id_of :: "env \<Rightarrow> uuid \<Rightarrow> string \<Rightarrow> string" where
  "request_id_of ev new supplied = (case parse_uuid ev supplied of
     Some parsed \<Rightarrow> uuid_string ev parsed | None \<Rightarrow> uuid_string ev new)"

definition RequestID :: "env \<Rightarrow> uuid \<Rightarrow> 'l middleware" where
  "RequestID ev new next ex n =
     (let i = request_id_of ev new (GetHeader (ex_ctx ex) HeaderRequestID)
      in next (set_header HeaderRequestID i (ex\<lparr>ex_ctx := ctx_set ContextRequestID (VString i) (ex_ctx ex)\<rparr>)) n)"

section \<open>logger.go\<close>

definition RequestLogger :: "'l middleware" where
  "RequestLogger next ex n =
     (let start = nd_clock n;
          path = (if ex_FullPath ex = '''' then ''unmatched'' else ex_FullPath ex)
      in case next ex n of
        (Panicked p, ex, n) \<Rightarrow> (Panicked p, ex, n)
      | (Returned, ex, n) \<Rightarrow>
          (let attrs = [(''request_id'', AStr (RequestIDFromContext (ex_ctx ex))), (''method'', AStr (ex_Method ex)),
                 (''route'', AStr path), (''status'', AInt (Status ex)), (''latency'', ADuration (nd_clock n - start)),
                 (''client_ip'', AStr (ClientIP (ex_ctx ex)))];
               attrs = (case keys (ex_ctx ex) ''tenant_id'' of None \<Rightarrow> attrs | Some v \<Rightarrow> attrs @ [(''tenant_id'', AAny v)])
           in (Returned, ex,
               if Status ex \<ge> 500 then log_add ''ERROR'' ''request failed'' attrs n
               else if Status ex \<ge> 400 then log_add ''WARN'' ''request rejected'' attrs n
               else log_add ''INFO'' ''request completed'' attrs n)))"

section \<open>recovery.go\<close>

definition Recovery :: "'l middleware" where
  "Recovery next ex n = (case next ex n of
     (Returned, ex, n) \<Rightarrow> (Returned, ex, n)
   | (Panicked p, ex, n) \<Rightarrow> (Returned,
       answer 500 (Envelope (Error (ex_ctx ex) 500 (code_string CodeInternal) ''internal server error'' [])) ex,
       log_add ''ERROR'' ''panic recovered'' [(''request_id'', AStr (RequestIDFromContext (ex_ctx ex))),
         (''method'', AStr (ex_Method ex)), (''route'', AStr (ex_FullPath ex)), (''panic'', AStr p)] n))"

section \<open>security.go\<close>

definition ContentSecurityPolicy :: string where
  "ContentSecurityPolicy = ''default-src 'self'; script-src 'self'; style-src 'self'; img-src 'self' data:; font-src 'self'; ''
     @ ''connect-src 'self'; form-action 'self'; frame-ancestors 'none'; base-uri 'self'; object-src 'none'' @ [CHR 0x27]"

definition security_headers :: "(string \<times> string) list" where
  "security_headers = [(''X-Content-Type-Options'', ''nosniff''), (''X-Frame-Options'', ''DENY''),
     (''Referrer-Policy'', ''strict-origin-when-cross-origin''), (''Content-Security-Policy'', ContentSecurityPolicy),
     (''Cross-Origin-Opener-Policy'', ''same-origin''),
     (''Permissions-Policy'', ''geolocation=(), microphone=(), camera=()'')]"

definition protect :: "exchange \<Rightarrow> exchange" where
  "protect ex =
     (let ex = fold (\<lambda>(k, v). set_header k v) security_headers ex
      in if ex_TLS ex \<or> EqualFold (GetHeader (ex_ctx ex) ''X-Forwarded-Proto'') ''https''
         then set_header ''Strict-Transport-Security'' ''max-age=31536000; includeSubDomains'' ex else ex)"

definition SecurityHeaders :: "'l middleware" where
  "SecurityHeaders next ex n = next (protect ex) n"

definition allowed_origins :: "string list \<Rightarrow> string list" where
  "allowed_origins origins = filter (\<lambda>x. x \<noteq> '''') (map TrimSpace origins)"

definition cors_headers :: "string \<Rightarrow> (string \<times> string) list" where
  "cors_headers origin = [(''Access-Control-Allow-Origin'', origin), (''Access-Control-Allow-Credentials'', ''true''),
     (''Access-Control-Allow-Methods'', ''GET, POST, PUT, PATCH, DELETE, OPTIONS''),
     (''Access-Control-Allow-Headers'', ''Authorization, Content-Type, '' @ HeaderRequestID @ '', X-Tenant-ID, If-Match''),
     (''Access-Control-Expose-Headers'', HeaderRequestID @ '', ETag''),
     (''Access-Control-Max-Age'', decimal (12 * hour div second))]"

definition grant_origin :: "string \<Rightarrow> exchange \<Rightarrow> exchange" where
  "grant_origin origin ex = add_header ''Vary'' ''Origin'' (fold (\<lambda>(k, v). set_header k v) (cors_headers origin) ex)"

definition CORS :: "string list \<Rightarrow> 'l middleware" where
  "CORS origins next ex n =
     (let origin = GetHeader (ex_ctx ex) ''Origin'' in
      if origin = '''' then next ex n
      else if origin \<notin> set (allowed_origins origins) then
        (if ex_Method ex = ''OPTIONS'' then (Returned, answer 403 NoBody ex, n) else next ex n)
      else (let ex = grant_origin origin ex in
        if ex_Method ex = ''OPTIONS'' then (Returned, answer 204 NoBody ex, n) else next ex n))"

section \<open>Registry.Middleware of internal/platform/metrics\<close>

definition Registry_Middleware :: "'l middleware" where
  "Registry_Middleware next ex n =
     (let start = nd_clock n in
      case next ex (n\<lparr>nd_registry := request_begins (nd_registry n)\<rparr>) of
        (Panicked p, ex, n) \<Rightarrow> (Panicked p, ex, n)
      | (Returned, ex, n) \<Rightarrow>
          (Returned, ex, n\<lparr>nd_registry := request_ends (nd_clock n - start) (Status ex) (nd_registry n)\<rparr>))"

section \<open>ratelimit.go\<close>

definition NewIPRateLimiter :: "int \<Rightarrow> int \<Rightarrow> 'l IPRateLimiter" where
  "NewIPRateLimiter requestsPerMinute burst =
     \<lparr>visitors = (\<lambda>_. None), rl_rate = (requestsPerMinute, 60), rl_burst = burst\<rparr>"

definition getVisitor :: "'l rate_lib \<Rightarrow> gotime \<Rightarrow> string \<Rightarrow> 'l IPRateLimiter \<Rightarrow> 'l \<times> 'l IPRateLimiter" where
  "getVisitor lib t ip l = (case visitors l ip of
     None \<Rightarrow> (let lm = NewLimiter lib (rl_rate l) (rl_burst l)
              in (lm, l\<lparr>visitors := (visitors l)(ip \<mapsto> \<lparr>limiter = lm, lastSeen = t\<rparr>)\<rparr>))
   | Some v \<Rightarrow> (limiter v, l\<lparr>visitors := (visitors l)(ip \<mapsto> v\<lparr>lastSeen := t\<rparr>)\<rparr>))"

text \<open>\<open>l.getVisitor(ip).Allow()\<close>: the map holds the pointer whose bucket \<open>Allow\<close> draws from.\<close>

definition allow_ip :: "'l rate_lib \<Rightarrow> gotime \<Rightarrow> string \<Rightarrow> 'l IPRateLimiter \<Rightarrow> bool \<times> 'l IPRateLimiter" where
  "allow_ip lib t ip l = (case getVisitor lib t ip l of (lm, l1) \<Rightarrow> (case Allow lib t lm of (ok, lm') \<Rightarrow>
     (ok, l1\<lparr>visitors := (visitors l1)(ip := map_option (\<lambda>v. v\<lparr>limiter := lm'\<rparr>) (visitors l1 ip))\<rparr>)))"

text \<open>One round of \<open>cleanupLoop\<close>.\<close>

definition cleanup :: "gotime \<Rightarrow> 'l IPRateLimiter \<Rightarrow> 'l IPRateLimiter" where
  "cleanup t l = l\<lparr>visitors := (\<lambda>ip. case visitors l ip of None \<Rightarrow> None
     | Some v \<Rightarrow> if t - lastSeen v > 3 * minute then None else Some v)\<rparr>"


section \<open>The chain every route starts with\<close>

definition engine_chain :: "env \<Rightarrow> uuid \<Rightarrow> string list \<Rightarrow> 'l middleware" where
  "engine_chain ev new origins h =
     RequestID ev new (RequestLogger (Recovery (SecurityHeaders (CORS origins (Registry_Middleware h)))))"

section \<open>Panics\<close>

definition headers_of :: "outcome \<times> exchange \<times> 'l node \<Rightarrow> string \<Rightarrow> string list" where
  "headers_of r = ex_headers (fst (snd r))"

lemma answer_simps [simp]: "ex_headers (answer st b ex) = ex_headers ex" "ex_ctx (answer st b ex) = ex_ctx ex"
  "ex_Method (answer st b ex) = ex_Method ex" "ex_FullPath (answer st b ex) = ex_FullPath ex"
  by (simp_all add: answer_def split: option.split)

lemma log_add_simps [simp]: "nd_registry (log_add a b c n) = nd_registry n" "nd_world (log_add a b c n) = nd_world n"
  "nd_limiter (log_add a b c n) = nd_limiter n" "nd_clock (log_add a b c n) = nd_clock n"
  by (simp_all add: log_add_def)

lemma set_header_simps [simp]: "ex_ctx (set_header k v ex) = ex_ctx ex" "ex_answer (set_header k v ex) = ex_answer ex"
  "ex_Method (set_header k v ex) = ex_Method ex" "ex_FullPath (set_header k v ex) = ex_FullPath ex"
  "ex_headers (set_header k v ex) = (ex_headers ex)(k := [v])" "ex_TLS (set_header k v ex) = ex_TLS ex"
  by (simp_all add: set_header_def)

lemma add_header_simps [simp]: "ex_ctx (add_header k v ex) = ex_ctx ex" "ex_answer (add_header k v ex) = ex_answer ex"
  "ex_Method (add_header k v ex) = ex_Method ex" "ex_FullPath (add_header k v ex) = ex_FullPath ex"
  "ex_headers (add_header k v ex) = (ex_headers ex)(k := ex_headers ex k @ [v])"
  by (simp_all add: add_header_def)

text \<open>What the engine's own middlewares keep of an exchange before the handler runs.\<close>

definition same_request :: "exchange \<Rightarrow> exchange \<Rightarrow> bool" where
  "same_request ex ex' \<longleftrightarrow> ex_ctx ex' = ex_ctx ex \<and> ex_Method ex' = ex_Method ex \<and> ex_FullPath ex' = ex_FullPath ex
     \<and> ex_answer ex' = ex_answer ex \<and> ex_headers ex' HeaderRequestID = ex_headers ex HeaderRequestID"

lemma same_request_refl [simp]: "same_request ex ex" by (simp add: same_request_def)

lemma same_request_set: "k \<noteq> HeaderRequestID \<Longrightarrow> same_request ex (set_header k v ex') \<longleftrightarrow> same_request ex ex'"
  by (simp add: same_request_def)

lemma same_request_fold:
  "HeaderRequestID \<notin> fst ` set kvs \<Longrightarrow> same_request ex ex' \<Longrightarrow> same_request ex (fold (\<lambda>(k, v). set_header k v) kvs ex')"
  by (induction kvs arbitrary: ex') (auto simp: same_request_set)

lemma engine_headers [simp]: "HeaderRequestID \<notin> fst ` set security_headers" "HeaderRequestID \<notin> fst ` set (cors_headers origin)"
  "''Strict-Transport-Security'' \<noteq> HeaderRequestID" "''Vary'' \<noteq> HeaderRequestID" "HeaderRequestID \<noteq> ''Vary''"
  by (simp_all add: security_headers_def cors_headers_def HeaderRequestID_def)

lemma same_request_protect: "same_request ex (protect ex)"
  using same_request_fold[OF _ same_request_refl, of security_headers ex] by (simp add: protect_def Let_def same_request_set)

lemma same_request_grant: "same_request ex (grant_origin origin ex)"
  using same_request_fold[OF _ same_request_refl, of "cors_headers origin" ex] by (simp add: same_request_def grant_origin_def)

lemma grant_origin_Method [simp]: "ex_Method (grant_origin origin ex) = ex_Method ex"
  using same_request_grant by (simp add: same_request_def)

lemma CORS_calls:
  "(ex_Method ex = ''OPTIONS'' \<and> GetHeader (ex_ctx ex) ''Origin'' \<noteq> '''' \<and> (\<exists>st ex'. same_request ex ex' \<and> st \<in> {403, 204}
      \<and> CORS origins next ex n = (Returned, answer st NoBody ex', n)))
    \<or> (\<exists>ex'. same_request ex ex' \<and> CORS origins next ex n = next ex' n)"
proof (cases "ex_Method ex = ''OPTIONS'' \<and> GetHeader (ex_ctx ex) ''Origin'' \<noteq> ''''")
  case True
  then have "CORS origins next ex n = (if GetHeader (ex_ctx ex) ''Origin'' \<in> set (allowed_origins origins)
      then (Returned, answer 204 NoBody (grant_origin (GetHeader (ex_ctx ex) ''Origin'') ex), n)
      else (Returned, answer 403 NoBody ex, n))" by (simp add: CORS_def Let_def)
  then show ?thesis using True same_request_grant[of ex "GetHeader (ex_ctx ex) ''Origin''"] same_request_refl[of ex]
    by (metis (no_types, lifting) insertI1 insertI2)
next
  case False
  then have "CORS origins next ex n = next ex n \<or> CORS origins next ex n = next (grant_origin (GetHeader (ex_ctx ex) ''Origin'') ex) n"
    by (auto simp: CORS_def Let_def)
  then show ?thesis using same_request_grant[of ex "GetHeader (ex_ctx ex) ''Origin''"] same_request_refl[of ex] by metis
qed

text \<open>What the handler of a route is called with once the engine's middlewares have run on a request that
  is no preflight.\<close>

definition identified :: "env \<Rightarrow> uuid \<Rightarrow> exchange \<Rightarrow> exchange" where
  "identified ev new ex = (let i = request_id_of ev new (GetHeader (ex_ctx ex) HeaderRequestID) in
     set_header HeaderRequestID i (ex\<lparr>ex_ctx := ctx_set ContextRequestID (VString i) (ex_ctx ex)\<rparr>))"



lemma identified_simps [simp]: "ex_Method (identified ev new ex) = ex_Method ex" "ex_answer (identified ev new ex) = ex_answer ex"
  "GetHeader (ex_ctx (identified ev new ex)) = GetHeader (ex_ctx ex)"
  by (simp_all add: identified_def Let_def ctx_set_def)




section \<open>CORS\<close>

abbreviation ACAO :: string where "ACAO \<equiv> ''Access-Control-Allow-Origin''"

lemma RequestLogger_cong: "f ex n = g ex n \<Longrightarrow> RequestLogger f ex n = RequestLogger g ex n"
  by (simp add: RequestLogger_def)

lemma Recovery_cong: "f ex n = g ex n \<Longrightarrow> Recovery f ex n = Recovery g ex n"
  by (simp add: Recovery_def)

lemma headers_RequestLogger: "headers_of (RequestLogger next ex n) = headers_of (next ex n)"
  by (simp add: headers_of_def RequestLogger_def Let_def split: prod.split outcome.split)

lemma headers_Recovery: "headers_of (Recovery next ex n) = headers_of (next ex n)"
  by (simp add: headers_of_def Recovery_def split: prod.split outcome.split)

lemma headers_Registry_Middleware:
  "headers_of (Registry_Middleware next ex n) = headers_of (next ex (n\<lparr>nd_registry := request_begins (nd_registry n)\<rparr>))"
  by (simp add: headers_of_def Registry_Middleware_def Let_def split: prod.split outcome.split)

lemma protect_ACAO: "ex_headers (protect ex) ACAO = ex_headers ex ACAO"
  by (simp add: protect_def security_headers_def Let_def)

lemma grant_origin_ACAO: "ex_headers (grant_origin origin ex) ACAO = [origin]"
  by (simp add: grant_origin_def cors_headers_def)

lemma allowed_origins_iff: "origin \<in> set (allowed_origins origins) \<longleftrightarrow> origin \<noteq> '''' \<and> origin \<in> TrimSpace ` set origins"
  by (auto simp: allowed_origins_def)

text \<open>C34: a response grants cross-origin access only to the origin that asked and only if the configuration
  lists it (after trimming), never to a wildcard that is not in the list; every other response
  has no such header at all, and a preflight never reaches the handler.\<close>

theorem cors_only_allow_listed:
  assumes "\<And>e m. headers_of (h e m) ACAO = ex_headers e ACAO" and "ex_headers ex ACAO = []"
  shows "headers_of (engine_chain ev new origins h ex n) ACAO =
      (if GetHeader (ex_ctx ex) ''Origin'' \<noteq> '''' \<and> GetHeader (ex_ctx ex) ''Origin'' \<in> TrimSpace ` set origins
       then [GetHeader (ex_ctx ex) ''Origin''] else [])
    \<and> (ex_Method ex = ''OPTIONS'' \<and> GetHeader (ex_ctx ex) ''Origin'' \<noteq> '''' \<longrightarrow>
        engine_chain ev new origins h ex n = engine_chain ev new origins h' ex n)"
proof -
  define i where "i = request_id_of ev new (GetHeader (ex_ctx ex) HeaderRequestID)"
  define e1 where "e1 = set_header HeaderRequestID i (ex\<lparr>ex_ctx := ctx_set ContextRequestID (VString i) (ex_ctx ex)\<rparr>)"
  define e2 where "e2 = protect e1"
  let ?o = "GetHeader (ex_ctx ex) ''Origin''"
  have e: "engine_chain ev new origins g ex n = RequestLogger (Recovery (SecurityHeaders (CORS origins (Registry_Middleware g)))) e1 n" for g
    by (simp add: engine_chain_def RequestID_def Let_def i_def e1_def)
  have e2: "GetHeader (ex_ctx e2) ''Origin'' = ?o" "ex_Method e2 = ex_Method ex" "ex_headers e2 ACAO = []"
    using same_request_protect[of e1] assms(2)
    by (simp_all add: e2_def same_request_def e1_def ctx_set_def protect_ACAO HeaderRequestID_def)
  have r: "headers_of (Registry_Middleware h a b) ACAO = ex_headers a ACAO" for a b
    using assms(1) by (simp add: headers_Registry_Middleware)
  have c: "headers_of (CORS origins (Registry_Middleware h) e2 n) ACAO = (if ?o \<in> set (allowed_origins origins) then [?o] else [])"
    using e2 r by (simp add: CORS_def Let_def allowed_origins_iff) (simp add: headers_of_def grant_origin_ACAO)
  have "CORS origins (Registry_Middleware h) e2 n = CORS origins (Registry_Middleware h') e2 n"
    if "ex_Method ex = ''OPTIONS''" "?o \<noteq> ''''" using that e2 by (simp add: CORS_def Let_def)
  then have "SecurityHeaders (CORS origins (Registry_Middleware h)) e1 n = SecurityHeaders (CORS origins (Registry_Middleware h')) e1 n"
    if "ex_Method ex = ''OPTIONS''" "?o \<noteq> ''''" using that by (simp add: SecurityHeaders_def flip: e2_def)
  then have p: "engine_chain ev new origins h ex n = engine_chain ev new origins h' ex n"
    if "ex_Method ex = ''OPTIONS''" "?o \<noteq> ''''" unfolding e by (intro RequestLogger_cong Recovery_cong) (use that in blast)
  have "headers_of (engine_chain ev new origins h ex n) ACAO = headers_of (CORS origins (Registry_Middleware h) e2 n) ACAO"
    unfolding e headers_RequestLogger headers_Recovery SecurityHeaders_def e2_def ..
  then show ?thesis using c p by (simp add: allowed_origins_iff)
qed

section \<open>The rate limiter\<close>

datatype limiter_event = Ask string | Sweep

text \<open>The answers to the requests of a history of requests and cleanup rounds.\<close>

fun limiter_run :: "'l rate_lib \<Rightarrow> (gotime \<times> limiter_event) list \<Rightarrow> 'l IPRateLimiter \<Rightarrow> bool list" where
  "limiter_run lib [] l = []"
| "limiter_run lib ((t, Ask ip) # evs) l = (case allow_ip lib t ip l of (ok, l') \<Rightarrow> ok # limiter_run lib evs l')"
| "limiter_run lib ((t, Sweep) # evs) l = limiter_run lib evs (cleanup t l)"

text \<open>A swept limiter and an unswept one agree up to buckets idle for more than three minutes.\<close>

definition bucket_ok :: "'l rate_lib \<Rightarrow> gotime \<Rightarrow> 'l visitor \<Rightarrow> bool" where
  "bucket_ok lib t v \<longleftrightarrow> lastSeen v \<le> t \<and> (\<exists>l. limiter v = snd (Allow lib (lastSeen v) l))"

definition swept :: "'l rate_lib \<Rightarrow> gotime \<Rightarrow> 'l IPRateLimiter \<Rightarrow> 'l IPRateLimiter \<Rightarrow> bool" where
  "swept lib t a b \<longleftrightarrow> rl_rate a = rl_rate b \<and> rl_burst a = rl_burst b
     \<and> (\<forall>ip v. visitors b ip = Some v \<longrightarrow> bucket_ok lib t v)
     \<and> (\<forall>ip. visitors a ip = visitors b ip
          \<or> (visitors a ip = None \<and> (\<exists>v. visitors b ip = Some v \<and> t - lastSeen v > 3 * minute)))"

lemma sweptI:
  assumes "rl_rate a = rl_rate b" "rl_burst a = rl_burst b" "\<And>ip v. visitors b ip = Some v \<Longrightarrow> bucket_ok lib t v"
    and "\<And>ip. visitors a ip = visitors b ip
          \<or> (visitors a ip = None \<and> (\<exists>v. visitors b ip = Some v \<and> t - lastSeen v > 3 * minute))"
  shows "swept lib t a b"
  using assms unfolding swept_def by blast

lemma sweptD:
  assumes "swept lib t a b"
  shows "rl_rate a = rl_rate b" "rl_burst a = rl_burst b" "visitors b ip = Some v \<Longrightarrow> bucket_ok lib t v"
    "visitors a ip = visitors b ip \<or> (visitors a ip = None \<and> (\<exists>v. visitors b ip = Some v \<and> t - lastSeen v > 3 * minute))"
  using assms unfolding swept_def by blast+

lemma visitor_eq: "v\<lparr>lastSeen := t, limiter := m\<rparr> = \<lparr>limiter = m, lastSeen = t\<rparr>" for v :: "'l visitor"
  by (cases v) simp

lemma allow_ip_eq:
  "allow_ip lib t ip l = (let r = Allow lib t (case visitors l ip of None \<Rightarrow> NewLimiter lib (rl_rate l) (rl_burst l) | Some v \<Rightarrow> limiter v)
     in (fst r, l\<lparr>visitors := (visitors l)(ip \<mapsto> \<lparr>limiter = snd r, lastSeen = t\<rparr>)\<rparr>))"
  by (auto simp: allow_ip_def getVisitor_def Let_def visitor_eq split: option.split prod.split)

lemma bucket_ok_later: "bucket_ok lib s v \<Longrightarrow> s \<le> t \<Longrightarrow> bucket_ok lib t v"
  by (auto simp: bucket_ok_def)

lemma swept_cleanup:
  assumes "swept lib s a b" "s \<le> t"
  shows "swept lib t (cleanup t a) b"
proof -
  have v: "visitors (cleanup t a) ip = visitors b ip
      \<or> (visitors (cleanup t a) ip = None \<and> (\<exists>v. visitors b ip = Some v \<and> t - lastSeen v > 3 * minute))" for ip
  proof (cases "visitors a ip = visitors b ip")
    case True
    then show ?thesis by (auto simp: cleanup_def split: option.splits)
  next
    case False
    then obtain v where "visitors a ip = None" "visitors b ip = Some v" "s - lastSeen v > 3 * minute"
      using assms(1) unfolding swept_def by blast
    then show ?thesis using assms(2) by (auto simp: cleanup_def)
  qed
  have "rl_rate (cleanup t a) = rl_rate b" "rl_burst (cleanup t a) = rl_burst b"
    using sweptD(1,2)[OF assms(1)] by (simp_all add: cleanup_def)
  then show ?thesis using bucket_ok_later[OF sweptD(3)[OF assms(1)] assms(2)] v by (rule sweptI)
qed

lemma swept_ask:
  assumes s: "swept lib s a b" "s \<le> t"
    and law: "\<And>u t l. t - u > 3 * minute \<Longrightarrow> Allow lib t (snd (Allow lib u l)) = Allow lib t (NewLimiter lib (rl_rate b) (rl_burst b))"
  shows "fst (allow_ip lib t ip a) = fst (allow_ip lib t ip b)" "swept lib t (snd (allow_ip lib t ip a)) (snd (allow_ip lib t ip b))"
proof -
  let ?b = "\<lambda>l. case visitors l ip of None \<Rightarrow> NewLimiter lib (rl_rate l) (rl_burst l) | Some v \<Rightarrow> limiter v"
  have e: "Allow lib t (?b a) = Allow lib t (?b b)"
  proof (cases "visitors a ip = visitors b ip")
    case True
    then show ?thesis using s(1) by (simp add: swept_def split: option.split)
  next
    case False
    then obtain v where v: "visitors a ip = None" "visitors b ip = Some v" "s - lastSeen v > 3 * minute" "bucket_ok lib s v"
      using s(1) unfolding swept_def by metis
    then obtain l where l: "limiter v = snd (Allow lib (lastSeen v) l)" by (auto simp: bucket_ok_def)
    have "t - lastSeen v > 3 * minute" using v(3) s(2) by simp
    then show ?thesis using v l law s(1) by (simp add: swept_def)
  qed
  then show "fst (allow_ip lib t ip a) = fst (allow_ip lib t ip b)" by (simp add: allow_ip_eq Let_def)
  let ?v = "\<lparr>limiter = snd (Allow lib t (?b b)), lastSeen = t\<rparr>"
  have ok: "bucket_ok lib t ?v" by (auto simp: bucket_ok_def)
  have va: "visitors (snd (allow_ip lib t ip a)) = (visitors a)(ip \<mapsto> ?v)" using e by (simp add: allow_ip_eq Let_def)
  have vb: "visitors (snd (allow_ip lib t ip b)) = (visitors b)(ip \<mapsto> ?v)" by (simp add: allow_ip_eq Let_def)
  show "swept lib t (snd (allow_ip lib t ip a)) (snd (allow_ip lib t ip b))"
  proof (rule sweptI)
    show "bucket_ok lib t v" if "visitors (snd (allow_ip lib t ip b)) j = Some v" for j v
      using that ok bucket_ok_later[OF sweptD(3)[OF s(1)] s(2), of j v] unfolding vb by (cases "j = ip") auto
    show "visitors (snd (allow_ip lib t ip a)) j = visitors (snd (allow_ip lib t ip b)) j
        \<or> (visitors (snd (allow_ip lib t ip a)) j = None
            \<and> (\<exists>v. visitors (snd (allow_ip lib t ip b)) j = Some v \<and> t - lastSeen v > 3 * minute))" for j
      using sweptD(4)[OF s(1), of j] s(2) unfolding va vb by (cases "j = ip") force+
  qed (use sweptD(1,2)[OF s(1)] in \<open>simp_all add: allow_ip_eq Let_def\<close>)
qed

lemma limiter_run_swept:
  assumes "\<And>u t l. t - u > 3 * minute \<Longrightarrow> Allow lib t (snd (Allow lib u l)) = Allow lib t (NewLimiter lib r k)"
    and "sorted (s # map fst evs)" and "swept lib s a b" and "rl_rate b = r" and "rl_burst b = k"
  shows "limiter_run lib evs a = limiter_run lib (filter (\<lambda>e. snd e \<noteq> Sweep) evs) b"
  using assms(2-)
proof (induction evs arbitrary: s a b)
  case (Cons e evs)
  obtain t x where e: "e = (t, x)" by force
  have st: "s \<le> t" "sorted (t # map fst evs)" using Cons.prems(1) e by auto
  show ?case
  proof (cases x)
    case (Ask ip)
    note q = swept_ask[OF Cons.prems(2) st(1), of ip]
    have "swept lib t (snd (allow_ip lib t ip a)) (snd (allow_ip lib t ip b))" "fst (allow_ip lib t ip a) = fst (allow_ip lib t ip b)"
      using q assms(1) Cons.prems(3,4) by auto
    moreover have "rl_rate (snd (allow_ip lib t ip b)) = r" "rl_burst (snd (allow_ip lib t ip b)) = k"
      using Cons.prems(3,4) by (simp_all add: allow_ip_eq Let_def)
    ultimately show ?thesis using Cons.IH[OF st(2)] e Ask by (auto split: prod.split)
  next
    case Sweep
    then show ?thesis using Cons.IH[OF st(2) swept_cleanup[OF Cons.prems(2) st(1)] Cons.prems(3,4)] e by simp
  qed
qed simp

text \<open>C35: forgetting an idle client is invisible: given that a bucket left alone for more than three minutes
  answers like a new one, the limiter answers every request of any history exactly as it would
  if the cleanup loop never ran, and after a round it remembers only clients of the last three minutes.\<close>

theorem eviction_invisible:
  assumes "\<And>u t l. t - u > 3 * minute \<Longrightarrow>
      Allow lib t (snd (Allow lib u l)) = Allow lib t (NewLimiter lib (rpm, 60) burst)"
    and "sorted (map fst evs)"
  shows "limiter_run lib evs (NewIPRateLimiter rpm burst)
      = limiter_run lib (filter (\<lambda>e. snd e \<noteq> Sweep) evs) (NewIPRateLimiter rpm burst)
    \<and> (\<forall>l t ip. visitors (cleanup t l) ip \<noteq> None \<longrightarrow> (\<exists>v. visitors l ip = Some v \<and> t - lastSeen v \<le> 3 * minute))"
proof -
  have "swept lib (case evs of [] \<Rightarrow> 0 | e # _ \<Rightarrow> fst e) (NewIPRateLimiter rpm burst) (NewIPRateLimiter rpm burst)"
    by (simp add: swept_def NewIPRateLimiter_def)
  moreover have "sorted ((case evs of [] \<Rightarrow> 0 | e # _ \<Rightarrow> fst e) # map fst evs)" using assms(2) by (cases evs) auto
  ultimately have "limiter_run lib evs (NewIPRateLimiter rpm burst)
      = limiter_run lib (filter (\<lambda>e. snd e \<noteq> Sweep) evs) (NewIPRateLimiter rpm burst)"
    using limiter_run_swept[OF assms(1)] by (metis IPRateLimiter.select_convs(2,3) NewIPRateLimiter_def)
  then show ?thesis by (auto simp: cleanup_def split: option.splits if_splits)
qed

section \<open>Witnesses\<close>

definition demo_exchange :: exchange where
  "demo_exchange = \<lparr>ex_ctx = \<lparr>keys = (\<lambda>_. None), ctx_tenant = None,
       GetHeader = (\<lambda>h. if h = ''Origin'' then ''https://app.x'' else if h = HeaderRequestID then ''u11'' else ''''),
       HeaderValues = (\<lambda>_. []), Query = (\<lambda>_. ''''), Param = (\<lambda>_. ''''), Host = '''', ClientIP = ''10.0.0.1'', UserAgent = ''''\<rparr>,
     ex_Method = ''GET'', ex_FullPath = ''/api/v1/me'', ex_TLS = True, ex_headers = (\<lambda>_. []), ex_answer = None\<rparr>"

definition demo_node :: "unit node" where
  "demo_node = \<lparr>nd_world = demo_world, nd_registry = New_registry 0, nd_log = [], nd_limiter = NewIPRateLimiter 20 5, nd_clock = 0\<rparr>"




definition demo_ok :: "unit chain_handler" where
  "demo_ok ex n = (Returned, answer 200 NoBody ex, n)"

theorem cors_only_allow_listed_witness:
  "headers_of (engine_chain demo_env 7 ['' https://app.x ''] demo_ok demo_exchange demo_node) ACAO = [''https://app.x'']"
proof -
  have "\<And>e m. headers_of (demo_ok e m) ACAO = ex_headers e ACAO" by (simp add: headers_of_def demo_ok_def)
  moreover have "ex_headers demo_exchange ACAO = []" "GetHeader (ex_ctx demo_exchange) ''Origin'' = ''https://app.x''"
    by (simp_all add: demo_exchange_def)
  moreover have "TrimSpace '' https://app.x '' = ''https://app.x''" by code_simp
  ultimately show ?thesis
    using cors_only_allow_listed[of demo_ok demo_exchange demo_env 7 "['' https://app.x '']" demo_node demo_ok] by simp
qed

text \<open>A token bucket of capacity \<open>burst\<close> refilled at \<open>rpm / 60\<close> per second, its credit kept in nanoseconds.\<close>

definition bucket_lib :: "(gotime \<times> gotime option) rate_lib" where
  "bucket_lib = \<lparr>NewLimiter = (\<lambda>r b. (15 * second, None)),
     Allow = (\<lambda>t (credit, last). let c = (case last of None \<Rightarrow> 15 * second
         | Some s \<Rightarrow> min (15 * second) (max 0 credit + (t - s)))
       in if c \<ge> 3 * second then (True, (c - 3 * second, Some t)) else (False, (c, Some t)))\<rparr>"

definition demo_history :: "(gotime \<times> limiter_event) list" where
  "demo_history = map (\<lambda>t. (t, Ask ''10.0.0.1'')) [0, 1, 2, 3, 4, 5] @ [(200 * second, Sweep), (201 * second, Ask ''10.0.0.1'')]"

theorem eviction_invisible_witness:
  "limiter_run bucket_lib demo_history (NewIPRateLimiter 20 5) = [True, True, True, True, True, False, True]
   \<and> limiter_run bucket_lib (filter (\<lambda>e. snd e \<noteq> Sweep) demo_history) (NewIPRateLimiter 20 5)
      = [True, True, True, True, True, False, True]"
proof -
  have law: "Allow bucket_lib t (snd (Allow bucket_lib u l)) = Allow bucket_lib t (NewLimiter bucket_lib (20, 60) 5)"
    if "t - u > 3 * minute" for t u l
    using that by (cases l) (simp add: bucket_lib_def Let_def split: option.split)
  have "sorted (map fst demo_history)" by code_simp
  moreover have "limiter_run bucket_lib demo_history (NewIPRateLimiter 20 5) = [True, True, True, True, True, False, True]"
    by code_simp
  ultimately show ?thesis using eviction_invisible[OF law, of demo_history] by metis
qed

end
