(* ===== verification/Routes.thy ===== *)
theory Routes
  imports Middleware Realtime Apikeys_Props Identity_Props
begin

text \<open>
  internal/routes: which middlewares stand in front of which handler. \<open>Setup\<close> is the sequence of
  registrations \<open>Setup\<close> makes; gin binds to a route the middlewares its engine and group have at
  registration time, while the chain of \<open>NoRoute\<close> is rebuilt at every later \<open>Use\<close>. A handler is
  named as the code names it. The paths carry their group's prefix.
\<close>

section \<open>Gates\<close>

datatype gate = GTenant | GLimiter | GQueryToken | GApiKey | GAuth | GUserSession | GPermission string

record 'l platform =
  pf_env :: env
  pf_new_id :: uuid
  pf_origins :: "string list"
  pf_resolver :: resolver
  pf_secret :: string
  pf_rate :: "'l rate_lib"

text \<open>A refusal is the status and body that are sent.\<close>

type_synonym 'l gate_op = "('l node, int \<times> payload, gctx) op"

definition on_world :: "(world, unit response, gctx) op \<Rightarrow> 'l gate_op" where
  "on_world m n = (case m (nd_world n) of
     (Inl r, w) \<Rightarrow> (Inl (resp_status r, Envelope r), n\<lparr>nd_world := w\<rparr>)
   | (Inr c, w) \<Rightarrow> (Inr c, n\<lparr>nd_world := w\<rparr>))"

definition limit_gate :: "'l rate_lib \<Rightarrow> gctx \<Rightarrow> 'l gate_op" where
  "limit_gate lib c n = (case allow_ip lib (nd_clock n) (ClientIP c) (nd_limiter n) of (ok, l) \<Rightarrow>
     (if ok then Inr c else Inl (429, Raw ''too many requests, please try again later''), n\<lparr>nd_limiter := l\<rparr>))"

fun run_gate :: "'l platform \<Rightarrow> gate \<Rightarrow> gctx \<Rightarrow> 'l gate_op" where
  "run_gate pf GTenant c = on_world (tenancy_Middleware (pf_env pf) (pf_resolver pf) c)"
| "run_gate pf GLimiter c = limit_gate (pf_rate pf) c"
| "run_gate pf GQueryToken c = op_return (QueryTokenAuth c)"
| "run_gate pf GApiKey c = on_world (apikeys_Authenticate (pf_env pf) c)"
| "run_gate pf GAuth c = on_world (RequireAuth (pf_env pf) (pf_secret pf) (Some ValidateCredentialState) c)"
| "run_gate pf GUserSession c = on_world (RequireUserSession c)"
| "run_gate pf (GPermission code) c = on_world (RequirePermission (pf_env pf) code c)"

fun run_gates :: "'l platform \<Rightarrow> gate list \<Rightarrow> gctx \<Rightarrow> 'l gate_op" where
  "run_gates pf [] c = op_return c"
| "run_gates pf (g # gs) c = op_bind (run_gate pf g c) (run_gates pf gs)"

text \<open>The gates as a handler, and a whole route.\<close>

definition gated :: "'l platform \<Rightarrow> gate list \<Rightarrow> 'l middleware" where
  "gated pf gs next ex n = (case run_gates pf gs (ex_ctx ex) n of
     (Inl (st, body), n) \<Rightarrow> (Returned, answer st body ex, n)
   | (Inr c, n) \<Rightarrow> next (ex\<lparr>ex_ctx := c\<rparr>) n)"

definition serve :: "'l platform \<Rightarrow> gate list \<Rightarrow> 'l middleware" where
  "serve pf gs h = engine_chain (pf_env pf) (pf_new_id pf) (pf_origins pf) (gated pf gs h)"

section \<open>Registration\<close>

datatype registration = Use gate | Handle string string "gate list" string | NoRoute string

record route =
  rt_Method :: string
  rt_Path :: string
  rt_gates :: "gate list"
  rt_Handler :: string

fun bind_routes :: "gate list \<Rightarrow> registration list \<Rightarrow> route list" where
  "bind_routes ms [] = []"
| "bind_routes ms (Use g # rs) = bind_routes (ms @ [g]) rs"
| "bind_routes ms (Handle m p gs h # rs) = \<lparr>rt_Method = m, rt_Path = p, rt_gates = ms @ gs, rt_Handler = h\<rparr> # bind_routes ms rs"
| "bind_routes ms (NoRoute h # rs) = bind_routes ms rs"

fun engine_uses :: "registration list \<Rightarrow> gate list" where
  "engine_uses [] = []"
| "engine_uses (Use g # rs) = g # engine_uses rs"
| "engine_uses (_ # rs) = engine_uses rs"

text \<open>A group: a path prefix and middlewares of its own before those of the route.\<close>

definition group :: "string \<Rightarrow> gate list \<Rightarrow> registration list \<Rightarrow> registration list" where
  "group base gs rs = map (\<lambda>r. case r of Handle m p hs h \<Rightarrow> Handle m (base @ p) (gs @ hs) h | _ \<Rightarrow> r) rs"

abbreviation "GET p gs h \<equiv> Handle ''GET'' p gs h"
abbreviation "HEAD p gs h \<equiv> Handle ''HEAD'' p gs h"
abbreviation "POST p gs h \<equiv> Handle ''POST'' p gs h"
abbreviation "PUT p gs h \<equiv> Handle ''PUT'' p gs h"
abbreviation "PATCH p gs h \<equiv> Handle ''PATCH'' p gs h"
abbreviation "DELETE p gs h \<equiv> Handle ''DELETE'' p gs h"
abbreviation "perm code \<equiv> GPermission code"

definition operational_routes :: "registration list" where
  "operational_routes = [GET ''/health'' [] ''Health'', GET ''/health/ready'' [] ''Ready'', GET ''/health/live'' [] ''Live'',
     GET ''/metrics'' [] ''metrics.Handler'',
     GET ''/swagger'' [] ''swagger.uiPage'', GET ''/swagger/openapi.yaml'' [] ''swagger.openAPIYAML'']"

text \<open>\<open>StaticFS\<close> registers its pattern for GET and for HEAD.\<close>

definition registerWebRoutes :: "registration list" where
  "registerWebRoutes = [GET ''/'' [] ''landing'', GET ''/app'' [] ''serveDashboard'', GET ''/favicon.ico'' [] ''favicon'',
     GET ''/site.webmanifest'' [] ''manifest'', GET ''/assets/*filepath'' [] ''assets'',
     HEAD ''/assets/*filepath'' [] ''assets'', NoRoute ''noRoute'']"

definition auth_routes :: "registration list" where
  "auth_routes = group ''/auth'' [GLimiter]
     [POST ''/register'' [] ''identity.Register'', POST ''/login'' [] ''identity.Login'',
      POST ''/refresh'' [] ''identity.Refresh'', POST ''/logout'' [] ''identity.Logout'',
      POST ''/forgot-password'' [] ''identity.ForgotPassword'', POST ''/reset-password'' [] ''identity.ResetPassword'',
      POST ''/verify-email'' [] ''identity.VerifyEmail'', GET ''/oauth/:provider'' [] ''identity.OAuthAuthorize'',
      GET ''/oauth/:provider/callback'' [] ''identity.OAuthCallback'']"

definition public_invites :: "registration list" where
  "public_invites = group ''/invitations'' [GLimiter]
     [GET ''/preview'' [] ''invitations.Preview'', POST ''/accept'' [] ''invitations.Accept'']"

definition self_service_routes :: "registration list" where
  "self_service_routes = [GET ''/me'' [] ''identity.Me'', POST ''/verify-email/request'' [] ''identity.RequestEmailVerification'',
     GET ''/profile'' [] ''preferences.GetProfile'', PATCH ''/profile'' [GUserSession] ''preferences.UpdateProfile'',
     POST ''/profile/change-password'' [GUserSession] ''preferences.ChangePassword'',
     GET ''/preferences'' [] ''preferences.Get'', PATCH ''/preferences'' [GUserSession] ''preferences.Update'']
   @ group ''/notifications'' []
     [GET '''' [] ''notifications.List'', GET ''/unread-count'' [] ''notifications.UnreadCount'',
      POST ''/read-all'' [] ''notifications.MarkAllRead'', POST ''/:notificationID/read'' [] ''notifications.MarkRead'',
      DELETE ''/:notificationID'' [] ''notifications.Delete'']"

definition stream_routes :: "registration list" where
  "stream_routes = group ''/notifications'' [GQueryToken, GApiKey, GAuth] [GET ''/stream'' [] ''realtime.Stream'']"

definition administration_routes :: "registration list" where
  "administration_routes = [GET ''/admin/overview'' [perm ''org:view''] ''admin.Overview'',
      GET ''/users'' [perm ''member:view''] ''identity.ListUsers'']
   @ group ''/roles'' []
     [GET '''' [perm ''role:view''] ''authz.ListRoles'',
      GET ''/:roleID/permissions'' [perm ''role:view''] ''authz.GetRolePermissions'',
      POST '''' [perm ''role:manage''] ''authz.CreateRole'',
      PUT ''/:roleID/permissions'' [perm ''role:manage''] ''authz.UpdateRolePermissions'',
      DELETE ''/:roleID'' [perm ''role:manage''] ''authz.DeleteRole'',
      POST ''/assign'' [perm ''role:manage''] ''authz.AssignRole'', POST ''/revoke'' [perm ''role:manage''] ''authz.RevokeRole'']
   @ [GET ''/permissions'' [perm ''role:view''] ''authz.ListPermissionCatalog'']"

definition team_routes :: "registration list" where
  "team_routes = group ''/teams'' []
     [GET '''' [perm ''team:view''] ''teams.List'', POST '''' [perm ''team:create''] ''teams.Create'',
      GET ''/:teamID'' [perm ''team:view''] ''teams.Get'', PATCH ''/:teamID'' [perm ''team:manage''] ''teams.Update'',
      DELETE ''/:teamID'' [perm ''team:manage''] ''teams.Delete'', GET ''/:teamID/members'' [perm ''team:view''] ''teams.ListMembers'',
      POST ''/:teamID/members'' [perm ''team:manage''] ''teams.AddMember'',
      DELETE ''/:teamID/members/:userID'' [perm ''team:manage''] ''teams.RemoveMember'']"

definition project_routes :: "registration list" where
  "project_routes = group ''/projects'' []
     [GET '''' [perm ''project:view''] ''projects.List'', POST '''' [perm ''project:create''] ''projects.Create'',
      GET ''/:projectID'' [perm ''project:view''] ''projects.Get'', PATCH ''/:projectID'' [perm ''project:manage''] ''projects.Update'',
      DELETE ''/:projectID'' [perm ''project:delete''] ''projects.Delete'',
      GET ''/:projectID/members'' [perm ''project:view''] ''projects.ListMembers'',
      POST ''/:projectID/members'' [perm ''project:manage''] ''projects.AddMember'',
      DELETE ''/:projectID/members/:userID'' [perm ''project:manage''] ''projects.RemoveMember'']"

definition resource_routes :: "registration list" where
  "resource_routes = group ''/invitations'' []
     [GET '''' [perm ''member:view''] ''invitations.List'', POST '''' [perm ''member:invite''] ''invitations.Create'',
      DELETE ''/:inviteID'' [perm ''member:invite''] ''invitations.Revoke'']
   @ group ''/files'' []
     [GET '''' [perm ''file:view''] ''files.List'', POST '''' [perm ''file:upload''] ''files.Upload'',
      GET ''/:fileID'' [perm ''file:view''] ''files.Get'', GET ''/:fileID/download'' [perm ''file:view''] ''files.Download'',
      DELETE ''/:fileID'' [perm ''file:delete''] ''files.Delete'']
   @ group ''/api-keys'' []
     [GET '''' [perm ''apikey:view''] ''apikeys.List'', POST '''' [GUserSession, perm ''apikey:manage''] ''apikeys.Create'',
      DELETE ''/:keyID'' [GUserSession, perm ''apikey:manage''] ''apikeys.Revoke'']
   @ group ''/billing'' []
     [GET ''/subscription'' [perm ''billing:view''] ''billing.GetSubscription'', GET ''/usage'' [perm ''billing:view''] ''billing.GetUsage'',
      POST ''/subscription'' [perm ''billing:manage''] ''billing.ChangePlan'',
      DELETE ''/subscription'' [perm ''billing:manage''] ''billing.Cancel'']
   @ [GET ''/audit-logs'' [perm ''audit:view''] ''audit.ListAuditLogs'', GET ''/activity'' [perm ''org:view''] ''audit.ListActivity'']"

definition api_v1 :: "registration list" where
  "api_v1 = group ''/api/v1'' [] (auth_routes @ public_invites @ [GET ''/billing/plans'' [] ''billing.ListPlans'']
     @ group '''' [GApiKey, GAuth] self_service_routes @ stream_routes
     @ group '''' [GApiKey, GAuth] (administration_routes @ team_routes @ project_routes @ resource_routes))"

definition Setup :: "registration list" where
  "Setup = operational_routes @ registerWebRoutes @ [Use GTenant] @ api_v1"

definition route_table :: "route list" where
  "route_table = bind_routes [] Setup"

definition no_route_gates :: "gate list" where
  "no_route_gates = engine_uses Setup"

text \<open>The fallback itself: a JSON 404 below \<open>/api/\<close>, the dashboard elsewhere.\<close>

definition noRoute :: "string \<Rightarrow> int \<times> payload" where
  "noRoute path = (if length path \<ge> 5 \<and> take 5 path = ''/api/'' then (404, Raw ''endpoint not found'') else (200, Raw ''dashboard''))"

section \<open>The shape of the table\<close>

text \<open>A protected route: the two credential middlewares behind the tenant resolver, then at most a
  session gate, then at most one permission.\<close>

definition protected_gates :: "gate list \<Rightarrow> bool" where
  "protected_gates gs \<longleftrightarrow> take 3 gs = [GTenant, GApiKey, GAuth]
     \<and> (case drop 3 gs of [] \<Rightarrow> True | [GUserSession] \<Rightarrow> True | [GPermission code] \<Rightarrow> True
        | [GUserSession, GPermission code] \<Rightarrow> True | _ \<Rightarrow> False)"

definition stream_gates :: "gate list" where "stream_gates = [GTenant, GQueryToken, GApiKey, GAuth]"

definition public_gates :: "gate list \<Rightarrow> bool" where
  "public_gates gs \<longleftrightarrow> gs = [] \<or> gs = [GTenant] \<or> gs = [GTenant, GLimiter]"

lemma table_shape: "r \<in> set route_table \<Longrightarrow>
  protected_gates (rt_gates r) \<or> rt_gates r = stream_gates \<or> public_gates (rt_gates r)"
proof -
  have "list_all (\<lambda>r. protected_gates (rt_gates r) \<or> rt_gates r = stream_gates \<or> public_gates (rt_gates r)) route_table"
    by code_simp
  then show "r \<in> set route_table \<Longrightarrow> ?thesis" by (simp add: list_all_iff)
qed

lemma protected_cases:
  assumes "protected_gates gs"
  obtains rest where "gs = GTenant # GApiKey # GAuth # rest" "rest \<in> {[], [GUserSession]}"
  | code rest where "gs = GTenant # GApiKey # GAuth # rest" "rest \<in> {[GPermission code], [GUserSession, GPermission code]}"
proof -
  have g: "gs = GTenant # GApiKey # GAuth # drop 3 gs"
    using assms append_take_drop_id[of 3 gs] unfolding protected_gates_def by auto
  have "(drop 3 gs \<in> {[], [GUserSession]}) \<or> (\<exists>code. drop 3 gs \<in> {[GPermission code], [GUserSession, GPermission code]})"
    using assms unfolding protected_gates_def by (auto split: list.splits gate.splits)
  then show ?thesis using g that by blast
qed

lemma gated_rest:
  assumes "r \<in> set route_table" "GPermission code \<in> set (rt_gates r)"
  shows "\<exists>rest. rt_gates r = GTenant # GApiKey # GAuth # rest \<and> rest \<in> {[GPermission code], [GUserSession, GPermission code]}"
  using table_shape[OF assms(1)] assms(2)
  by (elim disjE protected_cases) (auto simp: stream_gates_def public_gates_def)

section \<open>What a passed gate tells\<close>

lemma on_world_Inr [simp]: "on_world m n = (Inr c, n') \<longleftrightarrow> (\<exists>w. m (nd_world n) = (Inr c, w) \<and> n' = n\<lparr>nd_world := w\<rparr>)"
  by (auto simp: on_world_def split: prod.splits sum.splits)

lemma Resolve_tenant_keeps:
  "Resolve_tenant ev r slug w = (x, w') \<Longrightarrow> store w' = store w \<and> perm_cache w' = perm_cache w"
  unfolding Resolve_tenant_def tenancy_FindBySlug_def
  by (auto simp: op_bind_eq op_map_err_eq SetTenantBySlug_def Let_def run_stmt_def stmt_Inr take_row_def split: option.splits if_splits sum.splits)

text \<open>A request nobody has authenticated yet.\<close>

definition unauthenticated_request :: "gctx \<Rightarrow> bool" where
  "unauthenticated_request c \<longleftrightarrow> keys c CtxAuthenticated = None \<and> keys c CtxAPIKeyScopes = None"

lemma tenancy_Middleware_Inr:
  assumes "tenancy_Middleware ev r c w = (Inr c', w')"
  shows "store w' = store w \<and> perm_cache w' = perm_cache w \<and> (\<forall>k. k \<noteq> tenantCtxKey \<longrightarrow> keys c' k = keys c k)
    \<and> GetHeader c' = GetHeader c \<and> Query c' = Query c"
  using assms unfolding tenancy_Middleware_def
  by (auto simp: op_try_eq ctx_set_def dest!: Resolve_tenant_keeps split: prod.splits if_splits)

lemma tenant_key_other [simp]: "CtxAuthenticated \<noteq> tenantCtxKey" "CtxAPIKeyScopes \<noteq> tenantCtxKey" "CtxUserID \<noteq> tenantCtxKey"
  "CtxTenantID \<noteq> tenantCtxKey"
  by (simp_all add: CtxAuthenticated_def CtxAPIKeyScopes_def tenantCtxKey_def CtxUserID_def CtxTenantID_def)

text \<open>Who a request is after the two credential middlewares.\<close>

definition key_request :: "env \<Rightarrow> string \<Rightarrow> db \<Rightarrow> gctx \<Rightarrow> bool" where
  "key_request ev presented d c \<longleftrightarrow> (\<exists>k\<in>set (api_keys d). key_KeyHash k = HashKey ev presented \<and> Active ev k
     \<and> ctx_tenant c = Some (key_TenantID k) \<and> keys c CtxAPIKeyScopes = Some (VStrings (key_Scopes k)))"

definition session_request :: "db \<Rightarrow> gctx \<Rightarrow> uuid \<Rightarrow> uuid \<Rightarrow> bool" where
  "session_request d c t u \<longleftrightarrow> keys c CtxAPIKeyScopes = None \<and> ctx_tenant c = Some t
     \<and> keys c CtxUserID = Some (VUuid u) \<and> keys c CtxTenantID = Some (VUuid t) \<and> credential_active (Some t) d t u"

lemma set_key_identity_keys:
  "keys (set_key_identity a c) CtxAPIKeyScopes = Some (VStrings (auth_Scopes a))"
  "keys (set_key_identity a c) CtxAuthenticated = Some (VBool True)" "ctx_tenant (set_key_identity a c) = ctx_tenant c"
  by (auto simp: set_key_identity_def Let_def ctx_set_def CtxAPIKeyScopes_def CtxAuthenticated_def CtxAPIKeyID_def CtxUserID_def
      split: option.splits)

lemma apikeys_Authenticate_Inr:
  assumes "apikeys_Authenticate ev c w = (Inr c', w')"
  shows "(presentedKey c = '''' \<and> c' = c \<and> w' = w)
    \<or> (presentedKey c \<noteq> '''' \<and> keys c' CtxAuthenticated = Some (VBool True) \<and> key_request ev (presentedKey c) (store w) c')"
proof (cases "presentedKey c = ''''")
  case False
  then obtain a w1 where a: "apikeys_svc_Authenticate ev (presentedKey c) w = (Inr a, w1)"
    and o: "(case OverrideFromCredential c (auth_TenantID a) of
          Inl e \<Rightarrow> abort c CodeTenantMismatch ''api key tenant does not match resolved tenant''
        | Inr c' \<Rightarrow> op_return (set_key_identity a c')) w1 = (Inr c', w')"
    using assms unfolding apikeys_Authenticate_def Let_def by (auto simp: op_try_eq)
  then obtain c1 where c1: "OverrideFromCredential c (auth_TenantID a) = Inr c1" "c' = set_key_identity a c1"
    by (auto split: sum.splits)
  show ?thesis using False svc_Authenticate_Inr[OF a] OverrideFromCredential_Inr[OF c1(1)] c1(2)
    by (auto simp: key_request_def set_key_identity_keys)
qed (use assms in \<open>simp add: apikeys_Authenticate_def\<close>)

lemma RequireAuth_scopes:
  assumes "RequireAuth ev secret v c w = (Inr c', w')"
  shows "keys c' CtxAPIKeyScopes = keys c CtxAPIKeyScopes"
proof -
  have k: "keys (set_claims u t r c1) CtxAPIKeyScopes = keys c1 CtxAPIKeyScopes" for u t r c1
    by (simp add: set_claims_def ctx_set_def CtxAPIKeyScopes_def CtxAuthenticated_def CtxRole_def CtxTenantID_def CtxUserID_def)
  show ?thesis using assms unfolding RequireAuth_def
    by (auto simp: op_try_eq k dest!: OverrideFromCredential_Inr split: if_splits sum.splits option.splits)
qed

lemma auth_gates_Inr:
  assumes "run_gates pf (GApiKey # GAuth # rest) c n = (Inr c', n')" and "unauthenticated_request c"
  shows "\<exists>c2 n2. run_gates pf rest c2 n2 = (Inr c', n')
    \<and> (key_request (pf_env pf) (presentedKey c) (store (nd_world n)) c2 \<and> presentedKey c \<noteq> ''''
       \<or> (presentedKey c = '''' \<and> store (nd_world n2) = store (nd_world n) \<and> perm_cache (nd_world n2) = perm_cache (nd_world n)
          \<and> (\<exists>tok. bearer_token c = Inr tok) \<and> (\<exists>t u. session_request (store (nd_world n)) c2 t u)))"
proof -
  let ?w = "nd_world n"
  obtain c1 w1 c2 w2 where k: "apikeys_Authenticate (pf_env pf) c ?w = (Inr c1, w1)"
    and a: "RequireAuth (pf_env pf) (pf_secret pf) (Some ValidateCredentialState) c1 w1 = (Inr c2, w2)"
    and r: "run_gates pf rest c2 (n\<lparr>nd_world := w2\<rparr>) = (Inr c', n')"
    using assms(1) by (auto simp: op_bind_Inr)
  show ?thesis
  proof (cases "presentedKey c = ''''")
    case True
    then have c1: "c1 = c" "w1 = ?w" using apikeys_Authenticate_Inr[OF k] by auto
    then have "\<not> already_authenticated c1" using assms(2) by (simp add: already_authenticated_def unauthenticated_request_def)
    from RequireAuth_Inr[OF a this] obtain tok u tn where b: "bearer_token c1 = Inr tok"
      and s: "ctx_tenant c2 = Some tn" "keys c2 CtxUserID = Some (VUuid u)" "keys c2 CtxTenantID = Some (VUuid tn)"
        "credential_active (Some tn) (store w1) tn u" "w2 = w1" by blast
    have "session_request (store ?w) c2 tn u"
      using s RequireAuth_scopes[OF a] c1 assms(2) by (simp add: session_request_def unauthenticated_request_def)
    then show ?thesis using r True b c1 s(5) by (intro exI[of _ c2] exI[of _ "n\<lparr>nd_world := w2\<rparr>"]) auto
  next
    case False
    then have q: "keys c1 CtxAuthenticated = Some (VBool True)" "key_request (pf_env pf) (presentedKey c) (store ?w) c1"
      using apikeys_Authenticate_Inr[OF k] by auto
    then have "c2 = c1" using a by (simp add: RequireAuth_def already_authenticated_def)
    then show ?thesis using r q False by (intro exI[of _ c2] exI[of _ "n\<lparr>nd_world := w2\<rparr>"]) auto
  qed
qed

lemma tenant_gate_Inr:
  assumes "run_gates pf (GTenant # rest) c n = (Inr c', n')"
  shows "\<exists>c0 n0. run_gates pf rest c0 n0 = (Inr c', n') \<and> store (nd_world n0) = store (nd_world n)
    \<and> perm_cache (nd_world n0) = perm_cache (nd_world n) \<and> presentedKey c0 = presentedKey c \<and> bearer_token c0 = bearer_token c
    \<and> GetHeader c0 = GetHeader c \<and> Query c0 = Query c \<and> unauthenticated_request c0 = unauthenticated_request c"
proof -
  obtain c0 w0 where t: "tenancy_Middleware (pf_env pf) (pf_resolver pf) c (nd_world n) = (Inr c0, w0)"
    and r: "run_gates pf rest c0 (n\<lparr>nd_world := w0\<rparr>) = (Inr c', n')" using assms by (auto simp: op_bind_Inr)
  note k = tenancy_Middleware_Inr[OF t]
  then have h: "GetHeader c0 = GetHeader c" by blast
  then have "presentedKey c0 = presentedKey c" "bearer_token c0 = bearer_token c" by (simp_all only: presentedKey_def bearer_token_def)
  then show ?thesis using r h k by (intro exI[of _ c0] exI[of _ "n\<lparr>nd_world := w0\<rparr>"]) (simp add: unauthenticated_request_def)
qed

lemma credentials_Inr:
  assumes "run_gates pf (GTenant # GApiKey # GAuth # rest) c n = (Inr c', n')" and "unauthenticated_request c"
  shows "\<exists>c2 n2. run_gates pf rest c2 n2 = (Inr c', n')
    \<and> (key_request (pf_env pf) (presentedKey c) (store (nd_world n)) c2 \<and> presentedKey c \<noteq> ''''
       \<or> (presentedKey c = '''' \<and> store (nd_world n2) = store (nd_world n) \<and> perm_cache (nd_world n2) = perm_cache (nd_world n)
          \<and> (\<exists>tok. bearer_token c = Inr tok) \<and> (\<exists>t u. session_request (store (nd_world n)) c2 t u)))"
proof -
  obtain c0 n0 where t: "run_gates pf (GApiKey # GAuth # rest) c0 n0 = (Inr c', n')" "store (nd_world n0) = store (nd_world n)"
    "perm_cache (nd_world n0) = perm_cache (nd_world n)" "presentedKey c0 = presentedKey c" "bearer_token c0 = bearer_token c"
    "unauthenticated_request c0" using tenant_gate_Inr[OF assms(1)] assms(2) by blast
  show ?thesis using auth_gates_Inr[OF t(1,6)] unfolding t(2-5) .
qed

section \<open>Properties\<close>

lemma session_gate_Inr:
  assumes "rest \<in> {[GPermission code], [GUserSession, GPermission code]}" and "run_gates pf rest c n = (Inr c', n')"
  shows "c' = c \<and> RequirePermission (pf_env pf) code c (nd_world n) = (Inr c, nd_world n')
    \<and> (GUserSession \<in> set rest \<longrightarrow> keys c CtxAPIKeyScopes = None)"
proof -
  have p: "c' = c2" if "RequirePermission (pf_env pf) code c2 w = (Inr c', w')" for c2 w w'
    using that by (auto simp: RequirePermission_def op_try_eq split: option.splits if_splits)
  have u: "d = c \<and> w' = w \<and> keys c CtxAPIKeyScopes = None" if "RequireUserSession c w = (Inr d, w')" for d w w'
    using that by (auto simp: RequireUserSession_def split: if_splits)
  from assms(1) consider "rest = [GPermission code]" | "rest = [GUserSession, GPermission code]" by blast
  then show ?thesis
  proof cases
    case 1
    then obtain w where "RequirePermission (pf_env pf) code c (nd_world n) = (Inr c', w)" "n' = n\<lparr>nd_world := w\<rparr>"
      using assms(2) by (auto simp: op_bind_Inr)
    then show ?thesis using p[of c] 1 by simp
  next
    case 2
    then obtain d w0 w where "RequireUserSession c (nd_world n) = (Inr d, w0)"
      and r: "RequirePermission (pf_env pf) code d w0 = (Inr c', w)" "n' = n\<lparr>nd_world := w\<rparr>"
      using assms(2) by (auto simp: op_bind_Inr)
    then have "d = c \<and> w0 = nd_world n \<and> keys c CtxAPIKeyScopes = None" using u by blast
    then show ?thesis using p[of c] r by simp
  qed
qed

text \<open>C36: a handler behind a permission is reached in one of two ways only. Either the request presented an
  API key that is live and carries that permission as a scope, and then it runs in the key's
  tenant; or it presented no key, carries a valid token of an active account in an active
  organization, and, if the permission cache agrees with the database, that account holds the
  permission at that moment.\<close>

theorem gated_route_sound:
  assumes "r \<in> set route_table" and "GPermission code \<in> set (rt_gates r)"
    and "run_gates pf (rt_gates r) c n = (Inr c', n')" and "unauthenticated_request c"
  shows "\<exists>t. ctx_tenant c' = Some t
    \<and> ((\<exists>k\<in>set (api_keys (store (nd_world n))). key_KeyHash k = HashKey (pf_env pf) (presentedKey c) \<and> Active (pf_env pf) k
          \<and> key_TenantID k = t \<and> code \<in> set (key_Scopes k) \<and> presentedKey c \<noteq> '''')
       \<or> (presentedKey c = '''' \<and> (\<exists>u. session_request (store (nd_world n)) c' t u
            \<and> (coherent t (nd_world n) \<longrightarrow> code \<in> set (user_codes (Some t) (store (nd_world n)) u)))))"
proof -
  obtain rest where g: "rt_gates r = GTenant # GApiKey # GAuth # rest"
    and rest: "rest \<in> {[GPermission code], [GUserSession, GPermission code]}"
    using gated_rest[OF assms(1,2)] by blast
  obtain c2 n2 where r: "run_gates pf rest c2 n2 = (Inr c', n')"
    and who: "key_request (pf_env pf) (presentedKey c) (store (nd_world n)) c2 \<and> presentedKey c \<noteq> ''''
       \<or> (presentedKey c = '''' \<and> store (nd_world n2) = store (nd_world n) \<and> perm_cache (nd_world n2) = perm_cache (nd_world n)
          \<and> (\<exists>tok. bearer_token c = Inr tok) \<and> (\<exists>t u. session_request (store (nd_world n)) c2 t u))"
    using credentials_Inr[OF assms(3)[unfolded g] assms(4)] by blast
  from session_gate_Inr[OF rest r] have c': "c' = c2"
    and perm: "RequirePermission (pf_env pf) code c2 (nd_world n2) = (Inr c2, nd_world n')" by auto
  from who show ?thesis
  proof (elim disjE conjE)
    assume "key_request (pf_env pf) (presentedKey c) (store (nd_world n)) c2" and ne: "presentedKey c \<noteq> ''''"
    then obtain k where k: "k \<in> set (api_keys (store (nd_world n)))" "key_KeyHash k = HashKey (pf_env pf) (presentedKey c)"
      "Active (pf_env pf) k" "ctx_tenant c2 = Some (key_TenantID k)" "keys c2 CtxAPIKeyScopes = Some (VStrings (key_Scopes k))"
      unfolding key_request_def by blast
    then have "code \<in> set (key_Scopes k)" using perm
      by (simp add: RequirePermission_key[of c2 "key_Scopes k"] scopesFromContext_def split: if_splits)
    then show ?thesis using k c' ne by (intro exI[of _ "key_TenantID k"]) blast
  next
    assume ne: "presentedKey c = ''''" and same: "store (nd_world n2) = store (nd_world n)" "perm_cache (nd_world n2) = perm_cache (nd_world n)"
      and "\<exists>t u. session_request (store (nd_world n)) c2 t u"
    then obtain t u where s: "session_request (store (nd_world n)) c2 t u" by blast
    have "HasPermission (pf_env pf) (Some t) t u code (nd_world n2) = (Inr True, nd_world n')"
      using RequirePermission_user[OF _ perm] s by (auto simp: session_request_def scopesFromContext_def as_uuid_def)
    moreover have "coherent t (nd_world n2) = coherent t (nd_world n)" using same by (simp add: coherent_def)
    ultimately have "coherent t (nd_world n) \<longrightarrow> code \<in> set (user_codes (Some t) (store (nd_world n)) u)"
      using HasPermission_exact same by metis
    then show ?thesis using s c' ne by (intro exI[of _ t]) (auto simp: session_request_def)
  qed
qed

text \<open>The handlers that administer an organization, its billing, its keys, or the caller's own account.\<close>

definition administrative :: "string list" where
  "administrative = [''authz.CreateRole'', ''authz.UpdateRolePermissions'', ''authz.DeleteRole'', ''authz.AssignRole'', ''authz.RevokeRole'',
     ''billing.ChangePlan'', ''billing.Cancel'', ''apikeys.Create'', ''apikeys.Revoke'',
     ''preferences.UpdateProfile'', ''preferences.ChangePassword'', ''preferences.Update'']"

definition needs_session :: "gate list \<Rightarrow> bool" where
  "needs_session gs \<longleftrightarrow> GUserSession \<in> set gs \<or> list_ex (\<lambda>g. case g of GPermission code \<Rightarrow> code \<notin> set GrantableScopes | _ \<Rightarrow> False) gs"

lemma administrative_gates: "r \<in> set route_table \<Longrightarrow> rt_Handler r \<in> set administrative \<Longrightarrow>
  protected_gates (rt_gates r) \<and> needs_session (rt_gates r)"
proof -
  have "list_all (\<lambda>r. rt_Handler r \<in> set administrative \<longrightarrow> protected_gates (rt_gates r) \<and> needs_session (rt_gates r)) route_table"
    by code_simp
  then show "r \<in> set route_table \<Longrightarrow> rt_Handler r \<in> set administrative \<Longrightarrow> ?thesis" by (simp add: list_all_iff)
qed

text \<open>C37: as long as the stored keys carry only grantable scopes, no API key reaches a handler that
  administers roles, billing, API keys or the caller's own account: a request that gets there
  presented no key and is the session of an active account.\<close>

theorem api_key_cannot_administer:
  assumes "r \<in> set route_table" and "rt_Handler r \<in> set administrative"
    and "run_gates pf (rt_gates r) c n = (Inr c', n')" and "unauthenticated_request c"
    and "\<And>k. k \<in> set (api_keys (store (nd_world n))) \<Longrightarrow> set (key_Scopes k) \<subseteq> set GrantableScopes"
  shows "presentedKey c = '''' \<and> (\<exists>t u. session_request (store (nd_world n)) c' t u)"
proof -
  have pg: "protected_gates (rt_gates r)" and ns: "needs_session (rt_gates r)"
    using administrative_gates[OF assms(1,2)] by blast+
  obtain rest where g: "rt_gates r = GTenant # GApiKey # GAuth # rest"
    and rest: "rest = [] \<or> rest = [GUserSession] \<or> (\<exists>code. rest \<in> {[GPermission code], [GUserSession, GPermission code]})"
    using pg by (elim protected_cases) auto
  obtain c2 n2 where r: "run_gates pf rest c2 n2 = (Inr c', n')"
    and who: "key_request (pf_env pf) (presentedKey c) (store (nd_world n)) c2
       \<or> (presentedKey c = '''' \<and> store (nd_world n2) = store (nd_world n) \<and> perm_cache (nd_world n2) = perm_cache (nd_world n)
          \<and> (\<exists>tok. bearer_token c = Inr tok) \<and> (\<exists>t u. session_request (store (nd_world n)) c2 t u))"
    using credentials_Inr[OF assms(3)[unfolded g] assms(4)] by blast
  have c': "c' = c2 \<and> (keys c2 CtxAPIKeyScopes \<noteq> None \<longrightarrow> (\<exists>code. code \<notin> set GrantableScopes
      \<and> RequirePermission (pf_env pf) code c2 (nd_world n2) = (Inr c2, nd_world n')))"
    using rest
  proof (elim disjE exE)
    assume "rest = []"
    then show ?thesis using ns g by (simp add: needs_session_def)
  next
    assume "rest = [GUserSession]"
    then show ?thesis using r by (auto simp: op_bind_Inr RequireUserSession_def split: if_splits)
  next
    fix code assume p: "rest \<in> {[GPermission code], [GUserSession, GPermission code]}"
    then have "GUserSession \<in> set rest \<or> code \<notin> set GrantableScopes" using ns g by (auto simp: needs_session_def)
    then show ?thesis using session_gate_Inr[OF p r] by (metis option.distinct(1))
  qed
  have "\<not> key_request (pf_env pf) (presentedKey c) (store (nd_world n)) c2"
  proof
    assume "key_request (pf_env pf) (presentedKey c) (store (nd_world n)) c2"
    then obtain k where k: "k \<in> set (api_keys (store (nd_world n)))" "keys c2 CtxAPIKeyScopes = Some (VStrings (key_Scopes k))"
      unfolding key_request_def by blast
    then obtain code where "code \<notin> set GrantableScopes" "RequirePermission (pf_env pf) code c2 (nd_world n2) = (Inr c2, nd_world n')"
      using c' by auto
    then have "code \<in> set (key_Scopes k)" using k
      by (simp add: RequirePermission_key[of c2 "key_Scopes k"] scopesFromContext_def split: if_splits)
    then show False using \<open>code \<notin> set GrantableScopes\<close> assms(5)[OF k(1)] by blast
  qed
  then show ?thesis using who c' by blast
qed

text \<open>The routes that answer without any credential: of the API, those behind the rate limiter and the
  plan catalogue; besides, the probes, the metrics (which ask for a token of their own when one
  is configured), the API description and the documents of the dashboard.\<close>

definition endpoint :: "route \<Rightarrow> string \<times> string \<times> string" where
  "endpoint r = (rt_Method r, rt_Path r, rt_Handler r)"

definition limited_api :: "(string \<times> string \<times> string) list" where
  "limited_api = [(''POST'', ''/api/v1/auth/register'', ''identity.Register''), (''POST'', ''/api/v1/auth/login'', ''identity.Login''),
     (''POST'', ''/api/v1/auth/refresh'', ''identity.Refresh''), (''POST'', ''/api/v1/auth/logout'', ''identity.Logout''),
     (''POST'', ''/api/v1/auth/forgot-password'', ''identity.ForgotPassword''),
     (''POST'', ''/api/v1/auth/reset-password'', ''identity.ResetPassword''),
     (''POST'', ''/api/v1/auth/verify-email'', ''identity.VerifyEmail''),
     (''GET'', ''/api/v1/auth/oauth/:provider'', ''identity.OAuthAuthorize''),
     (''GET'', ''/api/v1/auth/oauth/:provider/callback'', ''identity.OAuthCallback''),
     (''GET'', ''/api/v1/invitations/preview'', ''invitations.Preview''),
     (''POST'', ''/api/v1/invitations/accept'', ''invitations.Accept'')]"

definition plan_catalogue :: "string \<times> string \<times> string" where
  "plan_catalogue = (''GET'', ''/api/v1/billing/plans'', ''billing.ListPlans'')"

definition open_documents :: "(string \<times> string \<times> string) list" where
  "open_documents = [(''GET'', ''/health'', ''Health''), (''GET'', ''/health/ready'', ''Ready''), (''GET'', ''/health/live'', ''Live''),
     (''GET'', ''/metrics'', ''metrics.Handler''), (''GET'', ''/swagger'', ''swagger.uiPage''),
     (''GET'', ''/swagger/openapi.yaml'', ''swagger.openAPIYAML''), (''GET'', ''/'', ''landing''), (''GET'', ''/app'', ''serveDashboard''),
     (''GET'', ''/favicon.ico'', ''favicon''), (''GET'', ''/site.webmanifest'', ''manifest''),
     (''GET'', ''/assets/*filepath'', ''assets''), (''HEAD'', ''/assets/*filepath'', ''assets'')]"

definition public_endpoint :: "route \<Rightarrow> bool" where
  "public_endpoint r \<longleftrightarrow> endpoint r \<in> set limited_api \<and> rt_gates r = [GTenant, GLimiter]
     \<or> endpoint r = plan_catalogue \<and> rt_gates r = [GTenant]
     \<or> endpoint r \<in> set open_documents \<and> rt_gates r = []"

lemma public_table: "r \<in> set route_table \<Longrightarrow> public_gates (rt_gates r) \<Longrightarrow> public_endpoint r"
proof -
  have "list_all (\<lambda>r. public_gates (rt_gates r) \<longrightarrow> public_endpoint r) route_table" by code_simp
  then show "r \<in> set route_table \<Longrightarrow> public_gates (rt_gates r) \<Longrightarrow> ?thesis" by (simp add: list_all_iff)
qed

lemma tenant_ClientIP: "tenancy_Middleware ev r c w = (Inr c', w') \<Longrightarrow> ClientIP c' = ClientIP c"
  unfolding tenancy_Middleware_def by (auto simp: op_try_eq ctx_set_def split: prod.splits if_splits)

lemma limited_gates_Inr:
  assumes "run_gates pf [GTenant, GLimiter] c n = (Inr c', n')"
  shows "fst (allow_ip (pf_rate pf) (nd_clock n) (ClientIP c) (nd_limiter n))"
proof -
  obtain c0 w0 where t: "tenancy_Middleware (pf_env pf) (pf_resolver pf) c (nd_world n) = (Inr c0, w0)"
    and l: "limit_gate (pf_rate pf) c0 (n\<lparr>nd_world := w0\<rparr>) = (Inr c', n')" using assms by (auto simp: op_bind_Inr)
  then show ?thesis using tenant_ClientIP[OF t] by (auto simp: limit_gate_def split: prod.splits if_splits)
qed

text \<open>C38: without a credential (no API key, no usable bearer header, no token in the query) a request to any
  registered path gets to exactly these handlers. Eleven of the API: sign-up, login, refresh,
  logout, the two steps of a password reset, verification, both steps of OAuth, and the
  preview and redemption of an invitation; and then the rate limiter has let this very request
  of this address through. The plan catalogue, which is not limited. And the probes, the metrics
  and the documents outside the API.\<close>

theorem anonymous_reach:
  assumes "r \<in> set route_table"
    and "run_gates pf (rt_gates r) c n = (Inr c', n')" and "unauthenticated_request c"
    and "presentedKey c = ''''" and "bearer_token c = Inl msg" and "Query c ''access_token'' = ''''"
  shows "endpoint r \<in> set limited_api \<and> fst (allow_ip (pf_rate pf) (nd_clock n) (ClientIP c) (nd_limiter n))
    \<or> endpoint r \<in> insert plan_catalogue (set open_documents)"
proof -
  have no: "rt_gates r \<noteq> GTenant # GApiKey # GAuth # rest" for rest
    using credentials_Inr[of pf rest c n c' n'] assms(2-5) by auto
  have "rt_gates r \<noteq> stream_gates"
  proof
    assume "rt_gates r = stream_gates"
    then obtain c0 n0 where t: "run_gates pf [GQueryToken, GApiKey, GAuth] c0 n0 = (Inr c', n')" "presentedKey c0 = presentedKey c"
      "bearer_token c0 = bearer_token c" "Query c0 = Query c" "unauthenticated_request c0"
      using tenant_gate_Inr[of pf "[GQueryToken, GApiKey, GAuth]" c n c' n'] assms(2,3) unfolding stream_gates_def by auto
    have "QueryTokenAuth c0 = c0" using t(4) assms(6) by (simp add: QueryTokenAuth_def)
    then have "run_gates pf [GApiKey, GAuth] c0 n0 = (Inr c', n')" using t(1) by (auto simp: op_bind_Inr)
    then show False using auth_gates_Inr[of pf "[]" c0 n0 c' n'] t assms(4,5) by auto
  qed
  then have "public_gates (rt_gates r)" using table_shape[OF assms(1)] no by (metis protected_cases)
  then have p: "public_endpoint r" using public_table assms(1) by blast
  show ?thesis using p limited_gates_Inr[of pf c n c' n'] assms(2) unfolding public_endpoint_def by auto
qed

text \<open>The fallback for unknown paths is not in front of tenant resolution: its chain is the engine's, in
  which the later \<open>Use\<close> has put the resolver.\<close>

theorem no_route_resolves_tenant: "no_route_gates = [GTenant]"
  by code_simp

text \<open>On a route without a permission the scopes of a key play no part: whatever they are, a live key
  reads and deletes its owner's notifications and reads the owner's profile.\<close>

theorem key_passes_ungated:
  assumes "tenancy_Middleware (pf_env pf) (pf_resolver pf) c (nd_world n) = (Inr c0, w0)"
    and "apikeys_Authenticate (pf_env pf) c0 w0 = (Inr c', w1)" and "presentedKey c0 \<noteq> ''''"
    and "r \<in> set route_table" and "rt_Handler r \<in> {''notifications.Delete'', ''notifications.List'', ''preferences.GetProfile''}"
  shows "run_gates pf (rt_gates r) c n = (Inr c', n\<lparr>nd_world := w1\<rparr>)"
proof -
  have "list_all (\<lambda>r. rt_Handler r \<in> {''notifications.Delete'', ''notifications.List'', ''preferences.GetProfile''}
      \<longrightarrow> rt_gates r = [GTenant, GApiKey, GAuth]) route_table" by code_simp
  then have g: "rt_gates r = [GTenant, GApiKey, GAuth]" using assms(4,5) by (auto simp: list_all_iff)
  have "already_authenticated c'" using apikeys_Authenticate_Inr[OF assms(2)] assms(3) by (auto simp: already_authenticated_def)
  then show ?thesis unfolding g
    by (simp add: op_bind_def op_try_def on_world_def assms(1,2) RequireAuth_def op_return_def)
qed

section \<open>Witnesses\<close>

definition demo_platform :: "unit platform" where
  "demo_platform = \<lparr>pf_env = demo_env, pf_new_id = 7, pf_origins = [], pf_resolver = \<lparr>cache_enabled = False, baseDomain = ''''\<rparr>,
     pf_secret = ''k'', pf_rate = \<lparr>NewLimiter = (\<lambda>_ _. ()), Allow = (\<lambda>_ _. (True, ()))\<rparr>\<rparr>"

definition demo_key_node :: "unit node" where
  "demo_key_node = demo_node\<lparr>nd_world := demo_key_world\<rparr>"

definition demo_projects_route :: route where
  "demo_projects_route = \<lparr>rt_Method = ''GET'', rt_Path = ''/api/v1/projects'',
     rt_gates = [GTenant, GApiKey, GAuth, GPermission ''project:view''], rt_Handler = ''projects.List''\<rparr>"

definition demo_roles_route :: route where
  "demo_roles_route = \<lparr>rt_Method = ''POST'', rt_Path = ''/api/v1/roles'',
     rt_gates = [GTenant, GApiKey, GAuth, GPermission ''role:manage''], rt_Handler = ''authz.CreateRole''\<rparr>"

definition demo_login_route :: route where
  "demo_login_route = \<lparr>rt_Method = ''POST'', rt_Path = ''/api/v1/auth/login'',
     rt_gates = [GTenant, GLimiter], rt_Handler = ''identity.Login''\<rparr>"

lemma demo_routes: "demo_projects_route \<in> set route_table" "demo_roles_route \<in> set route_table" "demo_login_route \<in> set route_table"
  by code_simp+

lemma demo_requests: "unauthenticated_request demo_key_request" "unauthenticated_request demo_request"
  by (simp_all add: unauthenticated_request_def demo_key_request_def demo_request_def)

lemma demo_key_node_keys: "api_keys (store (nd_world demo_key_node)) = [demo_key 70 ''hsk_live_abcdef'', demo_key 71 ''hsk_live_other'']"
  by (simp add: demo_key_node_def demo_key_world_def)

theorem gated_route_sound_witness:
  "\<exists>c' n' k. run_gates demo_platform (rt_gates demo_projects_route) demo_key_request demo_key_node = (Inr c', n')
    \<and> k \<in> set (api_keys (store (nd_world demo_key_node))) \<and> ctx_tenant c' = Some (key_TenantID k) \<and> ''project:view'' \<in> set (key_Scopes k)"
proof -
  let ?r = "run_gates demo_platform (rt_gates demo_projects_route) demo_key_request demo_key_node"
  have "\<not> isl (fst ?r)" by code_simp
  from okI[OF this] obtain c' where r: "?r = (Inr c', snd ?r)" by blast
  have "GPermission ''project:view'' \<in> set (rt_gates demo_projects_route)" by (simp add: demo_projects_route_def)
  moreover have "presentedKey demo_key_request \<noteq> ''''" by code_simp
  ultimately show ?thesis using gated_route_sound[OF demo_routes(1) _ r demo_requests(1)] r by blast
qed

theorem api_key_cannot_administer_witness:
  "\<exists>c' n' t u. run_gates demo_platform (rt_gates demo_roles_route) demo_request demo_key_node = (Inr c', n')
    \<and> session_request (store (nd_world demo_key_node)) c' t u"
proof -
  let ?r = "run_gates demo_platform (rt_gates demo_roles_route) demo_request demo_key_node"
  have "\<not> isl (fst ?r)" by code_simp
  from okI[OF this] obtain c' where r: "?r = (Inr c', snd ?r)" by blast
  have a: "rt_Handler demo_roles_route \<in> set administrative" by (simp add: demo_roles_route_def administrative_def)
  have "set (key_Scopes k) \<subseteq> set GrantableScopes" if "k \<in> set (api_keys (store (nd_world demo_key_node)))" for k
    using that unfolding demo_key_node_keys by (auto simp: demo_key_def GrantableScopes_def)
  from api_key_cannot_administer[OF demo_routes(2) a r demo_requests(2) this] show ?thesis using r by blast
qed

definition demo_anonymous :: gctx where
  "demo_anonymous = \<lparr>keys = (\<lambda>_. None), ctx_tenant = None, GetHeader = (\<lambda>_. ''''), HeaderValues = (\<lambda>_. []),
     Query = (\<lambda>_. ''''), Param = (\<lambda>_. ''''), Host = '''', ClientIP = ''10.0.0.1'', UserAgent = ''''\<rparr>"

theorem anonymous_reach_witness:
  "\<exists>c' n'. run_gates demo_platform (rt_gates demo_login_route) demo_anonymous demo_node = (Inr c', n')
    \<and> endpoint demo_login_route \<in> set limited_api
    \<and> fst (allow_ip (pf_rate demo_platform) (nd_clock demo_node) (ClientIP demo_anonymous) (nd_limiter demo_node))"
proof -
  let ?r = "run_gates demo_platform (rt_gates demo_login_route) demo_anonymous demo_node"
  have "\<not> isl (fst ?r)" by code_simp
  from okI[OF this] obtain c' where r: "?r = (Inr c', snd ?r)" by blast
  have k: "presentedKey demo_anonymous = ''''" by code_simp
  have u: "unauthenticated_request demo_anonymous" and b: "bearer_token demo_anonymous = Inl ''missing authorization header''"
    and q: "Query demo_anonymous ''access_token'' = ''''"
    by (simp_all add: demo_anonymous_def unauthenticated_request_def bearer_token_def)
  have "endpoint demo_login_route \<notin> insert plan_catalogue (set open_documents)" by code_simp
  with anonymous_reach[OF demo_routes(3) r u k b q] show ?thesis using r by blast
qed

end
