(* ===== verification/Admin.thy ===== *)
theory Admin
  imports Sample Sample_Env Reqctx
begin

text \<open>
  internal/admin: the organization overview. One primary-key lookup in the global \<open>tenants\<close>
  table, then thirteen counts and one sum inside a transaction scoped to the caller's tenant.
  Below: the overview reads nothing of another tenant and its numbers add up.
\<close>

section \<open>service.go\<close>

record admin_Organization =
  og_ID :: uuid
  og_Name :: string
  og_Slug :: string
  og_PlanCode :: string
  og_Status :: string
  og_CreatedAt :: gotime

record admin_Users =
  uc_Total :: int
  uc_Active :: int
  uc_Disabled :: int
  uc_ActiveUsers7d :: int

record admin_Invitations =
  ic_Pending :: int
  ic_Accepted :: int

record admin_APIKeys =
  kc_Active :: int
  kc_Revoked :: int
  kc_Expired :: int

record admin_Storage =
  sc_Files :: int
  sc_UsedBytes :: int

record admin_Audit =
  ac_Events30d :: int

record Overview =
  ov_Organization :: admin_Organization
  ov_Users :: admin_Users
  ov_Teams :: int
  ov_Projects :: int
  ov_Invitations :: admin_Invitations
  ov_APIKeys :: admin_APIKeys
  ov_Storage :: admin_Storage
  ov_Audit :: admin_Audit
  ov_GeneratedAt :: gotime

text \<open>
  The closure \<open>count\<close>: the tenant predicate, then the caller's extra condition. \<open>NOW()\<close> is the
  time of the transaction; a comparison with a NULL column does not select the row.
\<close>

definition count_where :: "env \<Rightarrow> string \<Rightarrow> session \<Rightarrow> uuid \<Rightarrow> (db \<Rightarrow> 'r list) \<Rightarrow> ('r \<Rightarrow> uuid) \<Rightarrow> ('r \<Rightarrow> bool)
    \<Rightarrow> (db, err, int) tx" where
  "count_where ev l sess tenantID rows ten P =
     stmt ev l (tx_query (\<lambda>d. count_rows sess ten (\<lambda>r. ten r = tenantID \<and> P r) (rows d)))"

definition after_col :: "gotime option \<Rightarrow> gotime \<Rightarrow> bool" where
  "after_col x t = (case x of None \<Rightarrow> False | Some v \<Rightarrow> v > t)"

abbreviation days :: "int \<Rightarrow> duration" where "days n \<equiv> n * (24 * hour)"

definition count_users :: "env \<Rightarrow> session \<Rightarrow> uuid \<Rightarrow> (db, err, admin_Users) tx" where
  "count_users ev sess t =
     tx_bind (count_where ev ''users.total'' sess t users user_TenantID (\<lambda>u. user_DeletedAt u = None)) (\<lambda>n.
     tx_bind (count_where ev ''users.active'' sess t users user_TenantID
       (\<lambda>u. user_DeletedAt u = None \<and> user_Status u = ''active'')) (\<lambda>a.
     tx_bind (count_where ev ''users.disabled'' sess t users user_TenantID
       (\<lambda>u. user_DeletedAt u = None \<and> user_Status u = ''disabled'')) (\<lambda>b.
     tx_bind (count_where ev ''users.active7d'' sess t users user_TenantID
       (\<lambda>u. user_DeletedAt u = None \<and> after_col (user_LastLoginAt u) (now ev - days 7))) (\<lambda>e.
     tx_return \<lparr>uc_Total = n, uc_Active = a, uc_Disabled = b, uc_ActiveUsers7d = e\<rparr>))))"

definition count_invitations :: "env \<Rightarrow> session \<Rightarrow> uuid \<Rightarrow> (db, err, admin_Invitations) tx" where
  "count_invitations ev sess t =
     tx_bind (count_where ev ''invitations.pending'' sess t invitations inv_TenantID
       (\<lambda>v. inv_Status v = ''pending'' \<and> inv_ExpiresAt v > now ev)) (\<lambda>a.
     tx_bind (count_where ev ''invitations.accepted'' sess t invitations inv_TenantID
       (\<lambda>v. inv_Status v = ''accepted'' \<and> after_col (inv_AcceptedAt v) (now ev - days 30))) (\<lambda>b.
     tx_return \<lparr>ic_Pending = a, ic_Accepted = b\<rparr>))"

definition count_keys :: "env \<Rightarrow> session \<Rightarrow> uuid \<Rightarrow> (db, err, admin_APIKeys) tx" where
  "count_keys ev sess t =
     tx_bind (count_where ev ''api_keys.active'' sess t api_keys key_TenantID
       (\<lambda>k. key_RevokedAt k = None \<and> (key_ExpiresAt k = None \<or> after_col (key_ExpiresAt k) (now ev)))) (\<lambda>a.
     tx_bind (count_where ev ''api_keys.revoked'' sess t api_keys key_TenantID (\<lambda>k. key_RevokedAt k \<noteq> None)) (\<lambda>b.
     tx_bind (count_where ev ''api_keys.expired'' sess t api_keys key_TenantID
       (\<lambda>k. key_RevokedAt k = None \<and> (case key_ExpiresAt k of None \<Rightarrow> False | Some x \<Rightarrow> x \<le> now ev))) (\<lambda>e.
     tx_return \<lparr>kc_Active = a, kc_Revoked = b, kc_Expired = e\<rparr>)))"

definition count_storage :: "env \<Rightarrow> session \<Rightarrow> uuid \<Rightarrow> (db, err, admin_Storage) tx" where
  "count_storage ev sess t =
     tx_bind (count_where ev ''files.count'' sess t files file_TenantID (\<lambda>_. True)) (\<lambda>n.
     tx_bind (stmt ev ''files.sum'' (tx_query (\<lambda>d. sum_list (map file_SizeBytes
       (select_rows sess file_TenantID (\<lambda>f. file_TenantID f = t) (files d)))))) (\<lambda>b.
     tx_return \<lparr>sc_Files = n, sc_UsedBytes = b\<rparr>))"

definition overview_body :: "env \<Rightarrow> uuid \<Rightarrow> admin_Organization \<Rightarrow> Overview body" where
  "overview_body ev t org sess =
     tx_bind (count_users ev sess t) (\<lambda>us.
     tx_bind (count_where ev ''teams.count'' sess t teams team_TenantID (\<lambda>r. team_DeletedAt r = None)) (\<lambda>nt.
     tx_bind (count_where ev ''projects.count'' sess t projects proj_TenantID (\<lambda>r. proj_DeletedAt r = None)) (\<lambda>np.
     tx_bind (count_invitations ev sess t) (\<lambda>iv.
     tx_bind (count_keys ev sess t) (\<lambda>ks.
     tx_bind (count_storage ev sess t) (\<lambda>st.
     tx_bind (count_where ev ''audit_logs.count'' sess t audit_logs al_TenantID (\<lambda>r. al_CreatedAt r > now ev - days 30)) (\<lambda>na.
     tx_return \<lparr>ov_Organization = org, ov_Users = us, ov_Teams = nt, ov_Projects = np, ov_Invitations = iv,
       ov_APIKeys = ks, ov_Storage = st, ov_Audit = \<lparr>ac_Events30d = na\<rparr>, ov_GeneratedAt = now ev\<rparr>)))))))"

definition org_row :: "uuid \<Rightarrow> db \<Rightarrow> tenant option" where
  "org_row t d = List.find (\<lambda>r. tenant_ID r = t) (tenants d)"

definition org_of :: "tenant \<Rightarrow> admin_Organization" where
  "org_of r = \<lparr>og_ID = tenant_ID r, og_Name = tenant_Name r, og_Slug = tenant_Slug r, og_PlanCode = tenant_PlanCode r,
     og_Status = tenant_Status r, og_CreatedAt = tenant_CreatedAt r\<rparr>"

definition GetOverview :: "env \<Rightarrow> uuid \<Rightarrow> (world, err, Overview) op" where
  "GetOverview ev tenantID =
     op_bind (run_stmt ev ''tenants.take'' (take_row (org_row tenantID))) (\<lambda>org.
     WithTenantTxID ev ''GetOverview'' tenantID (overview_body ev tenantID (org_of org)))"

section \<open>handler.go\<close>

definition h_Overview :: "env \<Rightarrow> gctx \<Rightarrow> (world, Overview response, Overview response) op" where
  "h_Overview ev c = (case RequireCaller c of
     Inl r \<Rightarrow> op_fail r
   | Inr cl \<Rightarrow> op_try (GetOverview ev (TenantID cl)) (\<lambda>e. op_fail (RespondError c e)) (\<lambda>v. op_return (Success c 200 v)))"

section \<open>What the overview reads\<close>

text \<open>The rows of tenant \<open>t\<close> in the tables the overview counts; everything else is empty.\<close>

definition own_view :: "uuid \<Rightarrow> db \<Rightarrow> db" where
  "own_view t d = empty_db\<lparr>tenants := filter (\<lambda>r. tenant_ID r = t) (tenants d),
     users := filter (\<lambda>r. user_TenantID r = t) (users d),
     api_keys := filter (\<lambda>r. key_TenantID r = t) (api_keys d),
     invitations := filter (\<lambda>r. inv_TenantID r = t) (invitations d),
     teams := filter (\<lambda>r. team_TenantID r = t) (teams d),
     projects := filter (\<lambda>r. proj_TenantID r = t) (projects d),
     files := filter (\<lambda>r. file_TenantID r = t) (files d),
     audit_logs := filter (\<lambda>r. al_TenantID r = t) (audit_logs d)\<rparr>"

lemma select_rows_own [simp]:
  "select_rows (Some t) ten P (filter (\<lambda>r. ten r = t) rows) = select_rows (Some t) ten P rows"
  unfolding select_rows_def rls_def by (induction rows) auto

lemma count_rows_own [simp]:
  "count_rows (Some t) ten P (filter (\<lambda>r. ten r = t) rows) = count_rows (Some t) ten P rows"
  by (simp add: count_rows_def)

lemma count_where_Inr [tx_inv]:
  "count_where ev l (Some t) t rows ten P d = Inr (n, d') \<longleftrightarrow>
     sql_fault ev l = None \<and> d' = d \<and> n = count_rows (Some t) ten P (rows d)"
proof -
  have "count_rows (Some t) ten (\<lambda>r. ten r = t \<and> P r) xs = count_rows (Some t) ten P xs" for xs
    unfolding count_rows_def select_rows_def rls_def by (metis (no_types, lifting) filter_cong option.inject)
  then show ?thesis by (auto simp: count_where_def tx_inv)
qed

lemma count_rows_length: "count_rows (Some t) ten P rows = int (length (filter (\<lambda>r. ten r = t \<and> P r) rows))"
  unfolding count_rows_def select_rows_def rls_def by (metis option.inject)

lemma count_three:
  assumes "\<And>r. P r \<longleftrightarrow> A r \<or> B r \<or> C r" and "\<And>r. \<not> (A r \<and> B r)" and "\<And>r. \<not> (A r \<and> C r)" and "\<And>r. \<not> (B r \<and> C r)"
  shows "length (filter A xs) + length (filter B xs) + length (filter C xs) = length (filter P xs)"
proof (induction xs)
  case (Cons x xs)
  then show ?case using assms(1)[of x] assms(2)[of x] assms(3)[of x] assms(4)[of x] by (cases "A x"; cases "B x"; cases "C x") simp_all
qed simp

lemmas overview_defs = GetOverview_def overview_body_def count_users_def count_invitations_def count_keys_def count_storage_def

lemma GetOverview_Inr:
  assumes "GetOverview ev t w = (Inr v, w')"
  shows "\<exists>r. org_row t (store w) = Some r \<and> w' = w \<and> sql_fault ev ''tenants.take'' = None
    \<and> sql_fault ev ''GetOverview.begin'' = None \<and> sql_fault ev ''GetOverview.commit'' = None
    \<and> sql_fault ev ''GetOverview.set_config'' = None \<and> overview_body ev t (org_of r) (Some t) (store w) = Inr (v, store w)"
proof -
  obtain r w1 where r: "run_stmt ev ''tenants.take'' (take_row (org_row t)) w = (Inr r, w1)"
    and m: "WithTenantTxID ev ''GetOverview'' t (overview_body ev t (org_of r)) w1 = (Inr v, w')"
    using assms unfolding GetOverview_def op_bind_Inr by blast
  have w1: "w1 = w" and o: "org_row t (store w) = Some r" and f: "sql_fault ev ''tenants.take'' = None"
    using r by (auto simp: run_stmt_def stmt_Inr split: sum.splits)
  obtain d where d: "overview_body ev t (org_of r) (Some t) (store w) = Inr (v, d)" "w' = w\<lparr>store := d\<rparr>"
    using WithTenantTxID_ok[OF m] w1 by auto
  have "d = store w" using d(1) by (auto simp: overview_defs tx_inv)
  moreover have "sql_fault ev ''GetOverview.begin'' = None" "sql_fault ev ''GetOverview.commit'' = None"
      "sql_fault ev ''GetOverview.set_config'' = None"
    using m by (auto simp: WithTenantTxID_def run_tx_def set_tenant_def tx_inv tx_bind_def stmt_def tx_map_err_def tx_fail_def
        split: option.splits sum.splits)
  ultimately show ?thesis using o f d by auto
qed

lemma overview_body_own:
  "overview_body ev t org (Some t) d = Inr (v, d) \<Longrightarrow>
   overview_body ev t org (Some t) (own_view t d) = Inr (v, own_view t d)"
  by (auto simp: overview_defs tx_inv own_view_def)

lemma org_row_own: "org_row t (own_view t d) = org_row t d"
proof -
  have "List.find (\<lambda>r. tenant_ID r = t) (filter (\<lambda>r. tenant_ID r = t) xs) = List.find (\<lambda>r. tenant_ID r = t) xs" for xs
    by (induction xs) auto
  then show ?thesis by (simp add: org_row_def own_view_def)
qed

lemma GetOverview_own:
  assumes "GetOverview ev t w = (Inr v, w')"
  shows "GetOverview ev t (w\<lparr>store := own_view t (store w)\<rparr>) = (Inr v, w\<lparr>store := own_view t (store w)\<rparr>)"
proof -
  obtain r where r: "org_row t (store w) = Some r" "sql_fault ev ''tenants.take'' = None" "sql_fault ev ''GetOverview.begin'' = None"
      "sql_fault ev ''GetOverview.commit'' = None" "sql_fault ev ''GetOverview.set_config'' = None"
      "overview_body ev t (org_of r) (Some t) (store w) = Inr (v, store w)"
    using GetOverview_Inr[OF assms] by blast
  then show ?thesis using overview_body_own[OF r(6)]
    by (simp add: GetOverview_def op_bind_def op_try_def run_stmt_def take_row_def org_row_own WithTenantTxID_def run_tx_def
        set_tenant_def tx_bind_def tx_map_err_def tx_return_def)
qed

lemma overview_sums:
  assumes "overview_body ev t org (Some t) d = Inr (v, d)"
  shows "uc_Active (ov_Users v) + uc_Disabled (ov_Users v) \<le> uc_Total (ov_Users v)"
    and "uc_ActiveUsers7d (ov_Users v) \<le> uc_Total (ov_Users v)"
    and "kc_Active (ov_APIKeys v) + kc_Revoked (ov_APIKeys v) + kc_Expired (ov_APIKeys v)
      = int (length (filter (\<lambda>k. key_TenantID k = t) (api_keys d)))"
proof -
  let ?us = "filter (\<lambda>u. user_TenantID u = t \<and> user_DeletedAt u = None) (users d)"
  have u: "uc_Total (ov_Users v) = int (length ?us)"
    "uc_Active (ov_Users v) = int (length (filter (\<lambda>u. user_Status u = ''active'') ?us))"
    "uc_Disabled (ov_Users v) = int (length (filter (\<lambda>u. user_Status u = ''disabled'') ?us))"
    "uc_ActiveUsers7d (ov_Users v) = int (length (filter (\<lambda>u. after_col (user_LastLoginAt u) (now ev - days 7)) ?us))"
    using assms by (auto simp: overview_defs tx_inv count_rows_length conj_assoc)
  have "length (filter (\<lambda>u. user_Status u = ''active'') xs) + length (filter (\<lambda>u. user_Status u = ''disabled'') xs) \<le> length xs"
    for xs by (induction xs) auto
  from this[of ?us] show "uc_Active (ov_Users v) + uc_Disabled (ov_Users v) \<le> uc_Total (ov_Users v)" unfolding u by linarith
  show "uc_ActiveUsers7d (ov_Users v) \<le> uc_Total (ov_Users v)" unfolding u of_nat_le_iff by (rule length_filter_le)
  let ?ks = "filter (\<lambda>k. key_TenantID k = t) (api_keys d)"
  have "length (filter (\<lambda>k. key_TenantID k = t \<and> key_RevokedAt k = None \<and> (key_ExpiresAt k = None \<or> after_col (key_ExpiresAt k) (now ev))) (api_keys d))
      + length (filter (\<lambda>k. key_TenantID k = t \<and> key_RevokedAt k \<noteq> None) (api_keys d))
      + length (filter (\<lambda>k. key_TenantID k = t \<and> key_RevokedAt k = None \<and> (case key_ExpiresAt k of None \<Rightarrow> False | Some x \<Rightarrow> x \<le> now ev)) (api_keys d))
      = length ?ks"
    by (rule count_three) (auto simp: after_col_def split: option.splits)
  moreover have "kc_Active (ov_APIKeys v) = int (length (filter (\<lambda>k. key_TenantID k = t \<and> key_RevokedAt k = None \<and> (key_ExpiresAt k = None \<or> after_col (key_ExpiresAt k) (now ev))) (api_keys d)))"
    "kc_Revoked (ov_APIKeys v) = int (length (filter (\<lambda>k. key_TenantID k = t \<and> key_RevokedAt k \<noteq> None) (api_keys d)))"
    "kc_Expired (ov_APIKeys v) = int (length (filter (\<lambda>k. key_TenantID k = t \<and> key_RevokedAt k = None \<and> (case key_ExpiresAt k of None \<Rightarrow> False | Some x \<Rightarrow> x \<le> now ev)) (api_keys d)))"
    using assms by (auto simp: overview_defs tx_inv count_rows_length)
  ultimately show "kc_Active (ov_APIKeys v) + kc_Revoked (ov_APIKeys v) + kc_Expired (ov_APIKeys v) = int (length ?ks)"
    by linarith
qed

text \<open>C32: the overview answers for the caller's own organization only: with every row of every other tenant
  removed the answer is the same, nothing is written, every API key of the tenant is counted in
  exactly one of the three classes, and the active and disabled users are within the total.\<close>

theorem overview_of_own_tenant:
  assumes "h_Overview ev c w = (Inr (OkResp st v m), w')" and "CallerFrom c = Some cl"
  shows "w' = w \<and> og_ID (ov_Organization v) = TenantID cl
    \<and> h_Overview ev c (w\<lparr>store := own_view (TenantID cl) (store w)\<rparr>)
        = (Inr (OkResp st v m), w\<lparr>store := own_view (TenantID cl) (store w)\<rparr>)
    \<and> kc_Active (ov_APIKeys v) + kc_Revoked (ov_APIKeys v) + kc_Expired (ov_APIKeys v)
        = int (length (filter (\<lambda>k. key_TenantID k = TenantID cl) (api_keys (store w))))
    \<and> uc_Active (ov_Users v) + uc_Disabled (ov_Users v) \<le> uc_Total (ov_Users v)"
proof -
  have g: "GetOverview ev (TenantID cl) w = (Inr v, w')" and s: "Success c 200 v = OkResp st v m"
    using assms by (auto simp: h_Overview_def RequireCaller_def op_try_eq Success_def)
  obtain r where r: "org_row (TenantID cl) (store w) = Some r" "w' = w"
      "overview_body ev (TenantID cl) (org_of r) (Some (TenantID cl)) (store w) = Inr (v, store w)"
    using GetOverview_Inr[OF g] by blast
  have "og_ID (ov_Organization v) = TenantID cl"
    using r(1,3) by (auto simp: overview_defs tx_inv org_of_def org_row_def dest: find_SomeD)
  then show ?thesis using r overview_sums[OF r(3)] GetOverview_own[OF g] s assms(2)
    by (auto simp: h_Overview_def RequireCaller_def op_try_def op_return_def)
qed

definition demo_overview_request :: gctx where
  "demo_overview_request = \<lparr>keys = [CtxUserID \<mapsto> VUuid 10, CtxTenantID \<mapsto> VUuid 1], ctx_tenant = Some 1,
     GetHeader = (\<lambda>_. ''''), HeaderValues = (\<lambda>_. []), Query = (\<lambda>_. ''''), Param = (\<lambda>_. ''''),
     Host = '''', ClientIP = '''', UserAgent = ''''\<rparr>"

theorem overview_of_own_tenant_witness:
  "\<exists>st v m w'. h_Overview demo_env demo_overview_request demo_world = (Inr (OkResp st v m), w')
    \<and> uc_Total (ov_Users v) = 2 \<and> og_ID (ov_Organization v) = 1"
proof -
  let ?r = "h_Overview demo_env demo_overview_request demo_world"
  have "(case fst ?r of Inr (OkResp st v m) \<Rightarrow> Some (uc_Total (ov_Users v)) | _ \<Rightarrow> None) = Some 2" by code_simp
  then obtain st v m where v: "fst ?r = Inr (OkResp st v m)" "uc_Total (ov_Users v) = 2"
    by (auto split: sum.splits response.splits)
  moreover have "CallerFrom demo_overview_request = Some \<lparr>UserID = 10, TenantID = 1, Role = ''''\<rparr>" by code_simp
  ultimately show ?thesis using overview_of_own_tenant[of demo_env demo_overview_request demo_world st v m "snd ?r"]
    by (metis caller.select_convs(2) prod.collapse)
qed

end
