(* ===== verification/Config.thy ===== *)
theory Config
  imports Files_Props
begin

text \<open>
  internal/config and internal/db/db.go: what the process environment becomes, what a production
  start refuses, the connection string, and which credential runs the migrations. The
  environment (after godotenv), \<open>time.ParseDuration\<close> and \<open>url.Parse\<close> (scheme and host of a
  parsable URL) are the record \<open>goenv\<close>.
\<close>

section \<open>The environment\<close>

record goenv =
  LookupEnv :: "string \<Rightarrow> string option"
  ParseDuration :: "string \<Rightarrow> duration option"
  ParseURL :: "string \<Rightarrow> (string \<times> string) option"
  case_table :: "int \<Rightarrow> int"

definition Getenv :: "goenv \<Rightarrow> string \<Rightarrow> string" where
  "Getenv ge key = (case LookupEnv ge key of None \<Rightarrow> '''' | Some v \<Rightarrow> v)"

definition getEnv :: "goenv \<Rightarrow> string \<Rightarrow> string \<Rightarrow> string" where
  "getEnv ge key fallback = (case LookupEnv ge key of
     Some value \<Rightarrow> if value \<noteq> '''' then value else fallback | None \<Rightarrow> fallback)"

definition getEnvInt :: "goenv \<Rightarrow> string \<Rightarrow> int \<Rightarrow> int" where
  "getEnvInt ge key fallback = (case LookupEnv ge key of None \<Rightarrow> fallback
   | Some value \<Rightarrow> if value = '''' then fallback else (case Atoi value of None \<Rightarrow> fallback | Some n \<Rightarrow> n))"

text \<open>\<open>strconv.ParseInt(s, 10, 64)\<close> reads what \<open>Atoi\<close> reads on a 64-bit platform.\<close>

definition getEnvInt64 :: "goenv \<Rightarrow> string \<Rightarrow> int \<Rightarrow> int" where
  "getEnvInt64 ge key fallback = (case LookupEnv ge key of None \<Rightarrow> fallback
   | Some value \<Rightarrow> if value = '''' then fallback else (case Atoi value of None \<Rightarrow> fallback | Some n \<Rightarrow> n))"

definition ParseBool :: "string \<Rightarrow> bool option" where
  "ParseBool s =
     (if s \<in> {''1'', ''t'', ''T'', ''true'', ''TRUE'', ''True''} then Some True
      else if s \<in> {''0'', ''f'', ''F'', ''false'', ''FALSE'', ''False''} then Some False else None)"

definition getEnvBool :: "goenv \<Rightarrow> string \<Rightarrow> bool \<Rightarrow> bool" where
  "getEnvBool ge key fallback = (case LookupEnv ge key of None \<Rightarrow> fallback
   | Some value \<Rightarrow> if value = '''' then fallback else (case ParseBool value of None \<Rightarrow> fallback | Some b \<Rightarrow> b))"

definition getEnvList :: "goenv \<Rightarrow> string \<Rightarrow> string list" where
  "getEnvList ge key = (let raw = TrimSpace (Getenv ge key) in
     if raw = '''' then [] else filter (\<lambda>p. p \<noteq> '''') (map TrimSpace (Split raw CHR '','')))"

definition getEnvDuration :: "goenv \<Rightarrow> string \<Rightarrow> duration \<Rightarrow> duration" where
  "getEnvDuration ge key fallback = (case LookupEnv ge key of None \<Rightarrow> fallback
   | Some value \<Rightarrow> if value = '''' then fallback else (case ParseDuration ge value of None \<Rightarrow> fallback | Some d \<Rightarrow> d))"

definition Duration :: "goenv \<Rightarrow> string \<Rightarrow> duration \<Rightarrow> duration" where
  "Duration ge value fallback = (if value = '''' then fallback
     else (case ParseDuration ge value of None \<Rightarrow> fallback | Some d \<Rightarrow> d))"

section \<open>Config\<close>

record Config =
  cfg_Port :: string
  cfg_DatabaseURL :: string
  cfg_DBHost :: string
  cfg_DBPort :: string
  cfg_DBUser :: string
  cfg_DBPassword :: string
  cfg_DBName :: string
  cfg_DBSSLMode :: string
  cfg_JWTSecret :: string
  cfg_Environment :: string
  cfg_CORSAllowedOrigins :: "string list"
  cfg_TenantBaseDomain :: string
  cfg_DBMaxOpenConns :: int
  cfg_DBMaxIdleConns :: int
  cfg_DBConnMaxLifetime :: duration
  cfg_DBConnMaxIdleTime :: duration
  cfg_ShutdownTimeout :: duration
  cfg_KeepaliveEnabled :: bool
  cfg_KeepaliveInterval :: duration
  cfg_AccessTokenTTL :: string
  cfg_RefreshTokenTTL :: string
  cfg_PasswordResetTTL :: string
  cfg_EmailVerificationTTL :: string
  cfg_InvitationTTL :: string
  cfg_GitHubOAuthClientID :: string
  cfg_GitHubOAuthClientSecret :: string
  cfg_GitHubOAuthRedirectURL :: string
  cfg_ResendAPIKey :: string
  cfg_MailFrom :: string
  cfg_AppBaseURL :: string
  cfg_StorageDriver :: string
  cfg_StorageRoot :: string
  cfg_MaxUploadBytes :: int
  cfg_S3Endpoint :: string
  cfg_S3Region :: string
  cfg_S3Bucket :: string
  cfg_S3AccessKey :: string
  cfg_S3SecretKey :: string
  cfg_S3UsePathStyle :: bool
  cfg_S3Secure :: bool
  cfg_RedisURL :: string
  cfg_RedisPoolSize :: int
  cfg_MetricsToken :: string

definition Load :: "goenv \<Rightarrow> Config" where
  "Load ge = (let trimmed = (\<lambda>key. TrimSpace (Getenv ge key)) in \<lparr>
     cfg_Port = getEnv ge ''PORT'' ''8080'',
     cfg_DatabaseURL = trimmed ''DATABASE_URL'',
     cfg_DBHost = getEnv ge ''DB_HOST'' ''localhost'',
     cfg_DBPort = getEnv ge ''DB_PORT'' ''5432'',
     cfg_DBUser = getEnv ge ''DB_USER'' ''postgres'',
     cfg_DBPassword = getEnv ge ''DB_PASSWORD'' '''',
     cfg_DBName = getEnv ge ''DB_NAME'' ''tenant_saas'',
     cfg_DBSSLMode = getEnv ge ''DB_SSLMODE'' ''disable'',
     cfg_JWTSecret = trimmed ''JWT_SECRET'',
     cfg_Environment = getEnv ge ''APP_ENV'' ''development'',
     cfg_CORSAllowedOrigins = getEnvList ge ''CORS_ALLOWED_ORIGINS'',
     cfg_TenantBaseDomain = trimmed ''TENANT_BASE_DOMAIN'',
     cfg_DBMaxOpenConns = getEnvInt ge ''DB_MAX_OPEN_CONNS'' 25,
     cfg_DBMaxIdleConns = getEnvInt ge ''DB_MAX_IDLE_CONNS'' 5,
     cfg_DBConnMaxLifetime = getEnvDuration ge ''DB_CONN_MAX_LIFETIME'' hour,
     cfg_DBConnMaxIdleTime = getEnvDuration ge ''DB_CONN_MAX_IDLE_TIME'' (10 * minute),
     cfg_ShutdownTimeout = getEnvDuration ge ''SHUTDOWN_TIMEOUT'' (15 * second),
     cfg_KeepaliveEnabled = getEnvBool ge ''KEEPALIVE_ENABLED'' True,
     cfg_KeepaliveInterval = max (getEnvDuration ge ''KEEPALIVE_INTERVAL'' minute) (30 * second),
     cfg_AccessTokenTTL = getEnv ge ''ACCESS_TOKEN_TTL'' ''15m'',
     cfg_RefreshTokenTTL = getEnv ge ''REFRESH_TOKEN_TTL'' ''720h'',
     cfg_PasswordResetTTL = getEnv ge ''PASSWORD_RESET_TTL'' ''1h'',
     cfg_EmailVerificationTTL = getEnv ge ''EMAIL_VERIFICATION_TTL'' ''24h'',
     cfg_InvitationTTL = getEnv ge ''INVITATION_TTL'' ''168h'',
     cfg_GitHubOAuthClientID = getEnv ge ''GITHUB_OAUTH_CLIENT_ID'' '''',
     cfg_GitHubOAuthClientSecret = getEnv ge ''GITHUB_OAUTH_CLIENT_SECRET'' '''',
     cfg_GitHubOAuthRedirectURL = getEnv ge ''GITHUB_OAUTH_REDIRECT_URL'' '''',
     cfg_ResendAPIKey = trimmed ''RESEND_API_KEY'',
     cfg_MailFrom = trimmed ''MAIL_FROM'',
     cfg_AppBaseURL = TrimRight (trimmed ''APP_BASE_URL'') CHR ''/'',
     cfg_StorageDriver = ToLower (case_table ge) (getEnv ge ''STORAGE_DRIVER'' ''local''),
     cfg_StorageRoot = getEnv ge ''STORAGE_ROOT'' ''./data/uploads'',
     cfg_MaxUploadBytes = getEnvInt64 ge ''MAX_UPLOAD_BYTES'' (25 * 1024 * 1024),
     cfg_S3Endpoint = trimmed ''S3_ENDPOINT'',
     cfg_S3Region = getEnv ge ''S3_REGION'' ''us-east-1'',
     cfg_S3Bucket = trimmed ''S3_BUCKET'',
     cfg_S3AccessKey = trimmed ''S3_ACCESS_KEY_ID'',
     cfg_S3SecretKey = trimmed ''S3_SECRET_ACCESS_KEY'',
     cfg_S3UsePathStyle = getEnvBool ge ''S3_USE_PATH_STYLE'' False,
     cfg_S3Secure = getEnvBool ge ''S3_SECURE'' True,
     cfg_RedisURL = trimmed ''REDIS_URL'',
     cfg_RedisPoolSize = getEnvInt ge ''REDIS_POOL_SIZE'' 10,
     cfg_MetricsToken = trimmed ''METRICS_TOKEN''\<rparr>)"

definition minimumJWTSecretLength :: nat where "minimumJWTSecretLength = 32"

definition production :: "Config \<Rightarrow> bool" where
  "production c \<longleftrightarrow> EqualFold (cfg_Environment c) ''production''"

text \<open>\<open>None\<close> is \<open>nil\<close>, \<open>Some m\<close> the error text.\<close>

definition config_driver :: "goenv \<Rightarrow> Config \<Rightarrow> string" where
  "config_driver ge c = (let driver = ToLower (case_table ge) (TrimSpace (cfg_StorageDriver c))
     in if driver = '''' then ''local'' else driver)"

definition ValidateStorage :: "goenv \<Rightarrow> Config \<Rightarrow> string option" where
  "ValidateStorage ge c = (let driver = config_driver ge c in
     if driver \<noteq> ''local'' \<and> driver \<noteq> ''s3'' then Some ''STORAGE_DRIVER must be local or s3''
     else if cfg_MaxUploadBytes c \<le> 0 then Some ''MAX_UPLOAD_BYTES must be greater than zero''
     else if driver = ''local'' then
       (if production c \<and> (TrimSpace (cfg_StorageRoot c) = '''' \<or> \<not> IsAbs (cfg_StorageRoot c))
        then Some ''STORAGE_ROOT must point to a persistent writable volume when STORAGE_DRIVER=local in production''
        else None)
     else if cfg_S3Bucket c = '''' \<or> cfg_S3AccessKey c = '''' \<or> cfg_S3SecretKey c = ''''
       then Some ''S3_BUCKET, S3_ACCESS_KEY_ID, and S3_SECRET_ACCESS_KEY are required when STORAGE_DRIVER=s3''
     else if cfg_S3Region c = '''' then Some ''S3_REGION must be set when STORAGE_DRIVER=s3''
     else None)"

definition Validate :: "goenv \<Rightarrow> Config \<Rightarrow> string option" where
  "Validate ge c =
     (if \<not> production c then None
      else if length (cfg_JWTSecret c) < minimumJWTSecretLength
        then Some (''JWT_SECRET must be set to at least '' @ decimal (int minimumJWTSecretLength) @ '' characters in production'')
      else if cfg_DatabaseURL c \<noteq> '''' then
        (if (case ParseURL ge (cfg_DatabaseURL c) of None \<Rightarrow> True
             | Some (scheme, hst) \<Rightarrow> hst = '''' \<or> (scheme \<noteq> ''postgres'' \<and> scheme \<noteq> ''postgresql''))
         then Some ''DATABASE_URL must be a valid postgres:// or postgresql:// connection URL''
         else ValidateStorage ge c)
      else if cfg_DBHost c = '''' \<or> cfg_DBHost c = ''localhost''
        then Some ''DATABASE_URL is required in production, or configure a non-local DB_HOST with DB_USER, DB_PASSWORD, and DB_NAME''
      else if cfg_DBUser c = '''' \<or> cfg_DBPassword c = '''' \<or> cfg_DBName c = ''''
        then Some ''DB_USER, DB_PASSWORD, and DB_NAME are required when DATABASE_URL is not set in production''
      else if cfg_DBMaxOpenConns c \<le> 0 \<or> cfg_DBMaxIdleConns c < 0 \<or> cfg_DBMaxIdleConns c > cfg_DBMaxOpenConns c
        then Some ''DB_MAX_OPEN_CONNS must be positive and DB_MAX_IDLE_CONNS must be between 0 and DB_MAX_OPEN_CONNS''
      else if cfg_RedisPoolSize c \<le> 0 then Some ''REDIS_POOL_SIZE must be positive''
      else ValidateStorage ge c)"

definition ApplyMigrationOverrides :: "goenv \<Rightarrow> Config \<Rightarrow> Config" where
  "ApplyMigrationOverrides ge c =
     (let v = TrimSpace (Getenv ge ''MIGRATE_DATABASE_URL'') in
      if v \<noteq> '''' then c\<lparr>cfg_DatabaseURL := v\<rparr>
      else let u = Getenv ge ''MIGRATE_DB_USER''; p = Getenv ge ''MIGRATE_DB_PASSWORD''; h = Getenv ge ''MIGRATE_DB_HOST'';
               c = (if u \<noteq> '''' then c\<lparr>cfg_DatabaseURL := '''', cfg_DBUser := u\<rparr> else c);
               c = (if p \<noteq> '''' then c\<lparr>cfg_DBPassword := p\<rparr> else c)
           in if h \<noteq> '''' then c\<lparr>cfg_DBHost := h\<rparr> else c)"

section \<open>internal/db/db.go\<close>

definition connectionDSN :: "Config \<Rightarrow> string" where
  "connectionDSN c = (if cfg_DatabaseURL c \<noteq> '''' then cfg_DatabaseURL c
     else ''host='' @ cfg_DBHost c @ '' port='' @ cfg_DBPort c @ '' user='' @ cfg_DBUser c
       @ '' password='' @ cfg_DBPassword c @ '' dbname='' @ cfg_DBName c @ '' sslmode='' @ cfg_DBSSLMode c)"

definition DSN :: "Config \<Rightarrow> string" where "DSN c = connectionDSN c"

text \<open>A pool and its limits. What the driver does is the record \<open>driver\<close>: gorm's \<open>Open\<close> and \<open>DB\<close>, the
  ping, golang-migrate on a pool, closing.\<close>

record pool =
  pool_DSN :: string
  MaxOpenConns :: int
  MaxIdleConns :: int
  ConnMaxLifetime :: duration
  ConnMaxIdleTime :: duration

record driver =
  gorm_Open :: "string \<Rightarrow> err option"
  gorm_DB :: "string \<Rightarrow> err option"
  PingContext :: "pool \<Rightarrow> err option"
  RunMigrations :: "string \<Rightarrow> err option"

definition Connect :: "driver \<Rightarrow> Config \<Rightarrow> err + pool" where
  "Connect dr c = (case gorm_Open dr (connectionDSN c) of Some e \<Rightarrow> Inl (Wrapped ''gorm open'' e)
   | None \<Rightarrow> (case gorm_DB dr (connectionDSN c) of Some e \<Rightarrow> Inl (Wrapped ''get underlying sql.DB'' e)
   | None \<Rightarrow> (let p = \<lparr>pool_DSN = connectionDSN c, MaxOpenConns = cfg_DBMaxOpenConns c, MaxIdleConns = cfg_DBMaxIdleConns c,
         ConnMaxLifetime = cfg_DBConnMaxLifetime c, ConnMaxIdleTime = cfg_DBConnMaxIdleTime c\<rparr>
       in case PingContext dr p of Some e \<Rightarrow> Inl (Wrapped ''ping database'' e) | None \<Rightarrow> Inr p)))"

text \<open>What a start does to the databases, in order.\<close>

datatype start_step = Connected string | Migrated string | Closed string

definition Migrate :: "driver \<Rightarrow> pool \<Rightarrow> err option \<times> start_step list" where
  "Migrate dr p = (case gorm_DB dr (pool_DSN p) of Some e \<Rightarrow> (Some (Wrapped ''get underlying sql.DB'' e), [])
   | None \<Rightarrow> (case RunMigrations dr (pool_DSN p) of Some e \<Rightarrow> (Some e, []) | None \<Rightarrow> (None, [Migrated (pool_DSN p)])))"

definition MigrateAtStartup :: "goenv \<Rightarrow> driver \<Rightarrow> Config \<Rightarrow> pool \<Rightarrow> err option \<times> start_step list" where
  "MigrateAtStartup ge dr c rt = (let mc = ApplyMigrationOverrides ge c in
     if DSN mc = DSN c then Migrate dr rt
     else (case Connect dr mc of
       Inl e \<Rightarrow> (Some (Wrapped ''connect with migration credential'' e), [])
     | Inr p \<Rightarrow> (case Migrate dr p of (r, steps) \<Rightarrow>
         (r, Connected (pool_DSN p) # steps @ (if gorm_DB dr (pool_DSN p) = None then [Closed (pool_DSN p)] else [])))))"

section \<open>cmd/server/main.go up to the listener\<close>

text \<open>\<open>Inl\<close> is an exit with status 1 and the log message; \<open>Inr\<close> the pool the server then serves on.\<close>

definition start_server :: "goenv \<Rightarrow> driver \<Rightarrow> (string + pool) \<times> start_step list" where
  "start_server ge dr = (let c = Load ge in
     case Validate ge c of Some e \<Rightarrow> (Inl ''invalid configuration'', [])
   | None \<Rightarrow> (case Connect dr c of Inl e \<Rightarrow> (Inl ''failed to connect to database'', [])
   | Inr p \<Rightarrow> (case MigrateAtStartup ge dr c p of
       (Some e, steps) \<Rightarrow> (Inl ''failed to run migrations'', Connected (pool_DSN p) # steps)
     | (None, steps) \<Rightarrow> (Inr p, Connected (pool_DSN p) # steps))))"

section \<open>The object store Setup chooses\<close>

text \<open>The switch in \<open>Setup\<close>: the root of a local store, the arguments of an S3 store, or the panic that
  ends the process. \<open>s3_error\<close> is the error of \<open>NewS3Store\<close>, if any.\<close>

datatype store_choice = LocalRoot string | S3Bucket string string string bool bool | SetupPanic string

definition select_store :: "env \<Rightarrow> (string \<Rightarrow> string option) \<Rightarrow> Config \<Rightarrow> store_choice" where
  "select_store ev s3_error c = (let d = storage_driver ev (cfg_StorageDriver c) in
     if d = ''local'' then LocalRoot (storage_root (cfg_StorageRoot c))
     else if d = ''s3'' then (case s3_error (cfg_S3Endpoint c) of Some e \<Rightarrow> SetupPanic e
       | None \<Rightarrow> S3Bucket (cfg_S3Endpoint c) (cfg_S3Region c) (cfg_S3Bucket c) (cfg_S3Secure c) (cfg_S3UsePathStyle c))
     else SetupPanic (''unsupported STORAGE_DRIVER: '' @ d))"

section \<open>Properties\<close>

lemma getEnv_nonempty: "fallback \<noteq> '''' \<Longrightarrow> getEnv ge key fallback \<noteq> ''''"
  by (auto simp: getEnv_def split: option.split)

lemma ValidateStorage_ok:
  assumes "ValidateStorage ge c = None" and "production c"
  shows "0 < cfg_MaxUploadBytes c \<and> (config_driver ge c = ''local'' \<and> IsAbs (cfg_StorageRoot c) \<and> cfg_StorageRoot c \<noteq> ''''
    \<or> config_driver ge c = ''s3'' \<and> '''' \<notin> {cfg_S3Bucket c, cfg_S3AccessKey c, cfg_S3SecretKey c, cfg_S3Region c})"
  using assms by (auto simp: ValidateStorage_def Let_def IsAbs_def HasPrefix_def split: if_splits)

lemma Validate_ok:
  assumes "Validate ge c = None" and "production c"
  shows "32 \<le> length (cfg_JWTSecret c) \<and> ValidateStorage ge c = None
    \<and> (cfg_DatabaseURL c = '''' \<longrightarrow> cfg_DBHost c \<noteq> ''localhost'' \<and> cfg_DBPassword c \<noteq> '''' \<and> 0 < cfg_DBMaxOpenConns c
         \<and> cfg_DBMaxIdleConns c \<le> cfg_DBMaxOpenConns c \<and> 0 < cfg_RedisPoolSize c)"
  using assms by (auto simp: Validate_def minimumJWTSecretLength_def split: if_splits option.splits)

lemma Connect_Inr: "Connect dr c = Inr p \<Longrightarrow> pool_DSN p = DSN c \<and> gorm_DB dr (DSN c) = None"
  by (auto simp: Connect_def DSN_def Let_def split: option.splits)

lemma Migrate_ok: "Migrate dr p = (None, steps) \<Longrightarrow> gorm_DB dr (pool_DSN p) = None \<and> steps = [Migrated (pool_DSN p)]"
  by (auto simp: Migrate_def split: option.splits)

lemma start_server_Inr:
  assumes "start_server ge dr = (Inr p, steps)"
  shows "Validate ge (Load ge) = None \<and> Connect dr (Load ge) = Inr p
    \<and> (\<exists>rest. MigrateAtStartup ge dr (Load ge) p = (None, rest) \<and> steps = Connected (pool_DSN p) # rest)"
  using assms by (auto simp: start_server_def Let_def split: option.splits sum.splits prod.splits)

lemma MigrateAtStartup_ok:
  assumes "MigrateAtStartup ge dr c p = (None, rest)" and "pool_DSN p = DSN c"
  shows "rest = (if DSN (ApplyMigrationOverrides ge c) = DSN c then [Migrated (DSN c)]
    else [Connected (DSN (ApplyMigrationOverrides ge c)), Migrated (DSN (ApplyMigrationOverrides ge c)),
          Closed (DSN (ApplyMigrationOverrides ge c))])"
proof (cases "DSN (ApplyMigrationOverrides ge c) = DSN c")
  case True
  then show ?thesis using assms Migrate_ok[of dr p] by (simp add: MigrateAtStartup_def Let_def)
next
  case False
  then obtain q steps where q: "Connect dr (ApplyMigrationOverrides ge c) = Inr q" "Migrate dr q = (None, steps)"
    and r: "rest = Connected (pool_DSN q) # steps @ (if gorm_DB dr (pool_DSN q) = None then [Closed (pool_DSN q)] else [])"
    using assms by (auto simp: MigrateAtStartup_def Let_def split: sum.splits prod.splits)
  then show ?thesis using False Connect_Inr[OF q(1)] Migrate_ok[OF q(2)] by simp
qed

text \<open>C39: A server that comes up in production has a signing secret of at least 32 bytes, a positive upload
  limit and a store that is either an absolute local root (the one configured, never the
  default) or a complete S3 configuration, and keeps alive at most twice a minute. It serves on
  the runtime connection, the migrations were applied exactly once before, and a separate
  migration credential was used for nothing else and is closed again.\<close>

theorem production_start:
  assumes "start_server ge dr = (Inr p, steps)" and "production (Load ge)" and "unicode_lower ev = case_table ge"
  shows "32 \<le> length (TrimSpace (Getenv ge ''JWT_SECRET'')) \<and> 0 < cfg_MaxUploadBytes (Load ge)
    \<and> 30 * second \<le> cfg_KeepaliveInterval (Load ge)
    \<and> ((\<exists>r. select_store ev s3_error (Load ge) = LocalRoot r \<and> LookupEnv ge ''STORAGE_ROOT'' = Some r \<and> IsAbs r)
       \<or> (config_driver ge (Load ge) = ''s3'' \<and> TrimSpace (Getenv ge ''S3_BUCKET'') \<noteq> ''''
          \<and> TrimSpace (Getenv ge ''S3_ACCESS_KEY_ID'') \<noteq> '''' \<and> TrimSpace (Getenv ge ''S3_SECRET_ACCESS_KEY'') \<noteq> ''''))
    \<and> pool_DSN p = DSN (Load ge)
    \<and> (\<exists>m. m = DSN (ApplyMigrationOverrides ge (Load ge)) \<and> steps = Connected (DSN (Load ge)) #
         (if m = DSN (Load ge) then [Migrated m] else [Connected m, Migrated m, Closed m]))"
proof -
  note s = start_server_Inr[OF assms(1)]
  then have v: "Validate ge (Load ge) = None" and c: "Connect dr (Load ge) = Inr p" by auto
  note v = Validate_ok[OF v assms(2)]
  then have st: "ValidateStorage ge (Load ge) = None" by blast
  have dsn: "pool_DSN p = DSN (Load ge)" using Connect_Inr[OF c] by blast
  have drv: "storage_driver ev (cfg_StorageDriver (Load ge)) = config_driver ge (Load ge)"
    using assms(3) by (simp add: storage_driver_def config_driver_def)
  have root: "cfg_StorageRoot (Load ge) = getEnv ge ''STORAGE_ROOT'' ''./data/uploads''" by (simp add: Load_def Let_def)
  have loc: "LookupEnv ge ''STORAGE_ROOT'' = Some (cfg_StorageRoot (Load ge))" if "IsAbs (cfg_StorageRoot (Load ge))"
    using that unfolding root by (auto simp: getEnv_def IsAbs_def HasPrefix_def split: option.splits if_splits)
  have store: "(\<exists>r. select_store ev s3_error (Load ge) = LocalRoot r \<and> LookupEnv ge ''STORAGE_ROOT'' = Some r \<and> IsAbs r)
      \<or> (config_driver ge (Load ge) = ''s3'' \<and> cfg_S3Bucket (Load ge) \<noteq> '''' \<and> cfg_S3AccessKey (Load ge) \<noteq> ''''
         \<and> cfg_S3SecretKey (Load ge) \<noteq> '''')"
    using ValidateStorage_ok[OF st assms(2)] loc by (auto simp: select_store_def drv storage_root_def)
  have "cfg_S3Bucket (Load ge) = TrimSpace (Getenv ge ''S3_BUCKET'')" "cfg_S3AccessKey (Load ge) = TrimSpace (Getenv ge ''S3_ACCESS_KEY_ID'')"
    "cfg_S3SecretKey (Load ge) = TrimSpace (Getenv ge ''S3_SECRET_ACCESS_KEY'')" "cfg_JWTSecret (Load ge) = TrimSpace (Getenv ge ''JWT_SECRET'')"
    "30 * second \<le> cfg_KeepaliveInterval (Load ge)" by (simp_all add: Load_def Let_def)
  note parts = this
  obtain rest where r: "MigrateAtStartup ge dr (Load ge) p = (None, rest)" "steps = Connected (pool_DSN p) # rest" using s by blast
  have "\<exists>m. m = DSN (ApplyMigrationOverrides ge (Load ge)) \<and> steps = Connected (DSN (Load ge)) #
         (if m = DSN (Load ge) then [Migrated m] else [Connected m, Migrated m, Closed m])"
    using r(2) unfolding dsn MigrateAtStartup_ok[OF r(1) dsn] by simp
  moreover have "0 < cfg_MaxUploadBytes (Load ge)" using ValidateStorage_ok[OF st assms(2)] by blast
  ultimately show ?thesis using v store dsn parts by (intro conjI) (fast | simp)+
qed

section \<open>Two gaps\<close>

definition demo_goenv :: "(string \<times> string) list \<Rightarrow> goenv" where
  "demo_goenv kvs = \<lparr>LookupEnv = map_of kvs, ParseDuration = (\<lambda>_. None),
     ParseURL = (\<lambda>u. if HasPrefix u ''postgres://'' then Some (''postgres'', drop 11 u) else None), case_table = (\<lambda>r. r)\<rparr>"

definition demo_production :: "(string \<times> string) list" where
  "demo_production = [(''APP_ENV'', ''Production''), (''JWT_SECRET'', ''0123456789abcdef0123456789abcdef''),
     (''DATABASE_URL'', ''postgres://db''), (''STORAGE_ROOT'', ''/data''), (''DB_MAX_OPEN_CONNS'', ''0''),
     (''MIGRATE_DATABASE_URL'', ''postgres://owner@db'')]"

definition demo_driver :: driver where
  "demo_driver = \<lparr>gorm_Open = (\<lambda>_. None), gorm_DB = (\<lambda>_. None), PingContext = (\<lambda>_. None), RunMigrations = (\<lambda>_. None)\<rparr>"

text \<open>With \<open>DATABASE_URL\<close> set the pool limits are not validated: a production server starts with
  \<open>DB_MAX_OPEN_CONNS=0\<close>, which database/sql reads as no limit at all.\<close>

theorem unlimited_pool_accepted:
  "\<exists>p steps. start_server (demo_goenv demo_production) demo_driver = (Inr p, steps) \<and> MaxOpenConns p = 0"
proof -
  have "(case fst (start_server (demo_goenv demo_production) demo_driver) of Inl e \<Rightarrow> False | Inr p \<Rightarrow> MaxOpenConns p = 0)" by code_simp
  then show ?thesis by (cases "start_server (demo_goenv demo_production) demo_driver") (auto split: sum.splits)
qed

text \<open>The values of a split configuration are pasted unquoted into the connection string, so different
  configurations can be the same connection: a space in the password starts a new setting.\<close>

theorem connection_string_ambiguous:
  assumes "cfg_DatabaseURL c = ''''"
  shows "connectionDSN (c\<lparr>cfg_DBPassword := p @ '' dbname='' @ d, cfg_DBName := n\<rparr>)
    = connectionDSN (c\<lparr>cfg_DBPassword := p, cfg_DBName := d @ '' dbname='' @ n\<rparr>)"
  using assms by (simp add: connectionDSN_def)

theorem production_start_witness:
  "\<exists>p steps. start_server (demo_goenv demo_production) demo_driver = (Inr p, steps) \<and> pool_DSN p = ''postgres://db''
    \<and> steps = [Connected ''postgres://db'', Connected ''postgres://owner@db'', Migrated ''postgres://owner@db'', Closed ''postgres://owner@db'']"
proof -
  let ?g = "demo_goenv demo_production"
  have "\<not> isl (fst (start_server ?g demo_driver))" by code_simp
  then obtain p steps where s: "start_server ?g demo_driver = (Inr p, steps)" by (metis isl_def prod.collapse sum.collapse(2) sumE)
  have d: "production (Load ?g)" "DSN (Load ?g) = ''postgres://db''" "DSN (ApplyMigrationOverrides ?g (Load ?g)) = ''postgres://owner@db''"
    by code_simp+
  have "unicode_lower demo_env = case_table ?g" by (simp add: demo_env_def demo_goenv_def)
  from production_start[OF s d(1) this, of "\<lambda>_. None"] show ?thesis unfolding d(2,3) using s by auto
qed

end
