(* ===== verification/Server.thy ===== *)
theory Server
  imports Config
begin

text \<open>
  The rest of cmd/server/main.go, internal/platform/keepalive, internal/platform/health.go and
  cmd/migrate. The main goroutine and the keep-alive goroutine run concurrently: a process is a
  record of where each of them is, and an event moves one of them by one step, in any order.
  What the libraries answer (a ping, a request, a drain, a migration) is part of the event or an
  argument. The timeouts of the listener and the requests it serves are not represented.
\<close>

section \<open>internal/platform/keepalive\<close>

fun Contains :: "string \<Rightarrow> string \<Rightarrow> bool" where
  "Contains [] t \<longleftrightarrow> t = []"
| "Contains (c # s) t \<longleftrightarrow> HasPrefix (c # s) t \<or> Contains s t"

text \<open>\<open>loopback_ip\<close> tells the strings that \<open>net.ParseIP\<close> reads as a loopback address.\<close>

definition publicHealthURL :: "goenv \<Rightarrow> (string \<Rightarrow> bool) \<Rightarrow> string \<Rightarrow> string" where
  "publicHealthURL ge loopback_ip baseURL = (let baseURL = TrimSpace baseURL in
     if baseURL = '''' then '''' else
     let baseURL = (if \<not> Contains baseURL ''://'' then ''https://'' @ baseURL else baseURL) in
     case ParseURL ge baseURL of None \<Rightarrow> '''' | Some (_, hostport) \<Rightarrow>
       if hostport = '''' then '''' else
       let h = Trim (ToLower (case_table ge) (case SplitHost hostport of Some h \<Rightarrow> h | None \<Rightarrow> hostport)) CHR ''.''
       in if h = '''' \<or> h = ''localhost'' \<or> loopback_ip h then ''''
          else TrimSuffix baseURL ''/'' @ ''/health'')"

text \<open>What one tick finds: the pool handle and the ping, then the request.\<close>

datatype dial = HandleUnavailable | PingFailed | PingOk
datatype fetched = BuildFailed | GetFailed | GotStatus int

datatype action =
    KeepaliveStarted duration | Listening string | PoolPinged | HealthRequested string
  | StopRequested | ListenerClosed | PoolClosed | Note string string

definition tick_db :: "dial \<Rightarrow> action list" where
  "tick_db d = (case d of
     HandleUnavailable \<Rightarrow> [Note ''WARN'' ''keepalive: database handle unavailable'']
   | PingFailed \<Rightarrow> [PoolPinged, Note ''WARN'' ''keepalive: database ping failed'']
   | PingOk \<Rightarrow> [PoolPinged, Note ''DEBUG'' ''keepalive: database ping ok''])"

definition tick_http :: "string \<Rightarrow> fetched \<Rightarrow> action list" where
  "tick_http target f = (if target = '''' then [] else case f of
     BuildFailed \<Rightarrow> [Note ''WARN'' ''keepalive: health request build failed'']
   | GetFailed \<Rightarrow> [HealthRequested target, Note ''WARN'' ''keepalive: health ping failed'']
   | GotStatus n \<Rightarrow> [HealthRequested target,
       if n \<noteq> 200 then Note ''WARN'' ''keepalive: health ping non-200'' else Note ''DEBUG'' ''keepalive: health ping ok''])"

section \<open>The two goroutines\<close>

datatype main_at = Serving | Draining | Drained | Finished | Exited int | Panicked string
datatype keepalive_at = NotStarted | Waiting | Pinging | Fetching | Returned

record server =
  main_thread :: main_at
  keepalive_thread :: keepalive_at
  done_closed :: bool
  trace :: "action list"

definition keepalive_Start :: "duration \<Rightarrow> server \<Rightarrow> server" where
  "keepalive_Start interval p = (let interval = (if interval \<le> 0 then minute else interval) in
     p\<lparr>keepalive_thread := Waiting, trace := trace p @ [Note ''INFO'' ''keepalive enabled'', KeepaliveStarted interval]\<rparr>)"

text \<open>From the migrations to the listener: the keep-alive goroutine, then \<open>routes.Setup\<close>, which may
  panic over the object store.\<close>

definition begin_serving :: "env \<Rightarrow> (string \<Rightarrow> string option) \<Rightarrow> Config \<Rightarrow> server" where
  "begin_serving ev s3_error c =
     (let p = \<lparr>main_thread = Serving, keepalive_thread = NotStarted, done_closed = False, trace = []\<rparr>;
          p = (if cfg_KeepaliveEnabled c then keepalive_Start (cfg_KeepaliveInterval c) p else p)
      in case select_store ev s3_error c of SetupPanic e \<Rightarrow> p\<lparr>main_thread := Panicked e\<rparr>
         | _ \<Rightarrow> p\<lparr>trace := trace p @ [Note ''INFO'' ''server listening'', Listening (cfg_Port c)]\<rparr>)"

datatype event =
    TickerFires | PingReturns dial | GetReturns fetched | DoneReceived
  | ListenFails | SignalArrives | ShutdownReturns bool bool | PoolCloseReturns bool | MainReturns

text \<open>The goroutine of \<open>Start\<close>. When both channels are ready, \<open>select\<close> may take either.\<close>

fun keepalive_step :: "string \<Rightarrow> event \<Rightarrow> server \<Rightarrow> server option" where
  "keepalive_step target TickerFires p =
     (if keepalive_thread p = Waiting then Some (p\<lparr>keepalive_thread := Pinging\<rparr>) else None)"
| "keepalive_step target (PingReturns d) p =
     (if keepalive_thread p = Pinging then Some (p\<lparr>keepalive_thread := Fetching, trace := trace p @ tick_db d\<rparr>) else None)"
| "keepalive_step target (GetReturns f) p =
     (if keepalive_thread p = Fetching then Some (p\<lparr>keepalive_thread := Waiting, trace := trace p @ tick_http target f\<rparr>) else None)"
| "keepalive_step target DoneReceived p =
     (if keepalive_thread p = Waiting \<and> done_closed p then Some (p\<lparr>keepalive_thread := Returned\<rparr>) else None)"
| "keepalive_step target _ p = None"

text \<open>The select of main and the shutdown. \<open>ShutdownReturns drained closed\<close>: whether the drain ended
  within the budget, and whether a forced close did.\<close>

fun main_step :: "driver \<Rightarrow> Config \<Rightarrow> pool \<Rightarrow> event \<Rightarrow> server \<Rightarrow> server option" where
  "main_step dr c pl ListenFails p =
     (if main_thread p = Serving then Some (p\<lparr>main_thread := Exited 1, trace := trace p @ [Note ''ERROR'' ''server failed'']\<rparr>) else None)"
| "main_step dr c pl SignalArrives p =
     (if main_thread p = Serving then
        (let p = p\<lparr>main_thread := Draining, trace := trace p @ [Note ''INFO'' ''shutdown initiated'']\<rparr>
         in Some (if cfg_KeepaliveEnabled c then p\<lparr>done_closed := True, trace := trace p @ [StopRequested]\<rparr> else p))
      else None)"
| "main_step dr c pl (ShutdownReturns drained closed) p =
     (if main_thread p = Draining then
        Some (p\<lparr>main_thread := Drained, trace := trace p @ (if drained then [ListenerClosed]
          else [Note ''ERROR'' ''graceful shutdown timed out, forcing close'', ListenerClosed]
            @ (if closed then [] else [Note ''ERROR'' ''forced close failed'']))\<rparr>)
      else None)"
| "main_step dr c pl (PoolCloseReturns closed) p =
     (if main_thread p = Drained then
        Some (p\<lparr>main_thread := Finished, trace := trace p
          @ (if gorm_DB dr (pool_DSN pl) = None
             then PoolClosed # (if closed then [] else [Note ''ERROR'' ''failed to close database pool'']) else [])
          @ [Note ''INFO'' ''shutdown complete'']\<rparr>)
      else None)"
| "main_step dr c pl MainReturns p =
     (if main_thread p = Finished then Some (p\<lparr>main_thread := Exited 0\<rparr>) else None)"
| "main_step dr c pl _ p = None"

text \<open>When main has returned or panicked, the process and its goroutines are gone.\<close>

fun running :: "main_at \<Rightarrow> bool" where
  "running (Exited n) \<longleftrightarrow> False"
| "running (Panicked e) \<longleftrightarrow> False"
| "running _ \<longleftrightarrow> True"

definition server_step :: "driver \<Rightarrow> Config \<Rightarrow> pool \<Rightarrow> string \<Rightarrow> event \<Rightarrow> server \<Rightarrow> server option" where
  "server_step dr c pl target e p = (if \<not> running (main_thread p) then None
     else (case main_step dr c pl e p of Some q \<Rightarrow> Some q | None \<Rightarrow> keepalive_step target e p))"

fun server_run :: "driver \<Rightarrow> Config \<Rightarrow> pool \<Rightarrow> string \<Rightarrow> event list \<Rightarrow> server \<Rightarrow> server option" where
  "server_run dr c pl target [] p = Some p"
| "server_run dr c pl target (e # es) p = Option.bind (server_step dr c pl target e p) (server_run dr c pl target es)"

section \<open>Health and healthcheck\<close>

text \<open>The JSON object of an answer, as its members in order.\<close>

definition Health :: "int \<times> (string \<times> string) list" where
  "Health = (200, [(''status'', ''ok'')])"

definition Live :: "int \<times> (string \<times> string) list" where
  "Live = (200, [(''status'', ''alive'')])"

definition Ready :: "dial \<Rightarrow> int \<times> (string \<times> string) list" where
  "Ready d = (case d of
     HandleUnavailable \<Rightarrow> (503, [(''status'', ''not ready''), (''reason'', ''database handle unavailable'')])
   | PingFailed \<Rightarrow> (503, [(''status'', ''not ready''), (''reason'', ''database unreachable'')])
   | PingOk \<Rightarrow> (200, [(''status'', ''ready'')]))"

text \<open>\<open>http_get\<close> is the status the URL answers with, or \<open>None\<close> for a transport error; -1 means that
  this is no health check.\<close>

definition runHealthcheck :: "goenv \<Rightarrow> bool \<Rightarrow> (string \<Rightarrow> int option) \<Rightarrow> int" where
  "runHealthcheck ge asked http_get = (if \<not> asked then -1 else
     let port = cfg_Port (Load ge); port = (if port = '''' then ''8080'' else port)
     in case http_get (''http://127.0.0.1:'' @ port @ ''/health'') of None \<Rightarrow> 1
        | Some code \<Rightarrow> if code \<noteq> 200 then 1 else 0)"

section \<open>cmd/migrate\<close>

text \<open>\<open>Fatal\<close> is \<open>log.Fatal\<close> (exit status 1). A migrator: what golang-migrate answers to \<open>Up\<close>,
  \<open>Steps\<close> and \<open>Version\<close> (\<open>ErrNoChange\<close> is a sentinel), the errors while it is built, and the
  text of an error and of a quoted argument.\<close>

datatype migrate_outcome = Fatal string | Printed string

record migrator =
  new_error :: "(string \<times> err) option"
  m_Up :: "err option"
  m_Steps :: "int \<Rightarrow> err option"
  m_Version :: "err + int \<times> bool"
  shown :: "err \<Rightarrow> string"
  quoted :: "string \<Rightarrow> string"

definition ErrNoChange :: err where "ErrNoChange = Sentinel ''no change''"

definition failed :: "err option \<Rightarrow> bool" where
  "failed r = (case r of None \<Rightarrow> False | Some e \<Rightarrow> \<not> errors_is e ErrNoChange)"

definition migrate_command :: "migrator \<Rightarrow> string list \<Rightarrow> migrate_outcome" where
  "migrate_command m args = (let command = args ! 1 in
     if command = ''up'' then
       (if failed (m_Up m) then Fatal (''migrate up: '' @ shown m (the (m_Up m))) else Printed ''migrations applied'')
     else if command = ''down'' then
       (case (if length args > 2 then Atoi (args ! 2) else Some 1) of
          None \<Rightarrow> Fatal ''invalid steps argument''
        | Some steps \<Rightarrow> (let r = m_Steps m (wrap64 (- steps)) in
            if failed r then Fatal (''migrate down: '' @ shown m (the r)) else Printed ''migrations reverted''))
     else if command = ''version'' then
       (case m_Version m of Inl e \<Rightarrow> Fatal (''get version: '' @ shown m e)
        | Inr (version, dirty) \<Rightarrow> Printed (''version='' @ decimal version @ '' dirty='' @ (if dirty then ''true'' else ''false'')))
     else Fatal (''unknown command '' @ quoted m command @ '' (expected up|down|version)''))"

definition migrate_main :: "goenv \<Rightarrow> driver \<Rightarrow> migrator \<Rightarrow> string list \<Rightarrow> migrate_outcome" where
  "migrate_main ge dr m args = (if length args < 2 then Fatal ''usage: migrate <up|down|version> [steps]'' else
     case Connect dr (ApplyMigrationOverrides ge (Load ge)) of
       Inl e \<Rightarrow> Fatal (''connect to database: '' @ shown m e)
     | Inr p \<Rightarrow> (case gorm_DB dr (pool_DSN p) of Some e \<Rightarrow> Fatal (''get underlying sql.DB: '' @ shown m e)
     | None \<Rightarrow> (case new_error m of Some (what, e) \<Rightarrow> Fatal (what @ '': '' @ shown m e)
     | None \<Rightarrow> migrate_command m args)))"

section \<open>A clean exit\<close>

text \<open>The actions of main that matter to the outside, and what they must be at each point.\<close>

fun milestone :: "action \<Rightarrow> bool" where
  "milestone (Listening q) \<longleftrightarrow> True"
| "milestone StopRequested \<longleftrightarrow> True"
| "milestone ListenerClosed \<longleftrightarrow> True"
| "milestone PoolClosed \<longleftrightarrow> True"
| "milestone _ \<longleftrightarrow> False"

definition milestones :: "server \<Rightarrow> action list" where
  "milestones p = filter milestone (trace p)"

definition stop_actions :: "Config \<Rightarrow> action list" where
  "stop_actions c = (if cfg_KeepaliveEnabled c then [StopRequested] else [])"

fun milestones_at :: "Config \<Rightarrow> main_at \<Rightarrow> action list" where
  "milestones_at c Draining = Listening (cfg_Port c) # stop_actions c"
| "milestones_at c Drained = Listening (cfg_Port c) # stop_actions c @ [ListenerClosed]"
| "milestones_at c Finished = Listening (cfg_Port c) # stop_actions c @ [ListenerClosed, PoolClosed]"
| "milestones_at c (Exited n) = Listening (cfg_Port c) # (if n = 0 then stop_actions c @ [ListenerClosed, PoolClosed] else [])"
| "milestones_at c (Panicked e) = []"
| "milestones_at c Serving = [Listening (cfg_Port c)]"

definition server_inv :: "Config \<Rightarrow> server \<Rightarrow> bool" where
  "server_inv c p \<longleftrightarrow> milestones p = milestones_at c (main_thread p)
     \<and> (done_closed p \<longleftrightarrow> StopRequested \<in> set (trace p))
     \<and> (keepalive_thread p = NotStarted \<longleftrightarrow> \<not> cfg_KeepaliveEnabled c)"

lemma no_milestone_in_tick [simp]: "filter milestone (tick_db d) = []" "filter milestone (tick_http t f) = []"
  by (auto simp: tick_db_def tick_http_def split: dial.splits fetched.splits)

lemma ticks_do_not_stop [simp]: "StopRequested \<notin> set (tick_db d)" "StopRequested \<notin> set (tick_http t f)"
  by (auto simp: tick_db_def tick_http_def split: dial.splits fetched.splits)

lemma begin_inv: "server_inv c (begin_serving ev s3_error c)"
  by (auto simp: server_inv_def begin_serving_def keepalive_Start_def milestones_def Let_def split: store_choice.splits)

lemma keepalive_step_inv: "keepalive_step target e p = Some q \<Longrightarrow> server_inv c p \<Longrightarrow> server_inv c q"
  by (cases e) (auto simp: server_inv_def milestones_def split: if_splits)

lemma main_step_inv:
  "main_step dr c pl e p = Some q \<Longrightarrow> gorm_DB dr (pool_DSN pl) = None \<Longrightarrow> server_inv c p \<Longrightarrow> server_inv c q"
  by (cases e) (auto simp: server_inv_def milestones_def stop_actions_def Let_def split: if_splits)

lemma server_run_inv:
  assumes "server_run dr c pl target es p = Some q" and "gorm_DB dr (pool_DSN pl) = None" and "server_inv c p"
  shows "server_inv c q"
  using assms
proof (induction es arbitrary: p)
  case (Cons e es)
  then obtain r where r: "server_step dr c pl target e p = Some r" "server_run dr c pl target es r = Some q"
    by (auto simp: bind_eq_Some_conv)
  moreover have "server_inv c r"
    using r(1) main_step_inv keepalive_step_inv Cons.prems(2,3)
    by (fastforce simp: server_step_def split: if_splits option.splits)
  ultimately show ?case using Cons.IH Cons.prems(2) by blast
qed simp

text \<open>A server that exits with status 0 was stopped in the right order: it listened, asked the keep-alive
  goroutine to stop, closed its listener and only then its pool, each exactly once.\<close>

theorem graceful_exit:
  assumes "start_server ge dr = (Inr pl, steps)"
    and "server_run dr (Load ge) pl target es (begin_serving ev s3_error (Load ge)) = Some q" and "main_thread q = Exited 0"
  shows "milestones q = Listening (cfg_Port (Load ge)) #
    (if cfg_KeepaliveEnabled (Load ge) then [StopRequested] else []) @ [ListenerClosed, PoolClosed]"
proof -
  have "gorm_DB dr (pool_DSN pl) = None"
    using start_server_Inr[OF assms(1)] Connect_Inr[of dr "Load ge" pl] by auto
  from server_run_inv[OF assms(2) this begin_inv] show ?thesis
    using assms(3) by (simp add: server_inv_def stop_actions_def)
qed

text \<open>A signal always ends a serving process with status 0, whatever the drain and the closes return and
  wherever the keep-alive goroutine is: main does not wait for it.\<close>

theorem signal_ends_server:
  assumes "main_thread p = Serving"
  shows "\<exists>q. server_run dr c pl target [SignalArrives, ShutdownReturns drained closed, PoolCloseReturns ok, MainReturns] p = Some q
    \<and> main_thread q = Exited 0 \<and> keepalive_thread q = keepalive_thread p"
  using assms by (auto simp: server_step_def Let_def)

section \<open>Gaps\<close>

text \<open>Closing the channel does not wait for a tick under way: the pool may be pinged after it was closed.\<close>

theorem ping_after_close:
  "\<exists>es q. server_run demo_driver (Load (demo_goenv demo_production)) pl '''' es
       (begin_serving demo_env s3_error (Load (demo_goenv demo_production))) = Some q
     \<and> main_thread q = Finished \<and> PoolPinged \<in> set (dropWhile (\<lambda>a. a \<noteq> PoolClosed) (trace q))"
proof -
  let ?c = "Load (demo_goenv demo_production)"
  have "cfg_KeepaliveEnabled ?c" by code_simp
  moreover have "select_store demo_env s3_error ?c = LocalRoot ''/data''"
    by code_simp
  ultimately obtain q where
    "server_run demo_driver ?c pl '''' [TickerFires, SignalArrives, ShutdownReturns True True, PoolCloseReturns True, PingReturns PingFailed]
       (begin_serving demo_env s3_error ?c) = Some q" "main_thread q = Finished"
    "PoolPinged \<in> set (dropWhile (\<lambda>a. a \<noteq> PoolClosed) (trace q))"
    by (auto simp: server_step_def begin_serving_def keepalive_Start_def tick_db_def demo_driver_def Let_def)
  then show ?thesis by blast
qed

text \<open>A loopback address in brackets and without a port is pinged: \<open>SplitHostPort\<close> refuses it and
  \<open>ParseIP\<close> does not read the brackets.\<close>

theorem bracketed_loopback_pinged:
  "publicHealthURL (demo_goenv []\<lparr>ParseURL := (\<lambda>u. Some (''http'', drop 7 u))\<rparr>) (\<lambda>h. h = ''::1'') ''http://[::1]'' = ''http://[::1]/health''"
  by code_simp

text \<open>A negative number of steps is not refused: \<open>migrate down -2\<close> applies two migrations and reports
  them as reverted.\<close>

theorem migrate_down_negative:
  "migrate_command m [prog, ''down'', ''-2''] =
    (if failed (m_Steps m 2) then Fatal (''migrate down: '' @ shown m (the (m_Steps m 2))) else Printed ''migrations reverted'')"
proof -
  have "Atoi ''-2'' = Some (-2)" "wrap64 2 = 2" by code_simp+
  then show ?thesis by (simp add: migrate_command_def Let_def)
qed

end
