(* ===== verification/Mailer.thy ===== *)
theory Mailer
  imports Config Metrics
begin

text \<open>
  internal/mailer: the links with the single-use tokens, the three messages in text and HTML, the
  detached dispatch, the two transports, and the choice between them in \<open>routes.Setup\<close>. Of the
  standard library \<open>url.QueryEscape\<close> and \<open>html.EscapeString\<close> are modelled, with the readers
  they are written for; the provider (\<open>http.Client.Do\<close>) and the format of the expiry are
  arguments. \<open>json.Marshal\<close> of the request does not fail: its fields are strings.
\<close>

section \<open>url.QueryEscape and html.EscapeString\<close>

definition unreserved :: "char \<Rightarrow> bool" where
  "unreserved c \<longleftrightarrow> within 48 57 (byte c) \<or> within 65 90 (byte c) \<or> within 97 122 (byte c)
     \<or> c \<in> {CHR ''-'', CHR ''_'', CHR ''.'', CHR ''~''}"

definition query_byte :: "char \<Rightarrow> string" where
  "query_byte c = (if c = CHR '' '' then [CHR ''+''] else if unreserved c then [c]
     else [CHR ''%'', upperhex (byte c div 16), upperhex (byte c mod 16)])"

definition QueryEscape :: "string \<Rightarrow> string" where
  "QueryEscape s = concat (map query_byte s)"

definition html_byte :: "char \<Rightarrow> string" where
  "html_byte c = (if c = CHR ''&'' then ''&amp;'' else if c = CHR 0x27 then ''&#39;'' else if c = CHR ''<'' then ''&lt;''
     else if c = CHR ''>'' then ''&gt;'' else if c = CHR 0x22 then ''&#34;'' else [c])"

definition EscapeString :: "string \<Rightarrow> string" where
  "EscapeString s = concat (map html_byte s)"

section \<open>mailer.go\<close>

record Message =
  msg_To :: string
  msg_Subject :: string
  msg_Text :: string
  msg_HTML :: string
  msg_Tag :: string

section \<open>resend.go\<close>

record resendRequest =
  rr_From :: string
  rr_To :: "string list"
  rr_Subject :: string
  rr_Text :: "string option"
  rr_HTML :: "string option"
  rr_Tags :: "(string \<times> string) list"

record http_request =
  hr_Method :: string
  hr_URL :: string
  hr_Headers :: "(string \<times> string) list"
  hr_Body :: resendRequest

datatype Sender = Noop | Resend string string

definition resendEndpoint :: string where
  "resendEndpoint = ''https://api.resend.com/emails''"

definition omitempty :: "string \<Rightarrow> string option" where
  "omitempty s = (if s = '''' then None else Some s)"

definition resend_request :: "string \<Rightarrow> string \<Rightarrow> Message \<Rightarrow> http_request" where
  "resend_request apiKey sender m = \<lparr>hr_Method = ''POST'', hr_URL = resendEndpoint,
     hr_Headers = [(''Authorization'', ''Bearer '' @ apiKey), (''Content-Type'', ''application/json'')],
     hr_Body = \<lparr>rr_From = sender, rr_To = [msg_To m], rr_Subject = msg_Subject m,
       rr_Text = omitempty (msg_Text m), rr_HTML = omitempty (msg_HTML m),
       rr_Tags = (if msg_Tag m \<noteq> '''' then [(''flow'', msg_Tag m)] else [])\<rparr>\<rparr>"

text \<open>\<open>client_Do\<close>: a transport error, or the status and the body of the answer. The result is the error,
  if any, and the requests made.\<close>

definition Resend_Send ::
  "(http_request \<Rightarrow> err + int \<times> string) \<Rightarrow> string \<Rightarrow> string \<Rightarrow> Message \<Rightarrow> err option \<times> http_request list" where
  "Resend_Send client_Do apiKey sender m =
     (if msg_To m = '''' then (Some (Plain ''mailer: recipient is empty''), []) else
      let r = resend_request apiKey sender m in
      (case client_Do r of Inl e \<Rightarrow> Some (Wrapped ''mailer: send'' e)
       | Inr (code, body) \<Rightarrow> if code < 200 \<or> code > 299
           then Some (Plain (''mailer: resend returned '' @ decimal code @ '': '' @ TrimSpace (take 2048 body))) else None, [r]))"

text \<open>A log record: level, message, the attributes.\<close>

type_synonym mail_log = "string \<times> string \<times> (string \<times> string) list"

definition Noop_Send :: "Message \<Rightarrow> err option \<times> mail_log" where
  "Noop_Send m = (None, (''WARN'', ''email not sent: no mail transport configured'',
     [(''to'', msg_To m), (''tag'', msg_Tag m), (''subject'', msg_Subject m)]))"

section \<open>notifier.go\<close>

record MailNotifier =
  n_sender :: "Sender option"
  n_baseURL :: string

definition NewNotifier :: "Sender option \<Rightarrow> string \<Rightarrow> MailNotifier" where
  "NewNotifier s baseURL = \<lparr>n_sender = s, n_baseURL = TrimRight baseURL CHR ''/''\<rparr>"

definition link :: "MailNotifier \<Rightarrow> string \<Rightarrow> string \<Rightarrow> string" where
  "link n param token = n_baseURL n @ ''/app?'' @ param @ ''='' @ QueryEscape token"

text \<open>\<open>q\<close> is the double quote, \<open>nl\<close> the newline.\<close>

definition htmlBody_head :: "string \<Rightarrow> string" where
  "htmlBody_head lead = (let q = [CHR 0x22]; nl = [CHR 0x0A] in
     ''<!doctype html>'' @ nl
     @ ''<html lang='' @ q @ ''en'' @ q @ ''>'' @ nl
     @ ''<body style='' @ q @ ''margin:0;padding:24px;background:#f6f6f6;font-family:-apple-system,BlinkMacSystemFont,'' @ [CHR 0x27]
       @ ''Segoe UI'' @ [CHR 0x27] @ '',Roboto,Helvetica,Arial,sans-serif;color:#111111;'' @ q @ ''>'' @ nl
     @ ''  <div style='' @ q @ ''max-width:520px;margin:0 auto;background:#ffffff;border:1px solid #e4e4e4;border-radius:8px;padding:32px;'' @ q @ ''>'' @ nl
     @ ''    <p style='' @ q @ ''margin:0 0 20px;font-size:16px;line-height:1.5;'' @ q @ ''>'' @ EscapeString lead @ ''</p>'' @ nl
     @ ''    <p style='' @ q @ ''margin:0 0 24px;'' @ q @ ''>'' @ nl
     @ ''      '')"

definition htmlBody_tail :: "string \<Rightarrow> string \<Rightarrow> string \<Rightarrow> string" where
  "htmlBody_tail action safeLink footer = (let q = [CHR 0x22]; nl = [CHR 0x0A] in
     '' style='' @ q
       @ ''display:inline-block;padding:12px 20px;background:#111111;color:#ffffff;text-decoration:none;border-radius:6px;font-size:15px;font-weight:600;''
       @ q @ ''>'' @ EscapeString action @ ''</a>'' @ nl
     @ ''    </p>'' @ nl
     @ ''    <p style='' @ q @ ''margin:0 0 20px;font-size:13px;line-height:1.6;color:#555555;'' @ q @ ''>'' @ nl
     @ ''      If the button does not work, paste this link into your browser:<br>'' @ nl
     @ ''      <span style='' @ q @ ''word-break:break-all;'' @ q @ ''>'' @ safeLink @ ''</span>'' @ nl
     @ ''    </p>'' @ nl
     @ ''    <p style='' @ q @ ''margin:0;font-size:13px;line-height:1.6;color:#555555;'' @ q @ ''>'' @ EscapeString footer @ ''</p>'' @ nl
     @ ''  </div>'' @ nl @ ''</body>'' @ nl @ ''</html>'' @ nl)"

definition htmlBody :: "string \<Rightarrow> string \<Rightarrow> string \<Rightarrow> string \<Rightarrow> string" where
  "htmlBody lead action url footer = (let safeLink = EscapeString url in
     htmlBody_head lead @ ''<a href='' @ [CHR 0x22] @ safeLink @ [CHR 0x22] @ htmlBody_tail action safeLink footer)"

definition invitation_message :: "(gotime \<Rightarrow> string) \<Rightarrow> MailNotifier \<Rightarrow> string \<Rightarrow> string \<Rightarrow> string \<Rightarrow> gotime \<Rightarrow> Message" where
  "invitation_message fmt n dest orgName token expiresAt =
    (let org = (if orgName = '''' then ''an organization'' else orgName); url = link n ''invite'' token;
         expiry = fmt expiresAt; nl = [CHR 0x0A];
         footer = ''This link works once and expires on '' @ expiry @ ''. If you were not expecting it, you can ignore this message.''
     in \<lparr>msg_To = dest, msg_Subject = ''You have been invited to '' @ org,
       msg_Text = ''You have been invited to join '' @ org @ ''.'' @ nl @ nl @ ''Accept the invitation:'' @ nl @ url @ nl @ nl @ footer @ nl,
       msg_HTML = htmlBody (''You have been invited to join '' @ org @ ''.'') ''Accept invitation'' url footer,
       msg_Tag = ''member-invitation''\<rparr>)"

definition password_reset_message :: "MailNotifier \<Rightarrow> string \<Rightarrow> string \<Rightarrow> Message" where
  "password_reset_message n dest token =
    (let url = link n ''reset'' token; nl = [CHR 0x0A];
         footer = ''This link works once and expires shortly. If you did not request it, no action is needed: your current password still works and nothing has changed.''
     in \<lparr>msg_To = dest, msg_Subject = ''Reset your password'',
       msg_Text = ''A password reset was requested for this address.'' @ nl @ nl @ ''Choose a new password:'' @ nl @ url @ nl @ nl @ footer @ nl,
       msg_HTML = htmlBody ''A password reset was requested for this address.'' ''Choose a new password'' url footer,
       msg_Tag = ''password-reset''\<rparr>)"

definition email_verification_message :: "MailNotifier \<Rightarrow> string \<Rightarrow> string \<Rightarrow> Message" where
  "email_verification_message n dest token =
    (let url = link n ''verify'' token; nl = [CHR 0x0A];
         footer = ''This link works once. If you did not create an account, you can ignore this message.''
     in \<lparr>msg_To = dest, msg_Subject = ''Verify your email address'',
       msg_Text = ''Confirm this address to finish setting up your account.'' @ nl @ nl @ ''Verify your email:'' @ nl @ url @ nl @ nl @ footer @ nl,
       msg_HTML = htmlBody ''Confirm this address to finish setting up your account.'' ''Verify your email'' url footer,
       msg_Tag = ''email-verification''\<rparr>)"

text \<open>\<open>dispatch\<close> starts a goroutine: what is left to send, and nothing for the caller to wait for. The
  goroutine sends and logs a failure.\<close>

definition dispatch :: "MailNotifier option \<Rightarrow> Message \<Rightarrow> (Sender \<times> Message) list \<Rightarrow> (Sender \<times> Message) list" where
  "dispatch n m pending = (case n of None \<Rightarrow> pending | Some n \<Rightarrow>
     (case n_sender n of None \<Rightarrow> pending | Some s \<Rightarrow> pending @ [(s, m)]))"

definition deliver :: "(http_request \<Rightarrow> err + int \<times> string) \<Rightarrow> Sender \<times> Message \<Rightarrow> http_request list \<times> mail_log list" where
  "deliver client_Do = (\<lambda>(s, m).
     let (r, requests, ls) = (case s of Noop \<Rightarrow> (case Noop_Send m of (r, l) \<Rightarrow> (r, [], [l]))
       | Resend k sender \<Rightarrow> (case Resend_Send client_Do k sender m of (r, hs) \<Rightarrow> (r, hs, [])))
     in (requests, ls @ (if r = None then []
          else [(''ERROR'', ''failed to send email'', [(''to'', msg_To m), (''tag'', msg_Tag m)])])))"

definition SendInvitation ::
  "(gotime \<Rightarrow> string) \<Rightarrow> MailNotifier option \<Rightarrow> string \<Rightarrow> string \<Rightarrow> string \<Rightarrow> gotime \<Rightarrow> (Sender \<times> Message) list \<Rightarrow> (Sender \<times> Message) list" where
  "SendInvitation fmt n dest orgName token expiresAt pending = (case n of None \<Rightarrow> pending
   | Some k \<Rightarrow> dispatch n (invitation_message fmt k dest orgName token expiresAt) pending)"

definition SendPasswordReset :: "MailNotifier option \<Rightarrow> string \<Rightarrow> string \<Rightarrow> (Sender \<times> Message) list \<Rightarrow> (Sender \<times> Message) list" where
  "SendPasswordReset n dest token pending = (case n of None \<Rightarrow> pending
   | Some k \<Rightarrow> dispatch n (password_reset_message k dest token) pending)"

definition SendEmailVerification :: "MailNotifier option \<Rightarrow> string \<Rightarrow> string \<Rightarrow> (Sender \<times> Message) list \<Rightarrow> (Sender \<times> Message) list" where
  "SendEmailVerification n dest token pending = (case n of None \<Rightarrow> pending
   | Some k \<Rightarrow> dispatch n (email_verification_message k dest token) pending)"

text \<open>The transport \<open>Setup\<close> chooses, and the complaint about a half-configured one.\<close>

definition select_mailer :: "Config \<Rightarrow> MailNotifier \<times> mail_log list" where
  "select_mailer c = (let configured = (cfg_ResendAPIKey c \<noteq> '''' \<and> cfg_MailFrom c \<noteq> '''' \<and> cfg_AppBaseURL c \<noteq> '''')
     in (NewNotifier (Some (if configured then Resend (cfg_ResendAPIKey c) (cfg_MailFrom c) else Noop)) (cfg_AppBaseURL c),
       if \<not> configured \<and> cfg_ResendAPIKey c \<noteq> ''''
       then [(''ERROR'', ''email disabled: RESEND_API_KEY is set but MAIL_FROM or APP_BASE_URL is missing'', [])] else []))"

section \<open>The readers\<close>

text \<open>A browser reads the text of an attribute or an element by expanding the character references (the
  five that \<open>EscapeString\<close> writes), and a query value by \<open>url.QueryUnescape\<close>: \<open>None\<close> is an error.\<close>

definition hexval :: "char \<Rightarrow> int option" where
  "hexval c = (let b = byte c in if within 48 57 b then Some (b - 48) else if within 65 70 b then Some (b - 55)
     else if within 97 102 b then Some (b - 87) else None)"

fun QueryUnescape :: "string \<Rightarrow> string option" where
  "QueryUnescape [] = Some []"
| "QueryUnescape (c # s) =
     (if c = CHR ''+'' then map_option ((#) CHR '' '') (QueryUnescape s)
      else if c \<noteq> CHR ''%'' then map_option ((#) c) (QueryUnescape s)
      else (case s of a # b # r \<Rightarrow> (case (hexval a, hexval b) of
          (Some x, Some y) \<Rightarrow> map_option ((#) (char_of (16 * x + y))) (QueryUnescape r) | _ \<Rightarrow> None) | _ \<Rightarrow> None))"

fun html_text :: "string \<Rightarrow> string" where
  "html_text [] = []"
| "html_text (c # s) = (if c \<noteq> CHR ''&'' then c # html_text s
     else if HasPrefix s ''amp;'' then CHR ''&'' # html_text (drop 4 s)
     else if HasPrefix s ''#39;'' then CHR 0x27 # html_text (drop 4 s)
     else if HasPrefix s ''lt;'' then CHR ''<'' # html_text (drop 3 s)
     else if HasPrefix s ''gt;'' then CHR ''>'' # html_text (drop 3 s)
     else if HasPrefix s ''#34;'' then CHR 0x22 # html_text (drop 4 s)
     else c # html_text s)"

text \<open>The value of a parameter in the query of a URL.\<close>

definition query_get :: "string \<Rightarrow> string \<Rightarrow> string option" where
  "query_get url param = (case split_at CHR ''?'' (hd (Split url CHR ''#'')) of None \<Rightarrow> None | Some (_, q) \<Rightarrow>
     (case find (\<lambda>kv. HasPrefix kv (param @ ''='')) (Split q CHR ''&'') of None \<Rightarrow> None
      | Some kv \<Rightarrow> QueryUnescape (drop (length param + 1) kv)))"

section \<open>Round trips\<close>

lemma upperhex_range: "0 \<le> n \<Longrightarrow> n < 16 \<Longrightarrow> hexval (upperhex n) = Some n \<and> unreserved (upperhex n)"
proof -
  assume n: "0 \<le> n" "n < 16"
  have "list_all (\<lambda>n. hexval (upperhex n) = Some n \<and> unreserved (upperhex n)) (map int [0..<16])" by code_simp
  moreover have "n \<in> set (map int [0..<16])" using n by (auto intro!: image_eqI[of _ _ "nat n"])
  ultimately show ?thesis by (simp only: list_all_iff)
qed

lemma html_text_html_byte: "html_text (html_byte c @ s) = c # html_text s"
  by (auto simp: html_byte_def HasPrefix_def)

lemma html_text_EscapeString: "html_text (EscapeString s) = s"
proof -
  have "html_text (concat (map html_byte s)) = s" by (induction s) (simp_all add: html_text_html_byte)
  then show ?thesis by (simp add: EscapeString_def)
qed

lemma html_byte_inert: "set (html_byte c) \<inter> {CHR ''<'', CHR ''>'', CHR 0x22, CHR 0x27} = {}"
  by (auto simp: html_byte_def)

lemma EscapeString_inert: "set (EscapeString s) \<inter> {CHR ''<'', CHR ''>'', CHR 0x22, CHR 0x27} = {}"
  using html_byte_inert by (fastforce simp: EscapeString_def)

lemma EscapeString_append: "EscapeString (s @ t) = EscapeString s @ EscapeString t"
  by (simp add: EscapeString_def)

lemma char_of_byte: "char_of (byte c) = c"
  by (simp add: byte_def)

lemma unreserved_plain: "unreserved c \<Longrightarrow> c \<notin> {CHR ''%'', CHR ''+'', CHR ''&'', CHR ''#'', CHR ''?'', CHR ''='', CHR 0x0A}"
  by (auto simp: unreserved_def byte_def within_def)

lemma QueryUnescape_query_byte: "QueryUnescape (query_byte c @ s) = map_option ((#) c) (QueryUnescape s)"
proof (cases "c = CHR '' '' \<or> unreserved c")
  case True
  then show ?thesis using unreserved_plain[of c] by (auto simp: query_byte_def)
next
  case False
  have "0 \<le> byte c div 16" "byte c div 16 < 16" using byte_range[of c] by (auto simp: div_less_iff_less_mult)
  from upperhex_range[OF this] upperhex_range[of "byte c mod 16"]
  have "hexval (upperhex (byte c div 16)) = Some (byte c div 16)" "hexval (upperhex (byte c mod 16)) = Some (byte c mod 16)" by simp_all
  then show ?thesis using False by (simp add: query_byte_def char_of_byte)
qed

lemma QueryUnescape_QueryEscape: "QueryUnescape (QueryEscape s) = Some s"
proof -
  have "QueryUnescape (concat (map query_byte s)) = Some s" by (induction s) (simp_all add: QueryUnescape_query_byte)
  then show ?thesis by (simp add: QueryEscape_def)
qed

lemma query_byte_set: "set (query_byte c) \<inter> {CHR ''&'', CHR ''#'', CHR ''?'', CHR ''='', CHR 0x0A} = {}"
proof -
  have "0 \<le> byte c div 16" "byte c div 16 < 16" using byte_range[of c] by (auto simp: div_less_iff_less_mult)
  from upperhex_range[OF this] upperhex_range[of "byte c mod 16"]
  have "unreserved (upperhex (byte c div 16))" "unreserved (upperhex (byte c mod 16))" by simp_all
  from unreserved_plain[OF this(1)] unreserved_plain[OF this(2)] show ?thesis
    using unreserved_plain[of c] by (auto simp: query_byte_def)
qed

lemma QueryEscape_set: "set (QueryEscape s) \<inter> {CHR ''&'', CHR ''#'', CHR ''?'', CHR ''='', CHR 0x0A} = {}"
  using query_byte_set by (fastforce simp: QueryEscape_def)

lemma query_get_link:
  assumes "set (n_baseURL n) \<inter> {CHR ''?'', CHR ''#''} = {}" and "set param \<inter> {CHR ''&'', CHR ''#''} = {}"
  shows "query_get (link n param token) param = Some token"
proof -
  let ?kv = "param @ ''='' @ QueryEscape token"
  have u: "link n param token = (n_baseURL n @ ''/app'') @ CHR ''?'' # ?kv" by (simp add: link_def)
  have "CHR ''#'' \<notin> set (link n param token)" using assms QueryEscape_set[of token] by (auto simp: u)
  moreover have "CHR ''?'' \<notin> set (n_baseURL n @ ''/app'')" using assms by auto
  moreover have "CHR ''&'' \<notin> set ?kv" using assms(2) QueryEscape_set[of token] by auto
  ultimately have "split_at CHR ''?'' (hd (Split (link n param token) CHR ''#'')) = Some (n_baseURL n @ ''/app'', ?kv)"
    and "Split ?kv CHR ''&'' = [?kv]"
    by (metis Split_chars list.sel(1) split_at_append u, metis Split_chars)
  then show ?thesis by (simp add: query_get_def HasPrefix_def QueryUnescape_QueryEscape)
qed

section \<open>What a message carries\<close>

text \<open>The characters that open or close a tag or an attribute value.\<close>

definition structural :: "char \<Rightarrow> bool" where
  "structural c \<longleftrightarrow> c \<in> {CHR ''<'', CHR ''>'', CHR 0x22, CHR 0x27}"

lemma structural_EscapeString [simp]: "filter structural (EscapeString s) = []"
  using EscapeString_inert[of s] by (auto simp: structural_def filter_empty_conv)

lemma htmlBody_markup: "filter structural (htmlBody a b u f) = filter structural (htmlBody [] [] [] [])"
  unfolding htmlBody_def htmlBody_head_def htmlBody_tail_def Let_def
  by (simp only: filter_append structural_EscapeString append_Nil)

text \<open>Each message has the link of its flow, in the text on a line of its own.\<close>

definition carries :: "Message \<Rightarrow> string \<Rightarrow> string \<Rightarrow> bool" where
  "carries m dest url \<longleftrightarrow> msg_To m = dest \<and> (\<exists>a b f. msg_HTML m = htmlBody a b url f)
     \<and> (\<exists>pre post. msg_Text m = pre @ [CHR 0x0A] @ url @ [CHR 0x0A] @ post)"

lemma carriesI:
  "msg_To m = dest \<Longrightarrow> msg_HTML m = htmlBody a b url f \<Longrightarrow> msg_Text m = pre @ [CHR 0x0A] @ url @ [CHR 0x0A] @ post \<Longrightarrow> carries m dest url"
  unfolding carries_def by blast

lemma invitation_carries: "carries (invitation_message fmt n dest orgName token t) dest (link n ''invite'' token)"
  unfolding invitation_message_def Let_def
  by (rule carriesI[where pre = "''You have been invited to join '' @ (if orgName = [] then ''an organization'' else orgName)
      @ ''.'' @ [CHR 0x0A] @ [CHR 0x0A] @ ''Accept the invitation:''"]; (simp only: Message.simps append.assoc)?; rule refl)

lemma password_reset_carries: "carries (password_reset_message n dest token) dest (link n ''reset'' token)"
  unfolding password_reset_message_def Let_def
  by (rule carriesI[where pre = "''A password reset was requested for this address.'' @ [CHR 0x0A] @ [CHR 0x0A] @ ''Choose a new password:''"];
      (simp only: Message.simps append.assoc)?; rule refl)

lemma email_verification_carries: "carries (email_verification_message n dest token) dest (link n ''verify'' token)"
  unfolding email_verification_message_def Let_def
  by (rule carriesI[where pre = "''Confirm this address to finish setting up your account.'' @ [CHR 0x0A] @ [CHR 0x0A] @ ''Verify your email:''"];
      (simp only: Message.simps append.assoc)?; rule refl)

section \<open>Properties\<close>

text \<open>C40: The address of a mailed link carries the token of the flow unchanged, and nothing a message is
  made of can change its markup. For each of the three messages: the text and the href attribute
  of the HTML contain the same URL, a browser reads from the query of that URL exactly the token
  that was issued, whatever bytes it consists of, the attribute value cannot end early, and the
  tags and quotes of the HTML are those of the empty template, whatever the organization is called.\<close>

theorem mailed_token_reads_back:
  assumes "set (n_baseURL n) \<inter> {CHR ''?'', CHR ''#''} = {}"
    and "(param, m) \<in> {(''invite'', invitation_message fmt n dest orgName token expiresAt),
      (''reset'', password_reset_message n dest token), (''verify'', email_verification_message n dest token)}"
  shows "\<exists>url attr pre post pre' post'. msg_To m = dest
    \<and> msg_HTML m = pre @ ''<a href='' @ [CHR 0x22] @ attr @ [CHR 0x22] @ post
    \<and> msg_Text m = pre' @ [CHR 0x0A] @ url @ [CHR 0x0A] @ post'
    \<and> CHR 0x22 \<notin> set attr \<and> html_text attr = url \<and> query_get url param = Some token
    \<and> filter structural (msg_HTML m) = filter structural (htmlBody [] [] [] [])"
proof -
  have p: "set param \<inter> {CHR ''&'', CHR ''#''} = {}" using assms(2) by auto
  have "carries m dest (link n param token)"
    using assms(2) invitation_carries password_reset_carries email_verification_carries by blast
  then obtain a b f pre' post' where m: "msg_To m = dest" "msg_HTML m = htmlBody a b (link n param token) f"
    "msg_Text m = pre' @ [CHR 0x0A] @ link n param token @ [CHR 0x0A] @ post'" unfolding carries_def by blast
  have h: "msg_HTML m = htmlBody_head a @ ''<a href='' @ [CHR 0x22] @ EscapeString (link n param token) @ [CHR 0x22]
      @ htmlBody_tail b (EscapeString (link n param token)) f" by (simp only: m(2) htmlBody_def Let_def)
  have "CHR 0x22 \<notin> set (EscapeString (link n param token))" using EscapeString_inert by blast
  then show ?thesis using m(1,3) h html_text_EscapeString query_get_link[OF assms(1) p, of token]
      htmlBody_markup[of a b "link n param token" f] unfolding m(2) by blast
qed

text \<open>One message is one request, to its recipient alone, with the key in the header only; it counts as
  sent exactly when the provider answers with a 2xx status, and a failure is logged without the
  body, which contains the token.\<close>

theorem Resend_delivery:
  assumes "deliver client_Do (Resend k sender, m) = (requests, ls)" and "msg_To m \<noteq> ''''"
  shows "requests = [resend_request k sender m] \<and> rr_To (hr_Body (hd requests)) = [msg_To m]
    \<and> (ls = [] \<longleftrightarrow> (\<exists>code body. client_Do (hd requests) = Inr (code, body) \<and> 200 \<le> code \<and> code \<le> 299))
    \<and> set ls \<subseteq> {(''ERROR'', ''failed to send email'', [(''to'', msg_To m), (''tag'', msg_Tag m)])}"
  using assms by (auto simp: deliver_def Resend_Send_def resend_request_def Let_def split: sum.splits if_splits)

text \<open>The platform mails through the provider only when the key, the sender and the public address are
  all configured; otherwise nothing leaves the process.\<close>

theorem select_mailer_complete:
  assumes "select_mailer c = (n, ls)" and "deliver client_Do (s, m) = (requests, l)" and "n_sender n = Some s" and "requests \<noteq> []"
  shows "cfg_ResendAPIKey c \<noteq> '''' \<and> cfg_MailFrom c \<noteq> '''' \<and> cfg_AppBaseURL c \<noteq> ''''
    \<and> s = Resend (cfg_ResendAPIKey c) (cfg_MailFrom c) \<and> ls = []"
  using assms by (auto simp: select_mailer_def NewNotifier_def deliver_def Noop_Send_def Let_def split: if_splits)

theorem mailed_token_reads_back_witness:
  "query_get (link (NewNotifier None ''https://app.example.com/'') ''reset'' ''a+b c&d'') ''reset'' = Some ''a+b c&d''
   \<and> (\<exists>attr pre post. msg_HTML (invitation_message (\<lambda>_. ''soon'') (NewNotifier None ''https://app.example.com/'') ''x@y'' ''<b>Acme</b>'' ''t&k'' 0)
        = pre @ ''<a href='' @ [CHR 0x22] @ attr @ [CHR 0x22] @ post \<and> query_get (html_text attr) ''invite'' = Some ''t&k'')"
proof -
  let ?n = "NewNotifier None ''https://app.example.com/''"
  have b: "set (n_baseURL ?n) \<inter> {CHR ''?'', CHR ''#''} = {}" by code_simp
  have "query_get (link ?n ''reset'' ''a+b c&d'') ''reset'' = Some ''a+b c&d''" by code_simp
  moreover have "(''invite'', invitation_message (\<lambda>_. ''soon'') ?n ''x@y'' ''<b>Acme</b>'' ''t&k'' 0) \<in>
      {(''invite'', invitation_message (\<lambda>_. ''soon'') ?n ''x@y'' ''<b>Acme</b>'' ''t&k'' 0),
      (''reset'', password_reset_message ?n ''x@y'' ''t&k''), (''verify'', email_verification_message ?n ''x@y'' ''t&k'')}" by blast
  ultimately show ?thesis using mailed_token_reads_back[OF b] by metis
qed

end
