(* ===== verification/Permission_Cache.thy ===== *)
theory Permission_Cache
  imports Invitations_Props
begin

text \<open>
  The permission cache beside every operation of the code that writes grants of a tenant: the
  role operations of \<open>internal/authz\<close>, which invalidate the users they concern, the provisioning
  of an account by OAuth (\<open>internal/identity\<close>), which grants a role to a user with nothing
  cached yet, and the redemption of an invitation (\<open>internal/invitations\<close>), which may grant a role to a
  member with a cached set, and invalidates nobody.
\<close>

section \<open>Histories\<close>

text \<open>
  A history of one tenant, with the users who have been granted a role by an invitation since
  it began. A step is a role operation or permission check of the tenant whose invalidations
  reach Redis, the role of a provisioned user, a redemption with any outcome, or anything else
  of any module: that may lose cached sets, but for a user whose set stays it leaves the grants
  as they are.
\<close>

definition grants_kept :: "uuid \<Rightarrow> world \<Rightarrow> world \<Rightarrow> bool" where
  "grants_kept t w w' \<longleftrightarrow> (\<forall>u. perm_cache w' (t, u) = None \<or> perm_cache w' (t, u) = perm_cache w (t, u)
       \<and> set (user_codes (Some t) (store w') u) = set (user_codes (Some t) (store w) u))
     \<and> assigned_roles_exist (store w')"

inductive access_history :: "uuid \<Rightarrow> world \<Rightarrow> uuid set \<Rightarrow> world \<Rightarrow> bool" for t w0 where
  start: "access_history t w0 {} w0"
| served: "access_history t w0 G w \<Longrightarrow> served_step t w w' \<Longrightarrow> access_history t w0 G w'"
| provision: "access_history t w0 G w \<Longrightarrow> perm_cache w (t, u) = None \<Longrightarrow>
    AssignSystemRole ev (Some t) t u slug w = (r1, w') \<Longrightarrow> access_history t w0 G w'"
| redeem: "access_history t w0 G w \<Longrightarrow>
    invitations_Accept ev (platform_invitations ttl) fr inp w = (r, w') \<Longrightarrow>
    access_history t w0 (case r of Inl e \<Rightarrow> G | Inr a \<Rightarrow> insert (acc_UserID a) G) w'"
| elsewhere: "access_history t w0 G w \<Longrightarrow> grants_kept t w w' \<Longrightarrow> access_history t w0 G w'"

section \<open>What provisioning does to authorization\<close>

lemma AssignSystemRole_kept:
  assumes "AssignSystemRole ev (Some t) t u slug w = (r, w')" "perm_cache w (t, u) = None"
    and "assigned_roles_exist (store w)"
  shows "grants_kept t w w'"
proof (cases "w' = w")
  case True
  then show ?thesis using assms(3) by (simp add: grants_kept_def)
next
  case False
  then obtain rid where a: "authz_repo_AssignRole ev (Some t) (new_user_role u rid t None) w = (r, w')"
    using assms(1) by (auto simp: AssignSystemRole_def op_try_eq dest!: FindRoleBySlug_reads)
  let ?ur = "new_user_role u rid t None"
  obtain d where d: "w' = w\<lparr>store := d\<rparr>" "insert_user_role (Some t) ?ur (store w) = Inr ((), d)"
    using a False unfolding authz_repo_AssignRole_def
    by (cases r) (auto simp: tx_inv dest!: WithTenantTx_rollback WithTenantTx_Some)
  have s: "d = (store w)\<lparr>user_roles := user_roles (store w) @ [?ur]\<rparr>" "rid \<in> role_ID ` set (roles (store w))"
    using d(2) by (auto simp: insert_user_role_Inr user_role_fks_def new_user_role_def)
  have f: "ur_UserID ?ur = u" by (simp add: new_user_role_def)
  have "set (user_codes (Some t) d v) = set (user_codes (Some t) (store w) v)" if "v \<noteq> u" for v
    by (rule user_codes_unchanged) (use that f in \<open>auto simp: s(1) role_codes_def\<close>)
  moreover have "assigned_roles_exist d" using assms(3) s by (simp add: assigned_roles_exist_def new_user_role_def)
  ultimately show ?thesis using assms(2) d(1) unfolding grants_kept_def by simp metis
qed

section \<open>What redemption does to authorization\<close>

lemma Accept_user_roles:
  assumes "invitations_Accept ev (platform_invitations ttl) fr inp w = (Inr r, w')"
  shows "\<exists>gs. user_roles (store w') = user_roles (store w) @ gs \<and> ur_UserID ` set gs \<subseteq> {acc_UserID r}
    \<and> ur_RoleID ` set gs \<subseteq> role_ID ` set (roles (store w)) \<and> roles (store w') = roles (store w)
    \<and> role_permissions (store w') = role_permissions (store w) \<and> permissions (store w') = permissions (store w)
    \<and> perm_cache w' = perm_cache w"
proof -
  obtain i pw where rd: "redeem ev (platform_invitations ttl) fr inp i pw w = (Inr r, w')"
    using invitations_Accept_Inr[OF assms] by blast
  obtain n d xs where ac: "accept_invitation ev (HashToken ev (ai_Token inp)) (fresh_id fr 0) n pw (store w) = Inr (acc_UserID r, d)"
    and w': "w' = logged xs (w\<lparr>store := d\<rparr>)"
    using redeem_Inr[OF rd invites.wired(5)] by blast
  obtain j where r: "acc_UserID r = invited_id ev (fresh_id fr 0) j (store w)"
    and d: "d = redeemed ev (fresh_id fr 0) n pw j (store w)"
    and g: "ur_RoleID ` set (invited_grants ev j (acc_UserID r) (store w)) \<subseteq> role_ID ` set (roles (store w))"
    using accept_invitation_Inr[OF ac] by blast
  have "ur_UserID ` set (invited_grants ev j (acc_UserID r) (store w)) \<subseteq> {acc_UserID r}"
    by (auto simp: invited_grants_def invited_role_def)
  then show ?thesis using w' d r g by (auto simp: logged_def)
qed

lemma role_codes_cong:
  "roles d' = roles d \<Longrightarrow> role_permissions d' = role_permissions d \<Longrightarrow> permissions d' = permissions d \<Longrightarrow>
     role_codes c d' rid = role_codes c d rid"
  by (simp add: role_codes_def)

lemma Accept_codes:
  assumes "invitations_Accept ev (platform_invitations ttl) fr inp w = (Inr r, w')"
  shows "set (user_codes (Some t) (store w) u) \<subseteq> set (user_codes (Some t) (store w') u)"
    and "u \<noteq> acc_UserID r \<Longrightarrow> set (user_codes (Some t) (store w') u) = set (user_codes (Some t) (store w) u)"
    and "assigned_roles_exist (store w) \<Longrightarrow> assigned_roles_exist (store w')"
    and "perm_cache w' = perm_cache w"
proof -
  obtain gs where g: "user_roles (store w') = user_roles (store w) @ gs" "ur_UserID ` set gs \<subseteq> {acc_UserID r}"
    "ur_RoleID ` set gs \<subseteq> role_ID ` set (roles (store w))"
    and s: "roles (store w') = roles (store w)" "role_permissions (store w') = role_permissions (store w)"
      "permissions (store w') = permissions (store w)" "perm_cache w' = perm_cache w"
    using Accept_user_roles[OF assms] by blast
  note rc = role_codes_cong[OF s(1-3)]
  show "set (user_codes (Some t) (store w) u) \<subseteq> set (user_codes (Some t) (store w') u)"
    unfolding subset_iff user_codes_mem rc g(1) by auto
  show "set (user_codes (Some t) (store w') u) = set (user_codes (Some t) (store w) u)" if "u \<noteq> acc_UserID r"
    using that g(2) unfolding set_eq_iff user_codes_mem rc g(1) by auto
  show "assigned_roles_exist (store w')" if "assigned_roles_exist (store w)"
    using that g(3) by (simp add: assigned_roles_exist_def g(1) s(1) image_Un)
qed (use Accept_user_roles[OF assms] in blast)

section \<open>The invariant of a history\<close>

text \<open>
  Every cached set is at most what the database grants, and exactly that for a user no
  invitation has granted anything.
\<close>

definition cache_within :: "uuid \<Rightarrow> uuid set \<Rightarrow> world \<Rightarrow> bool" where
  "cache_within t G w \<longleftrightarrow> (\<forall>u codes ex. perm_cache w (t, u) = Some (codes, ex) \<longrightarrow>
     set codes \<subseteq> set (user_codes (Some t) (store w) u)
     \<and> (u \<notin> G \<longrightarrow> set codes = set (user_codes (Some t) (store w) u)))"

lemma cache_within_refreshes: "cache_within t G w \<Longrightarrow> refreshes t w w' \<Longrightarrow> cache_within t G w'"
  unfolding cache_within_def refreshes_def by (metis order_refl)

lemma cache_within_kept: "cache_within t G w \<Longrightarrow> grants_kept t w w' \<Longrightarrow> cache_within t G w'"
  unfolding cache_within_def grants_kept_def by (metis option.distinct(1))

lemma cache_within_redeem:
  assumes c: "cache_within t G w"
    and m: "invitations_Accept ev (platform_invitations ttl) fr inp w = (Inr r, w')"
  shows "cache_within t (insert (acc_UserID r) G) w'"
  unfolding cache_within_def
proof (intro allI impI)
  fix u codes ex assume "perm_cache w' (t, u) = Some (codes, ex)"
  then have "perm_cache w (t, u) = Some (codes, ex)" using Accept_codes(4)[OF m] by simp
  then have k: "set codes \<subseteq> set (user_codes (Some t) (store w) u)"
    "u \<notin> G \<longrightarrow> set codes = set (user_codes (Some t) (store w) u)"
    using c unfolding cache_within_def by blast+
  show "set codes \<subseteq> set (user_codes (Some t) (store w') u)
      \<and> (u \<notin> insert (acc_UserID r) G \<longrightarrow> set codes = set (user_codes (Some t) (store w') u))"
    using k Accept_codes(1)[OF m, of t u] Accept_codes(2)[OF m, of u t] by auto
qed

lemma access_history_invariant:
  "access_history t w0 G w \<Longrightarrow> assigned_roles_exist (store w0) \<Longrightarrow> coherent t w0 \<Longrightarrow>
     cache_within t G w \<and> assigned_roles_exist (store w)"
proof (induction rule: access_history.induct)
  case start
  then show ?case by (simp add: coherent_def cache_within_def)
next
  case (served G w w')
  then show ?case by (blast intro: cache_within_refreshes served_step_refreshes served_step_assigned)
next
  case (redeem G w ev ttl fr inp r w')
  then show ?case
    by (cases r) (auto dest: invitations_Accept_Inl intro: cache_within_redeem Accept_codes(3))
next
  case (provision G w u ev slug r1 w')
  then have "grants_kept t w w'" by (blast intro: AssignSystemRole_kept)
  then show ?case using provision cache_within_kept by (blast intro: grants_kept_def[THEN iffD1, THEN conjunct2])
next
  case (elsewhere G w w')
  then show ?case using cache_within_kept by (blast intro: grants_kept_def[THEN iffD1, THEN conjunct2])
qed

section \<open>Properties\<close>

text \<open>C5: as long as cache invalidations reach Redis, a permission check grants only what the database
  grants at that moment, after any history of role operations, checks, provisioned accounts and
  redeemed invitations in any order. It also refuses nothing the database grants, except to a
  user who has been granted a role by an invitation and whose cached set is still live:
  redemption invalidates nothing, so that user may be refused until the entry expires.\<close>

theorem HasPermission_current:
  assumes "access_history t w0 G w" and "assigned_roles_exist (store w0)" and "coherent t w0"
    and "HasPermission ev (Some t) t u code w = (Inr b, w')"
  shows "(b \<longrightarrow> code \<in> set (user_codes (Some t) (store w) u))
    \<and> (u \<notin> G \<or> GetUserPermissions ev t u w = None \<longrightarrow> (b \<longleftrightarrow> code \<in> set (user_codes (Some t) (store w) u)))"
proof -
  obtain codes w1 where c: "UserPermissions ev (Some t) t u w = (Inr codes, w1)" and b: "b \<longleftrightarrow> code \<in> set codes"
    using assms(4) by (auto simp: HasPermission_def op_bind_eq)
  have "cache_within t G w" using access_history_invariant[OF assms(1-3)] by blast
  then have "set codes \<subseteq> set (user_codes (Some t) (store w) u)
    \<and> (u \<notin> G \<or> GetUserPermissions ev t u w = None \<longrightarrow> set codes = set (user_codes (Some t) (store w) u))"
    using UserPermissions_answer[OF c] unfolding cache_within_def by (metis option.distinct(1) order_refl)
  then show ?thesis using b by blast
qed

section \<open>Witnesses\<close>

text \<open>
  The Owner has invited Bob's address to the Owner role. Bob, still a Member, has his permissions
  checked and so cached, and then redeems the invitation.
\<close>

definition demo_offered :: world where
  "demo_offered = demo_billing_world\<lparr>store := (store demo_billing_world)\<lparr>invitations :=
     [new_invitation demo_env (platform_invitations 0) 100 1 10 ''bob@x'' 20 ''hseed'']\<rparr>\<rparr>"

definition demo_checked :: world where
  "demo_checked = snd (HasPermission demo_env (Some 1) 1 11 ''role:manage'' demo_offered)"

definition demo_promoted :: "(err + AcceptResult) \<times> world" where
  "demo_promoted = invitations_Accept demo_env (platform_invitations 0) demo_fresh demo_redemption demo_checked"


lemma demo_offered_ok: "assigned_roles_exist (store demo_offered)" "coherent 1 demo_offered"
proof -
  show "assigned_roles_exist (store demo_offered)" unfolding assigned_roles_exist_def by code_simp
  show "coherent 1 demo_offered" by (simp add: coherent_def demo_offered_def demo_billing_world_def demo_world_def)
qed

lemma demo_promoted_ok: "\<exists>r. invitations_Accept demo_env (platform_invitations 0) demo_fresh demo_redemption demo_checked
    = (Inr r, snd demo_promoted) \<and> acc_UserID r = 11"
proof -
  have "case fst demo_promoted of Inl e \<Rightarrow> False | Inr r \<Rightarrow> acc_UserID r = 11"
    unfolding demo_promoted_def demo_checked_def by code_simp
  then obtain r where "fst demo_promoted = Inr r" "acc_UserID r = 11" by (cases "fst demo_promoted") auto
  then show ?thesis unfolding demo_promoted_def[symmetric] by (metis prod.collapse)
qed

lemma demo_promotion_history: "access_history 1 demo_offered {11} (snd demo_promoted)"
proof -
  have "access_history 1 demo_offered {} demo_checked"
    unfolding demo_checked_def by (rule access_history.served[OF access_history.start served_step.permission]) (rule prod.collapse[symmetric])
  moreover obtain r where "invitations_Accept demo_env (platform_invitations 0) demo_fresh demo_redemption demo_checked
    = (Inr r, snd demo_promoted)" "acc_UserID r = 11" using demo_promoted_ok by blast
  ultimately show ?thesis using access_history.redeem by fastforce
qed

theorem HasPermission_current_witness:
  "fst (HasPermission demo_env (Some 1) 1 10 ''role:manage'' (snd demo_promoted)) = Inr True
   \<and> ''role:manage'' \<in> set (user_codes (Some 1) (store (snd demo_promoted)) 10)"
proof
  show a: "fst (HasPermission demo_env (Some 1) 1 10 ''role:manage'' (snd demo_promoted)) = Inr True"
    unfolding demo_promoted_def demo_checked_def by code_simp
  then obtain w' where "HasPermission demo_env (Some 1) 1 10 ''role:manage'' (snd demo_promoted) = (Inr True, w')"
    by (metis prod.collapse)
  from HasPermission_current[OF demo_promotion_history demo_offered_ok this]
  show "''role:manage'' \<in> set (user_codes (Some 1) (store (snd demo_promoted)) 10)" by simp
qed

text \<open>What the exception is: the promoted member is still refused what the database grants.\<close>

theorem redeemed_role_refused:
  "fst (HasPermission demo_env (Some 1) 1 11 ''role:manage'' (snd demo_promoted)) = Inr False
   \<and> ''role:manage'' \<in> set (user_codes (Some 1) (store (snd demo_promoted)) 11)"
  unfolding demo_promoted_def demo_checked_def by (rule conjI; code_simp)

end
