(* ===== verification/Spec2Isabelle.thy ===== *)
theory Spec2Isabelle
  imports Authz_Props Identity_Props Apikeys_Props Preferences_Props Files_Props Billing_Props Invitations_Props Workspace_Props Routes Admin
    Server Mailer Permission_Cache
begin

text \<open>
  A model of tenant-saas-backend, a multi-tenant SaaS backend in Go (gin, gorm on PostgreSQL
  with row level security, Redis). The program is a set of modules under internal/, each with
  an \<open>entity.go\<close> (data), a \<open>repository.go\<close> (statements), a \<open>service.go\<close> (rules) and a
  \<open>handler.go\<close> (HTTP), over the shared packages of pkg/. A definition has the name of the Go
  function; where two modules use the same name it is prefixed with the module
  (\<open>teams_Create\<close>, \<open>projects_Create\<close>), \<open>_repo_\<close> for a repository method and \<open>_h_\<close> for a
  handler; \<open>X_tx\<close> is the body of the transaction that \<open>X\<close> opens.

  \<^bold>\<open>State.\<close> \<open>Schema\<close> has one record per entity, the record \<open>db\<close> of all tables, the statements
  (\<open>select_rows\<close>, \<open>update_rows\<close>, \<open>list_page\<close>, ...) under row level security, and the constraints
  of migrations/ as SQLSTATE errors. \<open>Txscope\<close> has \<open>world\<close>: the database, the two Redis caches,
  the mail handed over, and the event broker. A \<open>tx\<close> is a computation inside a transaction: a
  failure returns no state, which is the rollback. An \<open>op\<close> is a call of the service level: a
  failure returns the state reached, because earlier transactions of the call have committed.
  Errors are values of \<open>err\<close> (\<open>Apperror\<close>: sentinels, wrap chains, \<open>apperror.Error\<close>, SQLSTATEs)
  and \<open>errors_is\<close> and \<open>As\<close> walk the chain as Go does.

  \<^bold>\<open>Theories and code.\<close>
  \<^item> \<open>Prelude\<close>, \<open>Gostrings\<close>: the result monads, lists, the functions of package strings that are
    used, 64-bit wrap-around (\<open>wrap64\<close>), decimal printing.
  \<^item> \<open>Apperror\<close>, \<open>Reqctx\<close>, \<open>Slug\<close>, \<open>Txscope\<close>: pkg/apperror and pkg/dberr; pkg/apiresponse and
    pkg/reqctx; pkg/slug; pkg/txscope.
  \<^item> \<open>Cache\<close>, \<open>Hub\<close>: internal/platform/cache; the broker of internal/realtime/hub.go.
  \<^item> \<open>Tenancy\<close>: internal/tenancy (resolution of the tenant of a request, the middleware, the
    tenant repository with the seeding trigger of migrations/000015).
  \<^item> \<open>Authz_Repo\<close>, \<open>Authz_Service\<close>, \<open>Authz_Http\<close>: internal/authz. \<open>Authz_Facts\<close> and \<open>Authz_Safety\<close>
    reduce every call to one \<open>rbac_change\<close>, \<open>Authz_History\<close> lifts it to histories and shows
    which cached permission sets an operation leaves current, \<open>Authz_Props\<close> holds the properties.
  \<^item> \<open>Identity_Repo\<close>, \<open>Identity_Service\<close>, \<open>Identity_OAuth\<close>, \<open>Identity_Http\<close>: internal/identity
    (accounts, passwords, sessions, OAuth). \<open>Identity_Tokens\<close> is the abstract specification of
    the refresh-token table, \<open>Identity_Sessions\<close> the refinement: every operation of the module
    changes the table by steps of it. \<open>Identity_Facts\<close>, \<open>Identity_Props\<close>: effects, properties.
  \<^item> \<open>Audit_Trail\<close>: internal/audit (log and activity feed) and its contract, the locale
    \<open>recorder\<close>; \<open>Apikeys\<close>, \<open>Apikeys_Props\<close>: internal/apikeys.
  \<^item> \<open>Billing\<close>, \<open>Billing_Facts\<close>, \<open>Billing_Props\<close>: internal/billing, with Go's calendar arithmetic.
  \<^item> \<open>Invitations\<close>, \<open>Invitations_Facts\<close>, \<open>Invitations_Props\<close>: internal/invitations. What it takes
    from billing, authz and the mailer are the locales \<open>seat_quota\<close>, \<open>role_authority\<close>,
    \<open>invitation_mail\<close>, interpreted on those modules. \<open>Permission_Cache\<close>: the cached permission
    check against everything in the program that grants a role (\<open>access_history\<close>); redemption is
    the one grant that invalidates nothing.
  \<^item> \<open>Realtime\<close>: delivery through the broker and the SSE stream (internal/realtime/sse.go);
    \<open>Notifications\<close>, \<open>Notifications_Props\<close>: internal/notifications and the locale \<open>notifier\<close>.
  \<^item> \<open>Roster\<close>, \<open>Teams\<close>, \<open>Projects\<close>: internal/teams and internal/projects; \<open>Workspace_Facts\<close> is the
    specification of what may happen to their tables (\<open>edit\<close>), \<open>Workspace_Steps\<close> the refinement,
    \<open>Workspace_Props\<close> the properties.
  \<^item> \<open>Preferences_Svc\<close>, \<open>Preferences_Props\<close>: internal/preferences.
  \<^item> \<open>Paths\<close>: path/filepath and mime.FormatMediaType; \<open>Files_Store\<close>: the object stores of
    internal/files/storage.go and their contract, the locale \<open>object_store\<close>, interpreted on
    \<open>LocalStore\<close>; \<open>Files_Svc\<close>, \<open>Files_Facts\<close>, \<open>Files_Props\<close>: the rest of internal/files. The state
    of a call there is the world with the state of the store.
  \<^item> \<open>Admin\<close>: internal/admin, the organization overview. \<open>Metrics\<close>: internal/platform/metrics, the
    counters, \<open>platform_stats()\<close> and the exposition of \<open>/metrics\<close>.
  \<^item> \<open>Middleware\<close>: internal/middleware. A handler maps an exchange and the server \<open>node\<close> (world,
    counters, log, limiter, clock) to an outcome; a middleware maps the rest of the chain to a
    handler, so the order in which \<open>Setup\<close> installs them is the nesting of \<open>engine_chain\<close>.
  \<^item> \<open>Routes\<close>: the registrations of internal/routes, the table \<open>route_table\<close> they bind, and the
    composition of the gates in front of a handler (\<open>run_gates\<close>, \<open>serve\<close>) from the middlewares
    of the modules. A route names its handler; the handlers are the \<open>_h_\<close> definitions.
  \<^item> \<open>Config\<close>: internal/config (the environment, \<open>Load\<close>, \<open>Validate\<close>), internal/db (the connection
    string, \<open>Connect\<close>, \<open>MigrateAtStartup\<close>), main up to the migrations and the object store that
    \<open>Setup\<close> selects. \<open>Server\<close>: the rest of main, internal/platform/keepalive and health.go,
    cmd/migrate; a process is the two goroutines, moved by events in any order (\<open>server_step\<close>).
  \<^item> \<open>Mailer\<close>: internal/mailer, from the link to the provider's answer, with the readers of a link
    (\<open>html_text\<close>, \<open>query_get\<close>) that its round trip is stated against.
  \<^item> \<open>Sample_Env\<close>, \<open>Sample\<close>, \<open>Sample_Identity\<close>: a concrete tenant on which the witnesses evaluate
    the definitions.

  \<^bold>\<open>Parameters.\<close> \<open>env\<close> bundles what a call takes from outside the repository: the clock (one
  instant per operation), driver failures (\<open>sql_fault\<close>, by the label of the statement), Redis
  failures, CITEXT folding, text collation, bcrypt, SHA-256, HMAC, base64, JWT, JSON state, UUID
  parsing and printing, ILIKE. \<open>fresh\<close> supplies new ids and random bytes; where a property needs
  them unused it says so. The result of gin's JSON binding is an argument of the handler
  (\<open>Inl\<close> the error, \<open>Inr\<close> the request). HTTP requests to GitHub are an argument too.

  \<^bold>\<open>Choices.\<close> Strings are byte strings. Times are nanoseconds. A column keeps microseconds:
  that is modelled where an operation returns a time it has also stored for a later read to
  compare (\<open>timestamptz\<close>, the preferences); other rows keep the instant as given. Calendar arithmetic
  is UTC. Integers that can overflow are wrapped at 64 bits.
  Histories interleave whole operations: a step relation has one step per call and, for
  operations of several transactions, the state between them is part of the operation. Row locks
  therefore do not appear. \<open>VARCHAR\<close> lengths are not checked. Sorting is stable, where
  SQL leaves ties open. Redis pub/sub delivers in order and at most once, and may lose messages.
  No fuel is used: loops are recursive over their input and terminate.

  \<^bold>\<open>Not modelled.\<close> Swagger and the static web assets only serve documents. gin's matching of a
  path to a route is not represented (a property speaks of any route of the table), nor are
  request bodies, directories on disk and the MinIO client behind \<open>S3Store\<close> (a parameter). The
  token bucket behind the rate limiter, the formatting of floating point numbers and of dates,
  golang-migrate and the mail provider are parameters. The timeouts of the HTTP server and the
  drain of its requests are not represented. The mail that identity and invitations hand over is
  the outbox of \<open>world\<close>; \<open>Mailer\<close> models what becomes of one such message.
\<close>

end
